(* ===== verification/PyBase.thy ===== *)
theory PyBase
  imports Main
begin

text \<open>
  What every component shares: the Python values that travel in requests and responses
  (\<open>json\<close>), the exceptions as values, actions that may raise (\<open>('s, 'a) act\<close>), the requests
  sent to the Google Cloud services, and the predicate \<open>emits\<close> that bounds the requests an
  action can send. The collections \<open>act_simps\<close> and \<open>emits_intros\<close> carry the proofs of the
  other theories.
\<close>

named_theorems act_simps "equations that run actions"
named_theorems emits_intros "rules that bound the requests an action sends"

section \<open>Python values\<close>

text \<open>
  A request body, a response or any other value decoded from JSON. A dict keeps the insertion
  order of its keys, so it is an association list.
\<close>

datatype json =
    JNull
  | JBool bool
  | JInt int
  | JStr string
  | JList "json list"
  | JObj "(string \<times> json) list"

text \<open>Truth value of an object (\<open>if x:\<close>).\<close>

fun py_truth :: "json \<Rightarrow> bool" where
  "py_truth JNull = False"
| "py_truth (JBool b) = b"
| "py_truth (JInt i) = (i \<noteq> 0)"
| "py_truth (JStr s) = (s \<noteq> [])"
| "py_truth (JList xs) = (xs \<noteq> [])"
| "py_truth (JObj kvs) = (kvs \<noteq> [])"

text \<open>Truth value of an \<open>Optional[str]\<close>: false for \<open>None\<close> and for the empty string.\<close>

definition set_str :: "string option \<Rightarrow> bool" where
  "set_str s = (case s of None \<Rightarrow> False | Some t \<Rightarrow> t \<noteq> [])"

definition opt_str :: "string option \<Rightarrow> json" where
  "opt_str s = (case s of None \<Rightarrow> JNull | Some t \<Rightarrow> JStr t)"

lemma set_str_simps [simp]:
  "set_str None = False" "set_str (Some t) = (t \<noteq> [])"
  by (simp_all add: set_str_def)

section \<open>Exceptions\<close>

text \<open>
  What \<open>RetryError\<close> of framework/helpers/retryers.py keeps besides the last attempt: the name of
  the retried callback (\<open>None\<close> when used as a context manager), the limits, whether a result
  check was configured, and the note. The timeout is in seconds.
\<close>

datatype retry_info = RetryInfo
  (ri_fn_name: "string option")
  (ri_timeout: "int option")
  (ri_attempts: int)
  (ri_check_result: bool)
  (ri_note: string)

text \<open>
  \<open>HttpError\<close> carries the response status and the reason; \<open>ClientError\<close> is any other error of
  googleapiclient; the three transport errors are those of \<open>_TRANSPORT_ERRORS\<close>;
  \<open>ResponseError\<close>, \<open>TransportError\<close>, \<open>OperationError\<close> and \<open>EtagConflict\<close> are the framework's own;
  \<open>RetryError\<close> is the framework's retry error and \<open>TenacityRetryError\<close> the library's. \<open>RpcError\<close>
  is a failed RPC (with the status code when the error carries one); \<open>AppNotFound\<close> is
  \<open>GrpcApp.NotFound\<close>, and \<open>ChannelNotFound\<close> and \<open>ChannelNotActive\<close> are its subclasses.
  \<open>AssertionError\<close> is a failed check of a test case. \<open>ApiException\<close> (status and body),
  \<open>DynamicNotFoundError\<close> (its subclass for a 404 of a dynamic API), \<open>ResourceNotFoundError\<close> and
  \<open>FailToCreateError\<close> are those of the Kubernetes client; the four after them are urllib3's, of
  which \<open>Urllib3Error\<close> is any other \<open>HTTPError\<close>; \<open>NotFound\<close>, \<open>RunnerError\<close> and
  \<open>PortForwardingError\<close> are the framework's. \<open>Diverges\<close>
  is no exception of the program: it is the outcome of a loop that did not end within the steps
  it was given, and no handler and no retry condition of the program matches it.
\<close>

datatype exn =
    HttpError int string
  | ClientError string
  | HttpLib2Error string
  | ConnectionError string
  | SSLError string
  | ResponseError exn
  | TransportError exn
  | OperationError string json
  | EtagConflict
  | RetryError "exn + json" retry_info
  | TenacityRetryError "exn + json"
  | ValueError string
  | TypeError string
  | KeyError string
  | AttributeError string
  | RuntimeError string
  | NotImplementedError string
  | OtherError string
  | RpcError "int option" string
  | AppNotFound string
  | ChannelNotFound string string string string
  | ChannelNotActive string string string
  | AssertionError string
  | TdPropagationRetryableError string
  | ApiException int "string option"
  | DynamicNotFoundError "string option"
  | ResourceNotFoundError string
  | FailToCreateError "exn list"
  | MaxRetryError "exn option"
  | NewConnectionError string
  | ProtocolError string
  | Urllib3Error string
  | NotFound string
  | RunnerError string
  | PortForwardingError string
  | StopIteration
  | IndexError string
  | FileNotFoundError string
  | Diverges

text \<open>The classes that the source names in \<open>except\<close> clauses, retry conditions and \<open>isinstance\<close>.\<close>

datatype exn_class =
    CException
  | CHttpError
  | CGoogleApiError
  | CHttpLib2Error
  | CConnectionError
  | CSSLError
  | CGcpError
  | CResponseError
  | CTransportError
  | COperationError
  | CEtagConflict
  | CRetryError
  | CRpcError
  | CAppNotFound
  | CChannelNotFound
  | CAssertionError
  | CTdPropagationRetryableError
  | CUrllib3HTTPError
  | CApiException
  | CFailToCreateError
  | CNotFound
  | CDynamicNotFoundError
  | CResourceNotFoundError
  | CKeyError
  | CValueError

fun instance_of :: "exn \<Rightarrow> exn_class \<Rightarrow> bool" where
  "instance_of e CException = (e \<noteq> Diverges)"
| "instance_of e CHttpError = (case e of HttpError _ _ \<Rightarrow> True | _ \<Rightarrow> False)"
| "instance_of e CGoogleApiError =
     (case e of HttpError _ _ \<Rightarrow> True | ClientError _ \<Rightarrow> True | _ \<Rightarrow> False)"
| "instance_of e CHttpLib2Error = (case e of HttpLib2Error _ \<Rightarrow> True | _ \<Rightarrow> False)"
| "instance_of e CConnectionError = (case e of ConnectionError _ \<Rightarrow> True | _ \<Rightarrow> False)"
| "instance_of e CSSLError = (case e of SSLError _ \<Rightarrow> True | _ \<Rightarrow> False)"
| "instance_of e CGcpError =
     (case e of ResponseError _ \<Rightarrow> True | TransportError _ \<Rightarrow> True
      | OperationError _ _ \<Rightarrow> True | EtagConflict \<Rightarrow> True | _ \<Rightarrow> False)"
| "instance_of e CResponseError = (case e of ResponseError _ \<Rightarrow> True | _ \<Rightarrow> False)"
| "instance_of e CTransportError = (case e of TransportError _ \<Rightarrow> True | _ \<Rightarrow> False)"
| "instance_of e COperationError = (case e of OperationError _ _ \<Rightarrow> True | _ \<Rightarrow> False)"
| "instance_of e CEtagConflict = (case e of EtagConflict \<Rightarrow> True | _ \<Rightarrow> False)"
| "instance_of e CRetryError = (case e of RetryError _ _ \<Rightarrow> True | _ \<Rightarrow> False)"
| "instance_of e CRpcError = (case e of RpcError _ _ \<Rightarrow> True | _ \<Rightarrow> False)"
| "instance_of e CAppNotFound =
     (case e of AppNotFound _ \<Rightarrow> True | ChannelNotFound _ _ _ _ \<Rightarrow> True
      | ChannelNotActive _ _ _ \<Rightarrow> True | _ \<Rightarrow> False)"
| "instance_of e CChannelNotFound = (case e of ChannelNotFound _ _ _ _ \<Rightarrow> True | _ \<Rightarrow> False)"
| "instance_of e CAssertionError = (case e of AssertionError _ \<Rightarrow> True | _ \<Rightarrow> False)"
| "instance_of e CTdPropagationRetryableError =
     (case e of TdPropagationRetryableError _ \<Rightarrow> True | _ \<Rightarrow> False)"
| "instance_of e CUrllib3HTTPError =
     (case e of MaxRetryError _ \<Rightarrow> True | NewConnectionError _ \<Rightarrow> True | ProtocolError _ \<Rightarrow> True
      | Urllib3Error _ \<Rightarrow> True | _ \<Rightarrow> False)"
| "instance_of e CApiException =
     (case e of ApiException _ _ \<Rightarrow> True | DynamicNotFoundError _ \<Rightarrow> True | _ \<Rightarrow> False)"
| "instance_of e CFailToCreateError = (case e of FailToCreateError _ \<Rightarrow> True | _ \<Rightarrow> False)"
| "instance_of e CNotFound = (case e of NotFound _ \<Rightarrow> True | _ \<Rightarrow> False)"
| "instance_of e CDynamicNotFoundError = (case e of DynamicNotFoundError _ \<Rightarrow> True | _ \<Rightarrow> False)"
| "instance_of e CResourceNotFoundError = (case e of ResourceNotFoundError _ \<Rightarrow> True | _ \<Rightarrow> False)"
| "instance_of e CKeyError = (case e of KeyError _ \<Rightarrow> True | _ \<Rightarrow> False)"
| "instance_of e CValueError = (case e of ValueError _ \<Rightarrow> True | _ \<Rightarrow> False)"

text \<open>\<open>isinstance(e, (C1, C2, ...))\<close>: an empty tuple matches nothing.\<close>

definition isinstance :: "exn \<Rightarrow> exn_class list \<Rightarrow> bool" where
  "isinstance e cs = list_ex (instance_of e) cs"

lemma isinstance_simps [simp]:
  "isinstance e [] = False"
  "isinstance e (c # cs) = (instance_of e c \<or> isinstance e cs)"
  by (simp_all add: isinstance_def)

section \<open>Fallible access\<close>

definition ebind :: "exn + 'a \<Rightarrow> ('a \<Rightarrow> exn + 'b) \<Rightarrow> exn + 'b" where
  "ebind r f = (case r of Inl e \<Rightarrow> Inl e | Inr x \<Rightarrow> f x)"

lemma ebind_simps [simp, act_simps]:
  "ebind (Inl e) f = Inl e" "ebind (Inr x) f = f x"
  by (simp_all add: ebind_def)

lemma ebind_Inr_iff:
  "ebind r f = Inr y \<longleftrightarrow> (\<exists>x. r = Inr x \<and> f x = Inr y)"
  by (cases r) auto

fun emap :: "('a \<Rightarrow> exn + 'b) \<Rightarrow> 'a list \<Rightarrow> exn + 'b list" where
  "emap f [] = Inr []"
| "emap f (x # xs) = ebind (f x) (\<lambda>y. ebind (emap f xs) (\<lambda>ys. Inr (y # ys)))"

lemma emap_Inr_iff:
  "emap f xs = Inr ys \<longleftrightarrow> list_all2 (\<lambda>x y. f x = Inr y) xs ys"
  by (induction xs arbitrary: ys) (auto simp: ebind_Inr_iff list_all2_Cons1)

lemma list_all2_member:
  "list_all2 R xs ys \<Longrightarrow> x \<in> set xs \<Longrightarrow> \<exists>y \<in> set ys. R x y"
  by (induction xs ys rule: list_all2_induct) auto

text \<open>\<open>d[k]\<close>, \<open>k in d\<close> and \<open>d.get(k, default)\<close>.\<close>

fun getitem :: "json \<Rightarrow> string \<Rightarrow> exn + json" where
  "getitem (JObj kvs) k =
     (case map_of kvs k of None \<Rightarrow> Inl (KeyError k) | Some v \<Rightarrow> Inr v)"
| "getitem d k = Inl (TypeError ''not subscriptable by a string'')"

fun contains :: "string \<Rightarrow> json \<Rightarrow> exn + bool" where
  "contains k (JObj kvs) = Inr (map_of kvs k \<noteq> None)"
| "contains k (JList xs) = Inr (JStr k \<in> set xs)"
| "contains k (JStr s) = Inr (\<exists>i \<in> set [0..<Suc (length s)]. take (length k) (drop i s) = k)"
| "contains k d = Inl (TypeError ''argument is not iterable'')"

fun get_default :: "json \<Rightarrow> string \<Rightarrow> json \<Rightarrow> exn + json" where
  "get_default (JObj kvs) k d = Inr (case map_of kvs k of None \<Rightarrow> d | Some v \<Rightarrow> v)"
| "get_default j k d = Inl (AttributeError ''get'')"

text \<open>The elements that a \<open>for\<close> over a decoded value visits (the keys, for a dict).\<close>

fun py_iter :: "json \<Rightarrow> exn + json list" where
  "py_iter (JList xs) = Inr xs"
| "py_iter (JObj kvs) = Inr (map (JStr \<circ> fst) kvs)"
| "py_iter (JStr s) = Inr (map (\<lambda>c. JStr [c]) s)"
| "py_iter j = Inl (TypeError ''object is not iterable'')"

section \<open>Text\<close>

definition digit :: "nat \<Rightarrow> char" where
  "digit n = ''0123456789'' ! (n mod 10)"

fun str_nat :: "nat \<Rightarrow> string" where
  "str_nat n = (if n < 10 then [digit n] else str_nat (n div 10) @ [digit n])"

declare str_nat.simps [simp del]

definition str_int :: "int \<Rightarrow> string" where
  "str_int i = (if i < 0 then ''-'' @ str_nat (nat (- i)) else str_nat (nat i))"

text \<open>\<open>s.upper()\<close> and \<open>s.lower()\<close> of an ASCII text, and \<open>k in s\<close>.\<close>

definition upper_char :: "char \<Rightarrow> char" where
  "upper_char c = (if 97 \<le> (of_char c :: nat) \<and> (of_char c :: nat) \<le> 122
     then char_of (of_char c - (32 :: nat)) else c)"

definition lower_char :: "char \<Rightarrow> char" where
  "lower_char c = (if 65 \<le> (of_char c :: nat) \<and> (of_char c :: nat) \<le> 90
     then char_of (of_char c + (32 :: nat)) else c)"

definition upper :: "string \<Rightarrow> string" where
  "upper s = map upper_char s"

definition lower :: "string \<Rightarrow> string" where
  "lower s = map lower_char s"

definition in_text :: "string \<Rightarrow> string \<Rightarrow> bool" where
  "in_text k s = list_ex (\<lambda>i. take (length k) (drop i s) = k) [0..<Suc (length s)]"

text \<open>\<open>sep.join(parts)\<close>.\<close>

fun str_join :: "string \<Rightarrow> string list \<Rightarrow> string" where
  "str_join sep [] = []"
| "str_join sep [s] = s"
| "str_join sep (s # t # ts) = s @ sep @ str_join sep (t # ts)"

lemma str_nat_nonempty: "str_nat n \<noteq> []"
  by (subst str_nat.simps) simp

section \<open>Actions\<close>

text \<open>
  A method body: from the state before, either an exception or a value, and the state after.
  What a raising call changed before it raised stays changed.
\<close>

type_synonym ('s, 'a) act = "'s \<Rightarrow> (exn + 'a) \<times> 's"

definition return :: "'a \<Rightarrow> ('s, 'a) act" where
  "return x = (\<lambda>s. (Inr x, s))"

definition raise :: "exn \<Rightarrow> ('s, 'a) act" where
  "raise e = (\<lambda>s. (Inl e, s))"

definition bind :: "('s, 'a) act \<Rightarrow> ('a \<Rightarrow> ('s, 'b) act) \<Rightarrow> ('s, 'b) act" where
  "bind m f = (\<lambda>s. case m s of (Inl e, s') \<Rightarrow> (Inl e, s') | (Inr x, s') \<Rightarrow> f x s')"

definition andthen :: "('s, 'a) act \<Rightarrow> ('s, 'b) act \<Rightarrow> ('s, 'b) act" where
  "andthen m k = bind m (\<lambda>_. k)"

text \<open>Statements one after the other.\<close>

fun stmts :: "('s, unit) act list \<Rightarrow> ('s, unit) act" where
  "stmts [] = return ()"
| "stmts (m # ms) = andthen m (stmts ms)"

text \<open>\<open>try: m except C as e: h(e)\<close>, with the \<open>except\<close> clause as a test on the exception.\<close>

definition try_except ::
  "('s, 'a) act \<Rightarrow> (exn \<Rightarrow> bool) \<Rightarrow> (exn \<Rightarrow> ('s, 'a) act) \<Rightarrow> ('s, 'a) act" where
  "try_except m c h = (\<lambda>s. case m s of
      (Inl e, s') \<Rightarrow> (if c e then h e s' else (Inl e, s'))
    | (Inr x, s') \<Rightarrow> (Inr x, s'))"

text \<open>\<open>try: m finally: f\<close>: an exception of \<open>f\<close> replaces the outcome of \<open>m\<close>.\<close>

definition try_finally :: "('s, 'a) act \<Rightarrow> ('s, unit) act \<Rightarrow> ('s, 'a) act" where
  "try_finally m f = (\<lambda>s. case m s of (r, s') \<Rightarrow>
     (case f s' of (Inl e, s'') \<Rightarrow> (Inl e, s'') | (Inr _, s'') \<Rightarrow> (r, s'')))"

text \<open>A pure computation that may raise, the attribute of an \<open>Optional\<close> field, the state.\<close>

definition lift :: "exn + 'a \<Rightarrow> ('s, 'a) act" where
  "lift r = (\<lambda>s. (r, s))"

definition attr_of :: "string \<Rightarrow> 'a option \<Rightarrow> ('s, 'a) act" where
  "attr_of a x = (case x of None \<Rightarrow> raise (AttributeError a) | Some v \<Rightarrow> return v)"

definition get_state :: "('s, 's) act" where
  "get_state = (\<lambda>s. (Inr s, s))"

definition modify :: "('s \<Rightarrow> 's) \<Rightarrow> ('s, unit) act" where
  "modify f = (\<lambda>s. (Inr (), f s))"

lemma act_apply [act_simps]:
  "return x s = (Inr x, s)"
  "raise e s = (Inl e, s)"
  "lift r s = (r, s)"
  "get_state s = (Inr s, s)"
  "modify f s = (Inr (), f s)"
  "attr_of a None s = (Inl (AttributeError a), s)"
  "attr_of a (Some v) s = (Inr v, s)"
  by (simp_all add: return_def raise_def lift_def get_state_def modify_def attr_of_def)

lemma bind_apply:
  "bind m f s = (case m s of (Inl e, s') \<Rightarrow> (Inl e, s') | (Inr x, s') \<Rightarrow> f x s')"
  by (simp add: bind_def)

lemma bind_Inr [act_simps]: "m s = (Inr x, s') \<Longrightarrow> bind m f s = f x s'"
  by (simp add: bind_def)

lemma bind_Inl [act_simps]: "m s = (Inl e, s') \<Longrightarrow> bind m f s = (Inl e, s')"
  by (simp add: bind_def)

lemma bind_laws [simp]:
  "bind (return x) f = f x"
  "bind (raise e) f = raise e"
  "bind m return = m"
  "bind (bind m f) g = bind m (\<lambda>x. bind (f x) g)"
  by (auto simp: bind_def return_def raise_def split: prod.splits sum.splits)

lemma bind_lift [simp]:
  "bind (lift (Inr x)) f = f x"
  "bind (lift (Inl e)) f = raise e"
  by (simp_all add: bind_def lift_def raise_def)

text \<open>
  Methods of an object with fields: the state is the object and the world; \<open>call\<close> runs an action
  of a service client, which sees the world only; \<open>using_self\<close> reads the fields as they are at
  that point of the body.
\<close>

definition field :: "('o \<Rightarrow> 'a) \<Rightarrow> ('o \<times> 'w, 'a) act" where
  "field f = (\<lambda>s. (Inr (f (fst s)), s))"

definition assign :: "('o \<Rightarrow> 'o) \<Rightarrow> ('o \<times> 'w, unit) act" where
  "assign u = (\<lambda>s. (Inr (), (u (fst s), snd s)))"

definition call :: "('w, 'a) act \<Rightarrow> ('o \<times> 'w, 'a) act" where
  "call m = (\<lambda>s. case m (snd s) of (r, w') \<Rightarrow> (r, (fst s, w')))"

definition using_self :: "('o \<Rightarrow> ('o \<times> 'w, 'a) act) \<Rightarrow> ('o \<times> 'w, 'a) act" where
  "using_self f = (\<lambda>s. f (fst s) s)"

lemma object_apply [act_simps]:
  "field f (obj, w) = (Inr (f obj), (obj, w))"
  "assign u (obj, w) = (Inr (), (u obj, w))"
  "using_self g (obj, w) = g obj (obj, w)"
  by (simp_all add: field_def assign_def using_self_def)

lemma call_apply [act_simps]: "m w = (r, w') \<Longrightarrow> call m (obj, w) = (r, (obj, w'))"
  by (simp add: call_def)

lemma andthen_Inr [act_simps]: "m s = (Inr x, s') \<Longrightarrow> andthen m k s = k s'"
  by (simp add: andthen_def bind_def)

lemma andthen_Inl [act_simps]: "m s = (Inl e, s') \<Longrightarrow> andthen m k s = (Inl e, s')"
  by (simp add: andthen_def bind_def)

lemma try_except_Inr [act_simps]: "m s = (Inr x, s') \<Longrightarrow> try_except m c h s = (Inr x, s')"
  by (simp add: try_except_def)

lemma try_except_Inl [act_simps]:
  "m s = (Inl e, s') \<Longrightarrow> try_except m c h s = (if c e then h e s' else (Inl e, s'))"
  by (simp add: try_except_def)

lemma bind_cases:
  assumes "bind m f s = (r, t)" and "m s = (r1, s1)"
  obtains (Inl) e where "r1 = Inl e" "r = Inl e" "t = s1" | (Inr) x where "r1 = Inr x" "f x s1 = (r, t)"
  using assms by (cases r1) (simp_all add: bind_def)

lemma bind_eq_Inr:
  "bind m f s = (Inr y, s'') \<longleftrightarrow> (\<exists>x s'. m s = (Inr x, s') \<and> f x s' = (Inr y, s''))"
  by (cases "m s"; cases "fst (m s)") (auto simp: bind_def split: sum.splits)

lemma andthen_eq_Inr:
  "andthen m k s = (Inr y, s'') \<longleftrightarrow> (\<exists>x s'. m s = (Inr x, s') \<and> k s' = (Inr y, s''))"
  by (simp add: andthen_def bind_eq_Inr)

lemma stmts_append: "stmts (ms @ ns) = andthen (stmts ms) (stmts ns)"
  by (induction ms) (simp_all add: andthen_def)

text \<open>
  \<open>for x in the_set: body\<close>: the iterator visits the elements in the order the set had when the
  loop began, and before each step (the one that finds the end included) it checks that the size
  is still the initial one \<open>n\<close>; when the body has changed it, the step raises.
\<close>

fun for_set :: "('s \<Rightarrow> 'a set) \<Rightarrow> nat \<Rightarrow> ('a \<Rightarrow> ('s, unit) act) \<Rightarrow> 'a list \<Rightarrow> ('s, unit) act" where
  "for_set cur n body [] s =
     (if card (cur s) \<noteq> n then (Inl (RuntimeError ''Set changed size during iteration''), s)
      else (Inr (), s))"
| "for_set cur n body (x # xs) s =
     (if card (cur s) \<noteq> n then (Inl (RuntimeError ''Set changed size during iteration''), s)
      else bind (body x) (\<lambda>_. for_set cur n body xs) s)"

section \<open>Requests\<close>

text \<open>
  One call of a service method, as it is sent: the service, the collection, the method, the
  keyword arguments and the extra headers. A world is the list of the requests sent so far, the
  latest last; what a service answers may depend on all of it.
\<close>

datatype request = Request
  (rq_service: string)
  (rq_collection: string)
  (rq_method: string)
  (rq_args: "(string \<times> json) list")
  (rq_headers: "(string \<times> json) list")

type_synonym world = "request list"

definition rq_arg :: "request \<Rightarrow> string \<Rightarrow> json option" where
  "rq_arg r k = map_of (rq_args r) k"

text \<open>The methods of the services that change a resource; all others only read.\<close>

definition mutates :: "request \<Rightarrow> bool" where
  "mutates r \<longleftrightarrow> rq_method r \<in> {''insert'', ''create'', ''patch'', ''delete'',
     ''setIamPolicy'', ''addAttestationRule'', ''removeAttestationRule''}"

section \<open>Bounding what an action sends\<close>

text \<open>
  \<open>emits pr P m\<close>: whatever the services answer and however \<open>m\<close> ends, it only adds requests
  satisfying \<open>P\<close> to the history, which \<open>pr\<close> reads from the state.
\<close>

definition emits :: "('s \<Rightarrow> world) \<Rightarrow> (request \<Rightarrow> bool) \<Rightarrow> ('s, 'a) act \<Rightarrow> bool" where
  "emits pr P m \<longleftrightarrow> (\<forall>s. \<exists>rs. pr (snd (m s)) = pr s @ rs \<and> (\<forall>r \<in> set rs. P r))"

lemma emitsI:
  "(\<And>s. \<exists>rs. pr (snd (m s)) = pr s @ rs \<and> (\<forall>r \<in> set rs. P r)) \<Longrightarrow> emits pr P m"
  by (simp add: emits_def)

lemma emitsD:
  assumes "emits pr P m" and "m s = (r, s')"
  obtains rs where "pr s' = pr s @ rs" and "\<forall>r \<in> set rs. P r"
  using assms by (metis emits_def snd_conv)

lemma emits_mono: "emits pr P m \<Longrightarrow> (\<And>r. P r \<Longrightarrow> Q r) \<Longrightarrow> emits pr Q m"
  unfolding emits_def by meson

lemma emits_pure [emits_intros]:
  "emits pr P (return x)" "emits pr P (raise e)" "emits pr P (lift r)"
  "emits pr P get_state" "emits pr P (attr_of a v)"
  by (auto simp: emits_def return_def raise_def lift_def get_state_def attr_of_def split: option.split)

lemma emits_modify [emits_intros]: "(\<And>s. pr (f s) = pr s) \<Longrightarrow> emits pr P (modify f)"
  by (simp add: emits_def modify_def)

lemma emits_bind [emits_intros]:
  assumes "emits pr P m" and "\<And>x. emits pr P (f x)"
  shows "emits pr P (bind m f)"
proof (rule emitsI)
  fix s
  obtain r s' where ms: "m s = (r, s')" by fastforce
  from assms(1) ms obtain rs where rs: "pr s' = pr s @ rs" "\<forall>r \<in> set rs. P r"
    by (rule emitsD)
  show "\<exists>rs. pr (snd (bind m f s)) = pr s @ rs \<and> (\<forall>r \<in> set rs. P r)"
  proof (cases r)
    case (Inl e)
    with ms rs show ?thesis by (auto simp: bind_def)
  next
    case (Inr x)
    obtain r2 s2 where fs: "f x s' = (r2, s2)" by fastforce
    from assms(2) fs obtain rs2 where "pr s2 = pr s' @ rs2" "\<forall>r \<in> set rs2. P r"
      by (rule emitsD)
    with ms rs Inr fs show ?thesis by (auto simp: bind_def)
  qed
qed

lemma emits_andthen [emits_intros]:
  "emits pr P m \<Longrightarrow> emits pr P k \<Longrightarrow> emits pr P (andthen m k)"
  by (simp add: andthen_def emits_bind)

lemma emits_stmts [emits_intros]:
  "(\<And>m. m \<in> set ms \<Longrightarrow> emits pr P m) \<Longrightarrow> emits pr P (stmts ms)"
  by (induction ms) (simp_all add: emits_pure emits_andthen)

lemma emits_try [emits_intros]:
  assumes "emits pr P m" and "\<And>e. emits pr P (h e)"
  shows "emits pr P (try_except m c h)"
proof (rule emitsI)
  fix s
  obtain r s' where ms: "m s = (r, s')" by fastforce
  from assms(1) ms obtain rs where rs: "pr s' = pr s @ rs" "\<forall>r \<in> set rs. P r"
    by (rule emitsD)
  show "\<exists>rs. pr (snd (try_except m c h s)) = pr s @ rs \<and> (\<forall>r \<in> set rs. P r)"
  proof (cases "\<exists>e. r = Inl e \<and> c e")
    case True
    then obtain e where e: "r = Inl e" "c e" by blast
    obtain r2 s2 where hs: "h e s' = (r2, s2)" by fastforce
    from assms(2) hs obtain rs2 where "pr s2 = pr s' @ rs2" "\<forall>r \<in> set rs2. P r"
      by (rule emitsD)
    with ms rs e hs show ?thesis by (auto simp: try_except_def)
  next
    case False
    with ms rs show ?thesis by (cases r) (auto simp: try_except_def)
  qed
qed

lemma emits_finally [emits_intros]:
  assumes "emits pr P m" and "emits pr P f"
  shows "emits pr P (try_finally m f)"
proof (rule emitsI)
  fix s
  obtain r s' where ms: "m s = (r, s')" by fastforce
  obtain r2 s2 where fs: "f s' = (r2, s2)" by fastforce
  from assms(1) ms obtain rs where "pr s' = pr s @ rs" "\<forall>r \<in> set rs. P r" by (rule emitsD)
  moreover from assms(2) fs obtain rs2 where "pr s2 = pr s' @ rs2" "\<forall>r \<in> set rs2. P r" by (rule emitsD)
  moreover have "snd (try_finally m f s) = s2" using ms fs by (cases r2) (simp_all add: try_finally_def)
  ultimately show "\<exists>rs. pr (snd (try_finally m f s)) = pr s @ rs \<and> (\<forall>r \<in> set rs. P r)" by auto
qed

lemma emits_if [emits_intros]:
  "(b \<Longrightarrow> emits pr P m) \<Longrightarrow> (\<not> b \<Longrightarrow> emits pr P k) \<Longrightarrow> emits pr P (if b then m else k)"
  by simp

lemma emits_case_option [emits_intros]:
  "(v = None \<Longrightarrow> emits pr P m) \<Longrightarrow> (\<And>x. v = Some x \<Longrightarrow> emits pr P (f x))
    \<Longrightarrow> emits pr P (case v of None \<Rightarrow> m | Some x \<Rightarrow> f x)"
  by (simp split: option.split)

lemma emits_object [emits_intros]:
  "emits snd P (field f)" "emits snd P (assign u)"
  by (simp_all add: emits_def field_def assign_def)

lemma emits_using_self [emits_intros]: "(\<And>obj. emits snd P (f obj)) \<Longrightarrow> emits snd P (using_self f)"
  unfolding emits_def using_self_def by blast

lemma emits_call [emits_intros]: "emits (\<lambda>w. w) P m \<Longrightarrow> emits snd P (call m)"
  by (simp add: emits_def call_def split: prod.split) (metis prod.collapse snd_conv)

lemma emits_for_set [emits_intros]:
  assumes "\<And>x. emits pr P (body x)"
  shows "emits pr P (for_set cur n body xs)"
proof (induction xs)
  case Nil
  show ?case by (auto simp: emits_def)
next
  case (Cons x xs)
  have "emits pr P (bind (body x) (\<lambda>_. for_set cur n body xs))"
    by (intro emits_bind assms Cons.IH)
  then show ?case by (simp add: emits_def)
qed

section \<open>The changes in a history\<close>

text \<open>
  What a mutating request changes: the collection, the method and the resource. The resource is
  the name in the body of an insert, the id of a create (its last argument), the argument after
  project, body and request id of a patch, and the name a delete gives.
\<close>

definition changed_name :: "request \<Rightarrow> json" where
  "changed_name q =
     (if rq_method q = ''insert''
      then (case rq_arg q ''body'' of
              Some b \<Rightarrow> (case getitem b ''name'' of Inr n \<Rightarrow> n | Inl _ \<Rightarrow> JNull)
            | None \<Rightarrow> JNull)
      else if rq_method q = ''patch''
      then (case rq_args q of _ # _ # _ # kv # _ \<Rightarrow> snd kv | _ \<Rightarrow> JNull)
      else if rq_method q = ''create''
      then (case rq_args q of _ # _ # kv # _ \<Rightarrow> snd kv | _ \<Rightarrow> JNull)
      else (case rq_args q of _ # kv # _ \<Rightarrow> snd kv | [kv] \<Rightarrow> snd kv | _ \<Rightarrow> JNull))"

type_synonym change = "string \<times> string \<times> json"

definition change_of :: "request \<Rightarrow> change" where
  "change_of q = (rq_collection q, rq_method q, changed_name q)"

definition changes :: "world \<Rightarrow> change list" where
  "changes w = map change_of (filter mutates w)"

lemma changes_append [simp]: "changes (w @ w') = changes w @ changes w'"
  by (simp add: changes_def)

lemma changes_Nil [simp]: "changes [] = []"
  by (simp add: changes_def)

lemma changes_Cons: "changes (q # w) = changes [q] @ changes w"
  using changes_append [of "[q]" w] by simp

lemma changes_one: "changes [q] = (if mutates q then [change_of q] else [])"
  by (simp add: changes_def)

section \<open>Bounding what a method sends from a known object\<close>

text \<open>
  \<open>obeys I P m\<close>: started on an object with \<open>I\<close>, the method keeps \<open>I\<close> and only sends requests
  with \<open>P\<close>, whatever the services answer and however it ends.
\<close>

named_theorems obeys_intros "rules that bound the requests a method sends"

definition obeys :: "('o \<Rightarrow> bool) \<Rightarrow> (request \<Rightarrow> bool) \<Rightarrow> ('o \<times> world, 'a) act \<Rightarrow> bool" where
  "obeys I P m \<longleftrightarrow> (\<forall>obj w r obj' w'. I obj \<longrightarrow> m (obj, w) = (r, (obj', w')) \<longrightarrow>
     I obj' \<and> (\<exists>rs. w' = w @ rs \<and> (\<forall>q \<in> set rs. P q)))"

lemma obeysI:
  "(\<And>obj w r obj' w'. I obj \<Longrightarrow> m (obj, w) = (r, (obj', w'))
      \<Longrightarrow> I obj' \<and> (\<exists>rs. w' = w @ rs \<and> (\<forall>q \<in> set rs. P q))) \<Longrightarrow> obeys I P m"
  by (simp add: obeys_def)

lemma obeysD:
  assumes "obeys I P m" and "I obj" and "m (obj, w) = (r, (obj', w'))"
  obtains rs where "I obj'" and "w' = w @ rs" and "\<forall>q \<in> set rs. P q"
  using assms unfolding obeys_def by blast

lemma obeys_pure [obeys_intros]:
  "obeys I P (return x)" "obeys I P (raise e)" "obeys I P (lift v)" "obeys I P get_state"
  "obeys I P (attr_of a y)" "obeys I P (field f)"
  by (auto simp: obeys_def return_def raise_def lift_def get_state_def attr_of_def field_def
      split: option.split)

lemma obeys_assign [obeys_intros]: "(\<And>obj. I obj \<Longrightarrow> I (u obj)) \<Longrightarrow> obeys I P (assign u)"
  by (simp add: obeys_def assign_def)

lemma obeys_call [obeys_intros]:
  assumes "emits (\<lambda>w. w) P m"
  shows "obeys I P (call m)"
proof (rule obeysI)
  fix obj w r obj' w'
  assume I: "I obj" and run: "call m (obj, w) = (r, (obj', w'))"
  then have "m w = (r, w')" and "obj' = obj" by (auto simp: call_def split: prod.splits)
  with assms I show "I obj' \<and> (\<exists>rs. w' = w @ rs \<and> (\<forall>q \<in> set rs. P q))"
    by (auto elim: emitsD)
qed

lemma obeys_using_self [obeys_intros]:
  assumes "\<And>obj. I obj \<Longrightarrow> obeys I P (f obj)"
  shows "obeys I P (using_self f)"
proof (rule obeysI)
  fix obj w r obj' w'
  assume I: "I obj" and "using_self f (obj, w) = (r, (obj', w'))"
  then have run: "f obj (obj, w) = (r, (obj', w'))" by (simp add: using_self_def)
  from assms [OF I] I run show "I obj' \<and> (\<exists>rs. w' = w @ rs \<and> (\<forall>q \<in> set rs. P q))"
    by (auto elim: obeysD)
qed

lemma obeys_bind [obeys_intros]:
  assumes "obeys I P m" and "\<And>x. obeys I P (f x)"
  shows "obeys I P (bind m f)"
proof (rule obeysI)
  fix obj w r obj' w'
  assume I: "I obj" and run: "bind m f (obj, w) = (r, (obj', w'))"
  obtain out obj1 w1 where m: "m (obj, w) = (out, (obj1, w1))" by (metis prod.exhaust)
  from assms(1) I m obtain rs where one: "I obj1" "w1 = w @ rs" "\<forall>q \<in> set rs. P q" by (rule obeysD)
  show "I obj' \<and> (\<exists>rs. w' = w @ rs \<and> (\<forall>q \<in> set rs. P q))"
  proof (cases out)
    case (Inl e)
    with m run one show ?thesis by (auto simp: bind_def)
  next
    case (Inr x)
    with m run have "f x (obj1, w1) = (r, (obj', w'))" by (simp add: bind_def)
    with assms(2) one(1) obtain rs2 where "I obj'" "w' = w1 @ rs2" "\<forall>q \<in> set rs2. P q" by (rule obeysD)
    with one show ?thesis by auto
  qed
qed

lemma obeys_andthen [obeys_intros]: "obeys I P m \<Longrightarrow> obeys I P k \<Longrightarrow> obeys I P (andthen m k)"
  by (simp add: andthen_def obeys_bind)

lemma obeys_stmts [obeys_intros]:
  "obeys I P (stmts [])" "obeys I P m \<Longrightarrow> obeys I P (stmts ms) \<Longrightarrow> obeys I P (stmts (m # ms))"
  by (simp_all add: obeys_pure obeys_andthen)

lemma obeys_try [obeys_intros]:
  assumes "obeys I P m" and "\<And>e. obeys I P (h e)"
  shows "obeys I P (try_except m c h)"
proof (rule obeysI)
  fix obj w r obj' w'
  assume I: "I obj" and run: "try_except m c h (obj, w) = (r, (obj', w'))"
  obtain out obj1 w1 where m: "m (obj, w) = (out, (obj1, w1))" by (metis prod.exhaust)
  from assms(1) I m obtain rs where one: "I obj1" "w1 = w @ rs" "\<forall>q \<in> set rs. P q" by (rule obeysD)
  show "I obj' \<and> (\<exists>rs. w' = w @ rs \<and> (\<forall>q \<in> set rs. P q))"
  proof (cases "\<exists>e. out = Inl e \<and> c e")
    case True
    then obtain e where "out = Inl e" "c e" by blast
    with m run have "h e (obj1, w1) = (r, (obj', w'))" by (simp add: try_except_def)
    with assms(2) one(1) obtain rs2 where "I obj'" "w' = w1 @ rs2" "\<forall>q \<in> set rs2. P q" by (rule obeysD)
    with one show ?thesis by auto
  next
    case False
    with m run one show ?thesis by (cases out) (auto simp: try_except_def)
  qed
qed

lemma obeys_finally [obeys_intros]:
  assumes "obeys I P m" and "obeys I P f"
  shows "obeys I P (try_finally m f)"
proof (rule obeysI)
  fix obj w r obj' w'
  assume I: "I obj" and run: "try_finally m f (obj, w) = (r, (obj', w'))"
  obtain out obj1 w1 where m: "m (obj, w) = (out, (obj1, w1))" by (metis prod.exhaust)
  from assms(1) I m obtain rs where one: "I obj1" "w1 = w @ rs" "\<forall>q \<in> set rs. P q" by (rule obeysD)
  obtain out2 obj2 w2 where f: "f (obj1, w1) = (out2, (obj2, w2))" by (metis prod.exhaust)
  from assms(2) one(1) f obtain rs2 where "I obj2" "w2 = w1 @ rs2" "\<forall>q \<in> set rs2. P q" by (rule obeysD)
  moreover from run m f have "obj' = obj2" "w' = w2" by (cases out2; simp add: try_finally_def)+
  ultimately show "I obj' \<and> (\<exists>rs. w' = w @ rs \<and> (\<forall>q \<in> set rs. P q))" using one by auto
qed

lemma obeys_if [obeys_intros]:
  "(b \<Longrightarrow> obeys I P m) \<Longrightarrow> (\<not> b \<Longrightarrow> obeys I P k) \<Longrightarrow> obeys I P (if b then m else k)"
  by simp

lemma obeys_case_option [obeys_intros]:
  "(v = None \<Longrightarrow> obeys I P m) \<Longrightarrow> (\<And>x. v = Some x \<Longrightarrow> obeys I P (f x))
    \<Longrightarrow> obeys I P (case v of None \<Rightarrow> m | Some x \<Rightarrow> f x)"
  by (simp split: option.split)

lemma obeys_mono: "obeys I P m \<Longrightarrow> (\<And>q. P q \<Longrightarrow> Q q) \<Longrightarrow> obeys I Q m"
  unfolding obeys_def by meson

section \<open>What a method does, and where it ends\<close>

text \<open>
  \<open>does m self self' cs\<close>: from any history the method returns, with the object \<open>self'\<close> and the
  changes \<open>cs\<close>. \<open>ends m self Q\<close>: if it returns, the object has \<open>Q\<close>.
\<close>

definition does :: "('o \<times> world, unit) act \<Rightarrow> 'o \<Rightarrow> 'o \<Rightarrow> change list \<Rightarrow> bool" where
  "does m self self' cs \<longleftrightarrow>
     (\<forall>w. \<exists>w'. m (self, w) = (Inr (), (self', w')) \<and> changes w' = changes w @ cs)"

lemma doesD:
  assumes "does m self self' cs"
  obtains w' where "m (self, w) = (Inr (), (self', w'))" and "changes w' = changes w @ cs"
  using assms unfolding does_def by blast

lemma does_return: "does (return ()) self self []"
  by (simp add: does_def return_def)

lemma does_assign: "does (assign u) self (u self) []"
  by (simp add: does_def assign_def)

lemma does_using_self: "does (f self) self self' cs \<Longrightarrow> does (using_self f) self self' cs"
  by (simp add: does_def using_self_def)

lemma does_andthen:
  assumes "does m self self1 cs1" and "does k self1 self2 cs2"
  shows "does (andthen m k) self self2 (cs1 @ cs2)"
  unfolding does_def
proof
  fix w
  obtain w1 where "m (self, w) = (Inr (), (self1, w1))" "changes w1 = changes w @ cs1"
    using assms(1) by (rule doesD)
  moreover obtain w2 where "k (self1, w1) = (Inr (), (self2, w2))" "changes w2 = changes w1 @ cs2"
    using assms(2) by (rule doesD)
  ultimately show "\<exists>w'. andthen m k (self, w) = (Inr (), (self2, w')) \<and> changes w' = changes w @ cs1 @ cs2"
    by (simp add: andthen_def bind_def)
qed

lemma does_stmts_Cons:
  "does m self self1 cs1 \<Longrightarrow> does (stmts ms) self1 self2 cs2 \<Longrightarrow> does (stmts (m # ms)) self self2 (cs1 @ cs2)"
  by (simp add: does_andthen)

lemma does_stmts_Nil: "does (stmts []) self self []"
  by (simp add: does_return)

text \<open>A call that answers, and a field set from the answer.\<close>

lemma does_call:
  assumes "\<And>w. \<exists>x w'. m w = (Inr x, w') \<and> changes w' = changes w @ cs"
  shows "does (andthen (call m) (assign u)) self (u self) cs"
  unfolding does_def
proof
  fix w
  obtain x w' where "m w = (Inr x, w')" "changes w' = changes w @ cs" using assms by blast
  then show "\<exists>w'. andthen (call m) (assign u) (self, w) = (Inr (), (u self, w'))
      \<and> changes w' = changes w @ cs"
    by (simp add: andthen_def bind_def call_def assign_def)
qed

definition ends :: "('o \<times> world, 'a) act \<Rightarrow> 'o \<Rightarrow> ('o \<Rightarrow> bool) \<Rightarrow> bool" where
  "ends m self Q \<longleftrightarrow> (\<forall>w x self' w'. m (self, w) = (Inr x, (self', w')) \<longrightarrow> Q self')"

lemma endsD: "ends m self Q \<Longrightarrow> m (self, w) = (Inr x, (self', w')) \<Longrightarrow> Q self'"
  unfolding ends_def by blast

lemma ends_stmts_Cons:
  "ends m self (\<lambda>s. ends (stmts ms) s Q) \<Longrightarrow> ends (stmts (m # ms)) self Q"
  unfolding ends_def by (force simp: andthen_eq_Inr)

lemma ends_stmts_Nil: "Q self \<Longrightarrow> ends (stmts []) self Q"
  by (simp add: ends_def return_def)

lemma ends_return: "Q self \<Longrightarrow> ends (return x) self Q"
  by (simp add: ends_def return_def)

lemma ends_assign: "Q (u self) \<Longrightarrow> ends (assign u) self Q"
  by (simp add: ends_def assign_def)

lemma ends_using_self: "ends (f self) self Q \<Longrightarrow> ends (using_self f) self Q"
  by (simp add: ends_def using_self_def)

lemma ends_call: "Q self \<Longrightarrow> ends (call m) self Q"
  by (simp add: ends_def call_def split: prod.splits)

lemma ends_attr_of: "Q self \<Longrightarrow> ends (attr_of a v) self Q"
  by (cases v) (simp_all add: ends_def attr_of_def return_def raise_def)

lemma ends_raise: "ends (raise e) self Q"
  by (simp add: ends_def raise_def)

lemma ends_bind: "ends m self (\<lambda>s. \<forall>x. ends (f x) s Q) \<Longrightarrow> ends (bind m f) self Q"
  unfolding ends_def bind_eq_Inr by (metis surj_pair)

lemma ends_andthen: "ends m self (\<lambda>s. ends k s Q) \<Longrightarrow> ends (andthen m k) self Q"
  unfolding andthen_def by (rule ends_bind) simp

lemma ends_if:
  "(b \<Longrightarrow> ends m self Q) \<Longrightarrow> (\<not> b \<Longrightarrow> ends k self Q) \<Longrightarrow> ends (if b then m else k) self Q"
  by simp

lemma ends_case_option:
  "(v = None \<Longrightarrow> ends m self Q) \<Longrightarrow> (\<And>x. v = Some x \<Longrightarrow> ends (f x) self Q)
    \<Longrightarrow> ends (case v of None \<Rightarrow> m | Some x \<Rightarrow> f x) self Q"
  by (simp split: option.split)

text \<open>
  \<open>reaches_by f m self Q\<close>: from any history the method returns, and its value, the object and what
  it added to the part \<open>f\<close> of the history satisfy \<open>Q\<close>. \<open>reaches\<close> looks at the changes.
\<close>

definition reaches_by ::
  "(world \<Rightarrow> 'c list) \<Rightarrow> ('o \<times> world, 'a) act \<Rightarrow> 'o \<Rightarrow> ('a \<Rightarrow> 'o \<Rightarrow> 'c list \<Rightarrow> bool) \<Rightarrow> bool" where
  "reaches_by f m self Q \<longleftrightarrow> (\<forall>w. \<exists>x self' w' cs. m (self, w) = (Inr x, (self', w'))
     \<and> f w' = f w @ cs \<and> Q x self' cs)"

abbreviation reaches ::
  "('o \<times> world, 'a) act \<Rightarrow> 'o \<Rightarrow> ('a \<Rightarrow> 'o \<Rightarrow> change list \<Rightarrow> bool) \<Rightarrow> bool" where
  "reaches \<equiv> reaches_by changes"

lemmas reaches_def = reaches_by_def

named_theorems reaches_intros "rules for methods that return"

lemma reachesD:
  assumes "reaches_by f m self Q"
  obtains x self' w' cs where "m (self, w) = (Inr x, (self', w'))" and "f w' = f w @ cs"
    and "Q x self' cs"
  using assms unfolding reaches_by_def by blast

lemma reaches_return [reaches_intros]: "Q x self [] \<Longrightarrow> reaches_by f (return x) self Q"
  by (simp add: reaches_def return_def)

lemma reaches_assign [reaches_intros]: "Q () (u self) [] \<Longrightarrow> reaches_by f (assign u) self Q"
  by (simp add: reaches_def assign_def)

lemma reaches_using_self [reaches_intros]: "reaches_by f (g self) self Q \<Longrightarrow> reaches_by f (using_self g) self Q"
  by (simp add: reaches_def using_self_def)

lemma reaches_attr_of [reaches_intros]: "v = Some y \<Longrightarrow> Q y self [] \<Longrightarrow> reaches_by f (attr_of a v) self Q"
  by (simp add: reaches_def attr_of_def return_def)

lemma reaches_bind [reaches_intros]:
  assumes "reaches_by f m self (\<lambda>x s cs. reaches_by f (k x) s (\<lambda>y s' cs'. Q y s' (cs @ cs')))"
  shows "reaches_by f (bind m k) self Q"
  unfolding reaches_by_def
proof
  fix w
  obtain x s w1 cs where m: "m (self, w) = (Inr x, (s, w1))" "f w1 = f w @ cs"
    and rest: "reaches_by f (k x) s (\<lambda>y s' cs'. Q y s' (cs @ cs'))"
    using assms by (rule reachesD)
  from rest obtain y s' w2 cs' where "k x (s, w1) = (Inr y, (s', w2))" "f w2 = f w1 @ cs'"
    "Q y s' (cs @ cs')" by (rule reachesD)
  with m show "\<exists>y s' w' cs. bind m k (self, w) = (Inr y, (s', w')) \<and> f w' = f w @ cs \<and> Q y s' cs"
    by (intro exI [of _ y] exI [of _ s'] exI [of _ w2] exI [of _ "cs @ cs'"]) (simp add: bind_def)
qed

lemma reaches_andthen [reaches_intros]:
  "reaches_by f m self (\<lambda>x s cs. reaches_by f k s (\<lambda>y s' cs'. Q y s' (cs @ cs'))) \<Longrightarrow> reaches_by f (andthen m k) self Q"
  unfolding andthen_def by (rule reaches_bind)

lemma reaches_stmts [reaches_intros]:
  "Q () self [] \<Longrightarrow> reaches_by f (stmts []) self Q"
  "reaches_by f m self (\<lambda>x s cs. reaches_by f (stmts ms) s (\<lambda>y s' cs'. Q y s' (cs @ cs')))
    \<Longrightarrow> reaches_by f (stmts (m # ms)) self Q"
  by (simp_all add: reaches_return reaches_andthen)

lemma reaches_finally [reaches_intros]:
  assumes "reaches_by f m self (\<lambda>x s cs. reaches_by f k s (\<lambda>y s' cs'. Q x s' (cs @ cs')))"
  shows "reaches_by f (try_finally m k) self Q"
  unfolding reaches_by_def
proof
  fix w
  obtain x s w1 cs where m: "m (self, w) = (Inr x, (s, w1))" "f w1 = f w @ cs"
    and rest: "reaches_by f k s (\<lambda>y s' cs'. Q x s' (cs @ cs'))"
    using assms by (rule reachesD)
  from rest obtain y s' w2 cs' where "k (s, w1) = (Inr y, (s', w2))" "f w2 = f w1 @ cs'"
    "Q x s' (cs @ cs')" by (rule reachesD)
  with m show "\<exists>x s' w' cs. try_finally m k (self, w) = (Inr x, (s', w')) \<and> f w' = f w @ cs \<and> Q x s' cs"
    by (intro exI [of _ x] exI [of _ s'] exI [of _ w2] exI [of _ "cs @ cs'"]) (simp add: try_finally_def)
qed

lemma reaches_if [reaches_intros]:
  "(b \<Longrightarrow> reaches_by f m self Q) \<Longrightarrow> (\<not> b \<Longrightarrow> reaches_by f k self Q) \<Longrightarrow> reaches_by f (if b then m else k) self Q"
  by simp

lemma reaches_mono:
  assumes "reaches_by f m self Q" and "\<And>x s cs. Q x s cs \<Longrightarrow> R x s cs"
  shows "reaches_by f m self R"
  unfolding reaches_by_def
proof
  fix w
  obtain x s w' cs where "m (self, w) = (Inr x, (s, w'))" "f w' = f w @ cs" "Q x s cs"
    using assms(1) by (rule reachesD)
  with assms(2) show "\<exists>x s w' cs. m (self, w) = (Inr x, (s, w')) \<and> f w' = f w @ cs \<and> R x s cs"
    by blast
qed

section \<open>Keeping a property of the state\<close>

text \<open>However the action ends, a property of the state it starts in still holds.\<close>

definition keeps :: "('s \<Rightarrow> bool) \<Rightarrow> ('s, 'a) act \<Rightarrow> bool" where
  "keeps P m \<longleftrightarrow> (\<forall>s. P s \<longrightarrow> P (snd (m s)))"

named_theorems keeps_intros "actions that keep a property of the state"

lemma keeps_basic [keeps_intros]:
  "keeps P (return x)" "keeps P (raise e)" "keeps P (lift r)" "keeps P get_state"
  "(\<And>s. P s \<Longrightarrow> P (u s)) \<Longrightarrow> keeps P (modify u)"
  by (auto simp: keeps_def return_def raise_def lift_def get_state_def modify_def)

lemma keeps_bind [keeps_intros]:
  assumes "keeps P m" and "\<And>x. keeps P (f x)"
  shows "keeps P (bind m f)"
  unfolding keeps_def
proof (intro allI impI)
  fix s assume "P s"
  then show "P (snd (bind m f s))"
    using assms by (cases "m s"; cases "fst (m s)") (force simp: keeps_def bind_def)+
qed

lemma keeps_andthen [keeps_intros]: "keeps P m \<Longrightarrow> keeps P k \<Longrightarrow> keeps P (andthen m k)"
  unfolding andthen_def by (rule keeps_bind)

lemma keeps_try [keeps_intros]:
  assumes "keeps P m" and "\<And>e. keeps P (h e)"
  shows "keeps P (try_except m c h)"
  unfolding keeps_def
proof (intro allI impI)
  fix s assume "P s"
  then show "P (snd (try_except m c h s))"
    using assms by (cases "m s"; cases "fst (m s)") (force simp: keeps_def try_except_def)+
qed

lemma keeps_if [keeps_intros]:
  "(b \<Longrightarrow> keeps P m) \<Longrightarrow> (\<not> b \<Longrightarrow> keeps P k) \<Longrightarrow> keeps P (if b then m else k)"
  by simp

lemma keeps_stmts [keeps_intros]: "(\<And>x. keeps P (f x)) \<Longrightarrow> keeps P (stmts (map f xs))"
  by (induction xs) (auto intro!: keeps_intros)

lemma keepsD: "keeps P m \<Longrightarrow> m s = (r, s') \<Longrightarrow> P s \<Longrightarrow> P s'"
  by (auto simp: keeps_def dest: spec [of _ s])

lemma keeps_finally [keeps_intros]:
  assumes "keeps P m" and "keeps P k"
  shows "keeps P (try_finally m k)"
  unfolding keeps_def
proof (intro allI impI)
  fix s assume "P s"
  obtain r s1 where m: "m s = (r, s1)" by fastforce
  obtain r2 s2 where k: "k s1 = (r2, s2)" by fastforce
  have "P s2" using assms m k \<open>P s\<close> unfolding keeps_def by (metis snd_conv)
  moreover have "snd (try_finally m k s) = s2" using m k by (cases r2) (simp_all add: try_finally_def)
  ultimately show "P (snd (try_finally m k s))" by simp
qed

lemma keeps_case_option [keeps_intros]:
  "(v = None \<Longrightarrow> keeps P m) \<Longrightarrow> (\<And>x. v = Some x \<Longrightarrow> keeps P (f x))
    \<Longrightarrow> keeps P (case v of None \<Rightarrow> m | Some x \<Rightarrow> f x)"
  by (simp split: option.split)

lemma keeps_object [keeps_intros]:
  "(\<And>obj. I obj \<Longrightarrow> I (u obj)) \<Longrightarrow> keeps (\<lambda>s. I (fst s)) (assign u)"
  "keeps (\<lambda>s. I (fst s)) (call m)"
  "keeps P (attr_of a v)"
  by (auto simp: keeps_def assign_def call_def attr_of_def return_def raise_def split: prod.split option.split)

lemma keeps_using_self [keeps_intros]:
  "(\<And>obj. keeps P (f obj)) \<Longrightarrow> keeps P (using_self f)"
  by (simp add: keeps_def using_self_def)

lemma keeps_using_self_of:
  "(\<And>obj. I obj \<Longrightarrow> keeps (\<lambda>s. I (fst s)) (f obj)) \<Longrightarrow> keeps (\<lambda>s. I (fst s)) (using_self f)"
  by (simp add: keeps_def using_self_def)

text \<open>A call that returns, whatever the history.\<close>

lemma reaches_call:
  assumes "\<And>w. \<exists>x w' cs. m w = (Inr x, w') \<and> f w' = f w @ cs \<and> Q x self cs"
  shows "reaches_by f (call m) self Q"
  unfolding reaches_by_def
proof
  fix w
  obtain x w' cs where "m w = (Inr x, w')" "f w' = f w @ cs" "Q x self cs" using assms by blast
  then show "\<exists>x self' w' cs. call m (self, w) = (Inr x, (self', w')) \<and> f w' = f w @ cs \<and> Q x self' cs"
    by (auto simp: call_def)
qed

section \<open>The interface of a delete operation\<close>

text \<open>
  What a manager relies on when it calls the delete operation \<open>del\<close> of a client: it changes
  nothing but the resource named (\<open>change n\<close>), and a service in good order (\<open>served\<close>) sees
  exactly one such change. \<open>ok\<close> is the assumption on the retrying library.
\<close>

locale deleter =
  fixes ok :: bool and served :: bool
    and del :: "'n \<Rightarrow> (world, bool) act"
    and change :: "'n \<Rightarrow> change"
  assumes del_emits: "ok \<Longrightarrow> emits (\<lambda>w. w) (\<lambda>q. mutates q \<longrightarrow> change_of q = change n) (del n)"
    and del_served: "ok \<Longrightarrow> served \<Longrightarrow> \<exists>w'. del n w = (Inr True, w') \<and> changes w' = changes w @ [change n]"
begin

lemma deletes_once:
  assumes ok served
  obtains w' where "del n w = (Inr True, w')" and "changes w' = changes w @ [change n]"
  using del_served [OF assms] by blast

lemma changes_only_the_named:
  assumes ok and "del n w = (r, w')"
  obtains rs where "w' = w @ rs" and "set (changes rs) \<subseteq> {change n}"
proof -
  from del_emits [OF assms(1)] assms(2) obtain rs where "w' = w @ rs"
    and "\<forall>q \<in> set rs. mutates q \<longrightarrow> change_of q = change n" by (rule emitsD)
  with that show thesis by (auto simp: changes_def)
qed

end

end
