(* ===== verification/Retryers.thy ===== *)
theory Retryers
  imports PyBase
begin

text \<open>
  framework/helpers/retryers.py: how the framework configures the tenacity library (what to
  retry on, how long to wait, when to stop, what to raise then) and the \<open>RetryError\<close> that its
  error callback raises. Tenacity itself is not part of the repository: a retryer is called
  through a parameter, and what the code relies on (its documented loop) is the hypothesis
  \<open>tenacity_ok\<close>. All durations of the framework are whole seconds.
\<close>

section \<open>Configuration\<close>

datatype retry_cond =
    RetryIfExceptionType "exn_class list"
  | RetryIfException "exn \<Rightarrow> bool"
  | RetryIfNotResult "json \<Rightarrow> exn + bool"

datatype wait_cond = WaitExponential (wait_min: int) (wait_max: int) | WaitFixed int

datatype stop_cond = StopAfterAttempt int | StopAfterDelay int

text \<open>What a callback of tenacity sees of the call: the last outcome and the callback's name.\<close>

datatype retry_state = RetryState (outcome: "exn + json") (fn_name: "string option")

datatype retrying = Retrying
  (rt_retry: "retry_cond list")
  (rt_wait: wait_cond)
  (rt_stop: "stop_cond list")
  (rt_error_callback: "(retry_state \<Rightarrow> exn) option")
  (rt_reraise: bool)

text \<open>
  The wrapper that turns the listed exceptions of a result check into \<open>False\<close>.
\<close>

definition safe_check_result ::
  "(json \<Rightarrow> exn + bool) \<Rightarrow> exn_class list \<Rightarrow> json \<Rightarrow> exn + bool" where
  "safe_check_result check_result retry_on_exceptions res =
     (case check_result res of
        Inr b \<Rightarrow> Inr b
      | Inl e \<Rightarrow> if isinstance e retry_on_exceptions then Inr False else Inl e)"

definition build_retry_conditions ::
  "exn_class list option \<Rightarrow> (json \<Rightarrow> exn + bool) option \<Rightarrow> retry_cond list" where
  "build_retry_conditions retry_on_exceptions check_result =
     (let excs = (case retry_on_exceptions of None \<Rightarrow> [CException] | Some cs \<Rightarrow> cs)
      in [RetryIfExceptionType excs] @
         (case check_result of
            None \<Rightarrow> []
          | Some f \<Rightarrow> [RetryIfNotResult (if excs \<noteq> [] then safe_check_result f excs else f)]))"

text \<open>The callback raises a \<open>RetryError\<close> built from the retry state and the limits.\<close>

definition on_error_callback ::
  "int option \<Rightarrow> int \<Rightarrow> bool \<Rightarrow> string \<Rightarrow> retry_state \<Rightarrow> exn" where
  "on_error_callback timeout attempts has_check error_note st =
     RetryError (outcome st) (RetryInfo (fn_name st) timeout attempts has_check error_note)"

definition exponential_retryer_with_timeout ::
  "int \<Rightarrow> int \<Rightarrow> int \<Rightarrow> exn_class list option \<Rightarrow> (json \<Rightarrow> exn + bool) option \<Rightarrow> string \<Rightarrow> retrying" where
  "exponential_retryer_with_timeout wmin wmax timeout retry_on_exceptions check_result error_note =
     Retrying (build_retry_conditions retry_on_exceptions check_result)
       (WaitExponential wmin wmax) [StopAfterDelay timeout]
       (Some (on_error_callback (Some timeout) 0 (\<not> Option.is_none check_result) error_note))
       False"

definition exponential_retryer_with_attempts ::
  "int \<Rightarrow> int \<Rightarrow> int \<Rightarrow> exn_class list option \<Rightarrow> (exn \<Rightarrow> bool) option \<Rightarrow> retrying" where
  "exponential_retryer_with_attempts wmin wmax attempts retry_on_exceptions retry_on_predicate =
     (let by_type = (case retry_on_exceptions of
                       None \<Rightarrow> []
                     | Some cs \<Rightarrow> if cs \<noteq> [] then [RetryIfExceptionType cs] else []);
          by_pred = (case retry_on_predicate of None \<Rightarrow> [] | Some p \<Rightarrow> [RetryIfException p]);
          conds = by_type @ by_pred
      in Retrying (case conds of [] \<Rightarrow> [RetryIfExceptionType [CException]] | _ \<Rightarrow> conds)
           (WaitExponential wmin wmax) [StopAfterAttempt attempts]
           (Some (on_error_callback None attempts False [])) False)"

definition constant_retryer ::
  "int \<Rightarrow> int \<Rightarrow> int option \<Rightarrow> exn_class list option \<Rightarrow> (json \<Rightarrow> exn + bool) option \<Rightarrow> string
     \<Rightarrow> exn + retrying" where
  "constant_retryer wait_fixed attempts timeout retry_on_exceptions check_result error_note =
     (if attempts < 1 \<and> timeout = None
      then Inl (ValueError ''The number of attempts or the timeout must be set'')
      else Inr
        (Retrying (build_retry_conditions retry_on_exceptions check_result)
          (WaitFixed wait_fixed)
          ((if attempts > 0 then [StopAfterAttempt attempts] else []) @
           (case timeout of None \<Rightarrow> [] | Some t \<Rightarrow> [StopAfterDelay t]))
          (Some (on_error_callback timeout attempts (\<not> Option.is_none check_result) error_note))
          False))"

section \<open>The retry error\<close>

text \<open>\<open>str(timedelta)\<close> for whole seconds.\<close>

definition pad2 :: "int \<Rightarrow> string" where
  "pad2 i = (if i < 10 then ''0'' @ str_int i else str_int i)"

definition str_timedelta :: "int \<Rightarrow> string" where
  "str_timedelta secs =
     (let days = secs div 86400; rest = secs mod 86400;
          hms = str_int (rest div 3600) @ '':'' @ pad2 (rest div 60 mod 60) @ '':'' @ pad2 (rest mod 60)
      in if days = 0 then hms
         else str_int days @ '' day'' @ (if \<bar>days\<bar> \<noteq> 1 then ''s'' else []) @ '', '' @ hms)"

text \<open>
  \<open>type_name\<close> and \<open>text_of\<close> stand for \<open>type(err).__name__\<close> and \<open>str(err)\<close>, \<open>repr_of\<close> for the text of
  a result: they are those of the raised object, which may be a third-party one.
\<close>

definition retry_error_message ::
  "(exn \<Rightarrow> string) \<Rightarrow> (exn \<Rightarrow> string) \<Rightarrow> exn + json \<Rightarrow> retry_info \<Rightarrow> string" where
  "retry_error_message type_name text_of last_attempt info =
     ''Retry error'' @
     (case ri_fn_name info of None \<Rightarrow> '':'' | Some n \<Rightarrow> '' calling '' @ n @ '':'') @
     (case ri_timeout info of
        None \<Rightarrow> []
      | Some t \<Rightarrow> if t = 0 then []
          else '' timeout '' @ str_timedelta t @ '' (h:mm:ss) exceeded'' @
               (if ri_attempts info \<noteq> 0 then '' or'' else [])) @
     (if ri_attempts info \<noteq> 0 then '' '' @ str_int (ri_attempts info) @ '' attempts exhausted'' else []) @
     ''.'' @
     (case last_attempt of
        Inl err \<Rightarrow> '' Last exception: '' @ type_name err @ '': '' @ text_of err
      | Inr _ \<Rightarrow> if ri_check_result info then '' Check result callback returned False.'' else [])"

definition retry_error_str ::
  "(exn \<Rightarrow> string) \<Rightarrow> (exn \<Rightarrow> string) \<Rightarrow> exn + json \<Rightarrow> retry_info \<Rightarrow> string" where
  "retry_error_str type_name text_of last_attempt info =
     (let message = retry_error_message type_name text_of last_attempt info
      in if ri_note info = [] then message else message @ [CHR 0x0A] @ ri_note info)"

definition retry_error_result :: "exn + json \<Rightarrow> json \<Rightarrow> json" where
  "retry_error_result last_attempt dflt =
     (case last_attempt of Inr v \<Rightarrow> v | Inl _ \<Rightarrow> dflt)"

definition retry_error_exception :: "exn + json \<Rightarrow> exn option \<Rightarrow> exn option" where
  "retry_error_exception last_attempt dflt =
     (case last_attempt of Inl e \<Rightarrow> Some e | Inr _ \<Rightarrow> dflt)"

definition exception_str_of :: "(exn \<Rightarrow> string) \<Rightarrow> (exn \<Rightarrow> string) \<Rightarrow> exn option \<Rightarrow> string" where
  "exception_str_of type_name text_of err =
     (case err of None \<Rightarrow> ''???'' | Some e \<Rightarrow> type_name e @ '': '' @ text_of e)"

definition retry_error_exception_str ::
  "(exn \<Rightarrow> string) \<Rightarrow> (exn \<Rightarrow> string) \<Rightarrow> exn + json \<Rightarrow> string" where
  "retry_error_exception_str type_name text_of last_attempt =
     ''Error: '' @ exception_str_of type_name text_of (retry_error_exception last_attempt None)"

definition retry_error_result_str :: "(json \<Rightarrow> string) \<Rightarrow> exn + json \<Rightarrow> string" where
  "retry_error_result_str repr_of last_attempt =
     (let res = retry_error_result last_attempt JNull
      in if res \<noteq> JNull then ''Result: '' @ repr_of res else ''No result'')"

definition retry_error_reason_str ::
  "(exn \<Rightarrow> string) \<Rightarrow> (exn \<Rightarrow> string) \<Rightarrow> (json \<Rightarrow> string) \<Rightarrow> exn + json \<Rightarrow> string" where
  "retry_error_reason_str type_name text_of repr_of last_attempt =
     (if retry_error_exception last_attempt None \<noteq> None
      then retry_error_exception_str type_name text_of last_attempt
      else retry_error_result_str repr_of last_attempt)"

text \<open>\<open>add_note\<close> replaces the note.\<close>

fun add_note :: "string \<Rightarrow> exn \<Rightarrow> exn" where
  "add_note n (RetryError out (RetryInfo f t a c _)) = RetryError out (RetryInfo f t a c n)"
| "add_note n e = e"

section \<open>The contract of the retrying library\<close>

text \<open>
  Conditions are evaluated left to right and the first that holds decides (\<open>retry_any\<close>); a result
  check that raises makes the call raise.
\<close>

fun retry_wanted :: "retry_cond \<Rightarrow> exn + json \<Rightarrow> exn + bool" where
  "retry_wanted (RetryIfExceptionType cs) (Inl e) = Inr (isinstance e cs)"
| "retry_wanted (RetryIfException p) (Inl e) = Inr (p e)"
| "retry_wanted (RetryIfNotResult f) (Inr v) = ebind (f v) (\<lambda>b. Inr (\<not> b))"
| "retry_wanted _ _ = Inr False"

fun any_wanted :: "retry_cond list \<Rightarrow> exn + json \<Rightarrow> exn + bool" where
  "any_wanted [] out = Inr False"
| "any_wanted (c # cs) out =
     ebind (retry_wanted c out) (\<lambda>b. if b then Inr True else any_wanted cs out)"

text \<open>
  After \<open>n\<close> attempts, an attempt limit that is reached forces the stop; a delay limit may stop
  after any attempt, since how long an attempt takes is not known here.
\<close>

definition must_stop :: "stop_cond list \<Rightarrow> nat \<Rightarrow> bool" where
  "must_stop cs n = list_ex (\<lambda>c. case c of StopAfterAttempt k \<Rightarrow> k \<le> int n | StopAfterDelay _ \<Rightarrow> False) cs"

definition may_stop :: "stop_cond list \<Rightarrow> nat \<Rightarrow> bool" where
  "may_stop cs n = list_ex (\<lambda>c. case c of StopAfterAttempt k \<Rightarrow> k \<le> int n | StopAfterDelay _ \<Rightarrow> True) cs"

definition give_up :: "retrying \<Rightarrow> exn + json \<Rightarrow> string option \<Rightarrow> exn" where
  "give_up cfg out nm =
     (case rt_error_callback cfg of
        Some cb \<Rightarrow> cb (RetryState out nm)
      | None \<Rightarrow> if rt_reraise cfg
          then (case out of Inl e \<Rightarrow> e | Inr _ \<Rightarrow> TenacityRetryError out)
          else TenacityRetryError out)"

text \<open>
  \<open>retry_run cfg fn n s m r\<close>: with attempt \<open>n\<close> about to start in state \<open>s\<close>, the call ends with \<open>r\<close>
  after attempt \<open>m\<close>. An outcome that asks for no retry is returned or raised as it is.
\<close>

inductive retry_run ::
  "retrying \<Rightarrow> ('s, json) act \<Rightarrow> nat \<Rightarrow> 's \<Rightarrow> nat \<Rightarrow> (exn + json) \<times> 's \<Rightarrow> bool"
  for cfg fn where
  accept: "fn s = (out, s') \<Longrightarrow> any_wanted (rt_retry cfg) out = Inr False
    \<Longrightarrow> retry_run cfg fn n s n (out, s')"
| check_raises: "fn s = (out, s') \<Longrightarrow> any_wanted (rt_retry cfg) out = Inl e
    \<Longrightarrow> retry_run cfg fn n s n (Inl e, s')"
| stop: "fn s = (out, s') \<Longrightarrow> any_wanted (rt_retry cfg) out = Inr True
    \<Longrightarrow> may_stop (rt_stop cfg) n \<Longrightarrow> retry_run cfg fn n s n (Inl (give_up cfg out nm), s')"
| again: "fn s = (out, s') \<Longrightarrow> any_wanted (rt_retry cfg) out = Inr True
    \<Longrightarrow> \<not> must_stop (rt_stop cfg) n \<Longrightarrow> retry_run cfg fn (Suc n) s' m r
    \<Longrightarrow> retry_run cfg fn n s m r"

text \<open>
  A retryer with a stop condition behaves as documented on every callback. (Without one it may
  never return, and nothing is said of it.)
\<close>

definition tenacity_ok ::
  "(retrying \<Rightarrow> ('s, json) act \<Rightarrow> ('s, json) act) \<Rightarrow> bool" where
  "tenacity_ok T \<longleftrightarrow>
     (\<forall>cfg fn s. rt_stop cfg \<noteq> [] \<longrightarrow> (\<exists>m. retry_run cfg fn 1 s m (T cfg fn s)))"

text \<open>
  An executable retryer that satisfies the contract: it honours the attempt limits, and lets a
  delay limit expire after \<open>budget\<close> attempts.
\<close>

fun retry_loop :: "nat \<Rightarrow> nat \<Rightarrow> retrying \<Rightarrow> ('s, json) act \<Rightarrow> ('s, json) act" where
  "retry_loop budget n cfg fn s =
     (case fn s of (out, s') \<Rightarrow>
       (case any_wanted (rt_retry cfg) out of
          Inl e \<Rightarrow> (Inl e, s')
        | Inr False \<Rightarrow> (out, s')
        | Inr True \<Rightarrow>
            (if must_stop (rt_stop cfg) n then (Inl (give_up cfg out None), s')
             else (case budget of
                     0 \<Rightarrow> (Inl (give_up cfg out None), s')
                   | Suc b \<Rightarrow> retry_loop b (Suc n) cfg fn s'))))"

declare retry_loop.simps [simp del]

definition loop_budget :: "nat \<Rightarrow> stop_cond list \<Rightarrow> nat" where
  "loop_budget b cs = fold (\<lambda>c m. case c of StopAfterAttempt k \<Rightarrow> max m (nat k) | StopAfterDelay _ \<Rightarrow> m) cs b"

definition simple_retryer :: "nat \<Rightarrow> retrying \<Rightarrow> ('s, json) act \<Rightarrow> ('s, json) act" where
  "simple_retryer b cfg fn = retry_loop (loop_budget b (rt_stop cfg)) 1 cfg fn"

lemma loop_budget_ge: "b \<le> loop_budget b cs"
proof (induction cs arbitrary: b)
  case (Cons c cs)
  then show ?case
    by (cases c) (auto simp: loop_budget_def intro: order_trans [OF max.cobounded1])
qed (simp add: loop_budget_def)

lemma loop_budget_attempts:
  "StopAfterAttempt k \<in> set cs \<Longrightarrow> nat k \<le> loop_budget b cs"
proof (induction cs arbitrary: b)
  case (Cons c cs)
  show ?case
  proof (cases "c = StopAfterAttempt k")
    case True
    have "max b (nat k) \<le> loop_budget (max b (nat k)) cs" by (rule loop_budget_ge)
    with True show ?thesis by (simp add: loop_budget_def)
  next
    case False
    with Cons show ?thesis by (simp add: loop_budget_def)
  qed
qed simp

lemma retry_loop_run:
  assumes "rt_stop cfg \<noteq> []"
    and "\<And>k. StopAfterAttempt k \<in> set (rt_stop cfg) \<Longrightarrow> nat k \<le> budget + n"
  shows "\<exists>m. retry_run cfg fn n s m (retry_loop budget n cfg fn s)"
  using assms
proof (induction budget n cfg fn s rule: retry_loop.induct)
  case (1 budget n cfg fn s)
  have must_may: "must_stop (rt_stop cfg) n \<Longrightarrow> may_stop (rt_stop cfg) n"
    by (auto simp: must_stop_def may_stop_def list_ex_iff split: stop_cond.splits)
  have spent: "may_stop (rt_stop cfg) n" if "budget = 0"
  proof -
    obtain c cs where "rt_stop cfg = c # cs" using "1.prems"(1) by (cases "rt_stop cfg") auto
    with "1.prems"(2) that show ?thesis by (cases c) (auto simp: may_stop_def nat_le_iff)
  qed
  obtain out s' where fn: "fn s = (out, s')" by fastforce
  show ?case
  proof (cases "any_wanted (rt_retry cfg) out")
    case (Inl e)
    with fn show ?thesis
      by (subst retry_loop.simps) (auto intro: retry_run.check_raises)
  next
    case (Inr b)
    consider "\<not> b" | "b" "must_stop (rt_stop cfg) n \<or> budget = 0"
      | b' where "b" "\<not> must_stop (rt_stop cfg) n" "budget = Suc b'"
      by (cases budget) auto
    then show ?thesis
    proof cases
      case 1
      with fn Inr show ?thesis
        by (subst retry_loop.simps) (auto intro: retry_run.accept)
    next
      case 2
      with must_may spent have "may_stop (rt_stop cfg) n" by blast
      moreover have "retry_loop budget n cfg fn s = (Inl (give_up cfg out None), s')"
        using 2 fn Inr by (subst retry_loop.simps) (auto split: nat.split)
      ultimately show ?thesis
        using fn Inr 2(1) by (auto intro!: exI [of _ n] retry_run.stop)
    next
      case 3
      have "\<exists>m. retry_run cfg fn (Suc n) s' m (retry_loop b' (Suc n) cfg fn s')"
      proof (rule "1.IH")
        fix k assume "StopAfterAttempt k \<in> set (rt_stop cfg)"
        then have "nat k \<le> budget + n" by (rule "1.prems"(2))
        with 3 show "nat k \<le> b' + Suc n" by simp
      qed (use fn Inr 3 "1.prems"(1) in auto)
      then obtain m where m: "retry_run cfg fn (Suc n) s' m (retry_loop b' (Suc n) cfg fn s')" ..
      have "retry_loop budget n cfg fn s = retry_loop b' (Suc n) cfg fn s'"
        using 3 fn Inr by (subst retry_loop.simps) simp
      moreover have "retry_run cfg fn n s m (retry_loop b' (Suc n) cfg fn s')"
        using fn Inr 3 m by (auto intro: retry_run.again)
      ultimately show ?thesis by auto
    qed
  qed
qed

lemma simple_retryer_ok: "tenacity_ok (simple_retryer b)"
  unfolding tenacity_ok_def simple_retryer_def
proof (intro allI impI)
  fix cfg fn s
  assume "rt_stop cfg \<noteq> []"
  then show "\<exists>m. retry_run cfg fn 1 s m (retry_loop (loop_budget b (rt_stop cfg)) 1 cfg fn s)"
    by (rule retry_loop_run) (meson loop_budget_attempts le_add1 order_trans)
qed

section \<open>What follows from the contract\<close>

lemma tenacity_run:
  assumes "tenacity_ok T" and "rt_stop cfg \<noteq> []"
  obtains m where "retry_run cfg fn 1 s m (T cfg fn s)"
  using assms unfolding tenacity_ok_def by blast

text \<open>A retryer sends nothing that its callback does not send.\<close>

lemma retry_run_emits:
  assumes "retry_run cfg fn n s m r" and "emits pr P fn"
  shows "\<exists>rs. pr (snd r) = pr s @ rs \<and> (\<forall>q \<in> set rs. P q)"
  using assms(1)
proof (induction rule: retry_run.induct)
  case (again s out s' n m r)
  from assms(2) again.hyps(1) obtain rs where "pr s' = pr s @ rs" "\<forall>q \<in> set rs. P q"
    by (rule emitsD)
  with again.IH show ?case by fastforce
qed (use assms(2) in \<open>force elim: emitsD\<close>)+

lemma tenacity_emits:
  assumes "tenacity_ok T" and "rt_stop cfg \<noteq> []" and "emits pr P fn"
  shows "emits pr P (T cfg fn)"
proof (rule emitsI)
  fix s
  obtain m where "retry_run cfg fn 1 s m (T cfg fn s)"
    using assms(1,2) by (rule tenacity_run)
  then show "\<exists>rs. pr (snd (T cfg fn s)) = pr s @ rs \<and> (\<forall>q \<in> set rs. P q)"
    using assms(3) by (rule retry_run_emits)
qed

text \<open>A value comes from the last attempt, which asked for no retry.\<close>

lemma retry_run_value:
  assumes "retry_run cfg fn n s m r" and "r = (Inr v, s')"
  shows "\<exists>s0. fn s0 = (Inr v, s') \<and> any_wanted (rt_retry cfg) (Inr v) = Inr False"
  using assms by (induction rule: retry_run.induct) auto

lemma tenacity_value:
  assumes "tenacity_ok T" and "rt_stop cfg \<noteq> []" and "T cfg fn s = (Inr v, s')"
  obtains s0 where "fn s0 = (Inr v, s')" and "any_wanted (rt_retry cfg) (Inr v) = Inr False"
proof -
  obtain m where "retry_run cfg fn 1 s m (T cfg fn s)"
    using assms(1,2) by (rule tenacity_run)
  with retry_run_value assms(3) that show thesis by metis
qed

text \<open>
  An exception is the one the last attempt raised, one raised by a result check, or the error of
  giving up on an outcome that asked for a retry.
\<close>

lemma retry_run_error:
  assumes "retry_run cfg fn n s m r" and "r = (Inl e, s')"
  shows "\<exists>s0 out. fn s0 = (out, s') \<and>
     (out = Inl e \<and> any_wanted (rt_retry cfg) out = Inr False
      \<or> any_wanted (rt_retry cfg) out = Inl e
      \<or> any_wanted (rt_retry cfg) out = Inr True \<and> (\<exists>nm. e = give_up cfg out nm))"
  using assms by (induction rule: retry_run.induct) blast+

lemma tenacity_error:
  assumes "tenacity_ok T" and "rt_stop cfg \<noteq> []" and "T cfg fn s = (Inl e, s')"
  obtains (raised) s0 where "fn s0 = (Inl e, s')" and "any_wanted (rt_retry cfg) (Inl e) = Inr False"
  | (check) s0 out where "fn s0 = (out, s')" and "any_wanted (rt_retry cfg) out = Inl e"
  | (gave_up) s0 out nm where "fn s0 = (out, s')" and "any_wanted (rt_retry cfg) out = Inr True"
      and "e = give_up cfg out nm"
proof -
  obtain m where "retry_run cfg fn 1 s m (T cfg fn s)"
    using assms(1,2) by (rule tenacity_run)
  from retry_run_error [OF this assms(3)] show thesis using that by blast
qed

text \<open>An outcome that asks for no retry at the first attempt is the outcome of the call.\<close>

lemma retry_run_first:
  assumes "retry_run cfg fn n s m r" and "fn s = (out, s')"
    and "any_wanted (rt_retry cfg) out = Inr False"
  shows "r = (out, s')"
  using assms by (cases rule: retry_run.cases) auto

lemma tenacity_first:
  assumes "tenacity_ok T" and "rt_stop cfg \<noteq> []" and "fn s = (out, s')"
    and "any_wanted (rt_retry cfg) out = Inr False"
  shows "T cfg fn s = (out, s')"
proof -
  obtain m where "retry_run cfg fn 1 s m (T cfg fn s)"
    using assms(1,2) by (rule tenacity_run)
  then show ?thesis using assms(3,4) by (rule retry_run_first)
qed

text \<open>
  The states between attempts: \<open>attempts fn k s\<close> is the state after \<open>k\<close> attempts from \<open>s\<close>. While the
  attempt limit is not reached and no delay limit is configured, every outcome that asks for a
  retry is retried, and no limit is overrun.
\<close>

fun attempts :: "('s, 'a) act \<Rightarrow> nat \<Rightarrow> 's \<Rightarrow> 's" where
  "attempts fn 0 s = s"
| "attempts fn (Suc k) s = attempts fn k (snd (fn s))"

lemma retry_run_persists:
  assumes "retry_run cfg fn n s m r"
    and "\<And>i. i < k \<Longrightarrow> any_wanted (rt_retry cfg) (fst (fn (attempts fn i s))) = Inr True"
    and "\<And>i. i < k \<Longrightarrow> \<not> may_stop (rt_stop cfg) (n + i)"
  shows "retry_run cfg fn (n + k) (attempts fn k s) m r"
  using assms
proof (induction k arbitrary: n s)
  case (Suc k)
  from Suc.prems(2) [of 0] Suc.prems(3) [of 0]
  have first: "any_wanted (rt_retry cfg) (fst (fn s)) = Inr True" "\<not> may_stop (rt_stop cfg) n"
    by simp_all
  from Suc.prems(1) have "retry_run cfg fn (Suc n) (snd (fn s)) m r"
    by (cases rule: retry_run.cases) (use first in auto)
  from Suc.IH [OF this] show ?case
    using Suc.prems(2) [of "Suc _"] Suc.prems(3) [of "Suc _"] by simp
qed simp

lemma retry_run_bound:
  assumes "retry_run cfg fn n s m r" and "StopAfterAttempt k \<in> set (rt_stop cfg)"
    and "int n \<le> max 1 k"
  shows "n \<le> m \<and> int m \<le> max 1 k"
  using assms
proof (induction rule: retry_run.induct)
  case (again s out s' n m r)
  then have "\<not> k \<le> int n" by (auto simp: must_stop_def list_ex_iff)
  then have "int (Suc n) \<le> max 1 k" by simp
  with again show ?case by auto
qed auto

text \<open>Every attempt is a run of the callback from the state the previous one left.\<close>

lemma retry_run_attempts:
  "retry_run cfg fn n s m r \<Longrightarrow> n \<le> m \<and> snd r = attempts fn (Suc (m - n)) s"
proof (induction rule: retry_run.induct)
  case (again s out s' n m r)
  then have "m - n = Suc (m - Suc n)" by linarith
  with again show ?case by simp
qed simp_all

text \<open>
  With an attempt limit only: outcomes that ask for a retry are retried until one does not,
  provided the limit allows it, and at the limit the error callback decides.
\<close>

lemma may_stop_attempts [simp]:
  "may_stop [StopAfterAttempt k] n \<longleftrightarrow> k \<le> int n"
  "must_stop [StopAfterAttempt k] n \<longleftrightarrow> k \<le> int n"
  by (simp_all add: may_stop_def must_stop_def)

lemma tenacity_after:
  assumes "tenacity_ok T" and "rt_stop cfg = [StopAfterAttempt lim]" and "int k < lim"
    and "\<And>i. i < k \<Longrightarrow> any_wanted (rt_retry cfg) (fst (fn (attempts fn i s))) = Inr True"
    and "fn (attempts fn k s) = (out, s')" and "any_wanted (rt_retry cfg) out = Inr False"
  shows "T cfg fn s = (out, s')"
proof -
  obtain m where "retry_run cfg fn 1 s m (T cfg fn s)"
    using tenacity_run [OF assms(1)] assms(2) by (metis list.distinct(1))
  then have "retry_run cfg fn (1 + k) (attempts fn k s) m (T cfg fn s)"
    by (rule retry_run_persists) (use assms in auto)
  from retry_run_first [OF this assms(5,6)] show ?thesis .
qed

lemma tenacity_exhausted:
  assumes "tenacity_ok T" and "rt_stop cfg = [StopAfterAttempt (int (Suc k))]"
    and "\<And>i. i \<le> k \<Longrightarrow> any_wanted (rt_retry cfg) (fst (fn (attempts fn i s))) = Inr True"
    and "fn (attempts fn k s) = (out, s')"
  shows "\<exists>nm. T cfg fn s = (Inl (give_up cfg out nm), s')"
proof -
  obtain m where "retry_run cfg fn 1 s m (T cfg fn s)"
    using tenacity_run [OF assms(1)] assms(2) by (metis list.distinct(1))
  then have "retry_run cfg fn (1 + k) (attempts fn k s) m (T cfg fn s)"
    by (rule retry_run_persists) (use assms in auto)
  moreover have "any_wanted (rt_retry cfg) out = Inr True"
    using assms(3) [of k] assms(4) by simp
  ultimately show ?thesis
    by (cases rule: retry_run.cases) (use assms(2,4) in auto)
qed

text \<open>
  The whole shape of a call that ends at attempt \<open>m\<close>: all earlier outcomes asked for a retry, and
  the last one decides.
\<close>

lemma retry_run_shape:
  "retry_run cfg fn n s m r \<Longrightarrow> n \<le> m
    \<and> (\<forall>i < m - n. any_wanted (rt_retry cfg) (fst (fn (attempts fn i s))) = Inr True)
    \<and> (\<exists>out. fn (attempts fn (m - n) s) = (out, snd r)
        \<and> (fst r = out \<and> any_wanted (rt_retry cfg) out = Inr False
          \<or> (\<exists>e. fst r = Inl e \<and> (any_wanted (rt_retry cfg) out = Inl e
              \<or> any_wanted (rt_retry cfg) out = Inr True \<and> (\<exists>nm. e = give_up cfg out nm)))))"
proof (induction rule: retry_run.induct)
  case (again s out s' n m r)
  from again.IH have "Suc n \<le> m" by blast
  then have diff: "m - n = Suc (m - Suc n)" by linarith
  have all: "any_wanted (rt_retry cfg) (fst (fn (attempts fn i s))) = Inr True" if "i < m - n" for i
    using that again by (cases i) (auto simp: diff)
  from again diff all show ?case by auto
qed auto

lemma attempts_invariant:
  assumes "I s" and "\<And>s r s'. I s \<Longrightarrow> fn s = (r, s') \<Longrightarrow> I s'"
  shows "I (attempts fn k s)"
  using assms(1)
proof (induction k arbitrary: s)
  case (Suc k)
  then show ?case using assms(2) by (metis attempts.simps(2) prod.collapse)
qed simp

lemma attempts_Suc_end: "attempts fn (Suc k) s = snd (fn (attempts fn k s))"
  by (induction k arbitrary: s) simp_all

section \<open>Properties\<close>

text \<open>
  The outcome of an attempt is retried exactly when it is an exception of the listed classes,
  or a result that the check refuses; a check that raises one of the listed exceptions refuses,
  and any other exception of the check ends the call.
\<close>

theorem retry_conditions_meaning:
  "any_wanted (build_retry_conditions (Some cs) check_result) out =
     (case out of
        Inl e \<Rightarrow> Inr (isinstance e cs)
      | Inr v \<Rightarrow> (case check_result of
            None \<Rightarrow> Inr False
          | Some f \<Rightarrow> (case f v of
                Inr b \<Rightarrow> Inr (\<not> b)
              | Inl e \<Rightarrow> if isinstance e cs then Inr True else Inl e)))"
  by (auto simp: build_retry_conditions_def safe_check_result_def Let_def ebind_def
      split: sum.splits option.splits)

text \<open>
  A constant retryer can be built exactly when an attempt limit or a timeout is given, and
  then it has a stop condition, so that the library gives up at some point.
\<close>

lemma constant_retryer_stops:
  "(\<exists>cfg. constant_retryer w n timeout excs chk note = Inr cfg \<and> rt_stop cfg \<noteq> [])
     \<longleftrightarrow> n \<ge> 1 \<or> timeout \<noteq> None"
  by (auto simp: constant_retryer_def split: option.splits)

text \<open>
  When all attempts of a retryer limited to \<open>k + 1\<close> attempts raise exceptions it retries, the
  call raises a \<open>RetryError\<close> that holds the exception of the last attempt and the limit.
\<close>

theorem attempts_exhausted:
  assumes "tenacity_ok T"
    and "\<And>i. i \<le> k \<Longrightarrow> \<exists>e. fst (fn (attempts fn i s)) = Inl e \<and> p e"
    and "fn (attempts fn k s) = (Inl e, s')"
  shows "\<exists>nm. T (exponential_retryer_with_attempts wmin wmax (int (Suc k)) None (Some p)) fn s
    = (Inl (RetryError (Inl e) (RetryInfo nm None (int (Suc k)) False [])), s')"
proof -
  let ?cfg = "exponential_retryer_with_attempts wmin wmax (int (Suc k)) None (Some p)"
  have "\<exists>nm. T ?cfg fn s = (Inl (give_up ?cfg (Inl e) nm), s')"
  proof (rule tenacity_exhausted [where T = T and fn = fn and s = s and k = k])
    show "rt_stop ?cfg = [StopAfterAttempt (int (Suc k))]"
      by (simp add: exponential_retryer_with_attempts_def Let_def)
    show "any_wanted (rt_retry ?cfg) (fst (fn (attempts fn i s))) = Inr True" if "i \<le> k" for i
      using assms(2) [OF that] by (auto simp: exponential_retryer_with_attempts_def Let_def)
  qed (use assms(1,3) in simp_all)
  then show ?thesis
    by (simp add: give_up_def exponential_retryer_with_attempts_def Let_def on_error_callback_def)
qed

theorem attempts_exhausted_witness:
  "\<exists>nm. simple_retryer 0 (exponential_retryer_with_attempts 1 10 (int (Suc 2)) None (Some (\<lambda>e. True)))
       (\<lambda>n::nat. (Inl (ValueError []), Suc n)) 0
     = (Inl (RetryError (Inl (ValueError [])) (RetryInfo nm None (int (Suc 2)) False [])), 3)"
  by (rule attempts_exhausted [OF simple_retryer_ok]) (simp_all add: eval_nat_numeral)

end
