(* ===== verification/GcpApi.thy ===== *)
theory GcpApi
  imports Retryers
begin

text \<open>
  framework/infrastructure/gcp/api.py: the base classes of the service clients. What is outside
  the repository is the environment \<open>env\<close>: what a service answers to a request (it may depend on
  all requests sent before), the tenacity library, and the random values.
\<close>

record env =
  http :: "world \<Rightarrow> request \<Rightarrow> exn + json"
  tenacity :: "retrying \<Rightarrow> (world, json) act \<Rightarrow> (world, json) act"
  uuid4 :: "world \<Rightarrow> string"
  randint :: "world \<Rightarrow> int \<Rightarrow> int \<Rightarrow> int"
  parse_code :: "json \<Rightarrow> int"   \<comment> \<open>error code of an operation response, as protobuf parses it\<close>
  str_value :: "json \<Rightarrow> string" \<comment> \<open>str() of a decoded value that is not a string\<close>

text \<open>\<open>request.execute()\<close>: one attempt, recorded in the world.\<close>

definition execute_once :: "env \<Rightarrow> request \<Rightarrow> (world, json) act" where
  "execute_once E r = (\<lambda>w. (http E w r, w @ [r]))"

definition text_value :: "env \<Rightarrow> json \<Rightarrow> string" where
  "text_value E v = (case v of JStr s \<Rightarrow> s | _ \<Rightarrow> str_value E v)"

section \<open>Errors\<close>

text \<open>\<open>ResponseError\<close>: the status of the cause, absent when it is zero; \<open>OperationError\<close>: its code.\<close>

definition response_error_status :: "exn \<Rightarrow> int option" where
  "response_error_status cause =
     (case cause of HttpError st _ \<Rightarrow> if st \<noteq> 0 then Some st else None | _ \<Rightarrow> None)"

text \<open>\<open>ResponseError(cause)\<close> asks its cause for the reason, which only an HTTP error has.\<close>

definition response_error :: "exn option \<Rightarrow> exn" where
  "response_error cause =
     (case cause of Some (HttpError st reason) \<Rightarrow> ResponseError (HttpError st reason)
      | _ \<Rightarrow> AttributeError ''_get_reason'')"

text \<open>Removes \<open>metadata\<close> from the response before it is parsed.\<close>

definition operation_error :: "string \<Rightarrow> json \<Rightarrow> exn" where
  "operation_error api_name response =
     OperationError api_name
       (case response of JObj kvs \<Rightarrow> JObj (filter (\<lambda>kv. fst kv \<noteq> ''metadata'') kvs) | _ \<Rightarrow> response)"

section \<open>GcpProjectApiResource\<close>

definition transport_errors :: "exn_class list" where
  "transport_errors = [CHttpLib2Error, CConnectionError, CSSLError]"

definition gcp_api_retries :: int where
  "gcp_api_retries = 10"

definition wait_for_operation_sec :: int where
  "wait_for_operation_sec = 60 * 10"

definition wait_fixed_sec :: int where
  "wait_fixed_sec = 2"

definition is_retryable_api_error :: "exn \<Rightarrow> bool" where
  "is_retryable_api_error err =
     (if isinstance err transport_errors then True
      else case err of HttpError st _ \<Rightarrow> st \<in> {429, 500, 502, 503, 504} | _ \<Rightarrow> False)"

definition get_api_retryer :: "int option \<Rightarrow> retrying" where
  "get_api_retryer num_retries =
     (let n = (case num_retries of None \<Rightarrow> gcp_api_retries | Some k \<Rightarrow> k)
      in exponential_retryer_with_attempts 1 10 (n + 1) None (Some is_retryable_api_error))"

text \<open>\<open>retryer(request.execute, num_retries=0)\<close> with the default number of retries.\<close>

definition retried :: "env \<Rightarrow> request \<Rightarrow> (world, json) act" where
  "retried E r = tenacity E (get_api_retryer None) (execute_once E r)"

text \<open>
  The immediate request: a \<open>RetryError\<close> is replaced by the exception of its last attempt, and
  transport and HTTP errors are wrapped. Anything else goes through.
\<close>

definition api_error :: "exn option \<Rightarrow> exn" where
  "api_error err =
     (case err of
        Some e \<Rightarrow> if isinstance e transport_errors then TransportError e else response_error (Some e)
      | None \<Rightarrow> response_error None)"

definition project_execute :: "env \<Rightarrow> int option \<Rightarrow> request \<Rightarrow> (world, json) act" where
  "project_execute E num_retries r =
     try_except (tenacity E (get_api_retryer num_retries) (execute_once E r))
       (\<lambda>e. isinstance e [CRetryError] \<or> isinstance e (transport_errors @ [CHttpError]))
       (\<lambda>e. raise (api_error (case e of
          RetryError last_attempt info \<Rightarrow> retry_error_exception last_attempt None
        | _ \<Rightarrow> Some e)))"

definition operation_retryer :: "(json \<Rightarrow> exn + bool) \<Rightarrow> int \<Rightarrow> int \<Rightarrow> retrying" where
  "operation_retryer test_success_fn timeout_sec wait_sec =
     Retrying [RetryIfNotResult test_success_fn, RetryIfExceptionType [CException]]
       (WaitFixed wait_sec) [StopAfterDelay timeout_sec] None True"

definition wait_for_operation ::
  "env \<Rightarrow> request \<Rightarrow> (json \<Rightarrow> exn + bool) \<Rightarrow> int \<Rightarrow> int \<Rightarrow> (world, json) act" where
  "wait_for_operation E operation_request test_success_fn timeout_sec wait_sec =
     tenacity E (operation_retryer test_success_fn timeout_sec wait_sec)
       (execute_once E operation_request)"

section \<open>GcpStandardCloudApiResource\<close>

text \<open>The name of the API and the project of a client.\<close>

record std_api =
  sa_name :: string
  sa_project :: string

definition parent_of :: "std_api \<Rightarrow> string option \<Rightarrow> string" where
  "parent_of api location =
     ''projects/'' @ sa_project api @ ''/locations/'' @
     (case location of None \<Rightarrow> ''global'' | Some l \<Rightarrow> l)"

definition resource_full_name :: "std_api \<Rightarrow> string \<Rightarrow> string \<Rightarrow> string option \<Rightarrow> string" where
  "resource_full_name api nm collection_name location =
     parent_of api location @ ''/'' @ collection_name @ ''/'' @ nm"

definition std_operation_status_done :: "json \<Rightarrow> exn + bool" where
  "std_operation_status_done operation =
     ebind (get_default operation ''done'' JNull) (\<lambda>v. Inr (py_truth v))"

definition std_wait :: "env \<Rightarrow> std_api \<Rightarrow> json \<Rightarrow> int \<Rightarrow> (world, unit) act" where
  "std_wait E api operation_id timeout_sec =
     bind (wait_for_operation E
             (Request (sa_name api) ''projects.locations.operations'' ''get'' [(''name'', operation_id)] [])
             std_operation_status_done timeout_sec wait_fixed_sec)
       (\<lambda>operation. bind (lift (contains ''error'' operation))
          (\<lambda>failed. if failed then raise (operation_error (sa_name api) operation) else return ()))"

definition std_execute :: "env \<Rightarrow> std_api \<Rightarrow> int \<Rightarrow> request \<Rightarrow> (world, unit) act" where
  "std_execute E api timeout_sec r =
     bind (retried E r)
       (\<lambda>operation. bind (lift (getitem operation ''name''))
          (\<lambda>operation_id. std_wait E api operation_id timeout_sec))"

text \<open>
  The methods of the subclasses call their own \<open>_execute\<close>, which the argument \<open>exec\<close> stands for.
\<close>

definition std_create_resource ::
  "(request \<Rightarrow> (world, unit) act) \<Rightarrow> std_api \<Rightarrow> string \<Rightarrow> json \<Rightarrow> string option
     \<Rightarrow> (string \<times> json) list \<Rightarrow> (world, unit) act" where
  "std_create_resource exec api collection body location kwargs =
     exec (Request (sa_name api) collection ''create''
       ([(''parent'', JStr (parent_of api location)), (''body'', body)] @ kwargs) [])"

definition std_get_resource :: "env \<Rightarrow> std_api \<Rightarrow> string \<Rightarrow> string \<Rightarrow> (world, json) act" where
  "std_get_resource E api collection full_name =
     retried E (Request (sa_name api) collection ''get'' [(''name'', JStr full_name)] [])"

definition std_delete_resource ::
  "(request \<Rightarrow> (world, unit) act) \<Rightarrow> std_api \<Rightarrow> string \<Rightarrow> string \<Rightarrow> (world, bool) act" where
  "std_delete_resource exec api collection full_name =
     try_except
       (bind (exec (Request (sa_name api) collection ''delete'' [(''name'', JStr full_name)] []))
          (\<lambda>_. return True))
       (\<lambda>e. isinstance e [CHttpError])
       (\<lambda>e. return False)"

section \<open>Lemmas: one request with retries\<close>

text \<open>What the framework relies on: tenacity behaves as documented.\<close>

definition env_ok :: "env \<Rightarrow> bool" where
  "env_ok E \<longleftrightarrow> tenacity_ok (tenacity E)"

text \<open>The documented errors of \<open>HttpRequest.execute\<close>.\<close>

definition http_raises_api_errors :: "env \<Rightarrow> bool" where
  "http_raises_api_errors E \<longleftrightarrow>
     (\<forall>w r e. http E w r = Inl e \<longrightarrow> isinstance e (transport_errors @ [CHttpError]))"

lemma api_retryer_simps [simp]:
  "rt_stop (get_api_retryer n) = [StopAfterAttempt ((case n of None \<Rightarrow> gcp_api_retries | Some k \<Rightarrow> k) + 1)]"
  "any_wanted (rt_retry (get_api_retryer n)) (Inr v) = Inr False"
  "any_wanted (rt_retry (get_api_retryer n)) (Inl e) = Inr (is_retryable_api_error e)"
  "give_up (get_api_retryer n) out nm = RetryError out (RetryInfo nm None
     ((case n of None \<Rightarrow> gcp_api_retries | Some k \<Rightarrow> k) + 1) False [])"
  by (simp_all add: get_api_retryer_def exponential_retryer_with_attempts_def Let_def give_up_def
      on_error_callback_def)

lemma operation_retryer_simps [simp]:
  "rt_stop (operation_retryer f t s) = [StopAfterDelay t]"
  "any_wanted (rt_retry (operation_retryer f t s)) (Inr v) = ebind (f v) (\<lambda>b. Inr (\<not> b))"
  "any_wanted (rt_retry (operation_retryer f t s)) (Inl e) = Inr (e \<noteq> Diverges)"
  by (cases "f v"; auto simp: operation_retryer_def ebind_def)+

lemma execute_once_apply [act_simps]: "execute_once E r w = (http E w r, w @ [r])"
  by (simp add: execute_once_def)

lemma emits_execute_once [emits_intros]: "P r \<Longrightarrow> emits (\<lambda>w. w) P (execute_once E r)"
  by (simp add: emits_def execute_once_def)

lemma emits_tenacity:
  assumes "env_ok E" and "rt_stop cfg \<noteq> []" and "emits (\<lambda>w. w) P fn"
  shows "emits (\<lambda>w. w) P (tenacity E cfg fn)"
  using tenacity_emits [of "tenacity E" cfg "\<lambda>w. w" P fn] assms by (simp add: env_ok_def)

lemma emits_retried [emits_intros]: "env_ok E \<Longrightarrow> P r \<Longrightarrow> emits (\<lambda>w. w) P (retried E r)"
  unfolding retried_def by (rule emits_tenacity) (simp_all add: emits_execute_once)

lemma emits_wait_for_operation [emits_intros]:
  "env_ok E \<Longrightarrow> P r \<Longrightarrow> emits (\<lambda>w. w) P (wait_for_operation E r f t s)"
  unfolding wait_for_operation_def by (rule emits_tenacity) (simp_all add: emits_execute_once)

lemma emits_project_execute [emits_intros]:
  assumes "env_ok E" and "P r"
  shows "emits (\<lambda>w. w) P (project_execute E n r)"
proof -
  have T: "emits (\<lambda>w. w) P (tenacity E (get_api_retryer n) (execute_once E r))"
    by (rule emits_tenacity) (simp_all add: assms emits_execute_once)
  show ?thesis
    unfolding project_execute_def by (rule emits_try [OF T emits_pure(2)])
qed

lemma env_first:
  "env_ok E \<Longrightarrow> rt_stop cfg \<noteq> [] \<Longrightarrow> fn s = (out, s') \<Longrightarrow> any_wanted (rt_retry cfg) out = Inr False
    \<Longrightarrow> tenacity E cfg fn s = (out, s')"
  unfolding env_ok_def by (rule tenacity_first [where T = "tenacity E"])

lemma env_after:
  "env_ok E \<Longrightarrow> rt_stop cfg = [StopAfterAttempt lim] \<Longrightarrow> int k < lim
    \<Longrightarrow> (\<And>i. i < k \<Longrightarrow> any_wanted (rt_retry cfg) (fst (fn (attempts fn i s))) = Inr True)
    \<Longrightarrow> fn (attempts fn k s) = (out, s') \<Longrightarrow> any_wanted (rt_retry cfg) out = Inr False
    \<Longrightarrow> tenacity E cfg fn s = (out, s')"
  unfolding env_ok_def by (rule tenacity_after [where T = "tenacity E"])

lemma retried_first:
  assumes "env_ok E" and "http E w r = out" and "\<And>e. out = Inl e \<Longrightarrow> \<not> is_retryable_api_error e"
  shows "retried E r w = (out, w @ [r])"
proof -
  have "any_wanted (rt_retry (get_api_retryer None)) out = Inr False"
    using assms(3) by (cases out) auto
  with assms show ?thesis
    unfolding retried_def by (intro env_first) (auto simp: act_simps)
qed

lemma retried_value:
  assumes "env_ok E" and "retried E r w = (Inr v, w')"
  obtains h where "http E h r = Inr v" and "w' = h @ [r]"
proof -
  have "tenacity_ok (tenacity E)" using assms(1) by (simp add: env_ok_def)
  from tenacity_value [OF this _ assms(2) [unfolded retried_def]]
  obtain h where "execute_once E r h = (Inr v, w')" by auto
  with that show thesis by (auto simp: execute_once_apply)
qed

lemma retried_error:
  assumes "env_ok E" and "retried E r w = (Inl e, w')"
  obtains (raised) h where "http E h r = Inl e" and "\<not> is_retryable_api_error e" and "w' = h @ [r]"
  | (gave_up) h e0 info where "http E h r = Inl e0" and "is_retryable_api_error e0"
      and "e = RetryError (Inl e0) info" and "w' = h @ [r]"
proof -
  have ok: "tenacity_ok (tenacity E)" using assms(1) by (simp add: env_ok_def)
  have stop: "rt_stop (get_api_retryer None) \<noteq> []" by simp
  show thesis
  proof (rule tenacity_error [OF ok stop assms(2) [unfolded retried_def]], goal_cases)
    case (1 s0)
    with that(1) show thesis by (auto simp: execute_once_apply)
  next
    case (2 s0 out)
    then show thesis by (cases out) auto
  next
    case (3 s0 out nm)
    with that(2) show thesis by (cases out) (auto simp: execute_once_apply)
  qed
qed

lemma attempts_execute_once:
  "attempts (execute_once E r) k w = w @ replicate k r"
  by (induction k arbitrary: w) (simp_all add: execute_once_apply replicate_append_same [symmetric])

lemma retried_after:
  assumes "env_ok E" and "int k \<le> gcp_api_retries"
    and "\<And>i. i < k \<Longrightarrow> \<exists>e. http E (w @ replicate i r) r = Inl e \<and> is_retryable_api_error e"
    and "http E (w @ replicate k r) r = out"
    and "\<And>e. out = Inl e \<Longrightarrow> \<not> is_retryable_api_error e"
  shows "retried E r w = (out, w @ replicate (Suc k) r)"
proof -
  let ?cfg = "get_api_retryer None" and ?fn = "execute_once E r"
  have stop: "rt_stop ?cfg = [StopAfterAttempt (gcp_api_retries + 1)]" by simp
  have again: "any_wanted (rt_retry ?cfg) (fst (?fn (attempts ?fn i w))) = Inr True" if "i < k" for i
    using assms(3) [OF that] by (auto simp: attempts_execute_once execute_once_apply)
  have final: "?fn (attempts ?fn k w) = (out, w @ replicate (Suc k) r)"
    using assms(4) by (simp add: attempts_execute_once execute_once_apply replicate_append_same)
  have "any_wanted (rt_retry ?cfg) out = Inr False"
    using assms(5) by (cases out) auto
  with assms(2) show ?thesis
    unfolding retried_def by (intro env_after [where fn = ?fn and k = k, OF assms(1) stop _ again final]) simp_all
qed

lemma wait_value:
  assumes "env_ok E" and "wait_for_operation E r f t s w = (Inr v, w')"
  shows "f v = Inr True"
proof -
  have "tenacity_ok (tenacity E)" using assms(1) by (simp add: env_ok_def)
  from tenacity_value [OF this _ assms(2) [unfolded wait_for_operation_def]]
  have "ebind (f v) (\<lambda>b. Inr (\<not> b)) = Inr False" by auto
  then show ?thesis by (cases "f v") auto
qed

lemma wait_first:
  assumes "env_ok E" and "http E w r = Inr v" and "f v = Inr True"
  shows "wait_for_operation E r f t s w = (Inr v, w @ [r])"
  using assms unfolding wait_for_operation_def
  by (intro env_first) (auto simp: act_simps)

text \<open>
  The exception of a failed wait is the poll's own (\<open>reraise=True\<close>), the one of the success test,
  or tenacity's own error when the last poll answered without success.
\<close>

lemma wait_error:
  assumes "env_ok E" and "wait_for_operation E r f t s w = (Inl e, w')"
  obtains (raised) h where "http E h r = Inl e"
  | (check) v where "f v = Inl e"
  | (timeout) v where "e = TenacityRetryError (Inr v)" and "f v = Inr False"
proof -
  have ok: "tenacity_ok (tenacity E)" using assms(1) by (simp add: env_ok_def)
  have stop: "rt_stop (operation_retryer f t s) \<noteq> []" by simp
  show thesis
  proof (rule tenacity_error [OF ok stop assms(2) [unfolded wait_for_operation_def]], goal_cases)
    case (1 s0)
    with that(1) show thesis by (auto simp: execute_once_apply)
  next
    case (2 s0 out)
    then obtain v where "out = Inr v" and "f v = Inl e"
      by (cases out) (auto simp: ebind_def split: sum.splits)
    with that(2) show thesis by blast
  next
    case (3 s0 out nm)
    show thesis
    proof (cases out)
      case (Inl e0)
      with 3 that(1) show thesis
        by (auto simp: execute_once_apply give_up_def operation_retryer_def)
    next
      case (Inr v)
      with 3 have "f v = Inr False" by (auto simp: ebind_Inr_iff)
      moreover from 3 Inr have "e = TenacityRetryError (Inr v)"
        by (simp add: give_up_def operation_retryer_def)
      ultimately show thesis using that(3) by blast
    qed
  qed
qed

text \<open>
  The immediate request wraps every API error, with or without retries used up.
\<close>

lemma project_execute_value:
  assumes "project_execute E n r w = (Inr v, w')"
  shows "tenacity E (get_api_retryer n) (execute_once E r) w = (Inr v, w')"
proof -
  obtain out w1 where T: "tenacity E (get_api_retryer n) (execute_once E r) w = (out, w1)"
    by fastforce
  with assms show ?thesis
    by (cases out) (auto simp: project_execute_def try_except_def raise_def split: if_splits)
qed

lemma isinstance_api_error:
  assumes "isinstance e (transport_errors @ [CHttpError])"
  obtains (transport) "isinstance e transport_errors" "is_retryable_api_error e"
  | (status) st reason where "e = HttpError st reason"
proof (cases e)
  case (HttpError st reason)
  with that(2) show ?thesis by blast
qed (use assms that(1) in \<open>auto simp: transport_errors_def is_retryable_api_error_def\<close>)

lemma project_execute_first:
  assumes "env_ok E" and "http E w r = Inr v"
  shows "project_execute E n r w = (Inr v, w @ [r])"
proof -
  have "tenacity E (get_api_retryer n) (execute_once E r) w = (Inr v, w @ [r])"
    by (rule env_first [OF assms(1)]) (simp_all add: execute_once_apply assms(2))
  then show ?thesis by (simp add: project_execute_def try_except_def)
qed

lemma project_execute_http_error:
  assumes "env_ok E" and "http E w r = Inl (HttpError st reason)"
    and "\<not> is_retryable_api_error (HttpError st reason)"
  shows "project_execute E n r w = (Inl (ResponseError (HttpError st reason)), w @ [r])"
proof -
  have "tenacity E (get_api_retryer n) (execute_once E r) w = (Inl (HttpError st reason), w @ [r])"
    by (rule env_first [OF assms(1)]) (simp_all add: execute_once_apply assms(2,3))
  then show ?thesis
    by (simp add: project_execute_def try_except_def raise_def api_error_def response_error_def
        isinstance_def transport_errors_def)
qed

lemma project_execute_answer:
  assumes "env_ok E" and "project_execute E n r w = (Inr v, w')"
  obtains h where "http E h r = Inr v"
proof -
  have "tenacity_ok (tenacity E)" using assms(1) by (simp add: env_ok_def)
  from tenacity_value [OF this _ project_execute_value [OF assms(2)]]
  obtain h where "execute_once E r h = (Inr v, w')" by auto
  with that show thesis by (auto simp: execute_once_apply)
qed

section \<open>Lemmas: standard API resources\<close>

text \<open>The requests an operation wait polls with.\<close>

definition std_poll :: "std_api \<Rightarrow> request \<Rightarrow> bool" where
  "std_poll api q \<longleftrightarrow> rq_service q = sa_name api \<and>
     rq_collection q = ''projects.locations.operations'' \<and> rq_method q = ''get''"

lemma emits_std_wait:
  assumes "env_ok E" and "\<And>q. std_poll api q \<Longrightarrow> P q"
  shows "emits (\<lambda>w. w) P (std_wait E api i t)"
  unfolding std_wait_def
  by (intro emits_bind emits_wait_for_operation emits_pure emits_if assms) (simp add: std_poll_def)

lemma emits_std_execute:
  assumes "env_ok E" and "P r" and "\<And>q. std_poll api q \<Longrightarrow> P q"
  shows "emits (\<lambda>w. w) P (std_execute E api t r)"
  unfolding std_execute_def
  by (intro emits_bind emits_retried emits_pure emits_std_wait assms)

lemma emits_std_create:
  assumes "\<And>q. rq_collection q = collection \<Longrightarrow> rq_method q = ''create'' \<Longrightarrow> emits pr P (exec q)"
  shows "emits pr P (std_create_resource exec api collection body location kwargs)"
  unfolding std_create_resource_def by (rule assms) simp_all

lemma emits_std_delete:
  assumes "emits (\<lambda>w. w) P
     (exec (Request (sa_name api) collection ''delete'' [(''name'', JStr full_name)] []))"
  shows "emits (\<lambda>w. w) P (std_delete_resource exec api collection full_name)"
  unfolding std_delete_resource_def by (intro emits_try emits_bind emits_pure assms)

lemma emits_std_get:
  "env_ok E \<Longrightarrow> (\<And>q. rq_collection q = collection \<Longrightarrow> rq_method q = ''get'' \<Longrightarrow> P q)
    \<Longrightarrow> emits (\<lambda>w. w) P (std_get_resource E api collection full_name)"
  unfolding std_get_resource_def by (intro emits_retried) simp_all

text \<open>A create, update or delete that returns was seen to be done, without an error.\<close>

lemma std_execute_done:
  assumes "env_ok E" and "std_execute E api t r w = (Inr (), w')"
  obtains h op i poll where "http E h r = Inr op" and "getitem op ''name'' = Inr i"
    and "std_operation_status_done poll = Inr True" and "contains ''error'' poll = Inr False"
proof -
  obtain op w1 i where op: "retried E r w = (Inr op, w1)" "getitem op ''name'' = Inr i"
    and wait: "std_wait E api i t w1 = (Inr (), w')"
    using assms(2) by (auto simp: std_execute_def bind_eq_Inr lift_def)
  from assms(1) op(1) obtain h where h: "http E h r = Inr op" by (rule retried_value)
  from wait obtain poll w2 where poll: "wait_for_operation E
      (Request (sa_name api) ''projects.locations.operations'' ''get'' [(''name'', i)] [])
      std_operation_status_done t wait_fixed_sec w1 = (Inr poll, w2)"
    and no_error: "contains ''error'' poll = Inr False"
    by (auto simp: std_wait_def bind_eq_Inr lift_def raise_def split: if_splits)
  from wait_value [OF assms(1) poll] h op(2) no_error that show thesis by blast
qed

lemma std_execute_first:
  assumes "env_ok E" and "http E w r = Inr op" and "getitem op ''name'' = Inr i"
    and "http E (w @ [r]) (Request (sa_name api) ''projects.locations.operations'' ''get'' [(''name'', i)] [])
           = Inr poll"
    and "std_operation_status_done poll = Inr True" and "contains ''error'' poll = Inr False"
  shows "std_execute E api t r w = (Inr (), w @ [r,
           Request (sa_name api) ''projects.locations.operations'' ''get'' [(''name'', i)] []])"
proof -
  have "retried E r w = (Inr op, w @ [r])"
    by (rule retried_first) (use assms in auto)
  moreover have "wait_for_operation E
      (Request (sa_name api) ''projects.locations.operations'' ''get'' [(''name'', i)] [])
      std_operation_status_done t wait_fixed_sec (w @ [r])
      = (Inr poll, (w @ [r]) @ [Request (sa_name api) ''projects.locations.operations'' ''get'' [(''name'', i)] []])"
    by (rule wait_first) (use assms in auto)
  ultimately show ?thesis
    using assms(3,6) by (simp add: std_execute_def std_wait_def bind_def lift_def return_def)
qed

section \<open>The interface of a standard client\<close>

text \<open>A service in good order: it accepts every change, and its operations are done at the first poll.\<close>

definition serves_std :: "env \<Rightarrow> string \<Rightarrow> bool" where
  "serves_std E svc \<longleftrightarrow>
     (\<forall>w r. rq_service r = svc \<and> mutates r \<longrightarrow>
        (\<exists>resp i. http E w r = Inr resp \<and> getitem resp ''name'' = Inr i)) \<and>
     (\<forall>w r. rq_service r = svc \<and> rq_collection r = ''projects.locations.operations'' \<and>
        rq_method r = ''get'' \<longrightarrow>
        (\<exists>resp. http E w r = Inr resp \<and> std_operation_status_done resp = Inr True
           \<and> contains ''error'' resp = Inr False))"

definition create_request ::
  "std_api \<Rightarrow> string \<Rightarrow> json \<Rightarrow> string option \<Rightarrow> (string \<times> json) list \<Rightarrow> request" where
  "create_request api collection body location kwargs =
     Request (sa_name api) collection ''create''
       ([(''parent'', JStr (parent_of api location)), (''body'', body)] @ kwargs) []"

definition std_delete_request :: "std_api \<Rightarrow> string \<Rightarrow> string \<Rightarrow> request" where
  "std_delete_request api collection full_name =
     Request (sa_name api) collection ''delete'' [(''name'', JStr full_name)] []"

lemma create_request_simps [simp]:
  "mutates (create_request api coll body loc kw)"
  "rq_service (create_request api coll body loc kw) = sa_name api"
  "change_of (create_request api coll body loc ((k, v) # kw)) = (coll, ''create'', v)"
  by (simp_all add: create_request_def mutates_def change_of_def changed_name_def)

lemma std_delete_request_simps [simp]:
  "mutates (std_delete_request api coll n)"
  "rq_service (std_delete_request api coll n) = sa_name api"
  "change_of (std_delete_request api coll n) = (coll, ''delete'', JStr n)"
  by (simp_all add: std_delete_request_def mutates_def change_of_def changed_name_def)

lemma std_poll_not_mutates [simp]: "std_poll api q \<Longrightarrow> \<not> mutates q"
  by (auto simp: std_poll_def mutates_def)

text \<open>
  What the create and delete methods rely on: the \<open>_execute\<close> of their class sends the request it
  is given, and polls.
\<close>

locale std_client =
  fixes E :: env and api :: std_api and exec :: "request \<Rightarrow> (world, unit) act"
  assumes exec_emits: "env_ok E \<Longrightarrow> P r \<Longrightarrow> (\<And>q. std_poll api q \<Longrightarrow> P q) \<Longrightarrow> emits (\<lambda>w. w) P (exec r)"
    and exec_served: "env_ok E \<Longrightarrow> serves_std E (sa_name api) \<Longrightarrow> mutates r \<Longrightarrow> rq_service r = sa_name api
      \<Longrightarrow> \<exists>w'. exec r w = (Inr (), w') \<and> changes w' = changes w @ changes [r]"
    and exec_rejected: "env_ok E \<Longrightarrow> http E w r = Inl (HttpError st reason)
      \<Longrightarrow> \<not> is_retryable_api_error (HttpError st reason)
      \<Longrightarrow> exec r w = (Inl (HttpError st reason), w @ [r])"
begin

lemma create_emits:
  assumes "env_ok E"
  shows "emits (\<lambda>w. w) (\<lambda>q. mutates q \<longrightarrow> change_of q = (coll, ''create'', v))
           (std_create_resource exec api coll body loc ((k, v) # kw))"
  unfolding std_create_resource_def create_request_def [symmetric]
  by (rule exec_emits [OF assms]) simp_all

lemma create_served:
  assumes "env_ok E" and "serves_std E (sa_name api)"
  shows "\<exists>w'. std_create_resource exec api coll body loc ((k, v) # kw) w = (Inr (), w')
           \<and> changes w' = changes w @ [(coll, ''create'', v)]"
  unfolding std_create_resource_def create_request_def [symmetric]
  using exec_served [OF assms, of "create_request api coll body loc ((k, v) # kw)" w]
  by (simp add: changes_one)

lemma delete_emits:
  assumes "env_ok E"
  shows "emits (\<lambda>w. w) (\<lambda>q. mutates q \<longrightarrow> change_of q = (coll, ''delete'', JStr n))
           (std_delete_resource exec api coll n)"
  unfolding std_delete_resource_def std_delete_request_def [symmetric]
  by (intro emits_try emits_bind emits_pure exec_emits [OF assms]) simp_all

lemma delete_served:
  assumes "env_ok E" and "serves_std E (sa_name api)"
  shows "\<exists>w'. std_delete_resource exec api coll n w = (Inr True, w')
           \<and> changes w' = changes w @ [(coll, ''delete'', JStr n)]"
proof -
  obtain w' where "exec (std_delete_request api coll n) w = (Inr (), w')"
    and "changes w' = changes w @ changes [std_delete_request api coll n]"
    using exec_served [OF assms, of "std_delete_request api coll n"] by auto
  then show ?thesis
    by (simp add: std_delete_resource_def std_delete_request_def [symmetric] try_except_def bind_apply
        return_def changes_one)
qed

lemma delete_rejected:
  assumes "env_ok E" and "http E w (std_delete_request api coll n) = Inl (HttpError st reason)"
    and "\<not> is_retryable_api_error (HttpError st reason)"
  shows "std_delete_resource exec api coll n w = (Inr False, w @ [std_delete_request api coll n])"
  using exec_rejected [OF assms]
  by (simp add: std_delete_resource_def std_delete_request_def [symmetric] try_except_def bind_apply return_def)

text \<open>So the delete methods are delete operations a manager can rely on.\<close>

lemma is_deleter:
  "deleter (env_ok E) (serves_std E (sa_name api))
     (\<lambda>n. std_delete_resource exec api coll (full n)) (\<lambda>n. (coll, ''delete'', JStr (full n)))"
  by unfold_locales (rule delete_emits delete_served; assumption)+

end

lemma std_execute_served:
  assumes "env_ok E" and "serves_std E (sa_name api)" and "mutates r" and "rq_service r = sa_name api"
  shows "\<exists>w'. std_execute E api t r w = (Inr (), w') \<and> changes w' = changes w @ changes [r]"
proof -
  obtain op i where op: "http E w r = Inr op" "getitem op ''name'' = Inr i"
    using assms(2-4) unfolding serves_std_def by blast
  let ?p = "Request (sa_name api) ''projects.locations.operations'' ''get'' [(''name'', i)] []"
  obtain poll where poll: "http E (w @ [r]) ?p = Inr poll" "std_operation_status_done poll = Inr True"
    "contains ''error'' poll = Inr False"
    using assms(2) unfolding serves_std_def by (metis request.sel(1-3))
  have "\<not> mutates ?p" by (simp add: mutates_def)
  with std_execute_first [OF assms(1) op poll] show ?thesis
    by (auto simp: changes_Cons [of r] changes_one)
qed

lemma std_execute_rejected:
  assumes "env_ok E" and "http E w r = Inl (HttpError st reason)"
    and "\<not> is_retryable_api_error (HttpError st reason)"
  shows "std_execute E api t r w = (Inl (HttpError st reason), w @ [r])"
proof -
  have "retried E r w = (Inl (HttpError st reason), w @ [r])"
    using assms by (intro retried_first) auto
  then show ?thesis by (simp add: std_execute_def bind_apply)
qed

interpretation std: std_client E api "std_execute E api t" for E api t
  by unfold_locales (auto intro: emits_std_execute std_execute_served std_execute_rejected)

text \<open>
  The clients of the network APIs retry operations that failed with an internal error. Their
  loops share this form.
\<close>

definition throttle_retryer :: "(exn \<Rightarrow> bool) \<Rightarrow> retrying" where
  "throttle_retryer p = Retrying [RetryIfException p] (WaitFixed 10) [StopAfterDelay (5 * 60)] None True"

lemma throttled_emits:
  assumes "env_ok E" and "P r" and "\<And>q. std_poll api q \<Longrightarrow> P q"
  shows "emits (\<lambda>w. w) P (bind (tenacity E (throttle_retryer p)
           (bind (std_execute E api t r) (\<lambda>_. return JNull))) (\<lambda>_. return ()))"
  by (intro emits_bind emits_tenacity emits_std_execute emits_pure assms) (simp add: throttle_retryer_def)

lemma throttled_first:
  assumes "env_ok E" and "std_execute E api t r w = (Inr (), w')"
  shows "bind (tenacity E (throttle_retryer p) (bind (std_execute E api t r) (\<lambda>_. return JNull)))
           (\<lambda>_. return ()) w = (Inr (), w')"
proof -
  have "tenacity E (throttle_retryer p) (bind (std_execute E api t r) (\<lambda>_. return JNull)) w = (Inr JNull, w')"
    by (rule env_first [OF assms(1)]) (simp_all add: throttle_retryer_def bind_apply assms(2) return_def)
  then show ?thesis by (simp add: bind_apply return_def)
qed

lemma throttled_rejected:
  assumes "env_ok E" and "http E w r = Inl (HttpError st reason)"
    and "\<not> is_retryable_api_error (HttpError st reason)" and "\<not> p (HttpError st reason)"
  shows "bind (tenacity E (throttle_retryer p) (bind (std_execute E api t r) (\<lambda>_. return JNull)))
           (\<lambda>_. return ()) w = (Inl (HttpError st reason), w @ [r])"
proof -
  have "tenacity E (throttle_retryer p) (bind (std_execute E api t r) (\<lambda>_. return JNull)) w
      = (Inl (HttpError st reason), w @ [r])"
    by (rule env_first [OF assms(1)])
      (simp_all add: throttle_retryer_def bind_apply std_execute_rejected [OF assms(1-3)] assms(4))
  then show ?thesis by (simp add: bind_apply)
qed

section \<open>A concrete environment\<close>

text \<open>
  Services that accept every change, finish every operation at once and find nothing in a list,
  with the executable retryer of Retryers. It shows that the assumptions on the environment can
  hold together. \<open>with_answers\<close> replaces the answers of the services.
\<close>

definition demo_http :: "world \<Rightarrow> request \<Rightarrow> exn + json" where
  "demo_http w r =
     (if mutates r then Inr (JObj [(''name'', JStr ''operation-1'')])
      else if rq_method r = ''list'' then Inr (JObj [(''kind'', JStr ''compute#list'')])
      else Inr (JObj [(''name'', JStr ''operation-1''), (''status'', JStr ''DONE''),
                      (''done'', JBool True), (''targetLink'', JStr ''link''),
                      (''selfLink'', JStr ''link''), (''createTime'', JStr ''t0''),
                      (''updateTime'', JStr ''t1''), (''type'', JStr ''GRPC_SERVER''),
                      (''trafficPortSelector'', JObj []), (''endpointMatcher'', JObj [])]))"

definition demo_env :: env where
  "demo_env = \<lparr>http = demo_http, tenacity = simple_retryer 3, uuid4 = (\<lambda>w. str_nat (length w)),
     randint = (\<lambda>w lo hi. lo), parse_code = (\<lambda>j. 0), str_value = (\<lambda>j. [])\<rparr>"

definition with_answers :: "(world \<Rightarrow> request \<Rightarrow> exn + json) \<Rightarrow> env" where
  "with_answers h = demo_env\<lparr>http := h\<rparr>"

lemma demo_env_ok [simp]: "env_ok demo_env" "env_ok (with_answers h)"
  by (simp_all add: env_ok_def demo_env_def with_answers_def simple_retryer_ok)

lemma http_demo [simp]: "http demo_env = demo_http" "http (with_answers h) = h"
  by (simp_all add: demo_env_def with_answers_def)

lemma demo_retried: "retried demo_env r w = (demo_http w r, w @ [r])"
  by (rule retried_first) (auto simp: demo_http_def split: if_splits)

lemma demo_serves_std [simp]: "serves_std demo_env svc"
  by (auto simp: serves_std_def demo_http_def mutates_def std_operation_status_done_def)

section \<open>Properties\<close>

text \<open>
  C6: a request is retried over up to ten transient failures (transport errors and the statuses
  429, 500, 502, 503, 504), and the answer that follows is the answer of the call.
\<close>

theorem transient_failures_recover:
  assumes "env_ok E" and "int k \<le> gcp_api_retries"
    and "\<And>i. i < k \<Longrightarrow> \<exists>e. http E (w @ replicate i r) r = Inl e \<and> is_retryable_api_error e"
    and "http E (w @ replicate k r) r = Inr v"
  shows "retried E r w = (Inr v, w @ replicate (Suc k) r)"
  using assms by (intro retried_after) auto

definition flaky :: "nat \<Rightarrow> world \<Rightarrow> request \<Rightarrow> exn + json" where
  "flaky n w r = (if length w < n then Inl (HttpError 503 ''unavailable'') else Inr (JObj []))"

theorem transient_failures_recover_witness:
  "retried (with_answers (flaky 2)) (Request ''compute'' ''urlMaps'' ''get'' [] []) []
     = (Inr (JObj []), replicate 3 (Request ''compute'' ''urlMaps'' ''get'' [] []))"
  using transient_failures_recover [of "with_answers (flaky 2)" 2 "[]"
      "Request ''compute'' ''urlMaps'' ''get'' [] []" "JObj []"]
  by (simp add: flaky_def gcp_api_retries_def is_retryable_api_error_def isinstance_def transport_errors_def
      eval_nat_numeral)

text \<open>
  C7: whatever the service answers, a call with retries sends its request at least once and at
  most eleven times, and sends nothing else.
\<close>

theorem retries_bounded:
  assumes "env_ok E"
  shows "\<exists>m. 1 \<le> m \<and> int m \<le> gcp_api_retries + 1 \<and> snd (retried E r w) = w @ replicate m r"
proof -
  let ?cfg = "get_api_retryer None"
  have "tenacity_ok (tenacity E)" using assms by (simp add: env_ok_def)
  moreover have stop: "rt_stop ?cfg = [StopAfterAttempt (gcp_api_retries + 1)]" by simp
  ultimately obtain m where run: "retry_run ?cfg (execute_once E r) 1 w m (retried E r w)"
    unfolding retried_def by (metis tenacity_run list.distinct(1))
  have "1 \<le> m \<and> int m \<le> max 1 (gcp_api_retries + 1)"
    using retry_run_bound [OF run, of "gcp_api_retries + 1"] stop by (simp add: gcp_api_retries_def)
  moreover have "snd (retried E r w) = w @ replicate m r"
    using retry_run_attempts [OF run] calculation
    by (simp del: attempts.simps add: attempts_execute_once)
  ultimately show ?thesis by (auto simp: gcp_api_retries_def)
qed

theorem retries_bounded_witness:
  "\<exists>m. 1 \<le> m \<and> int m \<le> gcp_api_retries + 1 \<and>
     snd (retried demo_env (Request ''compute'' ''urlMaps'' ''get'' [] []) [])
       = [] @ replicate m (Request ''compute'' ''urlMaps'' ''get'' [] [])"
  by (rule retries_bounded [OF demo_env_ok(1), where w = "[]"])

text \<open>
  When the client library raises its documented errors, the immediate request of
  \<open>GcpProjectApiResource\<close> raises nothing but \<open>ResponseError\<close> around an HTTP error and
  \<open>TransportError\<close> around a transport error; the retry error never escapes.
\<close>

theorem project_execute_errors:
  assumes "env_ok E" and "http_raises_api_errors E" and "project_execute E n r w = (Inl e, w')"
  shows "(\<exists>st reason. e = ResponseError (HttpError st reason))
    \<or> (\<exists>cause. e = TransportError cause \<and> isinstance cause transport_errors)"
proof -
  let ?cfg = "get_api_retryer n"
  obtain out w1 where T: "tenacity E ?cfg (execute_once E r) w = (out, w1)" by fastforce
  have api: "isinstance x (transport_errors @ [CHttpError])" if "execute_once E r h = (Inl x, w2)" for x h w2
    using assms(2) that by (auto simp: http_raises_api_errors_def execute_once_apply)
  have wrapped: "(\<exists>st reason. api_error (Some x) = ResponseError (HttpError st reason))
    \<or> (\<exists>cause. api_error (Some x) = TransportError cause \<and> isinstance cause transport_errors)"
    if "isinstance x (transport_errors @ [CHttpError])" for x
    using that
    by (cases rule: isinstance_api_error) (auto simp: api_error_def response_error_def transport_errors_def)
  obtain x where out: "out = Inl x"
    using assms(3) T by (cases out) (auto simp: project_execute_def try_except_def)
  have ok: "tenacity_ok (tenacity E)" using assms(1) by (simp add: env_ok_def)
  have stop: "rt_stop ?cfg \<noteq> []" by simp
  note run = T [unfolded out]
  consider (plain) "isinstance x (transport_errors @ [CHttpError])"
    | (gave_up) x0 info where "x = RetryError (Inl x0) info" "isinstance x0 (transport_errors @ [CHttpError])"
  proof (rule tenacity_error [OF ok stop run], goal_cases)
    case (1 s0)
    with api that(1) show thesis by blast
  next
    case (2 s0 y)
    then show thesis by (cases y) auto
  next
    case (3 s0 y nm)
    with api that(2) show thesis by (cases y) auto
  qed
  then show ?thesis
  proof cases
    case plain
    then have "e = api_error (Some x)"
      using assms(3) run
      by (cases x) (auto simp: project_execute_def try_except_def raise_def isinstance_def transport_errors_def)
    with wrapped [OF plain] show ?thesis by simp
  next
    case gave_up
    then have "e = api_error (Some x0)"
      using assms(3) run
      by (auto simp: project_execute_def try_except_def raise_def retry_error_exception_def)
    with wrapped [OF gave_up(2)] show ?thesis by simp
  qed
qed

theorem project_execute_errors_witness:
  "(\<exists>st reason. ResponseError (HttpError 404 ''gone'') = ResponseError (HttpError st reason))
    \<or> (\<exists>cause. ResponseError (HttpError 404 ''gone'') = TransportError cause \<and> isinstance cause transport_errors)"
proof (rule project_execute_errors [where E = "with_answers (\<lambda>w r. Inl (HttpError 404 ''gone''))"
      and n = None and r = "Request ''iam'' ''projects'' ''get'' [] []" and w = "[]"])
  show "project_execute (with_answers (\<lambda>w r. Inl (HttpError 404 ''gone''))) None
      (Request ''iam'' ''projects'' ''get'' [] []) []
    = (Inl (ResponseError (HttpError 404 ''gone'')), [] @ [Request ''iam'' ''projects'' ''get'' [] []])"
    by (rule project_execute_http_error) (simp_all add: is_retryable_api_error_def transport_errors_def)
qed (simp_all add: http_raises_api_errors_def transport_errors_def)

text \<open>
  A create, update or delete of a standard API that returns had its request answered with an
  operation, and a poll of that operation showed it done without an error.
\<close>

theorem std_execute_waits:
  assumes "env_ok E" and "std_execute E api t r w = (Inr (), w')"
  shows "\<exists>h op i poll. http E h r = Inr op \<and> getitem op ''name'' = Inr i
    \<and> std_operation_status_done poll = Inr True \<and> contains ''error'' poll = Inr False"
  using std_execute_done [OF assms] by metis

theorem std_execute_waits_witness:
  "\<exists>h op i poll. http demo_env h (create_request \<lparr>sa_name = ''networkservices'', sa_project = ''p''\<rparr>
       ''meshes'' (JObj []) None []) = Inr op \<and> getitem op ''name'' = Inr i
    \<and> std_operation_status_done poll = Inr True \<and> contains ''error'' poll = Inr False"
proof -
  obtain w' where "std_execute demo_env \<lparr>sa_name = ''networkservices'', sa_project = ''p''\<rparr> 600
      (create_request \<lparr>sa_name = ''networkservices'', sa_project = ''p''\<rparr> ''meshes'' (JObj []) None []) []
    = (Inr (), w')"
    using std_execute_served [of demo_env "\<lparr>sa_name = ''networkservices'', sa_project = ''p''\<rparr>"
      "create_request \<lparr>sa_name = ''networkservices'', sa_project = ''p''\<rparr> ''meshes'' (JObj []) None []" 600 "[]"]
    by auto
  from std_execute_waits [OF _ this] show ?thesis by simp
qed

end
