(* ===== verification/Compute.thy ===== *)
theory Compute
  imports GcpApi
begin

text \<open>
  framework/infrastructure/gcp/compute.py: the Compute Engine client \<open>ComputeV1\<close>. Every method
  builds a request and runs it through the retried, operation-polling \<open>_execute\<close>.
\<close>

section \<open>Data\<close>

text \<open>
  The fields keep whatever the response holds, as the frozen dataclasses of the source do.
\<close>

record gcp_resource =
  name :: json
  url :: json

record zonal_gcp_resource = gcp_resource +
  zone :: json

record neg_gcp_resource = zonal_gcp_resource +
  neg_id :: json
  neg_size :: json
  network_endpoint_type :: json
  description :: json

definition GcpResource :: "json \<Rightarrow> json \<Rightarrow> gcp_resource" where
  "GcpResource n u = \<lparr>name = n, url = u\<rparr>"

datatype health_check_protocol = HC_TCP | HC_GRPC

datatype backend_service_protocol = BS_UNSET | BS_HTTP2 | BS_GRPC

fun hc_name :: "health_check_protocol \<Rightarrow> string" where
  "hc_name HC_TCP = ''TCP''"
| "hc_name HC_GRPC = ''GRPC''"

fun bs_name :: "backend_service_protocol \<Rightarrow> string" where
  "bs_name BS_UNSET = ''UNSET''"
| "bs_name BS_HTTP2 = ''HTTP2''"
| "bs_name BS_GRPC = ''GRPC''"

text \<open>The client: the project, and the debug header added to requests when it is set.\<close>

record compute =
  project :: string
  gfe_debug_header :: "string option"

definition wait_for_backend_sec :: int where
  "wait_for_backend_sec = 60 * 10"

definition wait_for_backend_sleep_sec :: int where
  "wait_for_backend_sleep_sec = 4"

section \<open>Executing requests\<close>

text \<open>\<open>if region: kwargs["region"] = region\<close>\<close>

definition region_arg :: "string option \<Rightarrow> (string \<times> json) list" where
  "region_arg region = (if set_str region then [(''region'', opt_str region)] else [])"

definition project_arg :: "compute \<Rightarrow> string \<times> json" where
  "project_arg c = (''project'', JStr (project c))"

definition compute_request :: "string \<Rightarrow> string \<Rightarrow> (string \<times> json) list \<Rightarrow> request" where
  "compute_request collection meth args = Request ''compute'' collection meth args []"

definition operation_status_done :: "json \<Rightarrow> exn + bool" where
  "operation_status_done operation =
     ebind (contains ''status'' operation)
       (\<lambda>has. if has then ebind (getitem operation ''status'') (\<lambda>st. Inr (st = JStr ''DONE''))
              else Inr False)"

definition poll_request :: "compute \<Rightarrow> json \<Rightarrow> string option \<Rightarrow> request" where
  "poll_request c operation_id region =
     compute_request (if set_str region then ''regionOperations'' else ''globalOperations'') ''get''
       ([project_arg c, (''operation'', operation_id)] @ region_arg region)"

definition compute_wait ::
  "env \<Rightarrow> compute \<Rightarrow> json \<Rightarrow> int \<Rightarrow> string option \<Rightarrow> (world, json) act" where
  "compute_wait E c operation_id timeout_sec region =
     bind (wait_for_operation E (poll_request c operation_id region) operation_status_done
             timeout_sec wait_fixed_sec)
       (\<lambda>operation. bind (lift (contains ''error'' operation))
          (\<lambda>failed. if failed then raise (operation_error ''compute'' operation)
                    else return operation))"

text \<open>The debug header is the flag's value; an empty one is not sent.\<close>

definition with_debug_header :: "compute \<Rightarrow> request \<Rightarrow> request" where
  "with_debug_header c r =
     (if set_str (gfe_debug_header c)
      then Request (rq_service r) (rq_collection r) (rq_method r) (rq_args r)
             (rq_headers r @ [(''X-Return-Encrypted-Headers'', opt_str (gfe_debug_header c))])
      else r)"

definition compute_execute ::
  "env \<Rightarrow> compute \<Rightarrow> request \<Rightarrow> int \<Rightarrow> string option \<Rightarrow> (world, json) act" where
  "compute_execute E c r timeout_sec region =
     bind (retried E (with_debug_header c r))
       (\<lambda>operation. bind (lift (getitem operation ''name''))
          (\<lambda>operation_id. compute_wait E c operation_id timeout_sec region))"

section \<open>Generic resource operations\<close>

definition get_resource ::
  "env \<Rightarrow> compute \<Rightarrow> string \<Rightarrow> string option \<Rightarrow> (string \<times> json) list \<Rightarrow> (world, gcp_resource) act" where
  "get_resource E c collection region kwargs =
     bind (retried E (compute_request collection ''get'' ([project_arg c] @ kwargs @ region_arg region)))
       (\<lambda>resp. bind (lift (getitem resp ''name''))
          (\<lambda>n. bind (lift (getitem resp ''selfLink'')) (\<lambda>u. return (GcpResource n u))))"

definition exists_resource ::
  "env \<Rightarrow> compute \<Rightarrow> string \<Rightarrow> string \<Rightarrow> string option \<Rightarrow> (world, json) act" where
  "exists_resource E c collection resource_filter region =
     bind (retried E (compute_request collection ''list''
            ([project_arg c, (''filter'', JStr resource_filter), (''maxResults'', JInt 1)] @ region_arg region)))
       (\<lambda>resp. bind (lift (contains ''kind'' resp))
          (\<lambda>has_kind.
             if \<not> has_kind then raise (ValueError ''List response \"kind\" is missing'')
             else bind (lift (contains ''items'' resp))
               (\<lambda>has_items. if has_items then lift (getitem resp ''items'') else return (JBool False))))"

definition insert_resource ::
  "env \<Rightarrow> compute \<Rightarrow> string \<Rightarrow> json \<Rightarrow> string option \<Rightarrow> (world, gcp_resource) act" where
  "insert_resource E c collection body region =
     bind get_state (\<lambda>w.
       bind (compute_execute E c
               (compute_request collection ''insert''
                 ([project_arg c, (''body'', body), (''requestId'', JStr (uuid4 E w))] @ region_arg region))
               wait_for_operation_sec region)
         (\<lambda>resp. bind (lift (getitem body ''name''))
            (\<lambda>n. bind (lift (getitem resp ''targetLink'')) (\<lambda>u. return (GcpResource n u)))))"

definition patch_resource ::
  "env \<Rightarrow> compute \<Rightarrow> string \<Rightarrow> json \<Rightarrow> string option \<Rightarrow> (string \<times> json) list \<Rightarrow> (world, unit) act" where
  "patch_resource E c collection body region kwargs =
     bind get_state (\<lambda>w.
       bind (compute_execute E c
               (compute_request collection ''patch''
                 ([project_arg c, (''body'', body), (''requestId'', JStr (uuid4 E w))] @ kwargs @ region_arg region))
               wait_for_operation_sec region)
         (\<lambda>_. return ()))"

definition list_resource :: "env \<Rightarrow> compute \<Rightarrow> string \<Rightarrow> (world, json) act" where
  "list_resource E c collection = retried E (compute_request collection ''list'' [project_arg c])"

text \<open>
  HTTP errors are logged and reported as \<open>False\<close>, a 404 at a lower level; all others propagate.
\<close>

definition delete_request ::
  "compute \<Rightarrow> string \<Rightarrow> string \<Rightarrow> json \<Rightarrow> string option \<Rightarrow> request" where
  "delete_request c collection resource_type resource_name region =
     compute_request collection ''delete''
       ([project_arg c, (resource_type, resource_name)] @ region_arg region)"

definition delete_resource ::
  "env \<Rightarrow> compute \<Rightarrow> string \<Rightarrow> string \<Rightarrow> json \<Rightarrow> string option \<Rightarrow> (world, bool) act" where
  "delete_resource E c collection resource_type resource_name region =
     try_except
       (bind (compute_execute E c (delete_request c collection resource_type resource_name region)
                wait_for_operation_sec region)
          (\<lambda>_. return True))
       (\<lambda>e. isinstance e [CHttpError])
       (\<lambda>e. return False)"

section \<open>Health checks and firewall rules\<close>

definition create_health_check ::
  "env \<Rightarrow> compute \<Rightarrow> json \<Rightarrow> health_check_protocol \<Rightarrow> int option \<Rightarrow> (world, gcp_resource) act" where
  "create_health_check E c nm protocol port =
     (let health_check_field = (case protocol of HC_TCP \<Rightarrow> ''tcpHealthCheck'' | HC_GRPC \<Rightarrow> ''grpcHealthCheck'');
          health_check_settings = JObj (case port of
              None \<Rightarrow> [(''portSpecification'', JStr ''USE_SERVING_PORT'')]
            | Some p \<Rightarrow> [(''portSpecification'', JStr ''USE_FIXED_PORT''), (''port'', JInt p)])
      in insert_resource E c ''healthChecks''
           (JObj [(''name'', nm), (''type'', JStr (hc_name protocol)), (health_check_field, health_check_settings)])
           None)"

definition list_health_check :: "env \<Rightarrow> compute \<Rightarrow> (world, json) act" where
  "list_health_check E c = list_resource E c ''healthChecks''"

definition delete_health_check :: "env \<Rightarrow> compute \<Rightarrow> json \<Rightarrow> (world, bool) act" where
  "delete_health_check E c nm = delete_resource E c ''healthChecks'' ''healthCheck'' nm None"

text \<open>A rule that already exists (409) is no error, but no resource is returned.\<close>

definition create_firewall_rule ::
  "env \<Rightarrow> compute \<Rightarrow> json \<Rightarrow> string \<Rightarrow> json \<Rightarrow> json \<Rightarrow> (world, gcp_resource option) act" where
  "create_firewall_rule E c nm network_url source_ranges ports =
     try_except
       (bind (insert_resource E c ''firewalls''
                (JObj [(''allowed'', JList [JObj [(''IPProtocol'', JStr ''tcp''), (''ports'', ports)]]),
                       (''direction'', JStr ''INGRESS''),
                       (''name'', nm),
                       (''network'', JStr network_url),
                       (''priority'', JInt 1000),
                       (''sourceRanges'', source_ranges),
                       (''targetTags'', JList [JStr ''allow-health-checks''])]) None)
          (\<lambda>r. return (Some r)))
       (\<lambda>e. isinstance e [CHttpError])
       (\<lambda>e. case e of
          HttpError st reason \<Rightarrow> if st = 409 then return None else raise e
        | _ \<Rightarrow> raise e)"

definition delete_firewall_rule :: "env \<Rightarrow> compute \<Rightarrow> json \<Rightarrow> (world, bool) act" where
  "delete_firewall_rule E c nm = delete_resource E c ''firewalls'' ''firewall'' nm None"

section \<open>Backend services\<close>

definition backend_services :: "string option \<Rightarrow> string" where
  "backend_services region = (if set_str region then ''regionBackendServices'' else ''backendServices'')"

text \<open>\<open>if value: body[key] = value\<close> for optional dicts, lists and numbers.\<close>

definition opt_field :: "string \<Rightarrow> json \<Rightarrow> (string \<times> json) list" where
  "opt_field k v = (if py_truth v then [(k, v)] else [])"

text \<open>The optional settings of a backend service; \<open>JNull\<close> is \<open>None\<close>.\<close>

record backend_service_options =
  bo_affinity_header :: "string option"
  bo_subset_size :: json
  bo_locality_lb_policies :: json
  bo_outlier_detection :: json
  bo_enable_dualstack :: bool
  bo_security_settings :: json

definition no_options :: backend_service_options where
  "no_options = \<lparr>bo_affinity_header = None, bo_subset_size = JNull, bo_locality_lb_policies = JNull,
     bo_outlier_detection = JNull, bo_enable_dualstack = False, bo_security_settings = JNull\<rparr>"

definition backend_service_body ::
  "json \<Rightarrow> gcp_resource option \<Rightarrow> backend_service_protocol \<Rightarrow> backend_service_options \<Rightarrow> json" where
  "backend_service_body nm health_check protocol opts = JObj
     ([(''name'', nm),
       (''loadBalancingScheme'', JStr ''INTERNAL_SELF_MANAGED''),
       (''protocol'', JStr (bs_name protocol))] @
      opt_field ''securitySettings'' (bo_security_settings opts) @
      (case health_check of None \<Rightarrow> [] | Some hc \<Rightarrow> [(''healthChecks'', JList [url hc])]) @
      (if bo_enable_dualstack opts then [(''ipAddressSelectionPolicy'', JStr ''PREFER_IPV6'')] else []) @
      (if set_str (bo_affinity_header opts)
       then [(''sessionAffinity'', JStr ''HEADER_FIELD''),
             (''localityLbPolicy'', JStr ''RING_HASH''),
             (''consistentHash'', JObj [(''httpHeaderName'', opt_str (bo_affinity_header opts))])]
       else []) @
      (if py_truth (bo_subset_size opts)
       then [(''subsetting'', JObj [(''policy'', JStr ''CONSISTENT_HASH_SUBSETTING''),
                                   (''subsetSize'', bo_subset_size opts)])]
       else []) @
      opt_field ''localityLbPolicies'' (bo_locality_lb_policies opts) @
      opt_field ''outlierDetection'' (bo_outlier_detection opts))"

text \<open>\<open>protocol\<close> is \<open>None\<close> when the caller passes none: a type error.\<close>

definition create_backend_service_traffic_director ::
  "env \<Rightarrow> compute \<Rightarrow> json \<Rightarrow> gcp_resource option \<Rightarrow> backend_service_protocol option
     \<Rightarrow> backend_service_options \<Rightarrow> string option \<Rightarrow> (world, gcp_resource) act" where
  "create_backend_service_traffic_director E c nm health_check protocol opts region =
     (case protocol of
        None \<Rightarrow> raise (TypeError ''Unexpected Backend Service protocol: None'')
      | Some p \<Rightarrow> insert_resource E c (backend_services region)
                   (backend_service_body nm health_check p opts) region)"

definition get_backend_service_traffic_director ::
  "env \<Rightarrow> compute \<Rightarrow> json \<Rightarrow> string option \<Rightarrow> (world, gcp_resource) act" where
  "get_backend_service_traffic_director E c nm region =
     get_resource E c (backend_services region) region [(''backendService'', nm)]"

definition patch_backend_service ::
  "env \<Rightarrow> compute \<Rightarrow> gcp_resource \<Rightarrow> json \<Rightarrow> string option \<Rightarrow> (string \<times> json) list \<Rightarrow> (world, unit) act" where
  "patch_backend_service E c backend_service body region kwargs =
     patch_resource E c (backend_services region) body region
       ((''backendService'', name backend_service) # kwargs)"

definition backend_service_patch_backends_with_body ::
  "env \<Rightarrow> compute \<Rightarrow> gcp_resource \<Rightarrow> json list \<Rightarrow> json \<Rightarrow> string option \<Rightarrow> (world, unit) act" where
  "backend_service_patch_backends_with_body E c backend_service backend_list circuit_breakers region =
     patch_resource E c (backend_services region)
       (JObj ((''backends'', JList backend_list) # opt_field ''circuitBreakers'' circuit_breakers))
       region [(''backendService'', name backend_service)]"

text \<open>
  A set is visited in some order, which \<open>order\<close> stands for.
\<close>

definition backend_service_patch_backends ::
  "env \<Rightarrow> (neg_gcp_resource set \<Rightarrow> neg_gcp_resource list) \<Rightarrow> compute \<Rightarrow> gcp_resource
     \<Rightarrow> neg_gcp_resource set \<Rightarrow> int option \<Rightarrow> json \<Rightarrow> string option \<Rightarrow> (world, unit) act" where
  "backend_service_patch_backends E order c backend_service backends max_rate_per_endpoint
     circuit_breakers region =
     (let rate = (case max_rate_per_endpoint of None \<Rightarrow> 5 | Some r \<Rightarrow> r);
          backend_list = map (\<lambda>backend. JObj [(''group'', url backend),
                                              (''balancingMode'', JStr ''RATE''),
                                              (''maxRatePerEndpoint'', JInt rate)]) (order backends)
      in backend_service_patch_backends_with_body E c backend_service backend_list circuit_breakers region)"

definition backend_service_remove_all_backends ::
  "env \<Rightarrow> compute \<Rightarrow> gcp_resource \<Rightarrow> string option \<Rightarrow> (world, unit) act" where
  "backend_service_remove_all_backends E c backend_service region =
     patch_resource E c (backend_services region) (JObj [(''backends'', JList [])])
       region [(''backendService'', name backend_service)]"

definition delete_backend_service ::
  "env \<Rightarrow> compute \<Rightarrow> json \<Rightarrow> string option \<Rightarrow> (world, bool) act" where
  "delete_backend_service E c nm region =
     delete_resource E c (backend_services region) ''backendService'' nm region"

section \<open>URL maps\<close>

definition url_maps :: "string option \<Rightarrow> string" where
  "url_maps region = (if set_str region then ''regionUrlMaps'' else ''urlMaps'')"

definition url_map_body ::
  "json \<Rightarrow> string \<Rightarrow> json \<Rightarrow> gcp_resource \<Rightarrow> gcp_resource option \<Rightarrow> json" where
  "url_map_body nm matcher_name src_hosts dst_default dst_host_rule_match =
     (let dst = (case dst_host_rule_match of None \<Rightarrow> dst_default | Some d \<Rightarrow> d)
      in JObj [(''name'', nm),
               (''defaultService'', url dst_default),
               (''hostRules'', JList [JObj [(''hosts'', src_hosts), (''pathMatcher'', JStr matcher_name)]]),
               (''pathMatchers'', JList [JObj [(''name'', JStr matcher_name), (''defaultService'', url dst)]])])"

definition create_url_map ::
  "env \<Rightarrow> compute \<Rightarrow> json \<Rightarrow> string \<Rightarrow> json \<Rightarrow> gcp_resource \<Rightarrow> gcp_resource option \<Rightarrow> string option
     \<Rightarrow> (world, gcp_resource) act" where
  "create_url_map E c nm matcher_name src_hosts dst_default dst_host_rule_match region =
     insert_resource E c (url_maps region)
       (url_map_body nm matcher_name src_hosts dst_default dst_host_rule_match) region"

definition create_url_map_with_content ::
  "env \<Rightarrow> compute \<Rightarrow> json \<Rightarrow> string option \<Rightarrow> (world, gcp_resource) act" where
  "create_url_map_with_content E c url_map_content region =
     insert_resource E c (url_maps region) url_map_content region"

definition patch_url_map ::
  "env \<Rightarrow> compute \<Rightarrow> gcp_resource \<Rightarrow> json \<Rightarrow> string option \<Rightarrow> (string \<times> json) list \<Rightarrow> (world, unit) act" where
  "patch_url_map E c url_map body region kwargs =
     patch_resource E c (url_maps region) body region ((''urlMap'', name url_map) # kwargs)"

definition delete_url_map :: "env \<Rightarrow> compute \<Rightarrow> json \<Rightarrow> string option \<Rightarrow> (world, bool) act" where
  "delete_url_map E c nm region = delete_resource E c (url_maps region) ''urlMap'' nm region"

section \<open>Target proxies\<close>

definition create_target_grpc_proxy ::
  "env \<Rightarrow> compute \<Rightarrow> json \<Rightarrow> gcp_resource \<Rightarrow> bool \<Rightarrow> (world, gcp_resource) act" where
  "create_target_grpc_proxy E c nm url_map validate_for_proxyless =
     insert_resource E c ''targetGrpcProxies''
       (JObj [(''name'', nm), (''url_map'', url url_map),
              (''validate_for_proxyless'', JBool validate_for_proxyless)]) None"

definition delete_target_grpc_proxy :: "env \<Rightarrow> compute \<Rightarrow> json \<Rightarrow> (world, bool) act" where
  "delete_target_grpc_proxy E c nm = delete_resource E c ''targetGrpcProxies'' ''targetGrpcProxy'' nm None"

definition target_http_proxies :: "string option \<Rightarrow> string" where
  "target_http_proxies region =
     (if set_str region then ''regionTargetHttpProxies'' else ''targetHttpProxies'')"

definition create_target_http_proxy ::
  "env \<Rightarrow> compute \<Rightarrow> json \<Rightarrow> gcp_resource \<Rightarrow> string option \<Rightarrow> (world, gcp_resource) act" where
  "create_target_http_proxy E c nm url_map region =
     insert_resource E c (target_http_proxies region)
       (JObj [(''name'', nm), (''url_map'', url url_map)]) region"

definition delete_target_http_proxy ::
  "env \<Rightarrow> compute \<Rightarrow> json \<Rightarrow> string option \<Rightarrow> (world, bool) act" where
  "delete_target_http_proxy E c nm region =
     delete_resource E c (target_http_proxies region) ''targetHttpProxy'' nm region"

section \<open>Forwarding rules\<close>

definition forwarding_rules :: "string option \<Rightarrow> string" where
  "forwarding_rules region = (if set_str region then ''forwardingRules'' else ''globalForwardingRules'')"

definition create_forwarding_rule ::
  "env \<Rightarrow> compute \<Rightarrow> json \<Rightarrow> int \<Rightarrow> gcp_resource \<Rightarrow> string \<Rightarrow> string \<Rightarrow> string option
     \<Rightarrow> (world, gcp_resource) act" where
  "create_forwarding_rule E c nm src_port target_proxy network_url ip_address region =
     insert_resource E c (forwarding_rules region)
       (JObj [(''name'', nm),
              (''loadBalancingScheme'', JStr ''INTERNAL_SELF_MANAGED''),
              (''portRange'', JInt src_port),
              (''IPAddress'', JStr ip_address),
              (''network'', JStr network_url),
              (''target'', url target_proxy)]) region"

definition forwarding_rule_filter :: "int \<Rightarrow> string" where
  "forwarding_rule_filter src_port =
     ''(portRange eq \"'' @ str_int src_port @ ''-'' @ str_int src_port @ ''\") '' @
     ''(IPAddress eq \"0.0.0.0\")'' @
     ''(loadBalancingScheme eq \"INTERNAL_SELF_MANAGED\")''"

definition exists_forwarding_rule ::
  "env \<Rightarrow> compute \<Rightarrow> int \<Rightarrow> string option \<Rightarrow> (world, json) act" where
  "exists_forwarding_rule E c src_port region =
     exists_resource E c (forwarding_rules region) (forwarding_rule_filter src_port) region"

definition delete_forwarding_rule ::
  "env \<Rightarrow> compute \<Rightarrow> json \<Rightarrow> string option \<Rightarrow> (world, bool) act" where
  "delete_forwarding_rule E c nm region =
     delete_resource E c (forwarding_rules region) ''forwardingRule'' nm region"

section \<open>Network endpoint groups\<close>

definition get_network_endpoint_group :: "env \<Rightarrow> compute \<Rightarrow> json \<Rightarrow> string \<Rightarrow> (world, json) act" where
  "get_network_endpoint_group E c nm zn =
     execute_once E (compute_request ''networkEndpointGroups'' ''get''
       [project_arg c, (''networkEndpointGroup'', nm), (''zone'', JStr zn)])"

text \<open>The name is read for the log; HTTP errors are logged and raised again.\<close>

definition retry_load_network_endpoint_group ::
  "env \<Rightarrow> compute \<Rightarrow> json \<Rightarrow> string \<Rightarrow> (world, json) act" where
  "retry_load_network_endpoint_group E c nm zn =
     try_except
       (bind (get_network_endpoint_group E c nm zn)
          (\<lambda>neg. bind (lift (getitem neg ''name''))
             (\<lambda>_. bind (lift (get_default neg ''size'' JNull)) (\<lambda>_. return neg))))
       (\<lambda>e. isinstance e [CHttpError]) raise"

definition neg_of_response :: "string \<Rightarrow> json \<Rightarrow> exn + neg_gcp_resource" where
  "neg_of_response zn result =
     ebind (get_default result ''id'' (JStr [])) (\<lambda>i.
     ebind (getitem result ''name'') (\<lambda>n.
     ebind (getitem result ''selfLink'') (\<lambda>u.
     ebind (get_default result ''description'' (JStr [])) (\<lambda>d.
     ebind (getitem result ''size'') (\<lambda>sz.
     ebind (get_default result ''networkEndpointType'' (JStr [])) (\<lambda>t.
       Inr \<lparr>name = n, url = u, zone = JStr zn, neg_id = i, neg_size = sz,
            network_endpoint_type = t, description = d\<rparr>))))))"

definition neg_retryer :: "exn + retrying" where
  "neg_retryer = constant_retryer wait_for_backend_sleep_sec 0 (Some wait_for_backend_sec) None
     (Some (contains ''size'')) []"

definition wait_for_network_endpoint_group ::
  "env \<Rightarrow> compute \<Rightarrow> json \<Rightarrow> string \<Rightarrow> (world, neg_gcp_resource) act" where
  "wait_for_network_endpoint_group E c nm zn =
     bind (lift neg_retryer)
       (\<lambda>retryer. bind (tenacity E retryer (retry_load_network_endpoint_group E c nm zn))
          (\<lambda>result. lift (neg_of_response zn result)))"

definition get_neg_serverless :: "env \<Rightarrow> compute \<Rightarrow> json \<Rightarrow> string \<Rightarrow> (world, gcp_resource) act" where
  "get_neg_serverless E c nm region =
     get_resource E c ''regionNetworkEndpointGroups'' (Some region) [(''networkEndpointGroup'', nm)]"

definition create_neg_serverless ::
  "env \<Rightarrow> compute \<Rightarrow> json \<Rightarrow> string \<Rightarrow> string \<Rightarrow> (world, gcp_resource) act" where
  "create_neg_serverless E c nm region service_name =
     bind (insert_resource E c ''regionNetworkEndpointGroups''
             (JObj [(''name'', nm), (''networkEndpointType'', JStr ''SERVERLESS''),
                    (''cloudRun'', JObj [(''service'', JStr service_name)])]) (Some region))
       (\<lambda>_. get_neg_serverless E c nm region)"

definition delete_neg_serverless :: "env \<Rightarrow> compute \<Rightarrow> json \<Rightarrow> string \<Rightarrow> (world, bool) act" where
  "delete_neg_serverless E c nm region =
     delete_resource E c ''regionNetworkEndpointGroups'' ''networkEndpointGroup'' nm (Some region)"

section \<open>Lemmas: what an operation sends\<close>

definition is_poll :: "request \<Rightarrow> bool" where
  "is_poll q \<longleftrightarrow> rq_method q = ''get'' \<and> rq_collection q \<in> {''regionOperations'', ''globalOperations''}"

lemma is_poll_request [simp]: "is_poll (poll_request c i region)"
  by (simp add: is_poll_def poll_request_def compute_request_def)

lemma poll_not_mutates [simp]: "is_poll q \<Longrightarrow> \<not> mutates q"
  by (auto simp: is_poll_def mutates_def)

lemma debug_header_simps [simp]:
  "rq_service (with_debug_header c r) = rq_service r"
  "rq_collection (with_debug_header c r) = rq_collection r"
  "rq_method (with_debug_header c r) = rq_method r"
  "rq_args (with_debug_header c r) = rq_args r"
  by (simp_all add: with_debug_header_def)

lemma compute_request_simps [simp]:
  "rq_service (compute_request coll m args) = ''compute''"
  "rq_collection (compute_request coll m args) = coll"
  "rq_method (compute_request coll m args) = m"
  "rq_args (compute_request coll m args) = args"
  by (simp_all add: compute_request_def)

text \<open>The name in the arguments of a delete, patch or get: the first after the project.\<close>

definition emits_only :: "(request \<Rightarrow> bool) \<Rightarrow> (world, 'a) act \<Rightarrow> bool" where
  "emits_only P m \<longleftrightarrow> emits (\<lambda>w. w) (\<lambda>q. is_poll q \<or> P q) m"

lemma emits_execute:
  assumes "env_ok E" and "P (with_debug_header c r)"
  shows "emits_only P (compute_execute E c r t region)"
  unfolding emits_only_def compute_execute_def compute_wait_def
  by (intro emits_bind emits_retried emits_pure emits_wait_for_operation emits_if)
     (use assms in auto)

lemma emits_insert:
  assumes "env_ok E" and "\<And>q. rq_collection q = coll \<Longrightarrow> rq_method q = ''insert'' \<Longrightarrow> P q"
  shows "emits_only P (insert_resource E c coll body region)"
  unfolding emits_only_def insert_resource_def
  by (intro emits_bind emits_pure emits_execute [unfolded emits_only_def]) (use assms in auto)

lemma emits_patch:
  assumes "env_ok E" and "\<And>q. rq_collection q = coll \<Longrightarrow> rq_method q = ''patch'' \<Longrightarrow> P q"
  shows "emits_only P (patch_resource E c coll body region kwargs)"
  unfolding emits_only_def patch_resource_def
  by (intro emits_bind emits_pure emits_execute [unfolded emits_only_def]) (use assms in auto)

text \<open>A delete sends its delete request and polls, nothing else.\<close>

lemma emits_delete:
  assumes "env_ok E" and "P (with_debug_header c (delete_request c coll typ nm region))"
  shows "emits_only P (delete_resource E c coll typ nm region)"
  unfolding emits_only_def delete_resource_def
  by (intro emits_try emits_bind emits_pure emits_execute [unfolded emits_only_def]) (use assms in auto)

section \<open>Lemmas: what an operation answers\<close>

text \<open>An operation that returns was polled until it was done, and reported no error.\<close>

lemma compute_wait_done:
  assumes "env_ok E" and "compute_wait E c i t region w = (Inr operation, w')"
  shows "operation_status_done operation = Inr True \<and> contains ''error'' operation = Inr False"
proof -
  obtain w1 where "wait_for_operation E (poll_request c i region) operation_status_done t wait_fixed_sec w
      = (Inr operation, w1)" and "contains ''error'' operation = Inr False"
    using assms(2) by (auto simp: compute_wait_def bind_eq_Inr lift_def raise_def return_def split: if_splits)
  with wait_value [OF assms(1)] show ?thesis by blast
qed

lemma compute_execute_done:
  assumes "env_ok E" and "compute_execute E c r t region w = (Inr operation, w')"
  shows "operation_status_done operation = Inr True \<and> contains ''error'' operation = Inr False
    \<and> (\<exists>h op. http E h (with_debug_header c r) = Inr op)"
proof -
  obtain op w1 i where "retried E (with_debug_header c r) w = (Inr op, w1)"
    and "compute_wait E c i t region w1 = (Inr operation, w')"
    using assms(2) by (auto simp: compute_execute_def bind_eq_Inr lift_def)
  with retried_value [OF assms(1)] compute_wait_done [OF assms(1)] show ?thesis by metis
qed

text \<open>
  A service in good order: it accepts every change and its operations are done at the first poll.
\<close>

definition serves_compute :: "env \<Rightarrow> bool" where
  "serves_compute E \<longleftrightarrow>
     (\<forall>w r. rq_service r = ''compute'' \<and> mutates r \<longrightarrow>
        (\<exists>resp i. http E w r = Inr resp \<and> getitem resp ''name'' = Inr i)) \<and>
     (\<forall>w r. rq_service r = ''compute'' \<and> is_poll r \<longrightarrow>
        (\<exists>resp link. http E w r = Inr resp \<and> operation_status_done resp = Inr True
           \<and> contains ''error'' resp = Inr False \<and> getitem resp ''targetLink'' = Inr link))"

lemma changes_poll [simp]: "is_poll q \<Longrightarrow> changes [q] = []"
  by (simp add: changes_def)

lemma changed_name_header [simp]: "changed_name (with_debug_header c q) = changed_name q"
  by (simp add: changed_name_def rq_arg_def)

lemma mutates_header [simp]: "mutates (with_debug_header c q) = mutates q"
  by (simp add: mutates_def)

lemma changes_header [simp]: "changes [with_debug_header c q] = changes [q]"
  by (simp add: changes_def change_of_def)

lemma compute_execute_served:
  assumes "env_ok E" and "serves_compute E" and "mutates r" and "rq_service r = ''compute''"
  obtains operation link w' where "compute_execute E c r t region w = (Inr operation, w')"
    and "getitem operation ''targetLink'' = Inr link" and "changes w' = changes w @ changes [r]"
proof -
  let ?r = "with_debug_header c r"
  obtain resp i where resp: "http E w ?r = Inr resp" "getitem resp ''name'' = Inr i"
    using assms(2-4) unfolding serves_compute_def by (metis debug_header_simps(1) mutates_header)
  let ?p = "poll_request c i region"
  obtain op link where op: "http E (w @ [?r]) ?p = Inr op" "operation_status_done op = Inr True"
    "contains ''error'' op = Inr False" "getitem op ''targetLink'' = Inr link"
    using assms(2) unfolding serves_compute_def
    by (metis compute_request_simps(1) is_poll_request poll_request_def)
  have "retried E ?r w = (Inr resp, w @ [?r])"
    using retried_first [OF assms(1) resp(1)] by simp
  moreover have "wait_for_operation E ?p operation_status_done t wait_fixed_sec (w @ [?r])
      = (Inr op, (w @ [?r]) @ [?p])"
    using wait_first [where f = operation_status_done, OF assms(1) op(1,2)] .
  ultimately have "compute_execute E c r t region w = (Inr op, w @ [?r, ?p])"
    using resp(2) op(3)
    by (simp add: compute_execute_def compute_wait_def bind_apply lift_def return_def)
  then show thesis by (rule that [OF _ op(4)]) (simp add: changes_Cons [of ?r])
qed

lemma insert_served:
  assumes "env_ok E" and "serves_compute E" and "getitem body ''name'' = Inr n"
  obtains link w' where "insert_resource E c coll body region w = (Inr (GcpResource n link), w')"
    and "changes w' = changes w @ [(coll, ''insert'', n)]"
proof -
  let ?r = "compute_request coll ''insert''
      ([project_arg c, (''body'', body), (''requestId'', JStr (uuid4 E w))] @ region_arg region)"
  have m: "mutates ?r" by (simp add: mutates_def)
  have ch: "changes [?r] = [(coll, ''insert'', n)]"
    using assms(3) m by (simp add: changes_def change_of_def changed_name_def rq_arg_def project_arg_def)
  obtain op link w' where "compute_execute E c ?r wait_for_operation_sec region w = (Inr op, w')"
    "getitem op ''targetLink'' = Inr link" "changes w' = changes w @ changes [?r]"
    using assms(1,2) m by (rule compute_execute_served) simp
  with that ch assms(3) show thesis
    by (simp add: insert_resource_def bind_apply get_state_def lift_def return_def)
qed

lemma patch_served:
  assumes "env_ok E" and "serves_compute E"
  obtains w' where "patch_resource E c coll body region ((k, n) # kw) w = (Inr (), w')"
    and "changes w' = changes w @ [(coll, ''patch'', n)]"
proof -
  let ?r = "compute_request coll ''patch''
      ([project_arg c, (''body'', body), (''requestId'', JStr (uuid4 E w))] @ ((k, n) # kw) @ region_arg region)"
  have m: "mutates ?r" by (simp add: mutates_def)
  have ch: "changes [?r] = [(coll, ''patch'', n)]"
    using m by (simp add: changes_def change_of_def changed_name_def)
  obtain op link w' where "compute_execute E c ?r wait_for_operation_sec region w = (Inr op, w')"
    "changes w' = changes w @ changes [?r]"
    using assms(1,2) m by (rule compute_execute_served) simp
  with that ch show thesis
    by (simp add: patch_resource_def bind_apply get_state_def return_def)
qed

lemma compute_delete_served:
  assumes "env_ok E" and "serves_compute E"
  obtains w' where "delete_resource E c coll typ n region w = (Inr True, w')"
    and "changes w' = changes w @ [(coll, ''delete'', n)]"
proof -
  let ?r = "delete_request c coll typ n region"
  have m: "mutates ?r" by (simp add: mutates_def delete_request_def)
  have ch: "changes [?r] = [(coll, ''delete'', n)]"
    using m by (simp add: changes_def change_of_def changed_name_def delete_request_def)
  have svc: "rq_service ?r = ''compute''" by (simp add: delete_request_def)
  obtain op link w' where "compute_execute E c ?r wait_for_operation_sec region w = (Inr op, w')"
    "changes w' = changes w @ changes [?r]"
    using assms(1,2) m svc by (rule compute_execute_served)
  with that ch show thesis
    by (simp add: delete_resource_def bind_apply return_def try_except_def)
qed

text \<open>
  A delete raises nothing but what is not an HTTP error, so an answer 404 (or any other status
  that is not retried) makes it return \<open>False\<close>.
\<close>

lemma delete_http_error:
  assumes "env_ok E"
    and "\<And>h. http E h (with_debug_header c (delete_request c coll typ n region)) = Inl (HttpError st reason)"
    and "\<not> is_retryable_api_error (HttpError st reason)"
  shows "delete_resource E c coll typ n region w
    = (Inr False, w @ [with_debug_header c (delete_request c coll typ n region)])"
proof -
  have "retried E (with_debug_header c (delete_request c coll typ n region)) w
      = (Inl (HttpError st reason), w @ [with_debug_header c (delete_request c coll typ n region)])"
    by (rule retried_first) (use assms in auto)
  then show ?thesis
    by (simp add: delete_resource_def compute_execute_def bind_apply try_except_def return_def)
qed

section \<open>The client as a provider of delete operations\<close>

lemma delete_request_change [simp]:
  "mutates (delete_request c coll typ n region)"
  "change_of (delete_request c coll typ n region) = (coll, ''delete'', n)"
  by (simp_all add: delete_request_def mutates_def change_of_def changed_name_def)

lemma change_of_header [simp]: "change_of (with_debug_header c q) = change_of q"
  by (simp add: change_of_def)

interpretation compute_delete: deleter "env_ok E" "serves_compute E"
  "\<lambda>n. delete_resource E c coll kind n region" "\<lambda>n. (coll, ''delete'', n)" for E c coll kind region
proof unfold_locales
  fix n
  assume "env_ok E"
  then have "emits_only (\<lambda>q. mutates q \<longrightarrow> change_of q = (coll, ''delete'', n))
      (delete_resource E c coll kind n region)"
    by (rule emits_delete) simp
  then show "emits (\<lambda>w. w) (\<lambda>q. mutates q \<longrightarrow> change_of q = (coll, ''delete'', n))
      (delete_resource E c coll kind n region)"
    unfolding emits_only_def by (rule emits_mono) auto
next
  fix n w
  assume "env_ok E" "serves_compute E"
  then show "\<exists>w'. delete_resource E c coll kind n region w = (Inr True, w')
      \<and> changes w' = changes w @ [(coll, ''delete'', n)]"
    by (rule compute_delete_served) blast
qed

section \<open>Properties\<close>

lemma demo_serves_compute [simp]: "serves_compute demo_env"
  by (auto simp: serves_compute_def demo_http_def operation_status_done_def is_poll_def)

abbreviation demo_compute :: compute where
  "demo_compute \<equiv> \<lparr>project = ''p'', gfe_debug_header = None\<rparr>"



text \<open>
  Deleting a resource that does not exist (404) is no error: the call sends its request once
  and returns \<open>False\<close>.
\<close>

theorem delete_missing_resource:
  assumes "env_ok E"
    and "\<And>h. http E h (with_debug_header c (delete_request c coll kind n region)) = Inl (HttpError 404 reason)"
  shows "delete_resource E c coll kind n region w
    = (Inr False, w @ [with_debug_header c (delete_request c coll kind n region)])"
  by (rule delete_http_error [OF assms]) (simp add: is_retryable_api_error_def transport_errors_def)

theorem delete_missing_resource_witness:
  "delete_resource (with_answers (\<lambda>w r. Inl (HttpError 404 ''gone''))) demo_compute ''urlMaps'' ''urlMap''
     (JStr ''m'') None [] = (Inr False, [delete_request demo_compute ''urlMaps'' ''urlMap'' (JStr ''m'') None])"
  using delete_missing_resource [of "with_answers (\<lambda>w r. Inl (HttpError 404 ''gone''))" demo_compute
      "''urlMaps''" "''urlMap''" "JStr ''m''" None "''gone''" "[]"]
  by (simp add: with_debug_header_def)

text \<open>
  Whatever the service answers, a delete changes nothing but the named resource of the named
  collection.
\<close>

lemma delete_changes_only_the_named:
  assumes "env_ok E" and "delete_resource E c coll kind n region w = (r, w')"
  shows "\<exists>rs. w' = w @ rs \<and> set (changes rs) \<subseteq> {(coll, ''delete'', n)}"
  using compute_delete.changes_only_the_named [OF assms] by blast

definition firewall_request ::
  "env \<Rightarrow> compute \<Rightarrow> json \<Rightarrow> string \<Rightarrow> json \<Rightarrow> json \<Rightarrow> world \<Rightarrow> request" where
  "firewall_request E c nm network source_ranges ports w =
     compute_request ''firewalls'' ''insert''
       [project_arg c,
        (''body'', JObj [(''allowed'', JList [JObj [(''IPProtocol'', JStr ''tcp''), (''ports'', ports)]]),
           (''direction'', JStr ''INGRESS''), (''name'', nm), (''network'', JStr network),
           (''priority'', JInt 1000), (''sourceRanges'', source_ranges),
           (''targetTags'', JList [JStr ''allow-health-checks''])]),
        (''requestId'', JStr (uuid4 E w))]"

text \<open>
  Creating a firewall rule that already exists (409) is no error and yields no resource, and
  every other status that is not retried is raised as it is.
\<close>

theorem firewall_rule_exists:
  assumes "env_ok E"
    and "http E w (with_debug_header c (firewall_request E c nm network source_ranges ports w))
           = Inl (HttpError st reason)"
    and "st \<notin> {429, 500, 502, 503, 504}"
  shows "fst (create_firewall_rule E c nm network source_ranges ports w)
    = (if st = 409 then Inr None else Inl (HttpError st reason))"
proof -
  let ?r = "firewall_request E c nm network source_ranges ports w"
  have "\<not> is_retryable_api_error (HttpError st reason)"
    using assms(3) by (simp add: is_retryable_api_error_def transport_errors_def)
  then have "retried E (with_debug_header c ?r) w = (Inl (HttpError st reason), w @ [with_debug_header c ?r])"
    by (intro retried_first [OF assms(1,2)]) auto
  then show ?thesis
    by (simp add: create_firewall_rule_def insert_resource_def compute_execute_def bind_apply get_state_def
        firewall_request_def region_arg_def try_except_def return_def raise_def)
qed

theorem firewall_rule_exists_witness:
  "fst (create_firewall_rule (with_answers (\<lambda>w r. Inl (HttpError 409 ''exists''))) demo_compute
     (JStr ''fw'') ''net'' (JList []) (JList []) []) = Inr None"
  using firewall_rule_exists [of "with_answers (\<lambda>w r. Inl (HttpError 409 ''exists''))" "[]" demo_compute
      "JStr ''fw''" "''net''" "JList []" "JList []" 409 "''exists''"] by simp

end
