(* ===== verification/FrameworkErrors.thy ===== *)
theory FrameworkErrors
  imports PyBase
begin

text \<open>
  framework/errors.py: the notes that the framework adds to the errors of a test.
\<close>

definition newline :: string where
  "newline = [CHR 0x0A]"

definition note_blanket_error :: "string \<Rightarrow> string" where
  "note_blanket_error reason =
     newline @ ''Reason: '' @ reason @ newline @
     replicate 80 (CHR 0x23) @ newline @
     ''# IMPORTANT: This is not a root cause. This is an indication that'' @ newline @
     ''# _something_ -- literally _anything_ -- has gone wrong in the xDS flow.'' @ newline @
     ''# It is _your_ responsibility to look through the interop client and/or'' @ newline @
     ''# server logs to determine what exactly went wrong.'' @ newline @
     replicate 80 (CHR 0x23) @ newline"

definition note_blanket_error_info_below :: "string \<Rightarrow> string \<Rightarrow> string" where
  "note_blanket_error_info_below reason info_below =
     note_blanket_error reason @ ''# Please inspect the information below:'' @ newline @ info_below"

end
