(* ===== verification/BackendHealth.thy ===== *)
theory BackendHealth
  imports Compute FrameworkErrors
begin

text \<open>
  The wait for healthy backends of framework/infrastructure/gcp/compute.py:
  \<open>wait_for_backends_healthy_status\<close> retries \<open>_retry_backends_health\<close>, which moves the backends
  that report healthy from one set to another while it iterates over the first. The two sets are
  shared between the attempts, so they are part of the state. The note of the final error is
  built by FrameworkErrors.
\<close>

section \<open>State and environment\<close>

record health_state =
  hs_world :: world
  pending :: "neg_gcp_resource set"
  healthy :: "neg_gcp_resource set"

text \<open>
  Besides the requests: the retrying library on this state, the order in which a set is visited,
  and the text of a YAML dump.
\<close>

record health_env =
  he_env :: env
  he_tenacity :: "retrying \<Rightarrow> (health_state, json) act \<Rightarrow> (health_state, json) act"
  he_order :: "neg_gcp_resource set \<Rightarrow> neg_gcp_resource list"
  he_pretty :: "json list \<Rightarrow> string"

definition on_world :: "(world, 'a) act \<Rightarrow> (health_state, 'a) act" where
  "on_world m = (\<lambda>s. case m (hs_world s) of (r, w) \<Rightarrow> (r, s\<lparr>hs_world := w\<rparr>))"

section \<open>One attempt\<close>

text \<open>The name of the backend service is read first: \<open>None\<close> has none.\<close>

definition get_backend_service_backend_health ::
  "env \<Rightarrow> compute \<Rightarrow> gcp_resource option \<Rightarrow> json \<Rightarrow> string option \<Rightarrow> (world, json) act" where
  "get_backend_service_backend_health E c backend_service backend_url region =
     bind (attr_of ''name'' (map_option name backend_service))
       (\<lambda>service_name. execute_once E (compute_request (backend_services region) ''getHealth''
          ([project_arg c, (''backendService'', service_name),
            (''body'', JObj [(''group'', backend_url)])] @ region_arg region)))"

fun all_healthy :: "json list \<Rightarrow> bool \<Rightarrow> exn + bool" where
  "all_healthy [] backend_healthy = Inr backend_healthy"
| "all_healthy (inst # insts) backend_healthy =
     ebind (getitem inst ''ipAddress'') (\<lambda>_.
     ebind (getitem inst ''port'') (\<lambda>_.
     ebind (getitem inst ''healthState'') (\<lambda>st.
       all_healthy insts (if st \<noteq> JStr ''HEALTHY'' then False else backend_healthy))))"

text \<open>
  What a response says of its backend: nothing yet (no \<open>healthStatus\<close>), or whether every
  instance is healthy.
\<close>

definition reported_healthy :: "json \<Rightarrow> exn + bool" where
  "reported_healthy result =
     ebind (contains ''healthStatus'' result) (\<lambda>has.
       if \<not> has then Inr False
       else ebind (getitem result ''healthStatus'') (\<lambda>hs.
              ebind (py_iter hs) (\<lambda>insts. all_healthy insts True)))"

definition check_backend ::
  "env \<Rightarrow> compute \<Rightarrow> gcp_resource option \<Rightarrow> string option \<Rightarrow> neg_gcp_resource \<Rightarrow> (health_state, unit) act" where
  "check_backend E c backend_service region backend =
     bind (on_world (get_backend_service_backend_health E c backend_service (url backend) region))
       (\<lambda>result. bind (lift (reported_healthy result))
          (\<lambda>ok. if ok
                then modify (\<lambda>s. s\<lparr>pending := pending s - {backend}, healthy := insert backend (healthy s)\<rparr>)
                else return ()))"

definition retry_backends_health ::
  "health_env \<Rightarrow> compute \<Rightarrow> gcp_resource option \<Rightarrow> int \<Rightarrow> string option \<Rightarrow> (health_state, json) act" where
  "retry_backends_health H c backend_service replica_count region =
     bind get_state (\<lambda>s0.
       bind (for_set pending (card (pending s0)) (check_backend (he_env H) c backend_service region)
               (he_order H (pending s0)))
         (\<lambda>_. bind get_state (\<lambda>s.
            return (JBool (pending s = {} \<or> int (card (healthy s)) \<ge> replica_count)))))"

section \<open>The wait\<close>

definition health_retryer :: "exn + retrying" where
  "health_retryer = constant_retryer wait_for_backend_sleep_sec 0 (Some wait_for_backend_sec) None
     (Some (\<lambda>res. Inr (py_truth res))) []"

fun str_items :: "json list \<Rightarrow> exn + string list" where
  "str_items [] = Inr []"
| "str_items (JStr s # xs) = ebind (str_items xs) (\<lambda>ss. Inr (s # ss))"
| "str_items (x # xs) = Inl (TypeError ''sequence item: expected str instance'')"

fun load_unhealthy ::
  "env \<Rightarrow> compute \<Rightarrow> gcp_resource option \<Rightarrow> string option \<Rightarrow> neg_gcp_resource list
     \<Rightarrow> (health_state, json list) act" where
  "load_unhealthy E c backend_service region [] = return []"
| "load_unhealthy E c backend_service region (backend # bs) =
     bind (on_world (get_backend_service_backend_health E c backend_service (url backend) region))
       (\<lambda>health_status. bind (load_unhealthy E c backend_service region bs)
          (\<lambda>rest. return (JObj [(''name'', name backend), (''health_status'', health_status)] # rest)))"

definition quoted :: "string \<Rightarrow> string" where
  "quoted s = [CHR 0x27] @ s @ [CHR 0x27]"

definition unhealthy_info ::
  "env \<Rightarrow> json \<Rightarrow> json list \<Rightarrow> string \<Rightarrow> string" where
  "unhealthy_info E service_name backend_names unhealthy_backends =
     ''Timeout '' @ str_timedelta wait_for_backend_sec @ '' (h:mm:ss) waiting for backend service '' @
     quoted (text_value E service_name) @ '' to report all NEGs in the HEALTHY status: '' @
     text_value E (JList backend_names) @ ''.'' @ newline @ ''Unhealthy backends:'' @ newline @
     unhealthy_backends"

text \<open>
  The \<open>except RetryError\<close> branch: the names of the backends left in \<open>pending\<close>, replaced by their
  latest health when it can be loaded, go into the note of the error, which is raised again.
\<close>

definition raise_with_health ::
  "health_env \<Rightarrow> compute \<Rightarrow> gcp_resource option \<Rightarrow> neg_gcp_resource set \<Rightarrow> string option \<Rightarrow> exn
     \<Rightarrow> (health_state, json) act" where
  "raise_with_health H c backend_service backends region retry_err =
     bind get_state (\<lambda>s.
       let left = he_order H (pending s); E = he_env H in
       bind (lift (str_items (map name left))) (\<lambda>names.
       bind (try_except
               (bind (load_unhealthy E c backend_service region left)
                  (\<lambda>unhealthy. return (he_pretty H unhealthy)))
               (\<lambda>_. True) (\<lambda>_. return (str_join '','' names))) (\<lambda>unhealthy_backends.
       bind (attr_of ''name'' (map_option name backend_service)) (\<lambda>service_name.
         raise (add_note
           (note_blanket_error_info_below
              (''One or several NEGs (Network Endpoint Groups) didn'' @ [CHR 0x27] @
               ''t report HEALTHY status within expected timeout.'')
              (unhealthy_info E service_name (map name (he_order H backends)) unhealthy_backends))
           retry_err)))))"

definition wait_for_backends_healthy_status ::
  "health_env \<Rightarrow> compute \<Rightarrow> gcp_resource option \<Rightarrow> neg_gcp_resource set \<Rightarrow> int \<Rightarrow> string option
     \<Rightarrow> (world, unit) act" where
  "wait_for_backends_healthy_status H c backend_service backends replica_count region =
     (if backends = {} then raise (ValueError ''The list of backends to wait on is empty'')
      else if replica_count = 0
      then raise (ValueError (''The list of backends to wait on can'' @ [CHR 0x27] @
             ''t be populated with 0 replicas.''))
      else bind (lift health_retryer) (\<lambda>retryer w.
        (case try_except
                (he_tenacity H retryer (retry_backends_health H c backend_service replica_count region))
                (\<lambda>e. isinstance e [CRetryError])
                (raise_with_health H c backend_service backends region)
                \<lparr>hs_world = w, pending = backends, healthy = {}\<rparr>
         of (Inl e, s) \<Rightarrow> (Inl e, hs_world s) | (Inr _, s) \<Rightarrow> (Inr (), hs_world s))))"

section \<open>What one attempt does to the two sets\<close>

text \<open>The order visits every element of each subset of \<open>S\<close> once.\<close>

definition visits :: "('a set \<Rightarrow> 'a list) \<Rightarrow> 'a set \<Rightarrow> bool" where
  "visits order S \<longleftrightarrow> (\<forall>T \<subseteq> S. set (order T) = T \<and> distinct (order T))"

abbreviation size_changed :: exn where
  "size_changed \<equiv> RuntimeError ''Set changed size during iteration''"

definition health_request ::
  "compute \<Rightarrow> gcp_resource \<Rightarrow> neg_gcp_resource \<Rightarrow> string option \<Rightarrow> request" where
  "health_request c bs b region = compute_request (backend_services region) ''getHealth''
     ([project_arg c, (''backendService'', name bs), (''body'', JObj [(''group'', url b)])] @ region_arg region)"

definition same_sets :: "health_state \<Rightarrow> health_state \<Rightarrow> bool" where
  "same_sets s s' \<longleftrightarrow> pending s' = pending s \<and> healthy s' = healthy s"

definition moved :: "neg_gcp_resource \<Rightarrow> health_state \<Rightarrow> health_state \<Rightarrow> bool" where
  "moved b s s' \<longleftrightarrow> pending s' = pending s - {b} \<and> healthy s' = insert b (healthy s)"

text \<open>
  \<open>seen_healthy\<close>: the history holds a health request for the backend that was answered with every
  instance healthy.
\<close>

definition seen_healthy ::
  "env \<Rightarrow> compute \<Rightarrow> gcp_resource \<Rightarrow> string option \<Rightarrow> world \<Rightarrow> neg_gcp_resource \<Rightarrow> bool" where
  "seen_healthy E c bs region w b \<longleftrightarrow> (\<exists>h rest result. w = h @ health_request c bs b region # rest \<and>
     http E h (health_request c bs b region) = Inr result \<and> reported_healthy result = Inr True)"

lemma seen_healthy_later: "seen_healthy E c bs region w b \<Longrightarrow> seen_healthy E c bs region (w @ rs) b"
  unfolding seen_healthy_def by fastforce

lemma health_call_apply:
  "on_world (get_backend_service_backend_health E c (Some bs) (url b) region) s =
     (http E (hs_world s) (health_request c bs b region),
      s\<lparr>hs_world := hs_world s @ [health_request c bs b region]\<rparr>)"
  by (simp add: on_world_def get_backend_service_backend_health_def attr_of_def execute_once_apply
      health_request_def)

lemma check_backend_cases:
  assumes "check_backend E c (Some bs) region b s = (r, s')"
  obtains (moved) "r = Inr ()" and "moved b s s'" and "seen_healthy E c bs region (hs_world s') b"
  | (kept) "r = Inr ()" and "same_sets s s'"
  | (raised) e where "r = Inl e" and "same_sets s s'"
proof (cases "http E (hs_world s) (health_request c bs b region)")
  case (Inl e)
  with assms that(3) show thesis
    by (auto simp: check_backend_def bind_apply health_call_apply same_sets_def)
next
  case (Inr result)
  show thesis
  proof (cases "reported_healthy result")
    case (Inl e)
    with Inr assms that(3) show thesis
      by (auto simp: check_backend_def bind_apply health_call_apply same_sets_def raise_def)
  next
    case ok: (Inr ok)
    show thesis
    proof (cases ok)
      case True
      have "seen_healthy E c bs region (hs_world s @ [health_request c bs b region]) b"
        unfolding seen_healthy_def
        by (intro exI [of _ "hs_world s"] exI [of _ "[]"] exI [of _ result])
           (use Inr ok True in auto)
      moreover have "r = Inr ()" and "hs_world s' = hs_world s @ [health_request c bs b region]"
        and "moved b s s'"
        using True ok Inr assms
        by (auto simp: check_backend_def bind_apply health_call_apply moved_def modify_def)
      ultimately show thesis using that(1) by simp
    next
      case False
      with ok Inr assms that(2) show thesis
        by (auto simp: check_backend_def bind_apply health_call_apply same_sets_def return_def)
    qed
  qed
qed

lemma check_backend_history:
  assumes "check_backend E c (Some bs) region b s = (r, s')"
  shows "hs_world s' = hs_world s @ [health_request c bs b region]"
  using assms
  by (cases "http E (hs_world s) (health_request c bs b region)")
     (auto simp: check_backend_def bind_apply health_call_apply lift_def modify_def return_def
       split: sum.splits if_splits)

lemma moved_changes_size:
  assumes "moved b s s'" and "b \<in> pending s" and "finite (pending s)"
  shows "card (pending s') \<noteq> card (pending s)"
  using assms card_Suc_Diff1 [of "pending s" b] by (auto simp: moved_def)

lemma check_loop:
  assumes "for_set pending n (check_backend E c (Some bs) region) xs s = (r, s')"
    and "n = card (pending s)" and "finite (pending s)" and "set xs \<subseteq> pending s"
  shows "r = Inr () \<and> same_sets s s'
    \<or> (\<exists>e. r = Inl e \<and> same_sets s s')
    \<or> (\<exists>b \<in> set xs. r = Inl size_changed \<and> moved b s s' \<and> seen_healthy E c bs region (hs_world s') b)"
  using assms
proof (induction xs arbitrary: s)
  case Nil
  then show ?case by (auto simp: same_sets_def split: if_splits)
next
  case (Cons x xs)
  obtain r1 s1 where first: "check_backend E c (Some bs) region x s = (r1, s1)" by fastforce
  from first show ?case
  proof (cases rule: check_backend_cases)
    case moved
    have "card (pending s1) \<noteq> n"
      using moved_changes_size [OF moved(2)] Cons.prems by auto
    then have "for_set pending n (check_backend E c (Some bs) region) xs s1 = (Inl size_changed, s1)"
      by (cases xs) simp_all
    with Cons.prems first moved show ?thesis by (auto simp: bind_apply split: if_splits)
  next
    case kept
    then have "for_set pending n (check_backend E c (Some bs) region) xs s1 = (r, s')"
      using Cons.prems first by (auto simp: bind_apply split: if_splits)
    from Cons.IH [OF this] Cons.prems kept show ?thesis
      by (auto simp: same_sets_def moved_def)
  next
    case (raised e)
    with Cons.prems first show ?thesis by (auto simp: bind_apply split: if_splits)
  qed
qed

lemma attempt_cases:
  assumes "retry_backends_health H c (Some bs) replica_count region s = (r, s')"
    and "visits (he_order H) (pending s)" and "finite (pending s)"
  obtains (answered) "r = Inr (JBool (pending s' = {} \<or> int (card (healthy s')) \<ge> replica_count))"
      and "same_sets s s'"
  | (raised) e where "r = Inl e" and "same_sets s s'"
  | (one_moved) b where "b \<in> pending s" and "r = Inl size_changed" and "moved b s s'"
      and "seen_healthy (he_env H) c bs region (hs_world s') b"
proof -
  obtain r1 s1 where loop: "for_set pending (card (pending s))
      (check_backend (he_env H) c (Some bs) region) (he_order H (pending s)) s = (r1, s1)"
    by fastforce
  have order: "set (he_order H (pending s)) = pending s"
    using assms(2) by (simp add: visits_def)
  from check_loop [OF loop refl assms(3)] order
  have "r1 = Inr () \<and> same_sets s s1
    \<or> (\<exists>e. r1 = Inl e \<and> same_sets s s1)
    \<or> (\<exists>b \<in> pending s. r1 = Inl size_changed \<and> moved b s s1
         \<and> seen_healthy (he_env H) c bs region (hs_world s1) b)"
    by simp
  with assms(1) loop that show thesis
    by (auto simp: retry_backends_health_def bind_apply get_state_def return_def)
qed

lemma attempt_history:
  assumes "retry_backends_health H c bs replica_count region s = (r, s')"
  shows "\<exists>rs. hs_world s' = hs_world s @ rs"
proof -
  have "emits hs_world (\<lambda>_. True) (on_world (get_backend_service_backend_health E c bs u region))"
    for E u
    by (cases bs) (auto simp: emits_def on_world_def get_backend_service_backend_health_def attr_of_def
        execute_once_apply bind_apply raise_def return_def)
  then have "emits hs_world (\<lambda>_. True) (retry_backends_health H c bs replica_count region)"
    unfolding retry_backends_health_def check_backend_def
    by (intro emits_bind emits_pure emits_for_set emits_if emits_modify) auto
  with assms show ?thesis by (metis emitsD)
qed

section \<open>The wait as a whole\<close>

text \<open>
  Between attempts the two sets partition the backends, and every backend in \<open>healthy\<close> has been
  reported healthy.
\<close>

definition health_inv ::
  "env \<Rightarrow> compute \<Rightarrow> gcp_resource \<Rightarrow> string option \<Rightarrow> neg_gcp_resource set \<Rightarrow> health_state \<Rightarrow> bool" where
  "health_inv E c bs region backends s \<longleftrightarrow>
     pending s \<union> healthy s = backends \<and> pending s \<inter> healthy s = {} \<and>
     (\<forall>b \<in> healthy s. seen_healthy E c bs region (hs_world s) b)"

lemma visits_subset: "visits order S \<Longrightarrow> T \<subseteq> S \<Longrightarrow> visits order T"
  by (auto simp: visits_def)

lemma attempt_keeps_inv:
  assumes "health_inv (he_env H) c bs region backends s" and "visits (he_order H) backends"
    and "finite backends"
    and "retry_backends_health H c (Some bs) replica_count region s = (r, s')"
  shows "health_inv (he_env H) c bs region backends s'"
proof -
  have sub: "pending s \<subseteq> backends" using assms(1) by (auto simp: health_inv_def)
  obtain rs where w: "hs_world s' = hs_world s @ rs"
    using attempt_history [OF assms(4)] by blast
  from assms(4) visits_subset [OF assms(2) sub] finite_subset [OF sub assms(3)]
  show ?thesis
  proof (cases rule: attempt_cases)
    case (one_moved b)
    with assms(1) w show ?thesis
      by (auto simp: health_inv_def moved_def intro: seen_healthy_later)
  qed (use assms(1) w in \<open>auto simp: health_inv_def same_sets_def intro: seen_healthy_later\<close>)
qed

lemma health_retryer_simps:
  assumes "health_retryer = Inr cfg"
  shows "rt_stop cfg = [StopAfterDelay wait_for_backend_sec]"
    and "any_wanted (rt_retry cfg) (Inl e) = Inr (e \<noteq> Diverges)"
    and "any_wanted (rt_retry cfg) (Inr v) = Inr (\<not> py_truth v)"
    and "give_up cfg out nm = RetryError out (RetryInfo nm (Some wait_for_backend_sec) 0 True [])"
  using assms
  by (auto simp: health_retryer_def constant_retryer_def build_retry_conditions_def Let_def
      safe_check_result_def give_up_def on_error_callback_def wait_for_backend_sec_def)

lemma health_retryer_ok: "\<exists>cfg. health_retryer = Inr cfg"
  by (simp add: health_retryer_def constant_retryer_def wait_for_backend_sec_def)

text \<open>A wait that returns made a run of attempts, the last of which answered true.\<close>

lemma wait_returns:
  assumes "wait_for_backends_healthy_status H c (Some bs) backends replica_count region w = (Inr (), w')"
    and "tenacity_ok (he_tenacity H)"
  obtains k s1 v where "retry_backends_health H c (Some bs) replica_count region
      (attempts (retry_backends_health H c (Some bs) replica_count region) k
         \<lparr>hs_world = w, pending = backends, healthy = {}\<rparr>) = (Inr v, s1)"
    and "py_truth v" and "w' = hs_world s1"
proof -
  let ?fn = "retry_backends_health H c (Some bs) replica_count region"
  let ?s = "\<lparr>hs_world = w, pending = backends, healthy = {}\<rparr> :: health_state"
  obtain cfg where cfg: "health_retryer = Inr cfg" using health_retryer_ok ..
  note cfg_simps = health_retryer_simps [OF cfg]
  obtain r s1 where T: "he_tenacity H cfg ?fn ?s = (r, s1)" by fastforce
  have never: "fst (raise_with_health H c (Some bs) backends region e s) \<noteq> Inr x" for e x and s
    by (auto simp: raise_with_health_def bind_apply Let_def attr_of_def return_def raise_def lift_def
        get_state_def split: sum.splits prod.splits)
  have ne: "backends \<noteq> {}" "replica_count \<noteq> 0"
    using assms(1)
    by (auto simp: wait_for_backends_healthy_status_def raise_def split: if_splits)
  have wait: "wait_for_backends_healthy_status H c (Some bs) backends replica_count region w =
     (case try_except (he_tenacity H cfg ?fn) (\<lambda>e. isinstance e [CRetryError])
             (raise_with_health H c (Some bs) backends region) ?s
      of (Inl e, s) \<Rightarrow> (Inl e, hs_world s) | (Inr _, s) \<Rightarrow> (Inr (), hs_world s))"
    unfolding wait_for_backends_healthy_status_def cfg using ne by simp
  have "\<exists>v. r = Inr v \<and> w' = hs_world s1"
  proof (cases r)
    case (Inl e)
    obtain e' s2 where "raise_with_health H c (Some bs) backends region e s1 = (Inl e', s2)"
      using never [of e s1] by (metis fst_conv obj_sumE surj_pair)
    with Inl T wait assms(1) show ?thesis
      by (auto simp: try_except_def split: if_splits)
  next
    case (Inr v)
    with T wait assms(1) show ?thesis by (simp add: try_except_def)
  qed
  then obtain v where v: "r = Inr v" "w' = hs_world s1" by blast
  obtain m where "retry_run cfg ?fn 1 ?s m (Inr v, s1)"
    using tenacity_run [OF assms(2), where cfg = cfg and fn = ?fn and s = ?s] cfg_simps(1) T v(1) by auto
  from retry_run_shape [OF this] cfg_simps(3) [of v]
  have "?fn (attempts ?fn (m - 1) ?s) = (Inr v, s1) \<and> py_truth v" by auto
  with that v(2) show thesis by blast
qed

text \<open>Everything a returning wait guarantees, from the invariant at its last attempt.\<close>

lemma wait_last_state:
  assumes "wait_for_backends_healthy_status H c (Some bs) backends replica_count region w = (Inr (), w')"
    and "tenacity_ok (he_tenacity H)" and "visits (he_order H) backends" and "finite backends"
  obtains s1 where "w' = hs_world s1" and "health_inv (he_env H) c bs region backends s1"
    and "pending s1 = {} \<or> replica_count \<le> int (card (healthy s1))"
proof -
  let ?fn = "retry_backends_health H c (Some bs) replica_count region"
  let ?s = "\<lparr>hs_world = w, pending = backends, healthy = {}\<rparr> :: health_state"
  let ?I = "health_inv (he_env H) c bs region backends"
  obtain k s1 v where last: "?fn (attempts ?fn k ?s) = (Inr v, s1)" "py_truth v" "w' = hs_world s1"
    using assms(1,2) by (rule wait_returns)
  have "?I ?s" by (simp add: health_inv_def)
  then have inv: "?I (attempts ?fn k ?s)"
    by (rule attempts_invariant) (use attempt_keeps_inv assms(3,4) in blast)
  then have inv1: "?I s1" using attempt_keeps_inv [OF inv assms(3,4) last(1)] by simp
  have sub: "pending (attempts ?fn k ?s) \<subseteq> backends" using inv by (auto simp: health_inv_def)
  from last(1) visits_subset [OF assms(3) sub] finite_subset [OF sub assms(4)]
  have "v = JBool (pending s1 = {} \<or> replica_count \<le> int (card (healthy s1)))"
    by (cases rule: attempt_cases) auto
  with last inv1 that show thesis by simp
qed

text \<open>
  With every backend answering healthy, each attempt raises after moving one backend, until none
  is left; only then an attempt answers.
\<close>

lemma all_healthy_attempt:
  assumes "visits (he_order H) (pending s)" and "finite (pending s)"
    and "\<And>h b. b \<in> pending s \<Longrightarrow> \<exists>result. http (he_env H) h (health_request c bs b region) = Inr result
           \<and> reported_healthy result = Inr True"
    and "retry_backends_health H c (Some bs) replica_count region s = (r, s')"
  shows "pending s = {} \<longrightarrow> r = Inr (JBool True) \<and> same_sets s s'"
    and "pending s \<noteq> {} \<longrightarrow> r = Inl size_changed \<and> (\<exists>b \<in> pending s. moved b s s')"
proof -
  have order: "set (he_order H (pending s)) = pending s" using assms(1) by (simp add: visits_def)
  show "pending s = {} \<longrightarrow> r = Inr (JBool True) \<and> same_sets s s'"
    using assms(4) order
    by (auto simp: retry_backends_health_def bind_apply get_state_def return_def same_sets_def)
  show "pending s \<noteq> {} \<longrightarrow> r = Inl size_changed \<and> (\<exists>b \<in> pending s. moved b s s')"
  proof
    assume "pending s \<noteq> {}"
    with order obtain b bs' where split: "he_order H (pending s) = b # bs'"
      by (cases "he_order H (pending s)") auto
    with order have b: "b \<in> pending s" by auto
    obtain result where ans: "http (he_env H) (hs_world s) (health_request c bs b region) = Inr result"
      "reported_healthy result = Inr True" using assms(3) [OF b] by blast
    obtain s1 where s1: "check_backend (he_env H) c (Some bs) region b s = (Inr (), s1)" "moved b s s1"
      using ans by (auto simp: check_backend_def bind_apply health_call_apply modify_def moved_def)
    have "card (pending s1) \<noteq> card (pending s)"
      using moved_changes_size [OF s1(2) b assms(2)] .
    then have "for_set pending (card (pending s)) (check_backend (he_env H) c (Some bs) region)
        (he_order H (pending s)) s = (Inl size_changed, s1)"
      using s1(1) split by (cases bs') (simp_all add: bind_apply)
    with assms(4) b s1(2) show "r = Inl size_changed \<and> (\<exists>b \<in> pending s. moved b s s')"
      by (auto simp: retry_backends_health_def bind_apply get_state_def)
  qed
qed

lemma all_healthy_attempts:
  assumes "visits (he_order H) backends" and "finite backends"
    and "\<And>h b. b \<in> backends \<Longrightarrow> \<exists>result. http (he_env H) h (health_request c bs b region) = Inr result
           \<and> reported_healthy result = Inr True"
  shows "k \<le> card (pending s) \<Longrightarrow> pending s \<subseteq> backends \<Longrightarrow>
    (\<forall>i < k. fst (retry_backends_health H c (Some bs) replica_count region
        (attempts (retry_backends_health H c (Some bs) replica_count region) i s)) = Inl size_changed)
    \<and> card (pending (attempts (retry_backends_health H c (Some bs) replica_count region) k s))
        = card (pending s) - k
    \<and> pending (attempts (retry_backends_health H c (Some bs) replica_count region) k s) \<subseteq> backends"
proof (induction k)
  case (Suc k)
  let ?fn = "retry_backends_health H c (Some bs) replica_count region"
  let ?sk = "attempts ?fn k s"
  from Suc have IH: "\<forall>i < k. fst (?fn (attempts ?fn i s)) = Inl size_changed"
    "card (pending ?sk) = card (pending s) - k" "pending ?sk \<subseteq> backends" by auto
  obtain r s' where step: "?fn ?sk = (r, s')" by fastforce
  have fin: "finite (pending ?sk)" using IH(3) assms(2) by (rule finite_subset)
  have ne: "pending ?sk \<noteq> {}" using IH(2) Suc.prems(1) by auto
  have "r = Inl size_changed \<and> (\<exists>b \<in> pending ?sk. moved b ?sk s')"
    using all_healthy_attempt(2) [OF visits_subset [OF assms(1) IH(3)] fin _ step] assms(3) IH(3) ne
    by blast
  then obtain b where b: "r = Inl size_changed" "b \<in> pending ?sk" "moved b ?sk s'" by blast
  then have "card (pending s') = card (pending s) - Suc k"
    using IH(2) fin by (simp add: moved_def)
  moreover have "pending s' \<subseteq> backends" using b(3) IH(3) by (auto simp: moved_def)
  ultimately show ?case
    using IH(1) b(1) step by (auto simp: attempts_Suc_end less_Suc_eq simp del: attempts.simps)
qed simp

section \<open>Properties\<close>

text \<open>Two backends that every health request reports healthy, visited in a fixed order.\<close>

definition demo_neg :: "string \<Rightarrow> neg_gcp_resource" where
  "demo_neg zn = \<lparr>name = JStr ''neg'', url = JStr zn, zone = JStr zn, neg_id = JInt 1, neg_size = JInt 1,
     network_endpoint_type = JStr [], description = JStr []\<rparr>"

definition demo_health :: health_env where
  "demo_health = \<lparr>he_env = with_answers (\<lambda>w r. Inr (JObj [(''healthStatus'', JList [JObj
       [(''ipAddress'', JStr ''10.0.0.1''), (''port'', JInt 80), (''healthState'', JStr ''HEALTHY'')]])])),
     he_tenacity = simple_retryer 3,
     he_order = (\<lambda>S. filter (\<lambda>b. b \<in> S) [demo_neg ''a'', demo_neg ''b'']),
     he_pretty = (\<lambda>xs. [])\<rparr>"

lemma demo_negs_differ [simp]: "demo_neg ''a'' \<noteq> demo_neg ''b''" "demo_neg ''b'' \<noteq> demo_neg ''a''"
  by (simp_all add: demo_neg_def)

lemma demo_visits: "visits (he_order demo_health) {demo_neg ''a'', demo_neg ''b''}"
  by (auto simp: visits_def demo_health_def)

lemma demo_healthy:
  "\<exists>result. http (he_env demo_health) h r = Inr result \<and> reported_healthy result = Inr True"
  by (simp add: demo_health_def reported_healthy_def)

text \<open>
  C30: when the wait returns, some of the backends have each been reported healthy by an answer in
  the history, and they are all backends or at least as many as the replica count.
\<close>

theorem wait_sound:
  assumes "wait_for_backends_healthy_status H c (Some bs) backends replica_count region w = (Inr (), w')"
    and "tenacity_ok (he_tenacity H)" and "visits (he_order H) backends" and "finite backends"
  shows "\<exists>hs \<subseteq> backends. (\<forall>b \<in> hs. seen_healthy (he_env H) c bs region w' b)
    \<and> (hs = backends \<or> replica_count \<le> int (card hs))"
proof -
  obtain s1 where "w' = hs_world s1" and "health_inv (he_env H) c bs region backends s1"
    and "pending s1 = {} \<or> replica_count \<le> int (card (healthy s1))"
    using assms by (rule wait_last_state)
  then show ?thesis by (intro exI [of _ "healthy s1"]) (auto simp: health_inv_def)
qed

lemma demo_wait:
  "wait_for_backends_healthy_status demo_health demo_compute (Some (GcpResource (JStr ''bs'') (JStr ''link'')))
     {demo_neg ''a''} 1 None []
   = (Inr (), [health_request demo_compute (GcpResource (JStr ''bs'') (JStr ''link'')) (demo_neg ''a'') None])"
proof -
  let ?bs = "GcpResource (JStr ''bs'') (JStr ''link'')"
  let ?fn = "retry_backends_health demo_health demo_compute (Some ?bs) 1 None"
  let ?r = "health_request demo_compute ?bs (demo_neg ''a'') None"
  let ?s0 = "\<lparr>hs_world = [], pending = {demo_neg ''a''}, healthy = {}\<rparr>"
  let ?s1 = "\<lparr>hs_world = [?r], pending = {}, healthy = {demo_neg ''a''}\<rparr>"
  obtain cfg where cfg: "health_retryer = Inr cfg" using health_retryer_ok ..
  note cfg_simps = health_retryer_simps [OF cfg]
  have order: "he_order demo_health {demo_neg ''a''} = [demo_neg ''a'']" "he_order demo_health {} = []"
    by (simp_all add: demo_health_def)
  obtain result where answer: "\<And>h. http (he_env demo_health) h ?r = Inr result"
    "reported_healthy result = Inr True"
    by (simp add: demo_health_def reported_healthy_def)
  have one: "?fn ?s0 = (Inl size_changed, ?s1)"
    using answer by (simp add: retry_backends_health_def bind_apply get_state_def order check_backend_def
        health_call_apply modify_def)
  have two: "?fn ?s1 = (Inr (JBool True), ?s1)"
    by (simp add: retry_backends_health_def bind_apply get_state_def order return_def)
  have "retry_loop 3 1 cfg ?fn ?s0 = (Inr (JBool True), ?s1)"
    using one two cfg_simps
    by (subst retry_loop.simps, simp add: must_stop_def eval_nat_numeral)
      (subst retry_loop.simps, simp)
  moreover have "he_tenacity demo_health cfg ?fn ?s0 = retry_loop 3 1 cfg ?fn ?s0"
    by (simp add: demo_health_def simple_retryer_def loop_budget_def cfg_simps)
  ultimately show ?thesis
    by (simp add: wait_for_backends_healthy_status_def cfg try_except_def)
qed

theorem wait_sound_witness:
  "\<exists>hs \<subseteq> {demo_neg ''a''}. (\<forall>b \<in> hs. seen_healthy (he_env demo_health) demo_compute
        (GcpResource (JStr ''bs'') (JStr ''link'')) None
        [health_request demo_compute (GcpResource (JStr ''bs'') (JStr ''link'')) (demo_neg ''a'') None] b)
    \<and> (hs = {demo_neg ''a''} \<or> 1 \<le> int (card hs))"
  by (rule wait_sound [OF demo_wait _ visits_subset [OF demo_visits]])
    (simp_all add: demo_health_def simple_retryer_ok)

text \<open>
  When every one of \<open>n\<close> backends is reported healthy from the start, the first \<open>n\<close> attempts raise
  (the set is changed while it is iterated over), and only attempt \<open>n + 1\<close> answers: the wait spends
  one retry pause for each backend.
\<close>

theorem healthy_backends_cost_retries:
  assumes "visits (he_order H) backends" and "finite backends"
    and "\<And>h b. b \<in> backends \<Longrightarrow> \<exists>result. http (he_env H) h (health_request c bs b region) = Inr result
           \<and> reported_healthy result = Inr True"
  shows "(\<forall>i < card backends. fst (retry_backends_health H c (Some bs) replica_count region
        (attempts (retry_backends_health H c (Some bs) replica_count region) i
           \<lparr>hs_world = w, pending = backends, healthy = {}\<rparr>)) = Inl size_changed)
    \<and> fst (retry_backends_health H c (Some bs) replica_count region
        (attempts (retry_backends_health H c (Some bs) replica_count region) (card backends)
           \<lparr>hs_world = w, pending = backends, healthy = {}\<rparr>)) = Inr (JBool True)"
proof -
  let ?fn = "retry_backends_health H c (Some bs) replica_count region"
  let ?s = "\<lparr>hs_world = w, pending = backends, healthy = {}\<rparr> :: health_state"
  let ?sn = "attempts ?fn (card backends) ?s"
  have all: "\<forall>i < card backends. fst (?fn (attempts ?fn i ?s)) = Inl size_changed"
    "card (pending ?sn) = 0" "pending ?sn \<subseteq> backends"
    using all_healthy_attempts [OF assms, of "card backends" ?s replica_count] by simp_all
  then have "pending ?sn = {}" using assms(2) by (simp add: finite_subset)
  moreover obtain r s' where "?fn ?sn = (r, s')" by fastforce
  ultimately have "r = Inr (JBool True)"
    using all_healthy_attempt(1) [where s = ?sn and s' = s' and H = H and c = c and bs = bs and region = region]
      assms(1) visits_subset by (metis empty_iff finite.emptyI all(3))
  with all(1) \<open>?fn ?sn = (r, s')\<close> show ?thesis by simp
qed

theorem healthy_backends_cost_retries_witness:
  "let fn = retry_backends_health demo_health demo_compute (Some (GcpResource (JStr ''bs'') (JStr ''link''))) 2 None;
       s = \<lparr>hs_world = [], pending = {demo_neg ''a'', demo_neg ''b''}, healthy = {}\<rparr>
   in fst (fn s) = Inl size_changed \<and> fst (fn (snd (fn s))) = Inl size_changed
     \<and> fst (fn (snd (fn (snd (fn s))))) = Inr (JBool True)"
proof -
  let ?bs = "GcpResource (JStr ''bs'') (JStr ''link'')"
  let ?fn = "retry_backends_health demo_health demo_compute (Some ?bs) 2 None"
  let ?s = "\<lparr>hs_world = [], pending = {demo_neg ''a'', demo_neg ''b''}, healthy = {}\<rparr> :: health_state"
  have card: "card {demo_neg ''a'', demo_neg ''b''} = 2" by (simp add: demo_neg_def)
  have runs: "(\<forall>i < card {demo_neg ''a'', demo_neg ''b''}. fst (?fn (attempts ?fn i ?s)) = Inl size_changed)
    \<and> fst (?fn (attempts ?fn (card {demo_neg ''a'', demo_neg ''b''}) ?s)) = Inr (JBool True)"
    by (rule healthy_backends_cost_retries [OF demo_visits _ demo_healthy]) simp
  have "fst (?fn (attempts ?fn i ?s)) = Inl size_changed" if i: "i < 2" for i
    using runs i unfolding card by blast
  from this [of 0] this [of "Suc 0"] have "fst (?fn (attempts ?fn 0 ?s)) = Inl size_changed"
    "fst (?fn (attempts ?fn (Suc 0) ?s)) = Inl size_changed" by simp_all
  moreover have "fst (?fn (attempts ?fn 2 ?s)) = Inr (JBool True)" using runs unfolding card by blast
  ultimately show ?thesis unfolding Let_def numeral_2_eq_2 attempts.simps by blast
qed

text \<open>
  Without backends, or for no replicas, the wait raises \<open>ValueError\<close> and sends nothing.
\<close>

lemma wait_rejects_nothing_to_wait_for:
  assumes "backends = {} \<or> replica_count = 0"
  shows "\<exists>msg. wait_for_backends_healthy_status H c bs backends replica_count region w = (Inl (ValueError msg), w)"
  using assms by (auto simp: wait_for_backends_healthy_status_def raise_def)

end
