(* ===== verification/Managed.thy ===== *)
theory Managed
  imports PyBase
begin

text \<open>
  What the delete methods of the resource managers share: each picks a name (with \<open>force\<close> the name
  the manager would give, otherwise the name of the resource it holds, if any), calls the delete
  operation of a client, and forgets the resource. The lemmas are proved once, against the
  interface \<open>deleter\<close> of the clients, and every delete method of the managers is an
  interpretation.
\<close>

section \<open>A method that deletes one resource\<close>

locale managed_deletion =
  fixes ok :: bool and served :: "'o \<Rightarrow> bool"
    and del :: "'o \<Rightarrow> 'n \<Rightarrow> (world, bool) act"
    and change :: "'o \<Rightarrow> 'n \<Rightarrow> change"
    and made :: "'o \<Rightarrow> 'n" and held :: "'o \<Rightarrow> 'n option" and forget :: "'o \<Rightarrow> 'o"
    and del_meth :: "bool \<Rightarrow> ('o \<times> world, unit) act"
  assumes client: "deleter ok (served obj) (del obj) (change obj)"
    and method_eq: "del_meth force = using_self (\<lambda>self.
      case (if force then Some (made self) else held self) of
        None \<Rightarrow> return ()
      | Some n \<Rightarrow> andthen (call (del self n)) (assign forget))"
begin

text \<open>The changes the method may make.\<close>

definition target :: "bool \<Rightarrow> 'o \<Rightarrow> change list" where
  "target force self =
     (case (if force then Some (made self) else held self) of None \<Rightarrow> [] | Some n \<Rightarrow> [change self n])"

lemma idle: "held self = None \<Longrightarrow> del_meth False (self, w) = (Inr (), (self, w))"
  by (simp add: method_eq act_simps)

text \<open>In good order: exactly the one delete, and the resource is forgotten.\<close>

lemma served_run:
  assumes ok and "served self"
  obtains w' where "del_meth force (self, w)
      = (Inr (), (if force \<or> held self \<noteq> None then forget self else self, w'))"
    and "changes w' = changes w @ target force self"
proof (cases "if force then Some (made self) else held self")
  case None
  then have "held self = None" "\<not> force" by (auto split: if_splits)
  with that [of w] show thesis by (simp add: idle target_def)
next
  case (Some n)
  obtain w' where "del self n w = (Inr True, w')" "changes w' = changes w @ [change self n]"
    using deleter.deletes_once [OF client assms] by blast
  moreover from Some have "force \<or> held self \<noteq> None" by (auto split: if_splits)
  ultimately show thesis using Some that [of w']
    by (simp add: method_eq act_simps andthen_def bind_apply call_def target_def)
qed

lemma does_run:
  assumes ok and "served self"
  shows "does (del_meth force) self (if force \<or> held self \<noteq> None then forget self else self)
           (target force self)"
  unfolding does_def using served_run [OF assms] by metis

text \<open>Whatever the service does, nothing but the target is changed.\<close>

lemma only_target:
  assumes ok and "\<And>self. I self \<Longrightarrow> I (forget self)"
    and "\<And>self q. I self \<Longrightarrow> mutates q \<Longrightarrow> change_of q \<in> set (target force self) \<Longrightarrow> P q"
    and "\<And>q. \<not> mutates q \<Longrightarrow> P q"
  shows "obeys I P (del_meth force)"
  unfolding method_eq
proof (intro obeys_using_self obeys_case_option obeys_pure obeys_andthen obeys_call obeys_assign assms(2))
  fix self n
  assume I: "I self" and n: "(if force then Some (made self) else held self) = Some n"
  show "emits (\<lambda>w. w) P (del self n)"
    by (rule emits_mono [OF deleter.del_emits [OF client assms(1)]])
      (use assms(3) [OF I] assms(4) n in \<open>auto simp: target_def\<close>)
qed

text \<open>A call that returns has forgotten the resource, or there was nothing to delete.\<close>

lemma returned:
  assumes "del_meth force (self, w) = (Inr (), (self', w'))"
  obtains (deleted) "self' = forget self" | (nothing) "held self = None" "self' = self" "w' = w"
proof (cases "if force then Some (made self) else held self")
  case None
  with assms have "held self = None" "self' = self" "w' = w"
    by (simp_all add: method_eq act_simps split: if_splits)
  then show thesis by (rule that(2))
next
  case (Some n)
  obtain r w1 where d: "del self n w = (r, w1)" by fastforce
  show thesis
  proof (cases r)
    case (Inl e)
    with assms Some d show thesis by (simp add: method_eq act_simps andthen_def bind_apply call_def)
  next
    case (Inr b)
    with assms Some d have "self' = forget self"
      by (simp add: method_eq act_simps andthen_def bind_apply call_def)
    then show thesis by (rule that(1))
  qed
qed

lemma ends_either:
  assumes "Q (forget self)" and "held self = None \<Longrightarrow> Q self"
  shows "ends (del_meth force) self Q"
  unfolding ends_def
proof (intro allI impI)
  fix w x self' w'
  assume "del_meth force (self, w) = (Inr x, (self', w'))"
  then have "del_meth force (self, w) = (Inr (), (self', w'))" by simp
  then show "Q self'" by (cases rule: returned) (use assms in auto)
qed

end

section \<open>A resource kept in a field\<close>

text \<open>When the method clears the field it looks at, deleting twice is deleting once.\<close>

locale managed_resource = managed_deletion +
  assumes forgotten: "held (forget self) = None"
begin

lemma returned_empty:
  "del_meth force (self, w) = (Inr (), (self', w')) \<Longrightarrow> held self' = None"
  by (erule returned) (simp_all add: forgotten)

lemma second_is_idle:
  "del_meth force (self, w) = (Inr (), (self', w')) \<Longrightarrow> del_meth False (self', w') = (Inr (), (self', w'))"
  by (rule idle) (rule returned_empty)

end

section \<open>A resource kept in one field\<close>

text \<open>When forgetting changes nothing else, the object after the call does not depend on the case.\<close>

locale managed_field = managed_resource +
  assumes forget_nothing: "held self = None \<Longrightarrow> forget self = self"
begin

lemma does_forget: "ok \<Longrightarrow> served self \<Longrightarrow> does (del_meth force) self (forget self) (target force self)"
  using does_run [of self force] forget_nothing [of self] by (auto split: if_splits)

lemma ends_forgotten: "Q (forget self) \<Longrightarrow> ends (del_meth force) self Q"
  using forget_nothing by (intro ends_either) simp_all

end

end
