(* ===== verification/TrafficDirector.thy ===== *)
theory TrafficDirector
  imports BackendHealth Managed
begin

text \<open>
  framework/infrastructure/traffic_director.py, class \<open>TrafficDirectorManager\<close>: the manager that
  creates the Traffic Director resources of a test, keeps them in its fields, and deletes them.
  A method is an action on the manager and the world. Log calls are left out, except for the
  attributes they read, which raise when the resource is not there.
\<close>

section \<open>State\<close>

abbreviation "BACKEND_SERVICE_NAME \<equiv> ''backend-service''"
abbreviation "AFFINITY_BACKEND_SERVICE_NAME \<equiv> ''backend-service-affinity''"
abbreviation "ALTERNATIVE_BACKEND_SERVICE_NAME \<equiv> ''backend-service-alt''"
abbreviation "URL_MAP_NAME \<equiv> ''url-map''"
abbreviation "ALTERNATIVE_URL_MAP_NAME \<equiv> ''url-map-alt''"
abbreviation "URL_MAP_PATH_MATCHER_NAME \<equiv> ''path-matcher''"
abbreviation "TARGET_PROXY_NAME \<equiv> ''target-proxy''"
abbreviation "TARGET_PROXY_NAME_IPV6 \<equiv> ''target-proxy-ipv6''"
abbreviation "ALTERNATIVE_TARGET_PROXY_NAME \<equiv> ''target-proxy-alt''"
abbreviation "FORWARDING_RULE_NAME \<equiv> ''forwarding-rule''"
abbreviation "FORWARDING_RULE_NAME_IPV6 \<equiv> ''forwarding-rule-ipv6''"
abbreviation "ALTERNATIVE_FORWARDING_RULE_NAME \<equiv> ''forwarding-rule-alt''"
abbreviation "HEALTH_CHECK_NAME \<equiv> ''health-check''"
abbreviation "FIREWALL_RULE_NAME \<equiv> ''allow-health-checks''"
abbreviation "FIREWALL_RULE_NAME_IPV6 \<equiv> ''allow-health-checks-ipv6''"
abbreviation "TEST_AFFINITY_METADATA_KEY \<equiv> ''xds_md''"

record td =
  td_compute :: compute
  td_project :: string
  td_network :: string
  td_resource_prefix :: string
  td_resource_suffix :: "string option"
  td_enable_dualstack :: bool
  td_region :: "string option"
  td_health_check :: "gcp_resource option"
  td_url_map :: "gcp_resource option"
  td_alternative_url_map :: "gcp_resource option"
  td_firewall_rule :: "gcp_resource option"
  td_firewall_rule_ipv6 :: "gcp_resource option"
  td_target_proxy :: "gcp_resource option"
  td_target_proxy_ipv6 :: "gcp_resource option"
  td_target_proxy_is_http :: bool
  td_alternative_target_proxy :: "gcp_resource option"
  td_forwarding_rule :: "gcp_resource option"
  td_forwarding_rule_ipv6 :: "gcp_resource option"
  td_alternative_forwarding_rule :: "gcp_resource option"
  td_backends :: "neg_gcp_resource set"
  td_alternative_backends :: "neg_gcp_resource set"
  td_affinity_backends :: "neg_gcp_resource set"
  td_backend_service :: "gcp_resource option"
  td_affinity_backend_service :: "gcp_resource option"
  td_alternative_backend_service :: "gcp_resource option"
  td_backend_service_protocol :: backend_service_protocol
  td_affinity_backend_service_protocol :: backend_service_protocol
  td_alternative_backend_service_protocol :: backend_service_protocol
  td_ensure_firewall :: bool

text \<open>\<open>__init__\<close>: the settings, and no resource.\<close>

definition td_init ::
  "string option \<Rightarrow> string \<Rightarrow> string \<Rightarrow> string option \<Rightarrow> string \<Rightarrow> bool \<Rightarrow> string option \<Rightarrow> td" where
  "td_init gfe_header prj resource_prefix resource_suffix network enable_dualstack xds_server_region =
     \<lparr>td_compute = \<lparr>project = prj, gfe_debug_header = gfe_header\<rparr>,
      td_project = prj, td_network = network,
      td_resource_prefix = resource_prefix, td_resource_suffix = resource_suffix,
      td_enable_dualstack = enable_dualstack, td_region = xds_server_region,
      td_health_check = None, td_url_map = None, td_alternative_url_map = None,
      td_firewall_rule = None, td_firewall_rule_ipv6 = None,
      td_target_proxy = None, td_target_proxy_ipv6 = None, td_target_proxy_is_http = False,
      td_alternative_target_proxy = None,
      td_forwarding_rule = None, td_forwarding_rule_ipv6 = None, td_alternative_forwarding_rule = None,
      td_backends = {}, td_alternative_backends = {}, td_affinity_backends = {},
      td_backend_service = None, td_affinity_backend_service = None, td_alternative_backend_service = None,
      td_backend_service_protocol = BS_UNSET, td_affinity_backend_service_protocol = BS_UNSET,
      td_alternative_backend_service_protocol = BS_UNSET,
      td_ensure_firewall = False\<rparr>"

type_synonym ('x, 'a) td_meth = "('x td_scheme \<times> world, 'a) act"

definition network_url :: "'x td_scheme \<Rightarrow> string" where
  "network_url self = ''global/networks/'' @ td_network self"

text \<open>Prefix, name and suffix with dashes; no trailing dash when the suffix is empty.\<close>

definition make_resource_name :: "'x td_scheme \<Rightarrow> string \<Rightarrow> string" where
  "make_resource_name self nm =
     str_join ''-'' ([td_resource_prefix self, nm] @
       (case td_resource_suffix self of None \<Rightarrow> [] | Some s \<Rightarrow> if s \<noteq> [] then [s] else []))"

definition own_name :: "'x td_scheme \<Rightarrow> string \<Rightarrow> json" where
  "own_name self nm = JStr (make_resource_name self nm)"

text \<open>The names do not depend on the resources held.\<close>

lemma make_resource_name_updates [simp]:
  "make_resource_name (td_health_check_update f1 self) = make_resource_name self"
  "make_resource_name (td_url_map_update f2 self) = make_resource_name self"
  "make_resource_name (td_alternative_url_map_update f3 self) = make_resource_name self"
  "make_resource_name (td_firewall_rule_update f4 self) = make_resource_name self"
  "make_resource_name (td_firewall_rule_ipv6_update f5 self) = make_resource_name self"
  "make_resource_name (td_target_proxy_update f6 self) = make_resource_name self"
  "make_resource_name (td_target_proxy_ipv6_update f7 self) = make_resource_name self"
  "make_resource_name (td_target_proxy_is_http_update f8 self) = make_resource_name self"
  "make_resource_name (td_alternative_target_proxy_update f9 self) = make_resource_name self"
  "make_resource_name (td_forwarding_rule_update f10 self) = make_resource_name self"
  "make_resource_name (td_forwarding_rule_ipv6_update f11 self) = make_resource_name self"
  "make_resource_name (td_alternative_forwarding_rule_update f12 self) = make_resource_name self"
  "make_resource_name (td_backends_update f13 self) = make_resource_name self"
  "make_resource_name (td_alternative_backends_update f14 self) = make_resource_name self"
  "make_resource_name (td_affinity_backends_update f15 self) = make_resource_name self"
  "make_resource_name (td_backend_service_update f16 self) = make_resource_name self"
  "make_resource_name (td_affinity_backend_service_update f17 self) = make_resource_name self"
  "make_resource_name (td_alternative_backend_service_update f18 self) = make_resource_name self"
  "make_resource_name (td_backend_service_protocol_update f19 self) = make_resource_name self"
  "make_resource_name (td_affinity_backend_service_protocol_update f20 self) = make_resource_name self"
  "make_resource_name (td_alternative_backend_service_protocol_update f21 self) = make_resource_name self"
  "make_resource_name (td_ensure_firewall_update f22 self) = make_resource_name self"
  by (simp_all add: make_resource_name_def fun_eq_iff)

lemma own_name_cong: "make_resource_name self = make_resource_name self' \<Longrightarrow> own_name self = own_name self'"
  by (simp add: own_name_def fun_eq_iff)

lemma own_name_updates [simp]:
  "own_name (td_health_check_update f23 self) = own_name self"
  "own_name (td_url_map_update f24 self) = own_name self"
  "own_name (td_alternative_url_map_update f25 self) = own_name self"
  "own_name (td_firewall_rule_update f26 self) = own_name self"
  "own_name (td_firewall_rule_ipv6_update f27 self) = own_name self"
  "own_name (td_target_proxy_update f28 self) = own_name self"
  "own_name (td_target_proxy_ipv6_update f29 self) = own_name self"
  "own_name (td_target_proxy_is_http_update f30 self) = own_name self"
  "own_name (td_alternative_target_proxy_update f31 self) = own_name self"
  "own_name (td_forwarding_rule_update f32 self) = own_name self"
  "own_name (td_forwarding_rule_ipv6_update f33 self) = own_name self"
  "own_name (td_alternative_forwarding_rule_update f34 self) = own_name self"
  "own_name (td_backends_update f35 self) = own_name self"
  "own_name (td_alternative_backends_update f36 self) = own_name self"
  "own_name (td_affinity_backends_update f37 self) = own_name self"
  "own_name (td_backend_service_update f38 self) = own_name self"
  "own_name (td_affinity_backend_service_update f39 self) = own_name self"
  "own_name (td_alternative_backend_service_update f40 self) = own_name self"
  "own_name (td_backend_service_protocol_update f41 self) = own_name self"
  "own_name (td_affinity_backend_service_protocol_update f42 self) = own_name self"
  "own_name (td_alternative_backend_service_protocol_update f43 self) = own_name self"
  "own_name (td_ensure_firewall_update f44 self) = own_name self"
  by (rule own_name_cong, simp)+

section \<open>Health check\<close>

text \<open>\<open>protocol\<close> and \<open>port\<close> are optional; the protocol defaults to gRPC.\<close>

definition td_create_health_check ::
  "env \<Rightarrow> health_check_protocol option \<Rightarrow> int option \<Rightarrow> ('x, unit) td_meth" where
  "td_create_health_check E protocol port = using_self (\<lambda>self.
     case td_health_check self of
       Some hc \<Rightarrow> raise (ValueError (''Health check '' @ text_value E (name hc) @
                           '' already created, delete it first''))
     | None \<Rightarrow>
         let prot = (case protocol of None \<Rightarrow> HC_GRPC | Some p \<Rightarrow> p)
         in bind (call (create_health_check E (td_compute self) (own_name self HEALTH_CHECK_NAME) prot port))
              (\<lambda>resource. assign (td_health_check_update (\<lambda>_. Some resource))))"

text \<open>
  The name a delete method picks: with \<open>force\<close> the name the manager would give, otherwise the name
  of the resource it holds, if any.
\<close>

definition name_to_delete :: "bool \<Rightarrow> json \<Rightarrow> gcp_resource option \<Rightarrow> json option" where
  "name_to_delete force made slot = (if force then Some made else map_option name slot)"

definition td_delete_health_check :: "env \<Rightarrow> bool \<Rightarrow> ('x, unit) td_meth" where
  "td_delete_health_check E force = using_self (\<lambda>self.
     case name_to_delete force (own_name self HEALTH_CHECK_NAME) (td_health_check self) of
       None \<Rightarrow> return ()
     | Some nm \<Rightarrow> andthen (call (delete_health_check E (td_compute self) nm))
                    (assign (td_health_check_update (\<lambda>_. None))))"

section \<open>Backend service\<close>

definition default_protocol :: "backend_service_protocol option \<Rightarrow> backend_service_protocol" where
  "default_protocol protocol = (case protocol of None \<Rightarrow> BS_GRPC | Some p \<Rightarrow> p)"

text \<open>The dual-stack setting of the options is the manager's.\<close>

definition td_create_backend_service ::
  "env \<Rightarrow> backend_service_protocol option \<Rightarrow> backend_service_options \<Rightarrow> ('x, unit) td_meth" where
  "td_create_backend_service E protocol opts = using_self (\<lambda>self.
     let prot = default_protocol protocol
     in bind (call (create_backend_service_traffic_director E (td_compute self)
                      (own_name self BACKEND_SERVICE_NAME) (td_health_check self) (Some prot)
                      (opts\<lparr>bo_enable_dualstack := td_enable_dualstack self\<rparr>) (td_region self)))
          (\<lambda>resource. assign (\<lambda>self. self\<lparr>td_backend_service := Some resource,
                                          td_backend_service_protocol := prot\<rparr>)))"

definition td_load_backend_service :: "env \<Rightarrow> ('x, unit) td_meth" where
  "td_load_backend_service E = using_self (\<lambda>self.
     bind (call (get_backend_service_traffic_director E (td_compute self)
                   (own_name self BACKEND_SERVICE_NAME) (td_region self)))
       (\<lambda>resource. assign (td_backend_service_update (\<lambda>_. Some resource))))"

definition td_delete_backend_service :: "env \<Rightarrow> bool \<Rightarrow> ('x, unit) td_meth" where
  "td_delete_backend_service E force = using_self (\<lambda>self.
     case name_to_delete force (own_name self BACKEND_SERVICE_NAME) (td_backend_service self) of
       None \<Rightarrow> return ()
     | Some nm \<Rightarrow> andthen (call (delete_backend_service E (td_compute self) nm (td_region self)))
                    (assign (td_backend_service_update (\<lambda>_. None))))"

fun get_gcp_negs_in_zones ::
  "env \<Rightarrow> compute \<Rightarrow> json \<Rightarrow> string list \<Rightarrow> (world, neg_gcp_resource set) act" where
  "get_gcp_negs_in_zones E c nm [] = return {}"
| "get_gcp_negs_in_zones E c nm (zn # zones) =
     bind (wait_for_network_endpoint_group E c nm zn)
       (\<lambda>neg. bind (get_gcp_negs_in_zones E c nm zones) (\<lambda>negs. return (insert neg negs)))"

definition td_backend_service_patch_backends ::
  "health_env \<Rightarrow> int option \<Rightarrow> json \<Rightarrow> ('x, unit) td_meth" where
  "td_backend_service_patch_backends H max_rate_per_endpoint circuit_breakers = using_self (\<lambda>self.
     bind (attr_of ''name'' (td_backend_service self))
       (\<lambda>bs. call (backend_service_patch_backends (he_env H) (he_order H) (td_compute self) bs
                     (td_backends self) max_rate_per_endpoint circuit_breakers (td_region self))))"

definition td_backend_service_add_neg_backends ::
  "health_env \<Rightarrow> json \<Rightarrow> string list \<Rightarrow> int option \<Rightarrow> ('x, unit) td_meth" where
  "td_backend_service_add_neg_backends H nm zones max_rate_per_endpoint = using_self (\<lambda>self.
     bind (call (get_gcp_negs_in_zones (he_env H) (td_compute self) nm zones))
       (\<lambda>negs. andthen (assign (td_backends_update (\<lambda>bs. bs \<union> negs)))
          (using_self (\<lambda>self.
             if td_backends self = {} then raise (ValueError ''Unexpected: no backends were loaded.'')
             else td_backend_service_patch_backends H max_rate_per_endpoint JNull))))"

definition td_backend_service_remove_neg_backends ::
  "health_env \<Rightarrow> json \<Rightarrow> string list \<Rightarrow> ('x, unit) td_meth" where
  "td_backend_service_remove_neg_backends H nm zones = using_self (\<lambda>self.
     bind (call (get_gcp_negs_in_zones (he_env H) (td_compute self) nm zones))
       (\<lambda>negs. andthen (assign (td_backends_update (\<lambda>bs. bs - negs)))
          (td_backend_service_patch_backends H None JNull)))"

definition td_backend_service_remove_all_backends :: "env \<Rightarrow> ('x, unit) td_meth" where
  "td_backend_service_remove_all_backends E = using_self (\<lambda>self.
     bind (attr_of ''name'' (td_backend_service self))
       (\<lambda>bs. call (backend_service_remove_all_backends E (td_compute self) bs (td_region self))))"

definition td_wait_for_backends_healthy_status :: "health_env \<Rightarrow> int \<Rightarrow> ('x, unit) td_meth" where
  "td_wait_for_backends_healthy_status H replica_count = using_self (\<lambda>self.
     bind (attr_of ''name'' (td_backend_service self))
       (\<lambda>bs. call (wait_for_backends_healthy_status H (td_compute self) (Some bs)
                     (td_backends self) replica_count (td_region self))))"

section \<open>Alternative backend service\<close>

text \<open>The alternative and the affinity backend services are global, whatever the region.\<close>

definition td_create_alternative_backend_service ::
  "env \<Rightarrow> backend_service_protocol option \<Rightarrow> ('x, unit) td_meth" where
  "td_create_alternative_backend_service E protocol = using_self (\<lambda>self.
     let prot = default_protocol protocol
     in bind (call (create_backend_service_traffic_director E (td_compute self)
                      (own_name self ALTERNATIVE_BACKEND_SERVICE_NAME) (td_health_check self) (Some prot)
                      (no_options\<lparr>bo_enable_dualstack := td_enable_dualstack self\<rparr>) None))
          (\<lambda>resource. assign (\<lambda>self. self\<lparr>td_alternative_backend_service := Some resource,
                                          td_alternative_backend_service_protocol := prot\<rparr>)))"

definition td_load_alternative_backend_service :: "env \<Rightarrow> ('x, unit) td_meth" where
  "td_load_alternative_backend_service E = using_self (\<lambda>self.
     bind (call (get_backend_service_traffic_director E (td_compute self)
                   (own_name self ALTERNATIVE_BACKEND_SERVICE_NAME) None))
       (\<lambda>resource. assign (td_alternative_backend_service_update (\<lambda>_. Some resource))))"

definition td_delete_alternative_backend_service :: "env \<Rightarrow> bool \<Rightarrow> ('x, unit) td_meth" where
  "td_delete_alternative_backend_service E force = using_self (\<lambda>self.
     case name_to_delete force (own_name self ALTERNATIVE_BACKEND_SERVICE_NAME)
            (td_alternative_backend_service self) of
       None \<Rightarrow> return ()
     | Some nm \<Rightarrow> andthen (call (delete_backend_service E (td_compute self) nm None))
                    (assign (td_alternative_backend_service_update (\<lambda>_. None))))"

definition td_alternative_backend_service_patch_backends :: "health_env \<Rightarrow> json \<Rightarrow> ('x, unit) td_meth" where
  "td_alternative_backend_service_patch_backends H circuit_breakers = using_self (\<lambda>self.
     bind (attr_of ''name'' (td_alternative_backend_service self))
       (\<lambda>bs. call (backend_service_patch_backends (he_env H) (he_order H) (td_compute self) bs
                     (td_alternative_backends self) None circuit_breakers None)))"

definition td_alternative_backend_service_add_neg_backends ::
  "health_env \<Rightarrow> json \<Rightarrow> string list \<Rightarrow> ('x, unit) td_meth" where
  "td_alternative_backend_service_add_neg_backends H nm zones = using_self (\<lambda>self.
     bind (call (get_gcp_negs_in_zones (he_env H) (td_compute self) nm zones))
       (\<lambda>negs. andthen (assign (td_alternative_backends_update (\<lambda>bs. bs \<union> negs)))
          (using_self (\<lambda>self.
             if td_alternative_backends self = {}
             then raise (ValueError ''Unexpected: no alternative backends were loaded.'')
             else td_alternative_backend_service_patch_backends H JNull))))"

definition td_alternative_backend_service_remove_all_backends :: "env \<Rightarrow> ('x, unit) td_meth" where
  "td_alternative_backend_service_remove_all_backends E = using_self (\<lambda>self.
     bind (attr_of ''name'' (td_alternative_backend_service self))
       (\<lambda>bs. call (backend_service_remove_all_backends E (td_compute self) bs None)))"

definition td_wait_for_alternative_backends_healthy_status :: "health_env \<Rightarrow> int \<Rightarrow> ('x, unit) td_meth" where
  "td_wait_for_alternative_backends_healthy_status H replica_count = using_self (\<lambda>self.
     call (wait_for_backends_healthy_status H (td_compute self) (td_alternative_backend_service self)
             (td_alternative_backends self) replica_count None))"

section \<open>Affinity backend service\<close>

definition td_create_affinity_backend_service ::
  "env \<Rightarrow> backend_service_protocol option \<Rightarrow> ('x, unit) td_meth" where
  "td_create_affinity_backend_service E protocol = using_self (\<lambda>self.
     let prot = default_protocol protocol
     in bind (call (create_backend_service_traffic_director E (td_compute self)
                      (own_name self AFFINITY_BACKEND_SERVICE_NAME) (td_health_check self) (Some prot)
                      (no_options\<lparr>bo_affinity_header := Some TEST_AFFINITY_METADATA_KEY,
                                  bo_enable_dualstack := td_enable_dualstack self\<rparr>) None))
          (\<lambda>resource. assign (\<lambda>self. self\<lparr>td_affinity_backend_service := Some resource,
                                          td_affinity_backend_service_protocol := prot\<rparr>)))"

definition td_load_affinity_backend_service :: "env \<Rightarrow> ('x, unit) td_meth" where
  "td_load_affinity_backend_service E = using_self (\<lambda>self.
     bind (call (get_backend_service_traffic_director E (td_compute self)
                   (own_name self AFFINITY_BACKEND_SERVICE_NAME) None))
       (\<lambda>resource. assign (td_affinity_backend_service_update (\<lambda>_. Some resource))))"

definition td_delete_affinity_backend_service :: "env \<Rightarrow> bool \<Rightarrow> ('x, unit) td_meth" where
  "td_delete_affinity_backend_service E force = using_self (\<lambda>self.
     case name_to_delete force (own_name self AFFINITY_BACKEND_SERVICE_NAME)
            (td_affinity_backend_service self) of
       None \<Rightarrow> return ()
     | Some nm \<Rightarrow> andthen (call (delete_backend_service E (td_compute self) nm None))
                    (assign (td_affinity_backend_service_update (\<lambda>_. None))))"

definition td_affinity_backend_service_patch_backends :: "health_env \<Rightarrow> ('x, unit) td_meth" where
  "td_affinity_backend_service_patch_backends H = using_self (\<lambda>self.
     bind (attr_of ''name'' (td_affinity_backend_service self))
       (\<lambda>bs. call (backend_service_patch_backends (he_env H) (he_order H) (td_compute self) bs
                     (td_affinity_backends self) None JNull None)))"

definition td_affinity_backend_service_add_neg_backends ::
  "health_env \<Rightarrow> json \<Rightarrow> string list \<Rightarrow> ('x, unit) td_meth" where
  "td_affinity_backend_service_add_neg_backends H nm zones = using_self (\<lambda>self.
     bind (call (get_gcp_negs_in_zones (he_env H) (td_compute self) nm zones))
       (\<lambda>negs. andthen (assign (td_affinity_backends_update (\<lambda>bs. bs \<union> negs)))
          (using_self (\<lambda>self.
             if td_affinity_backends self = {}
             then raise (ValueError ''Unexpected: no affinity backends were loaded.'')
             else td_affinity_backend_service_patch_backends H))))"

definition td_affinity_backend_service_remove_all_backends :: "env \<Rightarrow> ('x, unit) td_meth" where
  "td_affinity_backend_service_remove_all_backends E = using_self (\<lambda>self.
     bind (attr_of ''name'' (td_affinity_backend_service self))
       (\<lambda>bs. call (backend_service_remove_all_backends E (td_compute self) bs None)))"

definition td_wait_for_affinity_backends_healthy_status :: "health_env \<Rightarrow> int \<Rightarrow> ('x, unit) td_meth" where
  "td_wait_for_affinity_backends_healthy_status H replica_count = using_self (\<lambda>self.
     call (wait_for_backends_healthy_status H (td_compute self) (td_affinity_backend_service self)
             (td_affinity_backends self) replica_count None))"

section \<open>URL maps\<close>

definition generate_url_map_body ::
  "json \<Rightarrow> string \<Rightarrow> string list \<Rightarrow> gcp_resource \<Rightarrow> gcp_resource option \<Rightarrow> json" where
  "generate_url_map_body nm matcher_name src_hosts dst_default dst_host_rule_match =
     (let dst = (case dst_host_rule_match of None \<Rightarrow> dst_default | Some d \<Rightarrow> d)
      in JObj
        [(''name'', nm),
         (''defaultService'', url dst_default),
         (''hostRules'', JList [JObj [(''hosts'', JList (map JStr src_hosts)),
                                     (''pathMatcher'', JStr matcher_name)]]),
         (''pathMatchers'', JList [JObj [(''name'', JStr matcher_name),
                                        (''defaultService'', url dst)]])])"

definition src_address :: "string \<Rightarrow> int \<Rightarrow> string" where
  "src_address src_host src_port = src_host @ '':'' @ str_int src_port"

definition td_create_url_map :: "env \<Rightarrow> string \<Rightarrow> int \<Rightarrow> ('x, gcp_resource) td_meth" where
  "td_create_url_map E src_host src_port = using_self (\<lambda>self.
     bind (attr_of ''name'' (td_backend_service self)) (\<lambda>bs.
     bind (call (create_url_map_with_content E (td_compute self)
                   (generate_url_map_body (own_name self URL_MAP_NAME)
                      (make_resource_name self URL_MAP_PATH_MATCHER_NAME)
                      [src_address src_host src_port] bs None) (td_region self))) (\<lambda>resource.
     andthen (assign (td_url_map_update (\<lambda>_. Some resource))) (return resource))))"

definition td_patch_url_map :: "env \<Rightarrow> string \<Rightarrow> int \<Rightarrow> gcp_resource \<Rightarrow> ('x, unit) td_meth" where
  "td_patch_url_map E src_host src_port backend_service = using_self (\<lambda>self.
     bind (attr_of ''name'' (td_url_map self)) (\<lambda>um.
       call (patch_url_map E (td_compute self) um
               (generate_url_map_body (own_name self URL_MAP_NAME)
                  (make_resource_name self URL_MAP_PATH_MATCHER_NAME)
                  [src_address src_host src_port] backend_service None) (td_region self) [])))"

definition td_create_url_map_with_content :: "env \<Rightarrow> json \<Rightarrow> ('x, gcp_resource) td_meth" where
  "td_create_url_map_with_content E url_map_content = using_self (\<lambda>self.
     bind (call (create_url_map_with_content E (td_compute self) url_map_content (td_region self)))
       (\<lambda>resource. andthen (assign (td_url_map_update (\<lambda>_. Some resource))) (return resource)))"

definition td_delete_url_map :: "env \<Rightarrow> bool \<Rightarrow> ('x, unit) td_meth" where
  "td_delete_url_map E force = using_self (\<lambda>self.
     case name_to_delete force (own_name self URL_MAP_NAME) (td_url_map self) of
       None \<Rightarrow> return ()
     | Some nm \<Rightarrow> andthen (call (delete_url_map E (td_compute self) nm (td_region self)))
                    (assign (td_url_map_update (\<lambda>_. None))))"

definition td_create_alternative_url_map ::
  "env \<Rightarrow> string \<Rightarrow> int \<Rightarrow> gcp_resource option \<Rightarrow> ('x, gcp_resource) td_meth" where
  "td_create_alternative_url_map E src_host src_port backend_service = using_self (\<lambda>self.
     bind (attr_of ''name'' (case backend_service of None \<Rightarrow> td_alternative_backend_service self
                                                    | Some bs \<Rightarrow> Some bs)) (\<lambda>bs.
     bind (call (create_url_map_with_content E (td_compute self)
                   (generate_url_map_body (own_name self ALTERNATIVE_URL_MAP_NAME)
                      (make_resource_name self URL_MAP_PATH_MATCHER_NAME)
                      [src_address src_host src_port] bs None) (td_region self))) (\<lambda>resource.
     andthen (assign (td_alternative_url_map_update (\<lambda>_. Some resource))) (return resource))))"

text \<open>As written in the source, this resets \<open>url_map\<close> and keeps \<open>alternative_url_map\<close>.\<close>

definition td_delete_alternative_url_map :: "env \<Rightarrow> bool \<Rightarrow> ('x, unit) td_meth" where
  "td_delete_alternative_url_map E force = using_self (\<lambda>self.
     case name_to_delete force (own_name self ALTERNATIVE_URL_MAP_NAME) (td_alternative_url_map self) of
       None \<Rightarrow> return ()
     | Some nm \<Rightarrow> andthen (call (delete_url_map E (td_compute self) nm (td_region self)))
                    (assign (td_url_map_update (\<lambda>_. None))))"

section \<open>Target proxies\<close>

definition td_create_target_proxy :: "env \<Rightarrow> ('x, unit) td_meth" where
  "td_create_target_proxy E = using_self (\<lambda>self.
     let nm = own_name self TARGET_PROXY_NAME in
     case td_backend_service_protocol self of
       BS_GRPC \<Rightarrow>
         andthen (assign (td_target_proxy_is_http_update (\<lambda>_. False)))
           (bind (attr_of ''name'' (td_url_map self)) (\<lambda>um.
            bind (call (create_target_grpc_proxy E (td_compute self) nm um True)) (\<lambda>resource.
            assign (td_target_proxy_update (\<lambda>_. Some resource)))))
     | BS_HTTP2 \<Rightarrow>
         andthen (assign (td_target_proxy_is_http_update (\<lambda>_. True)))
           (bind (attr_of ''name'' (td_url_map self)) (\<lambda>um.
            bind (call (create_target_http_proxy E (td_compute self) nm um (td_region self))) (\<lambda>resource.
            assign (td_target_proxy_update (\<lambda>_. Some resource)))))
     | BS_UNSET \<Rightarrow> raise (TypeError ''Unexpected backend service protocol''))"

definition td_create_target_proxy_ipv6 :: "env \<Rightarrow> ('x, unit) td_meth" where
  "td_create_target_proxy_ipv6 E = using_self (\<lambda>self.
     bind (attr_of ''name'' (td_url_map self)) (\<lambda>um.
     bind (call (create_target_http_proxy E (td_compute self) (own_name self TARGET_PROXY_NAME_IPV6) um None))
       (\<lambda>resource. assign (td_target_proxy_ipv6_update (\<lambda>_. Some resource)))))"

definition td_delete_target_grpc_proxy :: "env \<Rightarrow> bool \<Rightarrow> ('x, unit) td_meth" where
  "td_delete_target_grpc_proxy E force = using_self (\<lambda>self.
     case name_to_delete force (own_name self TARGET_PROXY_NAME) (td_target_proxy self) of
       None \<Rightarrow> return ()
     | Some nm \<Rightarrow> andthen (call (delete_target_grpc_proxy E (td_compute self) nm))
                    (assign (\<lambda>self. self\<lparr>td_target_proxy := None, td_target_proxy_is_http := False\<rparr>)))"

definition td_delete_target_http_proxy :: "env \<Rightarrow> bool \<Rightarrow> ('x, unit) td_meth" where
  "td_delete_target_http_proxy E force = using_self (\<lambda>self.
     case name_to_delete force (own_name self TARGET_PROXY_NAME)
            (if td_target_proxy_is_http self then td_target_proxy self else None) of
       None \<Rightarrow> return ()
     | Some nm \<Rightarrow> andthen (call (delete_target_http_proxy E (td_compute self) nm (td_region self)))
                    (assign (\<lambda>self. self\<lparr>td_target_proxy := None, td_target_proxy_is_http := False\<rparr>)))"

definition td_delete_target_proxy_ipv6 :: "env \<Rightarrow> bool \<Rightarrow> ('x, unit) td_meth" where
  "td_delete_target_proxy_ipv6 E force = using_self (\<lambda>self.
     case name_to_delete force (own_name self TARGET_PROXY_NAME_IPV6) (td_target_proxy_ipv6 self) of
       None \<Rightarrow> return ()
     | Some nm \<Rightarrow> andthen (call (delete_target_http_proxy E (td_compute self) nm None))
                    (assign (td_target_proxy_ipv6_update (\<lambda>_. None))))"

definition td_create_alternative_target_proxy :: "env \<Rightarrow> ('x, unit) td_meth" where
  "td_create_alternative_target_proxy E = using_self (\<lambda>self.
     if td_backend_service_protocol self = BS_GRPC
     then bind (attr_of ''name'' (td_alternative_url_map self)) (\<lambda>um.
          bind (call (create_target_grpc_proxy E (td_compute self)
                        (own_name self ALTERNATIVE_TARGET_PROXY_NAME) um False))
            (\<lambda>resource. assign (td_alternative_target_proxy_update (\<lambda>_. Some resource))))
     else raise (TypeError ''Unexpected backend service protocol''))"

definition td_delete_alternative_target_grpc_proxy :: "env \<Rightarrow> bool \<Rightarrow> ('x, unit) td_meth" where
  "td_delete_alternative_target_grpc_proxy E force = using_self (\<lambda>self.
     case name_to_delete force (own_name self ALTERNATIVE_TARGET_PROXY_NAME)
            (td_alternative_target_proxy self) of
       None \<Rightarrow> return ()
     | Some nm \<Rightarrow> andthen (call (delete_target_grpc_proxy E (td_compute self) nm))
                    (assign (td_alternative_target_proxy_update (\<lambda>_. None))))"

section \<open>Forwarding rules\<close>

text \<open>At most \<open>n\<close> random ports are tried; a port is taken when the service lists no rule for it.\<close>

fun find_port_loop :: "env \<Rightarrow> int \<Rightarrow> int \<Rightarrow> nat \<Rightarrow> ('x, int) td_meth" where
  "find_port_loop E lo hi 0 = raise (RuntimeError (''Couldn'' @ [CHR 0x27] @ ''t find unused forwarding rule port''))"
| "find_port_loop E lo hi (Suc n) = using_self (\<lambda>self.
     bind get_state (\<lambda>s.
       let src_port = randint E (snd s) lo hi in
       bind (call (exists_forwarding_rule E (td_compute self) src_port (td_region self)))
         (\<lambda>found. if \<not> py_truth found then return src_port else find_port_loop E lo hi n)))"

definition td_find_unused_forwarding_rule_port :: "env \<Rightarrow> int \<Rightarrow> int \<Rightarrow> nat \<Rightarrow> ('x, int) td_meth" where
  "td_find_unused_forwarding_rule_port E lo hi tries = find_port_loop E lo hi tries"

definition td_create_forwarding_rule :: "env \<Rightarrow> int \<Rightarrow> ('x, gcp_resource) td_meth" where
  "td_create_forwarding_rule E src_port = using_self (\<lambda>self.
     bind (attr_of ''url'' (td_target_proxy self)) (\<lambda>proxy.
     bind (call (create_forwarding_rule E (td_compute self) (own_name self FORWARDING_RULE_NAME) src_port
                   proxy (network_url self) ''0.0.0.0'' (td_region self))) (\<lambda>resource.
     andthen (assign (td_forwarding_rule_update (\<lambda>_. Some resource))) (return resource))))"

definition td_create_forwarding_rule_ipv6 :: "env \<Rightarrow> int \<Rightarrow> ('x, gcp_resource) td_meth" where
  "td_create_forwarding_rule_ipv6 E src_port = using_self (\<lambda>self.
     bind (attr_of ''url'' (td_target_proxy_ipv6 self)) (\<lambda>proxy.
     bind (call (create_forwarding_rule E (td_compute self) (own_name self FORWARDING_RULE_NAME_IPV6) src_port
                   proxy (network_url self) ''::'' (td_region self))) (\<lambda>resource.
     andthen (assign (td_forwarding_rule_ipv6_update (\<lambda>_. Some resource))) (return resource))))"

definition td_delete_forwarding_rule :: "env \<Rightarrow> bool \<Rightarrow> ('x, unit) td_meth" where
  "td_delete_forwarding_rule E force = using_self (\<lambda>self.
     case name_to_delete force (own_name self FORWARDING_RULE_NAME) (td_forwarding_rule self) of
       None \<Rightarrow> return ()
     | Some nm \<Rightarrow> andthen (call (delete_forwarding_rule E (td_compute self) nm (td_region self)))
                    (assign (td_forwarding_rule_update (\<lambda>_. None))))"

text \<open>As written in the source, the rule is deleted without the region it was created in.\<close>

definition td_delete_forwarding_rule_ipv6 :: "env \<Rightarrow> bool \<Rightarrow> ('x, unit) td_meth" where
  "td_delete_forwarding_rule_ipv6 E force = using_self (\<lambda>self.
     case name_to_delete force (own_name self FORWARDING_RULE_NAME_IPV6) (td_forwarding_rule_ipv6 self) of
       None \<Rightarrow> return ()
     | Some nm \<Rightarrow> andthen (call (delete_forwarding_rule E (td_compute self) nm None))
                    (assign (td_forwarding_rule_ipv6_update (\<lambda>_. None))))"

definition td_create_alternative_forwarding_rule ::
  "env \<Rightarrow> int \<Rightarrow> string \<Rightarrow> ('x, gcp_resource) td_meth" where
  "td_create_alternative_forwarding_rule E src_port ip_address = using_self (\<lambda>self.
     bind (attr_of ''url'' (td_alternative_target_proxy self)) (\<lambda>proxy.
     bind (call (create_forwarding_rule E (td_compute self) (own_name self ALTERNATIVE_FORWARDING_RULE_NAME)
                   src_port proxy (network_url self) ip_address None)) (\<lambda>resource.
     andthen (assign (td_alternative_forwarding_rule_update (\<lambda>_. Some resource))) (return resource))))"

definition td_delete_alternative_forwarding_rule :: "env \<Rightarrow> bool \<Rightarrow> ('x, unit) td_meth" where
  "td_delete_alternative_forwarding_rule E force = using_self (\<lambda>self.
     case name_to_delete force (own_name self ALTERNATIVE_FORWARDING_RULE_NAME)
            (td_alternative_forwarding_rule self) of
       None \<Rightarrow> return ()
     | Some nm \<Rightarrow> andthen (call (delete_forwarding_rule E (td_compute self) nm None))
                    (assign (td_alternative_forwarding_rule_update (\<lambda>_. None))))"

section \<open>Firewall rules\<close>

definition td_create_firewall_rule ::
  "env \<Rightarrow> json \<Rightarrow> json \<Rightarrow> json \<Rightarrow> ('x, gcp_resource option) td_meth" where
  "td_create_firewall_rule E nm source_range allowed_ports = using_self (\<lambda>self.
     call (create_firewall_rule E (td_compute self) nm (network_url self) source_range allowed_ports))"

definition td_create_firewall_rules :: "env \<Rightarrow> json \<Rightarrow> json \<Rightarrow> json \<Rightarrow> ('x, unit) td_meth" where
  "td_create_firewall_rules E allowed_ports source_range source_range_ipv6 = using_self (\<lambda>self. stmts
     [if py_truth source_range
      then bind (td_create_firewall_rule E (own_name self FIREWALL_RULE_NAME) source_range allowed_ports)
             (\<lambda>r. assign (\<lambda>self. self\<lparr>td_firewall_rule := r, td_ensure_firewall := True\<rparr>))
      else return (),
      if py_truth source_range_ipv6
      then bind (td_create_firewall_rule E (own_name self FIREWALL_RULE_NAME_IPV6) source_range_ipv6 allowed_ports)
             (\<lambda>r. assign (\<lambda>self. self\<lparr>td_firewall_rule_ipv6 := r, td_ensure_firewall := True\<rparr>))
      else return ()])"

text \<open>Only errors of the client library are caught; \<open>ComputeV1\<close> has handled those that are HTTP errors.\<close>

definition td_delete_firewall_rule_named :: "env \<Rightarrow> json \<Rightarrow> ('x, bool) td_meth" where
  "td_delete_firewall_rule_named E nm = using_self (\<lambda>self.
     try_except (andthen (call (delete_firewall_rule E (td_compute self) nm)) (return True))
       (\<lambda>e. isinstance e [CGoogleApiError]) (\<lambda>e. return False))"

definition td_delete_firewall_rule :: "env \<Rightarrow> bool \<Rightarrow> ('x, unit) td_meth" where
  "td_delete_firewall_rule E force = using_self (\<lambda>self.
     let chosen = (case td_firewall_rule self of
                     Some r \<Rightarrow> Some (name r)
                   | None \<Rightarrow> if force then Some (own_name self FIREWALL_RULE_NAME) else None)
     in case chosen of
          None \<Rightarrow> return ()
        | Some nm \<Rightarrow> bind (td_delete_firewall_rule_named E nm)
            (\<lambda>ok. if ok then assign (td_firewall_rule_update (\<lambda>_. None)) else return ()))"

definition td_delete_firewall_rule_ipv6 :: "env \<Rightarrow> bool \<Rightarrow> ('x, unit) td_meth" where
  "td_delete_firewall_rule_ipv6 E force = using_self (\<lambda>self.
     let chosen = (case td_firewall_rule_ipv6 self of
                     Some r \<Rightarrow> Some (name r)
                   | None \<Rightarrow> if force then Some (own_name self FIREWALL_RULE_NAME_IPV6) else None)
     in case chosen of
          None \<Rightarrow> return ()
        | Some nm \<Rightarrow> bind (td_delete_firewall_rule_named E nm)
            (\<lambda>ok. if ok then assign (td_firewall_rule_ipv6_update (\<lambda>_. None)) else return ()))"

definition td_delete_firewall_rules :: "env \<Rightarrow> bool \<Rightarrow> ('x, unit) td_meth" where
  "td_delete_firewall_rules E force = using_self (\<lambda>self.
     if \<not> td_ensure_firewall self then return ()
     else stmts [td_delete_firewall_rule E force,
                 td_delete_firewall_rule_ipv6 E force,
                 assign (td_ensure_firewall_update (\<lambda>_. False))])"

section \<open>Setup and cleanup\<close>

text \<open>A statement that discards the value of a call.\<close>

definition discard :: "('s, 'a) act \<Rightarrow> ('s, unit) act" where
  "discard m = bind m (\<lambda>_. return ())"

text \<open>\<open>security_settings\<close> is the only option the setup passes on.\<close>

definition td_setup_backend_for_grpc ::
  "env \<Rightarrow> backend_service_protocol option \<Rightarrow> int option \<Rightarrow> json \<Rightarrow> ('x, unit) td_meth" where
  "td_setup_backend_for_grpc E protocol health_check_port security_settings = stmts
     [td_create_health_check E (Some HC_GRPC) health_check_port,
      td_create_backend_service E protocol (no_options\<lparr>bo_security_settings := security_settings\<rparr>)]"

definition td_setup_routing_rule_map_for_grpc :: "env \<Rightarrow> string \<Rightarrow> int \<Rightarrow> ('x, unit) td_meth" where
  "td_setup_routing_rule_map_for_grpc E service_host service_port = stmts
     [discard (td_create_url_map E service_host service_port),
      td_create_target_proxy E,
      discard (td_create_forwarding_rule E service_port),
      using_self (\<lambda>self.
        if td_enable_dualstack self
        then stmts [td_create_target_proxy_ipv6 E,
                    discard (td_create_forwarding_rule_ipv6 E service_port)]
        else return ())]"

definition td_setup_for_grpc ::
  "env \<Rightarrow> string \<Rightarrow> int \<Rightarrow> backend_service_protocol option \<Rightarrow> int option \<Rightarrow> json \<Rightarrow> ('x, unit) td_meth" where
  "td_setup_for_grpc E service_host service_port backend_protocol health_check_port security_settings = stmts
     [td_setup_backend_for_grpc E backend_protocol health_check_port security_settings,
      td_setup_routing_rule_map_for_grpc E service_host service_port]"

definition td_cleanup :: "env \<Rightarrow> bool \<Rightarrow> ('x, unit) td_meth" where
  "td_cleanup E force = stmts
     [td_delete_firewall_rules E force,
      td_delete_forwarding_rule E force,
      td_delete_alternative_forwarding_rule E force,
      td_delete_target_http_proxy E force,
      td_delete_target_grpc_proxy E force,
      using_self (\<lambda>self.
        if td_enable_dualstack self
        then stmts [td_delete_forwarding_rule_ipv6 E force,
                    td_delete_target_proxy_ipv6 E force]
        else return ()),
      td_delete_alternative_target_grpc_proxy E force,
      td_delete_url_map E force,
      td_delete_alternative_url_map E force,
      td_delete_backend_service E force,
      td_delete_alternative_backend_service E force,
      td_delete_affinity_backend_service E force,
      td_delete_health_check E force]"

section \<open>The delete methods as managed deletions\<close>

lemmas client_deletes = delete_health_check_def delete_backend_service_def delete_url_map_def
  delete_target_grpc_proxy_def delete_target_http_proxy_def delete_forwarding_rule_def
  delete_firewall_rule_def

interpretation health_check: managed_field "env_ok E" "\<lambda>_. serves_compute E"
  "\<lambda>self n. delete_health_check E (td_compute self) n" "\<lambda>self n. (''healthChecks'', ''delete'', n)"
  "\<lambda>self. own_name self HEALTH_CHECK_NAME" "\<lambda>self. map_option name (td_health_check self)"
  "td_health_check_update (\<lambda>_. None)" "td_delete_health_check E" for E
  by unfold_locales (simp_all add: client_deletes compute_delete.del_emits compute_delete.del_served td_delete_health_check_def name_to_delete_def)

interpretation backend_service: managed_field "env_ok E" "\<lambda>_. serves_compute E"
  "\<lambda>self n. delete_backend_service E (td_compute self) n (td_region self)" "\<lambda>self n. (backend_services (td_region self), ''delete'', n)"
  "\<lambda>self. own_name self BACKEND_SERVICE_NAME" "\<lambda>self. map_option name (td_backend_service self)"
  "td_backend_service_update (\<lambda>_. None)" "td_delete_backend_service E" for E
  by unfold_locales (simp_all add: client_deletes compute_delete.del_emits compute_delete.del_served td_delete_backend_service_def name_to_delete_def)

interpretation alt_backend_service: managed_field "env_ok E" "\<lambda>_. serves_compute E"
  "\<lambda>self n. delete_backend_service E (td_compute self) n None" "\<lambda>self n. (backend_services None, ''delete'', n)"
  "\<lambda>self. own_name self ALTERNATIVE_BACKEND_SERVICE_NAME" "\<lambda>self. map_option name (td_alternative_backend_service self)"
  "td_alternative_backend_service_update (\<lambda>_. None)" "td_delete_alternative_backend_service E" for E
  by unfold_locales (simp_all add: client_deletes compute_delete.del_emits compute_delete.del_served td_delete_alternative_backend_service_def name_to_delete_def)

interpretation affinity_backend_service: managed_field "env_ok E" "\<lambda>_. serves_compute E"
  "\<lambda>self n. delete_backend_service E (td_compute self) n None" "\<lambda>self n. (backend_services None, ''delete'', n)"
  "\<lambda>self. own_name self AFFINITY_BACKEND_SERVICE_NAME" "\<lambda>self. map_option name (td_affinity_backend_service self)"
  "td_affinity_backend_service_update (\<lambda>_. None)" "td_delete_affinity_backend_service E" for E
  by unfold_locales (simp_all add: client_deletes compute_delete.del_emits compute_delete.del_served td_delete_affinity_backend_service_def name_to_delete_def)

interpretation url_map: managed_field "env_ok E" "\<lambda>_. serves_compute E"
  "\<lambda>self n. delete_url_map E (td_compute self) n (td_region self)" "\<lambda>self n. (url_maps (td_region self), ''delete'', n)"
  "\<lambda>self. own_name self URL_MAP_NAME" "\<lambda>self. map_option name (td_url_map self)"
  "td_url_map_update (\<lambda>_. None)" "td_delete_url_map E" for E
  by unfold_locales (simp_all add: client_deletes compute_delete.del_emits compute_delete.del_served td_delete_url_map_def name_to_delete_def)

text \<open>
  This one is no \<open>managed_resource\<close>: it does not clear the field it looks at.
\<close>

interpretation alt_url_map: managed_deletion "env_ok E" "\<lambda>_. serves_compute E"
  "\<lambda>self n. delete_url_map E (td_compute self) n (td_region self)" "\<lambda>self n. (url_maps (td_region self), ''delete'', n)"
  "\<lambda>self. own_name self ALTERNATIVE_URL_MAP_NAME" "\<lambda>self. map_option name (td_alternative_url_map self)"
  "td_url_map_update (\<lambda>_. None)" "td_delete_alternative_url_map E" for E
  by unfold_locales (simp_all add: client_deletes compute_delete.del_emits compute_delete.del_served td_delete_alternative_url_map_def name_to_delete_def)

interpretation grpc_proxy: managed_resource "env_ok E" "\<lambda>_. serves_compute E"
  "\<lambda>self n. delete_target_grpc_proxy E (td_compute self) n" "\<lambda>self n. (''targetGrpcProxies'', ''delete'', n)"
  "\<lambda>self. own_name self TARGET_PROXY_NAME" "\<lambda>self. map_option name (td_target_proxy self)"
  "\<lambda>self. self\<lparr>td_target_proxy := None, td_target_proxy_is_http := False\<rparr>" "td_delete_target_grpc_proxy E" for E
  by unfold_locales (simp_all add: client_deletes compute_delete.del_emits compute_delete.del_served td_delete_target_grpc_proxy_def name_to_delete_def)

interpretation http_proxy: managed_resource "env_ok E" "\<lambda>_. serves_compute E"
  "\<lambda>self n. delete_target_http_proxy E (td_compute self) n (td_region self)" "\<lambda>self n. (target_http_proxies (td_region self), ''delete'', n)"
  "\<lambda>self. own_name self TARGET_PROXY_NAME" "\<lambda>self. map_option name (if td_target_proxy_is_http self then td_target_proxy self else None)"
  "\<lambda>self. self\<lparr>td_target_proxy := None, td_target_proxy_is_http := False\<rparr>" "td_delete_target_http_proxy E" for E
  by unfold_locales (simp_all add: client_deletes compute_delete.del_emits compute_delete.del_served td_delete_target_http_proxy_def name_to_delete_def)

interpretation proxy_ipv6: managed_field "env_ok E" "\<lambda>_. serves_compute E"
  "\<lambda>self n. delete_target_http_proxy E (td_compute self) n None" "\<lambda>self n. (target_http_proxies None, ''delete'', n)"
  "\<lambda>self. own_name self TARGET_PROXY_NAME_IPV6" "\<lambda>self. map_option name (td_target_proxy_ipv6 self)"
  "td_target_proxy_ipv6_update (\<lambda>_. None)" "td_delete_target_proxy_ipv6 E" for E
  by unfold_locales (simp_all add: client_deletes compute_delete.del_emits compute_delete.del_served td_delete_target_proxy_ipv6_def name_to_delete_def)

interpretation alt_proxy: managed_field "env_ok E" "\<lambda>_. serves_compute E"
  "\<lambda>self n. delete_target_grpc_proxy E (td_compute self) n" "\<lambda>self n. (''targetGrpcProxies'', ''delete'', n)"
  "\<lambda>self. own_name self ALTERNATIVE_TARGET_PROXY_NAME" "\<lambda>self. map_option name (td_alternative_target_proxy self)"
  "td_alternative_target_proxy_update (\<lambda>_. None)" "td_delete_alternative_target_grpc_proxy E" for E
  by unfold_locales (simp_all add: client_deletes compute_delete.del_emits compute_delete.del_served td_delete_alternative_target_grpc_proxy_def name_to_delete_def)

interpretation rule: managed_field "env_ok E" "\<lambda>_. serves_compute E"
  "\<lambda>self n. delete_forwarding_rule E (td_compute self) n (td_region self)" "\<lambda>self n. (forwarding_rules (td_region self), ''delete'', n)"
  "\<lambda>self. own_name self FORWARDING_RULE_NAME" "\<lambda>self. map_option name (td_forwarding_rule self)"
  "td_forwarding_rule_update (\<lambda>_. None)" "td_delete_forwarding_rule E" for E
  by unfold_locales (simp_all add: client_deletes compute_delete.del_emits compute_delete.del_served td_delete_forwarding_rule_def name_to_delete_def)

interpretation rule_ipv6: managed_field "env_ok E" "\<lambda>_. serves_compute E"
  "\<lambda>self n. delete_forwarding_rule E (td_compute self) n None" "\<lambda>self n. (forwarding_rules None, ''delete'', n)"
  "\<lambda>self. own_name self FORWARDING_RULE_NAME_IPV6" "\<lambda>self. map_option name (td_forwarding_rule_ipv6 self)"
  "td_forwarding_rule_ipv6_update (\<lambda>_. None)" "td_delete_forwarding_rule_ipv6 E" for E
  by unfold_locales (simp_all add: client_deletes compute_delete.del_emits compute_delete.del_served td_delete_forwarding_rule_ipv6_def name_to_delete_def)

interpretation alt_rule: managed_field "env_ok E" "\<lambda>_. serves_compute E"
  "\<lambda>self n. delete_forwarding_rule E (td_compute self) n None" "\<lambda>self n. (forwarding_rules None, ''delete'', n)"
  "\<lambda>self. own_name self ALTERNATIVE_FORWARDING_RULE_NAME" "\<lambda>self. map_option name (td_alternative_forwarding_rule self)"
  "td_alternative_forwarding_rule_update (\<lambda>_. None)" "td_delete_alternative_forwarding_rule E" for E
  by unfold_locales (simp_all add: client_deletes compute_delete.del_emits compute_delete.del_served td_delete_alternative_forwarding_rule_def name_to_delete_def)

section \<open>Properties\<close>

text \<open>
  A manager never creates a second health check: while it holds one, the call raises
  \<open>ValueError\<close>, sends nothing and changes nothing.
\<close>

lemma health_check_created_once:
  assumes "td_health_check self = Some hc"
  shows "\<exists>msg. td_create_health_check E protocol port (self, w) = (Inl (ValueError msg), (self, w))"
  using assms by (simp add: td_create_health_check_def using_self_def raise_def)

text \<open>
  The kind of target proxy follows the protocol of the backend service: when the call returns,
  the manager holds a proxy and knows whether it is an HTTP one; for a protocol that is not set
  the call raises \<open>TypeError\<close> and sends nothing.
\<close>

theorem target_proxy_follows_protocol:
  "case td_backend_service_protocol self of
     BS_UNSET \<Rightarrow> \<exists>msg. td_create_target_proxy E (self, w) = (Inl (TypeError msg), (self, w))
   | _ \<Rightarrow> ends (td_create_target_proxy E) self (\<lambda>self'. td_target_proxy self' \<noteq> None
       \<and> td_target_proxy_is_http self' = (td_backend_service_protocol self = BS_HTTP2))"
proof (cases "td_backend_service_protocol self")
  case BS_UNSET
  then show ?thesis by (simp add: td_create_target_proxy_def using_self_def Let_def raise_def)
next
  case BS_HTTP2
  then show ?thesis
    unfolding td_create_target_proxy_def Let_def
    by (simp, intro ends_using_self)
      (simp, intro ends_andthen ends_assign ends_bind ends_attr_of ends_call allI, simp)
next
  case BS_GRPC
  then show ?thesis
    unfolding td_create_target_proxy_def Let_def
    by (simp, intro ends_using_self)
      (simp, intro ends_andthen ends_assign ends_bind ends_attr_of ends_call allI, simp)
qed

text \<open>
  The names a manager gives are told apart by the kind of resource, whatever the prefix and
  the suffix.
\<close>

lemma resource_names_distinct:
  "make_resource_name self a = make_resource_name self b \<longleftrightarrow> a = b"
  by (auto simp: make_resource_name_def split: option.splits)

lemma find_port_value:
  "find_port_loop E lo hi n (self, w) = (Inr p, (self', w')) \<Longrightarrow>
     self' = self \<and> (\<exists>h found. p = randint E h lo hi
       \<and> exists_forwarding_rule E (td_compute self) p (td_region self) h = (Inr found, w')
       \<and> \<not> py_truth found)"
proof (induction n arbitrary: w)
  case 0
  then show ?case by (simp add: raise_def)
next
  case (Suc n)
  let ?p = "randint E w lo hi"
  obtain out w1 where ask: "exists_forwarding_rule E (td_compute self) ?p (td_region self) w = (out, w1)"
    by fastforce
  with Suc.prems obtain found where found: "out = Inr found"
    by (cases out) (auto simp: using_self_def bind_apply get_state_def call_def Let_def)
  show ?case
  proof (cases "py_truth found")
    case True
    with Suc.prems ask found have "find_port_loop E lo hi n (self, w1) = (Inr p, (self', w'))"
      by (simp add: using_self_def bind_apply get_state_def call_def Let_def)
    then show ?thesis by (rule Suc.IH)
  next
    case False
    with Suc.prems ask found show ?thesis
      by (auto simp: using_self_def bind_apply get_state_def call_def Let_def return_def)
  qed
qed

text \<open>
  A port that \<open>find_unused_forwarding_rule_port\<close> returns was drawn by the random generator, and
  the service listed no forwarding rule for it at that point; the manager is unchanged.
\<close>

theorem unused_port_found:
  assumes "td_find_unused_forwarding_rule_port E lo hi tries (self, w) = (Inr p, (self', w'))"
  shows "self' = self \<and> (\<exists>h found. p = randint E h lo hi
    \<and> exists_forwarding_rule E (td_compute self) p (td_region self) h = (Inr found, w') \<and> \<not> py_truth found)"
  using assms unfolding td_find_unused_forwarding_rule_port_def by (rule find_port_value)

lemma demo_port: "\<exists>w'. td_find_unused_forwarding_rule_port demo_env 1024 65535 10
    (td_init None ''p'' ''pre'' None ''net'' False None, [])
  = (Inr 1024, (td_init None ''p'' ''pre'' None ''net'' False None, w'))"
  by (simp add: td_find_unused_forwarding_rule_port_def numeral_eq_Suc using_self_def bind_apply get_state_def
      Let_def call_def exists_forwarding_rule_def exists_resource_def demo_retried demo_http_def mutates_def
      compute_request_def lift_def return_def) (simp add: demo_env_def)

theorem unused_port_found_witness:
  "\<exists>h found w'. 1024 = randint demo_env h 1024 65535
    \<and> exists_forwarding_rule demo_env (td_compute (td_init None ''p'' ''pre'' None ''net'' False None)) 1024
        (td_region (td_init None ''p'' ''pre'' None ''net'' False None)) h = (Inr found, w') \<and> \<not> py_truth found"
proof -
  obtain w' where "td_find_unused_forwarding_rule_port demo_env 1024 65535 10
      (td_init None ''p'' ''pre'' None ''net'' False None, [])
    = (Inr 1024, (td_init None ''p'' ''pre'' None ''net'' False None, w'))" using demo_port by blast
  from unused_port_found [OF this] show ?thesis by blast
qed

text \<open>
  When \<open>backend_service_add_neg_backends\<close> returns, the manager still has its backends and has
  at least one; otherwise it raises before it patches the backend service with nothing.
\<close>

theorem add_neg_backends_grows:
  "ends (td_backend_service_add_neg_backends H nm zones rate) self
     (\<lambda>self'. td_backends self \<subseteq> td_backends self' \<and> td_backends self' \<noteq> {})"
proof -
  have patch: "ends (td_backend_service_patch_backends H r cb) s Q" if "Q s" for s :: "'a td_scheme" and Q r cb
    using that unfolding td_backend_service_patch_backends_def
    by (intro ends_using_self ends_bind ends_attr_of allI ends_call)
  show ?thesis
    unfolding td_backend_service_add_neg_backends_def
    by (intro ends_using_self ends_bind ends_call allI ends_andthen ends_assign ends_if ends_raise patch) auto
qed

end
