(* ===== verification/Cleanup.thy ===== *)
theory Cleanup
  imports TrafficDirector
begin

text \<open>
  What \<open>TrafficDirectorManager.cleanup\<close> deletes: in order when the service is in good order, at
  most when it is not, and nothing the second time. The delete methods enter through the
  interpretations of \<open>managed_deletion\<close> and its extensions.
\<close>

section \<open>Specification\<close>

text \<open>The names a delete method sends: the made one with \<open>force\<close>, otherwise the held one, if any.\<close>

definition chosen :: "bool \<Rightarrow> json \<Rightarrow> gcp_resource option \<Rightarrow> json list" where
  "chosen force made slot =
     (if force then [made] else case slot of None \<Rightarrow> [] | Some r \<Rightarrow> [name r])"

text \<open>For firewall rules the held name wins.\<close>

definition chosen_firewall :: "bool \<Rightarrow> json \<Rightarrow> gcp_resource option \<Rightarrow> json list" where
  "chosen_firewall force made slot =
     (case slot of Some r \<Rightarrow> [name r] | None \<Rightarrow> if force then [made] else [])"

definition deletes :: "string \<Rightarrow> json list \<Rightarrow> change list" where
  "deletes coll names = map (\<lambda>n. (coll, ''delete'', n)) names"

definition firewall_changes :: "bool \<Rightarrow> 'x td_scheme \<Rightarrow> change list" where
  "firewall_changes force self =
     (if td_ensure_firewall self
      then deletes ''firewalls'' (chosen_firewall force (own_name self FIREWALL_RULE_NAME) (td_firewall_rule self)) @
           deletes ''firewalls'' (chosen_firewall force (own_name self FIREWALL_RULE_NAME_IPV6) (td_firewall_rule_ipv6 self))
      else [])"

text \<open>
  The target proxy is deleted as an HTTP proxy when it is one; once that is done, nothing is held
  for the gRPC method, but with \<open>force\<close> both send their request.
\<close>

definition proxy_changes :: "bool \<Rightarrow> 'x td_scheme \<Rightarrow> change list" where
  "proxy_changes force self =
     deletes (target_http_proxies (td_region self))
       (chosen force (own_name self TARGET_PROXY_NAME)
         (if td_target_proxy_is_http self then td_target_proxy self else None)) @
     deletes ''targetGrpcProxies''
       (chosen force (own_name self TARGET_PROXY_NAME)
         (if td_target_proxy_is_http self then None else td_target_proxy self))"

definition ipv6_changes :: "bool \<Rightarrow> 'x td_scheme \<Rightarrow> change list" where
  "ipv6_changes force self =
     (if td_enable_dualstack self
      then deletes (forwarding_rules None)
             (chosen force (own_name self FORWARDING_RULE_NAME_IPV6) (td_forwarding_rule_ipv6 self)) @
           deletes (target_http_proxies None)
             (chosen force (own_name self TARGET_PROXY_NAME_IPV6) (td_target_proxy_ipv6 self))
      else [])"

definition cleanup_changes :: "bool \<Rightarrow> 'x td_scheme \<Rightarrow> change list" where
  "cleanup_changes force self =
     firewall_changes force self @
     deletes (forwarding_rules (td_region self))
       (chosen force (own_name self FORWARDING_RULE_NAME) (td_forwarding_rule self)) @
     deletes (forwarding_rules None)
       (chosen force (own_name self ALTERNATIVE_FORWARDING_RULE_NAME) (td_alternative_forwarding_rule self)) @
     proxy_changes force self @
     ipv6_changes force self @
     deletes ''targetGrpcProxies''
       (chosen force (own_name self ALTERNATIVE_TARGET_PROXY_NAME) (td_alternative_target_proxy self)) @
     deletes (url_maps (td_region self))
       (chosen force (own_name self URL_MAP_NAME) (td_url_map self)) @
     deletes (url_maps (td_region self))
       (chosen force (own_name self ALTERNATIVE_URL_MAP_NAME) (td_alternative_url_map self)) @
     deletes (backend_services (td_region self))
       (chosen force (own_name self BACKEND_SERVICE_NAME) (td_backend_service self)) @
     deletes (backend_services None)
       (chosen force (own_name self ALTERNATIVE_BACKEND_SERVICE_NAME) (td_alternative_backend_service self)) @
     deletes (backend_services None)
       (chosen force (own_name self AFFINITY_BACKEND_SERVICE_NAME) (td_affinity_backend_service self)) @
     deletes ''healthChecks''
       (chosen force (own_name self HEALTH_CHECK_NAME) (td_health_check self))"

text \<open>The manager after a cleanup: everything forgotten but the alternative URL map.\<close>

definition proxies_forgotten :: "bool \<Rightarrow> 'x td_scheme \<Rightarrow> 'x td_scheme" where
  "proxies_forgotten force self = self
     \<lparr>td_target_proxy := None,
      td_target_proxy_is_http :=
        (if force \<or> td_target_proxy self \<noteq> None then False else td_target_proxy_is_http self)\<rparr>"

definition ipv6_forgotten :: "'x td_scheme \<Rightarrow> 'x td_scheme" where
  "ipv6_forgotten self =
     (if td_enable_dualstack self
      then self\<lparr>td_forwarding_rule_ipv6 := None, td_target_proxy_ipv6 := None\<rparr> else self)"

definition firewall_forgotten :: "'x td_scheme \<Rightarrow> 'x td_scheme" where
  "firewall_forgotten self =
     (if td_ensure_firewall self
      then self\<lparr>td_firewall_rule := None, td_firewall_rule_ipv6 := None, td_ensure_firewall := False\<rparr>
      else self)"

definition forgotten_below :: "'x td_scheme \<Rightarrow> 'x td_scheme" where
  "forgotten_below self = self
     \<lparr>td_alternative_target_proxy := None, td_url_map := None, td_backend_service := None,
      td_alternative_backend_service := None, td_affinity_backend_service := None,
      td_health_check := None\<rparr>"

definition cleaned :: "bool \<Rightarrow> 'x td_scheme \<Rightarrow> 'x td_scheme" where
  "cleaned force self =
     forgotten_below (ipv6_forgotten (proxies_forgotten force
       ((firewall_forgotten self)\<lparr>td_forwarding_rule := None, td_alternative_forwarding_rule := None\<rparr>)))"

section \<open>One method after the other\<close>

lemma target_chosen:
  "(case (if force then Some made else map_option name slot) of None \<Rightarrow> [] | Some n \<Rightarrow> [(coll, ''delete'', n)])
     = deletes coll (chosen force made slot)"
  by (simp add: deletes_def chosen_def split: option.split)

lemmas targets = health_check.target_def backend_service.target_def alt_backend_service.target_def
  affinity_backend_service.target_def url_map.target_def alt_url_map.target_def grpc_proxy.target_def
  http_proxy.target_def proxy_ipv6.target_def alt_proxy.target_def rule.target_def rule_ipv6.target_def
  alt_rule.target_def target_chosen

lemma delete_named_firewall:
  assumes "env_ok E" and "serves_compute E"
  shows "\<exists>w'. td_delete_firewall_rule_named E nm (self, w) = (Inr True, (self, w'))
    \<and> changes w' = changes w @ [(''firewalls'', ''delete'', nm)]"
proof -
  obtain w' where "delete_firewall_rule E (td_compute self) nm w = (Inr True, w')"
    and "changes w' = changes w @ [(''firewalls'', ''delete'', nm)]"
    unfolding delete_firewall_rule_def using compute_delete.deletes_once [OF assms] by blast
  then show ?thesis
    by (simp add: td_delete_firewall_rule_named_def act_simps andthen_def bind_def call_def
        try_except_def using_self_def return_def)
qed

lemma does_delete_firewall_rule:
  assumes "env_ok E" and "serves_compute E"
  shows "does (td_delete_firewall_rule E force) self (self\<lparr>td_firewall_rule := None\<rparr>)
    (deletes ''firewalls'' (chosen_firewall force (own_name self FIREWALL_RULE_NAME) (td_firewall_rule self)))"
  unfolding does_def
proof
  fix w
  show "\<exists>w'. td_delete_firewall_rule E force (self, w) = (Inr (), (self\<lparr>td_firewall_rule := None\<rparr>, w'))
    \<and> changes w' = changes w @ deletes ''firewalls''
        (chosen_firewall force (own_name self FIREWALL_RULE_NAME) (td_firewall_rule self))"
    using delete_named_firewall [OF assms, of "own_name self FIREWALL_RULE_NAME" self w]
      delete_named_firewall [OF assms, of "name (the (td_firewall_rule self))" self w]
    by (cases "td_firewall_rule self")
      (auto simp: td_delete_firewall_rule_def Let_def using_self_def chosen_firewall_def deletes_def
        return_def bind_def assign_def)
qed

lemma does_delete_firewall_rule_ipv6:
  assumes "env_ok E" and "serves_compute E"
  shows "does (td_delete_firewall_rule_ipv6 E force) self (self\<lparr>td_firewall_rule_ipv6 := None\<rparr>)
    (deletes ''firewalls'' (chosen_firewall force (own_name self FIREWALL_RULE_NAME_IPV6) (td_firewall_rule_ipv6 self)))"
  unfolding does_def
proof
  fix w
  show "\<exists>w'. td_delete_firewall_rule_ipv6 E force (self, w) = (Inr (), (self\<lparr>td_firewall_rule_ipv6 := None\<rparr>, w'))
    \<and> changes w' = changes w @ deletes ''firewalls''
        (chosen_firewall force (own_name self FIREWALL_RULE_NAME_IPV6) (td_firewall_rule_ipv6 self))"
    using delete_named_firewall [OF assms, of "own_name self FIREWALL_RULE_NAME_IPV6" self w]
      delete_named_firewall [OF assms, of "name (the (td_firewall_rule_ipv6 self))" self w]
    by (cases "td_firewall_rule_ipv6 self")
      (auto simp: td_delete_firewall_rule_ipv6_def Let_def using_self_def chosen_firewall_def deletes_def
        return_def bind_def assign_def)
qed

lemma does_delete_firewall_rules:
  assumes "env_ok E" and "serves_compute E"
  shows "does (td_delete_firewall_rules E force) self (firewall_forgotten self) (firewall_changes force self)"
proof (cases "td_ensure_firewall self")
  case False
  then show ?thesis
    unfolding td_delete_firewall_rules_def
    by (intro does_using_self) (simp add: firewall_forgotten_def firewall_changes_def does_return)
next
  case True
  let ?a = "self\<lparr>td_firewall_rule := None\<rparr>"
  let ?b = "?a\<lparr>td_firewall_rule_ipv6 := None\<rparr>"
  have "does (stmts [td_delete_firewall_rule E force, td_delete_firewall_rule_ipv6 E force,
      assign (td_ensure_firewall_update (\<lambda>_. False))]) self (?b\<lparr>td_ensure_firewall := False\<rparr>)
    (deletes ''firewalls'' (chosen_firewall force (own_name self FIREWALL_RULE_NAME) (td_firewall_rule self)) @
     deletes ''firewalls'' (chosen_firewall force (own_name ?a FIREWALL_RULE_NAME_IPV6) (td_firewall_rule_ipv6 ?a)) @
     [] @ [])"
    by (rule does_stmts_Cons [OF does_delete_firewall_rule [OF assms]
        does_stmts_Cons [OF does_delete_firewall_rule_ipv6 [OF assms]
        does_stmts_Cons [OF does_assign does_stmts_Nil]]])
  with True show ?thesis
    unfolding td_delete_firewall_rules_def
    by (intro does_using_self)
      (simp add: firewall_forgotten_def firewall_changes_def)
qed

lemma proxies_kept:
  "td_target_proxy self = None \<Longrightarrow> td_target_proxy_is_http self = b
    \<Longrightarrow> self\<lparr>td_target_proxy := None, td_target_proxy_is_http := b\<rparr> = self"
  by (cases self) simp

lemma does_delete_proxies:
  assumes "env_ok E" and "serves_compute E"
  shows "does (stmts [td_delete_target_http_proxy E force, td_delete_target_grpc_proxy E force])
    self (proxies_forgotten force self) (proxy_changes force self)"
proof -
  note run = does_stmts_Cons [OF http_proxy.does_run [OF assms, where self = self and force = force]
    does_stmts_Cons [OF grpc_proxy.does_run [OF assms, where force = force] does_stmts_Nil]]
  show ?thesis
  proof (cases "force \<or> td_target_proxy self \<noteq> None")
    case True
    with run show ?thesis
      by (cases "td_target_proxy self"; cases "td_target_proxy_is_http self"; cases force)
        (auto simp: targets proxies_forgotten_def proxy_changes_def chosen_def deletes_def)
  next
    case False
    then have "proxies_forgotten force self = self" by (simp add: proxies_forgotten_def proxies_kept)
    moreover from False have "\<not> force" "td_target_proxy self = None" by simp_all
    ultimately show ?thesis using run
      by (cases "td_target_proxy_is_http self") (simp_all add: targets proxy_changes_def chosen_def deletes_def)
  qed
qed

lemma does_delete_ipv6:
  assumes "env_ok E" and "serves_compute E"
  shows "does (using_self (\<lambda>self. if td_enable_dualstack self
      then stmts [td_delete_forwarding_rule_ipv6 E force, td_delete_target_proxy_ipv6 E force]
      else return ())) self (ipv6_forgotten self) (ipv6_changes force self)"
proof (rule does_using_self, cases "td_enable_dualstack self")
  case False
  then show "does (if td_enable_dualstack self
      then stmts [td_delete_forwarding_rule_ipv6 E force, td_delete_target_proxy_ipv6 E force]
      else return ()) self (ipv6_forgotten self) (ipv6_changes force self)"
    by (simp add: ipv6_forgotten_def ipv6_changes_def does_return)
next
  case True
  with does_stmts_Cons [OF rule_ipv6.does_forget [OF assms, where self = self and force = force]
    does_stmts_Cons [OF proxy_ipv6.does_forget [OF assms, where force = force] does_stmts_Nil]]
  show "does (if td_enable_dualstack self
      then stmts [td_delete_forwarding_rule_ipv6 E force, td_delete_target_proxy_ipv6 E force]
      else return ()) self (ipv6_forgotten self) (ipv6_changes force self)"
    by (simp add: ipv6_forgotten_def ipv6_changes_def targets)
qed

text \<open>The URL map is cleared before the method that would clear it a second time.\<close>

lemma does_delete_alternative_url_map:
  assumes "env_ok E" and "serves_compute E" and "td_url_map self = None"
  shows "does (td_delete_alternative_url_map E force) self self
    (deletes (url_maps (td_region self))
       (chosen force (own_name self ALTERNATIVE_URL_MAP_NAME) (td_alternative_url_map self)))"
proof -
  have "self\<lparr>td_url_map := None\<rparr> = self" using assms(3) by (cases self) simp
  then show ?thesis
    using alt_url_map.does_run [OF assms(1,2), where self = self and force = force]
    by (simp add: targets split: if_splits)
qed

lemma does_delete_below:
  assumes "env_ok E" and "serves_compute E"
  shows "does (stmts [td_delete_alternative_target_grpc_proxy E force, td_delete_url_map E force,
      td_delete_alternative_url_map E force, td_delete_backend_service E force,
      td_delete_alternative_backend_service E force, td_delete_affinity_backend_service E force,
      td_delete_health_check E force]) self (forgotten_below self)
    (deletes ''targetGrpcProxies''
       (chosen force (own_name self ALTERNATIVE_TARGET_PROXY_NAME) (td_alternative_target_proxy self)) @
     deletes (url_maps (td_region self))
       (chosen force (own_name self URL_MAP_NAME) (td_url_map self)) @
     deletes (url_maps (td_region self))
       (chosen force (own_name self ALTERNATIVE_URL_MAP_NAME) (td_alternative_url_map self)) @
     deletes (backend_services (td_region self))
       (chosen force (own_name self BACKEND_SERVICE_NAME) (td_backend_service self)) @
     deletes (backend_services None)
       (chosen force (own_name self ALTERNATIVE_BACKEND_SERVICE_NAME) (td_alternative_backend_service self)) @
     deletes (backend_services None)
       (chosen force (own_name self AFFINITY_BACKEND_SERVICE_NAME) (td_affinity_backend_service self)) @
     deletes ''healthChecks''
       (chosen force (own_name self HEALTH_CHECK_NAME) (td_health_check self)))"
proof -
  let ?m = "self\<lparr>td_alternative_target_proxy := None, td_url_map := None\<rparr>"
  have first: "does (stmts [td_delete_alternative_target_grpc_proxy E force, td_delete_url_map E force])
      self ?m (deletes ''targetGrpcProxies''
       (chosen force (own_name self ALTERNATIVE_TARGET_PROXY_NAME) (td_alternative_target_proxy self)) @
     deletes (url_maps (td_region self)) (chosen force (own_name self URL_MAP_NAME) (td_url_map self)))"
    using does_stmts_Cons [OF alt_proxy.does_forget [OF assms, where self = self and force = force]
      does_stmts_Cons [OF url_map.does_forget [OF assms, where force = force] does_stmts_Nil]]
    by (simp add: targets)
  have second: "does (td_delete_alternative_url_map E force) ?m ?m
    (deletes (url_maps (td_region self))
       (chosen force (own_name self ALTERNATIVE_URL_MAP_NAME) (td_alternative_url_map self)))"
    using does_delete_alternative_url_map [OF assms, of ?m force]
    by (simp add:)
  have third: "does (stmts [td_delete_backend_service E force, td_delete_alternative_backend_service E force,
      td_delete_affinity_backend_service E force, td_delete_health_check E force]) ?m (forgotten_below self)
    (deletes (backend_services (td_region self))
       (chosen force (own_name self BACKEND_SERVICE_NAME) (td_backend_service self)) @
     deletes (backend_services None)
       (chosen force (own_name self ALTERNATIVE_BACKEND_SERVICE_NAME) (td_alternative_backend_service self)) @
     deletes (backend_services None)
       (chosen force (own_name self AFFINITY_BACKEND_SERVICE_NAME) (td_affinity_backend_service self)) @
     deletes ''healthChecks''
       (chosen force (own_name self HEALTH_CHECK_NAME) (td_health_check self)))"
    using does_stmts_Cons [OF backend_service.does_forget [OF assms, where self = ?m and force = force]
      does_stmts_Cons [OF alt_backend_service.does_forget [OF assms, where force = force]
      does_stmts_Cons [OF affinity_backend_service.does_forget [OF assms, where force = force]
      does_stmts_Cons [OF health_check.does_forget [OF assms, where force = force] does_stmts_Nil]]]]
    by (simp add: targets forgotten_below_def)
  from does_andthen [OF first does_stmts_Cons [OF second third]]
  show ?thesis by (simp add: stmts_append [symmetric] del: stmts.simps)
qed

section \<open>The whole cleanup\<close>

lemma forgotten_simps [simp]:
  "td_region (firewall_forgotten self) = td_region self"
  "td_region (proxies_forgotten force self) = td_region self"
  "td_region (ipv6_forgotten self) = td_region self"
  "td_enable_dualstack (firewall_forgotten self) = td_enable_dualstack self"
  "td_enable_dualstack (proxies_forgotten force self) = td_enable_dualstack self"
  "own_name (firewall_forgotten self) = own_name self"
  "own_name (proxies_forgotten force self) = own_name self"
  "own_name (ipv6_forgotten self) = own_name self"
  by (simp_all add: firewall_forgotten_def proxies_forgotten_def ipv6_forgotten_def)

lemma forgotten_slots [simp]:
  "td_forwarding_rule (firewall_forgotten self) = td_forwarding_rule self"
  "td_alternative_forwarding_rule (firewall_forgotten self) = td_alternative_forwarding_rule self"
  "td_target_proxy (firewall_forgotten self) = td_target_proxy self"
  "td_target_proxy_is_http (firewall_forgotten self) = td_target_proxy_is_http self"
  "td_forwarding_rule_ipv6 (firewall_forgotten self) = td_forwarding_rule_ipv6 self"
  "td_target_proxy_ipv6 (firewall_forgotten self) = td_target_proxy_ipv6 self"
  "td_forwarding_rule_ipv6 (proxies_forgotten force self) = td_forwarding_rule_ipv6 self"
  "td_target_proxy_ipv6 (proxies_forgotten force self) = td_target_proxy_ipv6 self"
  by (simp_all add: firewall_forgotten_def proxies_forgotten_def)

lemma forgotten_rest [simp]:
  "td_alternative_target_proxy (ipv6_forgotten self) = td_alternative_target_proxy self"
  "td_alternative_target_proxy (proxies_forgotten force self) = td_alternative_target_proxy self"
  "td_alternative_target_proxy (firewall_forgotten self) = td_alternative_target_proxy self"
  "td_url_map (ipv6_forgotten self) = td_url_map self"
  "td_url_map (proxies_forgotten force self) = td_url_map self"
  "td_url_map (firewall_forgotten self) = td_url_map self"
  "td_alternative_url_map (ipv6_forgotten self) = td_alternative_url_map self"
  "td_alternative_url_map (proxies_forgotten force self) = td_alternative_url_map self"
  "td_alternative_url_map (firewall_forgotten self) = td_alternative_url_map self"
  "td_backend_service (ipv6_forgotten self) = td_backend_service self"
  "td_backend_service (proxies_forgotten force self) = td_backend_service self"
  "td_backend_service (firewall_forgotten self) = td_backend_service self"
  "td_alternative_backend_service (ipv6_forgotten self) = td_alternative_backend_service self"
  "td_alternative_backend_service (proxies_forgotten force self) = td_alternative_backend_service self"
  "td_alternative_backend_service (firewall_forgotten self) = td_alternative_backend_service self"
  "td_affinity_backend_service (ipv6_forgotten self) = td_affinity_backend_service self"
  "td_affinity_backend_service (proxies_forgotten force self) = td_affinity_backend_service self"
  "td_affinity_backend_service (firewall_forgotten self) = td_affinity_backend_service self"
  "td_health_check (ipv6_forgotten self) = td_health_check self"
  "td_health_check (proxies_forgotten force self) = td_health_check self"
  "td_health_check (firewall_forgotten self) = td_health_check self"
  by (simp_all add: firewall_forgotten_def proxies_forgotten_def ipv6_forgotten_def)

lemma does_cleanup:
  assumes "env_ok E" and "serves_compute E"
  shows "does (td_cleanup E force) self (cleaned force self) (cleanup_changes force self)"
proof -
  let ?a = "firewall_forgotten self"
  let ?b = "?a\<lparr>td_forwarding_rule := None, td_alternative_forwarding_rule := None\<rparr>"
  let ?c = "proxies_forgotten force ?b"
  note s1 = does_delete_firewall_rules [OF assms, where self = self and force = force]
  note s2 = does_stmts_Cons [OF rule.does_forget [OF assms, where self = ?a and force = force]
    does_stmts_Cons [OF alt_rule.does_forget [OF assms, where force = force] does_stmts_Nil]]
  note s3 = does_delete_proxies [OF assms, where self = ?b and force = force]
  note s4 = does_delete_ipv6 [OF assms, where self = ?c and force = force]
  note s5 = does_delete_below [OF assms, where self = "ipv6_forgotten ?c" and force = force]
  have proxies: "proxy_changes force ?b = proxy_changes force self"
    by (simp add: proxy_changes_def cong: if_cong)
  have ipv6: "ipv6_changes force ?c = ipv6_changes force self"
    by (simp add: ipv6_changes_def cong: if_cong)
  from does_andthen [OF s1 does_andthen [OF s2 does_andthen [OF s3 does_stmts_Cons [OF s4 s5]]]]
  show ?thesis
    unfolding td_cleanup_def cleaned_def cleanup_changes_def
    by (simp add: targets proxies ipv6 andthen_def)
qed

section \<open>What a cleanup may delete\<close>

text \<open>
  The kinds of resources a manager deletes: the collection, the name it gives, the field that
  holds the resource. \<open>may_delete\<close> is what a cleanup is allowed to change whatever the services
  answer and wherever it stops: resources it holds, and with \<open>force\<close> resources with its own names.
\<close>

definition td_kinds :: "'x td_scheme \<Rightarrow> (string \<times> string \<times> gcp_resource option) list" where
  "td_kinds self =
     [(''firewalls'', FIREWALL_RULE_NAME, td_firewall_rule self),
      (''firewalls'', FIREWALL_RULE_NAME_IPV6, td_firewall_rule_ipv6 self),
      (forwarding_rules (td_region self), FORWARDING_RULE_NAME, td_forwarding_rule self),
      (forwarding_rules None, ALTERNATIVE_FORWARDING_RULE_NAME, td_alternative_forwarding_rule self),
      (target_http_proxies (td_region self), TARGET_PROXY_NAME, td_target_proxy self),
      (''targetGrpcProxies'', TARGET_PROXY_NAME, td_target_proxy self),
      (forwarding_rules None, FORWARDING_RULE_NAME_IPV6, td_forwarding_rule_ipv6 self),
      (target_http_proxies None, TARGET_PROXY_NAME_IPV6, td_target_proxy_ipv6 self),
      (''targetGrpcProxies'', ALTERNATIVE_TARGET_PROXY_NAME, td_alternative_target_proxy self),
      (url_maps (td_region self), URL_MAP_NAME, td_url_map self),
      (url_maps (td_region self), ALTERNATIVE_URL_MAP_NAME, td_alternative_url_map self),
      (backend_services (td_region self), BACKEND_SERVICE_NAME, td_backend_service self),
      (backend_services None, ALTERNATIVE_BACKEND_SERVICE_NAME, td_alternative_backend_service self),
      (backend_services None, AFFINITY_BACKEND_SERVICE_NAME, td_affinity_backend_service self),
      (''healthChecks'', HEALTH_CHECK_NAME, td_health_check self)]"

definition may_delete :: "bool \<Rightarrow> 'x td_scheme \<Rightarrow> change set" where
  "may_delete force self = (\<Union>(coll, nm, slot) \<in> set (td_kinds self).
     (if force then {(coll, ''delete'', own_name self nm)} else {}) \<union>
     (case slot of None \<Rightarrow> {} | Some r \<Rightarrow> {(coll, ''delete'', name r)}))"

text \<open>The managers a cleanup of \<open>self0\<close> goes through: same settings, and no resource that is new.\<close>

definition slot_le :: "gcp_resource option \<Rightarrow> gcp_resource option \<Rightarrow> bool" where
  "slot_le a b \<longleftrightarrow> a = None \<or> a = b"

definition shrinks :: "'x td_scheme \<Rightarrow> 'x td_scheme \<Rightarrow> bool" where
  "shrinks self0 self \<longleftrightarrow> own_name self = own_name self0 \<and>
     list_all2 (\<lambda>(coll, nm, slot) (coll0, nm0, slot0). coll = coll0 \<and> nm = nm0 \<and> slot_le slot slot0)
       (td_kinds self) (td_kinds self0)"

lemma slot_le_simps [simp]: "slot_le None b" "slot_le a a"
  by (simp_all add: slot_le_def)

lemma shrinks_refl: "shrinks self self"
  by (simp add: shrinks_def td_kinds_def)

lemma shrinks_forget [simp]:
  assumes "shrinks self0 self"
  shows "shrinks self0 (td_health_check_update (\<lambda>_. None) self)"
    "shrinks self0 (td_backend_service_update (\<lambda>_. None) self)"
    "shrinks self0 (td_alternative_backend_service_update (\<lambda>_. None) self)"
    "shrinks self0 (td_affinity_backend_service_update (\<lambda>_. None) self)"
    "shrinks self0 (td_url_map_update (\<lambda>_. None) self)"
    "shrinks self0 (self\<lparr>td_target_proxy := None, td_target_proxy_is_http := False\<rparr>)"
    "shrinks self0 (td_target_proxy_ipv6_update (\<lambda>_. None) self)"
    "shrinks self0 (td_alternative_target_proxy_update (\<lambda>_. None) self)"
    "shrinks self0 (td_forwarding_rule_update (\<lambda>_. None) self)"
    "shrinks self0 (td_forwarding_rule_ipv6_update (\<lambda>_. None) self)"
    "shrinks self0 (td_alternative_forwarding_rule_update (\<lambda>_. None) self)"
    "shrinks self0 (td_firewall_rule_update (\<lambda>_. None) self)"
    "shrinks self0 (td_firewall_rule_ipv6_update (\<lambda>_. None) self)"
    "shrinks self0 (td_ensure_firewall_update (\<lambda>_. False) self)"
  using assms by (simp_all add: shrinks_def td_kinds_def)

lemma may_deleteI:
  assumes "shrinks self0 self" and "(coll, nm, slot) \<in> set (td_kinds self)"
    and "c \<in> set (deletes coll (chosen force (own_name self nm) slot))"
  shows "c \<in> may_delete force self0"
proof -
  obtain slot0 where kind: "(coll, nm, slot0) \<in> set (td_kinds self0)" and "slot_le slot slot0"
    and "own_name self = own_name self0"
    using assms(1) list_all2_member [OF _ assms(2), of _ "td_kinds self0"]
    by (fastforce simp: shrinks_def)
  with assms(3) show ?thesis
    unfolding may_delete_def
    by (intro UN_I [of "(coll, nm, slot0)"])
      (auto simp: deletes_def chosen_def slot_le_def split: if_splits option.splits)
qed

abbreviation deletes_own :: "bool \<Rightarrow> 'x td_scheme \<Rightarrow> ('x, 'a) td_meth \<Rightarrow> bool" where
  "deletes_own force self0 m \<equiv>
     obeys (shrinks self0) (\<lambda>q. mutates q \<longrightarrow> change_of q \<in> may_delete force self0) m"

lemma may_delete_held:
  "shrinks self0 self \<Longrightarrow> (coll, nm, slot) \<in> set (td_kinds self) \<Longrightarrow> slot' = None \<or> slot' = slot
    \<Longrightarrow> c \<in> set (deletes coll (chosen force (own_name self nm) slot')) \<Longrightarrow> c \<in> may_delete force self0"
  by (cases "slot' = slot"; cases force)
    (auto intro: may_deleteI simp: chosen_def deletes_def)

lemmas only_targets = health_check.only_target
  backend_service.only_target
  alt_backend_service.only_target
  affinity_backend_service.only_target
  url_map.only_target
  alt_url_map.only_target
  grpc_proxy.only_target
  proxy_ipv6.only_target
  alt_proxy.only_target
  rule.only_target
  rule_ipv6.only_target
  alt_rule.only_target

lemma methods_own:
  assumes "env_ok E"
  shows "deletes_own force self0 (td_delete_health_check E force)"
    "deletes_own force self0 (td_delete_backend_service E force)"
    "deletes_own force self0 (td_delete_alternative_backend_service E force)"
    "deletes_own force self0 (td_delete_affinity_backend_service E force)"
    "deletes_own force self0 (td_delete_url_map E force)"
    "deletes_own force self0 (td_delete_alternative_url_map E force)"
    "deletes_own force self0 (td_delete_target_grpc_proxy E force)"
    "deletes_own force self0 (td_delete_target_proxy_ipv6 E force)"
    "deletes_own force self0 (td_delete_alternative_target_grpc_proxy E force)"
    "deletes_own force self0 (td_delete_forwarding_rule E force)"
    "deletes_own force self0 (td_delete_forwarding_rule_ipv6 E force)"
    "deletes_own force self0 (td_delete_alternative_forwarding_rule E force)"
  by (rule only_targets [OF assms];
      auto simp: targets elim: may_delete_held [rotated -1] simp: td_kinds_def)+

lemma http_proxy_own:
  assumes "env_ok E"
  shows "deletes_own force self0 (td_delete_target_http_proxy E force)"
proof (rule http_proxy.only_target [OF assms])
  fix self q
  assume "shrinks self0 self"
    and "change_of q \<in> set (http_proxy.target force self)"
  then show "mutates q \<longrightarrow> change_of q \<in> may_delete force self0"
    using may_delete_held [of self0 self "target_http_proxies (td_region self)" TARGET_PROXY_NAME
      "td_target_proxy self" "if td_target_proxy_is_http self then td_target_proxy self else None"]
    by (simp add: targets td_kinds_def)
qed simp_all

lemma firewall_named_own:
  assumes "env_ok E" and "(''firewalls'', ''delete'', nm) \<in> may_delete force self0"
  shows "deletes_own force self0 (td_delete_firewall_rule_named E nm)"
  unfolding td_delete_firewall_rule_named_def delete_firewall_rule_def
  by (intro obeys_intros emits_mono [OF compute_delete.del_emits [OF assms(1)]]) (use assms(2) in auto)

lemma firewall_held:
  assumes sh: "shrinks self0 self" and mem: "(''firewalls'', k, slot) \<in> set (td_kinds self)"
    and nm: "(case slot of Some r \<Rightarrow> Some (name r) | None \<Rightarrow> if force then Some (own_name self k) else None) = Some nm"
  shows "(''firewalls'', ''delete'', nm) \<in> may_delete force self0"
proof (cases "slot")
  case None
  with nm may_deleteI [OF sh mem, of "(''firewalls'', ''delete'', nm)" force] show ?thesis
    by (simp add: chosen_def deletes_def split: if_splits)
next
  case (Some r)
  obtain slot0 where kind: "(''firewalls'', k, slot0) \<in> set (td_kinds self0)" and "slot_le slot slot0"
    using sh list_all2_member [OF _ mem, of _ "td_kinds self0"] by (fastforce simp: shrinks_def)
  with nm Some show ?thesis
    unfolding may_delete_def
    by (intro UN_I [OF kind]) (auto simp: slot_le_def)
qed

lemma firewall_own:
  assumes "env_ok E"
  shows "deletes_own force self0 (td_delete_firewall_rules E force)"
proof -
  have one: "deletes_own force self0 (td_delete_firewall_rule E force)"
    unfolding td_delete_firewall_rule_def Let_def
    by (intro obeys_intros firewall_named_own assms shrinks_forget
        firewall_held [where k = FIREWALL_RULE_NAME]; (assumption | simp add: td_kinds_def))
  have two: "deletes_own force self0 (td_delete_firewall_rule_ipv6 E force)"
    unfolding td_delete_firewall_rule_ipv6_def Let_def
    by (intro obeys_intros firewall_named_own assms shrinks_forget
        firewall_held [where k = FIREWALL_RULE_NAME_IPV6]; (assumption | simp add: td_kinds_def))
  show ?thesis
    unfolding td_delete_firewall_rules_def
    by (intro obeys_intros one two shrinks_forget)
qed

lemma cleanup_own:
  assumes "env_ok E"
  shows "deletes_own force self0 (td_cleanup E force)"
  unfolding td_cleanup_def
  by (intro obeys_intros firewall_own methods_own http_proxy_own assms)

section \<open>Cleaning up twice\<close>

text \<open>The manager holds nothing that a cleanup would look at, the alternative URL map apart.\<close>

definition bare :: "'x td_scheme \<Rightarrow> bool" where
  "bare self \<longleftrightarrow> \<not> td_ensure_firewall self \<and> td_forwarding_rule self = None \<and>
     td_alternative_forwarding_rule self = None \<and> td_target_proxy self = None \<and>
     (td_enable_dualstack self \<longrightarrow> td_forwarding_rule_ipv6 self = None \<and> td_target_proxy_ipv6 self = None) \<and>
     td_alternative_target_proxy self = None \<and> td_url_map self = None \<and>
     td_backend_service self = None \<and> td_alternative_backend_service self = None \<and>
     td_affinity_backend_service self = None \<and> td_health_check self = None"

lemma ends_firewall_named: "Q self \<Longrightarrow> ends (td_delete_firewall_rule_named E nm) self Q"
  by (simp add: td_delete_firewall_rule_named_def ends_def using_self_def try_except_def andthen_def
      bind_def call_def return_def split: prod.splits sum.splits)

lemma ends_firewall:
  assumes "\<And>a b. Q (self\<lparr>td_firewall_rule := a, td_firewall_rule_ipv6 := b, td_ensure_firewall := False\<rparr>)"
  shows "ends (td_delete_firewall_rules E force) self Q"
proof (cases "td_ensure_firewall self")
  case False
  then have "self = self\<lparr>td_firewall_rule := td_firewall_rule self,
      td_firewall_rule_ipv6 := td_firewall_rule_ipv6 self, td_ensure_firewall := False\<rparr>"
    by (cases self) simp
  with assms have "Q self" by metis
  with False show ?thesis
    unfolding td_delete_firewall_rules_def by (intro ends_using_self) (simp add: ends_return)
next
  case True
  have one: "ends (td_delete_firewall_rule E force) self R"
    if "\<And>a. R (self\<lparr>td_firewall_rule := a\<rparr>)" for self :: "'a td_scheme" and R
  proof -
    have "R self" using that [of "td_firewall_rule self"] by simp
    with that show ?thesis unfolding td_delete_firewall_rule_def Let_def
      by (intro ends_using_self ends_case_option ends_return ends_bind ends_firewall_named allI ends_if ends_assign)
  qed
  have two: "ends (td_delete_firewall_rule_ipv6 E force) self R"
    if "\<And>a. R (self\<lparr>td_firewall_rule_ipv6 := a\<rparr>)" for self :: "'a td_scheme" and R
  proof -
    have "R self" using that [of "td_firewall_rule_ipv6 self"] by simp
    with that show ?thesis unfolding td_delete_firewall_rule_ipv6_def Let_def
      by (intro ends_using_self ends_case_option ends_return ends_bind ends_firewall_named allI ends_if ends_assign)
  qed
  from True show ?thesis
    unfolding td_delete_firewall_rules_def
    by (intro ends_using_self) (simp del: stmts.simps, intro ends_stmts_Cons one two ends_assign ends_stmts_Nil assms)
qed

lemmas ends_methods = rule.ends_forgotten alt_rule.ends_forgotten http_proxy.ends_either
  grpc_proxy.ends_either rule_ipv6.ends_forgotten proxy_ipv6.ends_forgotten alt_proxy.ends_forgotten
  url_map.ends_forgotten alt_url_map.ends_either backend_service.ends_forgotten
  alt_backend_service.ends_forgotten affinity_backend_service.ends_forgotten health_check.ends_forgotten

lemma cleanup_ends_bare:
  "ends (td_cleanup E force) self (\<lambda>s. bare s \<and> td_alternative_url_map s = td_alternative_url_map self)"
  unfolding td_cleanup_def
  by (intro ends_stmts_Cons ends_firewall ends_methods ends_using_self ends_if ends_stmts_Nil ends_return;
      simp add: bare_def)

lemma bare_cleanup:
  assumes "bare self" and "td_alternative_url_map self = None"
  shows "td_cleanup E False (self, w) = (Inr (), (self, w))"
  using assms
  by (simp add: td_cleanup_def bare_def act_simps td_delete_firewall_rules_def
      rule.idle alt_rule.idle http_proxy.idle grpc_proxy.idle rule_ipv6.idle proxy_ipv6.idle
      alt_proxy.idle url_map.idle alt_url_map.idle backend_service.idle alt_backend_service.idle
      affinity_backend_service.idle health_check.idle)

section \<open>Properties\<close>

text \<open>A manager that made its resources, the alternative URL map among them.\<close>

abbreviation demo_td :: td where
  "demo_td \<equiv> (td_init None ''p'' ''pre'' (Some ''suf'') ''default'' False None)
     \<lparr>td_health_check := Some (GcpResource (JStr ''hc'') JNull),
      td_alternative_url_map := Some (GcpResource (JStr ''alt'') JNull)\<rparr>"

text \<open>
  C1: with the services in good order, \<open>cleanup\<close> returns, sends exactly the deletes of
  \<open>cleanup_changes\<close> in their order (rules before proxies before URL maps before backend services
  before the health check), and leaves the manager as \<open>cleaned\<close> says.
\<close>

theorem cleanup_deletes_in_order:
  assumes "env_ok E" and "serves_compute E"
  shows "\<exists>w'. td_cleanup E force (self, w) = (Inr (), (cleaned force self, w'))
    \<and> changes w' = changes w @ cleanup_changes force self"
  using does_cleanup [OF assms] unfolding does_def by blast

theorem cleanup_deletes_in_order_witness:
  "\<exists>w'. td_cleanup demo_env False (demo_td, []) = (Inr (), (cleaned False demo_td, w'))
    \<and> changes w' = changes [] @ cleanup_changes False demo_td"
  by (rule cleanup_deletes_in_order) simp_all

text \<open>
  C2: whatever the services answer and wherever it stops, a cleanup changes nothing but resources
  that the manager holds and, with \<open>force\<close>, resources with the names it gives.
\<close>

theorem cleanup_deletes_only_own:
  assumes "env_ok E" and "td_cleanup E force (self, w) = (r, (self', w'))"
  shows "\<exists>rs. w' = w @ rs \<and> set (changes rs) \<subseteq> may_delete force self"
proof -
  from cleanup_own [OF assms(1)] shrinks_refl assms(2)
  obtain rs where "w' = w @ rs" "\<forall>q \<in> set rs. mutates q \<longrightarrow> change_of q \<in> may_delete force self"
    by (rule obeysD)
  then show ?thesis by (auto simp: changes_def)
qed

theorem cleanup_deletes_only_own_witness:
  "\<exists>rs. snd (snd (td_cleanup (with_answers (\<lambda>w r. Inl (ClientError ''broken''))) True (demo_td, []))) = [] @ rs
     \<and> set (changes rs) \<subseteq> may_delete True demo_td"
  by (rule cleanup_deletes_only_own [OF demo_env_ok(2)
      trans [OF prod.collapse [symmetric] arg_cong2 [where f = Pair, OF refl prod.collapse [symmetric]]]])

text \<open>
  C35: after a cleanup that returned, a second one without \<open>force\<close> sends nothing and changes
  nothing, provided no alternative URL map was held.
\<close>

theorem cleanup_twice_is_once:
  assumes "td_cleanup E force (self, w) = (Inr (), (self', w'))" and "td_alternative_url_map self = None"
  shows "td_cleanup E False (self', w') = (Inr (), (self', w'))"
  using endsD [OF cleanup_ends_bare assms(1)] assms(2) by (simp add: bare_cleanup)

theorem cleanup_twice_is_once_witness:
  "\<exists>self' w'. td_cleanup demo_env True (demo_td\<lparr>td_alternative_url_map := None\<rparr>, []) = (Inr (), (self', w'))
     \<and> td_cleanup demo_env False (self', w') = (Inr (), (self', w'))"
proof -
  let ?self = "demo_td\<lparr>td_alternative_url_map := None\<rparr>"
  obtain w' where run: "td_cleanup demo_env True (?self, []) = (Inr (), (cleaned True ?self, w'))"
    using does_cleanup [OF demo_env_ok(1) demo_serves_compute] by (rule doesD)
  then have "td_cleanup demo_env False (cleaned True ?self, w') = (Inr (), (cleaned True ?self, w'))"
    by (rule cleanup_twice_is_once) simp
  with run show ?thesis by blast
qed

text \<open>
  \<open>delete_alternative_url_map\<close> forgets the URL map instead of the alternative one: called
  twice, it sends the same delete twice, still holds the alternative map, and has lost the other.
\<close>

theorem alternative_url_map_never_forgotten:
  assumes "env_ok E" and "serves_compute E" and "td_alternative_url_map self = Some r"
  shows "does (stmts [td_delete_alternative_url_map E False, td_delete_alternative_url_map E False])
    self (self\<lparr>td_url_map := None\<rparr>)
    [(url_maps (td_region self), ''delete'', name r), (url_maps (td_region self), ''delete'', name r)]"
proof -
  note one = alt_url_map.does_run [OF assms(1,2), where self = self and force = False]
  note two = alt_url_map.does_run [OF assms(1,2), where self = "self\<lparr>td_url_map := None\<rparr>" and force = False]
  from one two assms(3) show ?thesis
    using does_stmts_Cons [OF _ does_stmts_Cons [OF _ does_stmts_Nil],
        of "td_delete_alternative_url_map E False" self "self\<lparr>td_url_map := None\<rparr>"
          "[(url_maps (td_region self), ''delete'', name r)]" "td_delete_alternative_url_map E False"
          "self\<lparr>td_url_map := None\<rparr>" "[(url_maps (td_region self), ''delete'', name r)]"]
    by (simp add: targets deletes_def chosen_def)
qed

theorem alternative_url_map_never_forgotten_witness:
  "does (stmts [td_delete_alternative_url_map demo_env False, td_delete_alternative_url_map demo_env False])
    demo_td (demo_td\<lparr>td_url_map := None\<rparr>)
    [(url_maps (td_region demo_td), ''delete'', JStr ''alt''), (url_maps (td_region demo_td), ''delete'', JStr ''alt'')]"
  using alternative_url_map_never_forgotten [of demo_env demo_td "GcpResource (JStr ''alt'') JNull"]
  by (simp add: GcpResource_def)

text \<open>
  A firewall rule whose deletion is refused by the service is forgotten all the same, and the
  call returns: the client has swallowed the error that the manager waits for.
\<close>

theorem refused_firewall_rule_forgotten:
  assumes "env_ok E" and "td_firewall_rule self = Some r"
    and "http E w (with_debug_header (td_compute self)
           (delete_request (td_compute self) ''firewalls'' ''firewall'' (name r) None)) = Inl (HttpError st reason)"
    and "st \<notin> {429, 500, 502, 503, 504}"
  shows "td_delete_firewall_rule E force (self, w) = (Inr (), (self\<lparr>td_firewall_rule := None\<rparr>,
    w @ [with_debug_header (td_compute self)
           (delete_request (td_compute self) ''firewalls'' ''firewall'' (name r) None)]))"
proof -
  let ?r = "with_debug_header (td_compute self)
    (delete_request (td_compute self) ''firewalls'' ''firewall'' (name r) None)"
  have "\<not> is_retryable_api_error (HttpError st reason)"
    using assms(4) by (simp add: is_retryable_api_error_def transport_errors_def)
  then have "retried E ?r w = (Inl (HttpError st reason), w @ [?r])"
    by (intro retried_first [OF assms(1,3)]) auto
  then have "delete_firewall_rule E (td_compute self) (name r) w = (Inr False, w @ [?r])"
    by (simp add: delete_firewall_rule_def delete_resource_def compute_execute_def bind_apply
        try_except_def return_def)
  with assms(2) show ?thesis
    by (simp add: td_delete_firewall_rule_def td_delete_firewall_rule_named_def Let_def using_self_def
        andthen_def bind_def call_def try_except_def return_def assign_def)
qed

theorem refused_firewall_rule_forgotten_witness:
  "snd (snd (td_delete_firewall_rule (with_answers (\<lambda>w r. Inl (HttpError 403 ''denied''))) False
     (demo_td\<lparr>td_firewall_rule := Some (GcpResource (JStr ''fw'') JNull)\<rparr>, []))) =
   [with_debug_header (td_compute demo_td)
      (delete_request (td_compute demo_td) ''firewalls'' ''firewall'' (JStr ''fw'') None)]"
  using refused_firewall_rule_forgotten [of "with_answers (\<lambda>w r. Inl (HttpError 403 ''denied''))"
      "demo_td\<lparr>td_firewall_rule := Some (GcpResource (JStr ''fw'') JNull)\<rparr>"
      "GcpResource (JStr ''fw'') JNull" "[]" 403 "''denied''" False]
  by (simp add: GcpResource_def)

end
