(* ===== verification/Setup.thy ===== *)
theory Setup
  imports Cleanup "HOL-Library.Multiset"
begin

text \<open>
  What \<open>setup_for_grpc\<close> creates when the services are in good order, what the manager then holds,
  and how the cleanup that follows relates to it.
\<close>

section \<open>Names\<close>

lemma make_resource_name_inj [simp]:
  "make_resource_name self a = make_resource_name self b \<longleftrightarrow> a = b"
  by (auto simp: make_resource_name_def split: option.splits)

lemma own_name_inj [simp]: "own_name self a = own_name self b \<longleftrightarrow> a = b"
  by (simp add: own_name_def)

section \<open>Create methods that return\<close>

lemma reaches_insert:
  assumes "env_ok E" and "serves_compute E" and "getitem body ''name'' = Inr n"
    and "\<And>link. Q (GcpResource n link) self [(coll, ''insert'', n)]"
  shows "reaches (call (insert_resource E c coll body region)) self Q"
  unfolding reaches_def
proof
  fix w
  obtain link w' where "insert_resource E c coll body region w = (Inr (GcpResource n link), w')"
    "changes w' = changes w @ [(coll, ''insert'', n)]"
    using assms(1-3) by (rule insert_served)
  with assms(4) [of link] show "\<exists>x self' w' cs. call (insert_resource E c coll body region) (self, w)
      = (Inr x, (self', w')) \<and> changes w' = changes w @ cs \<and> Q x self' cs"
    by (intro exI [of _ "GcpResource n link"] exI [of _ self] exI [of _ w']
        exI [of _ "[(coll, ''insert'', n)]"]) (simp add: call_def)
qed

definition proxy_collection :: "backend_service_protocol \<Rightarrow> string option \<Rightarrow> string" where
  "proxy_collection protocol region =
     (if protocol = BS_GRPC then ''targetGrpcProxies'' else target_http_proxies region)"

lemma reaches_create_health_check:
  assumes ok: "env_ok E" and served: "serves_compute E" and "td_health_check self = None"
    and "\<And>link. Q () (self\<lparr>td_health_check := Some (GcpResource (own_name self HEALTH_CHECK_NAME) link)\<rparr>)
      [(''healthChecks'', ''insert'', own_name self HEALTH_CHECK_NAME)]"
  shows "reaches (td_create_health_check E protocol port) self Q"
  unfolding td_create_health_check_def create_health_check_def Let_def
  by (intro reaches_using_self)
    (simp add: assms(3), intro reaches_intros reaches_insert ok served; (simp add: assms(3))?; (rule assms(4))?)

lemma reaches_create_backend_service:
  assumes ok: "env_ok E" and served: "serves_compute E" and "\<And>link. Q () (self\<lparr>td_backend_service := Some (GcpResource (own_name self BACKEND_SERVICE_NAME) link),
        td_backend_service_protocol := default_protocol protocol\<rparr>)
      [(backend_services (td_region self), ''insert'', own_name self BACKEND_SERVICE_NAME)]"
  shows "reaches (td_create_backend_service E protocol opts) self Q"
  unfolding td_create_backend_service_def create_backend_service_traffic_director_def Let_def option.case
  by (intro reaches_intros reaches_insert ok served;
      (simp add: backend_service_body_def)?; (rule assms(3))?)

lemma reaches_create_url_map:
  assumes ok: "env_ok E" and served: "serves_compute E" and "td_backend_service self = Some bs"
    and "\<And>link. Q (GcpResource (own_name self URL_MAP_NAME) link)
      (self\<lparr>td_url_map := Some (GcpResource (own_name self URL_MAP_NAME) link)\<rparr>)
      [(url_maps (td_region self), ''insert'', own_name self URL_MAP_NAME)]"
  shows "reaches (td_create_url_map E host port) self Q"
  unfolding td_create_url_map_def create_url_map_with_content_def
  by (intro reaches_intros reaches_insert ok served;
      (simp add: assms(3) generate_url_map_body_def)?; (rule assms(4))?)

lemma reaches_create_target_proxy:
  assumes ok: "env_ok E" and served: "serves_compute E" and "td_url_map self = Some um" and "td_backend_service_protocol self \<noteq> BS_UNSET"
    and "\<And>link. Q () (self\<lparr>td_target_proxy_is_http := (td_backend_service_protocol self \<noteq> BS_GRPC),
        td_target_proxy := Some (GcpResource (own_name self TARGET_PROXY_NAME) link)\<rparr>)
      [(proxy_collection (td_backend_service_protocol self) (td_region self), ''insert'', own_name self TARGET_PROXY_NAME)]"
  shows "reaches (td_create_target_proxy E) self Q"
  unfolding td_create_target_proxy_def Let_def create_target_grpc_proxy_def create_target_http_proxy_def
  using assms
  by (intro reaches_using_self; cases "td_backend_service_protocol self"; simp;
      intro reaches_intros reaches_insert ok served; simp add: proxy_collection_def)

lemma reaches_create_target_proxy_ipv6:
  assumes ok: "env_ok E" and served: "serves_compute E" and "td_url_map self = Some um"
    and "\<And>link. Q () (self\<lparr>td_target_proxy_ipv6 := Some (GcpResource (own_name self TARGET_PROXY_NAME_IPV6) link)\<rparr>)
      [(target_http_proxies None, ''insert'', own_name self TARGET_PROXY_NAME_IPV6)]"
  shows "reaches (td_create_target_proxy_ipv6 E) self Q"
  unfolding td_create_target_proxy_ipv6_def create_target_http_proxy_def
  by (intro reaches_intros reaches_insert ok served; (simp add: assms(3))?; (rule assms(4))?)

lemma reaches_create_forwarding_rule:
  assumes ok: "env_ok E" and served: "serves_compute E" and "td_target_proxy self = Some p"
    and "\<And>link. Q (GcpResource (own_name self FORWARDING_RULE_NAME) link)
      (self\<lparr>td_forwarding_rule := Some (GcpResource (own_name self FORWARDING_RULE_NAME) link)\<rparr>)
      [(forwarding_rules (td_region self), ''insert'', own_name self FORWARDING_RULE_NAME)]"
  shows "reaches (td_create_forwarding_rule E port) self Q"
  unfolding td_create_forwarding_rule_def create_forwarding_rule_def
  by (intro reaches_intros reaches_insert ok served; (simp add: assms(3))?; (rule assms(4))?)

lemma reaches_create_forwarding_rule_ipv6:
  assumes ok: "env_ok E" and served: "serves_compute E" and "td_target_proxy_ipv6 self = Some p"
    and "\<And>link. Q (GcpResource (own_name self FORWARDING_RULE_NAME_IPV6) link)
      (self\<lparr>td_forwarding_rule_ipv6 := Some (GcpResource (own_name self FORWARDING_RULE_NAME_IPV6) link)\<rparr>)
      [(forwarding_rules (td_region self), ''insert'', own_name self FORWARDING_RULE_NAME_IPV6)]"
  shows "reaches (td_create_forwarding_rule_ipv6 E port) self Q"
  unfolding td_create_forwarding_rule_ipv6_def create_forwarding_rule_def
  by (intro reaches_intros reaches_insert ok served; (simp add: assms(3))?; (rule assms(4))?)

section \<open>The whole setup\<close>

definition setup_changes :: "backend_service_protocol option \<Rightarrow> 'x td_scheme \<Rightarrow> change list" where
  "setup_changes protocol self =
     [(''healthChecks'', ''insert'', own_name self HEALTH_CHECK_NAME),
      (backend_services (td_region self), ''insert'', own_name self BACKEND_SERVICE_NAME),
      (url_maps (td_region self), ''insert'', own_name self URL_MAP_NAME),
      (proxy_collection (default_protocol protocol) (td_region self), ''insert'', own_name self TARGET_PROXY_NAME),
      (forwarding_rules (td_region self), ''insert'', own_name self FORWARDING_RULE_NAME)] @
     (if td_enable_dualstack self
      then [(target_http_proxies None, ''insert'', own_name self TARGET_PROXY_NAME_IPV6),
            (forwarding_rules (td_region self), ''insert'', own_name self FORWARDING_RULE_NAME_IPV6)]
      else [])"

text \<open>The manager after the setup, with the links the services returned.\<close>

definition set_up ::
  "backend_service_protocol option \<Rightarrow> (string \<Rightarrow> json) \<Rightarrow> 'x td_scheme \<Rightarrow> 'x td_scheme" where
  "set_up protocol link self =
     (let made = (\<lambda>nm. Some (GcpResource (own_name self nm) (link nm)));
          self1 = self\<lparr>td_health_check := made HEALTH_CHECK_NAME,
            td_backend_service := made BACKEND_SERVICE_NAME,
            td_backend_service_protocol := default_protocol protocol,
            td_url_map := made URL_MAP_NAME,
            td_target_proxy_is_http := (default_protocol protocol \<noteq> BS_GRPC),
            td_target_proxy := made TARGET_PROXY_NAME,
            td_forwarding_rule := made FORWARDING_RULE_NAME\<rparr>
      in if td_enable_dualstack self
         then self1\<lparr>td_target_proxy_ipv6 := made TARGET_PROXY_NAME_IPV6,
                   td_forwarding_rule_ipv6 := made FORWARDING_RULE_NAME_IPV6\<rparr>
         else self1)"

lemmas reaches_creates = reaches_create_health_check reaches_create_backend_service
  reaches_create_url_map reaches_create_target_proxy reaches_create_forwarding_rule
  reaches_create_target_proxy_ipv6 reaches_create_forwarding_rule_ipv6

lemma reaches_setup:
  assumes ok: "env_ok E" and served: "serves_compute E" and "td_health_check self = None"
    and "default_protocol protocol \<noteq> BS_UNSET"
  shows "reaches (td_setup_for_grpc E host port protocol hc_port security) self
    (\<lambda>_ self' cs. cs = setup_changes protocol self \<and> (\<exists>link. self' = set_up protocol link self))"
  unfolding td_setup_for_grpc_def td_setup_backend_for_grpc_def td_setup_routing_rule_map_for_grpc_def
    discard_def
proof (intro reaches_creates reaches_intros ok served, simp_all add: assms, goal_cases)
  case (1 hc bs um tp fr tp6 fr6)
  then show ?case
    by (intro conjI exI [of _ "(\<lambda>_. fr6)(HEALTH_CHECK_NAME := hc, BACKEND_SERVICE_NAME := bs,
          URL_MAP_NAME := um, TARGET_PROXY_NAME := tp, FORWARDING_RULE_NAME := fr,
          TARGET_PROXY_NAME_IPV6 := tp6)"]) (simp_all add: setup_changes_def set_up_def Let_def)
next
  case (2 hc bs um tp fr)
  then show ?case
    by (intro conjI exI [of _ "(\<lambda>_. fr)(HEALTH_CHECK_NAME := hc, BACKEND_SERVICE_NAME := bs,
          URL_MAP_NAME := um, TARGET_PROXY_NAME := tp)"])
      (simp_all add: setup_changes_def set_up_def Let_def)
qed

section \<open>Properties\<close>

abbreviation demo_fresh :: "bool \<Rightarrow> string option \<Rightarrow> td" where
  "demo_fresh dualstack region \<equiv> td_init None ''p'' ''pre'' (Some ''suf'') ''default'' dualstack region"

text \<open>
  C4: with the services in good order and no health check yet, \<open>setup_for_grpc\<close> creates exactly the
  resources of \<open>setup_changes\<close>, each after the ones it refers to, and the manager then holds each
  of them under the name it gave.
\<close>

theorem setup_creates_in_order:
  assumes "env_ok E" and "serves_compute E" and "td_health_check self = None"
    and "default_protocol protocol \<noteq> BS_UNSET"
  shows "\<exists>link w'. td_setup_for_grpc E host port protocol hc_port security (self, w)
      = (Inr (), (set_up protocol link self, w')) \<and> changes w' = changes w @ setup_changes protocol self"
proof -
  obtain x self' w' cs where "td_setup_for_grpc E host port protocol hc_port security (self, w) = (Inr x, (self', w'))"
    "changes w' = changes w @ cs" "cs = setup_changes protocol self \<and> (\<exists>link. self' = set_up protocol link self)"
    using reaches_setup [OF assms] by (rule reachesD)
  then show ?thesis by auto
qed

theorem setup_creates_in_order_witness:
  "\<exists>link w'. td_setup_for_grpc demo_env ''host'' 80 None None JNull (demo_fresh True None, [])
      = (Inr (), (set_up None link (demo_fresh True None), w'))
     \<and> changes w' = changes [] @ setup_changes None (demo_fresh True None)"
  by (rule setup_creates_in_order) (simp_all add: td_init_def default_protocol_def)

text \<open>The resource a change is about.\<close>

definition resource_of :: "change \<Rightarrow> string \<times> json" where
  "resource_of ch = (fst ch, snd (snd ch))"

text \<open>What a cleanup deletes after a setup of a new manager.\<close>

lemma cleanup_after_setup:
  assumes "self = td_init gfe prj pre suf net dual region"
  shows "cleanup_changes False (set_up protocol link self) =
     [(forwarding_rules region, ''delete'', own_name self FORWARDING_RULE_NAME),
      (proxy_collection (default_protocol protocol) region, ''delete'', own_name self TARGET_PROXY_NAME)] @
     (if dual then [(forwarding_rules None, ''delete'', own_name self FORWARDING_RULE_NAME_IPV6),
                    (target_http_proxies None, ''delete'', own_name self TARGET_PROXY_NAME_IPV6)] else []) @
     [(url_maps region, ''delete'', own_name self URL_MAP_NAME),
      (backend_services region, ''delete'', own_name self BACKEND_SERVICE_NAME),
      (''healthChecks'', ''delete'', own_name self HEALTH_CHECK_NAME)]"
  unfolding assms
  by (cases dual; cases "default_protocol protocol")
    (simp_all add: cleanup_changes_def firewall_changes_def proxy_changes_def ipv6_changes_def chosen_def
      deletes_def set_up_def Let_def td_init_def GcpResource_def proxy_collection_def)

lemma setup_cleanup_run:
  assumes "env_ok E" and "serves_compute E" and "default_protocol protocol \<noteq> BS_UNSET"
    and "self = td_init gfe prj pre suf net dual region"
  obtains link w1 w2 where "td_setup_for_grpc E host port protocol hc_port security (self, w)
      = (Inr (), (set_up protocol link self, w1))" and "changes w1 = changes w @ setup_changes protocol self"
    and "td_cleanup E False (set_up protocol link self, w1) = (Inr (), (cleaned False (set_up protocol link self), w2))"
    and "changes w2 = changes w1 @ cleanup_changes False (set_up protocol link self)"
proof -
  have "td_health_check self = None" using assms(4) by (simp add: td_init_def)
  from reaches_setup [OF assms(1,2) this assms(3)]
  obtain x self' w1 cs where done_setup: "td_setup_for_grpc E host port protocol hc_port security (self, w) = (Inr x, (self', w1))"
    "changes w1 = changes w @ cs" "cs = setup_changes protocol self \<and> (\<exists>link. self' = set_up protocol link self)"
    by (rule reachesD)
  then obtain link where link: "self' = set_up protocol link self" by blast
  obtain w2 where "td_cleanup E False (self', w1) = (Inr (), (cleaned False self', w2))"
    "changes w2 = changes w1 @ cleanup_changes False self'"
    using does_cleanup [OF assms(1,2)] by (rule doesD)
  with done_setup that link show thesis by simp
qed



text \<open>
  A dual-stack manager with a region leaks its IPv6 forwarding rule: the setup creates it as a
  regional rule, and the cleanup deletes a global one of that name, never the regional one.
\<close>

theorem regional_ipv6_rule_leaks:
  assumes "env_ok E" and "serves_compute E" and "default_protocol protocol \<noteq> BS_UNSET"
    and "set_str region"
  shows "\<exists>self1 w1 created self2 w2 deleted rule.
    td_setup_for_grpc E host port protocol hc_port security (td_init gfe prj pre suf net True region, w)
      = (Inr (), (self1, w1)) \<and> changes w1 = changes w @ created
    \<and> td_cleanup E False (self1, w1) = (Inr (), (self2, w2)) \<and> changes w2 = changes w1 @ deleted
    \<and> td_forwarding_rule_ipv6 self2 = None
    \<and> (''forwardingRules'', ''insert'', rule) \<in> set created
    \<and> (''globalForwardingRules'', ''delete'', rule) \<in> set deleted
    \<and> (''forwardingRules'', ''delete'', rule) \<notin> set deleted"
proof -
  let ?self = "td_init gfe prj pre suf net True region"
  obtain link w1 w2 where run: "td_setup_for_grpc E host port protocol hc_port security (?self, w)
      = (Inr (), (set_up protocol link ?self, w1))" "changes w1 = changes w @ setup_changes protocol ?self"
    "td_cleanup E False (set_up protocol link ?self, w1) = (Inr (), (cleaned False (set_up protocol link ?self), w2))"
    "changes w2 = changes w1 @ cleanup_changes False (set_up protocol link ?self)"
    by (rule setup_cleanup_run [OF assms(1-3) refl])
  note deleted = cleanup_after_setup [OF refl, of protocol link gfe prj pre suf net True region]
  have td: "td_region ?self = region" "td_enable_dualstack ?self = True" by (simp_all add: td_init_def)
  let ?rule = "own_name ?self FORWARDING_RULE_NAME_IPV6"
  have "(''forwardingRules'', ''insert'', ?rule) \<in> set (setup_changes protocol ?self)"
    using assms(4) by (simp add: setup_changes_def td forwarding_rules_def)
  moreover have "(''globalForwardingRules'', ''delete'', ?rule)
      \<in> set (cleanup_changes False (set_up protocol link ?self))"
    unfolding deleted by (simp add: forwarding_rules_def)
  moreover have "(''forwardingRules'', ''delete'', ?rule)
      \<notin> set (cleanup_changes False (set_up protocol link ?self))"
    unfolding deleted using assms(4)
    by (auto simp: forwarding_rules_def proxy_collection_def target_http_proxies_def url_maps_def backend_services_def)
  moreover have "td_forwarding_rule_ipv6 (cleaned False (set_up protocol link ?self)) = None"
    by (simp add: cleaned_def forgotten_below_def ipv6_forgotten_def set_up_def Let_def td
        firewall_forgotten_def proxies_forgotten_def)
  ultimately show ?thesis using run by blast
qed

theorem regional_ipv6_rule_leaks_witness:
  "\<exists>self1 w1 created self2 w2 deleted rule.
    td_setup_for_grpc demo_env ''host'' 80 None None JNull (td_init None ''p'' ''pre'' None ''net'' True (Some ''us''), [])
      = (Inr (), (self1, w1)) \<and> changes w1 = changes [] @ created
    \<and> td_cleanup demo_env False (self1, w1) = (Inr (), (self2, w2)) \<and> changes w2 = changes w1 @ deleted
    \<and> td_forwarding_rule_ipv6 self2 = None
    \<and> (''forwardingRules'', ''insert'', rule) \<in> set created
    \<and> (''globalForwardingRules'', ''delete'', rule) \<in> set deleted
    \<and> (''forwardingRules'', ''delete'', rule) \<notin> set deleted"
  by (rule regional_ipv6_rule_leaks) (simp_all add: default_protocol_def)

end
