(* ===== verification/Iam.thy ===== *)
theory Iam
  imports GcpApi
begin

text \<open>
  framework/infrastructure/gcp/iam.py: service accounts, IAM policies and the client \<open>IamV1\<close>, with
  the read-modify-write of a policy under etags. A policy is refined to the set of its grants.
\<close>

section \<open>Service accounts\<close>

record service_account =
  sac_name :: json
  sac_projectId :: json
  sac_uniqueId :: json
  sac_email :: json
  sac_oauth2ClientId :: json
  sac_displayName :: json
  sac_description :: json
  sac_disabled :: json

definition service_account_from_response :: "json \<Rightarrow> exn + service_account" where
  "service_account_from_response response =
     ebind (getitem response ''name'') (\<lambda>n.
     ebind (getitem response ''projectId'') (\<lambda>p.
     ebind (getitem response ''uniqueId'') (\<lambda>u.
     ebind (getitem response ''email'') (\<lambda>e.
     ebind (getitem response ''oauth2ClientId'') (\<lambda>c.
     ebind (get_default response ''description'' (JStr [])) (\<lambda>desc.
     ebind (get_default response ''displayName'' (JStr [])) (\<lambda>disp.
     ebind (get_default response ''disabled'' (JBool False)) (\<lambda>dis.
       Inr \<lparr>sac_name = n, sac_projectId = p, sac_uniqueId = u, sac_email = e,
            sac_oauth2ClientId = c, sac_displayName = disp, sac_description = desc,
            sac_disabled = dis\<rparr>))))))))"

definition service_account_as_dict :: "service_account \<Rightarrow> json" where
  "service_account_as_dict a = JObj
     [(''name'', sac_name a), (''projectId'', sac_projectId a), (''uniqueId'', sac_uniqueId a),
      (''email'', sac_email a), (''oauth2ClientId'', sac_oauth2ClientId a),
      (''displayName'', sac_displayName a), (''description'', sac_description a),
      (''disabled'', sac_disabled a)]"

section \<open>Policies\<close>

text \<open>What a frozen dataclass or a set can hold: values with a hash.\<close>

fun hashable :: "json \<Rightarrow> bool" where
  "hashable (JList xs) = False"
| "hashable (JObj kvs) = False"
| "hashable v = True"

record expr =
  ex_expression :: json
  ex_title :: json
  ex_description :: json
  ex_location :: json

text \<open>\<open>Expr(**response)\<close>: the keys must be fields, and only \<open>expression\<close> has no default.\<close>

fun expr_from_response :: "json \<Rightarrow> exn + expr" where
  "expr_from_response (JObj kvs) =
     (if \<not> set (map fst kvs) \<subseteq> {''expression'', ''title'', ''description'', ''location''}
      then Inl (TypeError ''unexpected keyword argument'')
      else case map_of kvs ''expression'' of
             None \<Rightarrow> Inl (TypeError ''missing argument expression'')
           | Some e \<Rightarrow>
               let opt = (\<lambda>k. case map_of kvs k of None \<Rightarrow> JStr [] | Some v \<Rightarrow> v)
               in Inr \<lparr>ex_expression = e, ex_title = opt ''title'', ex_description = opt ''description'',
                       ex_location = opt ''location''\<rparr>)"
| "expr_from_response v = Inl (TypeError ''argument after ** must be a mapping'')"

definition expr_as_dict :: "expr \<Rightarrow> json" where
  "expr_as_dict e = JObj
     [(''expression'', ex_expression e), (''title'', ex_title e),
      (''description'', ex_description e), (''location'', ex_location e)]"

record binding =
  bn_role :: json
  bn_members :: "json set"
  bn_condition :: "expr option"

definition frozenset :: "json list \<Rightarrow> exn + json set" where
  "frozenset xs = (if list_all hashable xs then Inr (set xs) else Inl (TypeError ''unhashable type''))"

definition binding_from_response :: "json \<Rightarrow> exn + binding" where
  "binding_from_response response =
     ebind (getitem response ''role'') (\<lambda>r.
     ebind (get_default response ''members'' (JList [])) (\<lambda>ms.
     ebind (py_iter ms) (\<lambda>xs. ebind (frozenset xs) (\<lambda>members.
     ebind (contains ''condition'' response) (\<lambda>has.
       if has
       then ebind (getitem response ''condition'') (\<lambda>c. ebind (expr_from_response c) (\<lambda>e.
              Inr \<lparr>bn_role = r, bn_members = members, bn_condition = Some e\<rparr>))
       else Inr \<lparr>bn_role = r, bn_members = members, bn_condition = None\<rparr>)))))"

text \<open>\<open>list(a_frozenset)\<close> has some order, which \<open>order\<close> stands for.\<close>

definition binding_as_dict :: "(json set \<Rightarrow> json list) \<Rightarrow> binding \<Rightarrow> json" where
  "binding_as_dict order b = JObj
     ([(''role'', bn_role b), (''members'', JList (order (bn_members b)))] @
      (case bn_condition b of None \<Rightarrow> [] | Some c \<Rightarrow> [(''condition'', expr_as_dict c)]))"

definition binding_hashable :: "binding \<Rightarrow> bool" where
  "binding_hashable b \<longleftrightarrow> hashable (bn_role b) \<and>
     (case bn_condition b of None \<Rightarrow> True
      | Some e \<Rightarrow> list_all hashable [ex_expression e, ex_title e, ex_description e, ex_location e])"

text \<open>The version is \<open>JNull\<close> when it is \<open>None\<close>.\<close>

record policy =
  pl_bindings :: "binding set"
  pl_etag :: json
  pl_version :: json

definition policy_from_response :: "json \<Rightarrow> exn + policy" where
  "policy_from_response response =
     ebind (get_default response ''bindings'' (JList [])) (\<lambda>bs.
     ebind (py_iter bs) (\<lambda>xs. ebind (emap binding_from_response xs) (\<lambda>bindings.
     ebind (if list_all binding_hashable bindings then Inr (set bindings)
            else Inl (TypeError ''unhashable type'')) (\<lambda>bindings.
     ebind (getitem response ''etag'') (\<lambda>etag.
     ebind (get_default response ''version'' JNull) (\<lambda>version.
       Inr \<lparr>pl_bindings = bindings, pl_etag = etag, pl_version = version\<rparr>))))))"

definition policy_as_dict ::
  "(json set \<Rightarrow> json list) \<Rightarrow> (binding set \<Rightarrow> binding list) \<Rightarrow> policy \<Rightarrow> json" where
  "policy_as_dict member_order binding_order p = JObj
     ([(''bindings'', JList (map (binding_as_dict member_order) (binding_order (pl_bindings p)))),
       (''etag'', pl_etag p)] @
      (if pl_version p \<noteq> JNull then [(''version'', pl_version p)] else []))"

text \<open>The cache of the method hashes the policy.\<close>

definition find_binding_for_role ::
  "(binding set \<Rightarrow> binding list) \<Rightarrow> policy \<Rightarrow> string \<Rightarrow> expr option \<Rightarrow> exn + binding option" where
  "find_binding_for_role binding_order p rl condition =
     (if \<not> hashable (pl_etag p) \<or> \<not> hashable (pl_version p) then Inl (TypeError ''unhashable type'')
      else Inr (find (\<lambda>b. bn_role b = JStr rl \<and> bn_condition b = condition)
                  (binding_order (pl_bindings p))))"

definition replace_binding :: "policy \<Rightarrow> binding option \<Rightarrow> binding \<Rightarrow> policy" where
  "replace_binding p old new =
     p\<lparr>pl_bindings := insert new (case old of None \<Rightarrow> pl_bindings p | Some b \<Rightarrow> pl_bindings p - {b})\<rparr>"

section \<open>Client\<close>

record iam =
  iam_env :: env
  iam_project :: string
  iam_member_order :: "json set \<Rightarrow> json list"
  iam_binding_order :: "binding set \<Rightarrow> binding list"

abbreviation POLICY_VERSION :: int where
  "POLICY_VERSION \<equiv> 3"

definition handle_etag_conflict :: "env \<Rightarrow> (world, unit) act \<Rightarrow> (world, unit) act" where
  "handle_etag_conflict E func =
     bind (tenacity E
             (exponential_retryer_with_timeout 1 10 120 (Some [CEtagConflict, CTransportError]) None [])
             (bind func (\<lambda>_. return JNull)))
       (\<lambda>_. return ())"

definition service_account_resource_name :: "iam \<Rightarrow> string \<Rightarrow> string" where
  "service_account_resource_name c account =
     ''projects/'' @ iam_project c @ ''/serviceAccounts/'' @ account"

definition managed_identity_resource_name :: "iam \<Rightarrow> string \<Rightarrow> string \<Rightarrow> string \<Rightarrow> string" where
  "managed_identity_resource_name c pool ns identity =
     ''projects/'' @ iam_project c @ ''/locations/global/workloadIdentityPools/'' @ pool @
     ''/namespaces/'' @ ns @ ''/managedIdentities/'' @ identity"

definition iam_accounts_request :: "string \<Rightarrow> (string \<times> json) list \<Rightarrow> request" where
  "iam_accounts_request meth args = Request ''iam'' ''projects.serviceAccounts'' meth args []"

definition iam_identities_request :: "string \<Rightarrow> (string \<times> json) list \<Rightarrow> request" where
  "iam_identities_request meth args = Request ''iam''
     ''projects.locations.workloadIdentityPools.namespaces.managedIdentities'' meth args []"

definition get_service_account :: "iam \<Rightarrow> string \<Rightarrow> (world, service_account) act" where
  "get_service_account c account =
     bind (project_execute (iam_env c) None (iam_accounts_request ''get''
             [(''name'', JStr (service_account_resource_name c account))]))
       (\<lambda>response. lift (service_account_from_response response))"

definition get_policy_request :: "iam \<Rightarrow> string \<Rightarrow> request" where
  "get_policy_request c account = iam_accounts_request ''getIamPolicy''
     [(''resource'', JStr (service_account_resource_name c account)),
      (''options_requestedPolicyVersion'', JInt POLICY_VERSION)]"

definition get_service_account_iam_policy :: "iam \<Rightarrow> string \<Rightarrow> (world, policy) act" where
  "get_service_account_iam_policy c account =
     bind (project_execute (iam_env c) None (get_policy_request c account))
       (\<lambda>response. lift (policy_from_response response))"

definition set_policy_request :: "iam \<Rightarrow> string \<Rightarrow> policy \<Rightarrow> request" where
  "set_policy_request c account p = iam_accounts_request ''setIamPolicy''
     [(''resource'', JStr (service_account_resource_name c account)),
      (''body'', JObj [(''policy'', policy_as_dict (iam_member_order c) (iam_binding_order c) p)])]"

definition set_service_account_iam_policy :: "iam \<Rightarrow> string \<Rightarrow> policy \<Rightarrow> (world, policy) act" where
  "set_service_account_iam_policy c account p =
     try_except
       (bind (project_execute (iam_env c) None (set_policy_request c account p))
          (\<lambda>response. lift (policy_from_response response)))
       (\<lambda>e. isinstance e [CResponseError])
       (\<lambda>e. case e of
          ResponseError cause \<Rightarrow>
            if response_error_status cause = Some 409 then raise EtagConflict else raise e
        | _ \<Rightarrow> raise e)"

definition add_attestation_rule :: "iam \<Rightarrow> string \<Rightarrow> string \<Rightarrow> string \<Rightarrow> json \<Rightarrow> (world, unit) act" where
  "add_attestation_rule c pool ns identity body =
     try_except
       (bind (project_execute (iam_env c) None (iam_identities_request ''addAttestationRule''
          [(''resource'', JStr (managed_identity_resource_name c pool ns identity)), (''body'', body)]))
        (\<lambda>_. return ()))
       (\<lambda>e. isinstance e [CResponseError]) raise"

text \<open>As written in the source, the handler is for the unwrapped HTTP error.\<close>

definition remove_attestation_rule :: "iam \<Rightarrow> string \<Rightarrow> string \<Rightarrow> string \<Rightarrow> json \<Rightarrow> (world, bool) act" where
  "remove_attestation_rule c pool ns identity body =
     try_except
       (bind (project_execute (iam_env c) None (iam_identities_request ''removeAttestationRule''
          [(''resource'', JStr (managed_identity_resource_name c pool ns identity)), (''body'', body)]))
        (\<lambda>_. return True))
       (\<lambda>e. isinstance e [CHttpError]) (\<lambda>e. return False)"

text \<open>The binding that replaces the one found (\<open>dataclasses.replace\<close>).\<close>

definition binding_with_member :: "binding option \<Rightarrow> string \<Rightarrow> string \<Rightarrow> binding" where
  "binding_with_member found rl member =
     (case found of
        None \<Rightarrow> \<lparr>bn_role = JStr rl, bn_members = {JStr member}, bn_condition = None\<rparr>
      | Some b \<Rightarrow> b\<lparr>bn_members := bn_members b \<union> {JStr member}\<rparr>)"

definition add_binding_once :: "iam \<Rightarrow> string \<Rightarrow> string \<Rightarrow> string \<Rightarrow> (world, unit) act" where
  "add_binding_once c account rl member =
     bind (get_service_account_iam_policy c account) (\<lambda>p.
     bind (lift (find_binding_for_role (iam_binding_order c) p rl None)) (\<lambda>found.
       if (case found of None \<Rightarrow> False | Some b \<Rightarrow> JStr member \<in> bn_members b) then return ()
       else bind (set_service_account_iam_policy c account
                   (replace_binding p found (binding_with_member found rl member)))
              (\<lambda>_. return ())))"

definition add_service_account_iam_policy_binding ::
  "iam \<Rightarrow> string \<Rightarrow> string \<Rightarrow> string \<Rightarrow> (world, unit) act" where
  "add_service_account_iam_policy_binding c account rl member =
     handle_etag_conflict (iam_env c) (add_binding_once c account rl member)"

definition remove_binding_once :: "iam \<Rightarrow> string \<Rightarrow> string \<Rightarrow> string \<Rightarrow> (world, unit) act" where
  "remove_binding_once c account rl member =
     bind (get_service_account_iam_policy c account) (\<lambda>p.
     bind (lift (find_binding_for_role (iam_binding_order c) p rl None)) (\<lambda>found.
       case found of
         None \<Rightarrow> return ()
       | Some b \<Rightarrow>
           if JStr member \<notin> bn_members b then return ()
           else bind (set_service_account_iam_policy c account
                       (replace_binding p (Some b) (b\<lparr>bn_members := bn_members b - {JStr member}\<rparr>)))
                  (\<lambda>_. return ())))"

definition remove_service_account_iam_policy_binding ::
  "iam \<Rightarrow> string \<Rightarrow> string \<Rightarrow> string \<Rightarrow> (world, unit) act" where
  "remove_service_account_iam_policy_binding c account rl member =
     handle_etag_conflict (iam_env c) (remove_binding_once c account rl member)"

section \<open>Policies as grants\<close>

text \<open>A policy grants a role to a member under a condition. This is what it means.\<close>

definition grants :: "policy \<Rightarrow> (json \<times> json \<times> expr option) set" where
  "grants p = (\<Union>b \<in> pl_bindings p. (\<lambda>m. (bn_role b, m, bn_condition b)) ` bn_members b)"

definition one_binding_per_role :: "policy \<Rightarrow> bool" where
  "one_binding_per_role p \<longleftrightarrow> (\<forall>b \<in> pl_bindings p. \<forall>b' \<in> pl_bindings p.
     bn_role b = bn_role b' \<and> bn_condition b = bn_condition b' \<longrightarrow> b = b')"

text \<open>Iterating over a set visits its elements.\<close>

definition iam_orders_ok :: "iam \<Rightarrow> bool" where
  "iam_orders_ok c \<longleftrightarrow> (\<forall>S. finite S \<longrightarrow> set (iam_binding_order c S) = S) \<and>
     (\<forall>S. finite S \<longrightarrow> set (iam_member_order c S) = S)"

lemma in_grants_iff:
  "(r, m, k) \<in> grants p \<longleftrightarrow> (\<exists>b \<in> pl_bindings p. bn_role b = r \<and> bn_condition b = k \<and> m \<in> bn_members b)"
  by (auto simp: grants_def)

lemma policy_from_response_finite:
  "policy_from_response response = Inr p \<Longrightarrow> finite (pl_bindings p)"
  by (auto simp: policy_from_response_def ebind_Inr_iff split: if_splits)

lemma find_found:
  assumes "iam_orders_ok c" and "finite (pl_bindings p)"
    and "find_binding_for_role (iam_binding_order c) p rl k = Inr (Some b)"
  shows "b \<in> pl_bindings p" and "bn_role b = JStr rl" and "bn_condition b = k"
  using assms by (auto simp: find_binding_for_role_def iam_orders_ok_def find_Some_iff
      dest!: nth_mem split: if_splits)

lemma find_not_found:
  assumes "iam_orders_ok c" and "finite (pl_bindings p)"
    and "find_binding_for_role (iam_binding_order c) p rl k = Inr None"
  shows "\<forall>b \<in> pl_bindings p. \<not> (bn_role b = JStr rl \<and> bn_condition b = k)"
  using assms by (auto simp: find_binding_for_role_def iam_orders_ok_def find_None_iff split: if_splits)

lemma replace_binding_simps [simp]:
  "pl_etag (replace_binding p old new) = pl_etag p"
  "pl_version (replace_binding p old new) = pl_version p"
  "pl_bindings (replace_binding p None new) = insert new (pl_bindings p)"
  "pl_bindings (replace_binding p (Some b) new) = insert new (pl_bindings p - {b})"
  by (simp_all add: replace_binding_def)

lemma add_refines_grants:
  assumes "iam_orders_ok c" and "finite (pl_bindings p)"
    and "find_binding_for_role (iam_binding_order c) p rl None = Inr found"
  shows "grants (replace_binding p found (binding_with_member found rl m))
    = insert (JStr rl, JStr m, None) (grants p)"
proof (cases found)
  case None
  then show ?thesis by (auto simp: grants_def binding_with_member_def)
next
  case (Some b)
  note b = find_found [OF assms(1,2) assms(3) [unfolded Some]]
  then have "grants p = grants (p\<lparr>pl_bindings := insert b (pl_bindings p - {b})\<rparr>)"
    by (simp add: insert_absorb)
  with b Some show ?thesis by (auto simp: grants_def binding_with_member_def)
qed

lemma remove_refines_grants:
  assumes "iam_orders_ok c" and "finite (pl_bindings p)" and "one_binding_per_role p"
    and "find_binding_for_role (iam_binding_order c) p rl None = Inr (Some b)"
  shows "grants (replace_binding p (Some b) (b\<lparr>bn_members := bn_members b - {JStr m}\<rparr>))
    = grants p - {(JStr rl, JStr m, None)}"
proof -
  note b = find_found [OF assms(1,2,4)]
  have other: "\<not> (bn_role b' = JStr rl \<and> bn_condition b' = None)" if "b' \<in> pl_bindings p - {b}" for b'
    using assms(3) b that unfolding one_binding_per_role_def by (metis DiffE insertI1)
  show ?thesis
    using b other by (fastforce simp: set_eq_iff in_grants_iff)
qed

lemma one_binding_insert:
  assumes "\<forall>b \<in> B. \<forall>b' \<in> B. bn_role b = bn_role b' \<and> bn_condition b = bn_condition b' \<longrightarrow> b = b'"
    and "\<forall>b \<in> B. \<not> (bn_role b = bn_role new \<and> bn_condition b = bn_condition new)"
  shows "\<forall>b \<in> insert new B. \<forall>b' \<in> insert new B.
    bn_role b = bn_role b' \<and> bn_condition b = bn_condition b' \<longrightarrow> b = b'"
  using assms by (metis insert_iff)

lemma one_binding_replace:
  assumes "one_binding_per_role p" and "iam_orders_ok c" and "finite (pl_bindings p)"
    and "find_binding_for_role (iam_binding_order c) p rl None = Inr found"
    and "bn_role new = JStr rl" and "bn_condition new = None"
  shows "one_binding_per_role (replace_binding p found new)"
proof (cases found)
  case None
  with find_not_found [OF assms(2,3) assms(4) [unfolded None]]
  have "\<forall>b \<in> pl_bindings p. \<not> (bn_role b = bn_role new \<and> bn_condition b = bn_condition new)"
    using assms(5,6) by simp
  with assms(1) None show ?thesis
    unfolding one_binding_per_role_def replace_binding_simps None by (intro one_binding_insert)
next
  case (Some b)
  note b = find_found [OF assms(2,3) assms(4) [unfolded Some]]
  have "\<forall>b' \<in> pl_bindings p - {b}. \<not> (bn_role b' = bn_role new \<and> bn_condition b' = bn_condition new)"
    using assms(1,5,6) b unfolding one_binding_per_role_def by (metis DiffE insertI1)
  then show ?thesis
    using assms(1) unfolding one_binding_per_role_def replace_binding_simps Some
    by (intro one_binding_insert) auto
qed

section \<open>The client\<close>

lemma iam_request_simps [simp]:
  "rq_method (get_policy_request c account) = ''getIamPolicy''"
  "rq_method (set_policy_request c account p) = ''setIamPolicy''"
  by (simp_all add: get_policy_request_def set_policy_request_def iam_accounts_request_def)

lemma get_policy_first:
  assumes "env_ok (iam_env c)" and "http (iam_env c) w (get_policy_request c account) = Inr resp"
    and "policy_from_response resp = Inr p"
  shows "get_service_account_iam_policy c account w = (Inr p, w @ [get_policy_request c account])"
  using project_execute_first [OF assms(1,2)] assms(3)
  by (simp add: get_service_account_iam_policy_def bind_apply lift_def)

lemma get_policy_value:
  assumes "env_ok (iam_env c)" and "get_service_account_iam_policy c account w = (Inr p, w')"
  obtains h resp where "http (iam_env c) h (get_policy_request c account) = Inr resp"
    and "policy_from_response resp = Inr p"
proof -
  obtain resp where run: "project_execute (iam_env c) None (get_policy_request c account) w = (Inr resp, w')"
    and p: "policy_from_response resp = Inr p"
    using assms(2) by (auto simp: get_service_account_iam_policy_def bind_eq_Inr lift_def)
  show thesis
    by (rule project_execute_answer [OF assms(1) run]) (rule that [OF _ p])
qed

lemma set_policy_value:
  assumes "env_ok (iam_env c)" and "set_service_account_iam_policy c account p w = (Inr p', w')"
  obtains h resp where "http (iam_env c) h (set_policy_request c account p) = Inr resp"
    and "policy_from_response resp = Inr p'"
proof -
  obtain resp where run: "project_execute (iam_env c) None (set_policy_request c account p) w = (Inr resp, w')"
    and p: "policy_from_response resp = Inr p'"
    using assms(2)
    by (auto simp: set_service_account_iam_policy_def try_except_def bind_apply lift_def raise_def
        split: prod.splits sum.splits if_splits exn.splits)
  show thesis
    by (rule project_execute_answer [OF assms(1) run]) (rule that [OF _ p])
qed

text \<open>A conflict (409) becomes \<open>EtagConflict\<close>; no other status does.\<close>

lemma set_policy_conflict:
  assumes "env_ok (iam_env c)"
    and "http (iam_env c) w (set_policy_request c account p) = Inl (HttpError 409 reason)"
  shows "set_service_account_iam_policy c account p w = (Inl EtagConflict, w @ [set_policy_request c account p])"
  using project_execute_http_error [OF assms]
  by (simp add: set_service_account_iam_policy_def try_except_def bind_apply raise_def
      response_error_status_def is_retryable_api_error_def transport_errors_def)

lemma handle_etag_value:
  assumes "env_ok E" and "handle_etag_conflict E func w = (Inr (), w')"
  obtains h where "func h = (Inr (), w')"
proof -
  have ok: "tenacity_ok (tenacity E)" using assms(1) by (simp add: env_ok_def)
  obtain x where "tenacity E (exponential_retryer_with_timeout 1 10 120 (Some [CEtagConflict, CTransportError]) None [])
      (bind func (\<lambda>_. return JNull)) w = (Inr x, w')"
    using assms(2) by (auto simp: handle_etag_conflict_def bind_eq_Inr return_def)
  from tenacity_value [OF ok _ this]
  obtain h where "bind func (\<lambda>_. return JNull) h = (Inr x, w')"
    by (auto simp: exponential_retryer_with_timeout_def)
  with that show thesis by (auto simp: bind_eq_Inr return_def)
qed

lemma handle_etag_first:
  assumes "env_ok E" and "func w = (Inr (), w')"
  shows "handle_etag_conflict E func w = (Inr (), w')"
proof -
  have "tenacity E (exponential_retryer_with_timeout 1 10 120 (Some [CEtagConflict, CTransportError]) None [])
      (bind func (\<lambda>_. return JNull)) w = (Inr JNull, w')"
    by (rule env_first [OF assms(1)])
      (simp_all add: assms(2) bind_apply return_def exponential_retryer_with_timeout_def build_retry_conditions_def)
  then show ?thesis by (simp add: handle_etag_conflict_def bind_apply return_def)
qed

lemma handle_etag_no_conflict:
  assumes "env_ok E" and "handle_etag_conflict E func w = (Inl e, w')"
  shows "e \<noteq> EtagConflict \<and> \<not> isinstance e [CTransportError]"
proof -
  let ?cfg = "exponential_retryer_with_timeout 1 10 120 (Some [CEtagConflict, CTransportError]) None []"
  have ok: "tenacity_ok (tenacity E)" using assms(1) by (simp add: env_ok_def)
  have stop: "rt_stop ?cfg \<noteq> []" by (simp add: exponential_retryer_with_timeout_def)
  have want: "any_wanted (rt_retry ?cfg) (Inl x) = Inr (isinstance x [CEtagConflict, CTransportError])" for x
    by (simp add: exponential_retryer_with_timeout_def build_retry_conditions_def)
  have result: "any_wanted (rt_retry ?cfg) (Inr v) = Inr False" for v
    by (simp add: exponential_retryer_with_timeout_def build_retry_conditions_def)
  have run: "tenacity E ?cfg (bind func (\<lambda>_. return JNull)) w = (Inl e, w')"
    using assms(2) by (auto simp: handle_etag_conflict_def bind_apply return_def split: prod.splits sum.splits)
  show ?thesis
  proof (rule tenacity_error [OF ok stop run], goal_cases)
    case (1 s0)
    then have "\<not> isinstance e [CEtagConflict, CTransportError]" by (simp add: want)
    then show ?thesis by (cases e) (simp_all)
  next
    case (2 s0 out)
    then show ?thesis by (cases out) (simp_all add: want result)
  next
    case (3 s0 out nm)
    then show ?thesis
      by (simp add: give_up_def exponential_retryer_with_timeout_def on_error_callback_def)
  qed
qed

text \<open>One attempt that returns: the member had the role, or the service took a policy that grants it.\<close>

lemma add_binding_once_returns:
  assumes "env_ok (iam_env c)" and "iam_orders_ok c"
    and "add_binding_once c account rl m w = (Inr (), w')"
  obtains h resp p where "http (iam_env c) h (get_policy_request c account) = Inr resp"
    and "policy_from_response resp = Inr p"
    and "(JStr rl, JStr m, None) \<in> grants p \<or>
      (\<exists>h' resp' p'. http (iam_env c) h' (set_policy_request c account p') = Inr resp' \<and>
         pl_etag p' = pl_etag p \<and> grants p' = insert (JStr rl, JStr m, None) (grants p))"
proof -
  obtain p w1 found where get: "get_service_account_iam_policy c account w = (Inr p, w1)"
    and found: "find_binding_for_role (iam_binding_order c) p rl None = Inr found"
    and rest: "(if (case found of None \<Rightarrow> False | Some b \<Rightarrow> JStr m \<in> bn_members b) then return ()
       else bind (set_service_account_iam_policy c account
                   (replace_binding p found (binding_with_member found rl m)))
              (\<lambda>_. return ())) w1 = (Inr (), w')"
    using assms(3) by (auto simp: add_binding_once_def bind_eq_Inr lift_def)
  from assms(1) get obtain h resp where resp: "http (iam_env c) h (get_policy_request c account) = Inr resp"
    "policy_from_response resp = Inr p" by (rule get_policy_value)
  note fin = policy_from_response_finite [OF resp(2)]
  show thesis
  proof (cases "case found of None \<Rightarrow> False | Some b \<Rightarrow> JStr m \<in> bn_members b")
    case True
    then obtain b where "found = Some b" "JStr m \<in> bn_members b" by (auto split: option.splits)
    with find_found [OF assms(2) fin found [unfolded \<open>found = Some b\<close>]]
    have "(JStr rl, JStr m, None) \<in> grants p"
      by (auto simp: in_grants_iff)
    with that resp show thesis by blast
  next
    case False
    let ?p = "replace_binding p found (binding_with_member found rl m)"
    from False rest obtain p2 where "set_service_account_iam_policy c account ?p w1 = (Inr p2, w')"
      by (auto simp: bind_eq_Inr return_def)
    with assms(1) obtain h2 resp2 where "http (iam_env c) h2 (set_policy_request c account ?p) = Inr resp2"
      by (rule set_policy_value)
    moreover have "grants ?p = insert (JStr rl, JStr m, None) (grants p)"
      using assms(2) fin found by (rule add_refines_grants)
    ultimately show thesis using that [OF resp] by (metis replace_binding_simps(1))
  qed
qed

lemma remove_binding_once_returns:
  assumes "env_ok (iam_env c)" and "iam_orders_ok c"
    and "remove_binding_once c account rl m w = (Inr (), w')"
  obtains h resp p where "http (iam_env c) h (get_policy_request c account) = Inr resp"
    and "policy_from_response resp = Inr p"
    and "one_binding_per_role p \<Longrightarrow> (JStr rl, JStr m, None) \<notin> grants p \<or>
      (\<exists>h' resp' p'. http (iam_env c) h' (set_policy_request c account p') = Inr resp' \<and>
         pl_etag p' = pl_etag p \<and> grants p' = grants p - {(JStr rl, JStr m, None)})"
proof -
  obtain p w1 found where get: "get_service_account_iam_policy c account w = (Inr p, w1)"
    and found: "find_binding_for_role (iam_binding_order c) p rl None = Inr found"
    and rest: "(case found of None \<Rightarrow> return ()
       | Some b \<Rightarrow> if JStr m \<notin> bn_members b then return ()
           else bind (set_service_account_iam_policy c account
                       (replace_binding p (Some b) (b\<lparr>bn_members := bn_members b - {JStr m}\<rparr>)))
                  (\<lambda>_. return ())) w1 = (Inr (), w')"
    using assms(3) by (auto simp: remove_binding_once_def bind_eq_Inr lift_def)
  from assms(1) get obtain h resp where resp: "http (iam_env c) h (get_policy_request c account) = Inr resp"
    "policy_from_response resp = Inr p" by (rule get_policy_value)
  note fin = policy_from_response_finite [OF resp(2)]
  show thesis
  proof (cases found)
    case None
    with find_not_found [OF assms(2) fin found [unfolded None]] have "(JStr rl, JStr m, None) \<notin> grants p"
      by (auto simp: in_grants_iff)
    with that resp show thesis by blast
  next
    case (Some b)
    note b = find_found [OF assms(2) fin found [unfolded Some]]
    show thesis
    proof (cases "JStr m \<in> bn_members b")
      case False
      with b have "(JStr rl, JStr m, None) \<notin> grants p" if "one_binding_per_role p"
        using that by (auto simp: in_grants_iff one_binding_per_role_def)
      with that resp show thesis by blast
    next
      case True
      let ?p = "replace_binding p (Some b) (b\<lparr>bn_members := bn_members b - {JStr m}\<rparr>)"
      from True rest Some obtain p2 where "set_service_account_iam_policy c account ?p w1 = (Inr p2, w')"
        by (auto simp: bind_eq_Inr return_def)
      with assms(1) obtain h2 resp2 where "http (iam_env c) h2 (set_policy_request c account ?p) = Inr resp2"
        by (rule set_policy_value)
      moreover have "grants ?p = grants p - {(JStr rl, JStr m, None)}" if "one_binding_per_role p"
        using assms(2) fin that found [unfolded Some] by (rule remove_refines_grants)
      ultimately show thesis using that [OF resp] by (metis replace_binding_simps(1))
    qed
  qed
qed

section \<open>Writing and reading a policy\<close>

text \<open>The values of a policy are those of a JSON policy: texts, so that they can be hashed.\<close>

definition policy_ok :: "policy \<Rightarrow> bool" where
  "policy_ok p \<longleftrightarrow> finite (pl_bindings p) \<and>
     (\<forall>b \<in> pl_bindings p. binding_hashable b \<and> finite (bn_members b) \<and> (\<forall>m \<in> bn_members b. hashable m))"

lemma expr_roundtrip: "expr_from_response (expr_as_dict e) = Inr e"
  by (simp add: expr_as_dict_def)

lemma binding_roundtrip:
  assumes "set (order (bn_members b)) = bn_members b" and "\<forall>m \<in> bn_members b. hashable m"
  shows "binding_from_response (binding_as_dict order b) = Inr b"
  using assms
  by (cases "bn_condition b")
    (simp_all add: binding_from_response_def binding_as_dict_def frozenset_def list_all_iff expr_roundtrip)

lemma policy_roundtrip_lemma:
  assumes "policy_ok p" and "iam_orders_ok c"
  shows "policy_from_response (policy_as_dict (iam_member_order c) (iam_binding_order c) p) = Inr p"
proof -
  let ?bs = "iam_binding_order c (pl_bindings p)"
  have set: "set ?bs = pl_bindings p" using assms by (simp add: policy_ok_def iam_orders_ok_def)
  have "binding_from_response (binding_as_dict (iam_member_order c) b) = Inr b" if "b \<in> set ?bs" for b
    using assms set that by (intro binding_roundtrip) (auto simp: policy_ok_def iam_orders_ok_def)
  then have "emap binding_from_response (map (binding_as_dict (iam_member_order c)) ?bs) = Inr ?bs"
    by (auto simp: emap_Inr_iff list_all2_conv_all_nth)
  moreover have "list_all binding_hashable ?bs"
    using assms(1) set by (simp add: list_all_iff policy_ok_def)
  ultimately show ?thesis
    using set by (simp add: policy_from_response_def policy_as_dict_def)
qed

section \<open>Properties\<close>

text \<open>A client whose service knows one policy, with one binding.\<close>

definition demo_policy :: json where
  "demo_policy = JObj [(''bindings'', JList [JObj [(''role'', JStr ''viewer''), (''members'', JList [JStr ''amy''])]]),
     (''etag'', JStr ''e1'')]"

definition demo_iam_http :: "world \<Rightarrow> request \<Rightarrow> exn + json" where
  "demo_iam_http w r = (if rq_method r = ''removeAttestationRule'' then Inl (HttpError 404 ''gone'')
     else if rq_method r = ''getIamPolicy'' then Inr demo_policy else Inr (JObj [(''etag'', JStr ''e2'')]))"

definition demo_iam :: iam where
  "demo_iam = \<lparr>iam_env = with_answers demo_iam_http, iam_project = ''p'',
     iam_member_order = (\<lambda>S. SOME xs. set xs = S), iam_binding_order = (\<lambda>S. SOME xs. set xs = S)\<rparr>"

definition demo_parsed :: policy where
  "demo_parsed = \<lparr>pl_bindings = {\<lparr>bn_role = JStr ''viewer'', bn_members = {JStr ''amy''}, bn_condition = None\<rparr>},
     pl_etag = JStr ''e1'', pl_version = JNull\<rparr>"

lemma some_listing: "finite S \<Longrightarrow> set (SOME xs. set xs = S) = S"
  by (rule someI_ex [OF finite_list])

lemma demo_iam_simps [simp]:
  "env_ok (iam_env demo_iam)" "iam_orders_ok demo_iam"
  "http (iam_env demo_iam) = demo_iam_http"
  "policy_from_response demo_policy = Inr demo_parsed"
  by (simp_all add: demo_iam_def iam_orders_ok_def some_listing demo_policy_def demo_parsed_def
      policy_from_response_def binding_from_response_def frozenset_def binding_hashable_def)

text \<open>
  Writing a policy as a request body and reading it back gives the same policy, for finite
  policies of hashable values, in whatever order the sets are listed.
\<close>

theorem policy_roundtrip:
  assumes "policy_ok p" and "iam_orders_ok c"
  shows "policy_from_response (policy_as_dict (iam_member_order c) (iam_binding_order c) p) = Inr p"
  using assms by (rule policy_roundtrip_lemma)

theorem policy_roundtrip_witness:
  "policy_from_response (policy_as_dict (iam_member_order demo_iam) (iam_binding_order demo_iam) demo_parsed)
     = Inr demo_parsed"
  by (rule policy_roundtrip) (simp_all add: policy_ok_def demo_parsed_def binding_hashable_def)

text \<open>
  Granting a role that the policy grants already reads the policy and writes nothing.
\<close>

theorem grant_is_idempotent:
  assumes "env_ok (iam_env c)" and "iam_orders_ok c"
    and "http (iam_env c) w (get_policy_request c account) = Inr resp"
    and "policy_from_response resp = Inr p" and "hashable (pl_etag p)" and "hashable (pl_version p)"
    and "one_binding_per_role p" and "(JStr rl, JStr m, None) \<in> grants p"
  shows "add_service_account_iam_policy_binding c account rl m w = (Inr (), w @ [get_policy_request c account])"
proof -
  note fin = policy_from_response_finite [OF assms(4)]
  from assms(8) obtain b where b: "b \<in> pl_bindings p" "bn_role b = JStr rl" "bn_condition b = None"
    "JStr m \<in> bn_members b" by (auto simp: in_grants_iff)
  obtain found where found: "find_binding_for_role (iam_binding_order c) p rl None = Inr found"
    using assms(5,6) by (simp add: find_binding_for_role_def)
  have "found \<noteq> None"
    using find_not_found [OF assms(2) fin, of rl None] found b by (cases found) auto
  then obtain b' where b': "found = Some b'" by auto
  note at = find_found [OF assms(2) fin found [unfolded b']]
  have "b' = b"
    using assms(7) at b(1-3) unfolding one_binding_per_role_def by metis
  with found b' b have "add_binding_once c account rl m w = (Inr (), w @ [get_policy_request c account])"
    using get_policy_first [OF assms(1,3,4)]
    by (simp add: add_binding_once_def bind_apply lift_def return_def)
  then show ?thesis
    unfolding add_service_account_iam_policy_binding_def by (rule handle_etag_first [OF assms(1)])
qed

theorem grant_is_idempotent_witness:
  "add_service_account_iam_policy_binding demo_iam ''sa'' ''viewer'' ''amy'' []
     = (Inr (), [] @ [get_policy_request demo_iam ''sa''])"
  by (rule grant_is_idempotent [where p = demo_parsed and resp = demo_policy])
    (simp_all add: demo_iam_http_def demo_parsed_def one_binding_per_role_def grants_def)

text \<open>
  C31: when granting a role returns, a policy was read from the service that grants the role to the
  member already, or the service accepted a policy with the same etag whose grants are those of the
  policy that was read and the new one, and no others.
\<close>

theorem grant_returns:
  assumes "env_ok (iam_env c)" and "iam_orders_ok c"
    and "add_service_account_iam_policy_binding c account rl m w = (Inr (), w')"
  shows "\<exists>h resp p. http (iam_env c) h (get_policy_request c account) = Inr resp \<and> policy_from_response resp = Inr p
    \<and> ((JStr rl, JStr m, None) \<in> grants p \<or>
      (\<exists>h' resp' p'. http (iam_env c) h' (set_policy_request c account p') = Inr resp' \<and>
         pl_etag p' = pl_etag p \<and> grants p' = insert (JStr rl, JStr m, None) (grants p)))"
proof -
  obtain h where "add_binding_once c account rl m h = (Inr (), w')"
    using assms(1) assms(3) [unfolded add_service_account_iam_policy_binding_def] by (rule handle_etag_value)
  from add_binding_once_returns [OF assms(1,2) this] show ?thesis by metis
qed

theorem grant_returns_witness:
  "\<exists>h resp p. http (iam_env demo_iam) h (get_policy_request demo_iam ''sa'') = Inr resp
    \<and> policy_from_response resp = Inr p
    \<and> ((JStr ''viewer'', JStr ''amy'', None) \<in> grants p \<or>
      (\<exists>h' resp' p'. http (iam_env demo_iam) h' (set_policy_request demo_iam ''sa'' p') = Inr resp' \<and>
         pl_etag p' = pl_etag p \<and> grants p' = insert (JStr ''viewer'', JStr ''amy'', None) (grants p)))"
proof (rule grant_returns)
  have "add_binding_once demo_iam ''sa'' ''viewer'' ''amy'' [] = (Inr (), [get_policy_request demo_iam ''sa''])"
  proof -
    obtain found where found: "find_binding_for_role (iam_binding_order demo_iam) demo_parsed ''viewer'' None = Inr found"
      by (simp add: find_binding_for_role_def demo_parsed_def)
    have fin: "finite (pl_bindings demo_parsed)" by (simp add: demo_parsed_def)
    have "found \<noteq> None"
      using find_not_found [OF demo_iam_simps(2) fin, of "''viewer''" None] found
      by (cases found) (auto simp: demo_parsed_def)
    then obtain b where b: "found = Some b" by auto
    with find_found(1) [OF demo_iam_simps(2) fin] found have "b \<in> pl_bindings demo_parsed" by blast
    then have "JStr ''amy'' \<in> bn_members b" by (simp add: demo_parsed_def)
    moreover have "get_service_account_iam_policy demo_iam ''sa'' [] = (Inr demo_parsed, [] @ [get_policy_request demo_iam ''sa''])"
      by (rule get_policy_first [where resp = demo_policy]) (simp_all add: demo_iam_http_def)
    ultimately show ?thesis
      using found b by (simp add: add_binding_once_def bind_apply lift_def return_def)
  qed
  then show "add_service_account_iam_policy_binding demo_iam ''sa'' ''viewer'' ''amy'' []
      = (Inr (), [get_policy_request demo_iam ''sa''])"
    unfolding add_service_account_iam_policy_binding_def by (rule handle_etag_first [OF demo_iam_simps(1)])
qed simp_all

text \<open>
  C32: when revoking a role returns, a policy was read from the service that, with one binding per
  role, does not grant the role to the member, or the service accepted a policy with the same etag
  whose grants are those of the policy that was read without the revoked one.
\<close>

theorem revoke_returns:
  assumes "env_ok (iam_env c)" and "iam_orders_ok c"
    and "remove_service_account_iam_policy_binding c account rl m w = (Inr (), w')"
  shows "\<exists>h resp p. http (iam_env c) h (get_policy_request c account) = Inr resp \<and> policy_from_response resp = Inr p
    \<and> (one_binding_per_role p \<longrightarrow> (JStr rl, JStr m, None) \<notin> grants p \<or>
      (\<exists>h' resp' p'. http (iam_env c) h' (set_policy_request c account p') = Inr resp' \<and>
         pl_etag p' = pl_etag p \<and> grants p' = grants p - {(JStr rl, JStr m, None)}))"
proof -
  obtain h where "remove_binding_once c account rl m h = (Inr (), w')"
    using assms(1) assms(3) [unfolded remove_service_account_iam_policy_binding_def] by (rule handle_etag_value)
  from remove_binding_once_returns [OF assms(1,2) this] show ?thesis by metis
qed

lemma demo_revoke:
  "remove_service_account_iam_policy_binding demo_iam ''sa'' ''owner'' ''bob'' []
     = (Inr (), [get_policy_request demo_iam ''sa''])"
proof -
  have fin: "finite (pl_bindings demo_parsed)" by (simp add: demo_parsed_def)
  have "find_binding_for_role (iam_binding_order demo_iam) demo_parsed ''owner'' None \<noteq> Inr (Some b)" for b
    using find_found(1,2) [OF demo_iam_simps(2) fin, of "''owner''" None b] by (auto simp: demo_parsed_def)
  then have "find_binding_for_role (iam_binding_order demo_iam) demo_parsed ''owner'' None = Inr None"
    by (auto simp: find_binding_for_role_def demo_parsed_def)
  moreover have "get_service_account_iam_policy demo_iam ''sa'' [] = (Inr demo_parsed, [] @ [get_policy_request demo_iam ''sa''])"
    by (rule get_policy_first [where resp = demo_policy]) (simp_all add: demo_iam_http_def)
  ultimately have "remove_binding_once demo_iam ''sa'' ''owner'' ''bob'' [] = (Inr (), [get_policy_request demo_iam ''sa''])"
    by (simp add: remove_binding_once_def bind_apply lift_def return_def)
  then show ?thesis
    unfolding remove_service_account_iam_policy_binding_def by (rule handle_etag_first [OF demo_iam_simps(1)])
qed

theorem revoke_returns_witness:
  "\<exists>h resp p. http (iam_env demo_iam) h (get_policy_request demo_iam ''sa'') = Inr resp \<and> policy_from_response resp = Inr p
    \<and> (one_binding_per_role p \<longrightarrow> (JStr ''owner'', JStr ''bob'', None) \<notin> grants p \<or>
      (\<exists>h' resp' p'. http (iam_env demo_iam) h' (set_policy_request demo_iam ''sa'' p') = Inr resp' \<and>
         pl_etag p' = pl_etag p \<and> grants p' = grants p - {(JStr ''owner'', JStr ''bob'', None)}))"
  by (rule revoke_returns [OF demo_iam_simps(1,2) demo_revoke])

text \<open>
  A concurrent change of the policy never surfaces as such: whatever the service answers,
  granting a role raises neither \<open>EtagConflict\<close> nor a transport error, only the retry error around
  it once the retries are used up.
\<close>

theorem conflicts_are_retried:
  assumes "env_ok (iam_env c)"
    and "add_service_account_iam_policy_binding c account rl m w = (Inl e, w')"
  shows "e \<noteq> EtagConflict \<and> \<not> isinstance e [CTransportError]"
  using assms(1) assms(2) [unfolded add_service_account_iam_policy_binding_def]
  by (rule handle_etag_no_conflict)

theorem conflicts_are_retried_witness:
  "KeyError ''etag'' \<noteq> EtagConflict \<and> \<not> isinstance (KeyError ''etag'') [CTransportError]"
proof -
  let ?c = "demo_iam\<lparr>iam_env := with_answers (\<lambda>w r. Inr (JObj []))\<rparr>"
  let ?r = "get_policy_request ?c ''sa''"
  have "project_execute (iam_env ?c) None ?r [] = (Inr (JObj []), [] @ [?r])"
    by (rule project_execute_first) simp_all
  then have once: "add_binding_once ?c ''sa'' ''viewer'' ''amy'' [] = (Inl (KeyError ''etag''), [?r])"
    by (simp add: add_binding_once_def get_service_account_iam_policy_def bind_apply lift_def
        policy_from_response_def raise_def)
  have "tenacity (iam_env ?c) (exponential_retryer_with_timeout 1 10 120 (Some [CEtagConflict, CTransportError]) None [])
      (bind (add_binding_once ?c ''sa'' ''viewer'' ''amy'') (\<lambda>_. return JNull)) [] = (Inl (KeyError ''etag''), [?r])"
    by (rule env_first) (simp_all add: exponential_retryer_with_timeout_def build_retry_conditions_def bind_apply once)
  then have "add_service_account_iam_policy_binding ?c ''sa'' ''viewer'' ''amy'' [] = (Inl (KeyError ''etag''), [?r])"
    by (simp add: add_service_account_iam_policy_binding_def handle_etag_conflict_def bind_apply)
  then show ?thesis by (rule conflicts_are_retried [rotated]) simp
qed

text \<open>
  Removing an attestation rule that does not exist (404) raises \<open>ResponseError\<close>, although the
  method has a handler that would return \<open>False\<close>.
\<close>

theorem missing_attestation_rule_raises:
  assumes "env_ok (iam_env c)"
    and "\<And>r. rq_method r = ''removeAttestationRule'' \<Longrightarrow> http (iam_env c) w r = Inl (HttpError 404 reason)"
  shows "fst (remove_attestation_rule c pool ns identity body w) = Inl (ResponseError (HttpError 404 reason))"
proof -
  let ?r = "iam_identities_request ''removeAttestationRule''
    [(''resource'', JStr (managed_identity_resource_name c pool ns identity)), (''body'', body)]"
  have "project_execute (iam_env c) None ?r w = (Inl (ResponseError (HttpError 404 reason)), w @ [?r])"
    by (rule project_execute_http_error [OF assms(1) assms(2)])
      (simp_all add: is_retryable_api_error_def transport_errors_def iam_identities_request_def)
  then show ?thesis
    by (simp add: remove_attestation_rule_def bind_apply try_except_def)
qed

theorem missing_attestation_rule_raises_witness:
  "fst (remove_attestation_rule demo_iam ''pool'' ''ns'' ''id'' (JObj []) []) = Inl (ResponseError (HttpError 404 ''gone''))"
  by (rule missing_attestation_rule_raises) (simp_all add: demo_iam_http_def)

end
