(* ===== verification/LangSpec.thy ===== *)
theory LangSpec
  imports PyBase "HOL-Library.List_Lexorder"
begin

text \<open>
  framework/helpers/skips.py: the language of a test application and the comparison of the
  version under test with a required one. The version class of the \<open>packaging\<close> library is a
  parameter: the function \<open>ver\<close> parses a text or raises, and its values are linearly ordered.
  Texts are ASCII.
\<close>

section \<open>Languages\<close>

datatype lang = UNKNOWN | CPP | GO | JAVA | PYTHON | NODE

fun lang_name :: "lang \<Rightarrow> string" where
  "lang_name UNKNOWN = ''UNKNOWN''"
| "lang_name CPP = ''CPP''"
| "lang_name GO = ''GO''"
| "lang_name JAVA = ''JAVA''"
| "lang_name PYTHON = ''PYTHON''"
| "lang_name NODE = ''NODE''"

definition langs :: "lang list" where
  "langs = [UNKNOWN, CPP, GO, JAVA, PYTHON, NODE]"

definition lang_str :: "lang \<Rightarrow> string" where
  "lang_str l = lower (lang_name l)"

definition lang_from_string :: "string \<Rightarrow> lang" where
  "lang_from_string s =
     (case map_of (map (\<lambda>l. (lang_name l, l)) langs) (upper s) of
        Some l \<Rightarrow> l
      | None \<Rightarrow> UNKNOWN)"

text \<open>
  \<open>re.search(r"/(\w+)-(client|server):", image).group(1)\<close>. A dash is no word character, so the
  group is the whole run of word characters after the slash; the leftmost match counts.
\<close>

definition word_char :: "char \<Rightarrow> bool" where
  "word_char c = (let n = (of_char c :: nat) in
     (48 \<le> n \<and> n \<le> 57) \<or> (65 \<le> n \<and> n \<le> 90) \<or> (97 \<le> n \<and> n \<le> 122) \<or> n = 95)"

definition starts_with :: "string \<Rightarrow> string \<Rightarrow> bool" where
  "starts_with s p = (take (length p) s = p)"

fun image_match :: "string \<Rightarrow> string option" where
  "image_match [] = None"
| "image_match (c # s) =
     (let w = takeWhile word_char s; rest = dropWhile word_char s in
      if c = CHR ''/'' \<and> w \<noteq> [] \<and> (starts_with rest ''-client:'' \<or> starts_with rest ''-server:'')
      then Some w else image_match s)"

definition get_lang :: "string \<Rightarrow> exn + lang" where
  "get_lang image_name =
     (case image_match image_name of
        None \<Rightarrow> Inl (AttributeError ''group'')
      | Some w \<Rightarrow> Inr (lang_from_string w))"

section \<open>Versions\<close>

record test_config =
  client_lang :: lang
  server_lang :: lang
  version :: "string option"

definition ends_with :: "string \<Rightarrow> string \<Rightarrow> bool" where
  "ends_with s p = (length p \<le> length s \<and> drop (length s - length p) s = p)"

definition parse_version :: "(string \<Rightarrow> exn + 'v) \<Rightarrow> string \<Rightarrow> exn + 'v" where
  "parse_version ver v =
     ver (if ends_with v ''.x'' then take (length v - 2) v else v)"

definition version_gte :: "(string \<Rightarrow> exn + 'v::linorder) \<Rightarrow> test_config \<Rightarrow> string \<Rightarrow> exn + bool" where
  "version_gte ver cfg another =
     (case version cfg of
        None \<Rightarrow> Inr True
      | Some v \<Rightarrow>
          if v \<in> {''master'', ''dev'', ''dev-master''} then Inr True
          else if another = ''master'' then Inr False
          else let v' = (if starts_with v ''dev-'' then drop 4 v else v)
               in ebind (parse_version ver v') (\<lambda>a. ebind (parse_version ver another) (\<lambda>b. Inr (b \<le> a))))"

section \<open>Lemmas\<close>

definition unreleased :: "test_config \<Rightarrow> bool" where
  "unreleased cfg \<longleftrightarrow> version cfg \<in> {None, Some ''master'', Some ''dev'', Some ''dev-master''}"

lemma version_gte_unreleased: "unreleased cfg \<Longrightarrow> version_gte ver cfg another = Inr True"
  by (auto simp: unreleased_def version_gte_def)

lemma version_gte_released:
  assumes "\<not> unreleased cfg" and "version cfg = Some v" and "another \<noteq> ''master''"
    and "parse_version ver (if starts_with v ''dev-'' then drop 4 v else v) = Inr a"
    and "parse_version ver another = Inr b"
  shows "version_gte ver cfg another = Inr (b \<le> a)"
  using assms by (auto simp: version_gte_def unreleased_def Let_def)

lemma starts_with_append [simp]: "starts_with (p @ s) p"
  by (simp add: starts_with_def)

lemma upper_lower_names: "upper (lang_str l) = lang_name l"
  by (cases l; hypsubst; code_simp)

lemma lang_roundtrip_lemma: "lang_from_string (lang_str l) = l"
  unfolding lang_from_string_def upper_lower_names by (cases l) (simp_all add: langs_def)

lemma upper_idem: "upper (upper s) = upper s"
  by (auto simp: upper_def upper_char_def)

lemma upper_char_lower: "upper_char (lower_char c) = upper_char c"
  by (auto simp: upper_char_def lower_char_def)

lemma lang_from_string_cases: "upper s = upper t \<Longrightarrow> lang_from_string s = lang_from_string t"
  by (simp add: lang_from_string_def)

lemma image_match_prefix:
  assumes "\<not> (\<exists>c \<in> set pre. c = CHR ''/'')" and "w \<noteq> []" and "list_all word_char w"
    and "role = ''client'' \<or> role = ''server''"
  shows "image_match (pre @ ''/'' @ w @ ''-'' @ role @ '':'' @ tag) = Some w"
  using assms
proof (induction pre)
  case Nil
  have "\<not> word_char (CHR ''-'')" by code_simp
  with Nil show ?case
    by (auto simp: takeWhile_append2 dropWhile_append2 list_all_iff starts_with_def)
next
  case (Cons c pre)
  then show ?case by auto
qed

section \<open>Properties\<close>

text \<open>
  The text of a language reads back as that language, in upper or lower case.
\<close>

theorem lang_roundtrip:
  "lang_from_string (lang_str l) = l \<and> lang_from_string (lang_name l) = l
    \<and> lang_from_string (upper s) = lang_from_string s"
  using lang_roundtrip_lemma [of l] lang_from_string_cases [of "lang_name l" "lang_str l"]
    lang_from_string_cases [of "upper s" s] upper_lower_names [of l]
  by (cases l) (simp_all add: upper_idem upper_lower_names, simp_all add: upper_def upper_char_def)

text \<open>
  The language of an image is the word between a slash and \<open>-client:\<close> or \<open>-server:\<close>, read in
  any case, when the path before it has no slash of its own.
\<close>

theorem image_language:
  assumes "\<not> (\<exists>c \<in> set pre. c = CHR ''/'')" and "w \<noteq> []" and "list_all word_char w"
    and "role = ''client'' \<or> role = ''server''" and "upper w = lang_name l"
  shows "get_lang (pre @ ''/'' @ w @ ''-'' @ role @ '':'' @ tag) = Inr l"
proof -
  have "lang_from_string w = lang_from_string (lang_name l)"
    using assms(5) lang_from_string_cases [of w "lang_name l"] upper_idem [of w] by simp
  also have "\<dots> = l"
    using lang_roundtrip_lemma [of l] lang_from_string_cases [of "lang_name l" "lang_str l"]
      upper_lower_names [of l] assms(5) upper_idem [of w] by simp
  finally show ?thesis
    unfolding get_lang_def image_match_prefix [OF assms(1-4)] by simp
qed

theorem image_language_witness:
  "get_lang (''gcr.io'' @ ''/'' @ ''java'' @ ''-'' @ ''client'' @ '':'' @ ''v1.55.x'') = Inr JAVA"
  by (rule image_language) (simp_all, code_simp+)

text \<open>
  A version that is not released (none, \<open>master\<close>, \<open>dev\<close>, \<open>dev-master\<close>) is at least every version,
  and a released one is never at least \<open>master\<close>.
\<close>

theorem unreleased_versions_are_greatest:
  "(if unreleased cfg then version_gte ver cfg another = Inr True
    else version_gte ver cfg ''master'' = Inr False)"
  by (auto simp: unreleased_def version_gte_def split: option.split)

definition released :: "string \<Rightarrow> test_config" where
  "released v = \<lparr>client_lang = UNKNOWN, server_lang = UNKNOWN, version = Some v\<rparr>"

text \<open>
  Between released versions the comparison is that of the version numbers, \<open>dev-V\<close> counts as
  \<open>V\<close>, and so it is total and transitive.
\<close>

theorem released_versions_compare:
  assumes "\<not> unreleased (released v)" and "\<not> unreleased (released u)" and "v \<noteq> ''master''" and "u \<noteq> ''master''"
    and "\<not> starts_with v ''dev-''" and "\<not> starts_with u ''dev-''"
    and "parse_version ver v = Inr a" and "parse_version ver u = Inr b"
  shows "version_gte ver (released v) u = Inr (b \<le> a)
    \<and> (''dev-'' @ v \<noteq> ''dev-master'' \<longrightarrow> version_gte ver (released (''dev-'' @ v)) u = Inr (b \<le> a))
    \<and> (version_gte ver (released v) u = Inr True \<or> version_gte ver (released u) v = Inr True)"
proof -
  have 1: "version_gte ver (released v) u = Inr (b \<le> a)"
    using assms by (intro version_gte_released) (auto simp: released_def)
  have 2: "version_gte ver (released u) v = Inr (a \<le> b)"
    using assms by (intro version_gte_released) (auto simp: released_def)
  have 3: "version_gte ver (released (''dev-'' @ v)) u = Inr (b \<le> a)" if "''dev-'' @ v \<noteq> ''dev-master''"
    using assms that by (intro version_gte_released) (auto simp: released_def unreleased_def starts_with_def)
  from 1 2 3 show ?thesis by (simp add: linear)
qed

text \<open>A version parser for texts \<open>v1.N\<close> with one digit, into lists of numbers.\<close>

definition demo_version :: "string \<Rightarrow> exn + nat list" where
  "demo_version s = (case s of
       [v, m, d, n] \<Rightarrow> if v = CHR ''v'' \<and> d = CHR ''.'' then Inr [of_char m, of_char n] else Inl (ValueError s)
     | _ \<Rightarrow> Inl (ValueError s))"

theorem released_versions_compare_witness:
  "version_gte demo_version (released ''v1.7.x'') ''v1.5'' = Inr True"
proof -
  have "version_gte demo_version (released ''v1.7.x'') ''v1.5'' = Inr ([49, 53] \<le> [49, 55 :: nat])"
    using released_versions_compare [of "''v1.7.x''" "''v1.5''" demo_version "[49, 55]" "[49, 53]"]
    by (simp add: released_def unreleased_def starts_with_def parse_version_def ends_with_def demo_version_def)
  then show ?thesis by simp
qed

end
