(* ===== verification/Channelz.thy ===== *)
theory Channelz
  imports PyBase "HOL-Library.Sublist"
begin

text \<open>
  framework/rpc/grpc.py and framework/rpc/grpc_channelz.py: the gRPC channels an application
  helper opens, and the channelz client that lists what a remote process reports. The messages
  are those of the channelz protocol, with the fields the framework reads; what a process answers
  to a call is a parameter that may depend on everything sent before. The listings of the source
  are generators: a page is fetched when the consumer asks for more. They are loops that run the
  consumer's body on each element, and stop when the body gives a value.
\<close>

section \<open>Messages\<close>

datatype channel_state = CS_UNKNOWN | IDLE | CONNECTING | READY | TRANSIENT_FAILURE | SHUTDOWN

text \<open>Subchannels and sockets are referred to by id (and name).\<close>

record channel =
  ch_id :: int
  ch_target :: string
  ch_state :: channel_state
  ch_started :: int
  ch_succeeded :: int
  ch_failed :: int
  ch_subchannels :: "(int \<times> string) list"

record subchannel =
  sc_id :: int
  sc_target :: string
  sc_state :: channel_state
  sc_sockets :: "int list"

text \<open>An address is one of several kinds; the bytes of a TCP address are numbers below 256.\<close>

datatype address = TcpIp (ip_address: "nat list") (ip_port: int) | OtherAddress string

text \<open>The security of a socket is a union; no member may be set.\<close>

datatype security =
    NoSecurity
  | TlsSecurity (local_certificate: string) (remote_certificate: string)
  | OtherSecurity string

record socket =
  so_id :: int
  so_name :: string
  so_local :: address
  so_remote :: address
  so_security :: security

record server =
  sv_id :: int
  sv_listen :: "int list"

fun state_name :: "channel_state \<Rightarrow> string" where
  "state_name CS_UNKNOWN = ''UNKNOWN''"
| "state_name IDLE = ''IDLE''"
| "state_name CONNECTING = ''CONNECTING''"
| "state_name READY = ''READY''"
| "state_name TRANSIENT_FAILURE = ''TRANSIENT_FAILURE''"
| "state_name SHUTDOWN = ''SHUTDOWN''"

section \<open>Channels of an application helper\<close>

text \<open>A gRPC channel: its target, and the access token of a secure one.\<close>

datatype grpc_channel = InsecureChannel string | SecureChannel string string

datatype rpc_call =
    GetTopChannels int
  | GetChannel int
  | GetSubchannel int
  | GetSocket int
  | GetServers int
  | GetServerSockets int int
  | ServiceCall string json

text \<open>
  What happens outside: a call over a channel with a deadline in seconds, or a pause. Calls of the
  services that are not channelz carry their request as a message.
\<close>

datatype event = Rpc grpc_channel rpc_call int | Sleep int

type_synonym trace = "event list"

record app_env =
  ae_creds_token :: "trace \<Rightarrow> string \<Rightarrow> exn + string"
  ae_top_channels :: "trace \<Rightarrow> event \<Rightarrow> exn + channel list \<times> bool"
  ae_channel :: "trace \<Rightarrow> event \<Rightarrow> exn + channel"
  ae_subchannel :: "trace \<Rightarrow> event \<Rightarrow> exn + subchannel"
  ae_socket :: "trace \<Rightarrow> event \<Rightarrow> exn + socket"
  ae_servers :: "trace \<Rightarrow> event \<Rightarrow> exn + server list \<times> bool"
  ae_server_sockets :: "trace \<Rightarrow> event \<Rightarrow> exn + int list \<times> bool"
  ae_message :: "trace \<Rightarrow> event \<Rightarrow> exn + json" \<comment> \<open>answers of the other services\<close>

text \<open>
  \<open>GrpcApp\<close>: the channels are cached by port, and the clients on top of them by the name of their
  property (\<open>functools.lru_cache\<close>).
\<close>

record grpc_app =
  ga_rpc_host :: string
  ga_channels :: "int \<Rightarrow> grpc_channel option"
  ga_stubs :: "string \<Rightarrow> grpc_channel option"

definition app_init :: "string \<Rightarrow> grpc_app" where
  "app_init rpc_host = \<lparr>ga_rpc_host = rpc_host, ga_channels = Map.empty, ga_stubs = Map.empty\<rparr>"

definition create_new_channel ::
  "app_env \<Rightarrow> string \<Rightarrow> string \<Rightarrow> bool \<Rightarrow> (trace, grpc_channel) act" where
  "create_new_channel D rpc_host grpc_target secure_channel =
     (if \<not> secure_channel then return (InsecureChannel grpc_target)
      else bind get_state (\<lambda>w. bind (lift (ae_creds_token D w rpc_host))
             (\<lambda>token. return (SecureChannel grpc_target token))))"

definition make_channel ::
  "app_env \<Rightarrow> int \<Rightarrow> bool \<Rightarrow> ('x grpc_app_scheme \<times> trace, grpc_channel) act" where
  "make_channel D p secure_channel = using_self (\<lambda>self.
     (case ga_channels self p of
        Some ch \<Rightarrow> return ch
      | None \<Rightarrow>
          bind (call (create_new_channel D (ga_rpc_host self) (ga_rpc_host self @ '':'' @ str_int p) secure_channel))
            (\<lambda>ch. andthen (assign (ga_channels_update (\<lambda>cs. cs(p \<mapsto> ch)))) (return ch))))"

text \<open>A cached property: the client is made once, on the channel of its port.\<close>

definition cached_stub ::
  "app_env \<Rightarrow> string \<Rightarrow> int \<Rightarrow> bool \<Rightarrow> ('x grpc_app_scheme \<times> trace, grpc_channel) act" where
  "cached_stub D prop p secure_channel = using_self (\<lambda>self.
     (case ga_stubs self prop of
        Some ch \<Rightarrow> return ch
      | None \<Rightarrow> bind (make_channel D p secure_channel)
          (\<lambda>ch. andthen (assign (ga_stubs_update (\<lambda>cs. cs(prop \<mapsto> ch)))) (return ch))))"

definition DEFAULT_RPC_DEADLINE_SEC :: int where
  "DEFAULT_RPC_DEADLINE_SEC = 90"

definition rpc_event :: "grpc_channel \<Rightarrow> rpc_call \<Rightarrow> int option \<Rightarrow> event" where
  "rpc_event ch rpc deadline_sec =
     Rpc ch rpc (case deadline_sec of None \<Rightarrow> DEFAULT_RPC_DEADLINE_SEC | Some d \<Rightarrow> d)"

definition call_unary_with_deadline ::
  "(trace \<Rightarrow> event \<Rightarrow> exn + 'm) \<Rightarrow> grpc_channel \<Rightarrow> rpc_call \<Rightarrow> int option \<Rightarrow> (trace, 'm) act" where
  "call_unary_with_deadline answer ch rpc deadline_sec =
     (\<lambda>w. (answer w (rpc_event ch rpc deadline_sec), w @ [rpc_event ch rpc deadline_sec]))"

section \<open>Loops over generators\<close>

text \<open>The body returns \<open>None\<close> to go on, and \<open>Some\<close> value to leave the loop with it.\<close>

fun for_each :: "('i \<Rightarrow> ('s, 'r option) act) \<Rightarrow> 'i list \<Rightarrow> ('s, 'r option) act" where
  "for_each body [] = return None"
| "for_each body (x # xs) =
     bind (body x) (\<lambda>r. case r of Some v \<Rightarrow> return (Some v) | None \<Rightarrow> for_each body xs)"

text \<open>
  The loop over the pages of a listing: the next page starts after the highest id seen, and the
  last page says so. The first argument bounds the pages; a longer listing is \<open>Diverges\<close>.
\<close>

fun pages ::
  "nat \<Rightarrow> (int \<Rightarrow> ('s, 'i list \<times> bool) act) \<Rightarrow> ('i \<Rightarrow> int) \<Rightarrow> ('i \<Rightarrow> ('s, 'r option) act) \<Rightarrow> int
     \<Rightarrow> ('s, 'r option) act" where
  "pages 0 fetch ident body start = raise Diverges"
| "pages (Suc n) fetch ident body start =
     bind (fetch (start + 1)) (\<lambda>(items, last_page).
     bind (for_each body items) (\<lambda>r.
       case r of Some v \<Rightarrow> return (Some v)
       | None \<Rightarrow>
           let start' = foldl max (start + 1) (map ident items)
           in if start' < 0 \<or> \<not> last_page then pages n fetch ident body start' else return None))"

section \<open>ChannelzServiceClient\<close>

definition list_channels ::
  "app_env \<Rightarrow> nat \<Rightarrow> grpc_channel \<Rightarrow> int option \<Rightarrow> (channel \<Rightarrow> ('o \<times> trace, 'r option) act)
     \<Rightarrow> ('o \<times> trace, 'r option) act" where
  "list_channels D n stub deadline_sec body =
     pages n (\<lambda>start. call (call_unary_with_deadline (ae_top_channels D) stub (GetTopChannels start) deadline_sec))
       ch_id body (-1)"

definition find_channels_for_target ::
  "app_env \<Rightarrow> nat \<Rightarrow> grpc_channel \<Rightarrow> string \<Rightarrow> int option \<Rightarrow> (channel \<Rightarrow> ('o \<times> trace, 'r option) act)
     \<Rightarrow> ('o \<times> trace, 'r option) act" where
  "find_channels_for_target D n stub trg deadline_sec body =
     list_channels D n stub deadline_sec
       (\<lambda>ch. if sublist trg (ch_target ch) then body ch else return None)"

text \<open>\<open>NOT_FOUND\<close> (5) of an RPC error with a code becomes the framework's own error.\<close>

definition get_channel ::
  "app_env \<Rightarrow> grpc_channel \<Rightarrow> int \<Rightarrow> int option \<Rightarrow> (trace, channel) act" where
  "get_channel D stub channel_id deadline_sec =
     try_except (call_unary_with_deadline (ae_channel D) stub (GetChannel channel_id) deadline_sec)
       (\<lambda>e. isinstance e [CRpcError])
       (\<lambda>e. raise (case e of
          RpcError (Some code) _ \<Rightarrow>
            if code = 5 then AppNotFound (''Channel with channel_id '' @ str_int channel_id @ '' not found'') else e
        | _ \<Rightarrow> e))"

definition get_subchannel ::
  "app_env \<Rightarrow> grpc_channel \<Rightarrow> int \<Rightarrow> int option \<Rightarrow> (trace, subchannel) act" where
  "get_subchannel D stub subchannel_id deadline_sec =
     call_unary_with_deadline (ae_subchannel D) stub (GetSubchannel subchannel_id) deadline_sec"

definition get_socket :: "app_env \<Rightarrow> grpc_channel \<Rightarrow> int \<Rightarrow> int option \<Rightarrow> (trace, socket) act" where
  "get_socket D stub socket_id deadline_sec =
     call_unary_with_deadline (ae_socket D) stub (GetSocket socket_id) deadline_sec"

definition list_channel_subchannels ::
  "app_env \<Rightarrow> grpc_channel \<Rightarrow> channel \<Rightarrow> int option \<Rightarrow> (subchannel \<Rightarrow> ('o \<times> trace, 'r option) act)
     \<Rightarrow> ('o \<times> trace, 'r option) act" where
  "list_channel_subchannels D stub ch deadline_sec body =
     for_each (\<lambda>(subchannel_id, _). bind (call (get_subchannel D stub subchannel_id deadline_sec)) body)
       (ch_subchannels ch)"

definition list_subchannels_sockets ::
  "app_env \<Rightarrow> grpc_channel \<Rightarrow> subchannel \<Rightarrow> int option \<Rightarrow> (socket \<Rightarrow> ('o \<times> trace, 'r option) act)
     \<Rightarrow> ('o \<times> trace, 'r option) act" where
  "list_subchannels_sockets D stub sub deadline_sec body =
     for_each (\<lambda>socket_id. bind (call (get_socket D stub socket_id deadline_sec)) body) (sc_sockets sub)"

definition list_channel_sockets ::
  "app_env \<Rightarrow> grpc_channel \<Rightarrow> channel \<Rightarrow> int option \<Rightarrow> (socket \<Rightarrow> ('o \<times> trace, 'r option) act)
     \<Rightarrow> ('o \<times> trace, 'r option) act" where
  "list_channel_sockets D stub ch deadline_sec body =
     list_channel_subchannels D stub ch deadline_sec
       (\<lambda>sub. list_subchannels_sockets D stub sub deadline_sec body)"

definition list_servers ::
  "app_env \<Rightarrow> nat \<Rightarrow> grpc_channel \<Rightarrow> int option \<Rightarrow> (server \<Rightarrow> ('o \<times> trace, 'r option) act)
     \<Rightarrow> ('o \<times> trace, 'r option) act" where
  "list_servers D n stub deadline_sec body =
     pages n (\<lambda>start. call (call_unary_with_deadline (ae_servers D) stub (GetServers start) deadline_sec))
       sv_id body (-1)"

definition list_server_sockets ::
  "app_env \<Rightarrow> nat \<Rightarrow> grpc_channel \<Rightarrow> server \<Rightarrow> int option \<Rightarrow> (socket \<Rightarrow> ('o \<times> trace, 'r option) act)
     \<Rightarrow> ('o \<times> trace, 'r option) act" where
  "list_server_sockets D n stub srv deadline_sec body =
     pages n (\<lambda>start. call (call_unary_with_deadline (ae_server_sockets D) stub
                  (GetServerSockets (sv_id srv) start) deadline_sec))
       (\<lambda>i. i) (\<lambda>socket_id. bind (call (get_socket D stub socket_id deadline_sec)) body) (-1)"

definition is_sock_tcpip_address :: "address \<Rightarrow> bool" where
  "is_sock_tcpip_address a = (case a of TcpIp _ _ \<Rightarrow> True | OtherAddress _ \<Rightarrow> False)"

text \<open>The port of an unset TCP address reads as zero.\<close>

definition tcpip_port :: "address \<Rightarrow> int" where
  "tcpip_port a = (case a of TcpIp _ p \<Rightarrow> p | OtherAddress _ \<Rightarrow> 0)"

definition find_server_listening_on_port ::
  "app_env \<Rightarrow> nat \<Rightarrow> grpc_channel \<Rightarrow> int \<Rightarrow> int option \<Rightarrow> ('o \<times> trace, server option) act" where
  "find_server_listening_on_port D n stub p deadline_sec =
     list_servers D n stub deadline_sec (\<lambda>srv.
       for_each (\<lambda>socket_id. bind (call (get_socket D stub socket_id deadline_sec)) (\<lambda>listen_socket.
           return (if is_sock_tcpip_address (so_local listen_socket) \<and> tcpip_port (so_local listen_socket) = p
                   then Some srv else None)))
         (sv_listen srv))"

text \<open>Whether a server socket is the other end of a client socket.\<close>

definition socket_matches :: "bool \<Rightarrow> socket \<Rightarrow> socket \<Rightarrow> bool" where
  "socket_matches match_only_port client_socket server_socket =
     (if match_only_port
      then tcpip_port (so_remote server_socket) = tcpip_port (so_local client_socket)
      else so_remote server_socket = so_local client_socket)"

definition find_server_socket_matching_client ::
  "((socket \<Rightarrow> ('s, socket option) act) \<Rightarrow> ('s, socket option) act) \<Rightarrow> socket \<Rightarrow> bool \<Rightarrow> ('s, socket option) act" where
  "find_server_socket_matching_client server_sockets client_socket match_only_port =
     server_sockets (\<lambda>server_socket.
       return (if socket_matches match_only_port client_socket server_socket then Some server_socket else None))"

section \<open>Addresses as text\<close>

definition hex_digit :: "nat \<Rightarrow> char" where
  "hex_digit d = (if d < 10 then char_of (48 + d) else char_of (87 + d))"

text \<open>The hexadecimal text of a 16-bit group, without leading zeros.\<close>

definition hex_str :: "nat \<Rightarrow> string" where
  "hex_str i = map hex_digit
     (case dropWhile (\<lambda>d. d = 0) [i div 4096 mod 16, i div 256 mod 16, i div 16 mod 16] of
        ds \<Rightarrow> ds @ [i mod 16])"

fun hextets :: "nat list \<Rightarrow> string list" where
  "hextets (a # b # bytes) = hex_str (256 * a + b) # hextets bytes"
| "hextets bytes = []"

text \<open>The leftmost of the longest runs of zeros, as start and length.\<close>

fun longest_zeros :: "string list \<Rightarrow> nat \<Rightarrow> nat \<Rightarrow> nat \<Rightarrow> nat \<times> nat \<Rightarrow> nat \<times> nat" where
  "longest_zeros [] i start len best = best"
| "longest_zeros (h # hs) i start len best =
     (if h = ''0''
      then let start' = (if len = 0 then i else start)
           in longest_zeros hs (i + 1) start' (len + 1) (if len + 1 > snd best then (start', len + 1) else best)
      else longest_zeros hs (i + 1) 0 0 best)"

text \<open>\<open>str(ipaddress.IPv6Address(b))\<close>: a run of at least two zero groups becomes a double colon.\<close>

definition ip6_text :: "nat list \<Rightarrow> string" where
  "ip6_text bytes =
     (let hs = hextets bytes; (start, len) = longest_zeros hs 0 0 0 (0, 0)
      in if len > 1
         then str_join '':'' ((if start = 0 then [[]] else []) @ take start hs @ [[]] @ drop (start + len) hs
                @ (if start + len = length hs then [[]] else []))
         else str_join '':'' hs)"

definition ip4_text :: "nat list \<Rightarrow> string" where
  "ip4_text bytes = str_join ''.'' (map str_nat bytes)"

definition sock_address_to_str :: "address \<Rightarrow> exn + string" where
  "sock_address_to_str a =
     (case a of
        OtherAddress _ \<Rightarrow> Inl (NotImplementedError ''Only tcpip_address implemented'')
      | TcpIp bytes p \<Rightarrow>
          if length bytes = 4 then Inr (ip4_text bytes @ '':'' @ str_int p)
          else if length bytes = 16 then Inr (ip6_text bytes @ '':'' @ str_int p)
          else Inl (ValueError ''AddressValueError''))"

section \<open>The trace only grows\<close>

definition later :: "'o \<times> trace \<Rightarrow> 'o \<times> trace \<Rightarrow> bool" where
  "later s s' \<longleftrightarrow> prefix (snd s) (snd s')"

lemma later_refl [simp]: "later s s"
  by (simp add: later_def)

lemma later_trans: "later s s1 \<Longrightarrow> later s1 s2 \<Longrightarrow> later s s2"
  unfolding later_def by (rule prefix_order.trans)

definition grows :: "('o \<times> trace, 'a) act \<Rightarrow> bool" where
  "grows m \<longleftrightarrow> (\<forall>s. later s (snd (m s)))"

named_theorems grows_intros "actions that only extend the trace"

lemma growsD: "grows m \<Longrightarrow> m s = (r, s') \<Longrightarrow> later s s'"
  unfolding grows_def by (metis snd_conv)

lemma grows_return [grows_intros]: "grows (return v)"
  by (simp add: grows_def return_def)

lemma grows_raise [grows_intros]: "grows (raise e)"
  by (simp add: grows_def raise_def)

lemma grows_lift [grows_intros]: "grows (lift e)"
  by (simp add: grows_def lift_def)

lemma grows_assign [grows_intros]: "grows (assign f)"
  by (simp add: grows_def assign_def later_def)

lemma grows_using_self [grows_intros]: "(\<And>self. grows (f self)) \<Longrightarrow> grows (using_self f)"
  by (simp add: grows_def using_self_def)

lemma grows_bind [grows_intros]:
  assumes "grows m" and "\<And>x. grows (k x)"
  shows "grows (bind m k)"
  using assms unfolding grows_def
  by (auto simp: bind_def split: prod.split sum.split) (metis later_trans snd_conv)+

lemma grows_andthen [grows_intros]: "grows m \<Longrightarrow> grows k \<Longrightarrow> grows (andthen m k)"
  unfolding andthen_def by (intro grows_bind)

lemma grows_try_except [grows_intros]:
  assumes "grows m" and "\<And>e. grows (h e)"
  shows "grows (try_except m c h)"
  using assms unfolding grows_def
  by (auto simp: try_except_def split: prod.split sum.split) (metis later_trans snd_conv)+

lemma grows_call_unary [grows_intros]: "grows (call (call_unary_with_deadline answer stub rpc d))"
  by (simp add: grows_def call_def call_unary_with_deadline_def later_def)

lemma grows_option [grows_intros]:
  "grows a \<Longrightarrow> (\<And>v. grows (b v)) \<Longrightarrow> grows (case x of None \<Rightarrow> a | Some v \<Rightarrow> b v)"
  by (simp split: option.split)

lemma grows_for_each [grows_intros]: "(\<And>x. grows (body x)) \<Longrightarrow> grows (for_each body xs)"
  by (induction xs) (auto intro!: grows_intros)

lemma grows_pages [grows_intros]:
  assumes "\<And>i. grows (fetch i)" and "\<And>x. grows (body x)"
  shows "grows (pages n fetch ident body start)"
proof (induction n arbitrary: start)
  case (Suc n)
  have "grows (let start' = foldl max (start + 1) (map ident items)
       in if start' < 0 \<or> \<not> last_page then pages n fetch ident body start' else return None)"
    for items last_page using Suc by (simp add: Let_def grows_return)
  then show ?case
    by (auto intro!: grows_bind grows_option grows_return grows_for_each assms)
qed (simp add: grows_raise)

section \<open>Values of the loops\<close>

text \<open>A loop that gives a value got it from the body, on one of the elements.\<close>

lemma for_each_found:
  assumes "for_each body xs s = (Inr (Some v), s')" and "\<And>x. grows (body x)"
  obtains x s1 where "x \<in> set xs" and "body x s1 = (Inr (Some v), s')" and "later s s1"
  using assms(1)
proof (induction xs arbitrary: s thesis)
  case (Cons x xs)
  obtain r s1 where first: "body x s = (r, s1)" by (cases "body x s")
  with Cons.prems(2) obtain o1 where o1: "r = Inr o1" by (cases r) (auto simp: bind_def)
  have step: "later s s1" using assms(2) first by (rule growsD)
  show ?case
  proof (cases o1)
    case None
    with Cons.prems(2) first o1 have rest: "for_each body xs s1 = (Inr (Some v), s')" by (simp add: bind_def)
    show ?thesis
      by (rule Cons.IH [OF _ rest]) (use Cons.prems(1) step in \<open>auto intro: later_trans\<close>)
  next
    case (Some u)
    with Cons.prems(2) first o1 have "body x s = (Inr (Some v), s')" by (simp add: bind_def return_def)
    then show ?thesis by (intro Cons.prems(1) [of x s]) simp_all
  qed
qed (simp add: return_def)

lemma pages_found:
  assumes "pages n fetch ident body start s = (Inr (Some v), s')"
    and "\<And>x. grows (body x)" and "\<And>i. grows (fetch i)"
  obtains i s0 s1 s2 page last_page x where "fetch i s0 = (Inr (page, last_page), s1)" and "x \<in> set page"
    and "body x s2 = (Inr (Some v), s')" and "later s s0" and "later s1 s2"
  using assms(1)
proof (induction n arbitrary: start s thesis)
  case (Suc n)
  obtain r s1 where fetched: "fetch (start + 1) s = (r, s1)" by (cases "fetch (start + 1) s")
  with Suc.prems(2) obtain page last_page where page: "r = Inr (page, last_page)"
    by (cases r) (auto simp: bind_def)
  obtain r2 s2 where looped: "for_each body page s1 = (r2, s2)" by (cases "for_each body page s1")
  with Suc.prems(2) fetched page obtain o1 where o1: "r2 = Inr o1" by (cases r2) (auto simp: bind_def)
  have "later s s1" using assms(3) fetched by (rule growsD)
  moreover have "later s1 s2" using grows_for_each [OF assms(2)] looped by (rule growsD)
  ultimately have step: "later s s2" by (rule later_trans)
  show ?case
  proof (cases o1)
    case None
    with Suc.prems(2) fetched page looped o1 obtain start' where
      rest: "pages n fetch ident body start' s2 = (Inr (Some v), s')"
      by (auto simp: bind_def Let_def return_def split: if_splits)
    obtain i s0 t1 t2 items final x where it: "fetch i s0 = (Inr (items, final), t1)" "x \<in> set items"
      "body x t2 = (Inr (Some v), s')" "later s2 s0" "later t1 t2"
      using Suc.IH [OF _ rest] by blast
    with step have "later s s0" by (blast intro: later_trans)
    with it show ?thesis by (intro Suc.prems(1))
  next
    case (Some u)
    with Suc.prems(2) fetched page looped o1 have found: "for_each body page s1 = (Inr (Some v), s')"
      by (simp add: bind_def return_def)
    obtain x t2 where it: "x \<in> set page" "body x t2 = (Inr (Some v), s')" "later s1 t2"
      using for_each_found [OF found assms(2)] by blast
    show ?thesis
      by (rule Suc.prems(1) [OF fetched [unfolded page] it(1,2) later_refl it(3)])
  qed
qed (simp add: raise_def)

text \<open>What the elements give when the body's value depends on the element only.\<close>

fun first_result :: "('i \<Rightarrow> exn + 'r option) \<Rightarrow> 'i list \<Rightarrow> exn + 'r option" where
  "first_result f [] = Inr None"
| "first_result f (x # xs) = (case f x of Inr None \<Rightarrow> first_result f xs | r \<Rightarrow> r)"

lemma first_result_append:
  "first_result f (xs @ ys) = (case first_result f xs of Inr None \<Rightarrow> first_result f ys | r \<Rightarrow> r)"
  by (induction xs) (auto split: sum.splits option.splits)

lemma for_each_value:
  "(\<And>x s. x \<in> set xs \<Longrightarrow> fst (body x s) = f x) \<Longrightarrow> fst (for_each body xs s) = first_result f xs"
proof (induction xs arbitrary: s)
  case (Cons x xs)
  obtain r s1 where first: "body x s = (r, s1)" by (cases "body x s")
  with Cons.prems have "r = f x" by (metis fst_conv list.set_intros(1))
  with first Cons show ?case
    by (auto simp: bind_def return_def split: sum.split option.split)
qed (simp add: return_def)

lemma filter_after_page:
  assumes "sorted_wrt (\<lambda>x y. ident x < ident y) xs"
    and "filter (\<lambda>x. start < ident x) xs = page @ rest" and "page \<noteq> []"
  shows "filter (\<lambda>x. foldl max (start + 1) (map ident page) < ident x) xs = rest"
    and "foldl max (start + 1) (map ident page) = (ident (last page) :: int)"
proof -
  have "sorted_wrt (\<lambda>x y. ident x < ident y) (page @ rest)"
    using assms(1) by (metis assms(2) sorted_wrt_filter)
  then have inc: "sorted_wrt (\<lambda>x y. ident x < ident y) page" "\<forall>x \<in> set page. \<forall>y \<in> set rest. ident x < ident y"
    by (simp_all add: sorted_wrt_append)
  have above: "\<forall>x \<in> set page. start < ident x"
    using assms(2) [THEN arg_cong [where f = set]] by auto
  have highest: "foldl max m (map ident ys) = ident (last ys)"
    if "ys \<noteq> []" "sorted_wrt (\<lambda>x y. ident x < ident y) ys" "\<forall>x \<in> set ys. m \<le> ident x" for ys m
    using that
  proof (induction ys arbitrary: m)
    case (Cons y ys)
    show ?case
    proof (cases "ys = []")
      case False
      with Cons show ?thesis by (simp add: max_absorb2) (metis Cons.IH less_imp_le)
    qed (use Cons.prems in \<open>simp add: max_absorb2\<close>)
  qed simp
  show last: "foldl max (start + 1) (map ident page) = ident (last page)"
    using assms(3) inc(1) above by (intro highest) auto
  have "sorted_wrt (\<lambda>x y. ident x < ident y) (butlast page @ [last page])"
    using inc(1) assms(3) by simp
  then have "\<forall>x \<in> set (butlast page @ [last page]). \<not> ident (last page) < ident x"
    by (auto simp: sorted_wrt_append)
  then have upto: "\<not> ident (last page) < ident x" if "x \<in> set page" for x
    using that assms(3) by simp
  have "filter (\<lambda>x. ident (last page) < ident x) xs
      = filter (\<lambda>x. ident (last page) < ident x) (filter (\<lambda>x. start < ident x) xs)"
    using above assms(3) by (force simp: filter_filter intro: filter_cong dest: last_in_set)
  also have "\<dots> = rest"
    unfolding assms(2) using upto inc(2) assms(3) by (simp add: filter_empty_conv filter_id_conv)
  finally show "filter (\<lambda>x. foldl max (start + 1) (map ident page) < ident x) xs = rest"
    by (simp add: last)
qed

text \<open>
  The protocol of a listing: the items are kept in the order of their ids; the answer to a request
  from \<open>start\<close> is a page of the items from there on, empty only when there are none, and marked as
  the last one when nothing is left. The size of a page may differ from one answer to the next.
\<close>

definition serves_pages :: "(int \<Rightarrow> ('s, 'i list \<times> bool) act) \<Rightarrow> ('i \<Rightarrow> int) \<Rightarrow> 'i list \<Rightarrow> bool" where
  "serves_pages fetch ident xs \<longleftrightarrow>
     sorted_wrt (\<lambda>x y. ident x < ident y) xs \<and> (\<forall>x \<in> set xs. 0 \<le> ident x) \<and>
     (\<forall>start s. \<exists>page rest. fst (fetch start s) = Inr (page, rest = []) \<and>
        filter (\<lambda>x. start \<le> ident x) xs = page @ rest \<and> (page = [] \<longrightarrow> rest = []))"

lemma pages_value:
  assumes "serves_pages fetch ident xs" and "\<And>x s. x \<in> set xs \<Longrightarrow> fst (body x s) = f x"
    and "-1 \<le> start" and "length (filter (\<lambda>x. start < ident x) xs) < n"
  shows "fst (pages n fetch ident body start s) = first_result f (filter (\<lambda>x. start < ident x) xs)"
  using assms(3,4)
proof (induction n arbitrary: start s)
  case (Suc n)
  obtain r s1 where fetched: "fetch (start + 1) s = (r, s1)" by (cases "fetch (start + 1) s")
  have "filter (\<lambda>x. start + 1 \<le> ident x) xs = filter (\<lambda>x. start < ident x) xs"
    by (rule filter_cong) auto
  with fetched assms(1) obtain page rest where page: "r = Inr (page, rest = [])"
    "filter (\<lambda>x. start < ident x) xs = page @ rest" "page = [] \<Longrightarrow> rest = []"
    unfolding serves_pages_def by (metis fst_conv)
  have sorted: "sorted_wrt (\<lambda>x y. ident x < ident y) xs" using assms(1) by (simp add: serves_pages_def)
  have sub: "set page \<subseteq> set xs" using page(2) [THEN arg_cong [where f = set]] by auto
  have looped: "fst (for_each body page s1) = first_result f page"
    using assms(2) sub by (intro for_each_value) blast
  obtain r2 s2 where r2: "for_each body page s1 = (r2, s2)" by (cases "for_each body page s1")
  note split_value = first_result_append [of f page rest, folded page(2)]
  show ?case
  proof (cases "r2 = Inr None")
    case False
    with r2 looped fetched page(1) split_value show ?thesis
      by (auto simp: bind_def return_def split: sum.split option.split)
  next
    case True
    show ?thesis
    proof (cases "page = []")
      case empty: True
      with page Suc.prems(1) r2 looped fetched split_value True show ?thesis
        by (simp add: bind_def return_def Let_def)
    next
      case False
      note next_page = filter_after_page [OF sorted page(2) False]
      have "0 \<le> ident (last page)"
        using subsetD [OF sub last_in_set [OF False]] assms(1) unfolding serves_pages_def by blast
      moreover have "length rest < n" using Suc.prems(2) page(2) False by (cases page) auto
      ultimately have IH: "fst (pages n fetch ident body (ident (last page)) s2) = first_result f rest"
        using Suc.IH [of "ident (last page)" s2] next_page by simp
      have rest_only: "first_result f (filter (\<lambda>x. start < ident x) xs) = first_result f rest"
      proof -
        have "first_result f page = Inr None" using looped r2 True by simp
        with split_value show ?thesis by simp
      qed
      have "pages (Suc n) fetch ident body start s
          = (if rest = [] then return None else pages n fetch ident body (ident (last page))) s2"
        using page(1) fetched r2 True next_page(2) \<open>0 \<le> ident (last page)\<close>
        by (simp add: bind_def return_def Let_def)
      with rest_only IH show ?thesis by (simp add: return_def)
    qed
  qed
qed simp

lemma first_result_find:
  "first_result (\<lambda>x. Inr (if P x then Some x else None)) xs = Inr (List.find P xs)"
  by (induction xs) simp_all

lemma list_ex_find: "list_ex P xs \<longleftrightarrow> List.find P xs \<noteq> None"
  by (induction xs) simp_all

text \<open>The value of a search that takes the first item with a property.\<close>

lemma pages_search:
  assumes "serves_pages fetch ident xs" and "length xs < n"
    and "\<And>x s. x \<in> set xs \<Longrightarrow> fst (body x s) = Inr (if P x then Some x else None)"
  shows "fst (pages n fetch ident body (-1) s) = Inr (List.find P xs)"
proof -
  have all: "filter (\<lambda>x. -1 < ident x) xs = xs"
    using assms(1) unfolding serves_pages_def by (intro filter_True) force
  show ?thesis
    using pages_value [OF assms(1,3), where start = "-1" and n = n and s = s] assms(2) by (simp add: all first_result_find)
qed

text \<open>A loop that appends every item to a list.\<close>

lemma for_each_append:
  "(\<And>x acc. body x ((acc, obj), w) = (Inr None, ((acc @ [x], obj), w))) \<Longrightarrow>
     for_each body xs ((acc, obj), w) = (Inr None, ((acc @ xs, obj), w))"
  by (induction xs arbitrary: acc) (simp_all add: bind_def return_def)

lemma pages_append:
  assumes "serves_pages fetch ident xs"
    and "\<And>x acc w. body x ((acc, obj), w) = (Inr None, ((acc @ [x], obj), w))"
    and "\<And>i s. fst (snd (fetch i s)) = fst s"
    and "-1 \<le> start" and "length (filter (\<lambda>x. start < ident x) xs) < n"
  shows "\<exists>w'. pages n fetch ident body start ((acc, obj), w) = (Inr None, ((acc @ filter (\<lambda>x. start < ident x) xs, obj), w'))"
  using assms(4,5)
proof (induction n arbitrary: start acc w)
  case (Suc n)
  have "filter (\<lambda>x. start + 1 \<le> ident x) xs = filter (\<lambda>x. start < ident x) xs"
    by (rule filter_cong) auto
  with assms(1) obtain page rest where page: "fst (fetch (start + 1) ((acc, obj), w)) = Inr (page, rest = [])"
    "filter (\<lambda>x. start < ident x) xs = page @ rest" "page = [] \<Longrightarrow> rest = []"
    unfolding serves_pages_def by metis
  obtain w1 where fetched: "fetch (start + 1) ((acc, obj), w) = (Inr (page, rest = []), ((acc, obj), w1))"
    using page(1) assms(3) [of "start + 1" "((acc, obj), w)"] by (cases "fetch (start + 1) ((acc, obj), w)") auto
  have looped: "for_each body page ((acc, obj), w1) = (Inr None, ((acc @ page, obj), w1))"
    using assms(2) by (rule for_each_append)
  have sorted: "sorted_wrt (\<lambda>x y. ident x < ident y) xs" using assms(1) by (simp add: serves_pages_def)
  have sub: "set page \<subseteq> set xs" using page(2) [THEN arg_cong [where f = set]] by auto
  show ?case
  proof (cases "page = []")
    case True
    with page fetched looped Suc.prems(1) show ?thesis by (simp add: bind_def return_def Let_def)
  next
    case False
    note next_page = filter_after_page [OF sorted page(2) False]
    have nonneg: "0 \<le> ident (last page)"
      using subsetD [OF sub last_in_set [OF False]] assms(1) unfolding serves_pages_def by blast
    have "length rest < n" using Suc.prems(2) page(2) False by (cases page) auto
    with nonneg have IH: "\<exists>w'. pages n fetch ident body (ident (last page)) ((acc @ page, obj), w1)
        = (Inr None, (((acc @ page) @ rest, obj), w'))"
      using Suc.IH [of "ident (last page)" "acc @ page" w1] next_page by simp
    have "pages (Suc n) fetch ident body start ((acc, obj), w)
        = (if rest = [] then return None else pages n fetch ident body (ident (last page))) ((acc @ page, obj), w1)"
      using fetched looped next_page(2) nonneg by (simp add: bind_def return_def Let_def)
    with IH page(2) show ?thesis by (auto simp: return_def)
  qed
qed simp

text \<open>The protocol of the channel listing, on every connection and with every deadline.\<close>

definition serves_channels :: "app_env \<Rightarrow> channel list \<Rightarrow> bool" where
  "serves_channels D chans \<longleftrightarrow>
     sorted_wrt (\<lambda>a b. ch_id a < ch_id b) chans \<and> (\<forall>c \<in> set chans. 0 \<le> ch_id c) \<and>
     (\<forall>h stub start d. \<exists>page rest. ae_top_channels D h (rpc_event stub (GetTopChannels start) d) = Inr (page, rest = []) \<and>
        filter (\<lambda>c. start \<le> ch_id c) chans = page @ rest \<and> (page = [] \<longrightarrow> rest = []))"

lemma serves_channels_pages:
  "serves_channels D chans \<Longrightarrow> serves_pages (\<lambda>start. call (call_unary_with_deadline (ae_top_channels D) stub
     (GetTopChannels start) d)) ch_id chans"
  by (simp add: serves_channels_def serves_pages_def call_def call_unary_with_deadline_def split_beta)

section \<open>Reports\<close>

text \<open>
  \<open>reported answer w w' ev m\<close>: between \<open>w\<close> and \<open>w'\<close> the event \<open>ev\<close> happened and was answered with \<open>m\<close>.
\<close>

definition reported :: "(trace \<Rightarrow> event \<Rightarrow> exn + 'm) \<Rightarrow> trace \<Rightarrow> trace \<Rightarrow> event \<Rightarrow> 'm \<Rightarrow> bool" where
  "reported answer w w' ev m \<longleftrightarrow> (\<exists>h rest. w' = h @ ev # rest \<and> prefix w h \<and> answer h ev = Inr m)"

lemma reported_mono:
  "reported answer w w' ev m \<Longrightarrow> prefix v w \<Longrightarrow> prefix w' v' \<Longrightarrow> reported answer v v' ev m"
  unfolding reported_def
  by (metis append.assoc append_Cons prefix_def prefix_order.trans)

lemma call_unary_reported:
  assumes "call (call_unary_with_deadline answer stub rpc d) s = (Inr m, s')"
  shows "reported answer (snd s) (snd s') (rpc_event stub rpc d) m" and "fst s' = fst s"
proof -
  from assms have at: "answer (snd s) (rpc_event stub rpc d) = Inr m" "s' = (fst s, snd s @ [rpc_event stub rpc d])"
    by (simp_all add: call_def call_unary_with_deadline_def split: prod.splits)
  then show "fst s' = fst s" by simp
  show "reported answer (snd s) (snd s') (rpc_event stub rpc d) m"
    unfolding reported_def by (rule exI [of _ "snd s"], rule exI [of _ "[]"]) (simp add: at)
qed

lemma grows_make_channel [grows_intros]: "grows (make_channel D p secure_channel)"
proof -
  have "grows (call (create_new_channel D host trg secure_channel))" for host trg
    by (simp add: grows_def call_def create_new_channel_def bind_def get_state_def lift_def return_def
        split: sum.split prod.split)
  then show ?thesis unfolding make_channel_def by (auto intro!: grows_intros)
qed

lemma grows_cached_stub [grows_intros]: "grows (cached_stub D prop p secure_channel)"
  unfolding cached_stub_def by (auto intro!: grows_intros)

lemma grows_get_channel [grows_intros]: "grows (call (get_channel D stub i d))"
  by (simp add: grows_def call_def get_channel_def try_except_def call_unary_with_deadline_def raise_def
      later_def split: sum.split prod.split)

lemma grows_get_subchannel [grows_intros]: "grows (call (get_subchannel D stub i d))"
  unfolding get_subchannel_def by (rule grows_call_unary)

lemma grows_get_socket [grows_intros]: "grows (call (get_socket D stub i d))"
  unfolding get_socket_def by (rule grows_call_unary)

end
