(* ===== verification/ClientApp.thy ===== *)
theory ClientApp
  imports Retryers Channelz FrameworkErrors
begin

text \<open>
  framework/test_app/client_app.py: the helper of a test client, which finds the channels to the
  server and to the control plane in what channelz reports, and waits for them. Log calls are left
  out, except for what they evaluate.
\<close>

section \<open>State\<close>

record xds_client = grpc_app +
  xc_ip :: string
  xc_rpc_port :: int
  xc_server_target :: string
  xc_maintenance_port :: int
  xc_hostname :: string
  xc_monitoring_port :: "int option"

text \<open>\<open>a or b\<close> for an optional text or number.\<close>

definition or_text :: "string option \<Rightarrow> string \<Rightarrow> string" where
  "or_text a b = (case a of Some t \<Rightarrow> if t \<noteq> [] then t else b | None \<Rightarrow> b)"

definition or_int :: "int option \<Rightarrow> int \<Rightarrow> int" where
  "or_int a b = (case a of Some i \<Rightarrow> if i \<noteq> 0 then i else b | None \<Rightarrow> b)"

definition client_init ::
  "string \<Rightarrow> int \<Rightarrow> string \<Rightarrow> string \<Rightarrow> string option \<Rightarrow> int option \<Rightarrow> int option \<Rightarrow> xds_client" where
  "client_init ip rpc_port server_target hostname rpc_host maintenance_port monitoring_port =
     grpc_app.extend (app_init (or_text rpc_host ip))
       (xds_client.fields ip rpc_port server_target (or_int maintenance_port rpc_port) hostname monitoring_port)"

type_synonym 'a cl_meth = "(xds_client \<times> trace, 'a) act"

section \<open>Cached clients\<close>

definition lb_stats_stub :: "app_env \<Rightarrow> bool \<Rightarrow> grpc_channel cl_meth" where
  "lb_stats_stub D secure_channel = using_self (\<lambda>self.
     cached_stub D (if secure_channel then ''secure_load_balancer_stats'' else ''load_balancer_stats'')
       (xc_rpc_port self) secure_channel)"

definition update_config_stub :: "app_env \<Rightarrow> grpc_channel cl_meth" where
  "update_config_stub D = using_self (\<lambda>self. cached_stub D ''update_config'' (xc_rpc_port self) False)"

definition channelz_stub :: "app_env \<Rightarrow> bool \<Rightarrow> grpc_channel cl_meth" where
  "channelz_stub D secure_channel = using_self (\<lambda>self.
     cached_stub D (if secure_channel then ''secure_channelz'' else ''channelz'')
       (xc_maintenance_port self) secure_channel)"

definition csds_stub :: "app_env \<Rightarrow> bool \<Rightarrow> grpc_channel cl_meth" where
  "csds_stub D secure_channel = using_self (\<lambda>self.
     cached_stub D (if secure_channel then ''secure_csds'' else ''csds'') (xc_maintenance_port self) secure_channel)"

section \<open>Finding channels\<close>

definition find_channels ::
  "app_env \<Rightarrow> nat \<Rightarrow> string \<Rightarrow> bool \<Rightarrow> int option \<Rightarrow> (channel \<Rightarrow> 'r option cl_meth) \<Rightarrow> 'r option cl_meth" where
  "find_channels D n trg secure_channel deadline_sec body =
     bind (channelz_stub D secure_channel)
       (\<lambda>stub. find_channels_for_target D n stub trg deadline_sec body)"

definition find_subchannel_with_state ::
  "app_env \<Rightarrow> channel \<Rightarrow> channel_state \<Rightarrow> bool \<Rightarrow> int option \<Rightarrow> subchannel cl_meth" where
  "find_subchannel_with_state D ch st secure_channel deadline_sec =
     bind (channelz_stub D secure_channel) (\<lambda>stub.
     bind (list_channel_subchannels D stub ch deadline_sec
             (\<lambda>sub. return (if sc_state sub = st then Some sub else None))) (\<lambda>found.
       case found of
         Some sub \<Rightarrow> return sub
       | None \<Rightarrow> using_self (\<lambda>self. raise (AppNotFound (''['' @ xc_hostname self @ ''] Not found a '' @
           state_name st @ '' subchannel for channel_id '' @ str_int (ch_id ch))))))"

text \<open>
  The body of the search: a channel in the expected state is returned, when asked only if one of
  its subchannels is in that state too; one without is skipped.
\<close>

definition check_server_channel ::
  "app_env \<Rightarrow> channel_state \<Rightarrow> int option \<Rightarrow> bool \<Rightarrow> bool \<Rightarrow> channel \<Rightarrow> channel option cl_meth" where
  "check_server_channel D expected_state deadline_sec check_subchannel secure_channel ch =
     (if ch_state ch \<noteq> expected_state then return None
      else if \<not> check_subchannel then return (Some ch)
      else try_except
             (bind (find_subchannel_with_state D ch expected_state secure_channel deadline_sec)
                (\<lambda>_. return (Some ch)))
             (\<lambda>e. isinstance e [CAppNotFound]) (\<lambda>_. return None))"

definition find_server_channel_with_state ::
  "app_env \<Rightarrow> nat \<Rightarrow> channel_state \<Rightarrow> int option \<Rightarrow> bool \<Rightarrow> bool \<Rightarrow> channel cl_meth" where
  "find_server_channel_with_state D n expected_state rpc_deadline check_subchannel secure_channel = using_self (\<lambda>self.
     bind (find_channels D n (xc_server_target self) secure_channel rpc_deadline
             (check_server_channel D expected_state rpc_deadline check_subchannel secure_channel)) (\<lambda>found.
       case found of
         Some ch \<Rightarrow> return ch
       | None \<Rightarrow> raise (ChannelNotFound (''['' @ xc_hostname self @ ''] Client has no '' @
           state_name expected_state @ '' channel with server '' @ xc_server_target self)
           (xc_hostname self) (xc_server_target self) (state_name expected_state))))"

definition calc_calls_in_flight :: "channel \<Rightarrow> int" where
  "calc_calls_in_flight ch =
     (if ch_state ch \<noteq> READY then 0 else ch_started ch - ch_succeeded ch - ch_failed ch)"

definition pause :: "int \<Rightarrow> (trace, unit) act" where
  "pause secs = modify (\<lambda>w. w @ [Sleep secs])"

definition check_channel_in_flight_calls ::
  "app_env \<Rightarrow> channel \<Rightarrow> int option \<Rightarrow> bool \<Rightarrow> int option \<Rightarrow> channel option cl_meth" where
  "check_channel_in_flight_calls D ch wait_between_checks secure_channel deadline_sec =
     (if calc_calls_in_flight ch = 0 then return None
      else bind (call (pause (or_int wait_between_checks 2))) (\<lambda>_.
           bind (channelz_stub D secure_channel) (\<lambda>stub.
           bind (call (get_channel D stub (ch_id ch) deadline_sec)) (\<lambda>channel_upd.
             return (if calc_calls_in_flight channel_upd = 0 \<or> ch_started ch \<noteq> ch_started channel_upd
                     then None else Some channel_upd)))))"

definition find_active_xds_channel ::
  "app_env \<Rightarrow> nat \<Rightarrow> string \<Rightarrow> int option \<Rightarrow> bool \<Rightarrow> channel cl_meth" where
  "find_active_xds_channel D n xds_server_uri rpc_deadline secure_channel =
     bind (find_channels D n xds_server_uri secure_channel rpc_deadline
             (\<lambda>ch. try_except (check_channel_in_flight_calls D ch None secure_channel rpc_deadline)
                (\<lambda>e. isinstance e [CAppNotFound]) (\<lambda>_. return None))) (\<lambda>found.
       case found of
         Some ch \<Rightarrow> return ch
       | None \<Rightarrow> using_self (\<lambda>self. raise (ChannelNotActive (''['' @ xc_hostname self @
           ''] Client has no active channel with xDS control plane '' @ xds_server_uri)
           (xc_hostname self) xds_server_uri)))"

section \<open>Lists of a generator's elements\<close>

text \<open>
  \<open>list(generator)\<close> and loops that append: the loop runs with the list so far beside the object.
\<close>

definition gather ::
  "(('x \<Rightarrow> (('x list \<times> 'o) \<times> trace, unit option) act) \<Rightarrow> (('x list \<times> 'o) \<times> trace, unit option) act)
     \<Rightarrow> ('o \<times> trace, 'x list) act" where
  "gather generator = (\<lambda>(o1, w).
     case generator (\<lambda>x ((acc, o2), w'). (Inr None, ((acc @ [x], o2), w'))) (([], o1), w) of
       (Inl e, ((acc, o2), w')) \<Rightarrow> (Inl e, (o2, w'))
     | (Inr _, ((acc, o2), w')) \<Rightarrow> (Inr acc, (o2, w')))"

definition find_subchannels_with_state ::
  "app_env \<Rightarrow> nat \<Rightarrow> channel_state \<Rightarrow> bool \<Rightarrow> int option \<Rightarrow> subchannel list cl_meth" where
  "find_subchannels_with_state D n st secure_channel deadline_sec =
     bind (channelz_stub D secure_channel) (\<lambda>stub. using_self (\<lambda>self.
       gather (\<lambda>found. find_channels_for_target D n stub (xc_server_target self) deadline_sec
         (\<lambda>ch. list_channel_subchannels D stub ch deadline_sec
            (\<lambda>sub. if sc_state sub = st then found sub else return None)))))"

text \<open>The first of a non-empty list; unpacking or indexing an empty one raises.\<close>

definition first_of :: "exn \<Rightarrow> 'x list \<Rightarrow> ('s, 'x) act" where
  "first_of e xs = (case xs of [] \<Rightarrow> raise e | x # _ \<Rightarrow> return x)"

definition get_active_server_channel_socket :: "app_env \<Rightarrow> nat \<Rightarrow> bool \<Rightarrow> socket cl_meth" where
  "get_active_server_channel_socket D n secure_channel =
     bind (find_server_channel_with_state D n READY None True secure_channel) (\<lambda>ch.
     bind (first_of (OtherError ''IndexError'') (ch_subchannels ch)) (\<lambda>_.
     bind (channelz_stub D secure_channel) (\<lambda>stub.
     bind (gather (list_channel_subchannels D stub ch None)) (\<lambda>subs.
     bind (first_of (ValueError ''not enough values to unpack'') subs) (\<lambda>sub.
     bind (gather (list_subchannels_sockets D stub sub None)) (\<lambda>socks.
       first_of (ValueError ''not enough values to unpack'') socks))))))"

section \<open>Waiting for channels\<close>

text \<open>
  A retried call keeps any value; a channel is kept as an object, and read back unchanged.
\<close>

definition ch_json :: "channel \<Rightarrow> json" where
  "ch_json c = JList [JInt (ch_id c), JStr (ch_target c), JStr (state_name (ch_state c)),
     JInt (ch_started c), JInt (ch_succeeded c), JInt (ch_failed c),
     JList (map (\<lambda>(i, nm). JList [JInt i, JStr nm]) (ch_subchannels c))]"

definition state_of_name :: "string \<Rightarrow> channel_state" where
  "state_of_name s = (if s = ''IDLE'' then IDLE else if s = ''CONNECTING'' then CONNECTING
     else if s = ''READY'' then READY else if s = ''TRANSIENT_FAILURE'' then TRANSIENT_FAILURE
     else if s = ''SHUTDOWN'' then SHUTDOWN else CS_UNKNOWN)"

definition as_int :: "json \<Rightarrow> int" where
  "as_int v = (case v of JInt i \<Rightarrow> i | _ \<Rightarrow> 0)"

definition as_str :: "json \<Rightarrow> string" where
  "as_str v = (case v of JStr t \<Rightarrow> t | _ \<Rightarrow> [])"

definition as_list :: "json \<Rightarrow> json list" where
  "as_list v = (case v of JList vs \<Rightarrow> vs | _ \<Rightarrow> [])"

lemma as_simps [simp]: "as_int (JInt i) = i" "as_str (JStr t) = t" "as_list (JList vs) = vs"
  by (simp_all add: as_int_def as_str_def as_list_def)

definition json_ch :: "json \<Rightarrow> channel" where
  "json_ch v = (let vs = as_list v in
     \<lparr>ch_id = as_int (vs ! 0), ch_target = as_str (vs ! 1), ch_state = state_of_name (as_str (vs ! 2)),
      ch_started = as_int (vs ! 3), ch_succeeded = as_int (vs ! 4), ch_failed = as_int (vs ! 5),
      ch_subchannels = map (\<lambda>r. (as_int (as_list r ! 0), as_str (as_list r ! 1))) (as_list (vs ! 6))\<rparr>)"

lemma json_ch_ch_json [simp]: "json_ch (ch_json c) = c"
proof -
  have "state_of_name (state_name st) = st" for st by (cases st) (simp_all add: state_of_name_def)
  moreover have "map (\<lambda>r. (as_int (as_list r ! 0), as_str (as_list r ! 1)))
      (map (\<lambda>(i, nm). JList [JInt i, JStr nm]) refs) = refs" for refs
    by (induction refs) auto
  ultimately show ?thesis
    by (simp add: json_ch_def ch_json_def Let_def numeral_2_eq_2 numeral_3_eq_3 eval_nat_numeral)
qed

type_synonym cl_tenacity = "retrying \<Rightarrow> json cl_meth \<Rightarrow> json cl_meth"

definition channel_retryer :: "int \<Rightarrow> retrying" where
  "channel_retryer timeout_sec = exponential_retryer_with_timeout 10 25 timeout_sec None None []"

definition or_default :: "int option \<Rightarrow> int \<Rightarrow> int" where
  "or_default a b = (case a of None \<Rightarrow> b | Some i \<Rightarrow> i)"

definition wait_for_server_channel_state ::
  "app_env \<Rightarrow> nat \<Rightarrow> cl_tenacity \<Rightarrow> channel_state \<Rightarrow> int option \<Rightarrow> int option \<Rightarrow> bool \<Rightarrow> channel cl_meth" where
  "wait_for_server_channel_state D n T st timeout_sec rpc_deadline secure_channel =
     bind (T (channel_retryer (or_default timeout_sec 900))
             (bind (find_server_channel_with_state D n st (Some (or_default rpc_deadline 30)) True secure_channel)
                (\<lambda>ch. return (ch_json ch))))
       (\<lambda>v. return (json_ch v))"

definition DEFAULT_TD_XDS_URI :: string where
  "DEFAULT_TD_XDS_URI = ''trafficdirector.googleapis.com:443''"

definition wait_for_xds_channel_active ::
  "app_env \<Rightarrow> nat \<Rightarrow> cl_tenacity \<Rightarrow> string option \<Rightarrow> int option \<Rightarrow> int option \<Rightarrow> bool \<Rightarrow> channel cl_meth" where
  "wait_for_xds_channel_active D n T xds_server_uri timeout_sec rpc_deadline secure_channel =
     bind (T (channel_retryer (or_default timeout_sec 300))
             (bind (find_active_xds_channel D n (or_text xds_server_uri DEFAULT_TD_XDS_URI)
                      (Some (or_default rpc_deadline 30)) secure_channel)
                (\<lambda>ch. return (ch_json ch))))
       (\<lambda>v. return (json_ch v))"

text \<open>
  Both waits add a note to a \<open>RetryError\<close> whose last attempt raised \<open>ChannelNotFound\<close>, and raise it.
\<close>

definition note_channel_not_found :: "string \<Rightarrow> 'a cl_meth \<Rightarrow> 'a cl_meth" where
  "note_channel_not_found reason m =
     try_except m (\<lambda>e. isinstance e [CRetryError])
       (\<lambda>e. raise (case e of
          RetryError (Inl cause) _ \<Rightarrow>
            if isinstance cause [CChannelNotFound] then add_note (note_blanket_error reason) e else e
        | _ \<Rightarrow> e))"

definition wait_for_server_channel_ready ::
  "app_env \<Rightarrow> nat \<Rightarrow> cl_tenacity \<Rightarrow> int option \<Rightarrow> int option \<Rightarrow> bool \<Rightarrow> channel cl_meth" where
  "wait_for_server_channel_ready D n T timeout_sec rpc_deadline secure_channel =
     note_channel_not_found (''The client couldn'' @ [CHR 0x27] @ ''t connect to the server.'')
       (wait_for_server_channel_state D n T READY timeout_sec rpc_deadline secure_channel)"

definition wait_for_active_xds_channel ::
  "app_env \<Rightarrow> nat \<Rightarrow> cl_tenacity \<Rightarrow> string option \<Rightarrow> int option \<Rightarrow> int option \<Rightarrow> bool \<Rightarrow> channel cl_meth" where
  "wait_for_active_xds_channel D n T xds_server_uri timeout_sec rpc_deadline secure_channel =
     note_channel_not_found (''The client couldn'' @ [CHR 0x27] @ ''t connect to the xDS control plane.'')
       (wait_for_xds_channel_active D n T xds_server_uri timeout_sec rpc_deadline secure_channel)"

section \<open>What a search that returns has seen\<close>

lemma grows_channelz_stub [grows_intros]: "grows (channelz_stub D secure_channel)"
  unfolding channelz_stub_def by (auto intro!: grows_intros)

lemma grows_pause [grows_intros]: "grows (call (pause secs))"
  by (simp add: grows_def call_def pause_def modify_def later_def)

lemma grows_subchannels [grows_intros]:
  "(\<And>sub. grows (body sub)) \<Longrightarrow> grows (list_channel_subchannels D stub ch d body)"
  unfolding list_channel_subchannels_def by (auto intro!: grows_intros)

lemma grows_find_subchannel [grows_intros]: "grows (find_subchannel_with_state D ch st secure_channel d)"
  unfolding find_subchannel_with_state_def by (auto intro!: grows_intros)

lemma grows_check_server [grows_intros]: "grows (check_server_channel D st d chk secure_channel ch)"
  unfolding check_server_channel_def by (auto intro!: grows_intros)

lemma grows_in_flight [grows_intros]: "grows (check_channel_in_flight_calls D ch wait secure_channel d)"
  unfolding check_channel_in_flight_calls_def by (auto intro!: grows_intros)

lemma find_subchannel_found:
  assumes "find_subchannel_with_state D ch st secure_channel d s = (Inr sub, s')"
  shows "sc_state sub = st \<and> (\<exists>stub i. i \<in> fst ` set (ch_subchannels ch)
    \<and> reported (ae_subchannel D) (snd s) (snd s') (rpc_event stub (GetSubchannel i) d) sub)"
proof -
  let ?want = "\<lambda>sub. return (if sc_state sub = st then Some sub else None) :: (xds_client \<times> trace, subchannel option) act"
  obtain stub s1 where stub: "channelz_stub D secure_channel s = (Inr stub, s1)"
    and listed: "list_channel_subchannels D stub ch d ?want s1 = (Inr (Some sub), s')"
    using assms unfolding find_subchannel_with_state_def
    by (auto simp: bind_eq_Inr using_self_def raise_def return_def split: option.splits)
  obtain p s2 where p: "p \<in> set (ch_subchannels ch)" "later s1 s2"
    "bind (call (get_subchannel D stub (fst p) d)) ?want s2 = (Inr (Some sub), s')"
    using listed unfolding list_channel_subchannels_def
    by (rule for_each_found) (auto intro!: grows_intros split: prod.splits)
  then obtain sub' s3 where got: "call (get_subchannel D stub (fst p) d) s2 = (Inr sub', s3)"
    "?want sub' s3 = (Inr (Some sub), s')" by (auto simp: bind_eq_Inr)
  then have "sub' = sub" "sc_state sub = st" "s3 = s'" by (auto simp: return_def split: if_splits)
  moreover have "reported (ae_subchannel D) (snd s2) (snd s3) (rpc_event stub (GetSubchannel (fst p)) d) sub'"
    using got(1) unfolding get_subchannel_def by (rule call_unary_reported)
  moreover have "prefix (snd s) (snd s2)"
    using growsD [OF grows_channelz_stub stub] p(2) by (metis later_def prefix_order.trans)
  ultimately show ?thesis using p(1) by (metis image_eqI prefix_order.refl reported_mono)
qed

lemma check_server_channel_found:
  assumes "check_server_channel D st d chk secure_channel x s = (Inr (Some ch), s')"
  shows "x = ch \<and> ch_state ch = st \<and> (chk \<longrightarrow> (\<exists>sub stub i. sc_state sub = st \<and> i \<in> fst ` set (ch_subchannels ch)
    \<and> reported (ae_subchannel D) (snd s) (snd s') (rpc_event stub (GetSubchannel i) d) sub))"
proof (cases "ch_state x = st \<and> chk")
  case False
  with assms show ?thesis by (auto simp: check_server_channel_def return_def split: if_splits)
next
  case True
  with assms have "try_except (bind (find_subchannel_with_state D x st secure_channel d) (\<lambda>_. return (Some x)))
      (\<lambda>e. isinstance e [CAppNotFound]) (\<lambda>_. return None) s = (Inr (Some ch), s')"
    by (simp add: check_server_channel_def)
  then obtain sub where "find_subchannel_with_state D x st secure_channel d s = (Inr sub, s')" "x = ch"
    by (auto simp: try_except_def bind_def return_def split: prod.splits sum.splits if_splits)
  with True find_subchannel_found [of D x st secure_channel d s sub s'] show ?thesis by blast
qed

text \<open>A search over the channels of a target that gives a value got it for a listed channel.\<close>

lemma find_channels_found:
  assumes "find_channels D n trg secure_channel d body s = (Inr (Some v), s')" and "\<And>x. grows (body x)"
  obtains ch s1 s2 stub start page final where "body ch s2 = (Inr (Some v), s')" and "later s s2"
    and "later s1 s2" and "sublist trg (ch_target ch)" and "ch \<in> set page"
    and "reported (ae_top_channels D) (snd s) (snd s1) (rpc_event stub (GetTopChannels start) d) (page, final)"
proof -
  let ?body = "\<lambda>ch. if sublist trg (ch_target ch) then body ch else return None"
  let ?fetch = "\<lambda>stub start. call (call_unary_with_deadline (ae_top_channels D) stub (GetTopChannels start) d)
    :: (xds_client \<times> trace, channel list \<times> bool) act"
  obtain stub s0 where stub: "channelz_stub D secure_channel s = (Inr stub, s0)"
    and listed: "pages n (?fetch stub) ch_id ?body (-1) s0 = (Inr (Some v), s')"
    using assms(1) unfolding find_channels_def find_channels_for_target_def list_channels_def
    by (auto simp: bind_eq_Inr)
  have grow: "grows (?body x)" "grows (?fetch stub i)" for x i
    using assms(2) by (auto intro!: grows_intros)
  obtain i t0 t1 t2 page final x where it: "?fetch stub i t0 = (Inr (page, final), t1)" "x \<in> set page"
    "?body x t2 = (Inr (Some v), s')" "later s0 t0" "later t1 t2"
    using listed grow by (rule pages_found)
  have first: "later s s0" using grows_channelz_stub stub by (rule growsD)
  have asked: "reported (ae_top_channels D) (snd t0) (snd t1) (rpc_event stub (GetTopChannels i) d) (page, final)"
    using it(1) by (rule call_unary_reported)
  then have "reported (ae_top_channels D) (snd s) (snd t1) (rpc_event stub (GetTopChannels i) d) (page, final)"
    using first it(4) unfolding later_def by (metis prefix_order.refl prefix_order.trans reported_mono)
  moreover from it(3) have "sublist trg (ch_target x)" "body x t2 = (Inr (Some v), s')"
    by (auto simp: return_def split: if_splits)
  moreover have "later s t2"
    using first it(4,5) growsD [OF grow(2) it(1)] by (meson later_trans)
  ultimately show thesis using it(2,5) by (intro that)
qed

lemma find_server_channel_sound:
  assumes "find_server_channel_with_state D n st d chk secure_channel (self, w) = (Inr ch, (self', w'))"
  shows "ch_state ch = st \<and> sublist (xc_server_target self) (ch_target ch)
    \<and> (\<exists>stub start page final. ch \<in> set page
        \<and> reported (ae_top_channels D) w w' (rpc_event stub (GetTopChannels start) d) (page, final))
    \<and> (chk \<longrightarrow> (\<exists>sub stub i. sc_state sub = st \<and> i \<in> fst ` set (ch_subchannels ch)
        \<and> reported (ae_subchannel D) w w' (rpc_event stub (GetSubchannel i) d) sub))"
proof -
  let ?body = "check_server_channel D st d chk secure_channel"
  have "find_channels D n (xc_server_target self) secure_channel d ?body (self, w) = (Inr (Some ch), (self', w'))"
    using assms unfolding find_server_channel_with_state_def
    by (auto simp: using_self_def bind_eq_Inr raise_def return_def split: option.splits)
  then obtain x s1 s2 stub start page final where it: "?body x s2 = (Inr (Some ch), (self', w'))" "later (self, w) s2"
    "later s1 s2" "sublist (xc_server_target self) (ch_target x)" "x \<in> set page"
    "reported (ae_top_channels D) (snd (self, w)) (snd s1) (rpc_event stub (GetTopChannels start) d) (page, final)"
    by (rule find_channels_found) (rule grows_check_server)
  note found = check_server_channel_found [OF it(1)]
  have to_end: "prefix (snd s2) w'" "prefix (snd s1) w'" "prefix w (snd s2)"
    using growsD [OF grows_check_server it(1)] it(2,3) by (auto simp: later_def dest: prefix_order.trans)
  have listed: "reported (ae_top_channels D) w w' (rpc_event stub (GetTopChannels start) d) (page, final)"
    using it(6) to_end(2) by (auto elim: reported_mono)
  have "\<exists>sub stub i. sc_state sub = st \<and> i \<in> fst ` set (ch_subchannels ch)
        \<and> reported (ae_subchannel D) w w' (rpc_event stub (GetSubchannel i) d) sub" if chk
  proof -
    from found that obtain sub stub' i where "sc_state sub = st" "i \<in> fst ` set (ch_subchannels ch)"
      "reported (ae_subchannel D) (snd s2) w' (rpc_event stub' (GetSubchannel i) d) sub" by auto
    moreover from this(3) have "reported (ae_subchannel D) w w' (rpc_event stub' (GetSubchannel i) d) sub"
      by (rule reported_mono) (use to_end in simp_all)
    ultimately show ?thesis by blast
  qed
  with found it(4,5) listed show ?thesis by blast
qed

lemma in_flight_twice:
  assumes "check_channel_in_flight_calls D ch wait secure_channel d s = (Inr (Some upd), s')"
  shows "calc_calls_in_flight ch \<noteq> 0 \<and> calc_calls_in_flight upd \<noteq> 0 \<and> ch_started upd = ch_started ch
    \<and> (\<exists>stub h. prefix (snd s @ [Sleep (or_int wait 2)]) h
        \<and> reported (ae_channel D) h (snd s') (rpc_event stub (GetChannel (ch_id ch)) d) upd)"
proof -
  from assms obtain stub s1 where
    busy: "calc_calls_in_flight ch \<noteq> 0" "calc_calls_in_flight upd \<noteq> 0" "ch_started upd = ch_started ch"
    and stub: "channelz_stub D secure_channel (fst s, snd s @ [Sleep (or_int wait 2)]) = (Inr stub, s1)"
    and got: "call (get_channel D stub (ch_id ch) d) s1 = (Inr upd, s')"
    unfolding check_channel_in_flight_calls_def
    by (auto simp: bind_eq_Inr return_def pause_def modify_def call_def split: if_splits prod.splits)
  from got have "call (call_unary_with_deadline (ae_channel D) stub (GetChannel (ch_id ch)) d) s1 = (Inr upd, s')"
    by (auto simp: call_def get_channel_def try_except_def raise_def split: prod.splits sum.splits if_splits)
  then have "reported (ae_channel D) (snd s1) (snd s') (rpc_event stub (GetChannel (ch_id ch)) d) upd"
    by (rule call_unary_reported)
  moreover have "prefix (snd s @ [Sleep (or_int wait 2)]) (snd s1)"
    using growsD [OF grows_channelz_stub stub] by (simp add: later_def)
  ultimately show ?thesis using busy by blast
qed

lemma in_flight_ready: "calc_calls_in_flight ch \<noteq> 0 \<Longrightarrow> ch_state ch = READY"
  by (simp add: calc_calls_in_flight_def split: if_splits)

section \<open>What a search finds\<close>

lemma channelz_stub_made: "\<exists>stub s1. channelz_stub D False s = (Inr stub, s1)"
  by (cases s) (auto simp: channelz_stub_def cached_stub_def make_channel_def create_new_channel_def
      using_self_def bind_def andthen_def assign_def call_def return_def split: option.split)

lemma find_subchannel_value:
  assumes "\<And>h stub i. ae_subchannel D h (rpc_event stub (GetSubchannel i) d) = Inr (subs i)"
  shows "if list_ex (\<lambda>(i, _). sc_state (subs i) = st) (ch_subchannels ch)
    then \<exists>sub. fst (find_subchannel_with_state D ch st False d s) = Inr sub
    else \<exists>msg. fst (find_subchannel_with_state D ch st False d s) = Inl (AppNotFound msg)"
proof -
  let ?want = "\<lambda>sub. return (if sc_state sub = st then Some sub else None) :: (xds_client \<times> trace, subchannel option) act"
  let ?f = "\<lambda>(i, nm). Inr (if sc_state (subs i) = st then Some (subs i) else None) :: exn + subchannel option"
  obtain stub s1 where stub: "channelz_stub D False s = (Inr stub, s1)" using channelz_stub_made by blast
  have step: "fst ((\<lambda>(i, nm). bind (call (get_subchannel D stub i d)) ?want) x s) = ?f x" for x s
    using assms by (auto simp: bind_def call_def get_subchannel_def call_unary_with_deadline_def return_def
        split: prod.splits sum.splits)
  then have listed: "fst (list_channel_subchannels D stub ch d ?want s1) = first_result ?f (ch_subchannels ch)"
    unfolding list_channel_subchannels_def by (rule for_each_value)
  have spec: "first_result ?f refs = Inr (if list_ex (\<lambda>(i, _). sc_state (subs i) = st) refs
      then map_option (\<lambda>(i, _). subs i) (List.find (\<lambda>(i, _). sc_state (subs i) = st) refs) else None)" for refs
    by (induction refs) (auto split: prod.splits)
  obtain out s2 where run: "list_channel_subchannels D stub ch d ?want s1 = (out, s2)" by (rule prod.exhaust)
  have "out = Inr (if list_ex (\<lambda>(i, _). sc_state (subs i) = st) (ch_subchannels ch)
      then map_option (\<lambda>(i, _). subs i) (List.find (\<lambda>(i, _). sc_state (subs i) = st) (ch_subchannels ch)) else None)"
    using listed [unfolded run fst_conv] spec by (rule trans)
  with run stub show ?thesis
    by (cases "List.find (\<lambda>(i, _). sc_state (subs i) = st) (ch_subchannels ch)")
      (auto simp: find_subchannel_with_state_def bind_def using_self_def raise_def return_def list_ex_find)
qed

definition wanted_channel :: "(int \<Rightarrow> subchannel) \<Rightarrow> channel_state \<Rightarrow> bool \<Rightarrow> channel \<Rightarrow> bool" where
  "wanted_channel subs st chk ch \<longleftrightarrow> ch_state ch = st \<and>
     (chk \<longrightarrow> list_ex (\<lambda>(i, _). sc_state (subs i) = st) (ch_subchannels ch))"

lemma check_server_channel_value:
  assumes "\<And>h stub i. ae_subchannel D h (rpc_event stub (GetSubchannel i) d) = Inr (subs i)"
  shows "fst (check_server_channel D st d chk False ch s)
    = Inr (if wanted_channel subs st chk ch then Some ch else None)"
proof (cases "ch_state ch = st \<and> chk")
  case True
  obtain out s' where out: "find_subchannel_with_state D ch st False d s = (out, s')" by (rule prod.exhaust)
  show ?thesis
    using True out find_subchannel_value [of D d subs st ch s, OF assms]
    by (auto simp: check_server_channel_def wanted_channel_def try_except_def bind_def return_def split: if_splits)
qed (auto simp: check_server_channel_def wanted_channel_def return_def)

section \<open>What a search may raise\<close>

definition raises_only :: "(exn \<Rightarrow> bool) \<Rightarrow> ('s, 'a) act \<Rightarrow> bool" where
  "raises_only P m \<longleftrightarrow> (\<forall>s e. fst (m s) = Inl e \<longrightarrow> P e)"

named_theorems raises_intros "rules that bound the exceptions of an action"

lemma raises_onlyD: "raises_only P m \<Longrightarrow> m s = (Inl e, s') \<Longrightarrow> P e"
  unfolding raises_only_def by (metis fst_conv)

lemma raises_basic [raises_intros]:
  "raises_only P (return v)" "P e \<Longrightarrow> raises_only P (raise e)" "raises_only P (assign u)"
  "(\<And>self. raises_only P (f self)) \<Longrightarrow> raises_only P (using_self f)"
  "raises_only P m \<Longrightarrow> raises_only P (call m)"
  "raises_only P (pause secs)"
  by (auto simp: raises_only_def return_def raise_def assign_def using_self_def call_def pause_def modify_def
      split: prod.splits) (metis fst_conv)

lemma raises_bind [raises_intros]:
  "raises_only P m \<Longrightarrow> (\<And>x. raises_only P (k x)) \<Longrightarrow> raises_only P (bind m k)"
  unfolding raises_only_def
proof (intro allI impI)
  fix s e
  assume m: "\<forall>s e. fst (m s) = Inl e \<longrightarrow> P e" and k: "\<And>x. \<forall>s e. fst (k x s) = Inl e \<longrightarrow> P e"
    and run: "fst (bind m k s) = Inl e"
  obtain r s1 where r: "m s = (r, s1)" by (rule prod.exhaust)
  show "P e"
    using m [rule_format, of s e] k [of "projr r", rule_format, of s1 e] run r by (cases r) (auto simp: bind_def)
qed

lemma raises_andthen [raises_intros]: "raises_only P m \<Longrightarrow> raises_only P k \<Longrightarrow> raises_only P (andthen m k)"
  unfolding andthen_def by (rule raises_bind)

lemma raises_option [raises_intros]:
  "raises_only P a \<Longrightarrow> (\<And>v. raises_only P (b v)) \<Longrightarrow> raises_only P (case x of None \<Rightarrow> a | Some v \<Rightarrow> b v)"
  by (simp split: option.split)

lemma raises_handled:
  assumes "raises_only Q m" and "\<And>e. Q e \<Longrightarrow> c e \<Longrightarrow> raises_only P (h e)" and "\<And>e. Q e \<Longrightarrow> \<not> c e \<Longrightarrow> P e"
  shows "raises_only P (try_except m c h)"
  unfolding raises_only_def
proof (intro allI impI)
  fix s e
  assume run: "fst (try_except m c h s) = Inl e"
  obtain r s1 where r: "m s = (r, s1)" by (rule prod.exhaust)
  with run obtain e1 where e1: "r = Inl e1" by (cases r) (auto simp: try_except_def)
  with r assms(1) have "Q e1" by (auto dest: raises_onlyD)
  with assms(2,3) [of e1] run r e1 show "P e"
    unfolding raises_only_def by (cases "c e1") (auto simp: try_except_def)
qed

lemma raises_for_each [raises_intros]: "(\<And>x. raises_only P (body x)) \<Longrightarrow> raises_only P (for_each body xs)"
  by (induction xs) (auto intro!: raises_intros)

lemma raises_pages [raises_intros]:
  assumes "P Diverges" and "\<And>i. raises_only P (fetch i)" and "\<And>x. raises_only P (body x)"
  shows "raises_only P (pages n fetch ident body start)"
proof (induction n arbitrary: start)
  case (Suc n)
  have "raises_only P (let start' = foldl max (start + 1) (map ident items)
       in if start' < 0 \<or> \<not> last_page then pages n fetch ident body start' else return None)"
    for items last_page using Suc by (simp add: Let_def raises_basic)
  then show ?case
    by (auto intro!: raises_bind raises_option raises_for_each raises_basic assms)
qed (simp add: raises_basic assms(1))

text \<open>The documented errors of a call over a connection.\<close>

definition rpc_errors_only :: "app_env \<Rightarrow> bool" where
  "rpc_errors_only D \<longleftrightarrow> (\<forall>h ev e. ae_top_channels D h ev = Inl e \<or> ae_channel D h ev = Inl e
     \<longrightarrow> isinstance e [CRpcError])"

lemma raises_channelz_stub [raises_intros]: "raises_only P (channelz_stub D False)"
  using channelz_stub_made unfolding raises_only_def by (metis fst_conv sum.distinct(1))

definition other_error :: "exn \<Rightarrow> bool" where
  "other_error e \<longleftrightarrow> \<not> isinstance e [CChannelNotFound, CRetryError]"

lemma other_errors [simp]:
  "other_error (AppNotFound m)" "other_error (ChannelNotActive m a b)" "other_error (RpcError c m)"
  "other_error Diverges" "\<not> other_error (RetryError r i)" "\<not> other_error (ChannelNotFound m a b c')"
  by (simp_all add: other_error_def)

lemma find_active_raises:
  assumes "rpc_errors_only D"
  shows "raises_only other_error (find_active_xds_channel D n uri d False)"
proof -
  let ?P = other_error
  have kind: "?P e" if "isinstance e [CRpcError]" for e using that by (cases e) (simp_all add: other_error_def)
  have listing: "raises_only ?P (call_unary_with_deadline (ae_top_channels D) stub c d)" for stub c
    using assms kind unfolding raises_only_def call_unary_with_deadline_def rpc_errors_only_def by fastforce
  have "raises_only (\<lambda>e. isinstance e [CRpcError])
      (call_unary_with_deadline (ae_channel D) stub c d)" for stub c
    using assms unfolding raises_only_def call_unary_with_deadline_def rpc_errors_only_def by fastforce
  then have loading: "raises_only ?P (get_channel D stub i d)" for stub i
    unfolding get_channel_def
    by (rule raises_handled) (auto intro!: raises_basic split: exn.splits option.splits)
  have "raises_only ?P (check_channel_in_flight_calls D ch None False d)" for ch
    unfolding check_channel_in_flight_calls_def by (auto intro!: raises_intros loading)
  then have "raises_only ?P (try_except (check_channel_in_flight_calls D ch None False d)
      (\<lambda>e. isinstance e [CAppNotFound]) (\<lambda>_. return None))" for ch
    by (rule raises_handled) (auto intro: raises_basic)
  then show ?thesis
    unfolding find_active_xds_channel_def find_channels_def find_channels_for_target_def list_channels_def
    by (auto intro!: raises_bind raises_pages raises_option raises_basic raises_channelz_stub listing)
qed

section \<open>A process to talk to\<close>

text \<open>Two channels, listed one per page; every subchannel is ready.\<close>

definition demo_chans :: "channel list" where
  "demo_chans =
     [\<lparr>ch_id = 1, ch_target = ''dns:srv'', ch_state = READY, ch_started = 5, ch_succeeded = 3, ch_failed = 0,
        ch_subchannels = [(7, ''s'')]\<rparr>,
      \<lparr>ch_id = 4, ch_target = ''dns:td'', ch_state = READY, ch_started = 1, ch_succeeded = 0, ch_failed = 0,
        ch_subchannels = []\<rparr>]"

definition demo_sub :: subchannel where
  "demo_sub = \<lparr>sc_id = 7, sc_target = ''srv'', sc_state = READY, sc_sockets = []\<rparr>"

definition demo_app :: app_env where
  "demo_app =
     \<lparr>ae_creds_token = (\<lambda>h host. Inr ''token''),
      ae_top_channels = (\<lambda>h ev. case ev of
          Rpc stub (GetTopChannels start) d \<Rightarrow>
            (let rest = filter (\<lambda>c. start \<le> ch_id c) demo_chans in Inr (take 1 rest, drop 1 rest = []))
        | _ \<Rightarrow> Inl (RpcError None [])),
      ae_channel = (\<lambda>h ev. case ev of
          Rpc stub (GetChannel i) d \<Rightarrow>
            (case List.find (\<lambda>c. ch_id c = i) demo_chans of Some c \<Rightarrow> Inr c | None \<Rightarrow> Inl (RpcError (Some 5) []))
        | _ \<Rightarrow> Inl (RpcError None [])),
      ae_subchannel = (\<lambda>h ev. Inr demo_sub),
      ae_socket = (\<lambda>h ev. Inl (RpcError None [])),
      ae_servers = (\<lambda>h ev. Inr ([], True)),
      ae_server_sockets = (\<lambda>h ev. Inr ([], True)),
      ae_message = (\<lambda>h ev. Inr JNull)\<rparr>"

definition demo_client :: xds_client where
  "demo_client = client_init ''ip'' 80 ''srv'' ''host'' None None None"

lemma demo_serves: "serves_channels demo_app demo_chans"
proof -
  have "\<exists>page rest. ae_top_channels demo_app h (rpc_event stub (GetTopChannels start) d) = Inr (page, rest = [])
      \<and> filter (\<lambda>c. start \<le> ch_id c) demo_chans = page @ rest \<and> (page = [] \<longrightarrow> rest = [])" for h stub start d
    by (rule exI [of _ "take 1 (filter (\<lambda>c. start \<le> ch_id c) demo_chans)"],
        rule exI [of _ "drop 1 (filter (\<lambda>c. start \<le> ch_id c) demo_chans)"])
      (auto simp: demo_app_def rpc_event_def Let_def)
  then show ?thesis by (simp add: serves_channels_def demo_chans_def)
qed

lemma demo_subs: "ae_subchannel demo_app h (rpc_event stub (GetSubchannel i) d) = Inr ((\<lambda>i. demo_sub) i)"
  by (simp add: demo_app_def)

lemma demo_rpc_errors: "rpc_errors_only demo_app"
  by (auto simp: rpc_errors_only_def demo_app_def Let_def split: event.splits rpc_call.splits option.splits)

section \<open>Properties\<close>

text \<open>
  A channel that \<open>find_server_channel_with_state\<close> returns is in the expected state, has the
  server's target in its own, and was listed by an answer of this call; when asked for, one of its
  subchannels was reported in the expected state too.
\<close>

theorem server_channel_sound:
  assumes "find_server_channel_with_state D n st d chk secure_channel (self, w) = (Inr ch, (self', w'))"
  shows "ch_state ch = st \<and> sublist (xc_server_target self) (ch_target ch)
    \<and> (\<exists>stub start page final. ch \<in> set page
        \<and> reported (ae_top_channels D) w w' (rpc_event stub (GetTopChannels start) d) (page, final))
    \<and> (chk \<longrightarrow> (\<exists>sub stub i. sc_state sub = st \<and> i \<in> fst ` set (ch_subchannels ch)
        \<and> reported (ae_subchannel D) w w' (rpc_event stub (GetSubchannel i) d) sub))"
  using assms by (rule find_server_channel_sound)

theorem server_channel_sound_witness:
  "\<exists>ch self' w'. find_server_channel_with_state demo_app 3 READY None True False (demo_client, []) = (Inr ch, (self', w'))
    \<and> ch_state ch = READY \<and> sublist ''srv'' (ch_target ch)
    \<and> (\<exists>sub stub i. sc_state sub = READY \<and> i \<in> fst ` set (ch_subchannels ch)
        \<and> reported (ae_subchannel demo_app) [] w' (rpc_event stub (GetSubchannel i) None) sub)"
proof -
  have "fst (find_server_channel_with_state demo_app 3 READY None True False (demo_client, [])) = Inr (demo_chans ! 0)"
    by code_simp
  then obtain self' w' where run:
    "find_server_channel_with_state demo_app 3 READY None True False (demo_client, []) = (Inr (demo_chans ! 0), (self', w'))"
    by (metis fst_conv surj_pair)
  have "xc_server_target demo_client = ''srv''" by code_simp
  with run server_channel_sound [OF run] show ?thesis by auto
qed

text \<open>
  A channel that \<open>find_active_xds_channel\<close> returns was seen active twice: an answer of this call
  listed a channel to the control plane in state \<open>READY\<close> with calls in flight, and after a pause of
  two seconds the channel with the same id was reported as returned: still \<open>READY\<close>, with calls in
  flight, and with no call started in between.
\<close>

theorem active_channel_sound:
  assumes "find_active_xds_channel D n uri d secure_channel (self, w) = (Inr upd, (self', w'))"
  shows "\<exists>ch stub start page final stub' h h'. ch \<in> set page \<and> sublist uri (ch_target ch)
    \<and> ch_state ch = READY \<and> calc_calls_in_flight ch \<noteq> 0
    \<and> ch_state upd = READY \<and> calc_calls_in_flight upd \<noteq> 0 \<and> ch_started upd = ch_started ch
    \<and> reported (ae_top_channels D) w h (rpc_event stub (GetTopChannels start) d) (page, final)
    \<and> prefix (h @ [Sleep 2]) h'
    \<and> reported (ae_channel D) h' w' (rpc_event stub' (GetChannel (ch_id ch)) d) upd"
proof -
  let ?body = "\<lambda>ch. try_except (check_channel_in_flight_calls D ch None secure_channel d)
      (\<lambda>e. isinstance e [CAppNotFound]) (\<lambda>_. return None) :: (xds_client \<times> trace, channel option) act"
  have "find_channels D n uri secure_channel d ?body (self, w) = (Inr (Some upd), (self', w'))"
    using assms unfolding find_active_xds_channel_def
    by (auto simp: using_self_def bind_eq_Inr raise_def return_def split: option.splits)
  then obtain ch s1 s2 stub start page final where it: "?body ch s2 = (Inr (Some upd), (self', w'))"
    "later s1 s2" "sublist uri (ch_target ch)" "ch \<in> set page"
    "reported (ae_top_channels D) (snd (self, w)) (snd s1) (rpc_event stub (GetTopChannels start) d) (page, final)"
    by (rule find_channels_found) (auto intro!: grows_intros)
  from it(1) have "check_channel_in_flight_calls D ch None secure_channel d s2 = (Inr (Some upd), (self', w'))"
    by (auto simp: try_except_def return_def split: prod.splits sum.splits if_splits)
  from in_flight_twice [OF this] obtain stub' h' where busy: "calc_calls_in_flight ch \<noteq> 0"
    "calc_calls_in_flight upd \<noteq> 0" "ch_started upd = ch_started ch" "prefix (snd s2 @ [Sleep 2]) h'"
    "reported (ae_channel D) h' w' (rpc_event stub' (GetChannel (ch_id ch)) d) upd"
    by (auto simp: or_int_def)
  have "reported (ae_top_channels D) w (snd s2) (rpc_event stub (GetTopChannels start) d) (page, final)"
    using it(2,5) by (auto simp: later_def elim: reported_mono)
  with it(3,4) busy in_flight_ready show ?thesis by blast
qed

theorem active_channel_sound_witness:
  "\<exists>w' ch stub start page final stub' h h'. ch \<in> set page \<and> sublist ''td'' (ch_target ch)
    \<and> ch_state ch = READY \<and> calc_calls_in_flight ch \<noteq> 0
    \<and> ch_state (demo_chans ! 1) = READY \<and> calc_calls_in_flight (demo_chans ! 1) \<noteq> 0
    \<and> ch_started (demo_chans ! 1) = ch_started ch
    \<and> reported (ae_top_channels demo_app) [] h (rpc_event stub (GetTopChannels start) None) (page, final)
    \<and> prefix (h @ [Sleep 2]) h'
    \<and> reported (ae_channel demo_app) h' w' (rpc_event stub' (GetChannel (ch_id ch)) None) (demo_chans ! 1)"
proof -
  have "fst (find_active_xds_channel demo_app 3 ''td'' None False (demo_client, [])) = Inr (demo_chans ! 1)"
    by code_simp
  then obtain self' w' where run:
    "find_active_xds_channel demo_app 3 ''td'' None False (demo_client, []) = (Inr (demo_chans ! 1), (self', w'))"
    by (metis fst_conv surj_pair)
  show ?thesis by (rule exI [of _ w']) (rule active_channel_sound [OF run])
qed

text \<open>
  C40: on a client whose process lists its channels as the protocol says and whose subchannels do
  not change meanwhile, the search over the pages is the search over the list of all channels: it
  returns the first one to the target in the expected state (with a subchannel in that state, when
  asked for), and raises \<open>ChannelNotFound\<close> when there is none. More steps than channels are enough.
\<close>

theorem server_channel_search:
  assumes "serves_channels D chans" and "length chans < n"
    and "\<And>h stub i. ae_subchannel D h (rpc_event stub (GetSubchannel i) d) = Inr (subs i)"
  shows "fst (find_server_channel_with_state D n st d chk False (self, w)) =
    (case List.find (\<lambda>ch. sublist (xc_server_target self) (ch_target ch) \<and> wanted_channel subs st chk ch) chans of
       Some ch \<Rightarrow> Inr ch
     | None \<Rightarrow> Inl (ChannelNotFound (''['' @ xc_hostname self @ ''] Client has no '' @ state_name st @
         '' channel with server '' @ xc_server_target self) (xc_hostname self) (xc_server_target self) (state_name st)))"
proof -
  let ?P = "\<lambda>ch. sublist (xc_server_target self) (ch_target ch) \<and> wanted_channel subs st chk ch"
  let ?body = "check_server_channel D st d chk False"
  obtain stub s1 where stub: "channelz_stub D False (self, w) = (Inr stub, s1)" using channelz_stub_made by blast
  have "fst ((\<lambda>ch. if sublist (xc_server_target self) (ch_target ch) then ?body ch else return None) x s)
      = Inr (if ?P x then Some x else None)" for x s
    using check_server_channel_value [of D d subs st chk x s, OF assms(3)] by (simp add: return_def)
  then have "fst (find_channels_for_target D n stub (xc_server_target self) d ?body s1) = Inr (List.find ?P chans)"
    unfolding find_channels_for_target_def list_channels_def
    by (rule pages_search [OF serves_channels_pages [OF assms(1)] assms(2)])
  moreover obtain out s2 where "find_channels_for_target D n stub (xc_server_target self) d ?body s1 = (out, s2)"
    by (rule prod.exhaust)
  ultimately have "find_channels D n (xc_server_target self) False d ?body (self, w) = (Inr (List.find ?P chans), s2)"
    using stub by (simp add: find_channels_def bind_def)
  then show ?thesis
    by (simp add: find_server_channel_with_state_def using_self_def bind_def raise_def return_def split: option.split)
qed

theorem server_channel_search_witness:
  "fst (find_server_channel_with_state demo_app 3 READY None True False (demo_client, [])) = Inr (demo_chans ! 0)"
proof -
  have "List.find (\<lambda>ch. sublist (xc_server_target demo_client) (ch_target ch)
      \<and> wanted_channel (\<lambda>i. demo_sub) READY True ch) demo_chans = Some (demo_chans ! 0)"
    by code_simp
  moreover have "length demo_chans < 3" by (simp add: demo_chans_def)
  ultimately show ?thesis
    by (subst server_channel_search [OF demo_serves _ demo_subs]) simp_all
qed

text \<open>
  Consuming the channel listing of a process that follows the protocol yields every channel
  exactly once, in the order of the ids, whatever the sizes of the pages; more steps than channels
  are enough.
\<close>

theorem channels_listed_once:
  assumes "serves_channels D chans" and "length chans < n"
  shows "fst (gather (list_channels D n stub d) s) = Inr chans"
proof -
  let ?body = "\<lambda>x ((acc, o2), w'). (Inr None, ((acc @ [x], o2), w'))
    :: (exn + unit option) \<times> ((channel list \<times> 'a) \<times> trace)"
  have all: "filter (\<lambda>c. -1 < ch_id c) chans = chans"
    using assms(1) unfolding serves_channels_def by (intro filter_True) force
  have "\<exists>w'. list_channels D n stub d ?body (([], fst s), snd s) = (Inr None, (([] @ filter (\<lambda>c. -1 < ch_id c) chans, fst s), w'))"
    unfolding list_channels_def using assms(2)
    by (intro pages_append [OF serves_channels_pages [OF assms(1)]])
      (simp_all add: all call_def split: prod.split)
  then show ?thesis by (auto simp: gather_def all split_beta)
qed

theorem channels_listed_once_witness:
  "fst (gather (list_channels demo_app 3 (InsecureChannel ''ip:80'') None) (demo_client, [])) = Inr demo_chans"
  by (rule channels_listed_once [OF demo_serves]) (simp add: demo_chans_def)

text \<open>
  Although it has a note for that case, a wait for the control plane never says that the client
  could not connect: when the connections raise nothing but RPC errors, the \<open>RetryError\<close> of the wait
  has an empty note. (The note is for \<open>ChannelNotFound\<close>, and the search raises \<open>ChannelNotActive\<close>.)
\<close>

theorem xds_note_never_added:
  assumes "tenacity_ok T" and "rpc_errors_only D"
    and "wait_for_active_xds_channel D n T uri timeout_sec rpc_deadline False s = (Inl (RetryError out info), s')"
  shows "ri_note info = []"
proof -
  let ?cfg = "channel_retryer (or_default timeout_sec 300)"
  let ?fn = "bind (find_active_xds_channel D n (or_text uri DEFAULT_TD_XDS_URI) (Some (or_default rpc_deadline 30)) False)
      (\<lambda>ch. return (ch_json ch))"
  have cfg: "rt_stop ?cfg = [StopAfterDelay (or_default timeout_sec 300)]"
    "any_wanted (rt_retry ?cfg) (Inl e) = Inr (e \<noteq> Diverges)" "any_wanted (rt_retry ?cfg) (Inr v) = Inr False"
    "give_up ?cfg o1 nm = RetryError o1 (RetryInfo nm (Some (or_default timeout_sec 300)) 0 False [])" for e v o1 nm
    by (simp_all add: channel_retryer_def exponential_retryer_with_timeout_def build_retry_conditions_def Let_def
        give_up_def on_error_callback_def)
  have only: "raises_only other_error ?fn"
    by (intro raises_bind find_active_raises assms(2) raises_basic)
  obtain e s1 where e: "T ?cfg ?fn s = (Inl e, s1)" "isinstance e [CRetryError]"
    "RetryError out info = (case e of
          RetryError (Inl cause) _ \<Rightarrow>
            if isinstance cause [CChannelNotFound] then add_note (note_blanket_error (''The client couldn'' @ [CHR 0x27] @
              ''t connect to the xDS control plane.'')) e else e
        | _ \<Rightarrow> e)"
    using assms(3) unfolding wait_for_active_xds_channel_def note_channel_not_found_def wait_for_xds_channel_active_def
    by (auto simp: try_except_def bind_def raise_def return_def split: prod.splits sum.splits if_splits)
  have stop: "rt_stop ?cfg \<noteq> []" by (simp add: cfg)
  from assms(1) stop e(1) show ?thesis
  proof (cases rule: tenacity_error)
    case (raised s0)
    from raises_onlyD [OF only raised(1)] e(2) show ?thesis by (cases e) simp_all
  next
    case (check s0 out)
    then show ?thesis using cfg by (cases out) auto
  next
    case (gave_up s0 out' nm)
    have "\<not> isinstance cause [CChannelNotFound]" if "out' = Inl cause" for cause
      using raises_onlyD [OF only gave_up(1) [unfolded that]] by (simp add: other_error_def)
    with e(3) gave_up(3) show ?thesis by (auto simp: cfg split: sum.splits)
  qed
qed

lemma demo_wait_fails: "\<exists>out info s'. wait_for_active_xds_channel demo_app 3 (simple_retryer 1) (Some ''none'') None None False
    (demo_client, []) = (Inl (RetryError out info), s')"
proof -
  let ?T = "simple_retryer 1 :: cl_tenacity"
  let ?run = "wait_for_active_xds_channel demo_app 3 ?T (Some ''none'') None None False (demo_client, [])"
  have "case fst ?run of Inl (RetryError out info) \<Rightarrow> True | _ \<Rightarrow> False"
    by code_simp
  then show ?thesis by (cases ?run) (auto split: sum.splits exn.splits)
qed

theorem xds_note_never_added_witness:
  "\<exists>out info s'. wait_for_active_xds_channel demo_app 3 (simple_retryer 1) (Some ''none'') None None False
    (demo_client, []) = (Inl (RetryError out info), s') \<and> ri_note info = []"
  using demo_wait_fails xds_note_never_added [OF simple_retryer_ok demo_rpc_errors] by metis

text \<open>
  Channels are cached by port alone, so a client whose maintenance port is its RPC port uses
  the insecure channel of the statistics service also where a secure one is asked for.
\<close>

theorem secure_channel_ignored:
  "fst (bind (lb_stats_stub D False) (\<lambda>_. channelz_stub D True)
     (client_init ip rpc_port trg hostname None None mon, w)) = Inr (InsecureChannel (ip @ '':'' @ str_int rpc_port))"
  by (simp add: lb_stats_stub_def channelz_stub_def cached_stub_def make_channel_def create_new_channel_def
      using_self_def bind_def andthen_def assign_def call_def return_def client_init_def app_init_def
      grpc_app.defs xds_client.defs or_text_def or_int_def)

end
