(* ===== verification/RpcStats.thy ===== *)
theory RpcStats
  imports ClientApp
begin

text \<open>
  framework/rpc/grpc_testing.py and framework/helpers/grpc.py: the statistics of the test client,
  how they are asked for, the distribution that is computed from them and the dictionaries they
  are printed from. A map field of a message is an association list with distinct keys, in the
  order in which it is iterated over.
\<close>

section \<open>Status codes\<close>

text \<open>
  A member of \<open>grpc.StatusCode\<close> is its number (\<open>value[0]\<close>) and its name. The members in their order are
  a parameter, since the enum is the library's; what is documented of it is \<open>codes_ok\<close>.
\<close>

type_synonym status_code = "int \<times> string"

definition codes_ok :: "status_code list \<Rightarrow> bool" where
  "codes_ok codes \<longleftrightarrow> distinct (map fst codes)"

definition status_from_int :: "status_code list \<Rightarrow> int \<Rightarrow> status_code option" where
  "status_from_int codes i = List.find (\<lambda>s. fst s = i) codes"

definition status_eq :: "status_code list \<Rightarrow> int \<Rightarrow> status_code \<Rightarrow> bool" where
  "status_eq codes i s \<longleftrightarrow> status_from_int codes i = Some s"

definition status_pretty :: "status_code \<Rightarrow> string" where
  "status_pretty s = ''('' @ str_int (fst s) @ '', '' @ snd s @ '')''"

lemma status_from_int_member:
  assumes "codes_ok codes" and "s \<in> set codes"
  shows "status_from_int codes i = Some s \<longleftrightarrow> i = fst s"
proof
  assume "status_from_int codes i = Some s"
  then show "i = fst s" by (auto simp: status_from_int_def find_Some_iff)
next
  assume "i = fst s"
  with assms show "status_from_int codes i = Some s"
    unfolding status_from_int_def codes_ok_def
    by (induction codes) (auto simp: image_iff)
qed

lemma status_from_int_none: "status_from_int codes i = None \<longleftrightarrow> i \<notin> fst ` set codes"
  by (force simp: status_from_int_def find_None_iff)

section \<open>Responses\<close>

record method_stats =
  ms_rpcs_started :: int
  ms_result :: "(int \<times> int) list"

record accumulated_stats =
  as_stats_per_method :: "(string \<times> method_stats) list"
  as_num_rpcs_started_by_method :: "(string \<times> int) list"
  as_num_rpcs_succeeded_by_method :: "(string \<times> int) list"
  as_num_rpcs_failed_by_method :: "(string \<times> int) list"

datatype metadata_type = MT_UNKNOWN | INITIAL | TRAILING

record metadata_entry =
  me_key :: string
  me_value :: string
  me_type :: metadata_type

record lb_stats =
  lb_rpcs_by_peer :: "(string \<times> int) list"
  lb_num_failures :: int
  lb_rpcs_by_method :: "(string \<times> (string \<times> int) list) list"
  lb_metadatas_by_peer :: "(string \<times> metadata_entry list list) list"

text \<open>\<open>m[k]\<close> on a map field: the default of the value type when the key is missing.\<close>

definition map_get :: "'v \<Rightarrow> ('k \<times> 'v) list \<Rightarrow> 'k \<Rightarrow> 'v" where
  "map_get d m k = (case map_of m k of Some v \<Rightarrow> v | None \<Rightarrow> d)"

text \<open>\<open>m[k] = v\<close>: the position of a key that is there already stays.\<close>

fun map_put :: "'k \<Rightarrow> 'v \<Rightarrow> ('k \<times> 'v) list \<Rightarrow> ('k \<times> 'v) list" where
  "map_put k v [] = [(k, v)]"
| "map_put k v ((k', v') # m) = (if k' = k then (k, v) # m else (k', v') # map_put k v m)"

section \<open>The service clients\<close>

text \<open>What the services of the test client answer.\<close>

record stats_env =
  se_client_stats :: "trace \<Rightarrow> event \<Rightarrow> exn + lb_stats"
  se_accumulated_stats :: "trace \<Rightarrow> event \<Rightarrow> exn + accumulated_stats"
  se_configure :: "trace \<Rightarrow> event \<Rightarrow> exn + unit"

definition STATS_PARTIAL_RESULTS_TIMEOUT_SEC :: int where
  "STATS_PARTIAL_RESULTS_TIMEOUT_SEC = 1200"

definition STATS_ACCUMULATED_RESULTS_TIMEOUT_SEC :: int where
  "STATS_ACCUMULATED_RESULTS_TIMEOUT_SEC = 600"

definition CONFIGURE_TIMEOUT_SEC :: int where
  "CONFIGURE_TIMEOUT_SEC = 5"

text \<open>An empty tuple of metadata keys is left out of the request like a missing one.\<close>

definition client_stats_request :: "int \<Rightarrow> int \<Rightarrow> string list option \<Rightarrow> json" where
  "client_stats_request num_rpcs timeout_sec metadata_keys =
     JObj ([(''num_rpcs'', JInt num_rpcs), (''timeout_sec'', JInt timeout_sec)] @
       (case metadata_keys of
          Some (k # ks) \<Rightarrow> [(''metadata_keys'', JList (map JStr (k # ks)))]
        | _ \<Rightarrow> []))"

definition get_client_stats ::
  "stats_env \<Rightarrow> grpc_channel \<Rightarrow> int \<Rightarrow> int option \<Rightarrow> string list option \<Rightarrow> (trace, lb_stats) act" where
  "get_client_stats S stub num_rpcs timeout_sec metadata_keys =
     (let t = or_default timeout_sec STATS_PARTIAL_RESULTS_TIMEOUT_SEC in
      call_unary_with_deadline (se_client_stats S) stub
        (ServiceCall ''GetClientStats'' (client_stats_request num_rpcs t metadata_keys)) (Some t))"

definition get_client_accumulated_stats ::
  "stats_env \<Rightarrow> grpc_channel \<Rightarrow> int option \<Rightarrow> (trace, accumulated_stats) act" where
  "get_client_accumulated_stats S stub timeout_sec =
     call_unary_with_deadline (se_accumulated_stats S) stub (ServiceCall ''GetClientAccumulatedStats'' (JObj []))
       (Some (or_default timeout_sec STATS_ACCUMULATED_RESULTS_TIMEOUT_SEC))"

text \<open>\<open>RpcType.Value(name)\<close> raises \<open>ValueError\<close> for a name that is no member of the enum.\<close>

definition rpc_type_value :: "string \<Rightarrow> exn + int" where
  "rpc_type_value name =
     (if name = ''EMPTY_CALL'' then Inr 0 else if name = ''UNARY_CALL'' then Inr 1
      else Inl (ValueError (''Enum RpcType has no value defined for name '' @ name)))"

definition configure_metadata :: "string \<times> string \<times> string \<Rightarrow> exn + json" where
  "configure_metadata = (\<lambda>(rpc_type, key, val).
     ebind (rpc_type_value rpc_type) (\<lambda>t.
       Inr (JObj [(''type'', JInt t), (''key'', JStr key), (''value'', JStr val)])))"

definition configure_request ::
  "string list \<Rightarrow> (string \<times> string \<times> string) list option \<Rightarrow> int option \<Rightarrow> exn + json" where
  "configure_request rpc_types metadata app_timeout =
     ebind (emap rpc_type_value rpc_types) (\<lambda>types.
     ebind (emap configure_metadata (case metadata of None \<Rightarrow> [] | Some ms \<Rightarrow> ms)) (\<lambda>entries.
       Inr (JObj ([(''types'', JList (map JInt types)), (''metadata'', JList entries)] @
         (case app_timeout of Some t \<Rightarrow> if t \<noteq> 0 then [(''timeout_sec'', JInt t)] else [] | None \<Rightarrow> [])))))"

definition configure ::
  "stats_env \<Rightarrow> grpc_channel \<Rightarrow> string list \<Rightarrow> (string \<times> string \<times> string) list option
     \<Rightarrow> int option \<Rightarrow> int option \<Rightarrow> (trace, unit) act" where
  "configure S stub rpc_types metadata app_timeout timeout_sec =
     bind (lift (configure_request rpc_types metadata app_timeout)) (\<lambda>request.
       call_unary_with_deadline (se_configure S) stub (ServiceCall ''Configure'' request)
         (Some (or_default timeout_sec CONFIGURE_TIMEOUT_SEC)))"

definition configure_unary ::
  "stats_env \<Rightarrow> grpc_channel \<Rightarrow> (string \<times> string \<times> string) list option \<Rightarrow> int option \<Rightarrow> int option \<Rightarrow> (trace, unit) act" where
  "configure_unary S stub = configure S stub [''UNARY_CALL'']"

definition configure_empty ::
  "stats_env \<Rightarrow> grpc_channel \<Rightarrow> (string \<times> string \<times> string) list option \<Rightarrow> int option \<Rightarrow> int option \<Rightarrow> (trace, unit) act" where
  "configure_empty S stub = configure S stub [''EMPTY_CALL'']"

text \<open>The shortcuts of the test client.\<close>

definition get_load_balancer_stats ::
  "app_env \<Rightarrow> stats_env \<Rightarrow> int \<Rightarrow> string list option \<Rightarrow> int option \<Rightarrow> bool \<Rightarrow> lb_stats cl_meth" where
  "get_load_balancer_stats D S num_rpcs metadata_keys timeout_sec secure_channel =
     bind (lb_stats_stub D secure_channel) (\<lambda>stub. call (get_client_stats S stub num_rpcs timeout_sec metadata_keys))"

definition get_load_balancer_accumulated_stats ::
  "app_env \<Rightarrow> stats_env \<Rightarrow> int option \<Rightarrow> bool \<Rightarrow> accumulated_stats cl_meth" where
  "get_load_balancer_accumulated_stats D S timeout_sec secure_channel =
     bind (lb_stats_stub D secure_channel) (\<lambda>stub. call (get_client_accumulated_stats S stub timeout_sec))"

section \<open>The distribution of RPCs over services\<close>

record rpc_distribution_stats =
  rd_num_failures :: int
  rd_num_peers :: nat
  rd_num_oks :: int
  rd_default_service_rpc_count :: int
  rd_alternative_service_rpc_count :: int
  rd_unary_call_default_service_rpc_count :: int
  rd_empty_call_default_service_rpc_count :: int
  rd_unary_call_alternative_service_rpc_count :: int
  rd_empty_call_alternative_service_rpc_count :: int

text \<open>\<open>"alternative" in peer\<close>\<close>

definition is_alternative :: "string \<Rightarrow> bool" where
  "is_alternative peer \<longleftrightarrow> sublist ''alternative'' peer"

definition count_rpcs :: "string \<Rightarrow> string \<times> int \<Rightarrow> rpc_distribution_stats \<Rightarrow> rpc_distribution_stats" where
  "count_rpcs rpc_type = (\<lambda>(peer, n) d0.
     let d = d0\<lparr>rd_num_oks := rd_num_oks d0 + n\<rparr> in
     if rpc_type = ''UnaryCall'' then
       (if is_alternative peer
        then d\<lparr>rd_unary_call_alternative_service_rpc_count := n,
               rd_alternative_service_rpc_count := rd_alternative_service_rpc_count d + n\<rparr>
        else d\<lparr>rd_unary_call_default_service_rpc_count := n,
               rd_default_service_rpc_count := rd_default_service_rpc_count d + n\<rparr>)
     else if rpc_type = ''EmptyCall'' then
       (if is_alternative peer
        then d\<lparr>rd_empty_call_alternative_service_rpc_count := n,
               rd_alternative_service_rpc_count := rd_alternative_service_rpc_count d + n\<rparr>
        else d\<lparr>rd_empty_call_default_service_rpc_count := n,
               rd_default_service_rpc_count := rd_default_service_rpc_count d + n\<rparr>)
     else d)"

text \<open>
  The dictionary that the statistics come from has no entry \<open>rpcsByPeer\<close> for a method without
  peers: protocol-buffer dictionaries leave empty fields out.
\<close>

fun parse_rpcs_by_method ::
  "(string \<times> (string \<times> int) list) list \<Rightarrow> rpc_distribution_stats \<Rightarrow> exn + rpc_distribution_stats" where
  "parse_rpcs_by_method [] d = Inr d"
| "parse_rpcs_by_method ((rpc_type, by_peer) # ms) d =
     (if by_peer = [] then Inl (KeyError ''rpcsByPeer'')
      else parse_rpcs_by_method ms (fold (count_rpcs rpc_type) by_peer d))"

definition rpc_distribution_from_message :: "lb_stats \<Rightarrow> exn + rpc_distribution_stats" where
  "rpc_distribution_from_message lb =
     parse_rpcs_by_method (lb_rpcs_by_method lb)
       \<lparr>rd_num_failures = lb_num_failures lb, rd_num_peers = length (lb_rpcs_by_peer lb), rd_num_oks = 0,
        rd_default_service_rpc_count = 0, rd_alternative_service_rpc_count = 0,
        rd_unary_call_default_service_rpc_count = 0, rd_empty_call_default_service_rpc_count = 0,
        rd_unary_call_alternative_service_rpc_count = 0, rd_empty_call_alternative_service_rpc_count = 0\<rparr>"

section \<open>Statistics as they are printed\<close>

record pretty_stats_per_method =
  ps_method :: string
  ps_rpcs_started :: int
  ps_result :: "(string \<times> int) list"

definition status_key :: "status_code list \<Rightarrow> int \<Rightarrow> string" where
  "status_key codes i = (case status_from_int codes i of Some s \<Rightarrow> status_pretty s | None \<Rightarrow> ''None'')"

definition pretty_stats_from_response ::
  "status_code list \<Rightarrow> string \<Rightarrow> method_stats \<Rightarrow> pretty_stats_per_method" where
  "pretty_stats_from_response codes method_name stats =
     \<lparr>ps_method = method_name, ps_rpcs_started = ms_rpcs_started stats,
      ps_result = fold (\<lambda>(i, n) m. map_put (status_key codes i) n m) (ms_result stats) []\<rparr>"

text \<open>What \<open>accumulated_stats_pretty\<close> hands to the YAML writer.\<close>

definition accumulated_stats_rows :: "status_code list \<Rightarrow> bool \<Rightarrow> accumulated_stats \<Rightarrow> pretty_stats_per_method list" where
  "accumulated_stats_rows codes ignore_empty stats =
     filter (\<lambda>p. \<not> (ignore_empty \<and> ps_rpcs_started p = 0))
       (map (\<lambda>(m, s). pretty_stats_from_response codes m s) (as_stats_per_method stats))"

text \<open>
  Metadata by peer: for every RPC the unique values of each key, trailing ones under a key of
  their own. \<open>set_order\<close> is the order in which Python lists a set.
\<close>

definition metadata_key :: "metadata_entry \<Rightarrow> string" where
  "metadata_key m = (if me_type m = TRAILING then ''TRAILING_'' @ me_key m else me_key m)"

definition uniq_vals :: "metadata_entry list \<Rightarrow> (string \<times> string set) list" where
  "uniq_vals ms = fold (\<lambda>m acc. map_put (metadata_key m) (insert (me_value m) (map_get {} acc (metadata_key m))) acc) ms []"

definition put_rpc_metadata ::
  "(string set \<Rightarrow> string list) \<Rightarrow> metadata_entry list \<Rightarrow> (string \<times> string list) list \<Rightarrow> (string \<times> string list) list" where
  "put_rpc_metadata set_order rpc m = fold (\<lambda>(k, vs) acc. map_put k (set_order vs) acc) (uniq_vals rpc) m"

definition parse_peer_metadata ::
  "(string set \<Rightarrow> string list) \<Rightarrow> metadata_entry list list \<Rightarrow> (string \<times> string list) list" where
  "parse_peer_metadata set_order rpcs = fold (put_rpc_metadata set_order) rpcs []"

text \<open>A peer gets an entry only when one of its RPCs has metadata (\<open>defaultdict\<close>).\<close>

definition parse_metadatas_by_peer ::
  "(string set \<Rightarrow> string list) \<Rightarrow> (string \<times> metadata_entry list list) list \<Rightarrow> (string \<times> (string \<times> string list) list) list" where
  "parse_metadatas_by_peer set_order peers =
     filter (\<lambda>(_, m). m \<noteq> []) (map (\<lambda>(peer, rpcs). (peer, parse_peer_metadata set_order rpcs)) peers)"

record pretty_lb_stats =
  pl_num_failures :: int
  pl_rpcs_by_peer :: "(string \<times> int) list"
  pl_rpcs_by_method :: "(string \<times> (string \<times> int) list) list"
  pl_metadatas_by_peer :: "(string \<times> (string \<times> string list) list) list"

definition pretty_lb_from_response :: "(string set \<Rightarrow> string list) \<Rightarrow> lb_stats \<Rightarrow> pretty_lb_stats" where
  "pretty_lb_from_response set_order lb =
     \<lparr>pl_num_failures = lb_num_failures lb, pl_rpcs_by_peer = lb_rpcs_by_peer lb,
      pl_rpcs_by_method = lb_rpcs_by_method lb,
      pl_metadatas_by_peer = parse_metadatas_by_peer set_order (lb_metadatas_by_peer lb)\<rparr>"

section \<open>Maps\<close>

lemma map_of_map_put [simp]: "map_of (map_put k v m) = (map_of m)(k \<mapsto> v)"
  by (induction m rule: map_put.induct) auto

lemma map_get_map_put [simp]: "map_get d (map_put k v m) k' = (if k' = k then v else map_get d m k')"
  by (simp add: map_get_def)

lemma set_map_put: "fst ` set (map_put k v m) = insert k (fst ` set m)"
  by (induction k v m rule: map_put.induct) auto

lemma distinct_map_put: "distinct (map fst m) \<Longrightarrow> distinct (map fst (map_put k v m))"
  by (induction k v m rule: map_put.induct) (auto simp: set_map_put image_iff)

section \<open>What the distribution counts\<close>

text \<open>The RPCs of the given methods to the peers that satisfy \<open>P\<close>.\<close>

definition rpcs_to :: "string set \<Rightarrow> (string \<Rightarrow> bool) \<Rightarrow> (string \<times> (string \<times> int) list) list \<Rightarrow> int" where
  "rpcs_to methods P by_method =
     sum_list (map (\<lambda>(t, ps). if t \<in> methods then sum_list (map snd (filter (P \<circ> fst) ps)) else 0) by_method)"

definition known_calls :: "string set" where
  "known_calls = {''UnaryCall'', ''EmptyCall''}"

lemma fold_count_rpcs:
  "rd_num_oks (fold (count_rpcs t) ps d) = rd_num_oks d + sum_list (map snd ps)"
  "rd_default_service_rpc_count (fold (count_rpcs t) ps d) = rd_default_service_rpc_count d +
     (if t \<in> known_calls then sum_list (map snd (filter (\<lambda>x. \<not> is_alternative (fst x)) ps)) else 0)"
  "rd_alternative_service_rpc_count (fold (count_rpcs t) ps d) = rd_alternative_service_rpc_count d +
     (if t \<in> known_calls then sum_list (map snd (filter (\<lambda>x. is_alternative (fst x)) ps)) else 0)"
  "rd_num_failures (fold (count_rpcs t) ps d) = rd_num_failures d"
  by (induction ps arbitrary: d) (auto simp: count_rpcs_def known_calls_def Let_def)

lemma parse_rpcs_by_method_counts:
  assumes "parse_rpcs_by_method ms d = Inr d'"
  shows "rd_num_oks d' = rd_num_oks d + rpcs_to UNIV (\<lambda>_. True) ms
    \<and> rd_default_service_rpc_count d' = rd_default_service_rpc_count d + rpcs_to known_calls (\<lambda>p. \<not> is_alternative p) ms
    \<and> rd_alternative_service_rpc_count d' = rd_alternative_service_rpc_count d + rpcs_to known_calls is_alternative ms
    \<and> rd_num_failures d' = rd_num_failures d"
  using assms
proof (induction ms d rule: parse_rpcs_by_method.induct)
  case (2 t ps ms d)
  then have "parse_rpcs_by_method ms (fold (count_rpcs t) ps d) = Inr d'" "ps \<noteq> []" by (auto split: if_splits)
  with 2 show ?case by (auto simp: fold_count_rpcs rpcs_to_def comp_def)
qed (simp add: rpcs_to_def)

lemma rpcs_to_split:
  "rpcs_to ts (\<lambda>p. \<not> P p) ms + rpcs_to ts P ms = rpcs_to ts (\<lambda>_. True) ms"
proof -
  have split: "sum_list (map snd (filter (\<lambda>x. \<not> P (fst x)) ps)) + sum_list (map snd (filter (\<lambda>x. P (fst x)) ps))
      = sum_list (map snd ps)" for ps :: "(string \<times> int) list"
    by (induction ps) auto
  show ?thesis
  proof (induction ms)
    case (Cons x ms)
    then show ?case using split [of "snd x"] by (cases x) (simp add: rpcs_to_def comp_def algebra_simps)
  qed (simp add: rpcs_to_def)
qed

lemma rpcs_to_known: "fst ` set ms \<subseteq> ts \<Longrightarrow> rpcs_to ts P ms = rpcs_to UNIV P ms"
  unfolding rpcs_to_def by (rule arg_cong [where f = sum_list]) (auto intro!: map_cong)

section \<open>What is kept of the metadata\<close>

lemma uniq_vals_get: "map_of (uniq_vals ms) k =
  (if k \<in> metadata_key ` set ms then Some (me_value ` {m \<in> set ms. metadata_key m = k}) else None)"
proof -
  have "map_of (fold (\<lambda>m acc. map_put (metadata_key m) (insert (me_value m) (map_get {} acc (metadata_key m))) acc) ms acc) k =
    (if k \<in> metadata_key ` set ms
     then Some (map_get {} acc k \<union> me_value ` {m \<in> set ms. metadata_key m = k}) else map_of acc k)" for acc
  proof (induction ms arbitrary: acc)
    case (Cons m ms)
    have "me_value ` {x \<in> set (m # ms). metadata_key x = k} =
      (if metadata_key m = k then insert (me_value m) else id) (me_value ` {x \<in> set ms. metadata_key x = k})"
      by auto
    then show ?case using Cons.IH by (auto simp: map_get_def image_iff)
  qed simp
  from this [of "[]"] show ?thesis by (simp add: uniq_vals_def map_get_def)
qed

lemma distinct_uniq_vals: "distinct (map fst (uniq_vals ms))"
proof -
  have "distinct (map fst acc) \<Longrightarrow> distinct (map fst
    (fold (\<lambda>m acc. map_put (metadata_key m) (insert (me_value m) (map_get {} acc (metadata_key m))) acc) ms acc))" for acc
    by (induction ms arbitrary: acc) (simp_all add: distinct_map_put)
  then show ?thesis by (simp add: uniq_vals_def)
qed

lemma fold_map_put:
  "distinct (map fst kvs) \<Longrightarrow> map_of (fold (\<lambda>(k, vs) acc. map_put k (f vs) acc) kvs m) k =
     (case map_of kvs k of Some vs \<Rightarrow> Some (f vs) | None \<Rightarrow> map_of m k)"
proof (induction kvs arbitrary: m)
  case (Cons x kvs)
  then have "fst x \<notin> fst ` set kvs" by simp
  then have "map_of kvs (fst x) = None" by (simp add: map_of_eq_None_iff)
  with Cons show ?case by (cases x) (auto split: option.splits)
qed simp

lemma put_rpc_metadata_get:
  "map_of (put_rpc_metadata so rpc m) k =
     (if k \<in> metadata_key ` set rpc then Some (so (me_value ` {x \<in> set rpc. metadata_key x = k})) else map_of m k)"
  using fold_map_put [OF distinct_uniq_vals, of so rpc m k] by (simp add: put_rpc_metadata_def uniq_vals_get)

text \<open>The last RPC that has a key.\<close>

definition last_with :: "string \<Rightarrow> metadata_entry list list \<Rightarrow> metadata_entry list option" where
  "last_with k rpcs = List.find (\<lambda>rpc. k \<in> metadata_key ` set rpc) (rev rpcs)"

lemma parse_peer_metadata_get:
  "map_of (parse_peer_metadata so rpcs) k =
     map_option (\<lambda>rpc. so (me_value ` {x \<in> set rpc. metadata_key x = k})) (last_with k rpcs)"
proof (induction rpcs rule: rev_induct)
  case (snoc rpc rpcs)
  then show ?case by (simp add: parse_peer_metadata_def last_with_def put_rpc_metadata_get)
qed (simp add: parse_peer_metadata_def last_with_def)

section \<open>Properties\<close>

text \<open>
  The distribution of a response adds up: the successful RPCs are all RPCs counted by method and
  peer; the two service counts are those of the unary and empty calls to peers with and without
  \<open>alternative\<close> in their names; and if only such calls were made, the two counts make up all
  successful RPCs.
\<close>

theorem distribution_adds_up:
  assumes "rpc_distribution_from_message lb = Inr d"
  shows "rd_num_failures d = lb_num_failures lb
    \<and> rd_num_oks d = sum_list (map snd (concat (map snd (lb_rpcs_by_method lb))))
    \<and> rd_default_service_rpc_count d = rpcs_to known_calls (\<lambda>p. \<not> is_alternative p) (lb_rpcs_by_method lb)
    \<and> rd_alternative_service_rpc_count d = rpcs_to known_calls is_alternative (lb_rpcs_by_method lb)
    \<and> (fst ` set (lb_rpcs_by_method lb) \<subseteq> known_calls \<longrightarrow>
        rd_default_service_rpc_count d + rd_alternative_service_rpc_count d = rd_num_oks d)"
proof -
  have all: "rpcs_to UNIV (\<lambda>_. True) ms = sum_list (map snd (concat (map snd ms)))"
    for ms :: "(string \<times> (string \<times> int) list) list"
    by (induction ms) (auto simp: rpcs_to_def comp_def)
  show ?thesis
    using parse_rpcs_by_method_counts [OF assms [unfolded rpc_distribution_from_message_def]]
      rpcs_to_split [of UNIV is_alternative "lb_rpcs_by_method lb"] rpcs_to_known [of "lb_rpcs_by_method lb" known_calls]
    by (simp add: all)
qed

definition demo_lb :: lb_stats where
  "demo_lb =
     \<lparr>lb_rpcs_by_peer = [(''a'', 7), (''b'', 3), (''alternative-c'', 1)], lb_num_failures = 2,
      lb_rpcs_by_method = [(''UnaryCall'', [(''a'', 5), (''b'', 3)]), (''EmptyCall'', [(''a'', 2), (''alternative-c'', 1)])],
      lb_metadatas_by_peer = []\<rparr>"

theorem distribution_adds_up_witness:
  "\<exists>d. rpc_distribution_from_message demo_lb = Inr d \<and> rd_num_oks d = 11
    \<and> rd_default_service_rpc_count d + rd_alternative_service_rpc_count d = rd_num_oks d"
proof -
  have "case rpc_distribution_from_message demo_lb of Inr d \<Rightarrow> rd_num_oks d = 11 | Inl _ \<Rightarrow> False"
    by code_simp
  then obtain d where run: "rpc_distribution_from_message demo_lb = Inr d" "rd_num_oks d = 11"
    by (auto split: sum.splits)
  moreover have "fst ` set (lb_rpcs_by_method demo_lb) \<subseteq> known_calls"
    by (simp add: demo_lb_def known_calls_def)
  ultimately show ?thesis using distribution_adds_up [OF run(1)] by blast
qed

text \<open>
  The count of a method and a service is not the number of its RPCs: it is overwritten by every
  peer, so of several peers of one service only the last one's RPCs are counted.
\<close>

theorem method_count_keeps_last_peer:
  assumes "rpc_distribution_from_message lb = Inr d"
    and "lb_rpcs_by_method lb = ms @ [(''UnaryCall'', ps @ [(peer, n)])]" and "\<not> is_alternative peer"
  shows "rd_unary_call_default_service_rpc_count d = n"
proof -
  have last: "parse_rpcs_by_method (ms @ [(t, ps @ [(peer, n)])]) d0 = Inr d \<Longrightarrow>
      \<exists>d1. d = count_rpcs t (peer, n) d1" for t d0
    by (induction ms d0 rule: parse_rpcs_by_method.induct) (auto split: if_splits)
  have "\<exists>d1. d = count_rpcs ''UnaryCall'' (peer, n) d1"
    using assms(1,2) last unfolding rpc_distribution_from_message_def by simp
  then show ?thesis using assms(3) by (auto simp: count_rpcs_def Let_def)
qed

theorem method_count_keeps_last_peer_witness:
  "\<exists>d. rpc_distribution_from_message (demo_lb\<lparr>lb_rpcs_by_method := [(''UnaryCall'', [(''a'', 5), (''b'', 3)])]\<rparr>) = Inr d
    \<and> rd_default_service_rpc_count d = 8 \<and> rd_unary_call_default_service_rpc_count d = 3"
proof -
  let ?lb = "demo_lb\<lparr>lb_rpcs_by_method := [(''UnaryCall'', [(''a'', 5), (''b'', 3)])]\<rparr>"
  have "case rpc_distribution_from_message ?lb of Inr d \<Rightarrow> rd_default_service_rpc_count d = 8 | Inl _ \<Rightarrow> False"
    by code_simp
  then obtain d where run: "rpc_distribution_from_message ?lb = Inr d" "rd_default_service_rpc_count d = 8"
    by (auto split: sum.splits)
  moreover have "\<not> is_alternative ''b''" by code_simp
  ultimately show ?thesis
    using method_count_keeps_last_peer [OF run(1), of "[]" "[(''a'', 5)]" "''b''" 3] by auto
qed

text \<open>
  Of the metadata of a peer, the printed statistics keep for each key the set of values of the
  last RPC that has the key; what earlier RPCs had under that key is lost.
\<close>

theorem metadata_of_last_rpc:
  "map_of (parse_peer_metadata so rpcs) k =
     (case List.find (\<lambda>rpc. k \<in> metadata_key ` set rpc) (rev rpcs) of
        None \<Rightarrow> None
      | Some rpc \<Rightarrow> Some (so (me_value ` {x \<in> set rpc. metadata_key x = k})))"
  using parse_peer_metadata_get [of so rpcs k] by (simp add: last_with_def split: option.splits)

end
