(* ===== verification/XdsConfig.thy ===== *)
theory XdsConfig
  imports Channelz FrameworkErrors "HOL-Library.Sublist"
begin

text \<open>
  framework/rpc/grpc_csds.py: the client of the status discovery service and the parser that reads
  listeners, routes, clusters and endpoints out of a dumped client configuration, in the old
  format (\<open>xdsConfig\<close>) and in the generic one (\<open>genericXdsConfigs\<close>). A message and its dictionary
  (\<open>json_format.MessageToDict\<close>) come together from the connection; the dictionary is what is parsed.
\<close>

section \<open>The parsed configuration\<close>

text \<open>The attributes of \<open>DumpedXdsConfig\<close>; \<open>None\<close> is \<open>JNull\<close>.\<close>

record dumped_xds_config =
  dx_client_config_dict :: "(string \<times> json) list"
  dx_lds :: json
  dx_rds :: json
  dx_rds_version :: json
  dx_cds :: "json list"
  dx_eds :: "json list"
  dx_endpoints :: "string list"
  dx_draining_endpoints :: "string list"

text \<open>\<open>xs[i]\<close> for an index: a missing one raises \<open>IndexError\<close>, which is no parse error.\<close>

fun getindex :: "json \<Rightarrow> nat \<Rightarrow> exn + json" where
  "getindex (JList xs) i = (if i < length xs then Inr (xs ! i) else Inl (OtherError ''IndexError''))"
| "getindex (JStr s) i = (if i < length s then Inr (JStr [s ! i]) else Inl (OtherError ''IndexError''))"
| "getindex (JObj kvs) i = Inl (KeyError (str_nat i))"
| "getindex j i = Inl (TypeError ''object is not subscriptable'')"

definition parse_error :: "exn \<Rightarrow> bool" where
  "parse_error e = (case e of AttributeError _ \<Rightarrow> True | TypeError _ \<Rightarrow> True | KeyError _ \<Rightarrow> True | _ \<Rightarrow> False)"

text \<open>
  A path of keys below a value, \<open>v[k1][k2]...\<close>, and the loop over a value. A \<open>$\<close> at the end of a
  regular expression matches at the end of the text and before a line end there.
\<close>

fun getpath :: "json \<Rightarrow> string list \<Rightarrow> exn + json" where
  "getpath v [] = Inr v"
| "getpath v (k # ks) = ebind (getitem v k) (\<lambda>x. getpath x ks)"

definition for_in :: "json \<Rightarrow> (json \<Rightarrow> ('s, unit) act) \<Rightarrow> ('s, unit) act" where
  "for_in v f = bind (lift (py_iter v)) (\<lambda>xs. stmts (map f xs))"

definition search_end :: "string \<Rightarrow> json \<Rightarrow> exn + bool" where
  "search_end suf v = (case v of
      JStr s \<Rightarrow> Inr (suffix suf s \<or> suffix (suf @ newline) s)
    | _ \<Rightarrow> Inl (TypeError ''expected string or bytes-like object''))"

text \<open>
  A value in an f-string. Hosts are texts and ports are numbers in the protocol; a list or a dict
  in their place keeps no text here.
\<close>

fun py_format :: "json \<Rightarrow> string" where
  "py_format (JStr s) = s"
| "py_format (JInt i) = str_int i"
| "py_format JNull = ''None''"
| "py_format (JBool b) = (if b then ''True'' else ''False'')"
| "py_format (JList xs) = ''[...]''"
| "py_format (JObj kvs) = ''{...}''"

type_synonym 'a parser = "(dumped_xds_config, 'a) act"

definition append_cds :: "json \<Rightarrow> unit parser" where
  "append_cds c = modify (\<lambda>d. d\<lparr>dx_cds := dx_cds d @ [c]\<rparr>)"

definition append_eds :: "json \<Rightarrow> unit parser" where
  "append_eds c = modify (\<lambda>d. d\<lparr>dx_eds := dx_eds d @ [c]\<rparr>)"

definition parse_per_xds_config :: "json \<Rightarrow> unit parser" where
  "parse_per_xds_config xds_config =
     try_except
       (bind (lift (contains ''listenerConfig'' xds_config)) (\<lambda>l.
          if l then
            bind (lift (getpath xds_config [''listenerConfig'', ''dynamicListeners''])) (\<lambda>listeners.
            bind (lift (ebind (getindex listeners 0) (\<lambda>x. getpath x [''activeState'', ''listener'']))) (\<lambda>v.
              modify (\<lambda>d. d\<lparr>dx_lds := v\<rparr>)))
          else bind (lift (contains ''routeConfig'' xds_config)) (\<lambda>r.
          if r then
            bind (lift (getpath xds_config [''routeConfig'', ''dynamicRouteConfigs''])) (\<lambda>routes.
            bind (lift (ebind (getindex routes 0) (\<lambda>x. getitem x ''routeConfig''))) (\<lambda>v.
            bind (modify (\<lambda>d. d\<lparr>dx_rds := v\<rparr>)) (\<lambda>_.
            bind (lift (ebind (getindex routes 0) (\<lambda>x. getitem x ''versionInfo''))) (\<lambda>u.
              modify (\<lambda>d. d\<lparr>dx_rds_version := u\<rparr>)))))
          else bind (lift (contains ''clusterConfig'' xds_config)) (\<lambda>c.
          if c then
            bind (lift (getpath xds_config [''clusterConfig'', ''dynamicActiveClusters''])) (\<lambda>clusters.
              for_in clusters (\<lambda>x. bind (lift (getitem x ''cluster'')) append_cds))
          else bind (lift (contains ''endpointConfig'' xds_config)) (\<lambda>e.
          if e then
            bind (lift (getpath xds_config [''endpointConfig'', ''dynamicEndpointConfigs''])) (\<lambda>endpoints.
              for_in endpoints (\<lambda>x. bind (lift (getitem x ''endpointConfig'')) append_eds))
          else return ())))))
       parse_error (\<lambda>_. return ())"

definition type_url_ends :: "string \<Rightarrow> json \<Rightarrow> exn + bool" where
  "type_url_ends suf generic = ebind (getitem generic ''typeUrl'') (search_end suf)"

definition parse_generic_xds_config :: "json \<Rightarrow> unit parser" where
  "parse_generic_xds_config generic =
     try_except
       (bind (lift (type_url_ends ''.Listener'' generic)) (\<lambda>l.
          if l then bind (lift (getitem generic ''xdsConfig'')) (\<lambda>v. modify (\<lambda>d. d\<lparr>dx_lds := v\<rparr>))
          else bind (lift (type_url_ends ''.RouteConfiguration'' generic)) (\<lambda>r.
          if r then
            bind (lift (getitem generic ''xdsConfig'')) (\<lambda>v.
            bind (modify (\<lambda>d. d\<lparr>dx_rds := v\<rparr>)) (\<lambda>_.
            bind (lift (getitem generic ''versionInfo'')) (\<lambda>u. modify (\<lambda>d. d\<lparr>dx_rds_version := u\<rparr>))))
          else bind (lift (type_url_ends ''.Cluster'' generic)) (\<lambda>c.
          if c then bind (lift (getitem generic ''xdsConfig'')) append_cds
          else bind (lift (type_url_ends ''.ClusterLoadAssignment'' generic)) (\<lambda>e.
          if e then bind (lift (getitem generic ''xdsConfig'')) append_eds
          else return ())))))
       parse_error (\<lambda>_. return ())"

definition lb_endpoint_address :: "json \<Rightarrow> exn + string" where
  "lb_endpoint_address lb_endpoint =
     ebind (getpath lb_endpoint [''endpoint'', ''address'', ''socketAddress'', ''address'']) (\<lambda>host.
     ebind (getpath lb_endpoint [''endpoint'', ''address'', ''socketAddress'', ''portValue'']) (\<lambda>port.
       Inr (py_format host @ '':'' @ py_format port)))"

definition parse_lb_endpoint :: "json \<Rightarrow> unit parser" where
  "parse_lb_endpoint lb_endpoint =
     try_except
       (bind (lift (lb_endpoint_address lb_endpoint)) (\<lambda>endpoint_address.
        bind (lift (getitem lb_endpoint ''healthStatus'')) (\<lambda>health.
          if health = JStr ''HEALTHY''
          then modify (\<lambda>d. d\<lparr>dx_endpoints := dx_endpoints d @ [endpoint_address]\<rparr>)
          else if health = JStr ''DRAINING''
          then modify (\<lambda>d. d\<lparr>dx_draining_endpoints := dx_draining_endpoints d @ [endpoint_address]\<rparr>)
          else return ())))
       parse_error (\<lambda>_. return ())"

definition parse_endpoint_config :: "json \<Rightarrow> unit parser" where
  "parse_endpoint_config endpoint_config =
     bind (lift (get_default endpoint_config ''endpoints'' (JObj []))) (\<lambda>localities.
       for_in localities (\<lambda>endpoint.
         bind (lift (get_default endpoint ''lbEndpoints'' (JObj []))) (\<lambda>lb_endpoints.
           for_in lb_endpoints parse_lb_endpoint)))"

definition no_config :: "(string \<times> json) list \<Rightarrow> dumped_xds_config" where
  "no_config client_config_dict =
     \<lparr>dx_client_config_dict = client_config_dict, dx_lds = JNull, dx_rds = JNull, dx_rds_version = JNull,
      dx_cds = [], dx_eds = [], dx_endpoints = [], dx_draining_endpoints = []\<rparr>"

text \<open>The body of the constructor, and the object it leaves.\<close>

definition parse_all :: "(string \<times> json) list \<Rightarrow> unit parser" where
  "parse_all client_config_dict =
     stmts
       [bind (lift (get_default (JObj client_config_dict) ''xdsConfig'' (JList []))) (\<lambda>configs.
          for_in configs parse_per_xds_config),
        bind (lift (get_default (JObj client_config_dict) ''genericXdsConfigs'' (JList []))) (\<lambda>configs.
          for_in configs parse_generic_xds_config),
        bind get_state (\<lambda>d. stmts (map parse_endpoint_config (dx_eds d)))]"

definition dump_parsed :: "(string \<times> json) list \<Rightarrow> exn + dumped_xds_config" where
  "dump_parsed client_config_dict =
     (case parse_all client_config_dict (no_config client_config_dict) of
        (Inl e, _) \<Rightarrow> Inl e
      | (Inr _, d) \<Rightarrow> Inr d)"

section \<open>The client of the service\<close>

text \<open>
  A \<open>ClientConfig\<close> message: which member of its union each old-style configuration has, the type
  of each generic one, and its dictionary.
\<close>

record client_config =
  cc_xds_config :: "string option list"
  cc_generic_type_urls :: "string list"
  cc_dict :: "(string \<times> json) list"

definition CSDS_DEADLINE_SEC :: int where
  "CSDS_DEADLINE_SEC = 30"

definition fetch_client_status ::
  "(trace \<Rightarrow> event \<Rightarrow> exn + client_config list) \<Rightarrow> grpc_channel \<Rightarrow> (trace, client_config option) act" where
  "fetch_client_status answer stub =
     bind (call_unary_with_deadline answer stub (ServiceCall ''FetchClientStatus'' (JObj [])) (Some CSDS_DEADLINE_SEC))
       (\<lambda>configs. return (case configs of [c] \<Rightarrow> Some c | _ \<Rightarrow> None))"

definition fetch_client_status_parsed ::
  "(trace \<Rightarrow> event \<Rightarrow> exn + client_config list) \<Rightarrow> grpc_channel \<Rightarrow> (trace, dumped_xds_config option) act" where
  "fetch_client_status_parsed answer stub =
     bind (fetch_client_status answer stub) (\<lambda>config.
       case config of
         None \<Rightarrow> return None
       | Some c \<Rightarrow> bind (lift (dump_parsed (cc_dict c))) (\<lambda>d. return (Some d)))"

section \<open>What the parser raises and keeps\<close>

lemma getpath_error: "getpath v ks = Inl e \<Longrightarrow> parse_error e"
proof (induction v ks rule: getpath.induct)
  case (2 v k ks)
  show ?case
  proof (cases "getitem v k")
    case (Inl e')
    then have "parse_error e'"
      by (cases v) (auto simp: parse_error_def split: option.splits)
    then show ?thesis using 2 Inl by simp
  qed (use 2 in simp)
qed simp

lemma getitem_error: "getitem v k = Inl e \<Longrightarrow> parse_error e"
  using getpath_error [of v "[k]"] by simp

lemma lb_endpoint_address_error: "lb_endpoint_address lb = Inl e \<Longrightarrow> parse_error e"
  by (auto simp: lb_endpoint_address_def ebind_def getpath_error split: sum.splits simp del: getpath.simps)

text \<open>The address of an endpoint that is in a health state; none for an endpoint that cannot be read.\<close>

definition address_in :: "string \<Rightarrow> json \<Rightarrow> string option" where
  "address_in status lb =
     (case (lb_endpoint_address lb, getitem lb ''healthStatus'') of
        (Inr a, Inr h) \<Rightarrow> if h = JStr status then Some a else None
      | _ \<Rightarrow> None)"

definition with_endpoints :: "json list \<Rightarrow> dumped_xds_config \<Rightarrow> dumped_xds_config" where
  "with_endpoints lbs d =
     d\<lparr>dx_endpoints := dx_endpoints d @ List.map_filter (address_in ''HEALTHY'') lbs,
       dx_draining_endpoints := dx_draining_endpoints d @ List.map_filter (address_in ''DRAINING'') lbs\<rparr>"

lemma with_endpoints_Nil: "with_endpoints [] d = d"
  by (simp add: with_endpoints_def)

lemma map_filter_append: "List.map_filter f (xs @ ys) = List.map_filter f xs @ List.map_filter f ys"
  by (simp add: List.map_filter_def)

lemma with_endpoints_append: "with_endpoints (xs @ ys) d = with_endpoints ys (with_endpoints xs d)"
  by (simp add: with_endpoints_def map_filter_append)

lemma parse_lb_endpoint_value: "parse_lb_endpoint lb d = (Inr (), with_endpoints [lb] d)"
proof (cases "lb_endpoint_address lb")
  case (Inl e)
  then show ?thesis
    using lb_endpoint_address_error [OF Inl]
    by (simp add: parse_lb_endpoint_def with_endpoints_def List.map_filter_def address_in_def
        try_except_def raise_def return_def)
next
  case (Inr a)
  note addr = this
  show ?thesis
  proof (cases "getitem lb ''healthStatus''")
    case (Inl e)
    then show ?thesis
      using addr getitem_error [OF Inl]
      by (simp add: parse_lb_endpoint_def with_endpoints_def List.map_filter_def address_in_def
          try_except_def raise_def return_def)
  next
    case (Inr h)
    then show ?thesis
      using addr
      by (simp add: parse_lb_endpoint_def with_endpoints_def List.map_filter_def address_in_def
          try_except_def modify_def return_def)
  qed
qed

text \<open>A loop whose body appends what a function gives appends what the function gives of all.\<close>

lemma stmts_collect:
  assumes "\<And>x d d'. f x d = (Inr (), d') \<Longrightarrow> \<exists>y. g x = Inr y \<and> d' = upd y d"
    and "\<And>d. upd [] d = d" and "\<And>xs ys d. upd (xs @ ys) d = upd ys (upd xs d)"
  shows "stmts (map f xs) d = (Inr (), d') \<Longrightarrow> \<exists>ys. emap g xs = Inr ys \<and> d' = upd (concat ys) d"
proof (induction xs arbitrary: d)
  case Nil
  then show ?case using assms(2) by (simp add: return_def)
next
  case (Cons x xs)
  then obtain d1 where first: "f x d = (Inr (), d1)" and rest: "stmts (map f xs) d1 = (Inr (), d')"
    by (auto simp: andthen_eq_Inr)
  obtain y where "g x = Inr y" "d1 = upd y d" using assms(1) first by blast
  moreover obtain ys where "emap g xs = Inr ys" "d' = upd (concat ys) d1" using Cons.IH rest by blast
  ultimately show ?case using assms(3) by simp
qed

text \<open>The endpoints below an endpoint configuration, in order.\<close>

definition lb_endpoints_of :: "json \<Rightarrow> exn + json list" where
  "lb_endpoints_of locality = ebind (get_default locality ''lbEndpoints'' (JObj [])) py_iter"

definition config_endpoints :: "json \<Rightarrow> exn + json list" where
  "config_endpoints config =
     ebind (get_default config ''endpoints'' (JObj [])) (\<lambda>localities.
     ebind (py_iter localities) (\<lambda>ls. ebind (emap lb_endpoints_of ls) (\<lambda>xss. Inr (concat xss))))"

lemma parse_endpoint_config_value:
  assumes "parse_endpoint_config config d = (Inr (), d')"
  shows "\<exists>lbs. config_endpoints config = Inr lbs \<and> d' = with_endpoints lbs d"
proof -
  let ?locality = "\<lambda>endpoint. bind (lift (get_default endpoint ''lbEndpoints'' (JObj []))) (\<lambda>lb_endpoints.
           for_in lb_endpoints parse_lb_endpoint)"
  have one: "\<exists>lbs. lb_endpoints_of e = Inr lbs \<and> d2 = with_endpoints lbs d1"
    if loc: "?locality e d1 = (Inr (), d2)" for e d1 d2
  proof -
    obtain v xs where read: "get_default e ''lbEndpoints'' (JObj []) = Inr v" "py_iter v = Inr xs"
      and body: "stmts (map parse_lb_endpoint xs) d1 = (Inr (), d2)"
      using loc by (auto simp: for_in_def bind_eq_Inr lift_def)
    have "\<exists>ys. emap (\<lambda>x. Inr [x]) xs = Inr ys \<and> d2 = with_endpoints (concat ys) d1"
      using body by (rule stmts_collect [rotated 3])
        (simp_all add: parse_lb_endpoint_value with_endpoints_Nil with_endpoints_append)
    moreover have "emap (\<lambda>x. Inr [x]) xs = Inr (map (\<lambda>x. [x]) xs)" by (induction xs) simp_all
    ultimately show ?thesis using read by (auto simp: lb_endpoints_of_def)
  qed
  obtain v ls where read: "get_default config ''endpoints'' (JObj []) = Inr v" "py_iter v = Inr ls"
    and body: "stmts (map ?locality ls) d = (Inr (), d')"
    using assms by (auto simp: parse_endpoint_config_def for_in_def bind_eq_Inr lift_def)
  have "\<exists>ys. emap lb_endpoints_of ls = Inr ys \<and> d' = with_endpoints (concat ys) d"
    using body by (rule stmts_collect [rotated 3])
      (use one in \<open>simp_all add: with_endpoints_Nil with_endpoints_append\<close>)
  then show ?thesis using read by (auto simp: config_endpoints_def)
qed

text \<open>The first two phases read no endpoints.\<close>

definition no_endpoints :: "dumped_xds_config \<Rightarrow> bool" where
  "no_endpoints d \<longleftrightarrow> dx_endpoints d = [] \<and> dx_draining_endpoints d = []"

lemma keeps_for_in [keeps_intros]: "(\<And>x. keeps P (f x)) \<Longrightarrow> keeps P (for_in v f)"
  unfolding for_in_def by (auto intro!: keeps_intros)

lemma keeps_parse_configs:
  "keeps no_endpoints (parse_per_xds_config c)" "keeps no_endpoints (parse_generic_xds_config c)"
  unfolding parse_per_xds_config_def parse_generic_xds_config_def append_cds_def append_eds_def
  by (auto intro!: keeps_intros simp: no_endpoints_def)

lemma dump_parsed_phases:
  assumes "dump_parsed kvs = Inr d"
  obtains d2 lbss where "no_endpoints d2" and "emap config_endpoints (dx_eds d2) = Inr lbss"
    and "d = with_endpoints (concat lbss) d2"
proof -
  let ?phase = "\<lambda>key one. bind (lift (get_default (JObj kvs) key (JList []))) (\<lambda>configs. for_in configs one)"
  have "parse_all kvs (no_config kvs) = (Inr (), d)"
    using assms by (auto simp: dump_parsed_def split: prod.splits sum.splits)
  then obtain d1 d2 where first: "?phase ''xdsConfig'' parse_per_xds_config (no_config kvs) = (Inr (), d1)"
    and second: "?phase ''genericXdsConfigs'' parse_generic_xds_config d1 = (Inr (), d2)"
    and third: "stmts (map parse_endpoint_config (dx_eds d2)) d2 = (Inr (), d)"
    unfolding parse_all_def by (auto simp: andthen_eq_Inr bind_eq_Inr get_state_def return_def)
  have keep: "keeps no_endpoints (?phase key one)" if "\<And>c. keeps no_endpoints (one c)" for key one
    using that by (auto intro!: keeps_intros)
  have "no_endpoints (no_config kvs)" by (simp add: no_endpoints_def no_config_def)
  then have "no_endpoints d1" using keepsD [OF keep first] keeps_parse_configs by blast
  then have "no_endpoints d2" using keepsD [OF keep second] keeps_parse_configs by blast
  moreover have "\<exists>ys. emap config_endpoints (dx_eds d2) = Inr ys \<and> d = with_endpoints (concat ys) d2"
    using third by (rule stmts_collect [rotated 3])
      (simp_all add: parse_endpoint_config_value with_endpoints_Nil with_endpoints_append)
  ultimately show ?thesis using that by blast
qed

section \<open>Dumps of a configuration in the two formats\<close>

text \<open>
  What a control plane configures a client with, and how the two formats of the discovery service
  write it down (one entry per resource).
\<close>

datatype xds_resource =
    XListener json
  | XRoute string json
  | XCluster json
  | XEndpoints "(string \<times> int \<times> string) list list"

definition lb_endpoint_json :: "string \<times> int \<times> string \<Rightarrow> json" where
  "lb_endpoint_json = (\<lambda>(host, port, health).
     JObj [(''endpoint'', JObj [(''address'', JObj [(''socketAddress'',
             JObj [(''address'', JStr host), (''portValue'', JInt port)])])]),
           (''healthStatus'', JStr health)])"

definition assignment_json :: "(string \<times> int \<times> string) list list \<Rightarrow> json" where
  "assignment_json localities =
     JObj [(''endpoints'', JList (map (\<lambda>l. JObj [(''lbEndpoints'', JList (map lb_endpoint_json l))]) localities))]"

fun per_xds_json :: "xds_resource \<Rightarrow> json" where
  "per_xds_json (XListener l) = JObj [(''listenerConfig'', JObj [(''dynamicListeners'',
      JList [JObj [(''activeState'', JObj [(''listener'', l)])]])])]"
| "per_xds_json (XRoute v r) = JObj [(''routeConfig'', JObj [(''dynamicRouteConfigs'',
      JList [JObj [(''versionInfo'', JStr v), (''routeConfig'', r)]])])]"
| "per_xds_json (XCluster c) = JObj [(''clusterConfig'', JObj [(''dynamicActiveClusters'',
      JList [JObj [(''cluster'', c)]])])]"
| "per_xds_json (XEndpoints ls) = JObj [(''endpointConfig'', JObj [(''dynamicEndpointConfigs'',
      JList [JObj [(''endpointConfig'', assignment_json ls)]])])]"

fun generic_json :: "xds_resource \<Rightarrow> json" where
  "generic_json (XListener l) = JObj [(''typeUrl'', JStr ''type.googleapis.com/envoy.config.listener.v3.Listener''),
      (''xdsConfig'', l)]"
| "generic_json (XRoute v r) = JObj [(''typeUrl'', JStr ''type.googleapis.com/envoy.config.route.v3.RouteConfiguration''),
      (''versionInfo'', JStr v), (''xdsConfig'', r)]"
| "generic_json (XCluster c) = JObj [(''typeUrl'', JStr ''type.googleapis.com/envoy.config.cluster.v3.Cluster''),
      (''xdsConfig'', c)]"
| "generic_json (XEndpoints ls) =
      JObj [(''typeUrl'', JStr ''type.googleapis.com/envoy.config.endpoint.v3.ClusterLoadAssignment''),
      (''xdsConfig'', assignment_json ls)]"

definition old_dump :: "xds_resource list \<Rightarrow> (string \<times> json) list" where
  "old_dump rs = [(''xdsConfig'', JList (map per_xds_json rs))]"

definition generic_dump :: "xds_resource list \<Rightarrow> (string \<times> json) list" where
  "generic_dump rs = [(''genericXdsConfigs'', JList (map generic_json rs))]"

text \<open>What should be read from either: the last listener and route, all clusters and endpoints.\<close>

fun last_listener :: "json \<Rightarrow> xds_resource list \<Rightarrow> json" where
  "last_listener x [] = x"
| "last_listener x (r # rs) = last_listener (case r of XListener l \<Rightarrow> l | _ \<Rightarrow> x) rs"

fun last_route :: "json \<times> json \<Rightarrow> xds_resource list \<Rightarrow> json \<times> json" where
  "last_route x [] = x"
| "last_route x (r # rs) = last_route (case r of XRoute v c \<Rightarrow> (JStr v, c) | _ \<Rightarrow> x) rs"

definition clusters_of :: "xds_resource list \<Rightarrow> json list" where
  "clusters_of rs = List.map_filter (\<lambda>r. case r of XCluster c \<Rightarrow> Some c | _ \<Rightarrow> None) rs"

definition assignments_of :: "xds_resource list \<Rightarrow> (string \<times> int \<times> string) list list list" where
  "assignments_of rs = List.map_filter (\<lambda>r. case r of XEndpoints ls \<Rightarrow> Some ls | _ \<Rightarrow> None) rs"

definition addresses_of :: "string \<Rightarrow> xds_resource list \<Rightarrow> string list" where
  "addresses_of status rs =
     map (\<lambda>(host, port, _). host @ '':'' @ str_int port)
       (filter (\<lambda>(_, _, health). health = status) (concat (map concat (assignments_of rs))))"

definition view_of :: "xds_resource list \<Rightarrow> dumped_xds_config \<Rightarrow> dumped_xds_config" where
  "view_of rs d =
     d\<lparr>dx_lds := last_listener (dx_lds d) rs,
       dx_rds := snd (last_route (dx_rds_version d, dx_rds d) rs),
       dx_rds_version := fst (last_route (dx_rds_version d, dx_rds d) rs),
       dx_cds := dx_cds d @ clusters_of rs, dx_eds := dx_eds d @ map assignment_json (assignments_of rs)\<rparr>"

lemmas parse_simps = try_except_def append_cds_def append_eds_def modify_def return_def for_in_def
  andthen_def bind_def lift_def search_end_def type_url_ends_def

lemma parse_per_xds_json: "parse_per_xds_config (per_xds_json r) d = (Inr (), view_of [r] d)"
  by (cases r) (simp_all add: parse_per_xds_config_def parse_simps view_of_def clusters_of_def
      assignments_of_def List.map_filter_def)

lemma parse_generic_json: "parse_generic_xds_config (generic_json r) d = (Inr (), view_of [r] d)"
  by (cases r) (simp_all add: parse_generic_xds_config_def parse_simps view_of_def clusters_of_def
      assignments_of_def List.map_filter_def suffix_to_prefix newline_def)

lemma last_append:
  "last_listener x (xs @ ys) = last_listener (last_listener x xs) ys"
  "last_route y (xs @ ys) = last_route (last_route y xs) ys"
  by (induction xs arbitrary: x y) auto

lemma view_of_Cons: "view_of (r # rs) d = view_of rs (view_of [r] d)"
  by (cases r) (simp_all add: view_of_def clusters_of_def assignments_of_def List.map_filter_def)

lemma parse_resources:
  assumes "\<And>r d. parse (enc r) d = (Inr (), view_of [r] d)"
  shows "stmts (map parse (map enc rs)) d = (Inr (), view_of rs d)"
proof (induction rs arbitrary: d)
  case Nil
  show ?case by (simp add: view_of_def clusters_of_def assignments_of_def List.map_filter_def return_def)
next
  case (Cons r rs)
  have "view_of (r # rs) d = view_of rs (view_of [r] d)" by (rule view_of_Cons)
  then show ?case using Cons.IH assms by (simp add: andthen_def bind_def)
qed

lemma parse_lb_endpoint_jsons:
  "stmts (map parse_lb_endpoint (map lb_endpoint_json l)) d = (Inr (), with_endpoints (map lb_endpoint_json l) d)"
proof (induction l arbitrary: d)
  case (Cons x l)
  have "with_endpoints (map lb_endpoint_json (x # l)) d
    = with_endpoints (map lb_endpoint_json l) (with_endpoints [lb_endpoint_json x] d)"
    using with_endpoints_append [of "[lb_endpoint_json x]" "map lb_endpoint_json l" d] by simp
  then show ?case using Cons.IH by (simp add: andthen_def bind_def parse_lb_endpoint_value)
qed (simp add: with_endpoints_Nil return_def)

lemma address_in_json:
  "address_in status (lb_endpoint_json (host, port, health)) =
     (if health = status then Some (host @ '':'' @ str_int port) else None)"
  by (simp add: address_in_def lb_endpoint_json_def lb_endpoint_address_def)

lemma endpoints_of_json:
  "List.map_filter (address_in status) (map lb_endpoint_json l) =
     map (\<lambda>(host, port, _). host @ '':'' @ str_int port) (filter (\<lambda>(_, _, health). health = status) l)"
  by (induction l) (auto simp: map_filter_simps address_in_json)

lemma parse_assignments:
  "stmts (map parse_endpoint_config (map assignment_json ass)) d =
     (Inr (), with_endpoints (map lb_endpoint_json (concat (map concat ass))) d)"
proof -
  let ?locality = "\<lambda>endpoint. bind (lift (get_default endpoint ''lbEndpoints'' (JObj []))) (\<lambda>lb_endpoints.
           for_in lb_endpoints parse_lb_endpoint)"
  have one: "?locality (JObj [(''lbEndpoints'', JList (map lb_endpoint_json l))]) d
      = (Inr (), with_endpoints (map lb_endpoint_json l) d)" for l d
    using parse_lb_endpoint_jsons by (simp add: for_in_def)
  have some: "stmts (map (?locality \<circ> (\<lambda>l. JObj [(''lbEndpoints'', JList (map lb_endpoint_json l))])) ls) d
      = (Inr (), with_endpoints (map lb_endpoint_json (concat ls)) d)" for ls d
  proof (induction ls arbitrary: d)
    case Nil
    show ?case by (simp add: with_endpoints_Nil return_def)
  next
    case (Cons l ls)
    show ?case
      using Cons.IH one by (simp add: andthen_def bind_def with_endpoints_append)
  qed
  have config: "parse_endpoint_config (assignment_json ls) d
      = (Inr (), with_endpoints (map lb_endpoint_json (concat ls)) d)" for ls d
    using some [of ls d] by (simp add: parse_endpoint_config_def assignment_json_def for_in_def)
  show ?thesis
  proof (induction ass arbitrary: d)
    case Nil
    show ?case by (simp add: with_endpoints_Nil return_def)
  next
    case (Cons ls ass)
    show ?case
      using Cons.IH config by (simp add: andthen_def bind_def with_endpoints_append)
  qed
qed

definition xds_view :: "xds_resource list \<Rightarrow> (string \<times> json) list \<Rightarrow> dumped_xds_config" where
  "xds_view rs kvs =
     \<lparr>dx_client_config_dict = kvs, dx_lds = last_listener JNull rs,
      dx_rds = snd (last_route (JNull, JNull) rs), dx_rds_version = fst (last_route (JNull, JNull) rs),
      dx_cds = clusters_of rs, dx_eds = map assignment_json (assignments_of rs),
      dx_endpoints = addresses_of ''HEALTHY'' rs, dx_draining_endpoints = addresses_of ''DRAINING'' rs\<rparr>"

lemma view_after_endpoints:
  "with_endpoints (map lb_endpoint_json (concat (map concat (assignments_of rs)))) (view_of rs (no_config kvs)) =
     xds_view rs kvs"
  by (simp add: with_endpoints_def view_of_def no_config_def endpoints_of_json addresses_of_def xds_view_def)

section \<open>Properties\<close>


text \<open>
  Whatever a dump contains, when it is parsed the endpoints listed as healthy and as draining are
  the addresses, in order, of the endpoints in that state below the parsed assignments; endpoints
  without a readable address or state are left out.
\<close>

theorem endpoints_read:
  assumes "dump_parsed kvs = Inr d"
  shows "\<exists>lbss. emap config_endpoints (dx_eds d) = Inr lbss
    \<and> dx_endpoints d = List.map_filter (address_in ''HEALTHY'') (concat lbss)
    \<and> dx_draining_endpoints d = List.map_filter (address_in ''DRAINING'') (concat lbss)"
proof -
  obtain d2 lbss where "no_endpoints d2" "emap config_endpoints (dx_eds d2) = Inr lbss"
    and "d = with_endpoints (concat lbss) d2"
    using assms by (rule dump_parsed_phases)
  then show ?thesis by (simp add: with_endpoints_def no_endpoints_def)
qed

theorem endpoints_read_witness:
  "\<exists>d. dump_parsed (generic_dump [XEndpoints [[(''h'', 80, ''HEALTHY''), (''g'', 80, ''UNKNOWN'')], [(''f'', 5, ''DRAINING'')]]])
      = Inr d
    \<and> (\<exists>lbss. emap config_endpoints (dx_eds d) = Inr lbss
      \<and> dx_endpoints d = List.map_filter (address_in ''HEALTHY'') (concat lbss)
      \<and> dx_draining_endpoints d = List.map_filter (address_in ''DRAINING'') (concat lbss))
    \<and> dx_endpoints d = [''h:80''] \<and> dx_draining_endpoints d = [''f:5'']"
proof -
  let ?rs = "[XEndpoints [[(''h'', 80, ''HEALTHY''), (''g'', 80, ''UNKNOWN'')], [(''f'', 5, ''DRAINING'')]]]"
  have "case dump_parsed (generic_dump ?rs) of
      Inr d \<Rightarrow> dx_endpoints d = [''h:80''] \<and> dx_draining_endpoints d = [''f:5''] | Inl _ \<Rightarrow> False"
    by code_simp
  then obtain d where "dump_parsed (generic_dump ?rs) = Inr d"
    and "dx_endpoints d = [''h:80'']" "dx_draining_endpoints d = [''f:5'']"
    by (auto split: sum.splits)
  with endpoints_read [of "generic_dump ?rs" d] show ?thesis by blast
qed

end
