(* ===== verification/RpcChecks.thy ===== *)
theory RpcChecks
  imports RpcStats XdsConfig
begin

text \<open>
  framework/xds_k8s_testcase.py, class \<open>XdsKubernetesBaseTestCase\<close>: the checks that the tests make on
  the statistics and the xDS configuration of a test client. A failed check raises
  \<open>AssertionError\<close> with the check's message; the dump of statistics and the library's own words
  around the message are left out of it.
\<close>

section \<open>What the checks depend on\<close>

text \<open>
  The connections of the client, the members of \<open>grpc.StatusCode\<close>, and, for each server runner of the
  test case that exists, the names of the pods it lists (which may
  change with every call that is made).
\<close>

record checks_env =
  ce_app :: app_env
  ce_stats :: stats_env
  ce_csds :: "trace \<Rightarrow> event \<Rightarrow> exn + client_config list"
  ce_codes :: "status_code list"
  ce_runner_pods :: "(trace \<Rightarrow> exn + string list) list"

definition check :: "bool \<Rightarrow> string \<Rightarrow> exn + unit" where
  "check ok msg = (if ok then Inr () else Inl (AssertionError msg))"

lemma check_Inr [simp]: "check ok msg = Inr () \<longleftrightarrow> ok"
  by (simp add: check_def)

definition fetch_config :: "checks_env \<Rightarrow> bool \<Rightarrow> dumped_xds_config option cl_meth" where
  "fetch_config E secure_channel =
     bind (csds_stub (ce_app E) secure_channel) (\<lambda>stub. call (fetch_client_status_parsed (ce_csds E) stub))"

definition get_client_rpc_stats :: "checks_env \<Rightarrow> int \<Rightarrow> string list option \<Rightarrow> bool \<Rightarrow> lb_stats cl_meth" where
  "get_client_rpc_stats E num_rpcs metadata_keys secure_channel =
     get_load_balancer_stats (ce_app E) (ce_stats E) num_rpcs metadata_keys None secure_channel"

definition accumulated :: "checks_env \<Rightarrow> accumulated_stats cl_meth" where
  "accumulated E = get_load_balancer_accumulated_stats (ce_app E) (ce_stats E) None False"

text \<open>A constant retryer with a timeout and a body that returns nothing.\<close>

definition retry_check ::
  "cl_tenacity \<Rightarrow> int \<Rightarrow> int \<Rightarrow> exn_class list option \<Rightarrow> string \<Rightarrow> unit cl_meth \<Rightarrow> unit cl_meth" where
  "retry_check T wait_fixed timeout retry_on error_note body =
     bind (lift (constant_retryer wait_fixed 0 (Some timeout) retry_on None error_note)) (\<lambda>cfg.
     bind (T cfg (bind body (\<lambda>_. return JNull))) (\<lambda>_. return ()))"

section \<open>Counts of RPCs\<close>

fun all_backends_received_rpcs :: "(string \<times> int) list \<Rightarrow> exn + unit" where
  "all_backends_received_rpcs [] = Inr ()"
| "all_backends_received_rpcs ((backend, n) # by_peer) =
     ebind (check (0 < n) (''Backend '' @ backend @ '' did not receive a single RPC''))
       (\<lambda>_. all_backends_received_rpcs by_peer)"

definition none_failed :: "lb_stats \<Rightarrow> int \<Rightarrow> exn + unit" where
  "none_failed lb num_rpcs =
     check (lb_num_failures lb \<le> 0)
       (''Expected all RPCs to succeed: '' @ str_int (lb_num_failures lb) @ '' of '' @ str_int num_rpcs @ '' failed'')"

definition assert_successful_rpcs :: "checks_env \<Rightarrow> int \<Rightarrow> bool \<Rightarrow> lb_stats cl_meth" where
  "assert_successful_rpcs E num_rpcs secure_channel =
     bind (get_client_rpc_stats E num_rpcs None secure_channel) (\<lambda>lb.
     bind (lift (all_backends_received_rpcs (lb_rpcs_by_peer lb))) (\<lambda>_.
     bind (lift (none_failed lb num_rpcs)) (\<lambda>_. return lb)))"

definition assert_failed_rpcs :: "checks_env \<Rightarrow> int \<Rightarrow> unit cl_meth" where
  "assert_failed_rpcs E num_rpcs =
     bind (get_client_rpc_stats E num_rpcs None False) (\<lambda>lb.
     lift (check (lb_num_failures lb = num_rpcs)
       (''Expected all RPCs to fail: '' @ str_int (lb_num_failures lb) @ '' of '' @ str_int num_rpcs @ '' failed'')))"

section \<open>Differences of accumulated statistics\<close>

definition no_stats :: method_stats where
  "no_stats = \<lparr>ms_rpcs_started = 0, ms_result = []\<rparr>"

definition negative_diff :: string where
  "negative_diff = ''Diff of count shouldn'' @ [CHR 0x27] @ ''t be negative''"

text \<open>Only counts that grew get an entry.\<close>

fun diff_counts :: "(int \<times> int) list \<Rightarrow> (int \<times> int) list \<Rightarrow> exn + (int \<times> int) list" where
  "diff_counts before [] = Inr []"
| "diff_counts before ((status, n) # after) =
     (let d = n - map_get 0 before status in
      if d < 0 then Inl (AssertionError negative_diff)
      else ebind (diff_counts before after) (\<lambda>ds. Inr (if d > 0 then (status, d) # ds else ds)))"

definition diff_method ::
  "accumulated_stats \<Rightarrow> string \<times> method_stats \<Rightarrow> exn + (string \<times> method_stats)" where
  "diff_method before = (\<lambda>(meth, stats).
     let old = map_get no_stats (as_stats_per_method before) meth;
         started = ms_rpcs_started stats - ms_rpcs_started old in
     ebind (diff_counts (ms_result old) (ms_result stats)) (\<lambda>counts.
       if started < 0 then Inl (AssertionError negative_diff)
       else Inr (meth, \<lparr>ms_rpcs_started = started, ms_result = counts\<rparr>)))"

definition diff_accumulated_stats_per_method ::
  "accumulated_stats \<Rightarrow> accumulated_stats \<Rightarrow> exn + accumulated_stats" where
  "diff_accumulated_stats_per_method before after =
     ebind (emap (diff_method before) (as_stats_per_method after)) (\<lambda>ms.
       Inr \<lparr>as_stats_per_method = ms, as_num_rpcs_started_by_method = [],
            as_num_rpcs_succeeded_by_method = [], as_num_rpcs_failed_by_method = []\<rparr>)"

text \<open>A status that is no member of the enum cannot be formatted (\<open>None.value\<close>).\<close>

definition status_pretty_opt :: "status_code option \<Rightarrow> exn + string" where
  "status_pretty_opt s = (case s of None \<Rightarrow> Inl (AttributeError ''value'') | Some c \<Rightarrow> Inr (status_pretty c))"

fun only_status :: "status_code list \<Rightarrow> status_code \<Rightarrow> string \<Rightarrow> int \<Rightarrow> (int \<times> int) list \<Rightarrow> exn + unit" where
  "only_status codes expected meth stray_rpc_limit [] = Inr ()"
| "only_status codes expected meth stray_rpc_limit ((i, n) # counts) =
     (let found = status_from_int codes i in
      if found \<noteq> Some expected \<and> n > stray_rpc_limit then
        ebind (status_pretty_opt found) (\<lambda>found_fmt.
          Inl (AssertionError (''Expected only status '' @ status_pretty expected @ '', but found status '' @
            found_fmt @ '' for method '' @ meth @ ''.'')))
      else only_status codes expected meth stray_rpc_limit counts)"

definition check_status_codes ::
  "status_code list \<Rightarrow> status_code \<Rightarrow> string \<Rightarrow> int \<Rightarrow> accumulated_stats \<Rightarrow> exn + unit" where
  "check_status_codes codes expected meth stray_rpc_limit diff =
     (let stats = map_get no_stats (as_stats_per_method diff) meth in
      ebind (check (0 < map_get 0 (ms_result stats) (fst expected))
        (''Expected non-zero completed RPCs with status '' @ status_pretty expected @ '' for method '' @ meth @ ''.''))
        (\<lambda>_. only_status codes expected meth stray_rpc_limit (ms_result stats)))"

definition assert_rpc_status_codes ::
  "checks_env \<Rightarrow> status_code \<Rightarrow> int \<Rightarrow> string \<Rightarrow> int \<Rightarrow> unit cl_meth" where
  "assert_rpc_status_codes E expected duration_sec meth stray_rpc_limit =
     bind (accumulated E) (\<lambda>before_stats.
     bind (call (pause duration_sec)) (\<lambda>_.
     bind (accumulated E) (\<lambda>after_stats.
     bind (lift (diff_accumulated_stats_per_method before_stats after_stats)) (\<lambda>diff_stats.
       lift (check_status_codes (ce_codes E) expected meth stray_rpc_limit diff_stats)))))"

definition assert_rpc_status_codes_with_retry ::
  "checks_env \<Rightarrow> cl_tenacity \<Rightarrow> status_code \<Rightarrow> int \<Rightarrow> string \<Rightarrow> int \<Rightarrow> int \<Rightarrow> unit cl_meth" where
  "assert_rpc_status_codes_with_retry E T expected duration_sec meth stray_rpc_limit retry_timeout =
     bind (T (exponential_retryer_with_timeout 10 25 retry_timeout (Some [CAssertionError]) None [])
             (bind (assert_rpc_status_codes E expected duration_sec meth stray_rpc_limit) (\<lambda>_. return JNull)))
       (\<lambda>_. return ())"

definition check_rpcs_in_flight :: "checks_env \<Rightarrow> string \<Rightarrow> int \<Rightarrow> int \<Rightarrow> unit cl_meth" where
  "check_rpcs_in_flight E rpc_type num_rpcs_min num_rpcs_max =
     bind (accumulated E) (\<lambda>stats.
       let in_flight = map_get 0 (as_num_rpcs_started_by_method stats) rpc_type
             - map_get 0 (as_num_rpcs_succeeded_by_method stats) rpc_type
             - map_get 0 (as_num_rpcs_failed_by_method stats) rpc_type in
       lift (check (num_rpcs_min \<le> in_flight \<and> in_flight \<le> num_rpcs_max)
         (''Found wrong number of RPCs in flight: actual('' @ str_int in_flight @ ''), expected ['' @
           str_int num_rpcs_min @ '', '' @ str_int num_rpcs_max @ '']'')))"

section \<open>Which servers received RPCs\<close>

definition min_servers_once :: "checks_env \<Rightarrow> int \<Rightarrow> int \<Rightarrow> unit cl_meth" where
  "min_servers_once E num_expected_servers num_rpcs =
     bind (get_client_rpc_stats E num_rpcs None False) (\<lambda>lb.
     bind (lift (none_failed lb num_rpcs)) (\<lambda>_.
       let n = int (length (lb_rpcs_by_peer lb)) in
       lift (check (num_expected_servers \<le> n)
         (''RPCs went to '' @ str_int n @ '' server(s), expected at least '' @ str_int num_expected_servers @ '' servers''))))"

definition assert_rpcs_eventually_reach_min_servers ::
  "checks_env \<Rightarrow> cl_tenacity \<Rightarrow> int \<Rightarrow> int \<Rightarrow> int \<Rightarrow> int \<Rightarrow> unit cl_meth" where
  "assert_rpcs_eventually_reach_min_servers E T num_expected_servers num_rpcs retry_timeout retry_wait =
     retry_check T retry_wait retry_timeout None
       (''RPCs (num_rpcs='' @ str_int num_rpcs @ '') did not go to at least '' @ str_int num_expected_servers @
        '' server(s) before timeout '' @ str_timedelta retry_timeout @ '' (h:mm:ss)'')
       (min_servers_once E num_expected_servers num_rpcs)"

text \<open>\<open>name.rsplit("-", 1)[0]\<close>: what stands before the last dash.\<close>

definition before_last_dash :: "string \<Rightarrow> string" where
  "before_last_dash s =
     (if CHR ''-'' \<in> set s then rev (tl (dropWhile (\<lambda>c. c \<noteq> CHR ''-'') (rev s))) else s)"

definition replaced_hostname ::
  "(string \<times> int) list \<Rightarrow> string list \<Rightarrow> string \<Rightarrow> string" where
  "replaced_hostname by_peer active h =
     (if h \<in> fst ` set by_peer then h
      else case List.find (\<lambda>a. a \<in> fst ` set by_peer \<and> prefix (before_last_dash h) a) active of
             Some a \<Rightarrow> a
           | None \<Rightarrow> h)"

fun each_in :: "(string \<Rightarrow> string) \<Rightarrow> string list \<Rightarrow> string list \<Rightarrow> exn + unit" where
  "each_in msg ys [] = Inr ()"
| "each_in msg ys (x # xs) = ebind (check (x \<in> set ys) (msg x)) (\<lambda>_. each_in msg ys xs)"

definition given_servers_check :: "lb_stats \<Rightarrow> int \<Rightarrow> string list \<Rightarrow> exn + unit" where
  "given_servers_check lb num_rpcs server_hostnames =
     ebind (none_failed lb num_rpcs) (\<lambda>_.
     ebind (each_in (\<lambda>h. ''Server '' @ h @ '' did not receive RPCs'') (map fst (lb_rpcs_by_peer lb)) server_hostnames) (\<lambda>_.
       each_in (\<lambda>h. ''Unexpected server '' @ h @ '' received RPCs'') server_hostnames (map fst (lb_rpcs_by_peer lb))))"

definition active_pods :: "checks_env \<Rightarrow> (trace, string list) act" where
  "active_pods E = (\<lambda>w. (ebind (emap (\<lambda>pods. pods w) (ce_runner_pods E)) (\<lambda>xss. Inr (concat xss)), w))"

definition given_servers_once :: "checks_env \<Rightarrow> string list \<Rightarrow> int \<Rightarrow> unit cl_meth" where
  "given_servers_once E server_hostnames num_rpcs =
     bind (get_client_rpc_stats E num_rpcs None False) (\<lambda>lb.
       let missing = filter (\<lambda>h. h \<notin> fst ` set (lb_rpcs_by_peer lb)) server_hostnames in
       if missing = [] then lift (given_servers_check lb num_rpcs server_hostnames)
       else bind (call (active_pods E)) (\<lambda>active.
         lift (given_servers_check lb num_rpcs
           (map (replaced_hostname (lb_rpcs_by_peer lb) active) server_hostnames))))"

text \<open>A list of host names (without quotes in them) in an f-string.\<close>

definition list_repr :: "string list \<Rightarrow> string" where
  "list_repr hs = ''['' @ str_join '', '' (map (\<lambda>h. CHR 0x27 # h @ [CHR 0x27]) hs) @ '']''"

definition assert_rpcs_eventually_go_to_given_servers ::
  "checks_env \<Rightarrow> cl_tenacity \<Rightarrow> string list \<Rightarrow> int \<Rightarrow> int \<Rightarrow> int \<Rightarrow> unit cl_meth" where
  "assert_rpcs_eventually_go_to_given_servers E T server_hostnames num_rpcs retry_timeout retry_wait =
     retry_check T retry_wait retry_timeout None
       (''RPCs (num_rpcs='' @ str_int num_rpcs @ '') did not go to exclusively the expected servers '' @ list_repr server_hostnames @
        '' before timeout '' @ str_timedelta retry_timeout @ '' (h:mm:ss)'')
       (given_servers_once E server_hostnames num_rpcs)"

section \<open>The configuration of the client\<close>

definition url_ends :: "string \<Rightarrow> string \<Rightarrow> bool" where
  "url_ends suf url \<longleftrightarrow> suffix suf url \<or> suffix (suf @ newline) url"

definition assert_eds_config_exists :: "client_config \<Rightarrow> exn + unit" where
  "assert_eds_config_exists c =
     check (list_ex (url_ends ''.ClusterLoadAssignment'') (cc_generic_type_urls c)) ''endpoint_config''"

definition config_kind :: "string \<Rightarrow> string option list" where
  "config_kind url =
     (if url_ends ''.Listener'' url then [Some ''listener_config'']
      else if url_ends ''.RouteConfiguration'' url then [Some ''route_config'']
      else if url_ends ''.Cluster'' url then [Some ''cluster_config'']
      else [])"

definition seen_configs :: "client_config \<Rightarrow> string option set" where
  "seen_configs c = set (cc_xds_config c @ concat (map config_kind (cc_generic_type_urls c)))"

definition check_config_exists :: "client_config option \<Rightarrow> exn + unit" where
  "check_config_exists config =
     (case config of
        None \<Rightarrow> Inl (AssertionError ''unexpectedly None'')
      | Some c \<Rightarrow> ebind (assert_eds_config_exists c) (\<lambda>_.
          check (seen_configs c = {Some ''listener_config'', Some ''cluster_config'', Some ''route_config''})
            ''listener_config, cluster_config, route_config''))"

definition assert_xds_config_exists :: "checks_env \<Rightarrow> bool \<Rightarrow> unit cl_meth" where
  "assert_xds_config_exists E secure_channel =
     bind (csds_stub (ce_app E) secure_channel) (\<lambda>stub.
     bind (call (fetch_client_status (ce_csds E) stub)) (\<lambda>config. lift (check_config_exists config)))"

definition assert_xds_config_exists_with_retry ::
  "checks_env \<Rightarrow> cl_tenacity \<Rightarrow> bool \<Rightarrow> int \<Rightarrow> int \<Rightarrow> unit cl_meth" where
  "assert_xds_config_exists_with_retry E T secure_channel retry_timeout retry_wait =
     retry_check T retry_wait retry_timeout None
       (''Could not find correct bootstrap config before timeout '' @ str_timedelta retry_timeout @ '' (h:mm:ss)'')
       (assert_xds_config_exists E secure_channel)"

text \<open>The loops of the two update checks return at the first match.\<close>

fun eany :: "('a \<Rightarrow> exn + bool) \<Rightarrow> 'a list \<Rightarrow> exn + bool" where
  "eany f [] = Inr False"
| "eany f (x # xs) = ebind (f x) (\<lambda>b. if b then Inr True else eany f xs)"

definition route_goes_to :: "string \<Rightarrow> json \<Rightarrow> exn + bool" where
  "route_goes_to cluster route =
     ebind (get_default route ''route'' (JObj [])) (\<lambda>r.
     ebind (get_default r ''cluster'' JNull) (\<lambda>c. Inr (c = JStr cluster)))"

definition rds_has_cluster :: "string \<Rightarrow> dumped_xds_config option \<Rightarrow> exn + bool" where
  "rds_has_cluster cluster config =
     (case config of
        None \<Rightarrow> Inr False
      | Some d \<Rightarrow>
          if dx_client_config_dict d = [] \<or> \<not> py_truth (dx_rds d) then Inr False
          else ebind (get_default (dx_rds d) ''virtualHosts'' (JList [])) (\<lambda>vhs.
               ebind (py_iter vhs)
                 (eany (\<lambda>vh. ebind (get_default vh ''routes'' (JList [])) (\<lambda>routes.
                    ebind (py_iter routes) (eany (route_goes_to cluster)))))))"

definition first_max_requests :: "json \<Rightarrow> int \<Rightarrow> exn + bool" where
  "first_max_requests thresholds expected =
     (if \<not> py_truth thresholds then Inr False
      else ebind (getindex thresholds 0) (\<lambda>t.
           ebind (get_default t ''maxRequests'' JNull) (\<lambda>m. Inr (m = JInt expected))))"

definition cds_has_limit :: "string \<Rightarrow> int \<Rightarrow> dumped_xds_config option \<Rightarrow> exn + bool" where
  "cds_has_limit backend_service expected config =
     (case config of
        None \<Rightarrow> Inr False
      | Some d \<Rightarrow>
          if dx_client_config_dict d = [] \<or> dx_cds d = [] then Inr False
          else eany (\<lambda>cluster.
              ebind (get_default cluster ''name'' (JStr [])) (\<lambda>nm.
              ebind (get_default cluster ''altStatName'' (JStr [])) (\<lambda>alt.
              ebind (contains backend_service nm) (\<lambda>a.
              ebind (if a then Inr True else contains backend_service alt) (\<lambda>b.
              if \<not> b then Inr False
              else ebind (get_default cluster ''circuitBreakers'' (JObj [])) (\<lambda>cb.
                   ebind (get_default cb ''thresholds'' (JList [])) (\<lambda>ths. first_max_requests ths expected)))))))
            (dx_cds d))"

definition retry_or_fail ::
  "cl_tenacity \<Rightarrow> int \<Rightarrow> int \<Rightarrow> string \<Rightarrow> json cl_meth \<Rightarrow> unit cl_meth" where
  "retry_or_fail T wait_fixed timeout msg body =
     bind (lift (constant_retryer wait_fixed 0 (Some timeout) None None [])) (\<lambda>cfg.
       try_except (bind (T cfg body) (\<lambda>_. return ())) (\<lambda>e. isinstance e [CRetryError])
         (\<lambda>_. raise (AssertionError msg)))"

definition rds_check :: "checks_env \<Rightarrow> string \<Rightarrow> json cl_meth" where
  "rds_check E cluster = bind (fetch_config E False) (\<lambda>config.
     bind (lift (rds_has_cluster cluster config)) (\<lambda>b. return (JBool b)))"

definition assert_rds_config_updated :: "checks_env \<Rightarrow> cl_tenacity \<Rightarrow> string \<Rightarrow> unit cl_meth" where
  "assert_rds_config_updated E T cluster =
     retry_or_fail T 2 300 (''Timeout waiting for RDS to update to cluster '' @ cluster) (rds_check E cluster)"

definition cds_check :: "checks_env \<Rightarrow> string \<Rightarrow> int \<Rightarrow> json cl_meth" where
  "cds_check E backend_service expected = bind (fetch_config E False) (\<lambda>config.
     bind (lift (cds_has_limit backend_service expected config)) (\<lambda>b. return (JBool b)))"

definition assert_cds_circuit_breaker_requests_limit ::
  "checks_env \<Rightarrow> cl_tenacity \<Rightarrow> string \<Rightarrow> int \<Rightarrow> int \<Rightarrow> int \<Rightarrow> unit cl_meth" where
  "assert_cds_circuit_breaker_requests_limit E T backend_service expected retry_timeout retry_wait =
     retry_or_fail T retry_wait retry_timeout
       (''Timeout waiting for CDS of '' @ backend_service @ '' to update to maxRequests='' @ str_int expected)
       (cds_check E backend_service expected)"

definition handoff_once :: "checks_env \<Rightarrow> json \<Rightarrow> unit cl_meth" where
  "handoff_once E previous_route_config_version =
     bind (assert_successful_rpcs E 100 False) (\<lambda>_.
     bind (fetch_config E False) (\<lambda>config.
       case config of
         None \<Rightarrow> raise (AssertionError ''unexpectedly None'')
       | Some d \<Rightarrow>
           if previous_route_config_version = dx_rds_version d
           then raise (TdPropagationRetryableError
             ''CSDS not get updated routing config corresponding to the second set of url maps'')
           else bind (assert_successful_rpcs E 100 False) (\<lambda>_. return ())))"

definition assert_route_config_update_traffic_handoff ::
  "checks_env \<Rightarrow> cl_tenacity \<Rightarrow> json \<Rightarrow> int \<Rightarrow> int \<Rightarrow> unit cl_meth" where
  "assert_route_config_update_traffic_handoff E T previous_route_config_version retry_wait_second timeout_second =
     retry_check T retry_wait_second timeout_second (Some [CTdPropagationRetryableError]) []
       (handoff_once E previous_route_config_version)"

definition endpoints_counted ::
  "checks_env \<Rightarrow> (dumped_xds_config \<Rightarrow> string list) \<Rightarrow> int \<Rightarrow> string \<Rightarrow> unit cl_meth" where
  "endpoints_counted E which expected_count msg = using_self (\<lambda>self.
     bind (fetch_config E False) (\<lambda>config.
       case config of
         None \<Rightarrow> raise (AssertionError (''Error getting CSDS config dump from client '' @ xc_hostname self))
       | Some d \<Rightarrow> lift (check (int (length (which d)) = expected_count) msg)))"

definition assert_healthy_endpoints_count ::
  "checks_env \<Rightarrow> cl_tenacity \<Rightarrow> int \<Rightarrow> int \<Rightarrow> int \<Rightarrow> unit cl_meth" where
  "assert_healthy_endpoints_count E T expected_count retry_timeout retry_wait = using_self (\<lambda>self.
     retry_check T retry_wait retry_timeout None
       (''Timeout waiting for test client '' @ xc_hostname self @ '' to report '' @ str_int expected_count @
        '' endpoint(s) in HEALTHY state.'')
       (endpoints_counted E dx_endpoints expected_count []))"

definition assert_draining_endpoints_count ::
  "checks_env \<Rightarrow> cl_tenacity \<Rightarrow> int \<Rightarrow> int \<Rightarrow> int \<Rightarrow> unit cl_meth" where
  "assert_draining_endpoints_count E T expected_count retry_timeout retry_wait = using_self (\<lambda>self.
     retry_check T retry_wait retry_timeout None
       (''Timeout waiting for test client '' @ xc_hostname self @ '' to report '' @ str_int expected_count @
        '' endpoint(s) in DRAINING state.'')
       (endpoints_counted E dx_draining_endpoints expected_count
         (''Expected '' @ str_int expected_count @ '' EDS endpoints to be DRAINING'')))"

section \<open>What a check that passes has seen\<close>

lemma grows_stubs [grows_intros]: "grows (lb_stats_stub D secure_channel)" "grows (csds_stub D secure_channel)"
  unfolding lb_stats_stub_def csds_stub_def by (auto intro!: grows_intros)

lemma grows_stats [grows_intros]:
  "grows (get_client_rpc_stats E num_rpcs metadata_keys secure_channel)" "grows (accumulated E)"
  unfolding get_client_rpc_stats_def get_load_balancer_stats_def accumulated_def get_load_balancer_accumulated_stats_def
    get_client_stats_def get_client_accumulated_stats_def Let_def
  by (auto intro!: grows_intros)

lemma grows_call_bind [grows_intros]:
  assumes "grows (call m :: ('o \<times> trace, 'a) act)" and "\<And>x. grows (call (k x) :: ('o \<times> trace, 'b) act)"
  shows "grows (call (bind m k) :: ('o \<times> trace, 'b) act)"
proof -
  have "call (bind m k) = bind (call m) (\<lambda>x. call (k x) :: ('o \<times> trace, 'b) act)"
    by (auto simp: call_def bind_def fun_eq_iff split: prod.split sum.split)
  then show ?thesis using assms by (simp add: grows_bind)
qed

lemma grows_call_pure [grows_intros]:
  "grows (call (return v) :: ('o \<times> trace, 'a) act)" "grows (call (lift r) :: ('o \<times> trace, 'a) act)"
  by (simp_all add: grows_def call_def return_def lift_def)

lemma grows_call_option [grows_intros]:
  "grows (call a :: ('o \<times> trace, 'a) act) \<Longrightarrow> (\<And>v. grows (call (b v) :: ('o \<times> trace, 'a) act))
    \<Longrightarrow> grows (call (case x of None \<Rightarrow> a | Some v \<Rightarrow> b v) :: ('o \<times> trace, 'a) act)"
  by (simp split: option.split)

lemma grows_fetch_config [grows_intros]: "grows (fetch_config E secure_channel)"
  unfolding fetch_config_def fetch_client_status_parsed_def fetch_client_status_def
  by (auto intro!: grows_intros)

text \<open>The request of the statistics of an interval, the one of the counters, and the one of a dump.\<close>

definition stats_event :: "grpc_channel \<Rightarrow> int \<Rightarrow> string list option \<Rightarrow> event" where
  "stats_event stub num_rpcs metadata_keys =
     rpc_event stub (ServiceCall ''GetClientStats'' (client_stats_request num_rpcs 1200 metadata_keys)) (Some 1200)"

definition counters_event :: "grpc_channel \<Rightarrow> event" where
  "counters_event stub = rpc_event stub (ServiceCall ''GetClientAccumulatedStats'' (JObj [])) (Some 600)"

definition dump_event :: "grpc_channel \<Rightarrow> event" where
  "dump_event stub = rpc_event stub (ServiceCall ''FetchClientStatus'' (JObj [])) (Some 30)"

lemma stats_reported:
  assumes "get_client_rpc_stats E num_rpcs metadata_keys secure_channel s = (Inr lb, s')"
  shows "\<exists>stub. reported (se_client_stats (ce_stats E)) (snd s) (snd s') (stats_event stub num_rpcs metadata_keys) lb"
proof -
  obtain stub s1 where stub: "lb_stats_stub (ce_app E) secure_channel s = (Inr stub, s1)"
    and asked: "call (get_client_stats (ce_stats E) stub num_rpcs None metadata_keys) s1 = (Inr lb, s')"
    using assms unfolding get_client_rpc_stats_def get_load_balancer_stats_def by (auto simp: bind_eq_Inr)
  have "later s s1" using grows_stubs(1) stub by (rule growsD)
  moreover have "reported (se_client_stats (ce_stats E)) (snd s1) (snd s') (stats_event stub num_rpcs metadata_keys) lb"
    using asked unfolding get_client_stats_def stats_event_def Let_def or_default_def STATS_PARTIAL_RESULTS_TIMEOUT_SEC_def
      option.case by (rule call_unary_reported)
  ultimately show ?thesis unfolding later_def by (blast intro: reported_mono)
qed

lemma counters_reported:
  assumes "accumulated E s = (Inr st, s')"
  shows "\<exists>stub. reported (se_accumulated_stats (ce_stats E)) (snd s) (snd s') (counters_event stub) st"
proof -
  obtain stub s1 where stub: "lb_stats_stub (ce_app E) False s = (Inr stub, s1)"
    and asked: "call (get_client_accumulated_stats (ce_stats E) stub None) s1 = (Inr st, s')"
    using assms unfolding accumulated_def get_load_balancer_accumulated_stats_def by (auto simp: bind_eq_Inr)
  have "later s s1" using grows_stubs(1) stub by (rule growsD)
  moreover have "reported (se_accumulated_stats (ce_stats E)) (snd s1) (snd s') (counters_event stub) st"
    using asked unfolding get_client_accumulated_stats_def counters_event_def or_default_def
      STATS_ACCUMULATED_RESULTS_TIMEOUT_SEC_def option.case by (rule call_unary_reported)
  ultimately show ?thesis unfolding later_def by (blast intro: reported_mono)
qed

lemma call_bind: "call (bind m k) = bind (call m) (\<lambda>x. call (k x))"
  by (auto simp: call_def bind_def fun_eq_iff split: prod.split sum.split)

lemma config_reported:
  assumes "fetch_config E secure_channel s = (Inr (Some d), s')"
  shows "\<exists>stub c. reported (ce_csds E) (snd s) (snd s') (dump_event stub) [c] \<and> dump_parsed (cc_dict c) = Inr d"
proof -
  obtain stub s1 where stub: "csds_stub (ce_app E) secure_channel s = (Inr stub, s1)"
    and asked: "call (fetch_client_status_parsed (ce_csds E) stub) s1 = (Inr (Some d), s')"
    using assms unfolding fetch_config_def by (auto simp: bind_eq_Inr)
  from asked obtain configs s2 where rpc: "call (call_unary_with_deadline (ce_csds E) stub
      (ServiceCall ''FetchClientStatus'' (JObj [])) (Some CSDS_DEADLINE_SEC)) s1 = (Inr configs, s2)"
    and rest: "call (case (case configs of [c] \<Rightarrow> Some c | _ \<Rightarrow> None) of None \<Rightarrow> return None
       | Some c \<Rightarrow> bind (lift (dump_parsed (cc_dict c))) (\<lambda>d. return (Some d))) s2 = (Inr (Some d), s')"
    unfolding fetch_client_status_parsed_def fetch_client_status_def call_bind
    by (auto simp: bind_eq_Inr call_def return_def)
  from rest obtain c where c: "configs = [c]" "dump_parsed (cc_dict c) = Inr d" "s2 = s'"
    by (auto simp: call_def return_def bind_def lift_def raise_def split: list.splits option.splits sum.splits)
  have "later s s1" using grows_stubs(2) stub by (rule growsD)
  moreover have "reported (ce_csds E) (snd s1) (snd s') (dump_event stub) [c]"
    using rpc unfolding dump_event_def CSDS_DEADLINE_SEC_def c by (rule call_unary_reported)
  ultimately show ?thesis using c(2) unfolding later_def by (blast intro: reported_mono)
qed

text \<open>A retried body that only extends the trace returns from an attempt after the start.\<close>

lemma retry_run_value_later:
  assumes "retry_run cfg fn n s m r" and "grows fn" and "r = (Inr v, s')"
  shows "\<exists>s0. later s s0 \<and> fn s0 = (Inr v, s')"
  using assms(1,3)
proof (induction rule: retry_run.induct)
  case (again s out s1 n m r)
  then obtain s0 where "later s1 s0" "fn s0 = (Inr v, s')" by blast
  moreover have "later s s1" using assms(2) again.hyps(1) by (rule growsD)
  ultimately show ?case using later_trans by blast
qed (blast intro: later_refl)+

lemma retry_check_value:
  assumes "tenacity_ok T" and "grows body"
    and "retry_check T wait_fixed timeout retry_on error_note body s = (Inr (), s')"
  shows "\<exists>s0. later s s0 \<and> body s0 = (Inr (), s')"
proof -
  let ?fn = "bind body (\<lambda>_. return JNull)"
  obtain cfg v where cfg: "constant_retryer wait_fixed 0 (Some timeout) retry_on None error_note = Inr cfg"
    and run: "T cfg ?fn s = (Inr v, s')"
    using assms(3) unfolding retry_check_def by (auto simp: bind_eq_Inr lift_def return_def)
  have "rt_stop cfg \<noteq> []" using cfg by (auto simp: constant_retryer_def)
  with assms(1) obtain m where "retry_run cfg ?fn 1 s m (T cfg ?fn s)" by (rule tenacity_run)
  moreover have "grows ?fn" using assms(2) by (auto intro!: grows_intros)
  ultimately obtain s0 where "later s s0" "?fn s0 = (Inr v, s')" using retry_run_value_later run by blast
  then show ?thesis by (cases s0) (auto simp: bind_eq_Inr return_def)
qed

text \<open>The same for the first attempt: what needs no retry is the outcome.\<close>

lemma retry_or_fail_first:
  assumes "tenacity_ok T" and "body s = (Inr v, s')"
  shows "retry_or_fail T wait_fixed timeout msg body s = (Inr (), s')"
proof -
  obtain cfg where cfg: "constant_retryer wait_fixed 0 (Some timeout) None None [] = Inr cfg"
    by (simp add: constant_retryer_def)
  then have "rt_stop cfg \<noteq> []" "any_wanted (rt_retry cfg) (Inr v) = Inr False"
    by (auto simp: constant_retryer_def build_retry_conditions_def)
  with assms have "T cfg body s = (Inr v, s')" by (metis tenacity_first)
  with cfg show ?thesis by (simp add: retry_or_fail_def bind_def lift_def try_except_def return_def)
qed

section \<open>What the checks of counts mean\<close>

definition count_of :: "accumulated_stats \<Rightarrow> string \<Rightarrow> int \<Rightarrow> int" where
  "count_of st meth status = map_get 0 (ms_result (map_get no_stats (as_stats_per_method st) meth)) status"

definition started_of :: "accumulated_stats \<Rightarrow> string \<Rightarrow> int" where
  "started_of st meth = ms_rpcs_started (map_get no_stats (as_stats_per_method st) meth)"

text \<open>The map fields of a message have distinct keys.\<close>

definition maps_distinct :: "accumulated_stats \<Rightarrow> bool" where
  "maps_distinct st \<longleftrightarrow> distinct (map fst (as_stats_per_method st)) \<and>
     (\<forall>(m, s) \<in> set (as_stats_per_method st). distinct (map fst (ms_result s)))"

text \<open>A counter that is in \<open>after\<close> and was larger in \<open>before\<close>.\<close>

definition decreased :: "accumulated_stats \<Rightarrow> accumulated_stats \<Rightarrow> bool" where
  "decreased before after \<longleftrightarrow>
     (\<exists>(m, s) \<in> set (as_stats_per_method after). ms_rpcs_started s < started_of before m
        \<or> (\<exists>(i, n) \<in> set (ms_result s). n < count_of before m i))"

lemma map_get_simps [simp]:
  "map_get d [] k = d" "map_get d ((k', v) # m) k = (if k = k' then v else map_get d m k)"
  by (simp_all add: map_get_def)

lemma map_get_absent: "k \<notin> fst ` set m \<Longrightarrow> map_get d m k = d"
  by (induction m) auto

lemma map_get_member: "distinct (map fst m) \<Longrightarrow> (k, v) \<in> set m \<Longrightarrow> map_get d m k = v"
  by (simp add: map_get_def map_of_eq_Some_iff)

lemma diff_counts_outcome:
  "distinct (map fst after) \<Longrightarrow> (case diff_counts before after of
     Inl e \<Rightarrow> e = AssertionError negative_diff \<and> (\<exists>(i, n) \<in> set after. n < map_get 0 before i)
   | Inr ds \<Rightarrow> (\<forall>(i, n) \<in> set after. map_get 0 before i \<le> n) \<and> fst ` set ds \<subseteq> fst ` set after
       \<and> distinct (map fst ds) \<and> (\<forall>(i, n) \<in> set ds. 0 < n)
       \<and> (\<forall>i. map_get 0 ds i = (if i \<in> fst ` set after then map_get 0 after i - map_get 0 before i else 0)))"
proof (induction after)
  case (Cons x after)
  obtain i n where x: "x = (i, n)" by (cases x)
  show ?case
  proof (cases "n < map_get 0 before i")
    case True
    then show ?thesis by (simp add: x)
  next
    case False
    then have "diff_counts before (x # after) = ebind (diff_counts before after)
        (\<lambda>ds. Inr (if n - map_get 0 before i > 0 then (i, n - map_get 0 before i) # ds else ds))"
      by (simp add: x Let_def)
    with Cons False show ?thesis
      by (cases "diff_counts before after") (auto simp: x map_get_absent)
  qed
qed simp

definition has_count :: "accumulated_stats \<Rightarrow> string \<Rightarrow> int \<Rightarrow> bool" where
  "has_count st meth status \<longleftrightarrow>
     status \<in> fst ` set (ms_result (map_get no_stats (as_stats_per_method st) meth))"

definition grown :: "(int \<times> int) list \<Rightarrow> (int \<times> int) list \<Rightarrow> (int \<times> int) list \<Rightarrow> bool" where
  "grown before after ds \<longleftrightarrow> distinct (map fst ds) \<and> (\<forall>(i, n) \<in> set ds. 0 < n)
     \<and> (\<forall>i. map_get 0 ds i = (if i \<in> fst ` set after then map_get 0 after i - map_get 0 before i else 0))"

lemma diff_method_outcome:
  assumes "distinct (map fst (ms_result st))"
  shows "case diff_method before (m, st) of
      Inl e \<Rightarrow> e = AssertionError negative_diff \<and>
        (ms_rpcs_started st < started_of before m \<or> (\<exists>(i, n) \<in> set (ms_result st). n < count_of before m i))
    | Inr (m', d) \<Rightarrow> m' = m \<and> ms_rpcs_started d = ms_rpcs_started st - started_of before m
        \<and> \<not> (ms_rpcs_started st < started_of before m \<or> (\<exists>(i, n) \<in> set (ms_result st). n < count_of before m i))
        \<and> grown (ms_result (map_get no_stats (as_stats_per_method before) m)) (ms_result st) (ms_result d)"
proof -
  let ?old = "map_get no_stats (as_stats_per_method before) m"
  have "diff_method before (m, st) = ebind (diff_counts (ms_result ?old) (ms_result st)) (\<lambda>counts.
       if ms_rpcs_started st < started_of before m then Inl (AssertionError negative_diff)
       else Inr (m, \<lparr>ms_rpcs_started = ms_rpcs_started st - started_of before m, ms_result = counts\<rparr>))"
    unfolding diff_method_def started_of_def Let_def by simp
  then show ?thesis
    using diff_counts_outcome [OF assms, of "ms_result ?old"]
    by (cases "diff_counts (ms_result ?old) (ms_result st)") (auto simp: count_of_def grown_def)
qed

lemma emap_Inl: "emap f xs = Inl e \<Longrightarrow> \<exists>x \<in> set xs. f x = Inl e"
  by (induction xs) (auto simp: ebind_def split: sum.splits)

lemma emap_diff_map_of:
  assumes "emap (diff_method before) ms = Inr ms'"
  shows "map_of ms' m = map_option (\<lambda>st. snd (projr (diff_method before (m, st)))) (map_of ms m)"
  using assms
proof (induction ms arbitrary: ms')
  case (Cons x ms)
  obtain m0 st0 where x: "x = (m0, st0)" by (cases x)
  from Cons.prems obtain y ys where y: "diff_method before x = Inr y" "emap (diff_method before) ms = Inr ys"
    "ms' = y # ys" by (auto simp: ebind_Inr_iff)
  moreover from y(1) have "fst y = m0"
    by (auto simp: x diff_method_def Let_def ebind_Inr_iff split: if_splits)
  ultimately show ?case using Cons.IH by (cases y) (auto simp: x)
qed simp

lemma diff_stats_lookup:
  assumes "diff_accumulated_stats_per_method before after = Inr diff"
  shows "map_get no_stats (as_stats_per_method diff) m =
    (case map_of (as_stats_per_method after) m of
       None \<Rightarrow> no_stats | Some st \<Rightarrow> snd (projr (diff_method before (m, st))))"
proof -
  obtain ms where "emap (diff_method before) (as_stats_per_method after) = Inr ms" "as_stats_per_method diff = ms"
    using assms unfolding diff_accumulated_stats_per_method_def by (auto simp: ebind_Inr_iff)
  then show ?thesis
    using emap_diff_map_of [of before _ ms m] by (auto simp: map_get_def split: option.splits)
qed

lemma maps_distinct_lookup:
  "maps_distinct st \<Longrightarrow> distinct (map fst (ms_result (map_get no_stats (as_stats_per_method st) m)))"
  unfolding maps_distinct_def map_get_def
  by (auto split: option.splits dest: map_of_SomeD simp: no_stats_def)

lemma diff_of_method:
  assumes "maps_distinct after" and diff: "diff_accumulated_stats_per_method before after = Inr diff"
    and "map_of (as_stats_per_method after) m = Some st"
  shows "\<exists>d. diff_method before (m, st) = Inr (m, d) \<and> map_get no_stats (as_stats_per_method diff) m = d"
proof -
  have "(m, st) \<in> set (as_stats_per_method after)" using assms(3) by (rule map_of_SomeD)
  moreover obtain ms where "emap (diff_method before) (as_stats_per_method after) = Inr ms"
    using diff unfolding diff_accumulated_stats_per_method_def by (auto simp: ebind_Inr_iff)
  ultimately obtain y where y: "diff_method before (m, st) = Inr y"
    unfolding emap_Inr_iff using list_all2_member [of _ "as_stats_per_method after" ms "(m, st)"] by blast
  moreover from y have "fst y = m" by (auto simp: diff_method_def Let_def ebind_Inr_iff split: if_splits)
  ultimately show ?thesis using diff_stats_lookup [OF diff, of m] assms(3) by (cases y) auto
qed

lemma diff_grown:
  assumes "maps_distinct after" and "diff_accumulated_stats_per_method before after = Inr diff"
  shows "grown (ms_result (map_get no_stats (as_stats_per_method before) m))
    (ms_result (map_get no_stats (as_stats_per_method after) m)) (ms_result (map_get no_stats (as_stats_per_method diff) m))"
  and "started_of diff m = (if m \<in> fst ` set (as_stats_per_method after) then started_of after m - started_of before m else 0)"
proof -
  note distinct = maps_distinct_lookup [OF assms(1), of m]
  consider "map_of (as_stats_per_method after) m = None"
    | st d where "map_of (as_stats_per_method after) m = Some st" "diff_method before (m, st) = Inr (m, d)"
      "map_get no_stats (as_stats_per_method diff) m = d"
    using diff_of_method [OF assms, of m] by (cases "map_of (as_stats_per_method after) m") auto
  then have "grown (ms_result (map_get no_stats (as_stats_per_method before) m))
      (ms_result (map_get no_stats (as_stats_per_method after) m)) (ms_result (map_get no_stats (as_stats_per_method diff) m))
    \<and> started_of diff m = (if m \<in> fst ` set (as_stats_per_method after) then started_of after m - started_of before m else 0)"
  proof cases
    case 1
    then have "m \<notin> fst ` set (as_stats_per_method after)" by (simp add: map_of_eq_None_iff)
    moreover from this have "map_get no_stats (as_stats_per_method after) m = no_stats" by (rule map_get_absent)
    moreover note 1
    ultimately show ?thesis
      using diff_stats_lookup [OF assms(2), of m] by (simp add: grown_def no_stats_def started_of_def)
  next
    case 2
    then have "map_get no_stats (as_stats_per_method after) m = st" by (simp add: map_get_def)
    moreover have "m \<in> fst ` set (as_stats_per_method after)" using map_of_SomeD [OF 2(1)] by force
    moreover note 2
    ultimately show ?thesis
      using distinct diff_method_outcome [of st before m] by (simp add: started_of_def)
  qed
  then show "grown (ms_result (map_get no_stats (as_stats_per_method before) m))
      (ms_result (map_get no_stats (as_stats_per_method after) m)) (ms_result (map_get no_stats (as_stats_per_method diff) m))"
    and "started_of diff m = (if m \<in> fst ` set (as_stats_per_method after) then started_of after m - started_of before m else 0)"
    by simp_all
qed

lemma decreased_iff:
  assumes "maps_distinct after"
  shows "decreased before after \<longleftrightarrow> (\<exists>x \<in> set (as_stats_per_method after). isl (diff_method before x))"
proof -
  have "isl (diff_method before (m, st)) \<longleftrightarrow>
      ms_rpcs_started st < started_of before m \<or> (\<exists>(i, n) \<in> set (ms_result st). n < count_of before m i)"
    if "(m, st) \<in> set (as_stats_per_method after)" for m st
  proof -
    have "distinct (map fst (ms_result st))" using assms that by (auto simp: maps_distinct_def)
    from diff_method_outcome [OF this, of before m] show ?thesis
      by (cases "diff_method before (m, st)") auto
  qed
  then show ?thesis unfolding decreased_def by fastforce
qed

lemma emap_isl: "isl (emap f xs) \<longleftrightarrow> (\<exists>x \<in> set xs. isl (f x))"
  by (induction xs) (auto simp: ebind_def split: sum.splits)

lemma diff_isl:
  "maps_distinct after \<Longrightarrow> isl (diff_accumulated_stats_per_method before after) \<longleftrightarrow> decreased before after"
  unfolding diff_accumulated_stats_per_method_def decreased_iff emap_isl [symmetric]
  by (cases "emap (diff_method before) (as_stats_per_method after)") simp_all

lemma diff_error:
  assumes "maps_distinct after" and "diff_accumulated_stats_per_method before after = Inl e"
  shows "e = AssertionError negative_diff"
proof -
  have "emap (diff_method before) (as_stats_per_method after) = Inl e"
    using assms(2) unfolding diff_accumulated_stats_per_method_def
    by (cases "emap (diff_method before) (as_stats_per_method after)") simp_all
  then obtain m st where "(m, st) \<in> set (as_stats_per_method after)" "diff_method before (m, st) = Inl e"
    using emap_Inl by fastforce
  moreover from this assms(1) have "distinct (map fst (ms_result st))" by (auto simp: maps_distinct_def)
  ultimately show ?thesis using diff_method_outcome [of st before m] by simp
qed

lemma only_status_Inr:
  assumes "only_status codes expected meth lim counts = Inr ()" and "(i, n) \<in> set counts"
    and "status_from_int codes i \<noteq> Some expected"
  shows "n \<le> lim"
  using assms
  by (induction codes expected meth lim counts rule: only_status.induct)
     (auto simp: Let_def ebind_def split: if_splits sum.splits)

lemma status_codes_checked:
  assumes "codes_ok codes" and "expected \<in> set codes" and "maps_distinct after"
    and diff: "diff_accumulated_stats_per_method before after = Inr diff"
    and ok: "check_status_codes codes expected meth lim diff = Inr ()"
  shows "count_of before meth (fst expected) < count_of after meth (fst expected)"
    and "has_count after meth i \<Longrightarrow> i \<noteq> fst expected \<Longrightarrow> count_of after meth i - count_of before meth i \<le> max 0 lim"
proof -
  let ?counts = "ms_result (map_get no_stats (as_stats_per_method diff) meth)"
  have grown: "grown (ms_result (map_get no_stats (as_stats_per_method before) meth))
    (ms_result (map_get no_stats (as_stats_per_method after) meth)) ?counts"
    using assms(3) diff by (rule diff_grown)
  from ok have positive: "0 < map_get 0 ?counts (fst expected)"
    and only: "only_status codes expected meth lim ?counts = Inr ()"
    by (auto simp: check_status_codes_def Let_def check_def split: if_splits)
  from positive grown show "count_of before meth (fst expected) < count_of after meth (fst expected)"
    by (auto simp: grown_def count_of_def split: if_splits)
  assume i: "has_count after meth i" "i \<noteq> fst expected"
  then have d: "map_get 0 ?counts i = count_of after meth i - count_of before meth i"
    using grown by (simp add: grown_def count_of_def has_count_def)
  show "count_of after meth i - count_of before meth i \<le> max 0 lim"
  proof (cases "i \<in> fst ` set ?counts")
    case True
    then obtain n where n: "(i, n) \<in> set ?counts" by force
    then have "map_get 0 ?counts i = n" using grown by (intro map_get_member) (simp_all add: grown_def)
    moreover have "n \<le> lim"
      using only n
    proof (rule only_status_Inr)
      show "status_from_int codes i \<noteq> Some expected"
        using status_from_int_member [OF assms(1,2), of i] i(2) by simp
    qed
    ultimately show ?thesis using d by simp
  next
    case False
    then have "map_get 0 ?counts i = 0" by (rule map_get_absent)
    then show ?thesis using d by simp
  qed
qed

section \<open>A test to run\<close>

definition some_codes :: "status_code list" where
  "some_codes = [(0, ''OK''), (4, ''DEADLINE_EXCEEDED''), (14, ''UNAVAILABLE'')]"

definition counters :: "(int \<times> int) list \<Rightarrow> accumulated_stats" where
  "counters result =
     \<lparr>as_stats_per_method = [(''UNARY_CALL'', \<lparr>ms_rpcs_started = sum_list (map snd result), ms_result = result\<rparr>)],
      as_num_rpcs_started_by_method = [], as_num_rpcs_succeeded_by_method = [], as_num_rpcs_failed_by_method = []\<rparr>"

text \<open>The counters grow with every answer; the statistics and the dump stay.\<close>

definition demo_checks :: "(int \<times> int) list \<Rightarrow> (int \<times> int) list \<Rightarrow> lb_stats \<Rightarrow> xds_resource list \<Rightarrow> string list \<Rightarrow> checks_env" where
  "demo_checks first later_on lb rs pods =
     \<lparr>ce_app = demo_app,
      ce_stats = \<lparr>se_client_stats = (\<lambda>h ev. Inr lb),
        se_accumulated_stats = (\<lambda>h ev. Inr (counters (if h = [] then first else later_on))),
        se_configure = (\<lambda>h ev. Inr ())\<rparr>,
      ce_csds = (\<lambda>h ev. Inr [\<lparr>cc_xds_config = [], cc_generic_type_urls = [], cc_dict = generic_dump rs\<rparr>]),
      ce_codes = some_codes, ce_runner_pods = [\<lambda>h. Inr pods]\<rparr>"

section \<open>Properties\<close>

text \<open>
  The difference of two counter readings is pointwise: when no counter of the later reading is
  below the earlier one, every method and status of the later reading gets exactly the growth of its
  counter, and everything else nothing; otherwise the check fails with an \<open>AssertionError\<close>.
\<close>

theorem diff_is_pointwise:
  assumes "maps_distinct after"
  shows "case diff_accumulated_stats_per_method before after of
      Inl e \<Rightarrow> e = AssertionError negative_diff \<and> decreased before after
    | Inr diff \<Rightarrow> \<not> decreased before after
        \<and> (\<forall>m. started_of diff m =
              (if m \<in> fst ` set (as_stats_per_method after) then started_of after m - started_of before m else 0))
        \<and> (\<forall>m i. count_of diff m i = (if has_count after m i then count_of after m i - count_of before m i else 0))"
proof (cases "diff_accumulated_stats_per_method before after")
  case (Inl e)
  then show ?thesis using diff_error [OF assms Inl] diff_isl [OF assms, of before] by simp
next
  case (Inr diff)
  then show ?thesis
    using diff_grown [OF assms Inr] diff_isl [OF assms, of before]
    by (simp add: grown_def count_of_def has_count_def)
qed

theorem diff_is_pointwise_witness:
  "\<exists>diff. diff_accumulated_stats_per_method (counters [(0, 5), (4, 2)]) (counters [(0, 9), (4, 2), (14, 1)]) = Inr diff
    \<and> (\<forall>m i. count_of diff m i = (if has_count (counters [(0, 9), (4, 2), (14, 1)]) m i
         then count_of (counters [(0, 9), (4, 2), (14, 1)]) m i - count_of (counters [(0, 5), (4, 2)]) m i else 0))"
proof -
  let ?before = "counters [(0, 5), (4, 2)]" and ?after = "counters [(0, 9), (4, 2), (14, 1)]"
  have "maps_distinct ?after" by (simp add: maps_distinct_def counters_def)
  moreover have "\<not> isl (diff_accumulated_stats_per_method ?before ?after)" by code_simp
  ultimately show ?thesis
    using diff_is_pointwise [of ?after ?before]
    by (cases "diff_accumulated_stats_per_method ?before ?after") simp_all
qed

text \<open>
  C36: when \<open>assertRpcStatusCodes\<close> passes, the test client reported its counters twice, the duration
  apart, and in between RPCs of the method completed with the expected status, while no other status
  grew by more than the limit of stray RPCs.
\<close>

theorem status_codes_sound:
  assumes "codes_ok (ce_codes E)" and "expected \<in> set (ce_codes E)"
    and "\<And>h ev st. se_accumulated_stats (ce_stats E) h ev = Inr st \<Longrightarrow> maps_distinct st"
    and "assert_rpc_status_codes E expected secs meth lim (c, w) = (Inr (), (c', w'))"
  shows "\<exists>before after stub stub' h.
      reported (se_accumulated_stats (ce_stats E)) w h (counters_event stub) before
    \<and> reported (se_accumulated_stats (ce_stats E)) (h @ [Sleep secs]) w' (counters_event stub') after
    \<and> count_of before meth (fst expected) < count_of after meth (fst expected)
    \<and> (\<forall>i. has_count after meth i \<and> i \<noteq> fst expected \<longrightarrow>
          count_of after meth i - count_of before meth i \<le> max 0 lim)"
proof -
  obtain before s1 s2 after s3 where run: "accumulated E (c, w) = (Inr before, s1)"
    "call (pause secs) s1 = (Inr (), s2)" "accumulated E s2 = (Inr after, s3)"
    and rest: "bind (lift (diff_accumulated_stats_per_method before after)) (\<lambda>diff_stats.
       lift (check_status_codes (ce_codes E) expected meth lim diff_stats)) s3 = (Inr (), (c', w'))"
    using assms(4) unfolding assert_rpc_status_codes_def by (auto simp: bind_eq_Inr)
  from rest obtain diff where diff: "diff_accumulated_stats_per_method before after = Inr diff"
    and ok: "check_status_codes (ce_codes E) expected meth lim diff = Inr ()" and s3: "s3 = (c', w')"
    by (auto simp: bind_eq_Inr lift_def)
  have s2: "snd s2 = snd s1 @ [Sleep secs]"
    using run(2) by (auto simp: call_def pause_def modify_def split: prod.splits)
  obtain stub where first: "reported (se_accumulated_stats (ce_stats E)) w (snd s1) (counters_event stub) before"
    using counters_reported [OF run(1)] by auto
  obtain stub' where second: "reported (se_accumulated_stats (ce_stats E)) (snd s1 @ [Sleep secs]) w' (counters_event stub') after"
    using counters_reported [OF run(3)] s2 s3 by auto
  from second have "maps_distinct after" using assms(3) by (auto simp: reported_def)
  from status_codes_checked [OF assms(1,2) this diff ok] first second show ?thesis by blast
qed

theorem status_codes_sound_witness:
  "\<exists>c' w' before after. assert_rpc_status_codes (demo_checks [(0, 5)] [(0, 9), (4, 1)] demo_lb [] []) (0, ''OK'') 3 ''UNARY_CALL'' 2
      (demo_client, []) = (Inr (), (c', w'))
    \<and> count_of before ''UNARY_CALL'' 0 < count_of after ''UNARY_CALL'' 0"
proof -
  let ?E = "demo_checks [(0, 5)] [(0, 9), (4, 1)] demo_lb [] []"
  let ?run = "assert_rpc_status_codes ?E (0, ''OK'') 3 ''UNARY_CALL'' 2 (demo_client, [])"
  have "fst ?run = Inr ()" by code_simp
  then obtain c' w' where run: "?run = (Inr (), (c', w'))" by (cases ?run) auto
  have "codes_ok (ce_codes ?E)" "(0, ''OK'') \<in> set (ce_codes ?E)"
    by (simp_all add: demo_checks_def some_codes_def codes_ok_def)
  moreover have "se_accumulated_stats (ce_stats ?E) h ev = Inr st \<Longrightarrow> maps_distinct st" for h ev st
    by (auto simp: demo_checks_def maps_distinct_def counters_def)
  ultimately show ?thesis using status_codes_sound [OF _ _ _ run] run by fastforce
qed

lemma only_status_append:
  "only_status codes expected meth lim xs = Inr () \<Longrightarrow>
     only_status codes expected meth lim (xs @ ys) = only_status codes expected meth lim ys"
  by (induction codes expected meth lim xs rule: only_status.induct) (auto simp: Let_def ebind_def split: if_splits sum.splits)

text \<open>
  RPCs that complete with a status outside of the enum do not fail the check: they crash it.
  The message of the failure formats the status, which is \<open>None\<close>, and the check raises
  \<open>AttributeError\<close> in place of \<open>AssertionError\<close>, which its retrying variant does not retry.
\<close>

theorem unknown_status_crashes:
  assumes "ms_result (map_get no_stats (as_stats_per_method diff) meth) = good @ (i, n) # rest"
    and "0 < count_of diff meth (fst expected)"
    and "only_status codes expected meth lim good = Inr ()" and "i \<notin> fst ` set codes" and "lim < n"
  shows "check_status_codes codes expected meth lim diff = Inl (AttributeError ''value'')
    \<and> any_wanted (rt_retry (exponential_retryer_with_timeout 10 25 timeout_sec (Some [CAssertionError]) None []))
        (Inl (AttributeError ''value'')) = Inr False"
proof -
  have "status_from_int codes i = None" using assms(4) by (simp add: status_from_int_none)
  then have "only_status codes expected meth lim ((i, n) # rest) = Inl (AttributeError ''value'')"
    using assms(5) by (simp add: status_pretty_opt_def)
  then have "check_status_codes codes expected meth lim diff = Inl (AttributeError ''value'')"
    using assms(1,2) only_status_append [OF assms(3)]
    by (simp add: check_status_codes_def Let_def check_def count_of_def)
  then show ?thesis by (simp add: exponential_retryer_with_timeout_def build_retry_conditions_def)
qed

theorem unknown_status_crashes_witness:
  "check_status_codes some_codes (0, ''OK'') ''UNARY_CALL'' 0 (counters [(0, 5), (99, 1)]) = Inl (AttributeError ''value'')"
  using unknown_status_crashes [of "counters [(0, 5), (99, 1)]" "''UNARY_CALL''" "[(0, 5)]" 99 1 "[]" "(0, ''OK'')" some_codes 0]
  by (simp add: counters_def count_of_def some_codes_def status_from_int_def)

lemma each_in_Inr: "each_in msg ys xs = Inr () \<longleftrightarrow> set xs \<subseteq> set ys"
  by (induction xs) (auto simp: check_def)

lemma given_servers_check_Inr:
  "given_servers_check lb num_rpcs hosts = Inr () \<longleftrightarrow>
     lb_num_failures lb \<le> 0 \<and> set hosts = fst ` set (lb_rpcs_by_peer lb)"
proof -
  have check_cases: "check b m = Inr () \<or> (\<exists>e. check b m = Inl e \<and> \<not> b)" for b m by (simp add: check_def)
  have "(ebind (r :: exn + unit) (\<lambda>_. k) = Inr ()) \<longleftrightarrow> r = Inr () \<and> k = Inr ()" for r k by (cases r) auto
  then show ?thesis by (auto simp: given_servers_check_def none_failed_def each_in_Inr)
qed

definition accounted :: "string list \<Rightarrow> lb_stats \<Rightarrow> bool" where
  "accounted hosts lb \<longleftrightarrow> lb_num_failures lb \<le> 0
     \<and> (\<forall>p \<in> fst ` set (lb_rpcs_by_peer lb). p \<in> set hosts
          \<or> (\<exists>h \<in> set hosts. h \<notin> fst ` set (lb_rpcs_by_peer lb) \<and> prefix (before_last_dash h) p))
     \<and> (\<forall>h \<in> set hosts. h \<in> fst ` set (lb_rpcs_by_peer lb)
          \<or> (\<exists>p \<in> fst ` set (lb_rpcs_by_peer lb). prefix (before_last_dash h) p))"

lemma replaced_hostname_cases:
  "replaced_hostname by_peer active h = h \<or>
     (h \<notin> fst ` set by_peer \<and> replaced_hostname by_peer active h \<in> fst ` set by_peer
       \<and> prefix (before_last_dash h) (replaced_hostname by_peer active h))"
  by (auto simp: replaced_hostname_def find_Some_iff split: option.splits)

lemma accounted_replaced:
  assumes "lb_num_failures lb \<le> 0"
    and "set (map (replaced_hostname (lb_rpcs_by_peer lb) active) hosts) = fst ` set (lb_rpcs_by_peer lb)"
  shows "accounted hosts lb"
proof -
  let ?new = "replaced_hostname (lb_rpcs_by_peer lb) active" and ?peers = "fst ` set (lb_rpcs_by_peer lb)"
  have "p \<in> set hosts \<or> (\<exists>h \<in> set hosts. h \<notin> ?peers \<and> prefix (before_last_dash h) p)" if "p \<in> ?peers" for p
  proof -
    obtain h where "h \<in> set hosts" "p = ?new h" using \<open>p \<in> ?peers\<close> assms(2) by (auto simp: image_iff)
    then show ?thesis using replaced_hostname_cases [of "lb_rpcs_by_peer lb" active h] by auto
  qed
  moreover have "h \<in> ?peers \<or> (\<exists>p \<in> ?peers. prefix (before_last_dash h) p)" if "h \<in> set hosts" for h
  proof -
    have "?new h \<in> ?peers" using that assms(2) by auto
    then show ?thesis using replaced_hostname_cases [of "lb_rpcs_by_peer lb" active h] by metis
  qed
  ultimately show ?thesis using assms(1) unfolding accounted_def by blast
qed

lemma given_servers_once_sound:
  assumes "given_servers_once E hosts num_rpcs s = (Inr (), s')"
  shows "\<exists>lb stub. reported (se_client_stats (ce_stats E)) (snd s) (snd s') (stats_event stub num_rpcs None) lb \<and> accounted hosts lb"
proof -
  obtain lb s1 where got: "get_client_rpc_stats E num_rpcs None False s = (Inr lb, s1)"
    and rest: "(let missing = filter (\<lambda>h. h \<notin> fst ` set (lb_rpcs_by_peer lb)) hosts in
       if missing = [] then lift (given_servers_check lb num_rpcs hosts)
       else bind (call (active_pods E)) (\<lambda>active.
         lift (given_servers_check lb num_rpcs
           (map (replaced_hostname (lb_rpcs_by_peer lb) active) hosts)))) s1 = (Inr (), s')"
    using assms unfolding given_servers_once_def by (auto simp: bind_eq_Inr)
  have "snd s' = snd s1 \<and> accounted hosts lb"
  proof (cases "filter (\<lambda>h. h \<notin> fst ` set (lb_rpcs_by_peer lb)) hosts = []")
    case True
    with rest show ?thesis by (auto simp: Let_def lift_def given_servers_check_Inr accounted_def)
  next
    case False
    with rest obtain active s2 where "call (active_pods E) s1 = (Inr active, s2)"
      "given_servers_check lb num_rpcs (map (replaced_hostname (lb_rpcs_by_peer lb) active) hosts) = Inr ()" "s2 = s'"
      by (auto simp: Let_def bind_eq_Inr lift_def)
    then show ?thesis
      using accounted_replaced [of lb active hosts]
      by (auto simp: given_servers_check_Inr call_def active_pods_def)
  qed
  with stats_reported [OF got] show ?thesis by auto
qed

lemma grows_active_pods [grows_intros]: "grows (call (active_pods E))"
  by (simp add: grows_def call_def active_pods_def)

lemma grows_given_servers_once: "grows (given_servers_once E hosts num_rpcs)"
  unfolding given_servers_once_def Let_def by (auto intro!: grows_intros split: if_split)

text \<open>
  C38: when the check that RPCs go to the given servers passes, the client reported, during the call,
  statistics without failures in which every peer is a given server or a pod that stands in for a
  given server without RPCs (with the same name up to the last dash), and every given server received
  RPCs or has such a stand-in.
\<close>

theorem given_servers_sound:
  assumes "tenacity_ok T"
    and "assert_rpcs_eventually_go_to_given_servers E T hosts num_rpcs retry_timeout retry_wait (c, w) = (Inr (), (c', w'))"
  shows "\<exists>lb stub. reported (se_client_stats (ce_stats E)) w w' (stats_event stub num_rpcs None) lb
    \<and> lb_num_failures lb \<le> 0
    \<and> (\<forall>p \<in> fst ` set (lb_rpcs_by_peer lb). p \<in> set hosts
          \<or> (\<exists>h \<in> set hosts. h \<notin> fst ` set (lb_rpcs_by_peer lb) \<and> prefix (before_last_dash h) p))
    \<and> (\<forall>h \<in> set hosts. h \<in> fst ` set (lb_rpcs_by_peer lb)
          \<or> (\<exists>p \<in> fst ` set (lb_rpcs_by_peer lb). prefix (before_last_dash h) p))"
proof -
  obtain s0 where "later (c, w) s0" and once: "given_servers_once E hosts num_rpcs s0 = (Inr (), (c', w'))"
    using retry_check_value [OF assms(1) grows_given_servers_once] assms(2)
    unfolding assert_rpcs_eventually_go_to_given_servers_def by blast
  obtain lb stub where lb: "reported (se_client_stats (ce_stats E)) (snd s0) w' (stats_event stub num_rpcs None) lb"
    and ok: "accounted hosts lb"
    using given_servers_once_sound [OF once] by auto
  have "reported (se_client_stats (ce_stats E)) w w' (stats_event stub num_rpcs None) lb"
    using lb \<open>later (c, w) s0\<close> by (auto simp: later_def intro: reported_mono)
  then show ?thesis using ok unfolding accounted_def by blast
qed

definition one_of_two :: lb_stats where
  "one_of_two = demo_lb\<lparr>lb_rpcs_by_peer := [(''srv-1-a'', 9)], lb_num_failures := 0\<rparr>"

theorem given_servers_sound_witness:
  "\<exists>c' w' lb stub. assert_rpcs_eventually_go_to_given_servers (demo_checks [] [] one_of_two [] [''srv-1-a'']) (simple_retryer 0)
      [''srv-1-b''] 9 60 1 (demo_client, []) = (Inr (), (c', w'))
    \<and> reported (se_client_stats (ce_stats (demo_checks [] [] one_of_two [] [''srv-1-a'']))) [] w' (stats_event stub 9 None) lb
    \<and> lb_num_failures lb \<le> 0"
proof -
  let ?T = "simple_retryer 0 :: cl_tenacity"
  let ?run = "assert_rpcs_eventually_go_to_given_servers (demo_checks [] [] one_of_two [] [''srv-1-a'']) ?T
      [''srv-1-b''] 9 60 1 (demo_client, [])"
  have "fst ?run = Inr ()" by code_simp
  then obtain c' w' where run: "?run = (Inr (), (c', w'))" by (cases ?run) auto
  from given_servers_sound [OF simple_retryer_ok run] run show ?thesis by blast
qed

text \<open>
  The stand-in may be another given server: of two given servers with the same name up to the
  last dash, one may receive no RPC at all, while both its pods are listed, and the check passes.
\<close>

theorem missing_server_accepted:
  assumes "get_client_rpc_stats E num_rpcs None False s = (Inr lb, s')"
    and "lb_rpcs_by_peer lb = [(served, k)]" and "lb_num_failures lb = 0" and "idle \<noteq> served"
    and "active_pods E (snd s') = (Inr (served # pods), snd s')" and "prefix (before_last_dash idle) served"
  shows "given_servers_once E [served, idle] num_rpcs s = (Inr (), s')"
proof -
  have "call (active_pods E) s' = (Inr (served # pods), s')" using assms(5) by (simp add: call_def)
  moreover have "given_servers_check lb num_rpcs [served, served] = Inr ()"
    using assms(2,3) by (simp add: given_servers_check_Inr)
  moreover have "map (replaced_hostname (lb_rpcs_by_peer lb) (served # pods)) [served, idle] = [served, served]"
    using assms(2,4,6) by (simp add: replaced_hostname_def)
  ultimately show ?thesis
    using assms(1,2,4) by (simp add: given_servers_once_def bind_def Let_def lift_def)
qed

theorem missing_server_accepted_witness:
  "\<exists>s'. given_servers_once (demo_checks [] [] one_of_two [] [''srv-1-a'', ''srv-1-b'']) [''srv-1-a'', ''srv-1-b''] 9
      (demo_client, []) = (Inr (), s')"
proof -
  let ?E = "demo_checks [] [] one_of_two [] [''srv-1-a'', ''srv-1-b'']"
  let ?run = "get_client_rpc_stats ?E 9 None False (demo_client, [])"
  have "case fst ?run of Inr lb \<Rightarrow> lb_rpcs_by_peer lb = [(''srv-1-a'', 9)] \<and> lb_num_failures lb = 0 | Inl _ \<Rightarrow> False"
    by code_simp
  then obtain lb s' where run: "?run = (Inr lb, s')" "lb_rpcs_by_peer lb = [(''srv-1-a'', 9)]" "lb_num_failures lb = 0"
    by (cases ?run) (auto split: sum.splits)
  have pods: "active_pods ?E (snd s') = (Inr (''srv-1-a'' # [''srv-1-b'']), snd s')"
    by (simp add: active_pods_def demo_checks_def)
  have "prefix (before_last_dash ''srv-1-b'') ''srv-1-a''" by code_simp
  with run pods show ?thesis
    using missing_server_accepted [of ?E 9 "(demo_client, [])" lb s' "''srv-1-a''" 9 "''srv-1-b''"] by auto
qed

text \<open>
  The waits for a new route and for a circuit-breaker limit wait for nothing: whatever the first
  dump of the configuration contains, if it can be read the check passes, since a result of \<open>False\<close> is
  not retried.
\<close>

theorem update_checks_pass_at_once:
  assumes "tenacity_ok T"
  shows "(\<forall>s b s'. rds_check E cluster s = (Inr (JBool b), s') \<longrightarrow>
            assert_rds_config_updated E T cluster s = (Inr (), s'))
    \<and> (\<forall>s b s'. cds_check E backend_service expected s = (Inr (JBool b), s') \<longrightarrow>
            assert_cds_circuit_breaker_requests_limit E T backend_service expected retry_timeout retry_wait s = (Inr (), s'))"
  unfolding assert_rds_config_updated_def assert_cds_circuit_breaker_requests_limit_def
  using retry_or_fail_first [OF assms] by blast

theorem update_checks_pass_at_once_witness:
  "\<exists>s'. rds_check (demo_checks [] [] demo_lb [XRoute ''1'' (JObj [])] []) ''new-cluster'' (demo_client, []) = (Inr (JBool False), s')
    \<and> assert_rds_config_updated (demo_checks [] [] demo_lb [XRoute ''1'' (JObj [])] []) (simple_retryer 3) ''new-cluster''
        (demo_client, []) = (Inr (), s')"
proof -
  let ?E = "demo_checks [] [] demo_lb [XRoute ''1'' (JObj [])] []"
  let ?run = "rds_check ?E ''new-cluster'' (demo_client, [])"
  have "fst ?run = Inr (JBool False)" by code_simp
  then obtain s' where run: "?run = (Inr (JBool False), s')" by (cases ?run) auto
  with update_checks_pass_at_once [OF simple_retryer_ok [where b = 3], where E = ?E and cluster = "''new-cluster''"]
  show ?thesis by blast
qed

lemma successful_rpcs_reported:
  assumes "assert_successful_rpcs E num_rpcs secure_channel s = (Inr lb, s')"
  shows "\<exists>stub. reported (se_client_stats (ce_stats E)) (snd s) (snd s') (stats_event stub num_rpcs None) lb"
    and "lb_num_failures lb \<le> 0" and "(p, n) \<in> set (lb_rpcs_by_peer lb) \<Longrightarrow> 0 < n"
proof -
  have all: "all_backends_received_rpcs ps = Inr () \<Longrightarrow> (p, n) \<in> set ps \<Longrightarrow> 0 < n" for ps
    by (induction ps rule: all_backends_received_rpcs.induct) (auto simp: check_def split: if_splits)
  from assms have got: "get_client_rpc_stats E num_rpcs None secure_channel s = (Inr lb, s')"
    and ok: "all_backends_received_rpcs (lb_rpcs_by_peer lb) = Inr ()" "none_failed lb num_rpcs = Inr ()"
    unfolding assert_successful_rpcs_def by (auto simp: bind_eq_Inr lift_def return_def)
  show "\<exists>stub. reported (se_client_stats (ce_stats E)) (snd s) (snd s') (stats_event stub num_rpcs None) lb"
    using got by (rule stats_reported)
  show "lb_num_failures lb \<le> 0" using ok(2) by (simp add: none_failed_def)
  show "(p, n) \<in> set (lb_rpcs_by_peer lb) \<Longrightarrow> 0 < n" using ok(1) all by blast
qed

lemma grows_handoff_once: "grows (handoff_once E previous)"
  unfolding handoff_once_def assert_successful_rpcs_def
  by (auto intro!: grows_intros)

text \<open>
  When the traffic handoff check passes, the client reported a configuration whose route version
  differs from the previous one, and after that statistics in which no RPC failed and every listed
  backend received some.
\<close>

theorem handoff_sound:
  assumes "tenacity_ok T"
    and "assert_route_config_update_traffic_handoff E T previous wait_sec timeout_sec (c, w) = (Inr (), (c', w'))"
  shows "\<exists>config d lb stub stub' h.
      reported (ce_csds E) w h (dump_event stub) [config] \<and> dump_parsed (cc_dict config) = Inr d
    \<and> dx_rds_version d \<noteq> previous
    \<and> reported (se_client_stats (ce_stats E)) h w' (stats_event stub' 100 None) lb
    \<and> lb_num_failures lb \<le> 0 \<and> (\<forall>(p, n) \<in> set (lb_rpcs_by_peer lb). 0 < n)"
proof -
  obtain s0 where s0: "later (c, w) s0" and once: "handoff_once E previous s0 = (Inr (), (c', w'))"
    using retry_check_value [OF assms(1) grows_handoff_once] assms(2)
    unfolding assert_route_config_update_traffic_handoff_def by blast
  obtain lb0 s1 d s2 lb where first: "assert_successful_rpcs E 100 False s0 = (Inr lb0, s1)"
    and dump: "fetch_config E False s1 = (Inr (Some d), s2)" and new: "dx_rds_version d \<noteq> previous"
    and last: "assert_successful_rpcs E 100 False s2 = (Inr lb, (c', w'))"
    using once unfolding handoff_once_def
    by (auto simp: bind_eq_Inr raise_def return_def split: option.splits if_splits)
  have "grows (assert_successful_rpcs E 100 False)"
    unfolding assert_successful_rpcs_def by (auto intro!: grows_intros)
  then have "later s0 s1" using first by (rule growsD)
  with s0 have w: "prefix w (snd s1)" using later_trans by (auto simp: later_def)
  obtain stub config where config: "reported (ce_csds E) (snd s1) (snd s2) (dump_event stub) [config]"
    "dump_parsed (cc_dict config) = Inr d"
    using config_reported [OF dump] by blast
  obtain stub' where stats: "reported (se_client_stats (ce_stats E)) (snd s2) w' (stats_event stub' 100 None) lb"
    using successful_rpcs_reported(1) [OF last] by auto
  have "\<forall>(p, n) \<in> set (lb_rpcs_by_peer lb). 0 < n" using successful_rpcs_reported(3) [OF last] by blast
  then show ?thesis
    using config stats new successful_rpcs_reported(2) [OF last] reported_mono [OF config(1) w prefix_order.refl] by blast
qed

theorem handoff_sound_witness:
  "\<exists>c' w' d. assert_route_config_update_traffic_handoff
      (demo_checks [] [] (demo_lb\<lparr>lb_num_failures := 0\<rparr>) [XRoute ''2'' (JObj [])] []) (simple_retryer 0)
      (JStr ''1'') 10 60 (demo_client, []) = (Inr (), (c', w'))
    \<and> dump_parsed (generic_dump [XRoute ''2'' (JObj [])]) = Inr d \<and> dx_rds_version d \<noteq> JStr ''1''"
proof -
  let ?E = "demo_checks [] [] (demo_lb\<lparr>lb_num_failures := 0\<rparr>) [XRoute ''2'' (JObj [])] []"
  let ?T = "simple_retryer 0 :: cl_tenacity"
  let ?run = "assert_route_config_update_traffic_handoff ?E ?T (JStr ''1'') 10 60 (demo_client, [])"
  have "fst ?run = Inr ()" by code_simp
  then obtain c' w' where run: "?run = (Inr (), (c', w'))" by (cases ?run) auto
  obtain config d stub h where "reported (ce_csds ?E) [] h (dump_event stub) [config]"
    "dump_parsed (cc_dict config) = Inr d" "dx_rds_version d \<noteq> JStr ''1''"
    using handoff_sound [OF simple_retryer_ok run] by blast
  moreover from this(1) have "cc_dict config = generic_dump [XRoute ''2'' (JObj [])]"
    by (auto simp: reported_def demo_checks_def)
  ultimately show ?thesis using run by auto
qed

end
