(* ===== verification/ServerApp.thy ===== *)
theory ServerApp
  imports Channelz
begin

text \<open>
  framework/test_app/server_app.py: the helper of a test server. It finds, through channelz, the
  server that listens on the test port and the server's end of a client's connection.
\<close>

record xds_server = grpc_app +
  xs_ip :: string
  xs_rpc_port :: int
  xs_hostname :: string
  xs_maintenance_port :: int
  xs_secure_mode :: bool
  xs_xds_host :: "string option"
  xs_xds_port :: "int option"
  xs_xds_authority :: "string option"
  xs_monitoring_port :: "int option" \<comment> \<open>annotated as a text; the runners pass a number\<close>

definition server_init ::
  "string \<Rightarrow> int \<Rightarrow> string \<Rightarrow> int option \<Rightarrow> bool \<Rightarrow> string option \<Rightarrow> int option \<Rightarrow> string option
     \<Rightarrow> string option \<Rightarrow> int option \<Rightarrow> xds_server" where
  "server_init ip rpc_port hostname maintenance_port secure_mode xds_host xds_port xds_authority rpc_host monitoring_port =
     grpc_app.extend (app_init (case rpc_host of Some t \<Rightarrow> if t \<noteq> [] then t else ip | None \<Rightarrow> ip))
       (xds_server.fields ip rpc_port hostname
          (case maintenance_port of Some i \<Rightarrow> if i \<noteq> 0 then i else rpc_port | None \<Rightarrow> rpc_port)
          secure_mode xds_host xds_port xds_authority monitoring_port)"

type_synonym 'a sv_meth = "(xds_server \<times> trace, 'a) act"

section \<open>Clients of the server's services\<close>

definition server_stub :: "app_env \<Rightarrow> string \<Rightarrow> grpc_channel sv_meth" where
  "server_stub D prop = using_self (\<lambda>self. cached_stub D prop (xs_maintenance_port self) False)"

text \<open>A call of a service without a request body; the deadline is the default when none is given.\<close>

definition service_call :: "app_env \<Rightarrow> string \<Rightarrow> string \<Rightarrow> int option \<Rightarrow> json sv_meth" where
  "service_call D prop rpc deadline_sec =
     bind (server_stub D prop)
       (\<lambda>stub. call (call_unary_with_deadline (ae_message D) stub (ServiceCall rpc (JObj [])) deadline_sec))"

definition check_health :: "app_env \<Rightarrow> json sv_meth" where
  "check_health D = service_call D ''health_client'' ''Check'' None"

text \<open>The health is read for the log after it has been set.\<close>

definition set_serving :: "app_env \<Rightarrow> unit sv_meth" where
  "set_serving D =
     bind (service_call D ''update_health_service_client'' ''SetServing'' None)
       (\<lambda>_. bind (check_health D) (\<lambda>_. return ()))"

definition set_not_serving :: "app_env \<Rightarrow> unit sv_meth" where
  "set_not_serving D =
     bind (service_call D ''update_health_service_client'' ''SetNotServing'' None)
       (\<lambda>_. bind (check_health D) (\<lambda>_. return ()))"

text \<open>The deadline of the hook service is ten seconds when none is given.\<close>

definition release_prestop_hook :: "app_env \<Rightarrow> int option \<Rightarrow> unit sv_meth" where
  "release_prestop_hook D timeout_sec =
     bind (service_call D ''hook_service_client'' ''SetReturnStatus''
             (Some (case timeout_sec of None \<Rightarrow> 10 | Some t \<Rightarrow> t)))
       (\<lambda>_. return ())"

section \<open>The xDS address\<close>

definition set_xds_address :: "string option \<Rightarrow> int option \<Rightarrow> string option \<Rightarrow> unit sv_meth" where
  "set_xds_address xds_host xds_port xds_authority =
     assign (\<lambda>self. self\<lparr>xs_xds_host := xds_host, xs_xds_port := xds_port, xs_xds_authority := xds_authority\<rparr>)"

definition xds_address :: "xds_server \<Rightarrow> string" where
  "xds_address self =
     (case xs_xds_host self of
        None \<Rightarrow> []
      | Some h \<Rightarrow> if h = [] then [] else
          (case xs_xds_port self of
             None \<Rightarrow> h
           | Some p \<Rightarrow> if p = 0 then h else h @ '':'' @ str_int p))"

definition xds_uri :: "xds_server \<Rightarrow> string" where
  "xds_uri self =
     (if \<not> set_str (xs_xds_host self) then []
      else if set_str (xs_xds_authority self)
      then ''xds://'' @ the (xs_xds_authority self) @ ''/'' @ xds_address self
      else ''xds:///'' @ xds_address self)"

section \<open>The server and its sockets\<close>

definition get_test_server :: "app_env \<Rightarrow> nat \<Rightarrow> server sv_meth" where
  "get_test_server D n = using_self (\<lambda>self.
     bind (server_stub D ''channelz'') (\<lambda>stub.
     bind (find_server_listening_on_port D n stub (xs_rpc_port self) None) (\<lambda>found.
       case found of
         Some srv \<Rightarrow> return srv
       | None \<Rightarrow> raise (AppNotFound (''['' @ xs_hostname self @ ''] Serverlistening on port '' @
           str_int (xs_rpc_port self) @ '' not found'')))))"

text \<open>The server is looked up when the sockets are asked for, the sockets when they are consumed.\<close>

definition get_test_server_sockets ::
  "app_env \<Rightarrow> nat \<Rightarrow> ((socket \<Rightarrow> 'r option sv_meth) \<Rightarrow> 'r option sv_meth) sv_meth" where
  "get_test_server_sockets D n =
     bind (get_test_server D n) (\<lambda>srv.
     bind (server_stub D ''channelz'') (\<lambda>stub. return (list_server_sockets D n stub srv None)))"

definition sock_addresses_pretty :: "socket \<Rightarrow> exn + string" where
  "sock_addresses_pretty sock =
     ebind (sock_address_to_str (so_local sock)) (\<lambda>l.
     ebind (sock_address_to_str (so_remote sock)) (\<lambda>r. Inr (''local='' @ l @ '', remote='' @ r)))"

definition get_server_socket_matching_client :: "app_env \<Rightarrow> nat \<Rightarrow> socket \<Rightarrow> bool \<Rightarrow> socket sv_meth" where
  "get_server_socket_matching_client D n client_socket match_only_port = using_self (\<lambda>self.
     bind (server_stub D ''channelz'') (\<lambda>_.
     bind (lift (sock_address_to_str (so_local client_socket))) (\<lambda>client_local.
     bind (get_test_server_sockets D n) (\<lambda>sockets.
     bind (find_server_socket_matching_client sockets client_socket match_only_port) (\<lambda>found.
       case found of
         None \<Rightarrow> raise (AppNotFound (''['' @ xs_hostname self @ ''] Socket to client '' @ client_local @ '' not found''))
       | Some server_socket \<Rightarrow>
           bind (lift (sock_addresses_pretty server_socket)) (\<lambda>_.
           bind (lift (sock_addresses_pretty client_socket)) (\<lambda>_. return server_socket)))))))"

section \<open>What a match has seen\<close>

lemma grows_server_stub [grows_intros]: "grows (server_stub D prop)"
  unfolding server_stub_def by (auto intro!: grows_intros)

text \<open>The socket of a match came from the listing of the server's sockets.\<close>

lemma matching_socket_found:
  assumes "find_server_socket_matching_client (list_server_sockets D n stub srv d) client only_port s = (Inr (Some sock), s')"
  shows "socket_matches only_port client sock
    \<and> (\<exists>i start page final. i \<in> set page
        \<and> reported (ae_server_sockets D) (snd s) (snd s') (rpc_event stub (GetServerSockets (sv_id srv) start) d) (page, final)
        \<and> reported (ae_socket D) (snd s) (snd s') (rpc_event stub (GetSocket i) d) sock)"
proof -
  let ?want = "\<lambda>x. return (if socket_matches only_port client x then Some x else None)
    :: ('a \<times> trace, socket option) act"
  let ?fetch = "\<lambda>start. call (call_unary_with_deadline (ae_server_sockets D) stub (GetServerSockets (sv_id srv) start) d)
    :: ('a \<times> trace, int list \<times> bool) act"
  let ?body = "\<lambda>i. bind (call (get_socket D stub i d)) ?want"
  have grow: "grows (?body i)" "grows (?fetch j)" for i j by (auto intro!: grows_intros)
  obtain start s0 s1 s2 page final i where it: "?fetch start s0 = (Inr (page, final), s1)" "i \<in> set page"
    "?body i s2 = (Inr (Some sock), s')" "later s s0" "later s1 s2"
    using assms grow unfolding find_server_socket_matching_client_def list_server_sockets_def by (rule pages_found)
  from it(3) obtain sock' s3 where got: "call (get_socket D stub i d) s2 = (Inr sock', s3)" "?want sock' s3 = (Inr (Some sock), s')"
    by (auto simp: bind_eq_Inr)
  then have sock: "sock' = sock" "s3 = s'" "socket_matches only_port client sock"
    by (auto simp: return_def split: if_splits)
  have listed: "reported (ae_server_sockets D) (snd s0) (snd s1) (rpc_event stub (GetServerSockets (sv_id srv) start) d) (page, final)"
    using it(1) by (rule call_unary_reported)
  have read: "reported (ae_socket D) (snd s2) (snd s') (rpc_event stub (GetSocket i) d) sock"
    using got(1) unfolding get_socket_def sock by (rule call_unary_reported)
  have "later s1 s'" using it(5) growsD [OF grow(1) it(3)] by (rule later_trans)
  moreover have "later s s2" using it(4,5) growsD [OF grow(2) it(1)] by (meson later_trans)
  ultimately show ?thesis
    using it(2,4) listed read sock(3) unfolding later_def by (metis prefix_order.refl reported_mono)
qed

lemma listening_server_found:
  assumes "find_server_listening_on_port D n stub p d s = (Inr (Some srv), s')"
  shows "\<exists>start page final i sock. srv \<in> set page \<and> i \<in> set (sv_listen srv)
    \<and> is_sock_tcpip_address (so_local sock) \<and> tcpip_port (so_local sock) = p
    \<and> reported (ae_servers D) (snd s) (snd s') (rpc_event stub (GetServers start) d) (page, final)
    \<and> reported (ae_socket D) (snd s) (snd s') (rpc_event stub (GetSocket i) d) sock"
proof -
  let ?inner = "\<lambda>srv' i. bind (call (get_socket D stub i d)) (\<lambda>listen_socket. return
      (if is_sock_tcpip_address (so_local listen_socket) \<and> tcpip_port (so_local listen_socket) = p
       then Some srv' else None)) :: ('a \<times> trace, server option) act"
  let ?fetch = "\<lambda>start. call (call_unary_with_deadline (ae_servers D) stub (GetServers start) d)
    :: ('a \<times> trace, server list \<times> bool) act"
  have grow: "grows (?inner x i)" "grows (for_each (?inner x) is)" "grows (?fetch j)" for x i "is" j
    by (auto intro!: grows_intros)
  obtain start s0 s1 s2 page final x where it: "?fetch start s0 = (Inr (page, final), s1)" "x \<in> set page"
    "for_each (?inner x) (sv_listen x) s2 = (Inr (Some srv), s')" "later s s0" "later s1 s2"
    using assms grow(2,3) unfolding find_server_listening_on_port_def list_servers_def by (rule pages_found)
  obtain i s3 where inner: "i \<in> set (sv_listen x)" "?inner x i s3 = (Inr (Some srv), s')" "later s2 s3"
    using it(3) grow(1) by (rule for_each_found)
  from inner(2) obtain sock s4 where got: "call (get_socket D stub i d) s3 = (Inr sock, s4)"
    and "x = srv" "s4 = s'" "is_sock_tcpip_address (so_local sock)" "tcpip_port (so_local sock) = p"
    by (auto simp: bind_eq_Inr return_def split: if_splits)
  moreover have "reported (ae_servers D) (snd s0) (snd s1) (rpc_event stub (GetServers start) d) (page, final)"
    using it(1) by (rule call_unary_reported)
  moreover have "reported (ae_socket D) (snd s3) (snd s4) (rpc_event stub (GetSocket i) d) sock"
    using got unfolding get_socket_def by (rule call_unary_reported)
  moreover have "later s1 s'" using it(5) growsD [OF grow(2) it(3)] by (rule later_trans)
  moreover have "later s s3" using it(4,5) inner(3) growsD [OF grow(3) it(1)] by (meson later_trans)
  ultimately show ?thesis
    using it(2,4) inner(1) unfolding later_def by (metis prefix_order.refl reported_mono)
qed

lemma server_stub_keeps:
  assumes "server_stub D prop (self, w) = (r, (self', w'))"
  shows "xs_rpc_port self' = xs_rpc_port self"
  using assms
  by (auto simp: server_stub_def cached_stub_def make_channel_def create_new_channel_def using_self_def bind_def
      andthen_def assign_def call_def return_def get_state_def lift_def split: option.splits sum.splits prod.splits)

text \<open>The steps of a lookup that finds a socket.\<close>

lemma matched_socket_steps:
  assumes "get_server_socket_matching_client D n client only_port s = (Inr sock, s')"
  obtains stub0 s1 stub1 s0 srv s2 stub2 s3 where
    "server_stub D ''channelz'' s = (Inr stub0, s1)"
    and "server_stub D ''channelz'' s1 = (Inr stub1, s0)"
    and "find_server_listening_on_port D n stub1 (xs_rpc_port (fst s1)) None s0 = (Inr (Some srv), s2)"
    and "server_stub D ''channelz'' s2 = (Inr stub2, s3)"
    and "find_server_socket_matching_client (list_server_sockets D n stub2 srv None) client only_port s3 = (Inr (Some sock), s')"
proof -
  obtain stub0 self1 w1 where s1: "server_stub D ''channelz'' s = (Inr stub0, (self1, w1))"
    and "\<exists>sockets s2. get_test_server_sockets D n (self1, w1) = (Inr sockets, s2)
      \<and> find_server_socket_matching_client sockets client only_port s2 = (Inr (Some sock), s')"
    using assms unfolding get_server_socket_matching_client_def
    by (cases s) (auto simp: using_self_def bind_eq_Inr lift_def return_def raise_def split: option.splits)
  then obtain srv stub2 s2 s3 where server: "get_test_server D n (self1, w1) = (Inr srv, s2)"
    and stub2: "server_stub D ''channelz'' s2 = (Inr stub2, s3)"
    and found: "find_server_socket_matching_client (list_server_sockets D n stub2 srv None) client only_port s3
      = (Inr (Some sock), s')"
    unfolding get_test_server_sockets_def by (auto simp: bind_eq_Inr return_def)
  from server obtain stub1 s0 where stub1: "server_stub D ''channelz'' (self1, w1) = (Inr stub1, s0)"
    and listening: "find_server_listening_on_port D n stub1 (xs_rpc_port self1) None s0 = (Inr (Some srv), s2)"
    unfolding get_test_server_def by (auto simp: using_self_def bind_eq_Inr raise_def return_def split: option.splits)
  from s1 stub1 listening stub2 found show thesis using that [of stub0 "(self1, w1)"] by simp
qed

lemma matched_socket_matches:
  "get_server_socket_matching_client D n client only_port s = (Inr sock, s') \<Longrightarrow> socket_matches only_port client sock"
  by (erule matched_socket_steps) (blast dest: matching_socket_found)

lemma grows_find_server [grows_intros]:
  "grows (find_server_listening_on_port D n stub p d)"
  "grows (find_server_socket_matching_client (list_server_sockets D n stub srv d) client only_port)"
  unfolding find_server_listening_on_port_def list_servers_def find_server_socket_matching_client_def list_server_sockets_def
  by (auto intro!: grows_intros)

section \<open>A server to talk to\<close>

definition demo_listen :: socket where
  "demo_listen = \<lparr>so_id = 3, so_name = ''l'', so_local = TcpIp [0, 0, 0, 0] 80, so_remote = OtherAddress [],
     so_security = NoSecurity\<rparr>"

definition demo_accepted :: socket where
  "demo_accepted = \<lparr>so_id = 9, so_name = ''a'', so_local = TcpIp [10, 0, 0, 2] 80, so_remote = TcpIp [10, 0, 0, 1] 55,
     so_security = TlsSecurity ''server'' ''client''\<rparr>"

definition demo_client_socket :: socket where
  "demo_client_socket = \<lparr>so_id = 1, so_name = ''c'', so_local = TcpIp [10, 0, 0, 1] 55, so_remote = TcpIp [10, 0, 0, 2] 80,
     so_security = TlsSecurity ''client'' ''server''\<rparr>"

definition demo_server_app :: app_env where
  "demo_server_app =
     \<lparr>ae_creds_token = (\<lambda>h host. Inr ''token''), ae_top_channels = (\<lambda>h ev. Inr ([], True)),
      ae_channel = (\<lambda>h ev. Inl (RpcError (Some 5) [])), ae_subchannel = (\<lambda>h ev. Inl (RpcError None [])),
      ae_socket = (\<lambda>h ev. case ev of
          Rpc stub (GetSocket i) d \<Rightarrow> Inr (if i = 3 then demo_listen else demo_accepted)
        | _ \<Rightarrow> Inl (RpcError None [])),
      ae_servers = (\<lambda>h ev. Inr ([\<lparr>sv_id = 2, sv_listen = [3]\<rparr>], True)),
      ae_server_sockets = (\<lambda>h ev. Inr ([9], True)),
      ae_message = (\<lambda>h ev. Inr JNull)\<rparr>"

definition demo_server :: xds_server where
  "demo_server = server_init ''10.0.0.2'' 80 ''srv'' None False None None None None None"

section \<open>Properties\<close>

text \<open>
  The server socket that \<open>get_server_socket_matching_client\<close> returns is the other end of the
  client's socket (same address, or same port when only ports are compared); it was read from the
  socket listing of a server that the process reported, one of whose listening sockets was reported
  on the TCP port of the test service.
\<close>

theorem matching_socket_sound:
  assumes "get_server_socket_matching_client D n client only_port (self, w) = (Inr sock, (self', w'))"
  shows "socket_matches only_port client sock
    \<and> (\<exists>srv stub stub' start start' page page' final final' i j listen_sock.
        srv \<in> set page \<and> reported (ae_servers D) w w' (rpc_event stub (GetServers start) None) (page, final)
      \<and> i \<in> set (sv_listen srv) \<and> reported (ae_socket D) w w' (rpc_event stub (GetSocket i) None) listen_sock
      \<and> is_sock_tcpip_address (so_local listen_sock) \<and> tcpip_port (so_local listen_sock) = xs_rpc_port self
      \<and> j \<in> set page'
      \<and> reported (ae_server_sockets D) w w' (rpc_event stub' (GetServerSockets (sv_id srv) start') None) (page', final')
      \<and> reported (ae_socket D) w w' (rpc_event stub' (GetSocket j) None) sock)"
proof -
  from assms obtain stub0 s1 stub1 s0 s2 srv stub2 s3 where s1: "server_stub D ''channelz'' (self, w) = (Inr stub0, s1)"
    and stub1: "server_stub D ''channelz'' s1 = (Inr stub1, s0)"
    and listening: "find_server_listening_on_port D n stub1 (xs_rpc_port (fst s1)) None s0 = (Inr (Some srv), s2)"
    and stub2: "server_stub D ''channelz'' s2 = (Inr stub2, s3)"
    and found: "find_server_socket_matching_client (list_server_sockets D n stub2 srv None) client only_port s3
      = (Inr (Some sock), (self', w'))"
    by (rule matched_socket_steps)
  have port: "xs_rpc_port (fst s1) = xs_rpc_port self" using s1 by (cases s1) (simp add: server_stub_keeps)
  have "later (self, w) s1" using grows_server_stub s1 by (rule growsD)
  moreover have "later s1 s0" using grows_server_stub stub1 by (rule growsD)
  moreover have asked: "later s0 s2" using grows_find_server(1) listening by (rule growsD)
  moreover have stubbed: "later s2 s3" using grows_server_stub stub2 by (rule growsD)
  moreover have searched: "later s3 (self', w')" using grows_find_server(2) found by (rule growsD)
  ultimately have "later (self, w) s0" "later s2 (self', w')" "later (self, w) s3"
    by (blast intro: later_trans)+
  then have order: "prefix w (snd s0)" "prefix (snd s2) w'" "prefix w (snd s3)"
    by (simp_all add: later_def)
  obtain start page final i listen_sock where listen: "srv \<in> set page" "i \<in> set (sv_listen srv)"
    "is_sock_tcpip_address (so_local listen_sock)" "tcpip_port (so_local listen_sock) = xs_rpc_port self"
    "reported (ae_servers D) (snd s0) (snd s2) (rpc_event stub1 (GetServers start) None) (page, final)"
    "reported (ae_socket D) (snd s0) (snd s2) (rpc_event stub1 (GetSocket i) None) listen_sock"
    using listening_server_found [OF listening] port by auto
  have server_reports: "reported (ae_servers D) w w' (rpc_event stub1 (GetServers start) None) (page, final)"
    "reported (ae_socket D) w w' (rpc_event stub1 (GetSocket i) None) listen_sock"
    using listen(5,6) order by (auto elim: reported_mono)
  obtain start' page' final' j where matched: "socket_matches only_port client sock" "j \<in> set page'"
    "reported (ae_server_sockets D) (snd s3) w' (rpc_event stub2 (GetServerSockets (sv_id srv) start') None) (page', final')"
    "reported (ae_socket D) (snd s3) w' (rpc_event stub2 (GetSocket j) None) sock"
    using matching_socket_found [OF found] by auto
  show ?thesis
  proof (intro conjI exI)
    show "socket_matches only_port client sock" by (rule matched(1))
    show "srv \<in> set page" by (rule listen(1))
    show "reported (ae_servers D) w w' (rpc_event stub1 (GetServers start) None) (page, final)"
      by (rule server_reports(1))
    show "i \<in> set (sv_listen srv)" by (rule listen(2))
    show "reported (ae_socket D) w w' (rpc_event stub1 (GetSocket i) None) listen_sock" by (rule server_reports(2))
    show "is_sock_tcpip_address (so_local listen_sock)" "tcpip_port (so_local listen_sock) = xs_rpc_port self"
      by (rule listen)+
    show "j \<in> set page'" by (rule matched(2))
    show "reported (ae_server_sockets D) w w' (rpc_event stub2 (GetServerSockets (sv_id srv) start') None) (page', final')"
      using matched(3) order(3) prefix_order.refl by (rule reported_mono)
    show "reported (ae_socket D) w w' (rpc_event stub2 (GetSocket j) None) sock"
      using matched(4) order(3) prefix_order.refl by (rule reported_mono)
  qed
qed

theorem matching_socket_sound_witness:
  "\<exists>self' w'. get_server_socket_matching_client demo_server_app 2 demo_client_socket False (demo_server, [])
      = (Inr demo_accepted, (self', w'))
    \<and> socket_matches False demo_client_socket demo_accepted
    \<and> (\<exists>stub i listen_sock. reported (ae_socket demo_server_app) [] w' (rpc_event stub (GetSocket i) None) listen_sock
        \<and> tcpip_port (so_local listen_sock) = xs_rpc_port demo_server)"
proof -
  have "fst (get_server_socket_matching_client demo_server_app 2 demo_client_socket False (demo_server, [])) = Inr demo_accepted"
    by code_simp
  then obtain self' w' where run: "get_server_socket_matching_client demo_server_app 2 demo_client_socket False (demo_server, [])
      = (Inr demo_accepted, (self', w'))"
    by (metis fst_conv surj_pair)
  from run matching_socket_sound [OF run] show ?thesis by blast
qed

end
