(* ===== verification/SecurityChecks.thy ===== *)
theory SecurityChecks
  imports RpcChecks ServerApp
begin

text \<open>
  framework/xds_k8s_testcase.py, class \<open>SecurityXdsKubernetesTestCase\<close>: the checks of the security of
  a connection between the test client and a test server, and the negative checks that the client
  cannot reach the server.
\<close>

section \<open>The certificates of a connection\<close>

text \<open>
  \<open>WhichOneof("model")\<close>, and the member \<open>tls\<close>, which has empty certificates when it is not set.
\<close>

definition security_model :: "security \<Rightarrow> string option" where
  "security_model s = (case s of NoSecurity \<Rightarrow> None | TlsSecurity _ _ \<Rightarrow> Some ''tls'' | OtherSecurity _ \<Rightarrow> Some ''other'')"

definition local_cert :: "security \<Rightarrow> string" where
  "local_cert s = (case s of TlsSecurity l _ \<Rightarrow> l | _ \<Rightarrow> [])"

definition remote_cert :: "security \<Rightarrow> string" where
  "remote_cert s = (case s of TlsSecurity _ r \<Rightarrow> r | _ \<Rightarrow> [])"

text \<open>Checks one after the other, each with its message.\<close>

fun checks :: "(bool \<times> string) list \<Rightarrow> exn + unit" where
  "checks [] = Inr ()"
| "checks ((ok, msg) # cs) = ebind (check ok msg) (\<lambda>_. checks cs)"

definition assert_security_mtls :: "bool \<Rightarrow> security \<Rightarrow> security \<Rightarrow> exn + unit" where
  "assert_security_mtls check_local_certs client server =
     checks (
       [(security_model client = Some ''tls'', ''(mTLS) Client socket security model must be TLS''),
        (security_model server = Some ''tls'', ''(mTLS) Server socket security model must be TLS''),
        (remote_cert client \<noteq> [], ''(mTLS) Client remote certificate is missing'')] @
       (if check_local_certs then
          [(local_cert server \<noteq> [], ''(mTLS) Server local certificate is missing''),
           (local_cert server = remote_cert client,
            ''(mTLS) Server local certificate must match client'' @ [CHR 0x27] @ ''s remote certificate'')] else []) @
       [(remote_cert server \<noteq> [], ''(mTLS) Server remote certificate is missing'')] @
       (if check_local_certs then
          [(local_cert client \<noteq> [], ''(mTLS) Client local certificate is missing''),
           (remote_cert server = local_cert client,
            ''(mTLS) Server remote certificate must match client'' @ [CHR 0x27] @ ''s local certificate'')] else []))"

definition assert_security_tls :: "bool \<Rightarrow> security \<Rightarrow> security \<Rightarrow> exn + unit" where
  "assert_security_tls check_local_certs client server =
     checks (
       [(security_model client = Some ''tls'', ''(TLS) Client socket security model must be TLS''),
        (security_model server = Some ''tls'', ''(TLS) Server socket security model must be TLS''),
        (remote_cert client \<noteq> [], ''(TLS) Client remote certificate is missing'')] @
       (if check_local_certs then
          [(local_cert server \<noteq> [], ''(TLS) Server local certificate is missing''),
           (local_cert server = remote_cert client,
            ''(TLS) Server local certificate must match client remote certificate'')] else []) @
       [(remote_cert server = [], ''(TLS) Server remote certificate must be empty in TLS mode. '' @
           ''Is server security incorrectly configured for mTLS?''),
        (local_cert client = [], ''(TLS) Client local certificate must be empty in TLS mode. '' @
           ''Is client security incorrectly configured for mTLS?'')])"

definition assert_security_plaintext :: "security \<Rightarrow> security \<Rightarrow> exn + unit" where
  "assert_security_plaintext client server =
     checks
       [(local_cert server = [], ''(Plaintext) Server local certificate must be empty.''),
        (local_cert client = [], ''(Plaintext) Client local certificate must be empty.''),
        (remote_cert server = [], ''(Plaintext) Server remote certificate must be empty.''),
        (local_cert client = [], ''(Plaintext) Client local certificate must be empty.'')]"

section \<open>Checks on a client and a server\<close>

text \<open>A client and a server helper beside each other; their calls go into one trace.\<close>

type_synonym 'a pair_meth = "((xds_client \<times> xds_server) \<times> trace, 'a) act"

definition on_client :: "'a cl_meth \<Rightarrow> 'a pair_meth" where
  "on_client m = (\<lambda>((c, sv), w). case m (c, w) of (r, (c', w')) \<Rightarrow> (r, ((c', sv), w')))"

definition on_server :: "'a sv_meth \<Rightarrow> 'a pair_meth" where
  "on_server m = (\<lambda>((c, sv), w). case m (sv, w) of (r, (sv', w')) \<Rightarrow> (r, ((c, sv'), w')))"

definition get_connected_sockets ::
  "app_env \<Rightarrow> app_env \<Rightarrow> nat \<Rightarrow> bool \<Rightarrow> bool \<Rightarrow> (socket \<times> socket) pair_meth" where
  "get_connected_sockets C S n secure_channel match_only_port =
     bind (on_client (get_active_server_channel_socket C n secure_channel)) (\<lambda>client_sock.
     bind (on_server (get_server_socket_matching_client S n client_sock match_only_port)) (\<lambda>server_sock.
       return (client_sock, server_sock)))"

datatype security_mode = MTLS | TLS | PLAINTEXT

definition assert_security :: "bool \<Rightarrow> security_mode \<Rightarrow> security \<Rightarrow> security \<Rightarrow> exn + unit" where
  "assert_security check_local_certs mode client server =
     (case mode of
        MTLS \<Rightarrow> assert_security_mtls check_local_certs client server
      | TLS \<Rightarrow> assert_security_tls check_local_certs client server
      | PLAINTEXT \<Rightarrow> assert_security_plaintext client server)"

definition assert_test_app_security ::
  "app_env \<Rightarrow> app_env \<Rightarrow> nat \<Rightarrow> bool \<Rightarrow> security_mode \<Rightarrow> bool \<Rightarrow> bool \<Rightarrow> unit pair_meth" where
  "assert_test_app_security C S n check_local_certs mode secure_channel match_only_port =
     bind (get_connected_sockets C S n secure_channel match_only_port) (\<lambda>(client_socket, server_socket).
       lift (assert_security check_local_certs mode (so_security client_socket) (so_security server_socket)))"

type_synonym pair_tenacity = "retrying \<Rightarrow> json pair_meth \<Rightarrow> json pair_meth"

definition assert_test_app_security_with_retry ::
  "app_env \<Rightarrow> app_env \<Rightarrow> nat \<Rightarrow> pair_tenacity \<Rightarrow> bool \<Rightarrow> security_mode \<Rightarrow> bool \<Rightarrow> bool \<Rightarrow> int \<Rightarrow> unit pair_meth" where
  "assert_test_app_security_with_retry C S n T check_local_certs mode secure_channel match_only_port retry_timeout =
     bind (T (exponential_retryer_with_timeout 10 25 retry_timeout None None
               (''Could not find correct security before timeout '' @ str_timedelta retry_timeout @ '' (h:mm:ss)''))
             (bind (assert_test_app_security C S n check_local_certs mode secure_channel match_only_port)
               (\<lambda>_. return JNull)))
       (\<lambda>_. return ())"

section \<open>The client cannot reach the server\<close>

definition assert_client_channel_failed :: "checks_env \<Rightarrow> nat \<Rightarrow> cl_tenacity \<Rightarrow> unit cl_meth" where
  "assert_client_channel_failed E n T =
     bind (wait_for_server_channel_state (ce_app E) n T TRANSIENT_FAILURE None None False) (\<lambda>ch.
     bind (channelz_stub (ce_app E) False) (\<lambda>stub.
     bind (gather (list_channel_subchannels (ce_app E) stub ch None)) (\<lambda>subchannels.
       lift (check (length subchannels = 1)
         ''Client channel must have exactly one subchannel in state TRANSIENT_FAILURE.''))))"

definition assert_client_cannot_reach_server :: "checks_env \<Rightarrow> nat \<Rightarrow> cl_tenacity \<Rightarrow> unit cl_meth" where
  "assert_client_cannot_reach_server E n T =
     andthen (assert_client_channel_failed E n T) (assert_failed_rpcs E 100)"

text \<open>\<open>k\<close> checks with a pause between every two.\<close>

fun repeat_check :: "unit cl_meth \<Rightarrow> int \<Rightarrow> nat \<Rightarrow> unit cl_meth" where
  "repeat_check one delay 0 = return ()"
| "repeat_check one delay (Suc 0) = one"
| "repeat_check one delay (Suc (Suc k)) =
     andthen one (andthen (call (pause delay)) (repeat_check one delay (Suc k)))"

definition check_times :: "int option \<Rightarrow> nat" where
  "check_times repeats = (case repeats of None \<Rightarrow> 3 | Some t \<Rightarrow> if t < 1 then 3 else nat t)"

definition assert_client_cannot_reach_server_repeatedly ::
  "checks_env \<Rightarrow> nat \<Rightarrow> cl_tenacity \<Rightarrow> int option \<Rightarrow> int option \<Rightarrow> unit cl_meth" where
  "assert_client_cannot_reach_server_repeatedly E n T repeats delay =
     repeat_check (assert_client_cannot_reach_server E n T) (or_default delay 10) (check_times repeats)"

section \<open>What the checks mean\<close>

lemma checks_Inr:
  "checks [] = Inr () \<longleftrightarrow> True"
  "checks ((ok, msg) # cs) = Inr () \<longleftrightarrow> ok \<and> checks cs = Inr ()"
  "checks (xs @ ys) = Inr () \<longleftrightarrow> checks xs = Inr () \<and> checks ys = Inr ()"
proof -
  show cons: "checks ((ok, msg) # cs) = Inr () \<longleftrightarrow> ok \<and> checks cs = Inr ()" for ok msg cs
    by (simp add: check_def)
  show "checks (xs @ ys) = Inr () \<longleftrightarrow> checks xs = Inr () \<and> checks ys = Inr ()"
    by (induction xs) (auto simp: cons simp del: checks.simps(2))
qed simp

lemma mtls_iff:
  "assert_security_mtls chk client server = Inr () \<longleftrightarrow>
     security_model client = Some ''tls'' \<and> security_model server = Some ''tls''
     \<and> remote_cert client \<noteq> [] \<and> remote_cert server \<noteq> []
     \<and> (chk \<longrightarrow> local_cert server = remote_cert client \<and> local_cert client = remote_cert server)"
  unfolding assert_security_mtls_def by (cases chk) (auto simp: checks_Inr simp del: checks.simps append.simps)

lemma tls_iff:
  "assert_security_tls chk client server = Inr () \<longleftrightarrow>
     security_model client = Some ''tls'' \<and> security_model server = Some ''tls''
     \<and> remote_cert client \<noteq> [] \<and> remote_cert server = [] \<and> local_cert client = []
     \<and> (chk \<longrightarrow> local_cert server = remote_cert client)"
  unfolding assert_security_tls_def by (cases chk) (auto simp: checks_Inr simp del: checks.simps append.simps)

lemma plaintext_iff:
  "assert_security_plaintext client server = Inr () \<longleftrightarrow>
     local_cert client = [] \<and> local_cert server = [] \<and> remote_cert server = []"
  unfolding assert_security_plaintext_def by (auto simp: checks_Inr simp del: checks.simps append.simps)

lemma connected_sockets_match:
  assumes "get_connected_sockets C S n secure_channel only_port s = (Inr (client_sock, server_sock), s')"
  shows "socket_matches only_port client_sock server_sock"
proof -
  obtain s1 where "on_server (get_server_socket_matching_client S n client_sock only_port) s1 = (Inr server_sock, s')"
    using assms unfolding get_connected_sockets_def by (cases s') (auto simp: bind_eq_Inr return_def)
  then obtain sv1 w1 s2 where "get_server_socket_matching_client S n client_sock only_port (sv1, w1) = (Inr server_sock, s2)"
    by (auto simp: on_server_def split: prod.splits)
  then show ?thesis by (rule matched_socket_matches)
qed

text \<open>Reports of failed calls, one after the other.\<close>

fun failures_reported :: "checks_env \<Rightarrow> nat \<Rightarrow> trace \<Rightarrow> trace \<Rightarrow> bool" where
  "failures_reported E 0 w w' \<longleftrightarrow> prefix w w'"
| "failures_reported E (Suc k) w w' \<longleftrightarrow>
     (\<exists>h stub lb. reported (se_client_stats (ce_stats E)) w h (stats_event stub 100 None) lb
        \<and> lb_num_failures lb = 100 \<and> failures_reported E k h w')"

lemma failures_reported_mono:
  "failures_reported E k w w' \<Longrightarrow> prefix v w \<Longrightarrow> prefix w' v' \<Longrightarrow> failures_reported E k v v'"
proof (induction k arbitrary: v w)
  case (Suc k)
  then obtain h stub lb where "reported (se_client_stats (ce_stats E)) w h (stats_event stub 100 None) lb"
    "lb_num_failures lb = 100" "failures_reported E k h w'" by auto
  moreover from this(1) Suc.prems(2) have "reported (se_client_stats (ce_stats E)) v h (stats_event stub 100 None) lb"
    using prefix_order.refl by (rule reported_mono)
  ultimately show ?case using Suc.IH [of h h] Suc.prems(3) prefix_order.refl by auto
qed (auto intro: prefix_order.trans)

lemma failed_rpcs_reported:
  assumes "assert_failed_rpcs E 100 s = (Inr (), s')"
  shows "failures_reported E (Suc 0) (snd s) (snd s')"
proof -
  obtain lb where "get_client_rpc_stats E 100 None False s = (Inr lb, s')" "lb_num_failures lb = 100"
    using assms unfolding assert_failed_rpcs_def by (cases s') (auto simp: bind_eq_Inr lift_def check_def split: if_splits)
  then show ?thesis using stats_reported by fastforce
qed

lemma repeat_check_reported:
  assumes one: "\<And>s s'. one s = (Inr (), s') \<Longrightarrow> failures_reported E (Suc 0) (snd s) (snd s')"
  shows "repeat_check one delay k s = (Inr (), s') \<Longrightarrow> failures_reported E k (snd s) (snd s')"
proof (induction k arbitrary: s rule: induct_nat_012)
  case 0
  then show ?case by (simp add: return_def)
next
  case 1
  then show ?case using one by simp
next
  case (ge2 k)
  then obtain s1 s2 where "one s = (Inr (), s1)" and paused: "call (pause delay) s1 = (Inr (), s2)"
    and rest: "repeat_check one delay (Suc k) s2 = (Inr (), s')"
    by (auto simp: andthen_eq_Inr)
  then have first: "failures_reported E (Suc 0) (snd s) (snd s1)" using one by blast
  have "prefix (snd s1) (snd s2)"
    using paused by (auto simp: call_def pause_def modify_def split: prod.splits)
  moreover have "failures_reported E (Suc k) (snd s2) (snd s')" using ge2.IH(2) rest by blast
  ultimately have "failures_reported E (Suc k) (snd s1) (snd s')"
    using prefix_order.refl by (metis failures_reported_mono)
  moreover from first obtain h stub lb where "reported (se_client_stats (ce_stats E)) (snd s) h (stats_event stub 100 None) lb"
    "lb_num_failures lb = 100" "prefix h (snd s1)" by auto
  ultimately have "failures_reported E (Suc k) h (snd s')" using prefix_order.refl by (blast intro: failures_reported_mono)
  then show ?case
    unfolding failures_reported.simps(2) [of E "Suc k"] using \<open>lb_num_failures lb = 100\<close>
      \<open>reported (se_client_stats (ce_stats E)) (snd s) h (stats_event stub 100 None) lb\<close> by blast
qed

lemma retry_run_grows:
  assumes "retry_run cfg fn n s m r" and "grows fn"
  shows "later s (snd r)"
  using assms(1)
proof (induction rule: retry_run.induct)
  case (again s out s' n m r)
  then show ?case using growsD [OF assms(2)] later_trans by blast
qed (use growsD [OF assms(2)] in auto)

lemma grows_tenacity:
  assumes "tenacity_ok T" and "rt_stop cfg \<noteq> []" and "grows fn"
  shows "grows (T cfg fn)"
  unfolding grows_def
proof
  fix s
  obtain m where "retry_run cfg fn 1 s m (T cfg fn s)" using assms(1,2) by (rule tenacity_run)
  then show "later s (snd (T cfg fn s))" using assms(3) by (rule retry_run_grows)
qed

lemma grows_gather:
  assumes "\<And>body. (\<And>x. grows (body x)) \<Longrightarrow> grows (gen body)"
  shows "grows (gather gen)"
proof -
  let ?body = "\<lambda>x ((acc, o2), w'). (Inr None, ((acc @ [x], o2), w'))"
  have "grows (gen ?body)" by (rule assms) (simp add: grows_def later_def)
  then show ?thesis
    by (auto simp: grows_def gather_def later_def split: prod.splits sum.splits) (metis snd_conv)+
qed

lemma grows_channel_failed:
  assumes "tenacity_ok T"
  shows "grows (assert_client_channel_failed E n T)"
proof -
  have "grows (T (channel_retryer (or_default None 900))
      (bind (find_server_channel_with_state D n st (Some (or_default None 30)) True False) (\<lambda>ch. return (ch_json ch))))" for D st
    using assms
    by (rule grows_tenacity)
      (auto simp: channel_retryer_def exponential_retryer_with_timeout_def find_server_channel_with_state_def
        find_channels_for_target_def find_channels_def list_channels_def intro!: grows_intros)
  moreover have "grows (gather (list_channel_subchannels D stub ch d))" for D stub ch d
    by (rule grows_gather) (auto simp: list_channel_subchannels_def intro!: grows_intros)
  ultimately show ?thesis
    unfolding assert_client_channel_failed_def wait_for_server_channel_state_def by (auto intro!: grows_intros)
qed

lemma cannot_reach_reported:
  assumes "tenacity_ok T" and "assert_client_cannot_reach_server E n T s = (Inr (), s')"
  shows "failures_reported E (Suc 0) (snd s) (snd s')"
proof -
  obtain s1 where "assert_client_channel_failed E n T s = (Inr (), s1)" and failed: "assert_failed_rpcs E 100 s1 = (Inr (), s')"
    using assms(2) unfolding assert_client_cannot_reach_server_def by (auto simp: andthen_eq_Inr)
  then have "prefix (snd s) (snd s1)"
    using growsD [OF grows_channel_failed [OF assms(1)]] by (auto simp: later_def)
  then show ?thesis using failed_rpcs_reported [OF failed] prefix_order.refl by (metis failures_reported_mono)
qed

section \<open>Properties\<close>

text \<open>
  C34: the three modes exclude each other: no connection passes as mTLS and as another mode, and with
  the checks of local certificates on, none passes as TLS and as plain text.
\<close>

theorem security_modes_exclusive:
  assumes "assert_security chk mode client server = Inr ()"
    and "assert_security chk mode' client server = Inr ()" and "chk \<or> MTLS \<in> {mode, mode'}"
  shows "mode = mode'"
  using assms
  by (cases mode; cases mode') (auto simp: assert_security_def mtls_iff tls_iff plaintext_iff)

theorem security_modes_exclusive_witness:
  "assert_security True TLS (TlsSecurity [] ''server'') (TlsSecurity ''server'' []) = Inr ()
    \<and> assert_security True PLAINTEXT (TlsSecurity [] ''server'') (TlsSecurity ''server'' []) \<noteq> Inr ()"
proof -
  have tls: "assert_security True TLS (TlsSecurity [] ''server'') (TlsSecurity ''server'' []) = Inr ()"
    by code_simp
  then show ?thesis
    using security_modes_exclusive [of True TLS "TlsSecurity [] ''server''" "TlsSecurity ''server'' []" PLAINTEXT] by auto
qed

text \<open>
  With the checks of local certificates off, the plain-text check does not tell TLS from plain
  text: a client that holds a certificate of the server passes both, since the check looks at the
  local certificate of the client twice and never at its remote one.
\<close>

theorem tls_passes_as_plaintext:
  assumes "cert \<noteq> []"
  shows "assert_security False TLS (TlsSecurity [] cert) (TlsSecurity [] []) = Inr ()
    \<and> assert_security False PLAINTEXT (TlsSecurity [] cert) (TlsSecurity [] []) = Inr ()"
  using assms by (simp add: assert_security_def tls_iff plaintext_iff security_model_def local_cert_def remote_cert_def)

theorem tls_passes_as_plaintext_witness:
  "assert_security False PLAINTEXT (TlsSecurity [] ''cert'') (TlsSecurity [] []) = Inr ()"
  using tls_passes_as_plaintext [of "''cert''"] by simp


definition demo_pair_app :: app_env where
  "demo_pair_app =
     demo_app\<lparr>ae_top_channels := (\<lambda>h ev. Inr ([\<lparr>ch_id = 1, ch_target = ''xds:///svc'', ch_state = READY,
        ch_started = 2, ch_succeeded = 1, ch_failed = 0, ch_subchannels = [(5, ''s'')]\<rparr>], True)),
      ae_subchannel := (\<lambda>h ev. Inr \<lparr>sc_id = 5, sc_target = [], sc_state = READY, sc_sockets = [1]\<rparr>),
      ae_socket := (\<lambda>h ev. Inr demo_client_socket)\<rparr>"


text \<open>
  When the repeated check that the client cannot reach the server passes, the statistics of the
  client were reported as many times as asked for (three times when no positive number is given), each
  time after the last and each time with all 100 RPCs failed.
\<close>

theorem unreachable_as_often_as_asked:
  assumes "assert_client_cannot_reach_server_repeatedly E n T repeats delay (c, w) = (Inr (), (c', w'))"
    and "tenacity_ok T"
  shows "failures_reported E (check_times repeats) w w'"
proof -
  have "failures_reported E (Suc 0) (snd s) (snd s')" if "assert_client_cannot_reach_server E n T s = (Inr (), s')" for s s'
    using assms(2) that by (rule cannot_reach_reported)
  then have "failures_reported E (check_times repeats) (snd (c, w)) (snd (c', w'))"
    using assms(1) unfolding assert_client_cannot_reach_server_repeatedly_def by (rule repeat_check_reported)
  then show ?thesis by simp
qed

definition failing_checks :: checks_env where
  "failing_checks =
     (demo_checks [] [] (demo_lb\<lparr>lb_num_failures := 100\<rparr>) [] [])\<lparr>ce_app := demo_app\<lparr>
        ae_top_channels := (\<lambda>h ev. Inr ([\<lparr>ch_id = 1, ch_target = ''xds:///svc'', ch_state = TRANSIENT_FAILURE,
          ch_started = 2, ch_succeeded = 1, ch_failed = 0, ch_subchannels = [(5, ''s'')]\<rparr>], True)),
        ae_subchannel := (\<lambda>h ev. Inr \<lparr>sc_id = 5, sc_target = [], sc_state = TRANSIENT_FAILURE, sc_sockets = []\<rparr>)\<rparr>\<rparr>"

theorem unreachable_as_often_as_asked_witness:
  "\<exists>c' w'. assert_client_cannot_reach_server_repeatedly failing_checks 3 (simple_retryer 0) (Some 2) None
      (demo_client\<lparr>xc_server_target := ''svc''\<rparr>, []) = (Inr (), (c', w'))
    \<and> failures_reported failing_checks 2 [] w'"
proof -
  let ?T = "simple_retryer 0 :: cl_tenacity"
  let ?run = "assert_client_cannot_reach_server_repeatedly failing_checks 3 ?T (Some 2) None
      (demo_client\<lparr>xc_server_target := ''svc''\<rparr>, [])"
  have "fst ?run = Inr ()" by code_simp
  then obtain c' w' where run: "?run = (Inr (), (c', w'))" by (cases ?run) auto
  have "check_times (Some 2) = 2" by (simp add: check_times_def)
  then show ?thesis using unreachable_as_often_as_asked [OF run simple_retryer_ok] run by auto
qed

end
