(* ===== verification/NetworkServices.thy ===== *)
theory NetworkServices
  imports GcpApi
begin

text \<open>
  framework/infrastructure/gcp/network_services.py: the resources of the Network Services API as
  they are read from responses, and the clients \<open>NetworkServicesV1Beta1\<close> and \<open>NetworkServicesV1\<close>.
\<close>

section \<open>Reading responses\<close>

text \<open>\<open>d[k] if k in d else None\<close> and the like.\<close>

definition if_present :: "json \<Rightarrow> string \<Rightarrow> (json \<Rightarrow> exn + 'a) \<Rightarrow> 'a \<Rightarrow> exn + 'a" where
  "if_present d k f absent =
     ebind (contains k d) (\<lambda>has. if has then ebind (getitem d k) f else Inr absent)"

definition get_opt :: "json \<Rightarrow> string \<Rightarrow> exn + json" where
  "get_opt d k = get_default d k JNull"

record endpoint_policy =
  ep_url :: json
  ep_name :: string
  ep_type :: json
  ep_traffic_port_selector :: json
  ep_endpoint_matcher :: json
  ep_update_time :: json
  ep_create_time :: json
  ep_http_filters :: json
  ep_server_tls_policy :: json

definition endpoint_policy_from_response :: "string \<Rightarrow> json \<Rightarrow> exn + endpoint_policy" where
  "endpoint_policy_from_response nm response =
     ebind (getitem response ''name'') (\<lambda>u.
     ebind (getitem response ''type'') (\<lambda>t.
     ebind (get_opt response ''serverTlsPolicy'') (\<lambda>tls.
     ebind (getitem response ''trafficPortSelector'') (\<lambda>ports.
     ebind (getitem response ''endpointMatcher'') (\<lambda>matcher.
     ebind (get_opt response ''httpFilters'') (\<lambda>filters.
     ebind (getitem response ''updateTime'') (\<lambda>updated.
     ebind (getitem response ''createTime'') (\<lambda>created.
       Inr \<lparr>ep_url = u, ep_name = nm, ep_type = t, ep_traffic_port_selector = ports,
            ep_endpoint_matcher = matcher, ep_update_time = updated, ep_create_time = created,
            ep_http_filters = filters, ep_server_tls_policy = tls\<rparr>))))))))"

record mesh =
  mesh_name :: string
  mesh_url :: json
  mesh_routes :: "json list option"

definition mesh_from_response :: "string \<Rightarrow> json \<Rightarrow> exn + mesh" where
  "mesh_from_response nm d =
     ebind (getitem d ''name'') (\<lambda>u.
     ebind (if_present d ''routes'' (\<lambda>rs. ebind (py_iter rs) (\<lambda>xs. Inr (Some xs))) None) (\<lambda>routes.
       Inr \<lparr>mesh_name = nm, mesh_url = u, mesh_routes = routes\<rparr>))"

subsection \<open>gRPC routes\<close>

record method_match =
  mm_type :: json
  mm_service :: json
  mm_method :: json
  mm_case_sensitive :: json

definition grpc_method_match_from_response :: "json \<Rightarrow> exn + method_match" where
  "grpc_method_match_from_response d =
     ebind (get_opt d ''type'') (\<lambda>t.
     ebind (get_opt d ''grpcService'') (\<lambda>s.
     ebind (get_opt d ''grpcMethod'') (\<lambda>m.
     ebind (get_opt d ''caseSensitive'') (\<lambda>c.
       Inr \<lparr>mm_type = t, mm_service = s, mm_method = m, mm_case_sensitive = c\<rparr>))))"

record header_match =
  hm_type :: json
  hm_key :: json
  hm_value :: json

definition grpc_header_match_from_response :: "json \<Rightarrow> exn + header_match" where
  "grpc_header_match_from_response d =
     ebind (get_opt d ''type'') (\<lambda>t.
     ebind (getitem d ''key'') (\<lambda>k.
     ebind (getitem d ''value'') (\<lambda>v.
       Inr \<lparr>hm_type = t, hm_key = k, hm_value = v\<rparr>)))"

record route_match =
  rm_method :: "method_match option"
  rm_headers :: "header_match list"

definition grpc_route_match_from_response :: "json \<Rightarrow> exn + route_match" where
  "grpc_route_match_from_response d =
     ebind (if_present d ''method''
              (\<lambda>m. ebind (grpc_method_match_from_response m) (\<lambda>r. Inr (Some r))) None) (\<lambda>meth.
     ebind (if_present d ''headers''
              (\<lambda>hs. ebind (py_iter hs) (emap grpc_header_match_from_response)) []) (\<lambda>headers.
       Inr \<lparr>rm_method = meth, rm_headers = headers\<rparr>))"

record destination =
  ds_service_name :: json
  ds_weight :: json

definition grpc_destination_from_response :: "json \<Rightarrow> exn + destination" where
  "grpc_destination_from_response d =
     ebind (getitem d ''serviceName'') (\<lambda>s.
     ebind (get_opt d ''weight'') (\<lambda>w. Inr \<lparr>ds_service_name = s, ds_weight = w\<rparr>))"

text \<open>
  \<open>GrpcRoute.RouteAction\<close> declares no field, so its constructor rejects the keyword
  \<open>destinations\<close> that \<open>from_response\<close> passes.
\<close>

definition grpc_route_action_from_response :: "json \<Rightarrow> exn + unit" where
  "grpc_route_action_from_response d =
     ebind (if_present d ''destinations''
              (\<lambda>ds. ebind (py_iter ds) (emap grpc_destination_from_response)) []) (\<lambda>destinations.
       Inl (TypeError ''unexpected keyword argument destinations''))"

record grpc_route_rule =
  grr_matches :: "route_match list"
  grr_action :: unit

definition grpc_route_rule_from_response :: "json \<Rightarrow> exn + grpc_route_rule" where
  "grpc_route_rule_from_response d =
     ebind (if_present d ''matches''
              (\<lambda>ms. ebind (py_iter ms) (emap grpc_route_match_from_response)) []) (\<lambda>matches.
     ebind (getitem d ''action'') (\<lambda>a.
     ebind (grpc_route_action_from_response a) (\<lambda>act.
       Inr \<lparr>grr_matches = matches, grr_action = act\<rparr>)))"

record route =
  rt_name :: string
  rt_url :: json
  rt_hostnames :: "json list"
  rt_rules :: "json list"
  rt_meshes :: "json list option"

definition optional_tuple :: "json \<Rightarrow> string \<Rightarrow> exn + json list option" where
  "optional_tuple d k =
     ebind (get_opt d k) (\<lambda>v. if v = JNull then Inr None
       else ebind (getitem d k) (\<lambda>x. ebind (py_iter x) (\<lambda>xs. Inr (Some xs))))"

definition grpc_route_from_response :: "string \<Rightarrow> json \<Rightarrow> exn + route" where
  "grpc_route_from_response nm d =
     ebind (getitem d ''name'') (\<lambda>u.
     ebind (getitem d ''hostnames'') (\<lambda>hs. ebind (py_iter hs) (\<lambda>hostnames.
     ebind (getitem d ''rules'') (\<lambda>rs. ebind (py_iter rs) (\<lambda>rules.
     ebind (optional_tuple d ''meshes'') (\<lambda>meshes.
       Inr \<lparr>rt_name = nm, rt_url = u, rt_hostnames = hostnames, rt_rules = rules,
            rt_meshes = meshes\<rparr>))))))"

subsection \<open>HTTP routes\<close>

definition http_method_match_from_response :: "json \<Rightarrow> exn + method_match" where
  "http_method_match_from_response d =
     ebind (get_opt d ''type'') (\<lambda>t.
     ebind (get_opt d ''httpService'') (\<lambda>s.
     ebind (get_opt d ''httpMethod'') (\<lambda>m.
     ebind (get_opt d ''caseSensitive'') (\<lambda>c.
       Inr \<lparr>mm_type = t, mm_service = s, mm_method = m, mm_case_sensitive = c\<rparr>))))"

definition http_header_match_from_response :: "json \<Rightarrow> exn + header_match" where
  "http_header_match_from_response d =
     ebind (get_opt d ''type'') (\<lambda>t.
     ebind (getitem d ''key'') (\<lambda>k.
     ebind (getitem d ''value'') (\<lambda>v.
       Inr \<lparr>hm_type = t, hm_key = k, hm_value = v\<rparr>)))"

definition http_route_match_from_response :: "json \<Rightarrow> exn + route_match" where
  "http_route_match_from_response d =
     ebind (if_present d ''method''
              (\<lambda>m. ebind (http_method_match_from_response m) (\<lambda>r. Inr (Some r))) None) (\<lambda>meth.
     ebind (if_present d ''headers''
              (\<lambda>hs. ebind (py_iter hs) (emap http_header_match_from_response)) []) (\<lambda>headers.
       Inr \<lparr>rm_method = meth, rm_headers = headers\<rparr>))"

definition http_destination_from_response :: "json \<Rightarrow> exn + destination" where
  "http_destination_from_response d =
     ebind (getitem d ''serviceName'') (\<lambda>s.
     ebind (get_opt d ''weight'') (\<lambda>w. Inr \<lparr>ds_service_name = s, ds_weight = w\<rparr>))"

record session_affinity =
  sa_cookie_ttl :: json

definition session_affinity_from_response :: "json \<Rightarrow> exn + session_affinity" where
  "session_affinity_from_response d =
     ebind (get_opt d ''cookieTtl'') (\<lambda>t. Inr \<lparr>sa_cookie_ttl = t\<rparr>)"

record route_action =
  ra_destinations :: "destination list"
  ra_stateful_session_affinity :: "session_affinity option"

definition http_route_action_from_response :: "json \<Rightarrow> exn + route_action" where
  "http_route_action_from_response d =
     ebind (if_present d ''destinations''
              (\<lambda>ds. ebind (py_iter ds) (emap http_destination_from_response)) []) (\<lambda>destinations.
     ebind (if_present d ''statefulSessionAffinity''
              (\<lambda>a. ebind (session_affinity_from_response a) (\<lambda>r. Inr (Some r))) None) (\<lambda>affinity.
       Inr \<lparr>ra_destinations = destinations, ra_stateful_session_affinity = affinity\<rparr>))"

record route_rule =
  rr_matches :: "route_match list"
  rr_action :: route_action

definition http_route_rule_from_response :: "json \<Rightarrow> exn + route_rule" where
  "http_route_rule_from_response d =
     ebind (if_present d ''matches''
              (\<lambda>ms. ebind (py_iter ms) (emap http_route_match_from_response)) []) (\<lambda>matches.
     ebind (getitem d ''action'') (\<lambda>a.
     ebind (http_route_action_from_response a) (\<lambda>act.
       Inr \<lparr>rr_matches = matches, rr_action = act\<rparr>)))"

definition http_route_from_response :: "string \<Rightarrow> json \<Rightarrow> exn + route" where
  "http_route_from_response nm d =
     ebind (getitem d ''name'') (\<lambda>u.
     ebind (getitem d ''hostnames'') (\<lambda>hs. ebind (py_iter hs) (\<lambda>hostnames.
     ebind (getitem d ''rules'') (\<lambda>rs. ebind (py_iter rs) (\<lambda>rules.
     ebind (optional_tuple d ''meshes'') (\<lambda>meshes.
       Inr \<lparr>rt_name = nm, rt_url = u, rt_hostnames = hostnames, rt_rules = rules,
            rt_meshes = meshes\<rparr>))))))"

section \<open>Clients\<close>

definition ns_api :: "string \<Rightarrow> std_api" where
  "ns_api prj = \<lparr>sa_name = ''networkservices'', sa_project = prj\<rparr>"

text \<open>\<open>code_pb2.INTERNAL\<close> is 13.\<close>

definition ns_operation_internal_error :: "env \<Rightarrow> exn \<Rightarrow> bool" where
  "ns_operation_internal_error E e =
     (case e of OperationError _ resp \<Rightarrow> parse_code E resp = 13 | _ \<Rightarrow> False)"

definition ns_retryer :: "env \<Rightarrow> retrying" where
  "ns_retryer E = Retrying [RetryIfException (ns_operation_internal_error E)]
     (WaitFixed 10) [StopAfterDelay (5 * 60)] None True"

definition ns_execute :: "env \<Rightarrow> std_api \<Rightarrow> request \<Rightarrow> (world, unit) act" where
  "ns_execute E api r =
     bind (tenacity E (ns_retryer E)
             (bind (std_execute E api wait_for_operation_sec r) (\<lambda>_. return JNull)))
       (\<lambda>_. return ())"

abbreviation "ENDPOINT_POLICIES \<equiv> ''endpointPolicies''"
abbreviation "HTTP_ROUTES \<equiv> ''httpRoutes''"
abbreviation "GRPC_ROUTES \<equiv> ''grpcRoutes''"
abbreviation "MESHES \<equiv> ''meshes''"

definition locations :: "string \<Rightarrow> string" where
  "locations coll = ''projects.locations.'' @ coll"

definition beta_create_endpoint_policy :: "env \<Rightarrow> std_api \<Rightarrow> string \<Rightarrow> json \<Rightarrow> (world, unit) act" where
  "beta_create_endpoint_policy E api nm body =
     std_create_resource (ns_execute E api) api (locations ENDPOINT_POLICIES) body None
       [(''endpointPolicyId'', JStr nm)]"

definition beta_get_endpoint_policy :: "env \<Rightarrow> std_api \<Rightarrow> string \<Rightarrow> (world, endpoint_policy) act" where
  "beta_get_endpoint_policy E api nm =
     bind (std_get_resource E api (locations ENDPOINT_POLICIES)
             (resource_full_name api nm ENDPOINT_POLICIES None))
       (\<lambda>response. lift (endpoint_policy_from_response nm response))"

definition beta_delete_endpoint_policy :: "env \<Rightarrow> std_api \<Rightarrow> string \<Rightarrow> (world, bool) act" where
  "beta_delete_endpoint_policy E api nm =
     std_delete_resource (ns_execute E api) api (locations ENDPOINT_POLICIES)
       (resource_full_name api nm ENDPOINT_POLICIES None)"

definition create_endpoint_policy :: "env \<Rightarrow> std_api \<Rightarrow> string \<Rightarrow> json \<Rightarrow> (world, unit) act" where
  "create_endpoint_policy E api nm body =
     std_create_resource (ns_execute E api) api (locations ENDPOINT_POLICIES) body None
       [(''endpointPolicyId'', JStr nm)]"

definition get_endpoint_policy :: "env \<Rightarrow> std_api \<Rightarrow> string \<Rightarrow> (world, endpoint_policy) act" where
  "get_endpoint_policy E api nm =
     bind (std_get_resource E api (locations ENDPOINT_POLICIES)
             (resource_full_name api nm ENDPOINT_POLICIES None))
       (\<lambda>response. lift (endpoint_policy_from_response nm response))"

definition delete_endpoint_policy :: "env \<Rightarrow> std_api \<Rightarrow> string \<Rightarrow> (world, bool) act" where
  "delete_endpoint_policy E api nm =
     std_delete_resource (ns_execute E api) api (locations ENDPOINT_POLICIES)
       (resource_full_name api nm ENDPOINT_POLICIES None)"

definition create_mesh :: "env \<Rightarrow> std_api \<Rightarrow> string \<Rightarrow> json \<Rightarrow> string option \<Rightarrow> (world, unit) act" where
  "create_mesh E api nm body location =
     std_create_resource (ns_execute E api) api (locations MESHES) body location [(''meshId'', JStr nm)]"

definition get_mesh :: "env \<Rightarrow> std_api \<Rightarrow> string \<Rightarrow> string option \<Rightarrow> (world, mesh) act" where
  "get_mesh E api nm location =
     bind (std_get_resource E api (locations MESHES) (resource_full_name api nm MESHES location))
       (\<lambda>result. lift (mesh_from_response nm result))"

definition delete_mesh :: "env \<Rightarrow> std_api \<Rightarrow> string \<Rightarrow> string option \<Rightarrow> (world, bool) act" where
  "delete_mesh E api nm location =
     std_delete_resource (ns_execute E api) api (locations MESHES)
       (resource_full_name api nm MESHES location)"

definition create_grpc_route :: "env \<Rightarrow> std_api \<Rightarrow> string \<Rightarrow> json \<Rightarrow> string option \<Rightarrow> (world, unit) act" where
  "create_grpc_route E api nm body location =
     std_create_resource (ns_execute E api) api (locations GRPC_ROUTES) body location
       [(''grpcRouteId'', JStr nm)]"

definition create_http_route :: "env \<Rightarrow> std_api \<Rightarrow> string \<Rightarrow> json \<Rightarrow> string option \<Rightarrow> (world, unit) act" where
  "create_http_route E api nm body location =
     std_create_resource (ns_execute E api) api (locations HTTP_ROUTES) body location
       [(''httpRouteId'', JStr nm)]"

definition get_grpc_route :: "env \<Rightarrow> std_api \<Rightarrow> string \<Rightarrow> string option \<Rightarrow> (world, route) act" where
  "get_grpc_route E api nm location =
     bind (std_get_resource E api (locations GRPC_ROUTES) (resource_full_name api nm GRPC_ROUTES location))
       (\<lambda>result. lift (grpc_route_from_response nm result))"

definition get_http_route :: "env \<Rightarrow> std_api \<Rightarrow> string \<Rightarrow> string option \<Rightarrow> (world, route) act" where
  "get_http_route E api nm location =
     bind (std_get_resource E api (locations HTTP_ROUTES) (resource_full_name api nm HTTP_ROUTES location))
       (\<lambda>result. lift (http_route_from_response nm result))"

definition delete_grpc_route :: "env \<Rightarrow> std_api \<Rightarrow> string \<Rightarrow> string option \<Rightarrow> (world, bool) act" where
  "delete_grpc_route E api nm location =
     std_delete_resource (ns_execute E api) api (locations GRPC_ROUTES)
       (resource_full_name api nm GRPC_ROUTES location)"

definition delete_http_route :: "env \<Rightarrow> std_api \<Rightarrow> string \<Rightarrow> string option \<Rightarrow> (world, bool) act" where
  "delete_http_route E api nm location =
     std_delete_resource (ns_execute E api) api (locations HTTP_ROUTES)
       (resource_full_name api nm HTTP_ROUTES location)"

section \<open>The client meets the interface\<close>

lemma ns_execute_throttled:
  "ns_execute E api r = bind (tenacity E (throttle_retryer (ns_operation_internal_error E))
     (bind (std_execute E api wait_for_operation_sec r) (\<lambda>_. return JNull))) (\<lambda>_. return ())"
  by (simp add: ns_execute_def ns_retryer_def throttle_retryer_def)

interpretation ns: std_client E api "ns_execute E api" for E api
proof unfold_locales
  fix P r
  assume "env_ok E" "P r" "\<And>q. std_poll api q \<Longrightarrow> P q"
  then show "emits (\<lambda>w. w) P (ns_execute E api r)"
    unfolding ns_execute_throttled by (rule throttled_emits)
next
  fix r w
  assume "env_ok E" "serves_std E (sa_name api)" "mutates r" "rq_service r = sa_name api"
  then show "\<exists>w'. ns_execute E api r w = (Inr (), w') \<and> changes w' = changes w @ changes [r]"
    unfolding ns_execute_throttled by (metis std_execute_served throttled_first)
next
  fix w r st reason
  assume "env_ok E" "http E w r = Inl (HttpError st reason)" "\<not> is_retryable_api_error (HttpError st reason)"
  then show "ns_execute E api r w = (Inl (HttpError st reason), w @ [r])"
    unfolding ns_execute_throttled by (rule throttled_rejected) (simp add: ns_operation_internal_error_def)
qed

section \<open>Properties\<close>

text \<open>
  Whatever the services answer, each delete method of \<open>NetworkServicesV1\<close> changes nothing but
  the resource with the full name it builds.
\<close>

theorem network_deletes_only_the_named:
  assumes "env_ok E"
  shows "emits (\<lambda>w. w) (\<lambda>q. mutates q \<longrightarrow> change_of q =
        (locations MESHES, ''delete'', JStr (resource_full_name api nm MESHES loc))) (delete_mesh E api nm loc)
    \<and> emits (\<lambda>w. w) (\<lambda>q. mutates q \<longrightarrow> change_of q =
        (locations GRPC_ROUTES, ''delete'', JStr (resource_full_name api nm GRPC_ROUTES loc))) (delete_grpc_route E api nm loc)
    \<and> emits (\<lambda>w. w) (\<lambda>q. mutates q \<longrightarrow> change_of q =
        (locations HTTP_ROUTES, ''delete'', JStr (resource_full_name api nm HTTP_ROUTES loc))) (delete_http_route E api nm loc)
    \<and> emits (\<lambda>w. w) (\<lambda>q. mutates q \<longrightarrow> change_of q =
        (locations ENDPOINT_POLICIES, ''delete'', JStr (resource_full_name api nm ENDPOINT_POLICIES None)))
        (delete_endpoint_policy E api nm)"
  unfolding delete_mesh_def delete_grpc_route_def delete_http_route_def delete_endpoint_policy_def
  by (intro conjI ns.delete_emits assms)

theorem network_deletes_only_the_named_witness:
  "emits (\<lambda>w. w) (\<lambda>q. mutates q \<longrightarrow> change_of q =
     (locations MESHES, ''delete'', JStr (resource_full_name (ns_api ''p'') ''m'' MESHES None)))
     (delete_mesh demo_env (ns_api ''p'') ''m'' None)"
  using network_deletes_only_the_named [of demo_env] by simp

text \<open>
  Deleting a mesh that does not exist (404) is no error: one request is sent, and the call
  returns \<open>False\<close>, through both retrying layers.
\<close>

theorem delete_missing_mesh:
  assumes "env_ok E"
    and "http E w (std_delete_request api (locations MESHES) (resource_full_name api nm MESHES loc))
           = Inl (HttpError 404 reason)"
  shows "delete_mesh E api nm loc w
    = (Inr False, w @ [std_delete_request api (locations MESHES) (resource_full_name api nm MESHES loc)])"
  unfolding delete_mesh_def
  by (rule ns.delete_rejected [OF assms]) (simp add: is_retryable_api_error_def transport_errors_def)

theorem delete_missing_mesh_witness:
  "delete_mesh (with_answers (\<lambda>w r. Inl (HttpError 404 ''gone''))) (ns_api ''p'') ''m'' None []
     = (Inr False, [] @ [std_delete_request (ns_api ''p'') (locations MESHES)
         (resource_full_name (ns_api ''p'') ''m'' MESHES None)])"
  by (rule delete_missing_mesh) simp_all

text \<open>
  No response with an action can be read as a gRPC route rule: \<open>RouteAction\<close> has no field
  \<open>destinations\<close>, so its constructor always raises.
\<close>

theorem grpc_route_rule_never_read:
  "\<exists>e. grpc_route_rule_from_response d = Inl e"
  by (auto simp: grpc_route_rule_from_response_def grpc_route_action_from_response_def ebind_def
      split: sum.splits)

text \<open>
  The HTTP counterpart reads every rule whose matches are empty and whose destinations all
  name a service.
\<close>

lemma http_route_rule_read:
  assumes "map_of kvs ''matches'' = None"
    and "map_of kvs ''action'' = Some (JObj [(''destinations'',
           JList (map (\<lambda>n. JObj [(''serviceName'', n)]) names))])"
  shows "http_route_rule_from_response (JObj kvs) = Inr \<lparr>rr_matches = [], rr_action =
    \<lparr>ra_destinations = map (\<lambda>n. \<lparr>ds_service_name = n, ds_weight = JNull\<rparr>) names,
     ra_stateful_session_affinity = None\<rparr>\<rparr>"
proof -
  have "emap http_destination_from_response (map (\<lambda>n. JObj [(''serviceName'', n)]) names)
      = Inr (map (\<lambda>n. \<lparr>ds_service_name = n, ds_weight = JNull\<rparr>) names)"
    by (induction names) (simp_all add: http_destination_from_response_def get_opt_def)
  with assms show ?thesis
    by (simp add: http_route_rule_from_response_def http_route_action_from_response_def if_present_def)
qed

end
