(* ===== verification/NetworkSecurity.thy ===== *)
theory NetworkSecurity
  imports GcpApi
begin

text \<open>
  framework/infrastructure/gcp/network_security.py: TLS and authorization policies and the client
  \<open>NetworkSecurityV1Beta1\<close>; \<open>NetworkSecurityV1Alpha1\<close> differs in the version string only.
\<close>

section \<open>Reading responses\<close>

record server_tls_policy =
  stp_url :: json
  stp_name :: string
  stp_server_certificate :: json
  stp_mtls_policy :: json
  stp_update_time :: json
  stp_create_time :: json

definition server_tls_policy_from_response :: "string \<Rightarrow> json \<Rightarrow> exn + server_tls_policy" where
  "server_tls_policy_from_response nm response =
     ebind (getitem response ''name'') (\<lambda>u.
     ebind (get_default response ''serverCertificate'' (JObj [])) (\<lambda>cert.
     ebind (get_default response ''mtlsPolicy'' (JObj [])) (\<lambda>mtls.
     ebind (getitem response ''createTime'') (\<lambda>created.
     ebind (getitem response ''updateTime'') (\<lambda>updated.
       Inr \<lparr>stp_url = u, stp_name = nm, stp_server_certificate = cert, stp_mtls_policy = mtls,
            stp_update_time = updated, stp_create_time = created\<rparr>)))))"

record client_tls_policy =
  ctp_url :: json
  ctp_name :: string
  ctp_client_certificate :: json
  ctp_server_validation_ca :: json
  ctp_update_time :: json
  ctp_create_time :: json

definition client_tls_policy_from_response :: "string \<Rightarrow> json \<Rightarrow> exn + client_tls_policy" where
  "client_tls_policy_from_response nm response =
     ebind (getitem response ''name'') (\<lambda>u.
     ebind (get_default response ''clientCertificate'' (JObj [])) (\<lambda>cert.
     ebind (get_default response ''serverValidationCa'' (JList [])) (\<lambda>ca.
     ebind (getitem response ''createTime'') (\<lambda>created.
     ebind (getitem response ''updateTime'') (\<lambda>updated.
       Inr \<lparr>ctp_url = u, ctp_name = nm, ctp_client_certificate = cert,
            ctp_server_validation_ca = ca, ctp_update_time = updated, ctp_create_time = created\<rparr>)))))"

record authorization_policy =
  azp_url :: json
  azp_name :: string
  azp_update_time :: json
  azp_create_time :: json
  azp_action :: json
  azp_rules :: json

definition authorization_policy_from_response :: "string \<Rightarrow> json \<Rightarrow> exn + authorization_policy" where
  "authorization_policy_from_response nm response =
     ebind (getitem response ''name'') (\<lambda>u.
     ebind (getitem response ''createTime'') (\<lambda>created.
     ebind (getitem response ''updateTime'') (\<lambda>updated.
     ebind (getitem response ''action'') (\<lambda>act.
     ebind (get_default response ''rules'' (JList [])) (\<lambda>rules.
       Inr \<lparr>azp_url = u, azp_name = nm, azp_update_time = updated, azp_create_time = created,
            azp_action = act, azp_rules = rules\<rparr>)))))"

section \<open>Client\<close>

definition nsec_api :: "string \<Rightarrow> std_api" where
  "nsec_api prj = \<lparr>sa_name = ''networksecurity'', sa_project = prj\<rparr>"

text \<open>\<open>code_pb2.INTERNAL\<close> is 13.\<close>

definition nsec_operation_internal_error :: "env \<Rightarrow> exn \<Rightarrow> bool" where
  "nsec_operation_internal_error E e =
     (case e of OperationError _ resp \<Rightarrow> parse_code E resp = 13 | _ \<Rightarrow> False)"

definition nsec_retryer :: "env \<Rightarrow> retrying" where
  "nsec_retryer E = Retrying [RetryIfException (nsec_operation_internal_error E)]
     (WaitFixed 10) [StopAfterDelay (5 * 60)] None True"

definition nsec_execute :: "env \<Rightarrow> std_api \<Rightarrow> request \<Rightarrow> (world, unit) act" where
  "nsec_execute E api r =
     bind (tenacity E (nsec_retryer E)
             (bind (std_execute E api wait_for_operation_sec r) (\<lambda>_. return JNull)))
       (\<lambda>_. return ())"

abbreviation "SERVER_TLS_POLICIES \<equiv> ''serverTlsPolicies''"
abbreviation "CLIENT_TLS_POLICIES \<equiv> ''clientTlsPolicies''"
abbreviation "AUTHZ_POLICIES \<equiv> ''authorizationPolicies''"

definition nsec_locations :: "string \<Rightarrow> string" where
  "nsec_locations coll = ''projects.locations.'' @ coll"

definition create_server_tls_policy :: "env \<Rightarrow> std_api \<Rightarrow> string \<Rightarrow> json \<Rightarrow> (world, unit) act" where
  "create_server_tls_policy E api nm body =
     std_create_resource (nsec_execute E api) api (nsec_locations SERVER_TLS_POLICIES) body None
       [(''serverTlsPolicyId'', JStr nm)]"

definition get_server_tls_policy :: "env \<Rightarrow> std_api \<Rightarrow> string \<Rightarrow> (world, server_tls_policy) act" where
  "get_server_tls_policy E api nm =
     bind (std_get_resource E api (nsec_locations SERVER_TLS_POLICIES)
             (resource_full_name api nm SERVER_TLS_POLICIES (Some ''global'')))
       (\<lambda>response. lift (server_tls_policy_from_response nm response))"

definition delete_server_tls_policy :: "env \<Rightarrow> std_api \<Rightarrow> string \<Rightarrow> (world, bool) act" where
  "delete_server_tls_policy E api nm =
     std_delete_resource (nsec_execute E api) api (nsec_locations SERVER_TLS_POLICIES)
       (resource_full_name api nm SERVER_TLS_POLICIES (Some ''global''))"

definition create_client_tls_policy :: "env \<Rightarrow> std_api \<Rightarrow> string \<Rightarrow> json \<Rightarrow> (world, unit) act" where
  "create_client_tls_policy E api nm body =
     std_create_resource (nsec_execute E api) api (nsec_locations CLIENT_TLS_POLICIES) body None
       [(''clientTlsPolicyId'', JStr nm)]"

definition get_client_tls_policy :: "env \<Rightarrow> std_api \<Rightarrow> string \<Rightarrow> (world, client_tls_policy) act" where
  "get_client_tls_policy E api nm =
     bind (std_get_resource E api (nsec_locations CLIENT_TLS_POLICIES)
             (resource_full_name api nm CLIENT_TLS_POLICIES (Some ''global'')))
       (\<lambda>response. lift (client_tls_policy_from_response nm response))"

definition delete_client_tls_policy :: "env \<Rightarrow> std_api \<Rightarrow> string \<Rightarrow> (world, bool) act" where
  "delete_client_tls_policy E api nm =
     std_delete_resource (nsec_execute E api) api (nsec_locations CLIENT_TLS_POLICIES)
       (resource_full_name api nm CLIENT_TLS_POLICIES (Some ''global''))"

definition create_authz_policy :: "env \<Rightarrow> std_api \<Rightarrow> string \<Rightarrow> json \<Rightarrow> (world, unit) act" where
  "create_authz_policy E api nm body =
     std_create_resource (nsec_execute E api) api (nsec_locations AUTHZ_POLICIES) body None
       [(''authorizationPolicyId'', JStr nm)]"

text \<open>As written in the source, the response is read as a \<open>ClientTlsPolicy\<close>.\<close>

definition get_authz_policy :: "env \<Rightarrow> std_api \<Rightarrow> string \<Rightarrow> (world, client_tls_policy) act" where
  "get_authz_policy E api nm =
     bind (std_get_resource E api (nsec_locations AUTHZ_POLICIES)
             (resource_full_name api nm AUTHZ_POLICIES (Some ''global'')))
       (\<lambda>response. lift (client_tls_policy_from_response nm response))"

definition delete_authz_policy :: "env \<Rightarrow> std_api \<Rightarrow> string \<Rightarrow> (world, bool) act" where
  "delete_authz_policy E api nm =
     std_delete_resource (nsec_execute E api) api (nsec_locations AUTHZ_POLICIES)
       (resource_full_name api nm AUTHZ_POLICIES (Some ''global''))"

section \<open>The client meets the interface\<close>

lemma nsec_execute_throttled:
  "nsec_execute E api r = bind (tenacity E (throttle_retryer (nsec_operation_internal_error E))
     (bind (std_execute E api wait_for_operation_sec r) (\<lambda>_. return JNull))) (\<lambda>_. return ())"
  by (simp add: nsec_execute_def nsec_retryer_def throttle_retryer_def)

interpretation nsec: std_client E api "nsec_execute E api" for E api
proof unfold_locales
  fix P r
  assume "env_ok E" "P r" "\<And>q. std_poll api q \<Longrightarrow> P q"
  then show "emits (\<lambda>w. w) P (nsec_execute E api r)"
    unfolding nsec_execute_throttled by (rule throttled_emits)
next
  fix r w
  assume "env_ok E" "serves_std E (sa_name api)" "mutates r" "rq_service r = sa_name api"
  then show "\<exists>w'. nsec_execute E api r w = (Inr (), w') \<and> changes w' = changes w @ changes [r]"
    unfolding nsec_execute_throttled by (metis std_execute_served throttled_first)
next
  fix w r st reason
  assume "env_ok E" "http E w r = Inl (HttpError st reason)" "\<not> is_retryable_api_error (HttpError st reason)"
  then show "nsec_execute E api r w = (Inl (HttpError st reason), w @ [r])"
    unfolding nsec_execute_throttled by (rule throttled_rejected) (simp add: nsec_operation_internal_error_def)
qed

section \<open>Properties\<close>

text \<open>
  Whatever the services answer, each delete method of \<open>NetworkSecurityV1Beta1\<close> changes
  nothing but the policy with the full name it builds, in the global location.
\<close>

theorem security_deletes_only_the_named:
  assumes "env_ok E"
  shows "emits (\<lambda>w. w) (\<lambda>q. mutates q \<longrightarrow> change_of q = (nsec_locations SERVER_TLS_POLICIES, ''delete'',
        JStr (''projects/'' @ sa_project api @ ''/locations/global/serverTlsPolicies/'' @ nm)))
        (delete_server_tls_policy E api nm)
    \<and> emits (\<lambda>w. w) (\<lambda>q. mutates q \<longrightarrow> change_of q = (nsec_locations CLIENT_TLS_POLICIES, ''delete'',
        JStr (''projects/'' @ sa_project api @ ''/locations/global/clientTlsPolicies/'' @ nm)))
        (delete_client_tls_policy E api nm)
    \<and> emits (\<lambda>w. w) (\<lambda>q. mutates q \<longrightarrow> change_of q = (nsec_locations AUTHZ_POLICIES, ''delete'',
        JStr (''projects/'' @ sa_project api @ ''/locations/global/authorizationPolicies/'' @ nm)))
        (delete_authz_policy E api nm)"
proof -
  have full: "resource_full_name api nm coll (Some ''global'')
      = ''projects/'' @ sa_project api @ ''/locations/global/'' @ coll @ ''/'' @ nm" for coll
    by (simp add: resource_full_name_def parent_of_def)
  show ?thesis
    unfolding delete_server_tls_policy_def delete_client_tls_policy_def delete_authz_policy_def
    using nsec.delete_emits [OF assms] full by simp
qed

theorem security_deletes_only_the_named_witness:
  "emits (\<lambda>w. w) (\<lambda>q. mutates q \<longrightarrow> change_of q = (nsec_locations SERVER_TLS_POLICIES, ''delete'',
     JStr (''projects/'' @ sa_project (nsec_api ''p'') @ ''/locations/global/serverTlsPolicies/'' @ ''t'')))
     (delete_server_tls_policy demo_env (nsec_api ''p'') ''t'')"
  using security_deletes_only_the_named [of demo_env] by simp

end
