(* ===== verification/SecureManager.thy ===== *)
theory SecureManager
  imports Cleanup NetworkServices NetworkSecurity
begin

text \<open>
  framework/infrastructure/traffic_director.py, class \<open>TrafficDirectorSecureManager\<close>: the manager
  with TLS, authorization and endpoint policies. The authorization policy it keeps is what
  \<open>get_authz_policy\<close> returns.
\<close>

abbreviation "SERVER_TLS_POLICY_NAME \<equiv> ''server-tls-policy''"
abbreviation "CLIENT_TLS_POLICY_NAME \<equiv> ''client-tls-policy''"
abbreviation "AUTHZ_POLICY_NAME \<equiv> ''authz-policy''"
abbreviation "ENDPOINT_POLICY \<equiv> ''endpoint-policy''"
abbreviation "CERTIFICATE_PROVIDER_INSTANCE \<equiv> ''google_cloud_private_spiffe''"

record td_secure = td +
  sm_netsec :: std_api
  sm_netsvc :: std_api
  sm_server_tls_policy :: "server_tls_policy option"
  sm_client_tls_policy :: "client_tls_policy option"
  sm_authz_policy :: "client_tls_policy option"
  sm_endpoint_policy :: "endpoint_policy option"

type_synonym ('x, 'a) sm_meth = "('x td_secure_scheme \<times> world, 'a) act"

text \<open>No region is passed on.\<close>

definition secure_init ::
  "string option \<Rightarrow> string \<Rightarrow> string \<Rightarrow> string option \<Rightarrow> string \<Rightarrow> bool \<Rightarrow> td_secure" where
  "secure_init gfe_header prj resource_prefix resource_suffix network enable_dualstack =
     td.extend (td_init gfe_header prj resource_prefix resource_suffix network enable_dualstack None)
       (td_secure.fields (nsec_api prj) (ns_api prj) None None None None)"

definition get_certificate_provider :: json where
  "get_certificate_provider = JObj [(''certificateProviderInstance'',
     JObj [(''pluginInstance'', JStr CERTIFICATE_PROVIDER_INSTANCE)])]"

section \<open>TLS policies\<close>

definition server_tls_policy_body :: "bool \<Rightarrow> bool \<Rightarrow> json" where
  "server_tls_policy_body tls mtls = JObj
     ((if tls then [(''serverCertificate'', get_certificate_provider)] else []) @
      (if mtls then [(''mtlsPolicy'', JObj [(''clientValidationCa'', JList [get_certificate_provider])])]
       else []))"

definition sm_create_server_tls_policy :: "env \<Rightarrow> bool \<Rightarrow> bool \<Rightarrow> ('x, unit) sm_meth" where
  "sm_create_server_tls_policy E tls mtls = using_self (\<lambda>self.
     let nm = make_resource_name self SERVER_TLS_POLICY_NAME in
     if \<not> tls \<and> \<not> mtls then return ()
     else andthen (call (create_server_tls_policy E (sm_netsec self) nm (server_tls_policy_body tls mtls)))
       (bind (call (get_server_tls_policy E (sm_netsec self) nm))
          (\<lambda>p. assign (sm_server_tls_policy_update (\<lambda>_. Some p)))))"

definition sm_delete_server_tls_policy :: "env \<Rightarrow> bool \<Rightarrow> ('x, unit) sm_meth" where
  "sm_delete_server_tls_policy E force = using_self (\<lambda>self.
     case (if force then Some (make_resource_name self SERVER_TLS_POLICY_NAME)
           else map_option stp_name (sm_server_tls_policy self)) of
       None \<Rightarrow> return ()
     | Some nm \<Rightarrow> andthen (call (delete_server_tls_policy E (sm_netsec self) nm))
                    (assign (sm_server_tls_policy_update (\<lambda>_. None))))"

definition client_tls_policy_body :: "bool \<Rightarrow> bool \<Rightarrow> json" where
  "client_tls_policy_body tls mtls = JObj
     ((if tls then [(''serverValidationCa'', JList [get_certificate_provider])] else []) @
      (if mtls then [(''clientCertificate'', get_certificate_provider)] else []))"

definition sm_create_client_tls_policy :: "env \<Rightarrow> bool \<Rightarrow> bool \<Rightarrow> ('x, unit) sm_meth" where
  "sm_create_client_tls_policy E tls mtls = using_self (\<lambda>self.
     let nm = make_resource_name self CLIENT_TLS_POLICY_NAME in
     if \<not> tls \<and> \<not> mtls then return ()
     else andthen (call (create_client_tls_policy E (sm_netsec self) nm (client_tls_policy_body tls mtls)))
       (bind (call (get_client_tls_policy E (sm_netsec self) nm))
          (\<lambda>p. assign (sm_client_tls_policy_update (\<lambda>_. Some p)))))"

definition sm_delete_client_tls_policy :: "env \<Rightarrow> bool \<Rightarrow> ('x, unit) sm_meth" where
  "sm_delete_client_tls_policy E force = using_self (\<lambda>self.
     case (if force then Some (make_resource_name self CLIENT_TLS_POLICY_NAME)
           else map_option ctp_name (sm_client_tls_policy self)) of
       None \<Rightarrow> return ()
     | Some nm \<Rightarrow> andthen (call (delete_client_tls_policy E (sm_netsec self) nm))
                    (assign (sm_client_tls_policy_update (\<lambda>_. None))))"

section \<open>Authorization and endpoint policies\<close>

definition sm_create_authz_policy :: "env \<Rightarrow> string \<Rightarrow> json \<Rightarrow> ('x, unit) sm_meth" where
  "sm_create_authz_policy E action rules = using_self (\<lambda>self.
     let nm = make_resource_name self AUTHZ_POLICY_NAME in
     andthen (call (create_authz_policy E (sm_netsec self) nm
                      (JObj [(''action'', JStr action), (''rules'', rules)])))
       (bind (call (get_authz_policy E (sm_netsec self) nm))
          (\<lambda>p. assign (sm_authz_policy_update (\<lambda>_. Some p)))))"

definition sm_delete_authz_policy :: "env \<Rightarrow> bool \<Rightarrow> ('x, unit) sm_meth" where
  "sm_delete_authz_policy E force = using_self (\<lambda>self.
     case (if force then Some (make_resource_name self AUTHZ_POLICY_NAME)
           else map_option ctp_name (sm_authz_policy self)) of
       None \<Rightarrow> return ()
     | Some nm \<Rightarrow> andthen (call (delete_authz_policy E (sm_netsec self) nm))
                    (assign (sm_authz_policy_update (\<lambda>_. None))))"

definition endpoint_policy_config ::
  "string \<Rightarrow> string \<Rightarrow> int \<Rightarrow> server_tls_policy option \<Rightarrow> client_tls_policy option \<Rightarrow> json" where
  "endpoint_policy_config server_namespace server_name server_port tls_policy authz_policy = JObj
     ([(''type'', JStr ''GRPC_SERVER''),
       (''trafficPortSelector'', JObj [(''ports'', JList [JStr (str_int server_port)])]),
       (''endpointMatcher'', JObj [(''metadataLabelMatcher'', JObj
          [(''metadataLabelMatchCriteria'', JStr ''MATCH_ALL''),
           (''metadataLabels'', JList [JObj
              [(''labelName'', JStr ''app''),
               (''labelValue'', JStr (server_namespace @ ''-'' @ server_name))]])])])] @
      (case tls_policy of None \<Rightarrow> [] | Some p \<Rightarrow> [(''serverTlsPolicy'', JStr (stp_name p))]) @
      (case authz_policy of None \<Rightarrow> [] | Some p \<Rightarrow> [(''authorizationPolicy'', JStr (ctp_name p))]))"

definition sm_create_endpoint_policy :: "env \<Rightarrow> string \<Rightarrow> string \<Rightarrow> int \<Rightarrow> ('x, unit) sm_meth" where
  "sm_create_endpoint_policy E server_namespace server_name server_port = using_self (\<lambda>self.
     let nm = make_resource_name self ENDPOINT_POLICY in
     andthen (call (beta_create_endpoint_policy E (sm_netsvc self) nm
                (endpoint_policy_config server_namespace server_name server_port
                   (sm_server_tls_policy self) (sm_authz_policy self))))
       (bind (call (beta_get_endpoint_policy E (sm_netsvc self) nm))
          (\<lambda>p. assign (sm_endpoint_policy_update (\<lambda>_. Some p)))))"

definition sm_delete_endpoint_policy :: "env \<Rightarrow> bool \<Rightarrow> ('x, unit) sm_meth" where
  "sm_delete_endpoint_policy E force = using_self (\<lambda>self.
     case (if force then Some (make_resource_name self ENDPOINT_POLICY)
           else map_option ep_name (sm_endpoint_policy self)) of
       None \<Rightarrow> return ()
     | Some nm \<Rightarrow> andthen (call (beta_delete_endpoint_policy E (sm_netsvc self) nm))
                    (assign (sm_endpoint_policy_update (\<lambda>_. None))))"

section \<open>mTLS on the backend service\<close>

text \<open>
  The name of the backend service is read on both branches, for the log; the patch is sent
  without a region.
\<close>

definition server_spiffe :: "string \<Rightarrow> string \<Rightarrow> string \<Rightarrow> string" where
  "server_spiffe prj server_namespace server_name =
     ''spiffe://'' @ prj @ ''.svc.id.goog/ns/'' @ server_namespace @ ''/sa/'' @ server_name"

definition sm_backend_service_apply_client_mtls_policy ::
  "env \<Rightarrow> string \<Rightarrow> string \<Rightarrow> ('x, unit) sm_meth" where
  "sm_backend_service_apply_client_mtls_policy E server_namespace server_name = using_self (\<lambda>self.
     bind (attr_of ''name'' (td_backend_service self)) (\<lambda>bs.
     case sm_client_tls_policy self of
       None \<Rightarrow> return ()
     | Some p \<Rightarrow> call (patch_backend_service E (td_compute self) bs
         (JObj [(''securitySettings'', JObj
            [(''clientTlsPolicy'', ctp_url p),
             (''subjectAltNames'', JList [JStr (server_spiffe (td_project self) server_namespace server_name)])])])
         None [])))"

section \<open>Setup and cleanup\<close>

definition sm_setup_server_security ::
  "env \<Rightarrow> string \<Rightarrow> string \<Rightarrow> int \<Rightarrow> bool \<Rightarrow> bool \<Rightarrow> ('x, unit) sm_meth" where
  "sm_setup_server_security E server_namespace server_name server_port tls mtls = stmts
     [sm_create_server_tls_policy E tls mtls,
      sm_create_endpoint_policy E server_namespace server_name server_port]"

definition sm_setup_client_security ::
  "env \<Rightarrow> string \<Rightarrow> string \<Rightarrow> bool \<Rightarrow> bool \<Rightarrow> ('x, unit) sm_meth" where
  "sm_setup_client_security E server_namespace server_name tls mtls = stmts
     [sm_create_client_tls_policy E tls mtls,
      sm_backend_service_apply_client_mtls_policy E server_namespace server_name]"

definition sm_cleanup :: "env \<Rightarrow> bool \<Rightarrow> ('x, unit) sm_meth" where
  "sm_cleanup E force = stmts
     [td_cleanup E force,
      sm_delete_endpoint_policy E force,
      sm_delete_server_tls_policy E force,
      sm_delete_client_tls_policy E force,
      sm_delete_authz_policy E force]"

section \<open>The delete methods as managed deletions\<close>

lemma make_resource_name_secure [simp]:
  "make_resource_name (sm_server_tls_policy_update f1 self) = make_resource_name self"
  "make_resource_name (sm_client_tls_policy_update f2 self) = make_resource_name self"
  "make_resource_name (sm_authz_policy_update f3 self) = make_resource_name self"
  "make_resource_name (sm_endpoint_policy_update f4 self) = make_resource_name self"
  by (simp_all add: make_resource_name_def fun_eq_iff)

definition deletes_policy :: "std_api \<Rightarrow> string \<Rightarrow> string \<Rightarrow> change" where
  "deletes_policy api coll n =
     (''projects.locations.'' @ coll, ''delete'', JStr (resource_full_name api n coll None))"

lemma policy_locations:
  "(locations coll, ''delete'', JStr (resource_full_name api n coll None)) = deletes_policy api coll n"
  "(nsec_locations coll, ''delete'', JStr (resource_full_name api n coll (Some ''global''))) = deletes_policy api coll n"
  by (simp_all add: deletes_policy_def locations_def nsec_locations_def resource_full_name_def parent_of_def)

lemmas security_deletes = delete_server_tls_policy_def delete_client_tls_policy_def
  delete_authz_policy_def beta_delete_endpoint_policy_def
  ns.delete_emits ns.delete_served nsec.delete_emits nsec.delete_served

interpretation server_tls: managed_field "env_ok E" "\<lambda>self. serves_std E (sa_name (sm_netsec self))"
  "\<lambda>self n. delete_server_tls_policy E (sm_netsec self) n"
  "\<lambda>self n. deletes_policy (sm_netsec self) SERVER_TLS_POLICIES n"
  "\<lambda>self. make_resource_name self SERVER_TLS_POLICY_NAME" "\<lambda>self. map_option stp_name (sm_server_tls_policy self)"
  "sm_server_tls_policy_update (\<lambda>_. None)" "sm_delete_server_tls_policy E" for E
  by unfold_locales (simp_all add: security_deletes sm_delete_server_tls_policy_def policy_locations(2) [symmetric])

interpretation client_tls: managed_field "env_ok E" "\<lambda>self. serves_std E (sa_name (sm_netsec self))"
  "\<lambda>self n. delete_client_tls_policy E (sm_netsec self) n"
  "\<lambda>self n. deletes_policy (sm_netsec self) CLIENT_TLS_POLICIES n"
  "\<lambda>self. make_resource_name self CLIENT_TLS_POLICY_NAME" "\<lambda>self. map_option ctp_name (sm_client_tls_policy self)"
  "sm_client_tls_policy_update (\<lambda>_. None)" "sm_delete_client_tls_policy E" for E
  by unfold_locales (simp_all add: security_deletes sm_delete_client_tls_policy_def policy_locations(2) [symmetric])

interpretation authz: managed_field "env_ok E" "\<lambda>self. serves_std E (sa_name (sm_netsec self))"
  "\<lambda>self n. delete_authz_policy E (sm_netsec self) n"
  "\<lambda>self n. deletes_policy (sm_netsec self) AUTHZ_POLICIES n"
  "\<lambda>self. make_resource_name self AUTHZ_POLICY_NAME" "\<lambda>self. map_option ctp_name (sm_authz_policy self)"
  "sm_authz_policy_update (\<lambda>_. None)" "sm_delete_authz_policy E" for E
  by unfold_locales (simp_all add: security_deletes sm_delete_authz_policy_def policy_locations(2) [symmetric])

interpretation endpoint: managed_field "env_ok E" "\<lambda>self. serves_std E (sa_name (sm_netsvc self))"
  "\<lambda>self n. beta_delete_endpoint_policy E (sm_netsvc self) n"
  "\<lambda>self n. deletes_policy (sm_netsvc self) ENDPOINT_POLICIES n"
  "\<lambda>self. make_resource_name self ENDPOINT_POLICY" "\<lambda>self. map_option ep_name (sm_endpoint_policy self)"
  "sm_endpoint_policy_update (\<lambda>_. None)" "sm_delete_endpoint_policy E" for E
  by unfold_locales (simp_all add: security_deletes sm_delete_endpoint_policy_def policy_locations(1) [symmetric])

section \<open>Properties\<close>

text \<open>The names a delete method of the policies sends.\<close>

definition policy_changes ::
  "bool \<Rightarrow> 'x td_secure_scheme \<Rightarrow> (string \<Rightarrow> change) \<Rightarrow> string \<Rightarrow> string option \<Rightarrow> change list" where
  "policy_changes force self delete_of nm held =
     map delete_of (if force then [make_resource_name self nm] else case held of None \<Rightarrow> [] | Some n \<Rightarrow> [n])"

lemma policy_targets:
  "(case (if force then Some (make_resource_name self nm) else held) of None \<Rightarrow> [] | Some n \<Rightarrow> [delete_of n])
   = policy_changes force self delete_of nm held"
  by (simp add: policy_changes_def split: option.split)

lemma secure_fields_cleaned [simp]:
  "sm_netsec (cleaned force self) = sm_netsec self" "sm_netsvc (cleaned force self) = sm_netsvc self"
  "sm_server_tls_policy (cleaned force self) = sm_server_tls_policy self"
  "sm_client_tls_policy (cleaned force self) = sm_client_tls_policy self"
  "sm_authz_policy (cleaned force self) = sm_authz_policy self"
  "sm_endpoint_policy (cleaned force self) = sm_endpoint_policy self"
  "make_resource_name (cleaned force self) = make_resource_name self"
  by (simp_all add: cleaned_def forgotten_below_def ipv6_forgotten_def proxies_forgotten_def
      firewall_forgotten_def)

text \<open>
  C5: with services in good order, the cleanup of the secure manager first deletes what the base
  manager deletes, then the endpoint policy, and only then the policies it refers to; afterwards
  it holds none of them.
\<close>

theorem secure_cleanup_order:
  assumes "env_ok E" and "serves_compute E" and "serves_std E (sa_name (sm_netsvc self))"
    and "serves_std E (sa_name (sm_netsec self))"
  shows "does (sm_cleanup E force) self
    ((cleaned force self)\<lparr>sm_endpoint_policy := None, sm_server_tls_policy := None,
        sm_client_tls_policy := None, sm_authz_policy := None\<rparr>)
    (cleanup_changes force self @
     policy_changes force self (deletes_policy (sm_netsvc self) ENDPOINT_POLICIES) ENDPOINT_POLICY
       (map_option ep_name (sm_endpoint_policy self)) @
     policy_changes force self (deletes_policy (sm_netsec self) SERVER_TLS_POLICIES) SERVER_TLS_POLICY_NAME
       (map_option stp_name (sm_server_tls_policy self)) @
     policy_changes force self (deletes_policy (sm_netsec self) CLIENT_TLS_POLICIES) CLIENT_TLS_POLICY_NAME
       (map_option ctp_name (sm_client_tls_policy self)) @
     policy_changes force self (deletes_policy (sm_netsec self) AUTHZ_POLICIES) AUTHZ_POLICY_NAME
       (map_option ctp_name (sm_authz_policy self)))"
proof -
  let ?a = "cleaned force self"
  let ?b = "?a\<lparr>sm_endpoint_policy := None\<rparr>"
  let ?c = "?b\<lparr>sm_server_tls_policy := None\<rparr>"
  let ?d = "?c\<lparr>sm_client_tls_policy := None\<rparr>"
  note policies = endpoint.does_forget [OF assms(1), where self = ?a and force = force]
    server_tls.does_forget [OF assms(1), where self = ?b and force = force]
    client_tls.does_forget [OF assms(1), where self = ?c and force = force]
    authz.does_forget [OF assms(1), where self = ?d and force = force]
  note all = does_stmts_Cons [OF does_cleanup [OF assms(1,2), where self = self and force = force]
    does_stmts_Cons [OF policies(1) does_stmts_Cons [OF policies(2) does_stmts_Cons [OF policies(3)
    does_stmts_Cons [OF policies(4) does_stmts_Nil]]]]]
  have names: "policy_changes force ?a f nm held = policy_changes force self f nm held"
    "policy_changes force ?b f nm held = policy_changes force self f nm held"
    "policy_changes force ?c f nm held = policy_changes force self f nm held"
    "policy_changes force ?d f nm held = policy_changes force self f nm held" for f nm held
    by (simp_all add: policy_changes_def cong: if_cong)
  show ?thesis
    using all assms(3,4) unfolding sm_cleanup_def
    by (simp add: endpoint.target_def server_tls.target_def client_tls.target_def authz.target_def
        policy_targets names)
qed

abbreviation demo_secure :: td_secure where
  "demo_secure \<equiv> secure_init None ''p'' ''pre'' None ''default'' False"

theorem secure_cleanup_order_witness:
  "does (sm_cleanup demo_env False) demo_secure
    ((cleaned False demo_secure)\<lparr>sm_endpoint_policy := None, sm_server_tls_policy := None,
        sm_client_tls_policy := None, sm_authz_policy := None\<rparr>)
    (cleanup_changes False demo_secure @
     policy_changes False demo_secure (deletes_policy (sm_netsvc demo_secure) ENDPOINT_POLICIES) ENDPOINT_POLICY
       (map_option ep_name (sm_endpoint_policy demo_secure)) @
     policy_changes False demo_secure (deletes_policy (sm_netsec demo_secure) SERVER_TLS_POLICIES) SERVER_TLS_POLICY_NAME
       (map_option stp_name (sm_server_tls_policy demo_secure)) @
     policy_changes False demo_secure (deletes_policy (sm_netsec demo_secure) CLIENT_TLS_POLICIES) CLIENT_TLS_POLICY_NAME
       (map_option ctp_name (sm_client_tls_policy demo_secure)) @
     policy_changes False demo_secure (deletes_policy (sm_netsec demo_secure) AUTHZ_POLICIES) AUTHZ_POLICY_NAME
       (map_option ctp_name (sm_authz_policy demo_secure)))"
  by (rule secure_cleanup_order) simp_all

text \<open>
  A server TLS policy asked for neither TLS nor mTLS is not created and nothing is sent; the
  body of the others carries the server certificate exactly for TLS and the client validation
  exactly for mTLS. The client policy mirrors it.
\<close>

lemma tls_policy_matrix:
  "sm_create_server_tls_policy E False False s = (Inr (), s)
    \<and> sm_create_client_tls_policy E False False s = (Inr (), s)
    \<and> contains ''serverCertificate'' (server_tls_policy_body tls mtls) = Inr tls
    \<and> contains ''mtlsPolicy'' (server_tls_policy_body tls mtls) = Inr mtls
    \<and> contains ''serverValidationCa'' (client_tls_policy_body tls mtls) = Inr tls
    \<and> contains ''clientCertificate'' (client_tls_policy_body tls mtls) = Inr mtls"
  by (simp add: sm_create_server_tls_policy_def sm_create_client_tls_policy_def using_self_def Let_def
      return_def server_tls_policy_body_def client_tls_policy_body_def)

lemma get_server_tls_policy_name:
  "get_server_tls_policy E api nm w = (Inr p, w') \<Longrightarrow> stp_name p = nm"
  by (auto simp: get_server_tls_policy_def bind_eq_Inr lift_def server_tls_policy_from_response_def ebind_Inr_iff)

lemma get_endpoint_policy_name:
  "beta_get_endpoint_policy E api nm w = (Inr p, w') \<Longrightarrow> ep_name p = nm"
  by (auto simp: beta_get_endpoint_policy_def bind_eq_Inr lift_def endpoint_policy_from_response_def ebind_Inr_iff)

lemma call_eq: "call m (obj, w) = (r, s') \<longleftrightarrow> (\<exists>w'. m w = (r, w') \<and> s' = (obj, w'))"
  by (auto simp: call_def split: prod.splits)

lemma create_server_tls_ends:
  "ends (sm_create_server_tls_policy E tls mtls) self (\<lambda>self'. if tls \<or> mtls
     then \<exists>p. stp_name p = make_resource_name self SERVER_TLS_POLICY_NAME \<and> self' = self\<lparr>sm_server_tls_policy := Some p\<rparr>
     else self' = self)"
  by (cases "tls \<or> mtls")
    (auto simp: ends_def sm_create_server_tls_policy_def using_self_def Let_def return_def andthen_eq_Inr
      bind_eq_Inr call_eq assign_def dest!: get_server_tls_policy_name)

lemma create_endpoint_policy_ends:
  "ends (sm_create_endpoint_policy E ns nm port) self (\<lambda>self'. \<exists>p.
     ep_name p = make_resource_name self ENDPOINT_POLICY \<and> self' = self\<lparr>sm_endpoint_policy := Some p\<rparr>)"
  by (auto simp: ends_def sm_create_endpoint_policy_def using_self_def Let_def andthen_eq_Inr
      bind_eq_Inr call_eq assign_def dest!: get_endpoint_policy_name)

text \<open>
  When \<open>setup_server_security\<close> returns, the manager holds an endpoint policy with its own name
  and, for TLS or mTLS, a server TLS policy with its own name; a server TLS policy that was not
  asked for stays as it was.
\<close>

theorem server_security_set_up:
  assumes "sm_setup_server_security E ns nm port tls mtls (self, w) = (Inr (), (self', w'))"
  shows "(\<exists>p. sm_endpoint_policy self' = Some p \<and> ep_name p = make_resource_name self ENDPOINT_POLICY)
    \<and> (if tls \<or> mtls
       then \<exists>p. sm_server_tls_policy self' = Some p \<and> stp_name p = make_resource_name self SERVER_TLS_POLICY_NAME
       else sm_server_tls_policy self' = sm_server_tls_policy self)"
proof -
  obtain self1 w1 where one: "sm_create_server_tls_policy E tls mtls (self, w) = (Inr (), (self1, w1))"
    and two: "sm_create_endpoint_policy E ns nm port (self1, w1) = (Inr (), (self', w'))"
    using assms by (auto simp: sm_setup_server_security_def andthen_eq_Inr return_def)
  from endsD [OF create_server_tls_ends one] endsD [OF create_endpoint_policy_ends two]
  show ?thesis by (auto split: if_splits)
qed

lemma demo_security:
  "\<exists>self' w'. sm_setup_server_security demo_env ''ns'' ''server'' 80 True False (demo_secure, []) = (Inr (), (self', w'))"
proof -
  let ?nm = "make_resource_name demo_secure SERVER_TLS_POLICY_NAME"
  have get: "\<exists>p w'. get_server_tls_policy demo_env api nm w = (Inr p, w')"
    "\<exists>p w'. beta_get_endpoint_policy demo_env api nm w = (Inr p, w')" for api nm w
    by (simp_all add: get_server_tls_policy_def beta_get_endpoint_policy_def std_get_resource_def bind_apply
        demo_retried demo_http_def mutates_def lift_def server_tls_policy_from_response_def
        endpoint_policy_from_response_def get_opt_def)
  have create: "\<exists>w'. create_server_tls_policy demo_env api nm body w = (Inr (), w')"
    "\<exists>w'. beta_create_endpoint_policy demo_env api nm body w = (Inr (), w')" for api nm body w
    unfolding create_server_tls_policy_def beta_create_endpoint_policy_def
    using nsec.create_served [OF demo_env_ok(1) demo_serves_std] ns.create_served [OF demo_env_ok(1) demo_serves_std]
    by metis+
  obtain w1 where 1: "create_server_tls_policy demo_env (sm_netsec demo_secure) ?nm
      (server_tls_policy_body True False) [] = (Inr (), w1)" using create(1) by blast
  obtain p w2 where 2: "get_server_tls_policy demo_env (sm_netsec demo_secure) ?nm w1 = (Inr p, w2)"
    using get(1) by blast
  let ?self = "demo_secure\<lparr>sm_server_tls_policy := Some p\<rparr>"
  let ?ep = "make_resource_name ?self ENDPOINT_POLICY"
  obtain w3 where 3: "beta_create_endpoint_policy demo_env (sm_netsvc ?self) ?ep
      (endpoint_policy_config ''ns'' ''server'' 80 (sm_server_tls_policy ?self) (sm_authz_policy ?self)) w2 = (Inr (), w3)"
    using create(2) by blast
  obtain q w4 where 4: "beta_get_endpoint_policy demo_env (sm_netsvc ?self) ?ep w3 = (Inr q, w4)"
    using get(2) by blast
  have "sm_create_server_tls_policy demo_env True False (demo_secure, []) = (Inr (), (?self, w2))"
    using 1 2 by (simp add: sm_create_server_tls_policy_def using_self_def Let_def andthen_def bind_def call_def assign_def)
  moreover have "sm_create_endpoint_policy demo_env ''ns'' ''server'' 80 (?self, w2)
      = (Inr (), (?self\<lparr>sm_endpoint_policy := Some q\<rparr>, w4))"
    using 3 4 by (simp only: sm_create_endpoint_policy_def using_self_def Let_def andthen_def bind_def call_def
        assign_def fst_conv snd_conv prod.case sum.case)
  ultimately show ?thesis
    by (simp add: sm_setup_server_security_def andthen_def bind_def return_def)
qed

theorem server_security_set_up_witness:
  "\<exists>self' :: td_secure. (\<exists>p. sm_endpoint_policy self' = Some p \<and> ep_name p = make_resource_name demo_secure ENDPOINT_POLICY)
    \<and> (\<exists>p. sm_server_tls_policy self' = Some p \<and> stp_name p = make_resource_name demo_secure SERVER_TLS_POLICY_NAME)"
proof -
  obtain self' w' where "sm_setup_server_security demo_env ''ns'' ''server'' 80 True False (demo_secure, [])
      = (Inr (), (self', w'))" using demo_security by blast
  from server_security_set_up [OF this] show ?thesis by (intro exI [of _ self']) simp
qed

text \<open>
  The endpoint policy refers to the server TLS policy and to the authorization policy exactly
  when the manager holds them, and selects the pods of the server by namespace and name.
\<close>

lemma endpoint_policy_refers:
  "contains ''serverTlsPolicy'' (endpoint_policy_config ns nm port tls authz) = Inr (tls \<noteq> None)
    \<and> contains ''authorizationPolicy'' (endpoint_policy_config ns nm port tls authz) = Inr (authz \<noteq> None)
    \<and> (case tls of None \<Rightarrow> True | Some p \<Rightarrow>
         getitem (endpoint_policy_config ns nm port tls authz) ''serverTlsPolicy'' = Inr (JStr (stp_name p)))
    \<and> (case authz of None \<Rightarrow> True | Some p \<Rightarrow>
         getitem (endpoint_policy_config ns nm port tls authz) ''authorizationPolicy'' = Inr (JStr (ctp_name p)))"
  by (auto simp: endpoint_policy_config_def split: option.splits)

text \<open>
  With services in good order, applying the client policy patches the backend service once
  when a client policy is held, and does nothing otherwise.
\<close>

theorem client_mtls_applied:
  assumes "env_ok E" and "serves_compute E" and "td_backend_service self = Some bs"
  shows "does (sm_backend_service_apply_client_mtls_policy E ns nm) self self
    (case sm_client_tls_policy self of None \<Rightarrow> [] | Some p \<Rightarrow> [(''backendServices'', ''patch'', name bs)])"
proof (cases "sm_client_tls_policy self")
  case None
  with assms(3) show ?thesis
    by (simp add: sm_backend_service_apply_client_mtls_policy_def does_def using_self_def attr_of_def
        bind_apply return_def)
next
  case (Some p)
  show ?thesis
    unfolding does_def
  proof
    fix w
    let ?body = "JObj [(''securitySettings'', JObj [(''clientTlsPolicy'', ctp_url p),
      (''subjectAltNames'', JList [JStr (server_spiffe (td_project self) ns nm)])])]"
    obtain w' where "patch_resource E (td_compute self) ''backendServices'' ?body None
        [(''backendService'', name bs)] w = (Inr (), w')"
      and "changes w' = changes w @ [(''backendServices'', ''patch'', name bs)]"
      using assms(1,2) by (rule patch_served)
    with Some assms(3)
    show "\<exists>w'. sm_backend_service_apply_client_mtls_policy E ns nm (self, w) = (Inr (), (self, w'))
        \<and> changes w' = changes w @ (case sm_client_tls_policy self of None \<Rightarrow> [] | Some p \<Rightarrow> [(''backendServices'', ''patch'', name bs)])"
      by (simp add: sm_backend_service_apply_client_mtls_policy_def using_self_def attr_of_def
          patch_backend_service_def backend_services_def call_def)
  qed
qed

theorem client_mtls_applied_witness:
  "does (sm_backend_service_apply_client_mtls_policy demo_env ''ns'' ''server'')
     (demo_secure\<lparr>td_backend_service := Some (GcpResource (JStr ''bs'') JNull)\<rparr>)
     (demo_secure\<lparr>td_backend_service := Some (GcpResource (JStr ''bs'') JNull)\<rparr>) []"
  using client_mtls_applied [of demo_env "demo_secure\<lparr>td_backend_service := Some (GcpResource (JStr ''bs'') JNull)\<rparr>"
      "GcpResource (JStr ''bs'') JNull" "''ns''" "''server''"]
  by (simp add: secure_init_def td.defs td_secure.defs td_init_def)

end
