(* ===== verification/AppNet.thy ===== *)
theory AppNet
  imports Cleanup NetworkServices
begin

text \<open>
  framework/infrastructure/traffic_director.py, class \<open>TrafficDirectorAppNetManager\<close>: the manager
  with a mesh and routes of the Network Services API in place of the URL map.
\<close>

abbreviation "GRPC_ROUTE_NAME \<equiv> ''grpc-route''"
abbreviation "HTTP_ROUTE_NAME \<equiv> ''http-route''"
abbreviation "MESH_NAME \<equiv> ''mesh''"

record td_appnet = td +
  an_netsvc :: std_api
  an_grpc_route :: "route option"
  an_http_route :: "route option"
  an_mesh :: "mesh option"

type_synonym ('x, 'a) an_meth = "('x td_appnet_scheme \<times> world, 'a) act"

definition appnet_init ::
  "string option \<Rightarrow> string \<Rightarrow> string \<Rightarrow> string option \<Rightarrow> string \<Rightarrow> bool \<Rightarrow> string option \<Rightarrow> td_appnet" where
  "appnet_init gfe_header prj resource_prefix resource_suffix network enable_dualstack xds_server_region =
     td.extend (td_init gfe_header prj resource_prefix resource_suffix network enable_dualstack xds_server_region)
       (td_appnet.fields (ns_api prj) None None None)"

section \<open>Mesh\<close>

definition an_create_mesh :: "env \<Rightarrow> ('x, mesh) an_meth" where
  "an_create_mesh E = using_self (\<lambda>self.
     let nm = make_resource_name self MESH_NAME in
     andthen (call (create_mesh E (an_netsvc self) nm (JObj []) (td_region self)))
       (bind (call (get_mesh E (an_netsvc self) nm (td_region self)))
          (\<lambda>m. andthen (assign (an_mesh_update (\<lambda>_. Some m))) (return m))))"

definition an_delete_mesh :: "env \<Rightarrow> bool \<Rightarrow> ('x, unit) an_meth" where
  "an_delete_mesh E force = using_self (\<lambda>self.
     case (if force then Some (make_resource_name self MESH_NAME)
           else map_option mesh_name (an_mesh self)) of
       None \<Rightarrow> return ()
     | Some nm \<Rightarrow> andthen (call (delete_mesh E (an_netsvc self) nm (td_region self)))
                    (assign (an_mesh_update (\<lambda>_. None))))"

section \<open>Routes\<close>

text \<open>The name of the backend service and the URL of the mesh are read before anything is sent.\<close>

definition grpc_route_body :: "json \<Rightarrow> string \<Rightarrow> string \<Rightarrow> json" where
  "grpc_route_body mesh_link host service_name = JObj
     [(''meshes'', JList [mesh_link]),
      (''hostnames'', JStr host),
      (''rules'', JList [JObj [(''action'',
         JObj [(''destinations'', JList [JObj [(''serviceName'', JStr service_name)]])])]])]"

definition an_create_grpc_route_with_content :: "env \<Rightarrow> json \<Rightarrow> ('x, route) an_meth" where
  "an_create_grpc_route_with_content E body = using_self (\<lambda>self.
     let nm = make_resource_name self GRPC_ROUTE_NAME in
     andthen (call (create_grpc_route E (an_netsvc self) nm body (td_region self)))
       (bind (call (get_grpc_route E (an_netsvc self) nm (td_region self)))
          (\<lambda>r. andthen (assign (an_grpc_route_update (\<lambda>_. Some r))) (return r))))"

definition an_create_grpc_route :: "env \<Rightarrow> string \<Rightarrow> int \<Rightarrow> ('x, route) an_meth" where
  "an_create_grpc_route E src_host src_port = using_self (\<lambda>self.
     bind (attr_of ''name'' (td_backend_service self)) (\<lambda>bs.
     bind (attr_of ''url'' (an_mesh self)) (\<lambda>m.
       let service_name = resource_full_name (an_netsvc self) (text_value E (name bs))
                            ''backendServices'' (td_region self);
           body = grpc_route_body (mesh_url m) (src_address src_host src_port) service_name;
           nm = make_resource_name self GRPC_ROUTE_NAME
       in andthen (call (create_grpc_route E (an_netsvc self) nm body (td_region self)))
            (bind (call (get_grpc_route E (an_netsvc self) nm (td_region self)))
               (\<lambda>r. andthen (assign (an_grpc_route_update (\<lambda>_. Some r))) (return r))))))"

definition an_create_http_route_with_content :: "env \<Rightarrow> json \<Rightarrow> ('x, route) an_meth" where
  "an_create_http_route_with_content E body = using_self (\<lambda>self.
     let nm = make_resource_name self HTTP_ROUTE_NAME in
     andthen (call (create_http_route E (an_netsvc self) nm body (td_region self)))
       (bind (call (get_http_route E (an_netsvc self) nm (td_region self)))
          (\<lambda>r. andthen (assign (an_http_route_update (\<lambda>_. Some r))) (return r))))"

definition an_delete_grpc_route :: "env \<Rightarrow> bool \<Rightarrow> ('x, unit) an_meth" where
  "an_delete_grpc_route E force = using_self (\<lambda>self.
     case (if force then Some (make_resource_name self GRPC_ROUTE_NAME)
           else map_option rt_name (an_grpc_route self)) of
       None \<Rightarrow> return ()
     | Some nm \<Rightarrow> andthen (call (delete_grpc_route E (an_netsvc self) nm (td_region self)))
                    (assign (an_grpc_route_update (\<lambda>_. None))))"

definition an_delete_http_route :: "env \<Rightarrow> bool \<Rightarrow> ('x, unit) an_meth" where
  "an_delete_http_route E force = using_self (\<lambda>self.
     case (if force then Some (make_resource_name self HTTP_ROUTE_NAME)
           else map_option rt_name (an_http_route self)) of
       None \<Rightarrow> return ()
     | Some nm \<Rightarrow> andthen (call (delete_http_route E (an_netsvc self) nm (td_region self)))
                    (assign (an_http_route_update (\<lambda>_. None))))"

definition an_cleanup :: "env \<Rightarrow> bool \<Rightarrow> ('x, unit) an_meth" where
  "an_cleanup E force = stmts
     [an_delete_http_route E force,
      an_delete_grpc_route E force,
      an_delete_mesh E force,
      td_cleanup E force]"

section \<open>The delete methods as managed deletions\<close>

lemma make_resource_name_appnet [simp]:
  "make_resource_name (an_mesh_update f1 self) = make_resource_name self"
  "make_resource_name (an_grpc_route_update f2 self) = make_resource_name self"
  "make_resource_name (an_http_route_update f3 self) = make_resource_name self"
  by (simp_all add: make_resource_name_def fun_eq_iff)

lemma own_name_appnet [simp]:
  "own_name (an_mesh_update f1 self) = own_name self"
  "own_name (an_grpc_route_update f2 self) = own_name self"
  "own_name (an_http_route_update f3 self) = own_name self"
  by (rule own_name_cong, simp)+

lemmas network_deletes = delete_mesh_def delete_grpc_route_def delete_http_route_def
  ns.delete_emits ns.delete_served

interpretation mesh: managed_field "env_ok E" "\<lambda>self. serves_std E (sa_name (an_netsvc self))"
  "\<lambda>self n. delete_mesh E (an_netsvc self) n (td_region self)"
  "\<lambda>self n. (locations MESHES, ''delete'', JStr (resource_full_name (an_netsvc self) n MESHES (td_region self)))"
  "\<lambda>self. make_resource_name self MESH_NAME" "\<lambda>self. map_option mesh_name (an_mesh self)"
  "an_mesh_update (\<lambda>_. None)" "an_delete_mesh E" for E
  by unfold_locales (simp_all add: network_deletes an_delete_mesh_def)

interpretation grpc_route: managed_field "env_ok E" "\<lambda>self. serves_std E (sa_name (an_netsvc self))"
  "\<lambda>self n. delete_grpc_route E (an_netsvc self) n (td_region self)"
  "\<lambda>self n. (locations GRPC_ROUTES, ''delete'', JStr (resource_full_name (an_netsvc self) n GRPC_ROUTES (td_region self)))"
  "\<lambda>self. make_resource_name self GRPC_ROUTE_NAME" "\<lambda>self. map_option rt_name (an_grpc_route self)"
  "an_grpc_route_update (\<lambda>_. None)" "an_delete_grpc_route E" for E
  by unfold_locales (simp_all add: network_deletes an_delete_grpc_route_def)

interpretation http_route: managed_field "env_ok E" "\<lambda>self. serves_std E (sa_name (an_netsvc self))"
  "\<lambda>self n. delete_http_route E (an_netsvc self) n (td_region self)"
  "\<lambda>self n. (locations HTTP_ROUTES, ''delete'', JStr (resource_full_name (an_netsvc self) n HTTP_ROUTES (td_region self)))"
  "\<lambda>self. make_resource_name self HTTP_ROUTE_NAME" "\<lambda>self. map_option rt_name (an_http_route self)"
  "an_http_route_update (\<lambda>_. None)" "an_delete_http_route E" for E
  by unfold_locales (simp_all add: network_deletes an_delete_http_route_def)

section \<open>Properties\<close>

text \<open>The names a delete method of the network resources sends, and the changes they make.\<close>

definition network_changes ::
  "bool \<Rightarrow> 'x td_appnet_scheme \<Rightarrow> string \<Rightarrow> string \<Rightarrow> string option \<Rightarrow> change list" where
  "network_changes force self coll nm held =
     map (\<lambda>n. (locations coll, ''delete'', JStr (resource_full_name (an_netsvc self) n coll (td_region self))))
       (if force then [make_resource_name self nm] else case held of None \<Rightarrow> [] | Some n \<Rightarrow> [n])"

lemma network_targets:
  "(case (if force then Some (make_resource_name self nm) else held) of None \<Rightarrow> []
     | Some n \<Rightarrow> [(locations coll, ''delete'', JStr (resource_full_name (an_netsvc self) n coll (td_region self)))])
   = network_changes force self coll nm held"
  by (simp add: network_changes_def split: option.split)

text \<open>
  With services in good order, the cleanup of the app-net manager deletes the HTTP route, the
  gRPC route and the mesh, in this order, and only then what the base manager deletes; afterwards
  it holds none of them.
\<close>

theorem appnet_cleanup_order:
  assumes "env_ok E" and "serves_compute E" and "serves_std E (sa_name (an_netsvc self))"
  shows "does (an_cleanup E force) self
    (cleaned force (self\<lparr>an_http_route := None, an_grpc_route := None, an_mesh := None\<rparr>))
    (network_changes force self HTTP_ROUTES HTTP_ROUTE_NAME (map_option rt_name (an_http_route self)) @
     network_changes force self GRPC_ROUTES GRPC_ROUTE_NAME (map_option rt_name (an_grpc_route self)) @
     network_changes force self MESHES MESH_NAME (map_option mesh_name (an_mesh self)) @
     cleanup_changes force self)"
proof -
  let ?a = "self\<lparr>an_http_route := None\<rparr>"
  let ?b = "?a\<lparr>an_grpc_route := None\<rparr>"
  let ?c = "?b\<lparr>an_mesh := None\<rparr>"
  note routes = http_route.does_forget [OF assms(1), where self = self and force = force]
    grpc_route.does_forget [OF assms(1), where self = ?a and force = force]
    mesh.does_forget [OF assms(1), where self = ?b and force = force]
  note all = does_stmts_Cons [OF routes(1) does_stmts_Cons [OF routes(2) does_stmts_Cons [OF routes(3)
    does_stmts_Cons [OF does_cleanup [OF assms(1,2), where self = ?c and force = force] does_stmts_Nil]]]]
  have same: "cleanup_changes force ?c = cleanup_changes force self"
    by (simp add: cleanup_changes_def firewall_changes_def proxy_changes_def ipv6_changes_def)
  have names: "network_changes force ?a coll nm held = network_changes force self coll nm held"
    "network_changes force ?b coll nm held = network_changes force self coll nm held" for coll nm held
    by (simp_all add: network_changes_def cong: if_cong)
  show ?thesis
    using all assms(3) unfolding an_cleanup_def same
    by (simp add: http_route.target_def grpc_route.target_def mesh.target_def network_targets names)
qed

text \<open>The manager of a test with nothing created yet.\<close>

abbreviation demo_appnet :: td_appnet where
  "demo_appnet \<equiv> appnet_init None ''p'' ''pre'' None ''default'' False None"

theorem appnet_cleanup_order_witness:
  "does (an_cleanup demo_env True) demo_appnet
    (cleaned True (demo_appnet\<lparr>an_http_route := None, an_grpc_route := None, an_mesh := None\<rparr>))
    (network_changes True demo_appnet HTTP_ROUTES HTTP_ROUTE_NAME (map_option rt_name (an_http_route demo_appnet)) @
     network_changes True demo_appnet GRPC_ROUTES GRPC_ROUTE_NAME (map_option rt_name (an_grpc_route demo_appnet)) @
     network_changes True demo_appnet MESHES MESH_NAME (map_option mesh_name (an_mesh demo_appnet)) @
     cleanup_changes True demo_appnet)"
  by (rule appnet_cleanup_order) simp_all

text \<open>
  A gRPC route needs a backend service and a mesh: without one of them the call raises
  before it sends anything, and the manager stays as it was.
\<close>

lemma grpc_route_needs_mesh:
  assumes "td_backend_service self = None \<or> an_mesh self = None"
  shows "\<exists>a. an_create_grpc_route E host port (self, w) = (Inl (AttributeError a), (self, w))"
  using assms
  by (cases "td_backend_service self")
    (auto simp: an_create_grpc_route_def using_self_def bind_def attr_of_def raise_def return_def)

end
