(* ===== verification/Kube.thy ===== *)
theory Kube
  imports GcpApi FrameworkErrors
begin

text \<open>
  framework/infrastructure/k8s.py, class \<open>KubernetesApiManager\<close>: how calls of the Kubernetes API
  are retried, when the authorization is refreshed, what becomes a \<open>NotFound\<close>, and the discovery
  of the dynamic APIs. The client library, and the API server behind it, answer through the
  environment; every call is a request of the world with the service \<open>kubernetes\<close>.
\<close>

section \<open>The manager\<close>

text \<open>
  The context, and what is outside the repository: the API server and the retrying library, the
  attributes of the client library's dynamic objects, JSON texts, the printing of values as YAML
  (\<open>yaml.dump\<close> of their \<open>to_dict\<close>) and its coloring, the age of a timestamp, and the texts of
  exceptions.
\<close>

record kube =
  kb_env :: env
  kb_context :: string
  kb_json_loads :: "string \<Rightarrow> exn + json"
  kb_dyn_attr :: "json \<Rightarrow> string \<Rightarrow> exn + json"
  kb_dyn_contains :: "string \<Rightarrow> json \<Rightarrow> exn + bool"
  kb_yaml :: "json \<Rightarrow> exn + string"
  kb_highlight :: "string \<Rightarrow> string"
  kb_ago :: "json \<Rightarrow> string"
  kb_exn_str :: "exn \<Rightarrow> string"

text \<open>
  An object of the client library is its attributes, with the name of its class under
  \<open>__class__\<close>.
\<close>

definition is_instance :: "string \<Rightarrow> json \<Rightarrow> bool" where
  "is_instance cls obj =
     (case obj of JObj kvs \<Rightarrow> map_of kvs ''__class__'' = Some (JStr cls) | _ \<Rightarrow> False)"

fun getattr :: "json \<Rightarrow> string \<Rightarrow> exn + json" where
  "getattr (JObj kvs) a = (case map_of kvs a of None \<Rightarrow> Inl (AttributeError a) | Some v \<Rightarrow> Inr v)"
| "getattr obj a = Inl (AttributeError a)"

fun getattrs :: "json \<Rightarrow> string list \<Rightarrow> exn + json" where
  "getattrs obj [] = Inr obj"
| "getattrs obj (a # as) = ebind (getattr obj a) (\<lambda>v. getattrs v as)"

section \<open>Retryers\<close>

definition retry_on_exceptions :: "exn_class list" where
  "retry_on_exceptions = [CUrllib3HTTPError, CApiException, CFailToCreateError]"

definition server_restart_retryer :: retrying where
  "server_restart_retryer = exponential_retryer_with_timeout 1 10 (3 * 60) (Some retry_on_exceptions) None []"

definition too_many_requests_retryer :: retrying where
  "too_many_requests_retryer = exponential_retryer_with_timeout 10 30 (3 * 60) (Some retry_on_exceptions) None []"

definition quick_recovery_retryer :: "exn + retrying" where
  "quick_recovery_retryer = constant_retryer 1 3 None (Some retry_on_exceptions) None []"

section \<open>Errors of the API server\<close>

text \<open>The message of a JSON status, or the text itself when it is none.\<close>

definition status_message_or_body :: "kube \<Rightarrow> string \<Rightarrow> exn + string" where
  "status_message_or_body K body =
     (case ebind (kb_json_loads K body) (\<lambda>d. getitem d ''message'') of
        Inr v \<Rightarrow> Inr (text_value (kb_env K) v)
      | Inl e \<Rightarrow> if isinstance e [CKeyError, CValueError] then Inr body else Inl e)"

text \<open>A new client from the context; the clients of the APIs are given the new one.\<close>

definition new_client_request :: "kube \<Rightarrow> request" where
  "new_client_request K =
     Request ''kubernetes'' ''config'' ''new_client_from_config'' [(''context'', JStr (kb_context K))] []"

definition reload :: "kube \<Rightarrow> (world, unit) act" where
  "reload K = bind (execute_once (kb_env K) (new_client_request K)) (\<lambda>_. return ())"

definition refresh_auth :: "kube \<Rightarrow> (world, unit) act" where
  "refresh_auth K = reload K"

definition handle_api_exception ::
  "kube \<Rightarrow> int \<Rightarrow> string option \<Rightarrow> (world, retrying option) act" where
  "handle_api_exception K code err_body =
     (let body = (case err_body of None \<Rightarrow> [] | Some b \<Rightarrow> lower b) in
      if code = 401 then andthen (refresh_auth K) (return (Some server_restart_retryer))
      else if code = 404 then
        bind (lift (status_message_or_body K body)) (\<lambda>msg.
          raise (NotFound (''Kubernetes API returned 404 Not Found: '' @ msg)))
      else if code = 409 then bind (lift quick_recovery_retryer) (\<lambda>r. return (Some r))
      else if code = 429 then return (Some too_many_requests_retryer)
      else if code = 500 then
        (if in_text ''connection refused'' body then return (Some server_restart_retryer)
         else if in_text ''too many requests'' body
              \<or> in_text ''currently unable to handle the request'' body
              \<or> in_text ''enhance_your_calm'' body
         then return (Some too_many_requests_retryer)
         else bind (lift quick_recovery_retryer) (\<lambda>r. return (Some r)))
      else if code = 504 then return (Some server_restart_retryer)
      else return None)"

text \<open>The retryer for an error, if it is one to retry; a 404 becomes \<open>NotFound\<close>.\<close>

fun handle_exception :: "kube \<Rightarrow> exn \<Rightarrow> (world, retrying option) act" where
  "handle_exception K (MaxRetryError None) = return None"
| "handle_exception K (MaxRetryError (Some reason)) = handle_exception K reason"
| "handle_exception K (NewConnectionError _) = return (Some server_restart_retryer)"
| "handle_exception K (ProtocolError msg) =
     (if in_text ''connection aborted'' (lower msg) then return (Some server_restart_retryer)
      else bind (lift quick_recovery_retryer) (\<lambda>r. return (Some r)))"
| "handle_exception K (ApiException code body) = handle_api_exception K code body"
| "handle_exception K (DynamicNotFoundError body) = handle_api_exception K 404 body"
| "handle_exception K (FailToCreateError [e]) = handle_exception K e"
| "handle_exception K _ = return None"

section \<open>Executing a call\<close>

text \<open>The retried call turns a 404 into \<open>NotFound\<close>, which no retryer retries.\<close>

definition method_with_404_handler :: "kube \<Rightarrow> (world, json) act \<Rightarrow> (world, json) act" where
  "method_with_404_handler K m =
     try_except m (\<lambda>e. isinstance e [CApiException])
       (\<lambda>e. andthen
          (case e of
             ApiException code body \<Rightarrow>
               if code = 404 then bind (handle_api_exception K code body) (\<lambda>_. return ()) else return ()
           | DynamicNotFoundError body \<Rightarrow> bind (handle_api_exception K 404 body) (\<lambda>_. return ())
           | _ \<Rightarrow> return ())
          (raise e))"

definition kube_execute :: "kube \<Rightarrow> (world, json) act \<Rightarrow> (world, json) act" where
  "kube_execute K m =
     try_except m (\<lambda>e. isinstance e retry_on_exceptions)
       (\<lambda>err. bind (handle_exception K err) (\<lambda>retryer.
          case retryer of
            Some cfg \<Rightarrow> tenacity (kb_env K) cfg (method_with_404_handler K m)
          | None \<Rightarrow> raise err))"

section \<open>Dynamic APIs\<close>

text \<open>
  The version and kind of a discovered API. Discovery asks the API server once: the functions of
  the source are cached, by manager and version, when they return. The world knows whether the
  request has been answered before.
\<close>

type_synonym dyn_api = "string \<times> string"

definition discovery_request :: "string \<Rightarrow> string \<Rightarrow> request" where
  "discovery_request api_version kind =
     Request ''kubernetes'' ''dynamic.resources'' ''get''
       [(''api_version'', JStr api_version), (''kind'', JStr kind)] []"

definition answered_before :: "env \<Rightarrow> request \<Rightarrow> world \<Rightarrow> bool" where
  "answered_before E q w =
     list_ex (\<lambda>i. w ! i = q \<and> \<not> isl (http E (take i w) q)) [0..<length w]"

definition load_dynamic_api :: "kube \<Rightarrow> string \<Rightarrow> string \<Rightarrow> string \<Rightarrow> (world, dyn_api) act" where
  "load_dynamic_api K api_name version kind =
     (let api_version = api_name @ ''/'' @ version in
      try_except
        (bind (kube_execute K (execute_once (kb_env K) (discovery_request api_version kind)))
           (\<lambda>_. return (api_version, kind)))
        (\<lambda>e. isinstance e [CResourceNotFoundError])
        (\<lambda>_. raise (RuntimeError (''Couldn't discover k8s API '' @ api_version @ '', resource '' @ kind))))"

definition dynamic_api ::
  "kube \<Rightarrow> string \<Rightarrow> string list \<Rightarrow> string \<Rightarrow> string \<Rightarrow> (world, dyn_api) act" where
  "dynamic_api K api_name supported_versions kind version = (\<lambda>w.
     if answered_before (kb_env K) (discovery_request (api_name @ ''/'' @ version) kind) w
     then (Inr (api_name @ ''/'' @ version, kind), w)
     else if version \<notin> set supported_versions
     then (Inl (NotImplementedError (kind @ '' '' @ api_name @ ''/'' @ version @ '' not implemented.'')), w)
     else load_dynamic_api K api_name version kind w)"

definition grpc_route :: "kube \<Rightarrow> string \<Rightarrow> (world, dyn_api) act" where
  "grpc_route K = dynamic_api K ''gateway.networking.k8s.io'' [''v1''] ''GRPCRoute''"

definition http_route :: "kube \<Rightarrow> string \<Rightarrow> (world, dyn_api) act" where
  "http_route K = dynamic_api K ''gateway.networking.k8s.io'' [''v1'', ''v1beta1''] ''HTTPRoute''"

definition gcp_session_affinity_filter :: "kube \<Rightarrow> string \<Rightarrow> (world, dyn_api) act" where
  "gcp_session_affinity_filter K = dynamic_api K ''networking.gke.io'' [''v1''] ''GCPSessionAffinityFilter''"

definition gcp_session_affinity_policy :: "kube \<Rightarrow> string \<Rightarrow> (world, dyn_api) act" where
  "gcp_session_affinity_policy K = dynamic_api K ''networking.gke.io'' [''v1''] ''GCPSessionAffinityPolicy''"

definition gcp_backend_policy :: "kube \<Rightarrow> string \<Rightarrow> (world, dyn_api) act" where
  "gcp_backend_policy K = dynamic_api K ''networking.gke.io'' [''v1''] ''GCPBackendPolicy''"

definition pod_monitoring_api :: "kube \<Rightarrow> string \<Rightarrow> (world, dyn_api) act" where
  "pod_monitoring_api K = dynamic_api K ''monitoring.googleapis.com'' [''v1''] ''PodMonitoring''"

text \<open>\<open>api_version.partition("/")\<close>: the group and the version.\<close>

definition partition_slash :: "string \<Rightarrow> string \<times> string" where
  "partition_slash s =
     (takeWhile (\<lambda>c. c \<noteq> CHR ''/'') s, drop 1 (dropWhile (\<lambda>c. c \<noteq> CHR ''/'') s))"

definition get_dynamic_api :: "kube \<Rightarrow> string \<Rightarrow> string \<Rightarrow> (world, dyn_api) act" where
  "get_dynamic_api K api_version kind =
     (let (group, version) = partition_slash api_version;
          unknown = raise (NotImplementedError (kind @ '' ('' @ group @ '') '' @ api_version @ '' not implemented.''))
      in if group = ''networking.gke.io'' then
           (if kind = ''GCPSessionAffinityFilter'' then gcp_session_affinity_filter K version
            else if kind = ''GCPSessionAffinityPolicy'' then gcp_session_affinity_policy K version
            else if kind = ''GCPBackendPolicy'' then gcp_backend_policy K version
            else unknown)
         else if group = ''gateway.networking.k8s.io'' then
           (if kind = ''GRPCRoute'' then grpc_route K version
            else if kind = ''HTTPRoute'' then http_route K version
            else unknown)
         else if group = ''monitoring.googleapis.com'' then
           (if kind = ''PodMonitoring'' then pod_monitoring_api K version else unknown)
         else unknown)"

section \<open>Lemmas: what a call with retries does\<close>

text \<open>What the three retryers share: they stop, retry the listed exceptions only, and give up with a \<open>RetryError\<close>.\<close>

definition retries_api_errors :: "retrying \<Rightarrow> bool" where
  "retries_api_errors cfg \<longleftrightarrow> rt_stop cfg \<noteq> []
     \<and> (\<forall>v. any_wanted (rt_retry cfg) (Inr v) = Inr False)
     \<and> (\<forall>e. any_wanted (rt_retry cfg) (Inl e) = Inr (isinstance e retry_on_exceptions))
     \<and> (\<forall>out nm. \<exists>info. give_up cfg out nm = RetryError out info)"

lemma quick_recovery_retryer_eq:
  "quick_recovery_retryer = Inr (Retrying [RetryIfExceptionType retry_on_exceptions] (WaitFixed 1)
     [StopAfterAttempt 3] (Some (on_error_callback None 3 False [])) False)"
  by (simp add: quick_recovery_retryer_def constant_retryer_def build_retry_conditions_def)

lemma retryers_ok:
  "retries_api_errors server_restart_retryer" "retries_api_errors too_many_requests_retryer"
  "quick_recovery_retryer = Inr cfg \<Longrightarrow> retries_api_errors cfg"
  by (auto simp: retries_api_errors_def server_restart_retryer_def too_many_requests_retryer_def
      quick_recovery_retryer_eq exponential_retryer_with_timeout_def build_retry_conditions_def
      give_up_def on_error_callback_def)

text \<open>An error that is handled as a 404, also inside the client library's wrappers.\<close>

fun says_404 :: "exn \<Rightarrow> bool" where
  "says_404 (MaxRetryError (Some reason)) = says_404 reason"
| "says_404 (ApiException code _) = (code = 404)"
| "says_404 (DynamicNotFoundError _) = True"
| "says_404 (FailToCreateError [e]) = says_404 e"
| "says_404 _ = False"

lemma handle_api_exception_cases:
  assumes "handle_api_exception K code body w = (r, w')"
  obtains (unauthorized) "code = 401" "w' = w @ [new_client_request K]"
      "r = Inr (Some server_restart_retryer) \<or> (\<exists>e. r = Inl e \<and> http (kb_env K) w (new_client_request K) = Inl e)"
  | (missing) e where "code = 404" "r = Inl e" "w' = w"
  | (retry) cfg where "code \<noteq> 404" "r = Inr (Some cfg)" "retries_api_errors cfg" "w' = w"
  | (final) "code \<noteq> 404" "r = Inr None" "w' = w"
proof -
  obtain out where http: "http (kb_env K) w (new_client_request K) = out" by blast
  have quick: "bind (lift quick_recovery_retryer) (\<lambda>r. return (Some r)) w
      = (Inr (Some cfg), w)" if "quick_recovery_retryer = Inr cfg" for cfg
    using that by (simp add: act_simps)
  obtain cfg where cfg: "quick_recovery_retryer = Inr cfg" by (simp add: quick_recovery_retryer_eq)
  consider "code = 401" | "code = 404" | "code \<noteq> 401" "code \<noteq> 404" by blast
  then show thesis
  proof cases
    case 1
    with assms http show thesis
      by (intro unauthorized; cases out)
        (auto simp: handle_api_exception_def refresh_auth_def reload_def execute_once_def andthen_def
          bind_def return_def)
  next
    case 2
    with assms show thesis
      by (cases "status_message_or_body K (case body of None \<Rightarrow> [] | Some b \<Rightarrow> lower b)")
        (auto simp: handle_api_exception_def Let_def act_simps intro: missing)
  next
    case 3
    with assms retryers_ok cfg show thesis
      by (auto simp: handle_api_exception_def Let_def act_simps split: if_splits intro: retry final)
  qed
qed

lemma handle_exception_cases:
  assumes "handle_exception K err w = (r, w')"
  obtains (unauthorized) "\<not> says_404 err" "w' = w @ [new_client_request K]"
      "r = Inr (Some server_restart_retryer) \<or> (\<exists>e. r = Inl e \<and> http (kb_env K) w (new_client_request K) = Inl e)"
  | (missing) e where "says_404 err" "r = Inl e" "w' = w"
  | (retry) cfg where "\<not> says_404 err" "r = Inr (Some cfg)" "retries_api_errors cfg" "w' = w"
  | (final) "\<not> says_404 err" "r = Inr None" "w' = w"
proof -
  obtain cfg where cfg: "quick_recovery_retryer = Inr cfg" by (simp add: quick_recovery_retryer_eq)
  show thesis
    using assms that
  proof (induction K err arbitrary: thesis rule: handle_exception.induct)
    case (4 K msg)
    with retryers_ok cfg show ?case by (auto simp: act_simps split: if_splits)
  next
    case (5 K code body)
    from "5.prems"(1) have "handle_api_exception K code body w = (r, w')" by simp
    then show ?case
      by (cases rule: handle_api_exception_cases) (use "5.prems"(2-) in auto)
  next
    case (6 K body)
    from "6.prems"(1) have "handle_api_exception K 404 body w = (r, w')" by simp
    then show ?case
      by (cases rule: handle_api_exception_cases) (use "6.prems"(2-) in auto)
  qed (use retryers_ok in \<open>auto simp: act_simps\<close>)
qed

lemma emits_handle_exception:
  assumes "P (new_client_request K)"
  shows "emits (\<lambda>w. w) P (handle_exception K err)"
proof (rule emitsI)
  fix w
  obtain r w' where run: "handle_exception K err w = (r, w')" by fastforce
  then have "\<exists>rs. w' = w @ rs \<and> (\<forall>q \<in> set rs. P q)"
    by (cases rule: handle_exception_cases) (use assms in auto)
  with run show "\<exists>rs. snd (handle_exception K err w) = w @ rs \<and> (\<forall>q \<in> set rs. P q)" by simp
qed

lemma emits_bind_when:
  assumes "emits pr P m" and "\<And>s x s'. m s = (Inr x, s') \<Longrightarrow> Q x" and "\<And>x. Q x \<Longrightarrow> emits pr P (f x)"
  shows "emits pr P (bind m f)"
proof -
  have "bind m f = bind m (\<lambda>x. if Q x then f x else raise Diverges)"
    using assms(2) by (auto simp: bind_def split: prod.splits sum.splits)
  moreover have "emits pr P \<dots>"
    by (intro emits_bind assms(1) emits_if assms(3) emits_pure)
  ultimately show ?thesis by simp
qed

lemma emits_method_with_404:
  assumes "P (new_client_request K)" and "emits (\<lambda>w. w) P m"
  shows "emits (\<lambda>w. w) P (method_with_404_handler K m)"
proof -
  have api: "emits (\<lambda>w. w) P (handle_api_exception K code body)" for code body
    using emits_handle_exception [of P K "ApiException code body", OF assms(1)] by simp
  show ?thesis
    unfolding method_with_404_handler_def
    by (intro emits_try assms(2) emits_andthen emits_pure)
      (auto split: exn.split intro!: emits_bind api emits_pure)
qed

lemma emits_kube_execute:
  assumes "env_ok (kb_env K)" and "P (new_client_request K)" and "emits (\<lambda>w. w) P m"
  shows "emits (\<lambda>w. w) P (kube_execute K m)"
  unfolding kube_execute_def
proof (intro emits_try assms(3) emits_bind_when [where Q = "\<lambda>r. \<forall>cfg. r = Some cfg \<longrightarrow> retries_api_errors cfg"]
    emits_handle_exception assms(2))
  fix err w x w'
  assume "handle_exception K err w = (Inr x, w')"
  then show "\<forall>cfg. x = Some cfg \<longrightarrow> retries_api_errors cfg"
    by (cases rule: handle_exception_cases) (use retryers_ok in auto)
next
  fix err x
  assume ok: "\<forall>cfg. x = Some cfg \<longrightarrow> retries_api_errors cfg"
  show "emits (\<lambda>w. w) P (case x of None \<Rightarrow> raise err
      | Some cfg \<Rightarrow> tenacity (kb_env K) cfg (method_with_404_handler K m))"
  proof (cases x)
    case (Some cfg)
    with ok have "rt_stop cfg \<noteq> []" by (simp add: retries_api_errors_def)
    with Some show ?thesis
      by (simp add: emits_tenacity [OF assms(1)] emits_method_with_404 assms)
  qed (simp add: emits_pure)
qed

text \<open>The first attempt decides when it is a value or an error that is not retried.\<close>

lemma kube_execute_value: "m w = (Inr v, w') \<Longrightarrow> kube_execute K m w = (Inr v, w')"
  by (simp add: kube_execute_def try_except_def)

lemma kube_execute_other:
  "m w = (Inl e, w') \<Longrightarrow> \<not> isinstance e retry_on_exceptions \<Longrightarrow> kube_execute K m w = (Inl e, w')"
  by (simp add: kube_execute_def try_except_def)

lemma kube_execute_404:
  assumes "m w = (Inl (ApiException 404 body), w')"
    and "status_message_or_body K (case body of None \<Rightarrow> [] | Some b \<Rightarrow> lower b) = Inr msg"
  shows "kube_execute K m w = (Inl (NotFound (''Kubernetes API returned 404 Not Found: '' @ msg)), w')"
  using assms
  by (simp add: kube_execute_def try_except_def retry_on_exceptions_def handle_api_exception_def act_simps bind_def)

text \<open>A retried call ends with an outcome of the call itself, or with a translated or exhausted one.\<close>

lemma method_with_404_cases:
  assumes "method_with_404_handler K m w = (r, w')"
  obtains (own) "m w = (r, w')"
  | (missing) e where "m w = (Inl e, w')" "says_404 e" "isl r"
proof -
  obtain out w1 where m: "m w = (out, w1)" by fastforce
  show thesis
  proof (cases "\<exists>e. out = Inl e \<and> says_404 e \<and> isinstance e [CApiException]")
    case True
    then obtain e where e: "out = Inl e" "says_404 e" "isinstance e [CApiException]" by blast
    obtain code body where "handle_exception K e = handle_api_exception K 404 body"
      "method_with_404_handler K m w
        = andthen (bind (handle_api_exception K 404 body) (\<lambda>_. return ())) (raise e) w1"
      using e m by (cases e) (auto simp: method_with_404_handler_def try_except_def)
    then have run: "andthen (bind (handle_exception K e) (\<lambda>_. return ())) (raise e) w1 = (r, w')"
      using assms by simp
    obtain r2 w2 where h: "handle_exception K e w1 = (r2, w2)" by fastforce
    then have "\<exists>e2. r2 = Inl e2 \<and> w2 = w1"
      by (cases rule: handle_exception_cases) (use e(2) in auto)
    with run h have "isl r" "w' = w1" by (auto simp: andthen_def bind_def)
    with m e show thesis by (intro missing) auto
  next
    case False
    then have "method_with_404_handler K m w = (out, w1)"
      using m by (cases out; cases "projl out")
        (auto simp: method_with_404_handler_def try_except_def andthen_def act_simps)
    with assms m show thesis by (intro own) simp
  qed
qed

text \<open>The two ends of a call: with the first attempt, or in the retries.\<close>

lemma kube_execute_run:
  assumes "kube_execute K m w = (r, w')"
  obtains (first) "m w = (r, w')"
  | (missing) err e where "m w = (Inl err, w')" "says_404 err" "r = Inl e"
  | (auth_failed) err e h where "m w = (Inl err, h)" "r = Inl e"
      "http (kb_env K) h (new_client_request K) = Inl e" "w' = h @ [new_client_request K]"
  | (retried) err h cfg where "m w = (Inl err, h)" "retries_api_errors cfg"
      "tenacity (kb_env K) cfg (method_with_404_handler K m) h = (r, w')"
  | (retried_auth) err h where "m w = (Inl err, h)"
      "tenacity (kb_env K) server_restart_retryer (method_with_404_handler K m)
        (h @ [new_client_request K]) = (r, w')"
proof -
  obtain out h where m: "m w = (out, h)" by fastforce
  show thesis
  proof (cases "\<exists>err. out = Inl err \<and> isinstance err retry_on_exceptions")
    case False
    then have "kube_execute K m w = (out, h)"
      using m by (cases out) (auto simp: kube_execute_def try_except_def)
    with assms m show thesis by (intro first) simp
  next
    case True
    then obtain err where err: "out = Inl err" "isinstance err retry_on_exceptions" by blast
    obtain r2 h2 where handled: "handle_exception K err h = (r2, h2)" by fastforce
    from err m assms have run: "bind (handle_exception K err) (\<lambda>retryer. case retryer of
        Some cfg \<Rightarrow> tenacity (kb_env K) cfg (method_with_404_handler K m) | None \<Rightarrow> raise err) h = (r, w')"
      by (simp add: kube_execute_def try_except_def)
    from handled show thesis
    proof (cases rule: handle_exception_cases)
      case unauthorized
      show thesis
      proof (cases r2)
        case (Inl e)
        with unauthorized have "http (kb_env K) h (new_client_request K) = Inl e" by auto
        with unauthorized run handled m err show thesis
          by (intro auth_failed [of err h e]) (simp_all add: bind_apply Inl)
      next
        case (Inr x)
        with unauthorized run handled m err show thesis
          by (intro retried_auth) (auto simp: bind_apply)
      qed
    next
      case (missing e)
      with run handled m err show thesis by (auto simp: bind_apply intro: that(2))
    next
      case (retry cfg)
      with run handled m err show thesis by (auto simp: bind_apply intro: retried)
    next
      case final
      with run handled m err show thesis by (auto simp: bind_apply raise_def intro: first)
    qed
  qed
qed

lemma kube_execute_returns:
  assumes "env_ok (kb_env K)" and "kube_execute K m w = (Inr v, w')"
  obtains h where "m h = (Inr v, w')"
proof -
  note found = that
  have retries: thesis if cfg: "retries_api_errors cfg"
    and run: "tenacity (kb_env K) cfg (method_with_404_handler K m) h = (Inr v, w')" for cfg h
  proof -
    from assms(1) have T: "tenacity_ok (tenacity (kb_env K))" by (simp add: env_ok_def)
    from cfg have stop: "rt_stop cfg \<noteq> []" by (simp add: retries_api_errors_def)
    obtain s0 where "method_with_404_handler K m s0 = (Inr v, w')"
      using T stop run by (rule tenacity_value)
    then show thesis by (cases rule: method_with_404_cases) (use found in auto)
  qed
  from assms(2) show thesis
    by (cases rule: kube_execute_run) (use found retries retryers_ok in auto)
qed

text \<open>
  The client library knows nothing of the framework's \<open>NotFound\<close>, and loading a configuration
  calls no dynamic API.
\<close>

definition never_not_found :: "kube \<Rightarrow> bool" where
  "never_not_found K \<longleftrightarrow> (\<forall>w q x. http (kb_env K) w q \<noteq> Inl (NotFound x))
     \<and> (\<forall>w x. http (kb_env K) w (new_client_request K) \<noteq> Inl (DynamicNotFoundError x))"

lemma kube_execute_not_found:
  assumes "env_ok (kb_env K)" and "never_not_found K"
    and "\<And>h x h'. m h \<noteq> (Inl (NotFound x), h')"
    and "kube_execute K m w = (Inl e, w')" and "isinstance e [CNotFound, CDynamicNotFoundError]"
  obtains h err where "m h = (Inl err, w')" and "says_404 err"
proof -
  note found = that
  have retries: thesis if cfg: "retries_api_errors cfg"
    and run: "tenacity (kb_env K) cfg (method_with_404_handler K m) h = (Inl e, w')" for cfg h
  proof -
    from assms(1) have T: "tenacity_ok (tenacity (kb_env K))" by (simp add: env_ok_def)
    from cfg have stop: "rt_stop cfg \<noteq> []" by (simp add: retries_api_errors_def)
    show thesis
      using T stop run
    proof (cases rule: tenacity_error)
      case (raised s0)
      from raised(1) show thesis
      proof (cases rule: method_with_404_cases)
        case own
        with assms(3,5) found show thesis by (cases e) auto
      qed (use found in auto)
    next
      case (check s0 out)
      with cfg show thesis by (cases out) (auto simp: retries_api_errors_def)
    next
      case (gave_up s0 out nm)
      with cfg obtain info where "e = RetryError out info" unfolding retries_api_errors_def by metis
      with assms(5) show thesis by simp
    qed
  qed
  from assms(4) show thesis
  proof (cases rule: kube_execute_run)
    case first
    with assms(3,5) found show thesis by (cases e) auto
  next
    case (auth_failed err e' h)
    with assms(2,5) show thesis by (cases e) (auto simp: never_not_found_def)
  qed (use found retries retryers_ok in auto)
qed

section \<open>Properties\<close>

lemma retried_call_sends_one:
  "snd (method_with_404_handler K (execute_once (kb_env K) q) w) = w @ [q]"
proof -
  obtain r w' where run: "method_with_404_handler K (execute_once (kb_env K) q) w = (r, w')" by fastforce
  then have "w' = w @ [q]"
    by (cases rule: method_with_404_cases) (auto simp: execute_once_def)
  with run show ?thesis by simp
qed

lemma attempts_retried_call:
  "attempts (method_with_404_handler K (execute_once (kb_env K) q)) n w = w @ replicate n q"
  by (induction n arbitrary: w)
    (simp_all add: retried_call_sends_one replicate_append_same [symmetric])

text \<open>
  C23: a call that meets a conflict (status 409) is sent at most four times, and nothing else is
  sent, whatever the API server answers to the retries.
\<close>

theorem conflict_sent_at_most_four_times:
  assumes "env_ok (kb_env K)" and "http (kb_env K) w q = Inl (ApiException 409 body)"
    and "kube_execute K (execute_once (kb_env K) q) w = (r, w')"
  shows "\<exists>n. 1 \<le> n \<and> n \<le> 4 \<and> w' = w @ replicate n q"
proof -
  let ?fn = "method_with_404_handler K (execute_once (kb_env K) q)"
  obtain cfg where cfg: "quick_recovery_retryer = Inr cfg" "rt_stop cfg = [StopAfterAttempt 3]"
    by (simp add: quick_recovery_retryer_eq)
  have "kube_execute K (execute_once (kb_env K) q) w = tenacity (kb_env K) cfg ?fn (w @ [q])"
    using assms(2)
    by (simp add: cfg(1) kube_execute_def try_except_def execute_once_def retry_on_exceptions_def
        handle_api_exception_def bind_def return_def lift_def)
  with assms(3) have run: "tenacity (kb_env K) cfg ?fn (w @ [q]) = (r, w')" by simp
  from assms(1) have T: "tenacity_ok (tenacity (kb_env K))" by (simp add: env_ok_def)
  from cfg(2) have stop: "rt_stop cfg \<noteq> []" by simp
  obtain m where "retry_run cfg ?fn 1 (w @ [q]) m (tenacity (kb_env K) cfg ?fn (w @ [q]))"
    using T stop by (rule tenacity_run)
  with run have m: "retry_run cfg ?fn 1 (w @ [q]) m (r, w')" by simp
  from retry_run_bound [OF m, of 3] cfg(2) have "m \<le> 3" by simp
  moreover from retry_run_attempts [OF m] have "w' = (w @ [q]) @ replicate (Suc (m - 1)) q" "1 \<le> m"
    by (simp_all only: attempts_retried_call snd_conv)
  then have "w' = w @ replicate (Suc m) q" by simp
  ultimately show ?thesis by (intro exI [of _ "Suc m"]) simp
qed

text \<open>A server that answers every request with a conflict.\<close>

definition busy_kube :: kube where
  "busy_kube = \<lparr>kb_env = \<lparr>http = (\<lambda>w q. Inl (ApiException 409 None)), tenacity = simple_retryer 0,
      uuid4 = (\<lambda>w. []), randint = (\<lambda>w a b. a), parse_code = (\<lambda>j. 0), str_value = (\<lambda>j. [])\<rparr>,
    kb_context = ''ctx'', kb_json_loads = (\<lambda>s. Inl (ValueError s)), kb_dyn_attr = getattr,
    kb_dyn_contains = contains, kb_yaml = (\<lambda>j. Inr []), kb_highlight = (\<lambda>s. s), kb_ago = (\<lambda>j. []),
    kb_exn_str = (\<lambda>e. [])\<rparr>"

lemma busy_kube_ok: "env_ok (kb_env busy_kube)"
  using simple_retryer_ok by (simp add: env_ok_def busy_kube_def)

theorem conflict_sent_at_most_four_times_witness:
  "\<exists>n. 1 \<le> n \<and> n \<le> 4 \<and> snd (kube_execute busy_kube
     (execute_once (kb_env busy_kube) (discovery_request ''v'' ''k'')) [])
     = replicate n (discovery_request ''v'' ''k'')"
  using conflict_sent_at_most_four_times [OF busy_kube_ok, of "[]" "discovery_request ''v'' ''k''" None
      "fst (kube_execute busy_kube (execute_once (kb_env busy_kube) (discovery_request ''v'' ''k'')) [])"
      "snd (kube_execute busy_kube (execute_once (kb_env busy_kube) (discovery_request ''v'' ''k'')) [])"]
  by (simp add: busy_kube_def)

text \<open>
  C22: an expired authorization (status 401) is refreshed before the call is sent a second time;
  when the server then answers, the call returns the answer.
\<close>

theorem unauthorized_call_recovers:
  assumes "env_ok (kb_env K)" and "http (kb_env K) w q = Inl (ApiException 401 body)"
    and "http (kb_env K) (w @ [q]) (new_client_request K) = Inr c"
    and "http (kb_env K) (w @ [q, new_client_request K]) q = Inr v"
  shows "kube_execute K (execute_once (kb_env K) q) w = (Inr v, w @ [q, new_client_request K, q])"
proof -
  let ?fn = "method_with_404_handler K (execute_once (kb_env K) q)"
  have "?fn (w @ [q, new_client_request K]) = (Inr v, w @ [q, new_client_request K, q])"
    using assms(4) by (simp add: method_with_404_handler_def try_except_def execute_once_def)
  moreover from retryers_ok(1) have "any_wanted (rt_retry server_restart_retryer) (Inr v) = Inr False"
    "rt_stop server_restart_retryer \<noteq> []" by (simp_all add: retries_api_errors_def)
  ultimately have "tenacity (kb_env K) server_restart_retryer ?fn (w @ [q, new_client_request K])
      = (Inr v, w @ [q, new_client_request K, q])"
    by (intro env_first [OF assms(1)])
  then show ?thesis
    using assms(2,3)
    by (simp add: kube_execute_def try_except_def execute_once_def retry_on_exceptions_def
        handle_api_exception_def refresh_auth_def reload_def andthen_def bind_def return_def)
qed

text \<open>A server that wants a new client.\<close>

definition expired_kube :: kube where
  "expired_kube = busy_kube\<lparr>kb_env := (kb_env busy_kube)
     \<lparr>http := (\<lambda>w q. if rq_collection q = ''config'' \<or> list_ex (\<lambda>p. rq_collection p = ''config'') w
        then Inr JNull else Inl (ApiException 401 None))\<rparr>\<rparr>"

theorem unauthorized_call_recovers_witness:
  "kube_execute expired_kube (execute_once (kb_env expired_kube) (discovery_request ''v'' ''k'')) []
     = (Inr JNull, [discovery_request ''v'' ''k'', new_client_request expired_kube, discovery_request ''v'' ''k''])"
proof -
  have "env_ok (kb_env expired_kube)" using busy_kube_ok by (simp add: env_ok_def expired_kube_def)
  then show ?thesis
    using unauthorized_call_recovers [of expired_kube "[]" "discovery_request ''v'' ''k''" None JNull JNull]
    by (simp add: expired_kube_def discovery_request_def new_client_request_def)
qed

end
