(* ===== verification/KubeNamespace.thy ===== *)
theory KubeNamespace
  imports Kube
begin

text \<open>
  framework/infrastructure/k8s.py, class \<open>KubernetesNamespace\<close>: reading, creating and deleting the
  resources of a namespace, and waiting for them. The contract that every kind of resource offers
  to the runners is the locale \<open>kube_resource\<close>.
\<close>

section \<open>Route kinds\<close>

datatype route_kind = HTTP_ROUTE | GRPC_ROUTE

fun route_kind_value :: "route_kind \<Rightarrow> string" where
  "route_kind_value HTTP_ROUTE = ''HTTPRoute''"
| "route_kind_value GRPC_ROUTE = ''GRPCRoute''"

definition route_kinds :: "route_kind list" where
  "route_kinds = [HTTP_ROUTE, GRPC_ROUTE]"

definition route_kind_from_str :: "string \<Rightarrow> exn + route_kind" where
  "route_kind_from_str nm =
     (case filter (\<lambda>k. route_kind_value k = nm) route_kinds of
        k # _ \<Rightarrow> Inr k
      | [] \<Rightarrow> Inl (AttributeError nm))"

definition label_dict_to_selector :: "env \<Rightarrow> (string \<times> json) list \<Rightarrow> string" where
  "label_dict_to_selector E labels = str_join '','' (map (\<lambda>(k, v). k @ ''=='' @ text_value E v) labels)"

section \<open>The namespace\<close>

text \<open>The manager, the name, and the two limits that callers may set.\<close>

record kube_ns =
  kn_api :: kube
  kn_name :: string
  wait_for_namespace_deleted_timeout_sec :: "int option"
  wait_for_namespace_deleted_sleep_sec :: "int option"

definition kube_ns_init :: "kube \<Rightarrow> string \<Rightarrow> kube_ns" where
  "kube_ns_init api nm = \<lparr>kn_api = api, kn_name = nm,
     wait_for_namespace_deleted_timeout_sec = None, wait_for_namespace_deleted_sleep_sec = None\<rparr>"

abbreviation kn_env :: "kube_ns \<Rightarrow> env" where
  "kn_env N \<equiv> kb_env (kn_api N)"

definition NEG_STATUS_ANNOTATION :: string where
  "NEG_STATUS_ANNOTATION = ''cloud.google.com/neg-status''"

definition MESH_ANNOTATION :: string where
  "MESH_ANNOTATION = ''networking.gke.io/meshes''"

abbreviation "DELETE_GRACE_PERIOD_SEC \<equiv> (5 :: int)"
abbreviation "WAIT_SHORT_TIMEOUT_SEC \<equiv> (60 :: int)"
abbreviation "WAIT_SHORT_SLEEP_SEC \<equiv> (1 :: int)"
abbreviation "WAIT_MEDIUM_TIMEOUT_SEC \<equiv> (5 * 60 :: int)"
abbreviation "WAIT_MEDIUM_SLEEP_SEC \<equiv> (10 :: int)"
abbreviation "WAIT_LONG_TIMEOUT_SEC \<equiv> (10 * 60 :: int)"
abbreviation "WAIT_LONG_SLEEP_SEC \<equiv> (30 :: int)"
abbreviation "WAIT_POD_START_TIMEOUT_SEC \<equiv> (3 * 60 :: int)"

text \<open>
  Calls of the typed APIs (\<open>CoreV1Api\<close>, \<open>AppsV1Api\<close>), whose functions are named
  \<open>read_namespaced_service\<close> and so on, and of a dynamic API.
\<close>

definition typed_request :: "string \<Rightarrow> string \<Rightarrow> string \<Rightarrow> (string \<times> json) list \<Rightarrow> request" where
  "typed_request api verb noun args = Request ''kubernetes'' (api @ ''.'' @ noun) verb args []"

definition dynamic_request :: "dyn_api \<Rightarrow> string \<Rightarrow> (string \<times> json) list \<Rightarrow> request" where
  "dynamic_request api verb args =
     Request ''kubernetes'' (fst api @ ''.'' @ snd api) verb args []"

definition read_request :: "kube_ns \<Rightarrow> string \<Rightarrow> string \<Rightarrow> string \<Rightarrow> request" where
  "read_request N api noun nm =
     typed_request api ''read'' noun [(''name'', JStr nm), (''namespace'', JStr (kn_name N))]"

definition delete_options :: "int option \<Rightarrow> json" where
  "delete_options grace_period_seconds = JObj
     ([(''propagation_policy'', JStr ''Foreground'')] @
      (case grace_period_seconds of None \<Rightarrow> [] | Some s \<Rightarrow> [(''grace_period_seconds'', JInt s)]))"

definition delete_request :: "kube_ns \<Rightarrow> string \<Rightarrow> string \<Rightarrow> int option \<Rightarrow> string \<Rightarrow> request" where
  "delete_request N api noun grace_period_seconds nm =
     typed_request api ''delete'' noun
       [(''name'', JStr nm), (''namespace'', JStr (kn_name N)), (''body'', delete_options grace_period_seconds)]"

definition dyn_read_request :: "kube_ns \<Rightarrow> dyn_api \<Rightarrow> string \<Rightarrow> request" where
  "dyn_read_request N api nm =
     dynamic_request api ''get'' [(''name'', JStr nm), (''namespace'', JStr (kn_name N))]"

definition dyn_delete_request :: "kube_ns \<Rightarrow> dyn_api \<Rightarrow> int \<Rightarrow> string \<Rightarrow> request" where
  "dyn_delete_request N api grace_period_seconds nm =
     dynamic_request api ''delete''
       [(''name'', JStr nm), (''namespace'', JStr (kn_name N)),
        (''propagation_policy'', JStr ''Foreground''), (''grace_period_seconds'', JInt grace_period_seconds)]"

text \<open>\<open>_execute\<close> with one call, its value dropped where the source returns nothing.\<close>

definition kn_execute :: "kube_ns \<Rightarrow> request \<Rightarrow> (world, json) act" where
  "kn_execute N q = kube_execute (kn_api N) (execute_once (kn_env N) q)"

definition kn_run :: "kube_ns \<Rightarrow> request \<Rightarrow> (world, unit) act" where
  "kn_run N q = bind (kn_execute N q) (\<lambda>_. return ())"

section \<open>Reading\<close>

definition get_kube_resource :: "kube_ns \<Rightarrow> request \<Rightarrow> (world, json) act" where
  "get_kube_resource N q =
     try_except (kn_execute N q) (\<lambda>e. isinstance e [CNotFound]) (\<lambda>_. return JNull)"

text \<open>The API is looked up before the call, outside of the \<open>try\<close>.\<close>

definition get_dyn_resource :: "kube_ns \<Rightarrow> (world, dyn_api) act \<Rightarrow> string \<Rightarrow> (world, json) act" where
  "get_dyn_resource N find_api nm =
     bind find_api (\<lambda>api.
       try_except (kn_execute N (dyn_read_request N api nm))
         (\<lambda>e. isinstance e [CNotFound, CDynamicNotFoundError]) (\<lambda>_. return JNull))"

definition api_gke_mesh :: "kube_ns \<Rightarrow> (world, dyn_api) act" where
  "api_gke_mesh N = get_dynamic_api (kn_api N) ''net.gke.io/v1alpha1'' ''TDMesh''"

definition api_grpc_route :: "kube_ns \<Rightarrow> (world, dyn_api) act" where
  "api_grpc_route N = get_dynamic_api (kn_api N) ''gateway.networking.k8s.io/v1'' ''GRPCRoute''"

definition api_http_route :: "kube_ns \<Rightarrow> (world, dyn_api) act" where
  "api_http_route N = get_dynamic_api (kn_api N) ''gateway.networking.k8s.io/v1beta1'' ''HTTPRoute''"

text \<open>Both APIs are looked up, in the order of the dict.\<close>

definition gamma_route_api :: "kube_ns \<Rightarrow> route_kind \<Rightarrow> (world, dyn_api) act" where
  "gamma_route_api N kind =
     bind (api_http_route N) (\<lambda>h. bind (api_grpc_route N) (\<lambda>g.
       return (case kind of HTTP_ROUTE \<Rightarrow> h | GRPC_ROUTE \<Rightarrow> g)))"

definition api_session_affinity_filter :: "kube_ns \<Rightarrow> (world, dyn_api) act" where
  "api_session_affinity_filter N = get_dynamic_api (kn_api N) ''networking.gke.io/v1'' ''GCPSessionAffinityFilter''"

definition api_session_affinity_policy :: "kube_ns \<Rightarrow> (world, dyn_api) act" where
  "api_session_affinity_policy N = get_dynamic_api (kn_api N) ''networking.gke.io/v1'' ''GCPSessionAffinityPolicy''"

definition api_pod_monitoring :: "kube_ns \<Rightarrow> (world, dyn_api) act" where
  "api_pod_monitoring N = get_dynamic_api (kn_api N) ''monitoring.googleapis.com/v1'' ''PodMonitoring''"

definition api_backend_policy :: "kube_ns \<Rightarrow> (world, dyn_api) act" where
  "api_backend_policy N = get_dynamic_api (kn_api N) ''networking.gke.io/v1'' ''GCPBackendPolicy''"

definition get_service :: "kube_ns \<Rightarrow> string \<Rightarrow> (world, json) act" where
  "get_service N nm = get_kube_resource N (read_request N ''CoreV1Api'' ''namespaced_service'' nm)"

definition get_gamma_mesh :: "kube_ns \<Rightarrow> string \<Rightarrow> (world, json) act" where
  "get_gamma_mesh N nm = get_dyn_resource N (api_gke_mesh N) nm"

definition get_gamma_route :: "kube_ns \<Rightarrow> route_kind \<Rightarrow> string \<Rightarrow> (world, json) act" where
  "get_gamma_route N kind nm = get_dyn_resource N (gamma_route_api N kind) nm"

definition get_session_affinity_policy :: "kube_ns \<Rightarrow> string \<Rightarrow> (world, json) act" where
  "get_session_affinity_policy N nm = get_dyn_resource N (api_session_affinity_policy N) nm"

definition get_session_affinity_filter :: "kube_ns \<Rightarrow> string \<Rightarrow> (world, json) act" where
  "get_session_affinity_filter N nm = get_dyn_resource N (api_session_affinity_filter N) nm"

definition get_backend_policy :: "kube_ns \<Rightarrow> string \<Rightarrow> (world, json) act" where
  "get_backend_policy N nm = get_dyn_resource N (api_backend_policy N) nm"

definition get_k8s_service_account :: "kube_ns \<Rightarrow> string \<Rightarrow> (world, json) act" where
  "get_k8s_service_account N nm =
     get_kube_resource N (read_request N ''CoreV1Api'' ''namespaced_service_account'' nm)"

definition namespace_request :: "kube_ns \<Rightarrow> request" where
  "namespace_request N = typed_request ''CoreV1Api'' ''read'' ''namespace'' [(''name'', JStr (kn_name N))]"

definition get_namespace :: "kube_ns \<Rightarrow> (world, json) act" where
  "get_namespace N = get_kube_resource N (namespace_request N)"

definition get_deployment :: "kube_ns \<Rightarrow> string \<Rightarrow> (world, json) act" where
  "get_deployment N nm = get_kube_resource N (read_request N ''AppsV1Api'' ''namespaced_deployment'' nm)"

definition get_pod :: "kube_ns \<Rightarrow> string \<Rightarrow> (world, json) act" where
  "get_pod N nm = get_kube_resource N (read_request N ''CoreV1Api'' ''namespaced_pod'' nm)"

section \<open>Creating\<close>

text \<open>
  \<open>utils.create_from_dict(client, manifest, namespace)\<close> returns the list of the created objects; a
  custom object is created through the dynamic API that its manifest names.
\<close>

definition create_request :: "kube_ns \<Rightarrow> json \<Rightarrow> request" where
  "create_request N manifest =
     Request ''kubernetes'' ''utils.from_dict'' ''create''
       [(''data'', manifest), (''namespace'', JStr (kn_name N))] []"

definition dyn_create_request :: "dyn_api \<Rightarrow> json \<Rightarrow> request" where
  "dyn_create_request api manifest = dynamic_request api ''create'' [(''body'', manifest)]"

definition apply_manifest_single :: "kube_ns \<Rightarrow> json \<Rightarrow> (world, json) act" where
  "apply_manifest_single N manifest =
     bind (execute_once (kn_env N) (create_request N manifest)) (\<lambda>k8s_objects.
     bind (lift (py_iter k8s_objects)) (\<lambda>objs.
       case objs of
         [obj] \<Rightarrow> return obj
       | _ \<Rightarrow> raise (ValueError (''Expected exactly one k8s object created from manifest ''
                 @ text_value (kn_env N) manifest))))"

definition apply_manifest_custom_object :: "kube_ns \<Rightarrow> json \<Rightarrow> (world, json) act" where
  "apply_manifest_custom_object N manifest =
     bind (lift (getitem manifest ''apiVersion'')) (\<lambda>v.
     bind (lift (getitem manifest ''kind'')) (\<lambda>k.
     bind (get_dynamic_api (kn_api N) (text_value (kn_env N) v) (text_value (kn_env N) k)) (\<lambda>api.
       execute_once (kn_env N) (dyn_create_request api manifest))))"

definition create_single_resource :: "kube_ns \<Rightarrow> json \<Rightarrow> bool \<Rightarrow> (world, json) act" where
  "create_single_resource N manifest custom_object =
     (if custom_object then kube_execute (kn_api N) (apply_manifest_custom_object N manifest)
      else kube_execute (kn_api N) (apply_manifest_single N manifest))"

section \<open>Deleting\<close>

definition kn_delete :: "kube_ns \<Rightarrow> string \<Rightarrow> string \<Rightarrow> string \<Rightarrow> (world, unit) act" where
  "kn_delete N api noun nm = kn_run N (delete_request N api noun (Some DELETE_GRACE_PERIOD_SEC) nm)"

definition kn_dyn_delete :: "kube_ns \<Rightarrow> (world, dyn_api) act \<Rightarrow> string \<Rightarrow> (world, unit) act" where
  "kn_dyn_delete N find_api nm =
     bind find_api (\<lambda>api. kn_run N (dyn_delete_request N api DELETE_GRACE_PERIOD_SEC nm))"

definition delete_service :: "kube_ns \<Rightarrow> string \<Rightarrow> (world, unit) act" where
  "delete_service N = kn_delete N ''CoreV1Api'' ''namespaced_service''"

definition delete_service_account :: "kube_ns \<Rightarrow> string \<Rightarrow> (world, unit) act" where
  "delete_service_account N = kn_delete N ''CoreV1Api'' ''namespaced_service_account''"

definition delete_gamma_mesh :: "kube_ns \<Rightarrow> string \<Rightarrow> (world, unit) act" where
  "delete_gamma_mesh N = kn_dyn_delete N (api_gke_mesh N)"

definition delete_gamma_route :: "kube_ns \<Rightarrow> route_kind \<Rightarrow> string \<Rightarrow> (world, unit) act" where
  "delete_gamma_route N kind = kn_dyn_delete N (gamma_route_api N kind)"

definition delete_session_affinity_policy :: "kube_ns \<Rightarrow> string \<Rightarrow> (world, unit) act" where
  "delete_session_affinity_policy N = kn_dyn_delete N (api_session_affinity_policy N)"

definition delete_session_affinity_filter :: "kube_ns \<Rightarrow> string \<Rightarrow> (world, unit) act" where
  "delete_session_affinity_filter N = kn_dyn_delete N (api_session_affinity_filter N)"

definition delete_pod_monitoring :: "kube_ns \<Rightarrow> string \<Rightarrow> (world, unit) act" where
  "delete_pod_monitoring N = kn_dyn_delete N (api_pod_monitoring N)"

definition delete_backend_policy :: "kube_ns \<Rightarrow> string \<Rightarrow> (world, unit) act" where
  "delete_backend_policy N = kn_dyn_delete N (api_backend_policy N)"

definition delete_pod :: "kube_ns \<Rightarrow> int option \<Rightarrow> string \<Rightarrow> (world, unit) act" where
  "delete_pod N grace_period nm =
     kn_run N (delete_request N ''CoreV1Api'' ''namespaced_pod'' grace_period nm)"

definition delete_deployment :: "kube_ns \<Rightarrow> string \<Rightarrow> (world, unit) act" where
  "delete_deployment N = kn_delete N ''AppsV1Api'' ''namespaced_deployment''"

definition delete_namespace_request :: "kube_ns \<Rightarrow> request" where
  "delete_namespace_request N = typed_request ''CoreV1Api'' ''delete'' ''namespace''
     [(''name'', JStr (kn_name N)), (''body'', delete_options (Some DELETE_GRACE_PERIOD_SEC))]"

definition delete_namespace :: "kube_ns \<Rightarrow> (world, unit) act" where
  "delete_namespace N = kn_run N (delete_namespace_request N)"

section \<open>Printing\<close>

definition hasattr :: "json \<Rightarrow> string \<Rightarrow> bool" where
  "hasattr obj a \<longleftrightarrow> \<not> isl (getattr obj a)"

definition pretty_format :: "kube_ns \<Rightarrow> bool \<Rightarrow> json \<Rightarrow> exn + string" where
  "pretty_format N highlight data =
     ebind (kb_yaml (kn_api N) data) (\<lambda>yaml_out.
       Inr (if highlight then kb_highlight (kn_api N) yaml_out else yaml_out))"

definition timestamp_line :: "kube_ns \<Rightarrow> string \<Rightarrow> string \<Rightarrow> json \<Rightarrow> exn + string list" where
  "timestamp_line N title a metadata =
     ebind (getattr metadata a) (\<lambda>t. Inr
       (if py_truth t
        then [title @ '': '' @ text_value (kn_env N) t @ ''; '' @ kb_ago (kn_api N) t]
        else []))"

definition pretty_format_status :: "kube_ns \<Rightarrow> bool \<Rightarrow> json \<Rightarrow> exn + string" where
  "pretty_format_status N highlight k8s_object =
     (if k8s_object = JNull then Inr ''No data''
      else
        let metadata = (case getattr k8s_object ''metadata'' of
              Inr m \<Rightarrow> if is_instance ''V1ObjectMeta'' m then Some m else None | Inl _ \<Rightarrow> None)
        in ebind (case metadata of
                    None \<Rightarrow> Inr ''Can't parse resource name''
                  | Some m \<Rightarrow> ebind (getattr m ''name'') (\<lambda>v. Inr (text_value (kn_env N) v))) (\<lambda>nm.
           ebind (case getattr k8s_object ''kind'' of
                    Inl _ \<Rightarrow> Inr [] | Inr k \<Rightarrow> Inr [''Resource kind: '' @ text_value (kn_env N) k]) (\<lambda>kinds.
           ebind (case metadata of None \<Rightarrow> Inr []
                  | Some m \<Rightarrow> timestamp_line N ''Created'' ''creation_timestamp'' m) (\<lambda>created.
           ebind (case metadata of None \<Rightarrow> Inr []
                  | Some m \<Rightarrow> timestamp_line N ''Deletion requested'' ''deletion_timestamp'' m) (\<lambda>deleted.
             let status = (case getattr k8s_object ''status'' of
                   Inl _ \<Rightarrow> ''Can't parse resource status''
                 | Inr st \<Rightarrow> (case pretty_format N highlight st of
                       Inr txt \<Rightarrow> txt
                     | Inl e \<Rightarrow> ''Can't parse resource status: '' @ kb_exn_str (kn_api N) e))
             in Inr (str_join newline ([''Resource name: '' @ nm] @ kinds @ created @ deleted @ [[], status])
                  @ newline))))))"

definition pretty_format_statuses :: "kube_ns \<Rightarrow> bool \<Rightarrow> json list \<Rightarrow> exn + string" where
  "pretty_format_statuses N highlight k8s_objects =
     ebind (emap (pretty_format_status N highlight) k8s_objects) (\<lambda>ts. Inr (str_join newline ts))"

text \<open>The managed fields are left out by default.\<close>

definition pretty_format_metadata :: "kube_ns \<Rightarrow> bool \<Rightarrow> bool \<Rightarrow> json \<Rightarrow> exn + string" where
  "pretty_format_metadata N highlight managed_fields k8s_object =
     (if k8s_object = JNull then Inr ''No data''
      else if \<not> hasattr k8s_object ''metadata'' then Inr ''Object metadata missing''
      else
        ebind (getattrs k8s_object [''metadata'', ''name'']) (\<lambda>nm.
        ebind (getattr k8s_object ''metadata'') (\<lambda>metadata.
          let shown = (case metadata of
                JObj kvs \<Rightarrow> if managed_fields then JObj kvs
                  else JObj (filter (\<lambda>kv. fst kv \<noteq> ''managed_fields'') kvs)
              | v \<Rightarrow> v);
              txt = (case pretty_format N highlight shown of
                Inr t \<Rightarrow> t
              | Inl e \<Rightarrow> ''Can't parse resource metadata: '' @ kb_exn_str (kn_api N) e)
          in Inr ((if py_truth nm then text_value (kn_env N) nm else ''Can't parse resource name'')
               @ '':'' @ newline @ txt @ newline))))"

section \<open>Waiting\<close>

text \<open>A constant retryer with a timeout and a result check; by default every exception is retried.\<close>

definition wait_until ::
  "kube_ns \<Rightarrow> int \<Rightarrow> int \<Rightarrow> (json \<Rightarrow> exn + bool) \<Rightarrow> (world, json) act \<Rightarrow> (world, json) act" where
  "wait_until N wait_sec timeout_sec check_result m =
     bind (lift (constant_retryer wait_sec 0 (Some timeout_sec) None (Some check_result) []))
       (\<lambda>retryer. tenacity (kn_env N) retryer m)"

text \<open>The note is built, and may raise, when the retries are exhausted.\<close>

definition noting :: "(exn + json \<Rightarrow> exn + string) \<Rightarrow> ('s, 'a) act \<Rightarrow> ('s, 'a) act" where
  "noting note m =
     try_except m (\<lambda>e. isinstance e [CRetryError])
       (\<lambda>e. case e of
          RetryError last_attempt _ \<Rightarrow> bind (lift (note last_attempt)) (\<lambda>n. raise (add_note n e))
        | _ \<Rightarrow> raise e)"

definition is_none :: "json \<Rightarrow> exn + bool" where
  "is_none v = Inr (v = JNull)"

text \<open>Waiting for a resource to be gone.\<close>

definition wait_gone :: "kube_ns \<Rightarrow> int \<Rightarrow> int \<Rightarrow> (world, json) act \<Rightarrow> (world, unit) act" where
  "wait_gone N wait_sec timeout_sec get =
     bind (wait_until N wait_sec timeout_sec is_none get) (\<lambda>_. return ())"

definition wait_for_pod_deleted :: "kube_ns \<Rightarrow> int \<Rightarrow> string \<Rightarrow> (world, unit) act" where
  "wait_for_pod_deleted N timeout nm = wait_gone N WAIT_SHORT_SLEEP_SEC timeout (get_pod N nm)"

definition wait_for_service_deleted :: "kube_ns \<Rightarrow> string \<Rightarrow> (world, unit) act" where
  "wait_for_service_deleted N nm =
     wait_gone N WAIT_SHORT_SLEEP_SEC WAIT_SHORT_TIMEOUT_SEC (get_service N nm)"

definition wait_for_get_gamma_mesh_deleted :: "kube_ns \<Rightarrow> string \<Rightarrow> (world, unit) act" where
  "wait_for_get_gamma_mesh_deleted N nm =
     wait_gone N WAIT_MEDIUM_SLEEP_SEC WAIT_MEDIUM_TIMEOUT_SEC (get_gamma_mesh N nm)"

definition wait_for_get_gamma_route_deleted :: "kube_ns \<Rightarrow> route_kind \<Rightarrow> string \<Rightarrow> (world, unit) act" where
  "wait_for_get_gamma_route_deleted N kind nm =
     wait_gone N WAIT_SHORT_SLEEP_SEC WAIT_SHORT_TIMEOUT_SEC (get_gamma_route N kind nm)"

definition wait_for_get_session_affinity_policy_deleted :: "kube_ns \<Rightarrow> string \<Rightarrow> (world, unit) act" where
  "wait_for_get_session_affinity_policy_deleted N nm =
     wait_gone N WAIT_MEDIUM_SLEEP_SEC WAIT_MEDIUM_TIMEOUT_SEC (get_session_affinity_policy N nm)"

definition wait_for_get_session_affinity_filter_deleted :: "kube_ns \<Rightarrow> string \<Rightarrow> (world, unit) act" where
  "wait_for_get_session_affinity_filter_deleted N nm =
     wait_gone N WAIT_MEDIUM_SLEEP_SEC WAIT_MEDIUM_TIMEOUT_SEC (get_session_affinity_filter N nm)"

definition wait_for_get_backend_policy_deleted :: "kube_ns \<Rightarrow> string \<Rightarrow> (world, unit) act" where
  "wait_for_get_backend_policy_deleted N nm =
     wait_gone N WAIT_MEDIUM_SLEEP_SEC WAIT_MEDIUM_TIMEOUT_SEC (get_backend_policy N nm)"

definition wait_for_service_account_deleted :: "kube_ns \<Rightarrow> string \<Rightarrow> (world, unit) act" where
  "wait_for_service_account_deleted N nm =
     wait_gone N WAIT_SHORT_SLEEP_SEC WAIT_SHORT_TIMEOUT_SEC (get_k8s_service_account N nm)"

definition wait_for_deployment_deleted :: "kube_ns \<Rightarrow> string \<Rightarrow> (world, unit) act" where
  "wait_for_deployment_deleted N nm =
     wait_gone N WAIT_MEDIUM_SLEEP_SEC WAIT_MEDIUM_TIMEOUT_SEC (get_deployment N nm)"

text \<open>
  The limits of the object replace the defaults; the pause is taken from the timeout, whatever
  the pause of the object is.
\<close>

definition wait_for_namespace_deleted :: "kube_ns \<Rightarrow> int option \<Rightarrow> int option \<Rightarrow> (world, unit) act" where
  "wait_for_namespace_deleted N timeout_arg wait_arg =
     (let timeout_sec = (case timeout_arg of Some t \<Rightarrow> t
            | None \<Rightarrow> (case wait_for_namespace_deleted_timeout_sec N of
                Some t \<Rightarrow> t | None \<Rightarrow> WAIT_LONG_TIMEOUT_SEC));
          wait_sec = (case wait_arg of Some s \<Rightarrow> Some s
            | None \<Rightarrow> (case wait_for_namespace_deleted_sleep_sec N of
                Some _ \<Rightarrow> wait_for_namespace_deleted_timeout_sec N
              | None \<Rightarrow> Some WAIT_LONG_SLEEP_SEC))
      in case wait_sec of
           None \<Rightarrow> raise (TypeError ''unsupported type for timedelta seconds component: NoneType'')
         | Some s \<Rightarrow> wait_gone N s timeout_sec (get_namespace N))"

section \<open>Waiting for a state\<close>

definition quote :: string where
  "quote = [CHR 0x27]"

definition dyn_getattr :: "kube_ns \<Rightarrow> json \<Rightarrow> string \<Rightarrow> exn + json" where
  "dyn_getattr N obj a =
     (if obj = JNull then Inl (AttributeError a) else kb_dyn_attr (kn_api N) obj a)"

definition check_mesh_annotation :: "kube_ns \<Rightarrow> json \<Rightarrow> exn + bool" where
  "check_mesh_annotation N resource =
     ebind (dyn_getattr N resource ''metadata'') (\<lambda>metadata.
       if metadata = JNull then Inr False
       else ebind (dyn_getattr N metadata ''annotations'') (\<lambda>annotations.
         if annotations = JNull then Inr False
         else kb_dyn_contains (kn_api N) MESH_ANNOTATION annotations))"

definition wait_for_mesh_annotation_on_gamma_route ::
  "kube_ns \<Rightarrow> string \<Rightarrow> route_kind \<Rightarrow> int \<Rightarrow> int \<Rightarrow> (world, unit) act" where
  "wait_for_mesh_annotation_on_gamma_route N nm kind timeout_sec wait_sec =
     noting (\<lambda>_. Inr (note_blanket_error_info_below ''The Gamma route wasn't attached a mesh annotation.''
         (''Timeout '' @ str_timedelta timeout_sec @ '' (h:mm:ss) waiting for route '' @ nm @
          '' to report the '' @ quote @ MESH_ANNOTATION @ quote @ '' metadata annotation.'' @ newline @
          ''This indicates GKE Gateway Controller's watch of the cluster hasn't been successful.'')))
       (bind (wait_until N wait_sec timeout_sec (check_mesh_annotation N) (get_gamma_route N kind nm))
          (\<lambda>_. return ()))"

definition check_service_neg_status_annotation :: "json \<Rightarrow> exn + bool" where
  "check_service_neg_status_annotation service =
     (if is_instance ''V1Service'' service
      then ebind (getattrs service [''metadata'', ''annotations'']) (contains NEG_STATUS_ANNOTATION)
      else Inr False)"

definition wait_for_service_neg_status_annotation ::
  "kube_ns \<Rightarrow> string \<Rightarrow> int \<Rightarrow> int \<Rightarrow> (world, unit) act" where
  "wait_for_service_neg_status_annotation N nm timeout_sec wait_sec =
     noting (\<lambda>last_attempt. let res = retry_error_result last_attempt JNull in
         ebind (pretty_format_metadata N False False res) (\<lambda>metadata.
         ebind (pretty_format_status N False res) (\<lambda>status.
         Inr (note_blanket_error_info_below
           ''A Kubernetes Service wasn't assigned a NEG (Network Endpoint Group) status annotation.''
           (''Timeout '' @ str_timedelta timeout_sec @ '' (h:mm:ss) waiting for Kubernetes Service '' @ nm @
            '' in the namespace '' @ kn_name N @ '' to report the '' @ quote @ NEG_STATUS_ANNOTATION @ quote @
            '' metadata annotation.'' @ newline @
            ''This indicates the NEG wasn't created OR the NEG creation event hasn't propagated to Kubernetes.'' @
            '' Service metadata:'' @ newline @ metadata @ ''Service status:'' @ newline @ status)))))
       (bind (wait_until N wait_sec timeout_sec check_service_neg_status_annotation (get_service N nm))
          (\<lambda>_. return ()))"

definition parse_service_neg_status ::
  "kube_ns \<Rightarrow> string \<Rightarrow> int \<Rightarrow> (world, json \<times> json) act" where
  "parse_service_neg_status N service_name service_port =
     bind (get_service N service_name) (\<lambda>service.
     bind (lift (getattrs service [''metadata'', ''annotations''])) (\<lambda>annotations.
     bind (lift (getitem annotations NEG_STATUS_ANNOTATION)) (\<lambda>txt.
     bind (lift (kb_json_loads (kn_api N) (text_value (kn_env N) txt))) (\<lambda>neg_info.
     bind (lift (ebind (getitem neg_info ''network_endpoint_groups'')
                   (\<lambda>groups. getitem groups (str_int service_port)))) (\<lambda>neg_name.
     bind (lift (getitem neg_info ''zones'')) (\<lambda>neg_zones.
       return (neg_name, neg_zones)))))))"

definition list_pods_with_labels :: "kube_ns \<Rightarrow> json \<Rightarrow> (world, json) act" where
  "list_pods_with_labels N labels =
     (case labels of
        JObj kvs \<Rightarrow>
          bind (kn_execute N (typed_request ''CoreV1Api'' ''list'' ''namespaced_pod''
                  [(''namespace'', JStr (kn_name N)),
                   (''label_selector'', JStr (label_dict_to_selector (kn_env N) kvs))]))
            (\<lambda>pod_list. lift (getattr pod_list ''items''))
      | _ \<Rightarrow> raise (AttributeError ''items''))"

definition list_deployment_pods :: "kube_ns \<Rightarrow> json \<Rightarrow> (world, json) act" where
  "list_deployment_pods N deployment =
     bind (lift (getattrs deployment [''spec'', ''selector'', ''match_labels''])) (list_pods_with_labels N)"

definition at_least :: "json \<Rightarrow> int \<Rightarrow> exn + bool" where
  "at_least v n = (case v of JInt i \<Rightarrow> Inr (n \<le> i) | JBool b \<Rightarrow> Inr (n \<le> of_bool b)
     | _ \<Rightarrow> Inl (TypeError ''>= not supported''))"

definition replicas_available :: "int \<Rightarrow> json \<Rightarrow> exn + bool" where
  "replicas_available cnt deployment =
     (if is_instance ''V1Deployment'' deployment
      then ebind (getattrs deployment [''status'', ''available_replicas'']) (\<lambda>r.
        if r = JNull then Inr False else at_least r cnt)
      else Inr False)"

definition wait_for_deployment_available_replicas ::
  "kube_ns \<Rightarrow> string \<Rightarrow> int \<Rightarrow> int \<Rightarrow> int \<Rightarrow> (world, json) act" where
  "wait_for_deployment_available_replicas N nm cnt timeout_sec wait_sec =
     noting (\<lambda>last_attempt.
         ebind (pretty_format_status N False (retry_error_result last_attempt JNull)) (\<lambda>status.
         Inr (note_blanket_error_info_below
           ''The deployment didn't report one or several pods available (ready for at least minReadySeconds).''
           (''Timeout '' @ str_timedelta timeout_sec @ '' (h:mm:ss) waiting for deployment '' @ nm @
            '' to report '' @ str_int cnt @ '' replicas available. Last status:'' @ newline @ status))))
       (wait_until N wait_sec timeout_sec (replicas_available cnt) (get_deployment N nm))"

text \<open>\<open>len(x)\<close>.\<close>

definition py_len :: "json \<Rightarrow> exn + int" where
  "py_len v = (case v of JList xs \<Rightarrow> Inr (int (length xs)) | JObj kvs \<Rightarrow> Inr (int (length kvs))
     | JStr s \<Rightarrow> Inr (int (length s)) | _ \<Rightarrow> Inl (TypeError ''object has no len()''))"

definition wait_for_deployment_replica_count ::
  "kube_ns \<Rightarrow> json \<Rightarrow> int \<Rightarrow> int \<Rightarrow> int \<Rightarrow> (world, unit) act" where
  "wait_for_deployment_replica_count N deployment cnt timeout_sec wait_sec =
     noting (\<lambda>last_attempt. let res = retry_error_result last_attempt (JList []) in
         ebind (py_len res) (\<lambda>n.
         ebind (pretty_format_status N False res) (\<lambda>status.
         Inr (note_blanket_error_info_below
           ''The deployment was unable to initialize one or several pods.''
           (''Timeout '' @ str_timedelta timeout_sec @ '' (h:mm:ss) waiting for pod count '' @ str_int cnt @
            '', got: '' @ str_int n @ ''. Pod statuses:'' @ newline @ status)))))
       (bind (wait_until N wait_sec timeout_sec (\<lambda>pods. ebind (py_len pods) (\<lambda>n. Inr (n = cnt)))
                (list_deployment_pods N deployment))
          (\<lambda>_. return ()))"

definition pod_started :: "json \<Rightarrow> exn + bool" where
  "pod_started pod =
     (if is_instance ''V1Pod'' pod
      then ebind (getattrs pod [''status'', ''phase'']) (\<lambda>phase.
        Inr (phase \<noteq> JStr ''Pending'' \<and> phase \<noteq> JStr ''Unknown''))
      else Inr False)"

definition wait_for_pod_started :: "kube_ns \<Rightarrow> string \<Rightarrow> int \<Rightarrow> int \<Rightarrow> (world, unit) act" where
  "wait_for_pod_started N pod_name timeout_sec wait_sec =
     noting (\<lambda>last_attempt.
         ebind (pretty_format_status N False (retry_error_result last_attempt JNull)) (\<lambda>status.
         Inr (note_blanket_error_info_below ''The pod didn't start within expected timeout.''
           (''Timeout '' @ str_timedelta timeout_sec @ '' (h:mm:ss) waiting for pod '' @ pod_name @
            '' to start. Pod status:'' @ newline @ status))))
       (bind (wait_until N wait_sec timeout_sec pod_started (get_pod N pod_name)) (\<lambda>_. return ()))"

definition namespace_active :: "json \<Rightarrow> exn + bool" where
  "namespace_active namespace =
     (if is_instance ''V1Namespace'' namespace
      then ebind (getattrs namespace [''status'', ''phase'']) (\<lambda>phase. Inr (phase = JStr ''Active''))
      else Inr False)"

definition wait_for_namespace_active :: "kube_ns \<Rightarrow> int \<Rightarrow> int \<Rightarrow> (world, unit) act" where
  "wait_for_namespace_active N timeout retry_wait =
     noting (\<lambda>last_attempt.
         ebind (pretty_format_status N False (retry_error_result last_attempt JNull)) (\<lambda>status.
         Inr (''Timeout '' @ str_timedelta timeout @ '' (h:mm:ss) waiting for namespace '' @ kn_name N @
           '' to become active. Namespace status:'' @ newline @ status)))
       (bind (wait_until N retry_wait timeout namespace_active (get_namespace N)) (\<lambda>_. return ()))"

section \<open>The contract of a resource\<close>

text \<open>
  The changes of the Kubernetes API in a history, and when a request reads what another one
  deletes.
\<close>

definition kube_log :: "world \<Rightarrow> request list" where
  "kube_log w = filter (\<lambda>q. rq_service q = ''kubernetes'' \<and> mutates q) w"

definition reads_deleted :: "request \<Rightarrow> request \<Rightarrow> bool" where
  "reads_deleted q d \<longleftrightarrow>
     rq_service q = rq_service d \<and> rq_collection q = rq_collection d \<and> rq_method d = ''delete''
     \<and> rq_method q \<in> {''read'', ''get''}
     \<and> rq_arg q ''name'' = rq_arg d ''name'' \<and> rq_arg d ''name'' \<noteq> None \<and> rq_arg q ''namespace'' = rq_arg d ''namespace''"

lemma kube_log_simps [simp]:
  "kube_log [] = []" "kube_log (w @ w') = kube_log w @ kube_log w'"
  "kube_log [q] = (if rq_service q = ''kubernetes'' \<and> mutates q then [q] else [])"
  by (simp_all add: kube_log_def)

text \<open>
  An API server in good order: it takes every delete, answers 404 to a read right after the delete
  of what it reads, and knows the dynamic APIs. An empty text is no JSON.
\<close>

definition kube_ready :: "kube \<Rightarrow> bool" where
  "kube_ready K \<longleftrightarrow> env_ok (kb_env K) \<and> (\<exists>e. kb_json_loads K [] = Inl (ValueError e))
     \<and> (\<forall>w d. rq_service d = ''kubernetes'' \<longrightarrow> rq_method d = ''delete'' \<longrightarrow> \<not> isl (http (kb_env K) w d))
     \<and> (\<forall>w q. kube_log w \<noteq> [] \<longrightarrow> reads_deleted q (last (kube_log w))
           \<longrightarrow> http (kb_env K) w q = Inl (ApiException 404 None))
     \<and> (\<forall>w v k. \<not> isl (http (kb_env K) w (discovery_request v k)))"

lemma kube_readyD:
  assumes "kube_ready K"
  shows kube_ready_env: "env_ok (kb_env K)"
    and kube_ready_text: "status_message_or_body K [] = Inr []"
    and kube_ready_delete: "rq_service d = ''kubernetes'' \<Longrightarrow> rq_method d = ''delete''
      \<Longrightarrow> \<exists>v. http (kb_env K) w d = Inr v"
    and kube_ready_gone: "kube_log w \<noteq> [] \<Longrightarrow> reads_deleted q (last (kube_log w))
      \<Longrightarrow> http (kb_env K) w q = Inl (ApiException 404 None)"
    and kube_ready_discovery: "\<exists>v. http (kb_env K) w (discovery_request a k) = Inr v"
  using assms
  by (auto simp: kube_ready_def status_message_or_body_def isl_def)
    (metis sum.exhaust)+

text \<open>The client library returns objects for reads.\<close>

definition answers_objects :: "kube \<Rightarrow> bool" where
  "answers_objects K \<longleftrightarrow> (\<forall>w q. http (kb_env K) w q \<noteq> Inr JNull)"

text \<open>
  The pattern of the runners: delete, give up quietly when there is nothing to delete or the
  retries are exhausted, otherwise wait.
\<close>

definition delete_quietly ::
  "(world, unit) act \<Rightarrow> (world, unit) act \<Rightarrow> bool \<Rightarrow> (world, unit) act" where
  "delete_quietly del gone wait_for_deletion =
     bind (try_except (bind del (\<lambda>_. return True))
             (\<lambda>e. isinstance e [CNotFound, CRetryError]) (\<lambda>_. return False))
       (\<lambda>deleted. if deleted \<and> wait_for_deletion then gone else return ())"

text \<open>
  A resource: the delete that is asked for is the only change, an API server in good order takes
  it, and the wait for its end, which only reads, then returns; when the wait returns, the last
  answer of the API server was that the resource does not exist.
\<close>

locale kube_resource =
  fixes K :: kube and del :: "(world, unit) act" and gone :: "(world, unit) act" and dreq :: request
  assumes del_only: "env_ok (kb_env K) \<Longrightarrow> emits (\<lambda>w. w) (\<lambda>q. mutates q \<longrightarrow> q = dreq) del"
    and gone_reads: "env_ok (kb_env K) \<Longrightarrow> emits (\<lambda>w. w) (\<lambda>q. \<not> mutates q) gone"
    and del_ready: "kube_ready K \<Longrightarrow> \<exists>w'. del w = (Inr (), w') \<and> kube_log w' = kube_log w @ [dreq]"
    and gone_ready: "kube_ready K \<Longrightarrow> kube_log w \<noteq> [] \<Longrightarrow> last (kube_log w) = dreq
      \<Longrightarrow> \<exists>w'. gone w = (Inr (), w') \<and> kube_log w' = kube_log w"
    and gone_sound: "env_ok (kb_env K) \<Longrightarrow> never_not_found K \<Longrightarrow> answers_objects K
      \<Longrightarrow> gone w = (Inr (), w')
      \<Longrightarrow> \<exists>h q e. w' = h @ [q] \<and> reads_deleted q dreq \<and> http (kb_env K) h q = Inl e \<and> says_404 e"
begin

lemma delete_quietly_only:
  assumes "env_ok (kb_env K)"
  shows "emits (\<lambda>w. w) (\<lambda>q. mutates q \<longrightarrow> q = dreq) (delete_quietly del gone b)"
  unfolding delete_quietly_def
  by (intro emits_bind emits_try emits_pure emits_if del_only assms emits_mono [OF gone_reads [OF assms]]) simp

lemma delete_quietly_ready:
  assumes "kube_ready K"
  obtains w' where "delete_quietly del gone b w = (Inr (), w')" and "kube_log w' = kube_log w @ [dreq]"
proof -
  obtain w1 where w1: "del w = (Inr (), w1)" "kube_log w1 = kube_log w @ [dreq]"
    using del_ready [OF assms] by blast
  obtain w2 where "gone w1 = (Inr (), w2)" "kube_log w2 = kube_log w1"
    using gone_ready [OF assms, of w1] w1(2) by auto
  with w1 that show thesis
    by (cases b) (auto simp: delete_quietly_def bind_def try_except_def return_def)
qed

lemma delete_quietly_absent:
  assumes "del w = (Inl (NotFound x), w')"
  shows "delete_quietly del gone b w = (Inr (), w')"
  using assms by (simp add: delete_quietly_def bind_def try_except_def return_def)

lemma delete_quietly_sound:
  assumes "env_ok (kb_env K)" "never_not_found K" "answers_objects K"
    and "delete_quietly del gone True w = (Inr (), w')"
  obtains (gone) h q e where "w' = h @ [q]" "reads_deleted q dreq" "http (kb_env K) h q = Inl e" "says_404 e"
  | (given_up) e where "del w = (Inl e, w')" "isinstance e [CNotFound, CRetryError]"
proof -
  obtain r w1 where d: "del w = (r, w1)" by fastforce
  show thesis
  proof (cases r)
    case (Inl e)
    with assms(4) d have "isinstance e [CNotFound, CRetryError]" "w' = w1"
      by (auto simp: delete_quietly_def bind_def try_except_def return_def split: if_splits)
    with d Inl show thesis by (intro given_up) auto
  next
    case (Inr u)
    with assms(4) d have "gone w1 = (Inr (), w')"
      by (simp add: delete_quietly_def bind_def try_except_def return_def)
    from gone_sound [OF assms(1-3) this] show thesis using gone by blast
  qed
qed

lemma delete_quietly_reaches:
  assumes "kube_ready K" and "Q () self [dreq]"
  shows "reaches_by kube_log (call (delete_quietly del gone b)) self Q"
  by (rule reaches_call) (use assms delete_quietly_ready in metis)

end

section \<open>The resources of a namespace offer the contract\<close>

lemma new_client_reads [simp]: "\<not> mutates (new_client_request K)"
  by (simp add: new_client_request_def mutates_def)

lemma discovery_reads [simp]: "\<not> mutates (discovery_request v k)"
  by (simp add: discovery_request_def mutates_def)

lemma emits_kn_execute:
  "env_ok (kn_env N) \<Longrightarrow> P (new_client_request (kn_api N)) \<Longrightarrow> P q \<Longrightarrow> emits (\<lambda>w. w) P (kn_execute N q)"
  unfolding kn_execute_def by (intro emits_kube_execute emits_execute_once)

lemma emits_kn_run:
  "env_ok (kn_env N) \<Longrightarrow> P (new_client_request (kn_api N)) \<Longrightarrow> P q \<Longrightarrow> emits (\<lambda>w. w) P (kn_run N q)"
  unfolding kn_run_def by (intro emits_bind emits_kn_execute emits_pure)

lemma emits_get_kube_resource:
  "env_ok (kn_env N) \<Longrightarrow> \<not> mutates q \<Longrightarrow> emits (\<lambda>w. w) (\<lambda>q. \<not> mutates q) (get_kube_resource N q)"
  unfolding get_kube_resource_def by (intro emits_try emits_kn_execute emits_pure) simp_all

lemma kn_run_value: "http (kn_env N) w q = Inr v \<Longrightarrow> kn_run N q w = (Inr (), w @ [q])"
  by (simp add: kn_run_def kn_execute_def bind_def return_def kube_execute_value execute_once_def)

lemma kn_execute_missing:
  assumes "kube_ready (kn_api N)" and "http (kn_env N) w q = Inl (ApiException 404 None)"
  shows "kn_execute N q w = (Inl (NotFound ''Kubernetes API returned 404 Not Found: ''), w @ [q])"
proof -
  have one: "execute_once (kn_env N) q w = (Inl (ApiException 404 None), w @ [q])"
    using assms(2) by (simp add: execute_once_def)
  have "status_message_or_body (kn_api N) (case None of None \<Rightarrow> [] | Some b \<Rightarrow> lower b) = Inr []"
    using kube_ready_text [OF assms(1)] by simp
  from kube_execute_404 [where K = "kn_api N" and m = "execute_once (kn_env N) q" and body = None and w = w, OF one this] show ?thesis by (simp add: kn_execute_def)
qed

lemma get_kube_resource_missing:
  assumes "kube_ready (kn_api N)" and "http (kn_env N) w q = Inl (ApiException 404 None)"
  shows "get_kube_resource N q w = (Inr JNull, w @ [q])"
  using kn_execute_missing [OF assms] by (simp add: get_kube_resource_def try_except_def return_def)

text \<open>\<open>None\<close> means that the last answer was a 404.\<close>

lemma kn_execute_no_object:
  assumes "env_ok (kn_env N)" and "answers_objects (kn_api N)"
  shows "kn_execute N q w \<noteq> (Inr JNull, w')"
proof
  assume "kn_execute N q w = (Inr JNull, w')"
  then obtain h where "execute_once (kn_env N) q h = (Inr JNull, w')"
    unfolding kn_execute_def by (rule kube_execute_returns [OF assms(1)])
  with assms(2) show False by (simp add: execute_once_def answers_objects_def)
qed

lemma kn_execute_not_found:
  assumes "env_ok (kn_env N)" and "never_not_found (kn_api N)"
    and "kn_execute N q w = (Inl e, w')" and "isinstance e [CNotFound, CDynamicNotFoundError]"
  obtains h err where "w' = h @ [q]" "http (kn_env N) h q = Inl err" "says_404 err"
proof -
  have "\<And>h x h'. execute_once (kn_env N) q h \<noteq> (Inl (NotFound x), h')"
    using assms(2) by (simp add: execute_once_def never_not_found_def)
  from kube_execute_not_found [OF assms(1,2) this assms(3) [unfolded kn_execute_def] assms(4)]
  obtain h err where "execute_once (kn_env N) q h = (Inl err, w')" "says_404 err" by blast
  with that show thesis by (auto simp: execute_once_def)
qed

lemma get_kube_resource_none:
  assumes "env_ok (kn_env N)" and "never_not_found (kn_api N)" and "answers_objects (kn_api N)"
    and "get_kube_resource N q w = (Inr JNull, w')"
  obtains h e where "w' = h @ [q]" "http (kn_env N) h q = Inl e" "says_404 e"
proof -
  obtain r w1 where run: "kn_execute N q w = (r, w1)" by fastforce
  with assms(4) kn_execute_no_object [OF assms(1,3), of q w w'] obtain e where "r = Inl e" "isinstance e [CNotFound]" "w1 = w'"
    by (cases r) (auto simp: get_kube_resource_def try_except_def return_def split: if_splits)
  with run kn_execute_not_found [OF assms(1,2), of q w e w'] that show thesis by (cases e) auto
qed

text \<open>The retryer of a wait, for one that needs no retry.\<close>

lemma wait_until_first:
  assumes "env_ok (kn_env N)" and "m w = (Inr v, w')" and "check v = Inr True"
  shows "wait_until N s t check m w = (Inr v, w')"
proof -
  obtain cfg where cfg: "constant_retryer s 0 (Some t) None (Some check) [] = Inr cfg"
    by (simp add: constant_retryer_def)
  then have "rt_stop cfg \<noteq> []" "any_wanted (rt_retry cfg) (Inr v) = Inr False"
    using assms(3) by (auto simp: constant_retryer_def build_retry_conditions_def safe_check_result_def Let_def)
  from env_first [where fn = m and cfg = cfg, OF assms(1) this(1) assms(2) this(2)] show ?thesis
    by (simp add: wait_until_def cfg)
qed

lemma wait_until_value:
  assumes "env_ok (kn_env N)" and "wait_until N s t check m w = (Inr v, w')"
  obtains h where "m h = (Inr v, w')" and "check v = Inr True"
proof -
  obtain cfg where cfg: "constant_retryer s 0 (Some t) None (Some check) [] = Inr cfg"
    by (simp add: constant_retryer_def)
  then have stop: "rt_stop cfg \<noteq> []" by (auto simp: constant_retryer_def)
  from assms(2) have run: "tenacity (kn_env N) cfg m w = (Inr v, w')" by (simp add: wait_until_def cfg)
  from assms(1) have T: "tenacity_ok (tenacity (kn_env N))" by (simp add: env_ok_def)
  obtain h where h: "m h = (Inr v, w')" "any_wanted (rt_retry cfg) (Inr v) = Inr False"
    using T stop run by (rule tenacity_value)
  from h(2) cfg have "check v = Inr True"
    by (cases "check v")
      (auto simp: constant_retryer_def build_retry_conditions_def safe_check_result_def Let_def split: if_splits)
  with h(1) show thesis by (rule that)
qed

lemma emits_wait_until:
  assumes "env_ok (kn_env N)" and "emits (\<lambda>w. w) P m"
  shows "emits (\<lambda>w. w) P (wait_until N s t check m)"
proof -
  obtain cfg where cfg: "constant_retryer s 0 (Some t) None (Some check) [] = Inr cfg"
    by (simp add: constant_retryer_def)
  then have "rt_stop cfg \<noteq> []" by (auto simp: constant_retryer_def)
  with assms show ?thesis by (simp add: wait_until_def cfg emits_tenacity)
qed

lemma wait_gone_reads:
  "env_ok (kn_env N) \<Longrightarrow> emits (\<lambda>w. w) P get \<Longrightarrow> emits (\<lambda>w. w) P (wait_gone N s t get)"
  unfolding wait_gone_def by (intro emits_bind emits_wait_until emits_pure)

lemma wait_gone_first:
  "env_ok (kn_env N) \<Longrightarrow> get w = (Inr JNull, w') \<Longrightarrow> wait_gone N s t get w = (Inr (), w')"
  unfolding wait_gone_def by (simp add: bind_def return_def wait_until_first is_none_def)

lemma wait_gone_value:
  assumes "env_ok (kn_env N)" and "wait_gone N s t get w = (Inr (), w')"
  obtains h where "get h = (Inr JNull, w')"
proof -
  from assms(2) obtain v where "wait_until N s t is_none get w = (Inr v, w')"
    by (auto simp: wait_gone_def bind_eq_Inr return_def)
  with assms(1) obtain h where "get h = (Inr v, w')" "is_none v = Inr True" by (rule wait_until_value)
  with that show thesis by (simp add: is_none_def)
qed

text \<open>Resources of the typed APIs.\<close>

lemma typed_resource:
  assumes "reads_deleted q d" and "rq_service d = ''kubernetes''"
  shows "kube_resource (kn_api N) (kn_run N d) (wait_gone N s t (get_kube_resource N q)) d"
proof
  have q: "\<not> mutates q" using assms(1) by (auto simp: reads_deleted_def mutates_def)
  show "emits (\<lambda>w. w) (\<lambda>q. mutates q \<longrightarrow> q = d) (kn_run N d)" if "env_ok (kn_env N)"
    using that by (intro emits_kn_run) simp_all
  show "emits (\<lambda>w. w) (\<lambda>q. \<not> mutates q) (wait_gone N s t (get_kube_resource N q))" if "env_ok (kn_env N)"
    using that q by (intro wait_gone_reads emits_get_kube_resource)
  show "\<exists>w'. kn_run N d w = (Inr (), w') \<and> kube_log w' = kube_log w @ [d]" if ready: "kube_ready (kn_api N)" for w
  proof -
    have "rq_method d = ''delete''" using assms(1) by (simp add: reads_deleted_def)
    with kube_ready_delete [OF ready assms(2)] obtain v where "http (kn_env N) w d = Inr v" by blast
    then show ?thesis using assms(2) \<open>rq_method d = ''delete''\<close> by (simp add: kn_run_value mutates_def)
  qed
  show "\<exists>w'. wait_gone N s t (get_kube_resource N q) w = (Inr (), w') \<and> kube_log w' = kube_log w"
    if ready: "kube_ready (kn_api N)" and w: "kube_log w \<noteq> []" "last (kube_log w) = d" for w
  proof -
    have "http (kn_env N) w q = Inl (ApiException 404 None)"
      using kube_ready_gone [OF ready w(1)] assms(1) w(2) by simp
    then show ?thesis
      using wait_gone_first [OF kube_ready_env [OF ready] get_kube_resource_missing [OF ready]] q by fastforce
  qed
  show "\<exists>h q e. w' = h @ [q] \<and> reads_deleted q d \<and> http (kn_env N) h q = Inl e \<and> says_404 e"
    if ok: "env_ok (kn_env N)" "never_not_found (kn_api N)" "answers_objects (kn_api N)"
      and run: "wait_gone N s t (get_kube_resource N q) w = (Inr (), w')" for w w'
  proof -
    obtain h where "get_kube_resource N q h = (Inr JNull, w')" using ok(1) run by (rule wait_gone_value)
    then show ?thesis using get_kube_resource_none [OF ok] assms(1) by blast
  qed
qed

text \<open>
  Resources of the dynamic APIs. Looking up an API only reads, ends with that API, and succeeds on a
  server in good order.
\<close>

definition finds_api :: "kube \<Rightarrow> (world, dyn_api) act \<Rightarrow> dyn_api \<Rightarrow> bool" where
  "finds_api K find_api api \<longleftrightarrow>
     (env_ok (kb_env K) \<longrightarrow> emits (\<lambda>w. w) (\<lambda>q. \<not> mutates q) find_api)
     \<and> (\<forall>w a w'. find_api w = (Inr a, w') \<longrightarrow> a = api)
     \<and> (kube_ready K \<longrightarrow> (\<forall>w. \<exists>w'. find_api w = (Inr api, w') \<and> kube_log w' = kube_log w))"

lemma dynamic_api_finds:
  assumes "version \<in> set supported"
  shows "finds_api K (dynamic_api K api_name supported kind version) (api_name @ ''/'' @ version, kind)"
proof -
  let ?q = "discovery_request (api_name @ ''/'' @ version) kind"
  have load: "emits (\<lambda>w. w) (\<lambda>q. \<not> mutates q) (load_dynamic_api K api_name version kind)"
    if "env_ok (kb_env K)"
    unfolding load_dynamic_api_def Let_def
    by (intro emits_try emits_bind emits_kube_execute emits_execute_once emits_pure that) simp_all
  have "emits (\<lambda>w. w) (\<lambda>q. \<not> mutates q) (dynamic_api K api_name supported kind version)"
    if "env_ok (kb_env K)"
    using load [OF that] by (auto simp: emits_def dynamic_api_def)
  moreover have "a = (api_name @ ''/'' @ version, kind)"
    if "dynamic_api K api_name supported kind version w = (Inr a, w')" for w a w'
    using that assms
    by (auto simp: dynamic_api_def load_dynamic_api_def Let_def try_except_def bind_apply act_simps
        split: if_splits prod.splits sum.splits)
  moreover have "\<exists>w'. dynamic_api K api_name supported kind version w
        = (Inr (api_name @ ''/'' @ version, kind), w') \<and> kube_log w' = kube_log w"
    if ready: "kube_ready K" for w
  proof -
    obtain v where "http (kb_env K) w ?q = Inr v" using kube_ready_discovery [OF ready] by blast
    then have one: "execute_once (kb_env K) ?q w = (Inr v, w @ [?q])" by (simp add: execute_once_def)
    have "kube_execute K (execute_once (kb_env K) ?q) w = (Inr v, w @ [?q])"
      using kube_execute_value [where m = "execute_once (kb_env K) ?q" and K = K, OF one] .
    then show ?thesis using assms
      by (simp add: dynamic_api_def load_dynamic_api_def Let_def try_except_def bind_apply act_simps)
  qed
  ultimately show ?thesis unfolding finds_api_def by blast
qed

lemma dynamic_resource:
  assumes "finds_api (kn_api N) find_api api"
  shows "kube_resource (kn_api N) (kn_dyn_delete N find_api nm) (wait_gone N s t (get_dyn_resource N find_api nm))
    (dyn_delete_request N api DELETE_GRACE_PERIOD_SEC nm)"
proof
  let ?d = "dyn_delete_request N api DELETE_GRACE_PERIOD_SEC nm" and ?q = "dyn_read_request N api nm"
  have d: "rq_service ?d = ''kubernetes''" "rq_method ?d = ''delete''" and q: "\<not> mutates ?q" and qd: "reads_deleted ?q ?d"
    by (simp_all add: dyn_delete_request_def dyn_read_request_def dynamic_request_def mutates_def reads_deleted_def rq_arg_def)
  note finds = assms [unfolded finds_api_def]
  have only: "\<And>w a w'. find_api w = (Inr a, w') \<Longrightarrow> a = api" using finds by blast
  have look: "emits (\<lambda>w. w) P find_api" if "env_ok (kn_env N)" and "\<And>q. \<not> mutates q \<Longrightarrow> P q" for P
    using finds that by (blast intro: emits_mono)
  show "emits (\<lambda>w. w) (\<lambda>q. mutates q \<longrightarrow> q = ?d) (kn_dyn_delete N find_api nm)" if "env_ok (kn_env N)"
    unfolding kn_dyn_delete_def
    by (rule emits_bind_when [where Q = "\<lambda>a. a = api"]) (use that look only in \<open>auto intro!: emits_kn_run\<close>)
  show "emits (\<lambda>w. w) (\<lambda>q. \<not> mutates q) (wait_gone N s t (get_dyn_resource N find_api nm))" if "env_ok (kn_env N)"
    unfolding get_dyn_resource_def
    by (intro wait_gone_reads that, rule emits_bind_when [where Q = "\<lambda>a. a = api"])
      (use that look only q in \<open>auto intro!: emits_try emits_kn_execute emits_pure\<close>)
  show "\<exists>w'. kn_dyn_delete N find_api nm w = (Inr (), w') \<and> kube_log w' = kube_log w @ [?d]"
    if ready: "kube_ready (kn_api N)" for w
  proof -
    obtain w1 where "find_api w = (Inr api, w1)" "kube_log w1 = kube_log w" using finds ready by blast
    moreover obtain v where "http (kn_env N) w1 ?d = Inr v" using kube_ready_delete [OF ready d] by blast
    ultimately show ?thesis using d by (simp add: kn_dyn_delete_def bind_apply kn_run_value mutates_def)
  qed
  show "\<exists>w'. wait_gone N s t (get_dyn_resource N find_api nm) w = (Inr (), w') \<and> kube_log w' = kube_log w"
    if ready: "kube_ready (kn_api N)" and w: "kube_log w \<noteq> []" "last (kube_log w) = ?d" for w
  proof -
    obtain w1 where w1: "find_api w = (Inr api, w1)" "kube_log w1 = kube_log w" using finds ready by blast
    have "http (kn_env N) w1 ?q = Inl (ApiException 404 None)"
      using kube_ready_gone [OF ready, of w1] qd w w1(2) by simp
    from kn_execute_missing [OF ready this] w1
    have "get_dyn_resource N find_api nm w = (Inr JNull, w1 @ [?q])"
      by (simp add: get_dyn_resource_def bind_apply try_except_def return_def)
    then show ?thesis using wait_gone_first [OF kube_ready_env [OF ready]] w1(2) q by fastforce
  qed
  show "\<exists>h q e. w' = h @ [q] \<and> reads_deleted q ?d \<and> http (kn_env N) h q = Inl e \<and> says_404 e"
    if ok: "env_ok (kn_env N)" "never_not_found (kn_api N)" "answers_objects (kn_api N)"
      and run: "wait_gone N s t (get_dyn_resource N find_api nm) w = (Inr (), w')" for w w'
  proof -
    obtain h where "get_dyn_resource N find_api nm h = (Inr JNull, w')" using ok(1) run by (rule wait_gone_value)
    then obtain w1 where "try_except (kn_execute N ?q) (\<lambda>e. isinstance e [CNotFound, CDynamicNotFoundError])
        (\<lambda>_. return JNull) w1 = (Inr JNull, w')"
      using only by (auto simp: get_dyn_resource_def bind_eq_Inr)
    moreover obtain r w2 where run: "kn_execute N ?q w1 = (r, w2)" by fastforce
    ultimately obtain e where e: "r = Inl e" "isinstance e [CNotFound, CDynamicNotFoundError]" "w2 = w'"
      using kn_execute_no_object [OF ok(1,3), of ?q w1 w']
      by (cases r) (auto simp: try_except_def return_def split: if_splits)
    from run e(1,3) have "kn_execute N ?q w1 = (Inl e, w')" by simp
    then obtain h err where "w' = h @ [?q]" "http (kn_env N) h ?q = Inl err" "says_404 err"
      using e(2) by (rule kn_execute_not_found [OF ok(1,2)])
    with qd show ?thesis by blast
  qed
qed

lemma partition_slash_simps [simp]:
  "partition_slash ''gateway.networking.k8s.io/v1'' = (''gateway.networking.k8s.io'', ''v1'')"
  "partition_slash ''gateway.networking.k8s.io/v1beta1'' = (''gateway.networking.k8s.io'', ''v1beta1'')"
  "partition_slash ''networking.gke.io/v1'' = (''networking.gke.io'', ''v1'')"
  "partition_slash ''monitoring.googleapis.com/v1'' = (''monitoring.googleapis.com'', ''v1'')"
  "partition_slash ''net.gke.io/v1alpha1'' = (''net.gke.io'', ''v1alpha1'')"
  by (simp_all add: partition_slash_def)

lemma namespace_apis_find:
  "finds_api (kn_api N) (api_grpc_route N) (''gateway.networking.k8s.io/v1'', ''GRPCRoute'')"
  "finds_api (kn_api N) (api_http_route N) (''gateway.networking.k8s.io/v1beta1'', ''HTTPRoute'')"
  "finds_api (kn_api N) (api_session_affinity_filter N) (''networking.gke.io/v1'', ''GCPSessionAffinityFilter'')"
  "finds_api (kn_api N) (api_session_affinity_policy N) (''networking.gke.io/v1'', ''GCPSessionAffinityPolicy'')"
  "finds_api (kn_api N) (api_backend_policy N) (''networking.gke.io/v1'', ''GCPBackendPolicy'')"
  "finds_api (kn_api N) (api_pod_monitoring N) (''monitoring.googleapis.com/v1'', ''PodMonitoring'')"
  using dynamic_api_finds [of "''v1''" "[''v1'']" "kn_api N" "''gateway.networking.k8s.io''" "''GRPCRoute''"]
    dynamic_api_finds [of "''v1beta1''" "[''v1'', ''v1beta1'']" "kn_api N" "''gateway.networking.k8s.io''" "''HTTPRoute''"]
    dynamic_api_finds [of "''v1''" "[''v1'']" "kn_api N" "''networking.gke.io''" "''GCPSessionAffinityFilter''"]
    dynamic_api_finds [of "''v1''" "[''v1'']" "kn_api N" "''networking.gke.io''" "''GCPSessionAffinityPolicy''"]
    dynamic_api_finds [of "''v1''" "[''v1'']" "kn_api N" "''networking.gke.io''" "''GCPBackendPolicy''"]
    dynamic_api_finds [of "''v1''" "[''v1'']" "kn_api N" "''monitoring.googleapis.com''" "''PodMonitoring''"]
  by (simp_all add: api_grpc_route_def api_http_route_def api_session_affinity_filter_def
      api_session_affinity_policy_def api_backend_policy_def api_pod_monitoring_def get_dynamic_api_def
      grpc_route_def http_route_def gcp_session_affinity_filter_def gcp_session_affinity_policy_def
      gcp_backend_policy_def pod_monitoring_api_def)

definition gamma_route_api_of :: "route_kind \<Rightarrow> dyn_api" where
  "gamma_route_api_of kind =
     (case kind of HTTP_ROUTE \<Rightarrow> (''gateway.networking.k8s.io/v1beta1'', ''HTTPRoute'')
      | GRPC_ROUTE \<Rightarrow> (''gateway.networking.k8s.io/v1'', ''GRPCRoute''))"

lemma gamma_route_api_finds: "finds_api (kn_api N) (gamma_route_api N kind) (gamma_route_api_of kind)"
proof -
  note http = namespace_apis_find(2) [of N, unfolded finds_api_def]
    and grpc = namespace_apis_find(1) [of N, unfolded finds_api_def]
  have "emits (\<lambda>w. w) (\<lambda>q. \<not> mutates q) (gamma_route_api N kind)" if "env_ok (kn_env N)"
    using http grpc that unfolding gamma_route_api_def by (intro emits_bind emits_pure) blast+
  moreover have "a = gamma_route_api_of kind" if "gamma_route_api N kind w = (Inr a, w')" for w a w'
  proof -
    from that obtain h w1 g where run: "api_http_route N w = (Inr h, w1)" "api_grpc_route N w1 = (Inr g, w')"
      and a: "a = (case kind of HTTP_ROUTE \<Rightarrow> h | GRPC_ROUTE \<Rightarrow> g)"
      by (auto simp: gamma_route_api_def bind_eq_Inr return_def)
    from run http grpc have "h = (''gateway.networking.k8s.io/v1beta1'', ''HTTPRoute'')"
      "g = (''gateway.networking.k8s.io/v1'', ''GRPCRoute'')" by blast+
    with a show ?thesis by (cases kind) (simp_all add: gamma_route_api_of_def)
  qed
  moreover have "\<exists>w'. gamma_route_api N kind w = (Inr (gamma_route_api_of kind), w') \<and> kube_log w' = kube_log w"
    if ready: "kube_ready (kn_api N)" for w
  proof -
    obtain w1 where w1: "api_http_route N w = (Inr (gamma_route_api_of HTTP_ROUTE), w1)" "kube_log w1 = kube_log w"
      using http ready unfolding gamma_route_api_of_def route_kind.case by blast
    obtain w2 where "api_grpc_route N w1 = (Inr (gamma_route_api_of GRPC_ROUTE), w2)" "kube_log w2 = kube_log w1"
      using grpc ready unfolding gamma_route_api_of_def route_kind.case by blast
    with w1 show ?thesis by (cases kind) (auto simp: gamma_route_api_def bind_apply return_def)
  qed
  ultimately show ?thesis unfolding finds_api_def by blast
qed

lemmas typed_requests = reads_deleted_def typed_request_def rq_arg_def

lemma namespaced_resource:
  "kube_resource (kn_api N) (kn_run N (delete_request N api noun grace nm))
     (wait_gone N s t (get_kube_resource N (read_request N api noun nm))) (delete_request N api noun grace nm)"
  by (rule typed_resource) (simp_all add: typed_requests read_request_def delete_request_def)

interpretation service: kube_resource "kn_api N" "delete_service N nm" "wait_for_service_deleted N nm"
  "delete_request N ''CoreV1Api'' ''namespaced_service'' (Some DELETE_GRACE_PERIOD_SEC) nm" for N nm
  unfolding delete_service_def kn_delete_def wait_for_service_deleted_def get_service_def
  by (rule namespaced_resource)

interpretation service_account: kube_resource "kn_api N" "delete_service_account N nm"
  "wait_for_service_account_deleted N nm"
  "delete_request N ''CoreV1Api'' ''namespaced_service_account'' (Some DELETE_GRACE_PERIOD_SEC) nm" for N nm
  unfolding delete_service_account_def kn_delete_def wait_for_service_account_deleted_def get_k8s_service_account_def
  by (rule namespaced_resource)

interpretation deployment: kube_resource "kn_api N" "delete_deployment N nm" "wait_for_deployment_deleted N nm"
  "delete_request N ''AppsV1Api'' ''namespaced_deployment'' (Some DELETE_GRACE_PERIOD_SEC) nm" for N nm
  unfolding delete_deployment_def kn_delete_def wait_for_deployment_deleted_def get_deployment_def
  by (rule namespaced_resource)

interpretation pod: kube_resource "kn_api N" "delete_pod N grace nm" "wait_for_pod_deleted N t nm"
  "delete_request N ''CoreV1Api'' ''namespaced_pod'' grace nm" for N grace t nm
  unfolding delete_pod_def wait_for_pod_deleted_def get_pod_def
  by (rule namespaced_resource)

interpretation gamma_route: kube_resource "kn_api N" "delete_gamma_route N kind nm"
  "wait_for_get_gamma_route_deleted N kind nm"
  "dyn_delete_request N (gamma_route_api_of kind) DELETE_GRACE_PERIOD_SEC nm" for N kind nm
  unfolding delete_gamma_route_def wait_for_get_gamma_route_deleted_def get_gamma_route_def
  by (rule dynamic_resource [OF gamma_route_api_finds])

interpretation affinity_policy: kube_resource "kn_api N" "delete_session_affinity_policy N nm"
  "wait_for_get_session_affinity_policy_deleted N nm"
  "dyn_delete_request N (''networking.gke.io/v1'', ''GCPSessionAffinityPolicy'') DELETE_GRACE_PERIOD_SEC nm" for N nm
  unfolding delete_session_affinity_policy_def wait_for_get_session_affinity_policy_deleted_def
    get_session_affinity_policy_def
  by (rule dynamic_resource [OF namespace_apis_find(4)])

interpretation affinity_filter: kube_resource "kn_api N" "delete_session_affinity_filter N nm"
  "wait_for_get_session_affinity_filter_deleted N nm"
  "dyn_delete_request N (''networking.gke.io/v1'', ''GCPSessionAffinityFilter'') DELETE_GRACE_PERIOD_SEC nm" for N nm
  unfolding delete_session_affinity_filter_def wait_for_get_session_affinity_filter_deleted_def
    get_session_affinity_filter_def
  by (rule dynamic_resource [OF namespace_apis_find(3)])

interpretation backend_policy: kube_resource "kn_api N" "delete_backend_policy N nm"
  "wait_for_get_backend_policy_deleted N nm"
  "dyn_delete_request N (''networking.gke.io/v1'', ''GCPBackendPolicy'') DELETE_GRACE_PERIOD_SEC nm" for N nm
  unfolding delete_backend_policy_def wait_for_get_backend_policy_deleted_def get_backend_policy_def
  by (rule dynamic_resource [OF namespace_apis_find(5)])

text \<open>
  The namespace itself, with its own limits. The pause raises when the object has a pause but no
  timeout, so the contract is stated for a namespace without a pause.
\<close>

definition no_own_pause :: "kube_ns \<Rightarrow> kube_ns" where
  "no_own_pause N = N\<lparr>wait_for_namespace_deleted_sleep_sec := None\<rparr>"

interpretation namespace: kube_resource "kn_api N" "delete_namespace N"
  "wait_for_namespace_deleted (no_own_pause N) None None" "delete_namespace_request N" for N
proof -
  have "kube_resource (kn_api N) (kn_run N (delete_namespace_request N))
      (wait_gone N s t (get_kube_resource N (namespace_request N))) (delete_namespace_request N)" for s t
    by (rule typed_resource) (simp_all add: typed_requests namespace_request_def delete_namespace_request_def)
  moreover have "wait_for_namespace_deleted (no_own_pause N) None None
      = wait_gone N WAIT_LONG_SLEEP_SEC
          (case wait_for_namespace_deleted_timeout_sec N of Some t \<Rightarrow> t | None \<Rightarrow> WAIT_LONG_TIMEOUT_SEC)
          (get_kube_resource N (namespace_request N))"
    by (simp add: wait_for_namespace_deleted_def no_own_pause_def wait_gone_def wait_until_def get_namespace_def
        get_kube_resource_def kn_execute_def namespace_request_def)
  ultimately show "kube_resource (kn_api N) (delete_namespace N)
      (wait_for_namespace_deleted (no_own_pause N) None None) (delete_namespace_request N)"
    by (simp add: delete_namespace_def)
qed

section \<open>Properties\<close>

text \<open>An API server where nothing exists.\<close>

definition empty_kube :: kube where
  "empty_kube = busy_kube\<lparr>kb_env := (kb_env busy_kube)
     \<lparr>http := (\<lambda>w q. if rq_method q = ''read''
        \<or> rq_method q = ''get'' \<and> rq_arg q ''name'' \<noteq> None
        then Inl (ApiException 404 None) else Inr (JObj []))\<rparr>\<rparr>"

lemma empty_kube_ok:
  "env_ok (kb_env empty_kube)" "kube_ready empty_kube" "never_not_found empty_kube" "answers_objects empty_kube"
  using busy_kube_ok
  by (auto simp: env_ok_def empty_kube_def kube_ready_def busy_kube_def reads_deleted_def isl_def
      discovery_request_def never_not_found_def answers_objects_def new_client_request_def rq_arg_def)

lemma noting_value: "noting note m s = (Inr v, s') \<longleftrightarrow> m s = (Inr v, s')"
proof -
  obtain r s1 where m: "m s = (r, s1)" by fastforce
  show ?thesis
  proof (cases r)
    case (Inl e)
    have "noting note m s \<noteq> (Inr v, s')"
    proof (cases e)
      case (RetryError out info)
      with m Inl show ?thesis
        by (cases "note out") (auto simp: noting_def try_except_def act_simps)
    qed (use m Inl in \<open>auto simp: noting_def try_except_def act_simps\<close>)
    with m Inl show ?thesis by simp
  next
    case (Inr x)
    with m show ?thesis by (simp add: noting_def try_except_def)
  qed
qed

lemma get_kube_resource_value:
  assumes "env_ok (kn_env N)" and "get_kube_resource N q w = (Inr v, w')" and "v \<noteq> JNull"
  obtains h where "w' = h @ [q]" "http (kn_env N) h q = Inr v"
proof -
  from assms(2,3) have "kn_execute N q w = (Inr v, w')"
    by (auto simp: get_kube_resource_def try_except_def return_def split: prod.splits sum.splits if_splits)
  then obtain h where "execute_once (kn_env N) q h = (Inr v, w')"
    unfolding kn_execute_def by (rule kube_execute_returns [OF assms(1)])
  with that show thesis by (auto simp: execute_once_def)
qed

lemma available_replicas_value:
  assumes "env_ok (kn_env N)"
    and "wait_for_deployment_available_replicas N nm cnt timeout_sec wait_sec w = (Inr depl, w')"
  shows "\<exists>h. w' = h @ [read_request N ''AppsV1Api'' ''namespaced_deployment'' nm]
    \<and> http (kn_env N) h (read_request N ''AppsV1Api'' ''namespaced_deployment'' nm) = Inr depl
    \<and> is_instance ''V1Deployment'' depl
    \<and> (\<exists>r. getattrs depl [''status'', ''available_replicas''] = Inr r \<and> at_least r cnt = Inr True)"
proof -
  from assms(2) have "wait_until N wait_sec timeout_sec (replicas_available cnt) (get_deployment N nm) w
      = (Inr depl, w')"
    by (simp add: wait_for_deployment_available_replicas_def noting_value)
  with assms(1) obtain h where get: "get_deployment N nm h = (Inr depl, w')"
    and ok: "replicas_available cnt depl = Inr True" by (rule wait_until_value)
  from ok have "is_instance ''V1Deployment'' depl"
    "\<exists>r. getattrs depl [''status'', ''available_replicas''] = Inr r \<and> at_least r cnt = Inr True"
    by (auto simp: replicas_available_def ebind_Inr_iff split: if_splits)
  moreover from this(1) have "depl \<noteq> JNull" by (auto simp: is_instance_def)
  with assms(1) get obtain h' where "w' = h' @ [read_request N ''AppsV1Api'' ''namespaced_deployment'' nm]"
    "http (kn_env N) h' (read_request N ''AppsV1Api'' ''namespaced_deployment'' nm) = Inr depl"
    unfolding get_deployment_def by (rule get_kube_resource_value)
  ultimately show ?thesis by blast
qed

text \<open>
  C24: when the wait for available replicas returns, its value is a deployment, the answer of the
  API server to the last request, and it reports at least the number of replicas asked for.
\<close>

theorem available_replicas_sound:
  assumes "env_ok (kn_env N)"
    and "wait_for_deployment_available_replicas N nm cnt timeout_sec wait_sec w = (Inr depl, w')"
  shows "\<exists>h. w' = h @ [read_request N ''AppsV1Api'' ''namespaced_deployment'' nm]
    \<and> http (kn_env N) h (read_request N ''AppsV1Api'' ''namespaced_deployment'' nm) = Inr depl
    \<and> is_instance ''V1Deployment'' depl
    \<and> (\<exists>r. getattrs depl [''status'', ''available_replicas''] = Inr r \<and> at_least r cnt = Inr True)"
  using assms by (rule available_replicas_value)

text \<open>A deployment that becomes available with the second read.\<close>

definition demo_deployment :: "int \<Rightarrow> json" where
  "demo_deployment n = JObj [(''__class__'', JStr ''V1Deployment''),
     (''status'', JObj [(''available_replicas'', JInt n)])]"

definition scaling_kube :: kube where
  "scaling_kube = busy_kube\<lparr>kb_env := (kb_env busy_kube)
     \<lparr>tenacity := simple_retryer 1, http := (\<lambda>w q. Inr (demo_deployment (if w = [] then 0 else 2)))\<rparr>\<rparr>"

theorem available_replicas_sound_witness:
  "\<exists>depl w'. wait_for_deployment_available_replicas (kube_ns_init scaling_kube ''ns'') ''d'' 2 60 1 []
      = (Inr depl, w')
    \<and> (\<exists>r. getattrs depl [''status'', ''available_replicas''] = Inr r \<and> at_least r 2 = Inr True)"
proof -
  let ?run = "wait_for_deployment_available_replicas (kube_ns_init scaling_kube ''ns'') ''d'' 2 60 1 []"
  have "fst ?run = Inr (demo_deployment 2)" by code_simp
  then obtain w' where run: "?run = (Inr (demo_deployment 2), w')" by (cases ?run) auto
  have "env_ok (kn_env (kube_ns_init scaling_kube ''ns''))"
    using simple_retryer_ok by (simp add: env_ok_def scaling_kube_def kube_ns_init_def)
  from available_replicas_sound [OF this run] run show ?thesis by blast
qed

text \<open>
  A namespace with a pause of its own uses its timeout as the pause; when it has no timeout,
  the wait for its end raises before it reads anything.
\<close>

theorem own_pause_never_used:
  "wait_for_namespace_deleted
       (N\<lparr>wait_for_namespace_deleted_sleep_sec := Some s, wait_for_namespace_deleted_timeout_sec := Some t\<rparr>)
       None None w
     = wait_gone N t t (get_namespace N) w
   \<and> wait_for_namespace_deleted
       (N\<lparr>wait_for_namespace_deleted_sleep_sec := Some s, wait_for_namespace_deleted_timeout_sec := None\<rparr>)
       None None w
     = (Inl (TypeError ''unsupported type for timedelta seconds component: NoneType''), w)"
  by (simp add: wait_for_namespace_deleted_def wait_gone_def wait_until_def get_namespace_def
      get_kube_resource_def kn_execute_def namespace_request_def raise_def)

text \<open>
  The mesh resource can neither be read, deleted nor waited for: its API is none of those that
  the namespace knows, so every operation raises before it sends anything.
\<close>

theorem gke_mesh_unknown:
  "(\<exists>e. get_gamma_mesh N nm w = (Inl (NotImplementedError e), w)
      \<and> delete_gamma_mesh N nm w = (Inl (NotImplementedError e), w))"
  by (simp add: get_gamma_mesh_def delete_gamma_mesh_def kn_dyn_delete_def get_dyn_resource_def
      api_gke_mesh_def get_dynamic_api_def raise_def bind_apply)

end
