(* ===== verification/PortForward.thy ===== *)
theory PortForward
  imports KubeNamespace
begin

text \<open>
  framework/infrastructure/k8s_internal/k8s_port_forwarder.py: a local port forwarded to a pod by a
  \<open>kubectl\<close> process. What the process prints and how it ends are answers of the environment. The
  loop that waits for the line of a successful start may last for ever; it is given a number of
  steps.
\<close>

section \<open>Texts\<close>

definition is_digit :: "char \<Rightarrow> bool" where
  "is_digit c = (c \<in> set ''0123456789'')"

definition is_space :: "char \<Rightarrow> bool" where
  "is_space c = ((of_char c :: int) \<in> {9, 10, 11, 12, 13, 28, 29, 30, 31, 32})"

definition strip :: "string \<Rightarrow> string" where
  "strip s = rev (dropWhile is_space (rev (dropWhile is_space s)))"

definition int_of_digits :: "string \<Rightarrow> int" where
  "int_of_digits ds = fold (\<lambda>c n. 10 * n + ((of_char c :: int) - 48)) ds 0"

text \<open>
  Matching the head of a text against a pattern without operators other than the dot, which
  matches any character but a newline: the rest of the text.
\<close>

fun match_dots :: "string \<Rightarrow> string \<Rightarrow> string option" where
  "match_dots [] s = Some s"
| "match_dots (p # ps) [] = None"
| "match_dots (p # ps) (c # cs) =
     (if p = c \<or> p = CHR ''.'' \<and> c \<noteq> CHR 0x0A then match_dots ps cs else None)"

text \<open>
  The digits of the first match of \<open>Forwarding from ADDRESS:([0-9]+) -> PORT\<close>: a blank ends the
  digits, so the group is the whole run of digits.
\<close>

fun search_port :: "string \<Rightarrow> int \<Rightarrow> string \<Rightarrow> string option" where
  "search_port address port [] = None"
| "search_port address port (c # cs) =
     (case match_dots (''Forwarding from '' @ address @ '':'') (c # cs) of
        None \<Rightarrow> search_port address port cs
      | Some rest \<Rightarrow>
          if takeWhile is_digit rest \<noteq> []
             \<and> match_dots ('' -> '' @ str_int port) (dropWhile is_digit rest) \<noteq> None
          then Some (takeWhile is_digit rest)
          else search_port address port cs)"

section \<open>The forwarder\<close>

record port_forwarder =
  pf_context :: string
  pf_namespace :: string
  pf_destination :: string
  pf_remote_port :: int
  pf_local_address :: string
  pf_local_port :: "int option"
  pf_subprocess :: bool

definition port_forwarder_init ::
  "string \<Rightarrow> string \<Rightarrow> string \<Rightarrow> int \<Rightarrow> int option \<Rightarrow> string option \<Rightarrow> port_forwarder" where
  "port_forwarder_init context namespace destination remote_port local_port local_address =
     \<lparr>pf_context = context, pf_namespace = namespace, pf_destination = destination,
      pf_remote_port = remote_port,
      pf_local_address = (case local_address of Some a \<Rightarrow> (if a \<noteq> [] then a else ''127.0.0.1'')
                          | None \<Rightarrow> ''127.0.0.1''),
      pf_local_port = local_port, pf_subprocess = False\<rparr>"

type_synonym 'a pf_meth = "(port_forwarder \<times> world, 'a) act"

text \<open>\<open>if self.local_port:\<close>.\<close>

definition set_port :: "int option \<Rightarrow> bool" where
  "set_port p = (case p of None \<Rightarrow> False | Some n \<Rightarrow> n \<noteq> 0)"

definition process_request :: "string \<Rightarrow> string list \<Rightarrow> request" where
  "process_request verb args =
     Request ''subprocess'' ''kubectl'' verb [(''args'', JList (map JStr args))] []"

definition process_call :: "env \<Rightarrow> string \<Rightarrow> json pf_meth" where
  "process_call E verb = call (execute_once E (process_request verb []))"

definition forward_command :: "port_forwarder \<Rightarrow> string list" where
  "forward_command self =
     [''kubectl'', ''--context'', pf_context self, ''--namespace'', pf_namespace self,
      ''port-forward'', ''--address'', pf_local_address self, pf_destination self,
      (case pf_local_port self of
         Some p \<Rightarrow> if p \<noteq> 0 then str_int p @ '':'' @ str_int (pf_remote_port self)
                   else '':'' @ str_int (pf_remote_port self)
       | None \<Rightarrow> '':'' @ str_int (pf_remote_port self))]"

definition pf_close :: "env \<Rightarrow> unit pf_meth" where
  "pf_close E = using_self (\<lambda>self.
     if pf_subprocess self
     then bind (process_call E ''kill'') (\<lambda>_.
          bind (process_call E ''communicate'') (\<lambda>_.
            assign (pf_subprocess_update (\<lambda>_. False))))
     else return ())"

text \<open>The line of the process is the expected one, or holds the port that was picked.\<close>

definition check_output :: "string \<Rightarrow> unit pf_meth" where
  "check_output output = using_self (\<lambda>self.
     let unexpected = raise (PortForwardingError (''Error forwarding port, unexpected output '' @ output))
     in case pf_local_port self of
          Some p \<Rightarrow>
            if p \<noteq> 0 then
              (if output \<noteq> ''Forwarding from '' @ pf_local_address self @ '':'' @ str_int p
                   @ '' -> '' @ str_int (pf_remote_port self)
               then unexpected else return ())
            else
              (case search_port (pf_local_address self) (pf_remote_port self) output of
                 None \<Rightarrow> unexpected
               | Some ds \<Rightarrow> assign (pf_local_port_update (\<lambda>_. Some (int_of_digits ds))))
        | None \<Rightarrow>
            (case search_port (pf_local_address self) (pf_remote_port self) output of
               None \<Rightarrow> unexpected
             | Some ds \<Rightarrow> assign (pf_local_port_update (\<lambda>_. Some (int_of_digits ds)))))"

fun await_output :: "env \<Rightarrow> nat \<Rightarrow> unit pf_meth" where
  "await_output E 0 = raise Diverges"
| "await_output E (Suc fuel) =
     bind (process_call E ''readline'') (\<lambda>line.
       let output = strip (text_value E line) in
       if output = [] then
         bind (process_call E ''poll'') (\<lambda>return_code.
           if return_code \<noteq> JNull then
             bind (process_call E ''readlines'') (\<lambda>errors.
               raise (PortForwardingError (''Error forwarding port, kubectl return code ''
                 @ text_value E return_code @ '', output '' @ text_value E errors)))
           else await_output E fuel)
       else check_output output)"

definition pf_connect :: "env \<Rightarrow> nat \<Rightarrow> unit pf_meth" where
  "pf_connect E fuel = using_self (\<lambda>self.
     bind (call (execute_once E (process_request ''popen'' (forward_command self)))) (\<lambda>_.
     andthen (assign (pf_subprocess_update (\<lambda>_. True)))
       (try_except (await_output E fuel) (\<lambda>e. isinstance e [CException])
          (\<lambda>e. andthen (pf_close E) (raise e)))))"

text \<open>\<open>KubernetesNamespace.port_forward_pod\<close>.\<close>

definition port_forward_pod ::
  "kube_ns \<Rightarrow> nat \<Rightarrow> json \<Rightarrow> int \<Rightarrow> int option \<Rightarrow> string option \<Rightarrow> (world, port_forwarder) act" where
  "port_forward_pod N fuel pod remote_port local_port local_address =
     bind (lift (getattrs pod [''metadata'', ''name''])) (\<lambda>nm.
     bind (lift (getattrs pod [''status'', ''pod_ip''])) (\<lambda>_. (\<lambda>w.
       case pf_connect (kn_env N) fuel
          (port_forwarder_init (kb_context (kn_api N)) (kn_name N) (''pod/'' @ text_value (kn_env N) nm)
             remote_port local_port local_address, w) of
         (Inl e, (_, w')) \<Rightarrow> (Inl e, w')
       | (Inr _, (pf, w')) \<Rightarrow> (Inr pf, w'))))"

section \<open>What a forwarder sends\<close>

lemma emits_process_call [emits_intros]: "(\<And>q. P q) \<Longrightarrow> emits snd P (process_call E verb)"
  unfolding process_call_def by (intro emits_call emits_execute_once) simp

lemma emits_await_output: "(\<And>q. P q) \<Longrightarrow> emits snd P (await_output E fuel)"
  by (induction fuel)
    (auto simp: check_output_def Let_def intro!: emits_intros split: option.split)

lemma emits_port_forward_pod:
  assumes "\<And>q. P q"
  shows "emits (\<lambda>w. w) P (port_forward_pod N fuel pod remote_port local_port local_address)"
proof -
  have connect: "emits snd P (pf_connect E fuel)" for E
    unfolding pf_connect_def pf_close_def
    by (intro emits_using_self emits_bind emits_andthen emits_try emits_call emits_execute_once emits_await_output
        emits_object emits_if emits_process_call emits_pure assms)
  have "emits (\<lambda>w. w) P (\<lambda>w. case pf_connect E fuel (pf, w) of
      (Inl e, (_, w')) \<Rightarrow> (Inl e, w') | (Inr _, (pf, w')) \<Rightarrow> (Inr pf, w'))" for E pf
  proof (rule emitsI)
    fix w
    obtain r pf' w' where run: "pf_connect E fuel (pf, w) = (r, (pf', w'))" by (rule prod_cases3)
    then obtain rs where "w' = w @ rs" "\<forall>q \<in> set rs. P q" using emitsD [OF connect run] by auto
    with run show "\<exists>rs. snd (case pf_connect E fuel (pf, w) of
        (Inl e, (_, w')) \<Rightarrow> (Inl e, w') | (Inr _, (pf, w')) \<Rightarrow> (Inr pf, w')) = w @ rs \<and> (\<forall>q \<in> set rs. P q)"
      by (cases r) auto
  qed
  then show ?thesis unfolding port_forward_pod_def by (intro emits_bind emits_pure)
qed

section \<open>Properties\<close>

lemma process_call_run: "process_call E verb (self, w) = (http E w (process_request verb []), (self, w @ [process_request verb []]))"
  by (simp add: process_call_def call_def execute_once_def)

text \<open>The process can be killed, and ends then.\<close>

definition process_ends :: "env \<Rightarrow> bool" where
  "process_ends E \<longleftrightarrow> (\<forall>w. \<not> isl (http E w (process_request ''kill'' []))
     \<and> \<not> isl (http E w (process_request ''communicate'' [])))"

lemma pf_close_run:
  assumes "process_ends E"
  shows "\<exists>w'. pf_close E (self, w) = (Inr (), (self\<lparr>pf_subprocess := False\<rparr>, w'))"
proof -
  obtain k c where "http E w (process_request ''kill'' []) = Inr k"
    "http E (w @ [process_request ''kill'' []]) (process_request ''communicate'' []) = Inr c"
    using assms unfolding process_ends_def isl_def by (metis sum.exhaust)
  then show ?thesis
    by (cases "pf_subprocess self")
      (auto simp: pf_close_def using_self_def bind_apply process_call_run assign_def return_def
        intro: port_forwarder.equality)
qed


lemma await_output_port:
  assumes "await_output E fuel (self, w) = (Inr u, (self', w'))" and "pf_local_port self = None"
  shows "\<exists>h line ds. http E h (process_request ''readline'' []) = Inr line
     \<and> search_port (pf_local_address self) (pf_remote_port self) (strip (text_value E line)) = Some ds
     \<and> self' = self\<lparr>pf_local_port := Some (int_of_digits ds)\<rparr>"
  using assms
proof (induction fuel arbitrary: w)
  case (Suc fuel)
  obtain line where line: "http E w (process_request ''readline'' []) = Inr line"
    using Suc.prems(1) by (cases "http E w (process_request ''readline'' [])")
      (auto simp: bind_apply process_call_run)
  show ?case
  proof (cases "strip (text_value E line) = []")
    case True
    with Suc.prems(1) line obtain w1 where "await_output E fuel (self, w1) = (Inr u, (self', w'))"
      by (auto simp: bind_apply process_call_run raise_def split: sum.splits if_splits)
    from Suc.IH [OF this Suc.prems(2)] show ?thesis .
  next
    case False
    with Suc.prems line have "check_output (strip (text_value E line)) (self, w @ [process_request ''readline'' []])
        = (Inr u, (self', w'))"
      by (simp add: bind_apply process_call_run)
    with Suc.prems(2) line show ?thesis
      by (auto simp: check_output_def using_self_def raise_def assign_def split: option.splits)
  qed
qed (simp add: raise_def)

text \<open>
  A forwarder that connects has a process and a port; when no port was asked for, the port is
  the one in a line that the process printed.
\<close>

theorem connected_port:
  assumes "pf_connect E fuel (self, w) = (Inr u, (self', w'))" and "pf_local_port self = None"
  shows "pf_subprocess self' \<and> (\<exists>h line ds. http E h (process_request ''readline'' []) = Inr line
     \<and> search_port (pf_local_address self) (pf_remote_port self) (strip (text_value E line)) = Some ds
     \<and> pf_local_port self' = Some (int_of_digits ds))"
proof -
  let ?q = "process_request ''popen'' (forward_command self)"
  obtain v where v: "http E w ?q = Inr v"
    using assms(1) by (cases "http E w ?q")
      (auto simp: pf_connect_def using_self_def bind_apply call_def execute_once_def)
  obtain r s1 w1 where wait: "await_output E fuel (self\<lparr>pf_subprocess := True\<rparr>, w @ [?q]) = (r, (s1, w1))"
    by (metis prod.exhaust)
  with assms(1) v have "r = Inr u" "s1 = self'"
    by (cases r; auto simp: pf_connect_def using_self_def bind_apply call_def execute_once_def assign_def
        andthen_def try_except_def raise_def bind_eq_Inr split: if_splits prod.splits sum.splits)+
  with wait assms(2) obtain h line ds where "http E h (process_request ''readline'' []) = Inr line"
    "search_port (pf_local_address self) (pf_remote_port self) (strip (text_value E line)) = Some ds"
    "self' = self\<lparr>pf_subprocess := True, pf_local_port := Some (int_of_digits ds)\<rparr>"
    using await_output_port [of E fuel "self\<lparr>pf_subprocess := True\<rparr>" "w @ [?q]" u self' w1] by auto
  then show ?thesis by auto
qed

text \<open>A process that prints an empty line first.\<close>

definition forwarding_env :: env where
  "forwarding_env = (kb_env busy_kube)\<lparr>http := (\<lambda>w q.
     if rq_method q = ''readline'' \<and> length w = 3 then Inr (JStr ''Forwarding from 127.0.0.1:4321 -> 8'')
     else if rq_method q = ''readline'' then Inr (JStr [])
     else Inr JNull)\<rparr>"

definition demo_forwarder :: port_forwarder where
  "demo_forwarder = port_forwarder_init ''ctx'' ''ns'' ''pod/a'' 8 None None"

theorem connected_port_witness:
  "\<exists>self' w'. pf_connect forwarding_env 2 (demo_forwarder, []) = (Inr (), (self', w'))
    \<and> pf_subprocess self' \<and> pf_local_port self' \<noteq> None"
proof -
  let ?run = "pf_connect forwarding_env 2 (demo_forwarder, [])"
  have "fst ?run = Inr ()" by code_simp
  then obtain self' w' where run: "?run = (Inr (), (self', w'))" by (cases ?run) auto
  have none: "pf_local_port demo_forwarder = None"
    by (simp add: demo_forwarder_def port_forwarder_init_def)
  from connected_port [OF run none] run show ?thesis by auto
qed

text \<open>A process that ends at once.\<close>

definition failing_env :: env where
  "failing_env = (kb_env busy_kube)\<lparr>http := (\<lambda>w q.
     if rq_method q = ''readline'' then Inr (JStr []) else if rq_method q = ''poll'' then Inr (JInt 1)
     else Inr JNull)\<rparr>"


section \<open>The attempt ends\<close>

text \<open>
  A round of the loop in which the process printed nothing and has not ended, and the requests of
  \<open>k\<close> rounds.
\<close>

definition silent :: "env \<Rightarrow> world \<Rightarrow> bool" where
  "silent E w \<longleftrightarrow> (case http E w (process_request ''readline'' []) of
       Inl _ \<Rightarrow> False
     | Inr line \<Rightarrow> strip (text_value E line) = []
         \<and> http E (w @ [process_request ''readline'' []]) (process_request ''poll'' []) = Inr JNull)"

definition rounds :: "nat \<Rightarrow> request list" where
  "rounds k = concat (replicate k [process_request ''readline'' [], process_request ''poll'' []])"

text \<open>\<open>Diverges\<close> is an exception of the model only.\<close>

definition never_diverges :: "env \<Rightarrow> bool" where
  "never_diverges E \<longleftrightarrow> (\<forall>w verb args. http E w (process_request verb args) \<noteq> Inl Diverges)"

lemma check_output_ends: "fst (check_output txt (self, w)) \<noteq> Inl Diverges"
  by (auto simp: check_output_def Let_def using_self_def raise_def return_def assign_def split: option.splits)

lemma await_output_silent:
  "silent E w \<Longrightarrow> await_output E (Suc fuel) (self, w) = await_output E fuel (self, w @ rounds 1)"
  by (auto simp: silent_def rounds_def bind_apply process_call_run split: sum.splits)

lemma await_output_heard:
  assumes "never_diverges E" and "\<not> silent E w"
  shows "fst (await_output E (Suc fuel) (self, w)) \<noteq> Inl Diverges
    \<and> await_output E (Suc fuel) (self, w) = await_output E (Suc 0) (self, w)"
proof (cases "http E w (process_request ''readline'' [])")
  case (Inl e)
  with assms(1) show ?thesis by (auto simp: bind_apply process_call_run never_diverges_def)
next
  case (Inr line)
  let ?w = "w @ [process_request ''readline'' []]"
  show ?thesis
  proof (cases "strip (text_value E line) = []")
    case False
    with Inr check_output_ends show ?thesis by (simp add: bind_apply process_call_run)
  next
    case True
    with Inr assms have "http E ?w (process_request ''poll'' []) \<notin> {Inr JNull, Inl Diverges}"
      "http E (?w @ [process_request ''poll'' []]) (process_request ''readlines'' []) \<noteq> Inl Diverges"
      by (auto simp: silent_def never_diverges_def)
    with Inr True show ?thesis
      by (cases "http E ?w (process_request ''poll'' [])";
          cases "http E (?w @ [process_request ''poll'' []]) (process_request ''readlines'' [])")
        (auto simp: bind_apply process_call_run raise_def)
  qed
qed

lemma await_output_ends:
  assumes "never_diverges E" and "\<not> silent E (w @ rounds k)" and "k < fuel"
  shows "fst (await_output E fuel (self, w)) \<noteq> Inl Diverges
    \<and> await_output E fuel (self, w) = await_output E (Suc k) (self, w)"
  using assms(2,3)
proof (induction k arbitrary: w fuel)
  case 0
  then obtain n where "fuel = Suc n" by (cases fuel) auto
  with 0 await_output_heard [OF assms(1), of w n self] show ?case
    by (auto simp: rounds_def simp del: await_output.simps)
next
  case (Suc k)
  then obtain n where n: "fuel = Suc n" "k < n" by (cases fuel) auto
  show ?case
  proof (cases "silent E w")
    case True
    have "w @ rounds (Suc k) = (w @ rounds 1) @ rounds k" by (simp add: rounds_def)
    with Suc n have "fst (await_output E n (self, w @ rounds 1)) \<noteq> Inl Diverges
        \<and> await_output E n (self, w @ rounds 1) = await_output E (Suc k) (self, w @ rounds 1)"
      by (intro Suc.IH) simp_all
    with n(1) True show ?thesis by (auto simp: await_output_silent simp del: await_output.simps)
  next
    case False
    from await_output_heard [OF assms(1) this, of n self] await_output_heard [OF assms(1) False, of "Suc k" self] n(1)
    show ?thesis by (auto simp del: await_output.simps)
  qed
qed

text \<open>
  C28: an attempt to connect ends as soon as the process prints something, ends, or cannot be read: if
  that happens in round \<open>k\<close>, then every bound above \<open>k\<close> gives the same result, and it is not that the
  bound is used up.
\<close>

theorem connection_attempt_ends:
  assumes "never_diverges E" and "k < fuel"
    and "\<not> silent E ((w @ [process_request ''popen'' (forward_command self)]) @ rounds k)"
  shows "fst (pf_connect E fuel (self, w)) \<noteq> Inl Diverges
    \<and> pf_connect E fuel (self, w) = pf_connect E (Suc k) (self, w)"
proof (cases "http E w (process_request ''popen'' (forward_command self))")
  case (Inl e)
  with assms(1) show ?thesis
    by (auto simp: pf_connect_def using_self_def bind_apply call_def execute_once_def never_diverges_def)
next
  case (Inr v)
  let ?w = "w @ [process_request ''popen'' (forward_command self)]" and ?s = "self\<lparr>pf_subprocess := True\<rparr>"
  from await_output_ends [OF assms(1,3,2), of ?s]
  have wait: "fst (await_output E fuel (?s, ?w)) \<noteq> Inl Diverges"
    "await_output E fuel (?s, ?w) = await_output E (Suc k) (?s, ?w)" by blast+
  have "pf_connect E fuel (self, w) = pf_connect E (Suc k) (self, w)"
    using Inr wait(2) by (simp add: pf_connect_def using_self_def bind_apply call_def execute_once_def assign_def
        andthen_def try_except_def del: await_output.simps)
  moreover have "pf_close E s \<noteq> (Inl Diverges, s')" for s s'
    using assms(1) by (cases s) (auto simp: pf_close_def using_self_def bind_apply process_call_run assign_def return_def
        never_diverges_def split: sum.splits)
  then have "fst (pf_connect E fuel (self, w)) \<noteq> Inl Diverges"
    using Inr wait(1) by (auto simp: pf_connect_def using_self_def bind_apply call_def execute_once_def assign_def
        andthen_def try_except_def raise_def simp del: await_output.simps split: prod.splits sum.splits if_splits)
  ultimately show ?thesis by blast
qed

theorem connection_attempt_ends_witness:
  "pf_connect forwarding_env 9 (demo_forwarder, []) = pf_connect forwarding_env 2 (demo_forwarder, [])
    \<and> fst (pf_connect forwarding_env 9 (demo_forwarder, [])) \<noteq> Inl Diverges"
proof -
  have never: "never_diverges forwarding_env"
    by (auto simp: never_diverges_def forwarding_env_def)
  have "\<not> silent forwarding_env (([] @ [process_request ''popen'' (forward_command demo_forwarder)]) @ rounds 1)"
    by code_simp
  from connection_attempt_ends [OF never _ this, of 9] show ?thesis by (auto simp: numeral_2_eq_2)
qed

end
