(* ===== verification/BaseRunner.thy ===== *)
theory BaseRunner
  imports PortForward Iam "HOL-Library.AList" "HOL-Library.Multiset"
begin

text \<open>
  framework/test_app/runners/base_runner.py and runners/k8s/k8s_base_runner.py: what the runners of
  the test client and the test servers share. A runner creates the resources of its namespace from
  templates, waits until the pods run, and takes everything down again.
\<close>

section \<open>State\<close>

text \<open>
  What is outside: the documents of a rendered template (Mako and YAML), the time, the random part
  of a deployment id, the ISO text of a time, and the number of lines a port forwarder may wait
  for. Times are seconds.
\<close>

record outside =
  ro_render :: "string \<Rightarrow> (string \<times> json) list \<Rightarrow> exn + json list"
  ro_now :: "world \<Rightarrow> int"
  ro_rand_id :: "world \<Rightarrow> string"
  ro_iso :: "int \<Rightarrow> string"
  ro_fuel :: nat

record run_history =
  rh_deployment_id :: string
  rh_time_start_requested :: int
  rh_time_start_completed :: "int option"
  rh_time_stopped :: int

text \<open>
  The collector of a pod's logs is known by the pod's name. \<open>rn_collect_logs\<close> says whether the
  flag asked for logs, \<open>rn_log_stop_event\<close> whether the event of the current run is set.
\<close>

record runner =
  rn_ns :: kube_ns
  rn_deployment_name :: string
  rn_image_name :: string
  rn_gcp_project :: string
  rn_app_label :: string
  rn_gcp_service_account :: string
  rn_namespace_template :: string
  rn_reuse_namespace :: bool
  rn_collect_logs :: bool
  rn_log_to_stdout :: bool
  rn_run_history :: "run_history list"
  rn_log_stop_event :: "bool option"
  rn_namespace :: "json option"
  rn_deployment :: "json option"
  rn_deployment_id :: "string option"
  rn_service_account :: "json option"
  rn_pods_started :: "(string \<times> json) list"
  rn_pods_stopping :: "(string \<times> json) list"
  rn_pods_stopped :: "(string \<times> json) list"
  rn_port_forwarders :: "port_forwarder list"
  rn_log_collectors :: "string list"
  rn_time_start_requested :: "int option"
  rn_time_start_completed :: "int option"
  rn_time_stopped :: "int option"

type_synonym ('x, 'a) rn_meth = "('x runner_scheme \<times> world, 'a) act"

abbreviation rn_env :: "'x runner_scheme \<Rightarrow> env" where
  "rn_env self \<equiv> kn_env (rn_ns self)"

text \<open>An object or \<open>None\<close>.\<close>

definition some_object :: "json \<Rightarrow> json option" where
  "some_object v = (if v = JNull then None else Some v)"

definition no_object :: "json option \<Rightarrow> json" where
  "no_object v = (case v of None \<Rightarrow> JNull | Some obj \<Rightarrow> obj)"

text \<open>\<open>_reset_state\<close>; a new event is made when logs are collected.\<close>

definition reset_runner :: "'x runner_scheme \<Rightarrow> 'x runner_scheme" where
  "reset_runner self = self
     \<lparr>rn_log_stop_event := (if rn_collect_logs self then Some False else rn_log_stop_event self),
      rn_namespace := None, rn_deployment := None, rn_deployment_id := None, rn_service_account := None,
      rn_time_start_requested := None, rn_time_start_completed := None, rn_time_stopped := None,
      rn_port_forwarders := [], rn_log_collectors := [],
      rn_pods_started := [], rn_pods_stopping := [], rn_pods_stopped := []\<rparr>"

definition runner_init ::
  "kube_ns \<Rightarrow> string \<Rightarrow> string \<Rightarrow> string \<Rightarrow> string \<Rightarrow> string \<Rightarrow> string option \<Rightarrow> bool \<Rightarrow> bool \<Rightarrow> runner" where
  "runner_init k8s_namespace deployment_name image_name prj gcp_service_account app_label
       namespace_template reuse_namespace collect_logs =
     reset_runner
       \<lparr>rn_ns = k8s_namespace, rn_deployment_name = deployment_name, rn_image_name = image_name,
        rn_gcp_project = prj, rn_app_label = (if app_label \<noteq> [] then app_label else deployment_name),
        rn_gcp_service_account = gcp_service_account,
        rn_namespace_template = (case namespace_template of
            Some t \<Rightarrow> (if t \<noteq> [] then t else ''namespace.yaml'') | None \<Rightarrow> ''namespace.yaml''),
        rn_reuse_namespace = reuse_namespace, rn_collect_logs = collect_logs, rn_log_to_stdout = False,
        rn_run_history = [], rn_log_stop_event = None, rn_namespace = None, rn_deployment = None,
        rn_deployment_id = None, rn_service_account = None, rn_pods_started = [], rn_pods_stopping = [],
        rn_pods_stopped = [], rn_port_forwarders = [], rn_log_collectors = [],
        rn_time_start_requested = None, rn_time_start_completed = None, rn_time_stopped = None\<rparr>"

text \<open>A field set to the time of the assignment.\<close>

definition assign_now :: "outside \<Rightarrow> (int option \<Rightarrow> 'x runner_scheme \<Rightarrow> 'x runner_scheme) \<Rightarrow> ('x, unit) rn_meth" where
  "assign_now R u = (\<lambda>(self, w). (Inr (), (u (Some (ro_now R w)) self, w)))"

section \<open>Logs\<close>

definition maybe_stop_logging :: "('x, unit) rn_meth" where
  "maybe_stop_logging = using_self (\<lambda>self.
     if rn_collect_logs self then
       bind (attr_of ''is_set'' (rn_log_stop_event self)) (\<lambda>set.
         if \<not> set then assign (rn_log_stop_event_update (\<lambda>_. Some True)) else return ())
     else return ())"

text \<open>The forwarders are closed one after the other; one that raises ends the loop.\<close>

fun close_forwarders ::
  "env \<Rightarrow> port_forwarder list \<Rightarrow> world \<Rightarrow> (exn + unit) \<times> port_forwarder list \<times> world" where
  "close_forwarders E [] w = (Inr (), ([], w))"
| "close_forwarders E (pf # pfs) w =
     (case pf_close E (pf, w) of
        (Inl e, (pf', w')) \<Rightarrow> (Inl e, (pf' # pfs, w'))
      | (Inr _, (pf', w')) \<Rightarrow>
          (case close_forwarders E pfs w' of (r, (pfs', w'')) \<Rightarrow> (r, (pf' # pfs', w''))))"

definition stop_port_forwarders :: "('x, unit) rn_meth" where
  "stop_port_forwarders = (\<lambda>(self, w).
     case close_forwarders (rn_env self) (rn_port_forwarders self) w of
       (Inl e, (pfs, w')) \<Rightarrow> (Inl e, (self\<lparr>rn_port_forwarders := pfs\<rparr>, w'))
     | (Inr _, (pfs, w')) \<Rightarrow> (Inr (), (self\<lparr>rn_port_forwarders := []\<rparr>, w')))"

text \<open>Draining and flushing the logs only waits for and writes files.\<close>

definition stop_pod_dependencies :: "('x, unit) rn_meth" where
  "stop_pod_dependencies = stmts
     [maybe_stop_logging,
      stop_port_forwarders,
      assign (rn_log_collectors_update (\<lambda>_. []))]"

section \<open>Run and stop\<close>

definition start_completed :: "outside \<Rightarrow> ('x, unit) rn_meth" where
  "start_completed R = assign_now R (\<lambda>t. rn_time_start_completed_update (\<lambda>_. t))"

definition rn_stop :: "outside \<Rightarrow> ('x, unit) rn_meth" where
  "rn_stop R = stmts
     [assign_now R (\<lambda>t. rn_time_stopped_update (\<lambda>_. t)),
      using_self (\<lambda>self.
        case (rn_time_start_requested self, rn_deployment_id self, rn_time_stopped self) of
          (Some requested, Some depl_id, Some stopped) \<Rightarrow>
            if depl_id \<noteq> []
            then assign (rn_run_history_update (\<lambda>rs. rs @
              [\<lparr>rh_deployment_id = depl_id, rh_time_start_requested = requested,
                rh_time_start_completed = rn_time_start_completed self, rh_time_stopped = stopped\<rparr>]))
            else return ()
        | _ \<Rightarrow> return ())]"

section \<open>Creating from templates\<close>

text \<open>
  The first document of the rendered template is created; a second one that is not empty is
  refused. The log line reads the kind and the name of the object.
\<close>

definition object_attr :: "kube_ns \<Rightarrow> json \<Rightarrow> string \<Rightarrow> exn + json" where
  "object_attr N obj a =
     (if is_instance ''ResourceInstance'' obj then dyn_getattr N obj a else getattr obj a)"

definition object_name :: "kube_ns \<Rightarrow> json \<Rightarrow> exn + json" where
  "object_name N obj = ebind (object_attr N obj ''metadata'') (\<lambda>m.
     if is_instance ''ResourceInstance'' obj then dyn_getattr N m ''name'' else getattr m ''name'')"

definition create_from_template ::
  "outside \<Rightarrow> kube_ns \<Rightarrow> string \<Rightarrow> bool \<Rightarrow> (string \<times> json) list \<Rightarrow> (world, json) act" where
  "create_from_template R N template_name custom_object kwargs =
     bind (lift (ro_render R template_name kwargs)) (\<lambda>manifests.
       case manifests of
         [] \<Rightarrow> raise StopIteration
       | manifest # others \<Rightarrow>
           if (case others of [] \<Rightarrow> False | m # _ \<Rightarrow> py_truth m)
           then raise (RunnerError (''Exactly one document expected in manifest '' @ template_name))
           else
             bind (create_single_resource N manifest custom_object) (\<lambda>k8s_object.
             bind (lift (object_attr N k8s_object ''kind'')) (\<lambda>_.
             bind (lift (object_name N k8s_object)) (\<lambda>_.
               return k8s_object))))"

text \<open>
  What the creating methods have in common: the object must be of the class expected, and have the
  name asked for.
\<close>

definition check_created ::
  "kube_ns \<Rightarrow> (json \<Rightarrow> exn + bool) \<Rightarrow> string \<Rightarrow> string \<Rightarrow> json \<Rightarrow> json \<Rightarrow> exn + json" where
  "check_created N ok_class cls template expected obj =
     ebind (ok_class obj) (\<lambda>ok.
       if \<not> ok then Inl (RunnerError (''Expected '' @ cls @ '' to be created from manifest '' @ template))
       else ebind (object_name N obj) (\<lambda>nm.
         if nm \<noteq> expected
         then Inl (RunnerError (cls @ '' created with unexpected name: '' @ text_value (kn_env N) nm))
         else Inr obj))"

definition create_typed ::
  "outside \<Rightarrow> kube_ns \<Rightarrow> string \<Rightarrow> string \<Rightarrow> string \<Rightarrow> (string \<times> json) list \<Rightarrow> (world, json) act" where
  "create_typed R N cls name_arg template kwargs =
     bind (create_from_template R N template False kwargs) (\<lambda>obj.
       if \<not> is_instance cls obj
       then raise (RunnerError (''Expected '' @ cls @ '' to be created from manifest '' @ template))
       else bind (lift (getitem (JObj kwargs) name_arg)) (\<lambda>expected.
              lift (check_created N (\<lambda>_. Inr True) cls template expected obj)))"

definition create_namespace ::
  "outside \<Rightarrow> kube_ns \<Rightarrow> string \<Rightarrow> (string \<times> json) list \<Rightarrow> (world, json) act" where
  "create_namespace R N = create_typed R N ''V1Namespace'' ''namespace_name''"

definition create_service_account ::
  "outside \<Rightarrow> kube_ns \<Rightarrow> string \<Rightarrow> (string \<times> json) list \<Rightarrow> (world, json) act" where
  "create_service_account R N = create_typed R N ''V1ServiceAccount'' ''service_account_name''"

definition create_service ::
  "outside \<Rightarrow> kube_ns \<Rightarrow> string \<Rightarrow> (string \<times> json) list \<Rightarrow> (world, json) act" where
  "create_service R N = create_typed R N ''V1Service'' ''service_name''"

text \<open>A custom object of the given kind.\<close>

definition is_custom :: "kube_ns \<Rightarrow> string \<Rightarrow> json \<Rightarrow> exn + bool" where
  "is_custom N kind obj =
     (if is_instance ''ResourceInstance'' obj
      then ebind (dyn_getattr N obj ''kind'') (\<lambda>k. Inr (k = JStr kind)) else Inr False)"

definition create_custom ::
  "outside \<Rightarrow> kube_ns \<Rightarrow> string \<Rightarrow> string \<Rightarrow> string \<Rightarrow> (string \<times> json) list \<Rightarrow> (world, json) act" where
  "create_custom R N kind nm template kwargs =
     bind (create_from_template R N template True kwargs)
       (\<lambda>obj. lift (check_created N (is_custom N kind) kind template (JStr nm) obj))"

text \<open>The name of a pod monitoring is not checked.\<close>

definition create_pod_monitoring ::
  "outside \<Rightarrow> kube_ns \<Rightarrow> string \<Rightarrow> string \<Rightarrow> string \<Rightarrow> string \<Rightarrow> int \<Rightarrow> (world, json) act" where
  "create_pod_monitoring R N template namespace_name deployment_id pod_monitoring_name pod_monitoring_port =
     bind (create_from_template R N template True
             [(''namespace_name'', JStr namespace_name), (''deployment_id'', JStr deployment_id),
              (''pod_monitoring_name'', JStr pod_monitoring_name), (''pod_monitoring_port'', JInt pod_monitoring_port)])
       (\<lambda>obj. bind (lift (is_custom N ''PodMonitoring'' obj)) (\<lambda>ok.
          if ok then return obj
          else raise (RunnerError (''Expected ResourceInstance[PodMonitoring] to be created from manifest '' @ template))))"

definition create_session_affinity_policy ::
  "outside \<Rightarrow> kube_ns \<Rightarrow> string \<Rightarrow> string \<Rightarrow> string \<Rightarrow> (string \<times> json) list \<Rightarrow> (world, json) act" where
  "create_session_affinity_policy R N template session_affinity_policy_name namespace_name template_vars =
     (if (''route_name'' \<in> fst ` set template_vars) = (''service_name'' \<in> fst ` set template_vars)
      then raise (ValueError ''Exactly one of 'route_name', 'service_name' must be set'')
      else create_custom R N ''GCPSessionAffinityPolicy'' session_affinity_policy_name template
             ([(''session_affinity_policy_name'', JStr session_affinity_policy_name),
               (''namespace_name'', JStr namespace_name)] @ template_vars))"

definition create_session_affinity_filter ::
  "outside \<Rightarrow> kube_ns \<Rightarrow> string \<Rightarrow> string \<Rightarrow> string \<Rightarrow> (string \<times> json) list \<Rightarrow> (world, json) act" where
  "create_session_affinity_filter R N template session_affinity_filter_name namespace_name template_vars =
     create_custom R N ''GCPSessionAffinityFilter'' session_affinity_filter_name template
       ([(''session_affinity_filter_name'', JStr session_affinity_filter_name),
         (''namespace_name'', JStr namespace_name)] @ template_vars)"

text \<open>As written, the message of a wrong class does not name the template.\<close>

definition create_backend_policy ::
  "outside \<Rightarrow> kube_ns \<Rightarrow> string \<Rightarrow> string \<Rightarrow> string \<Rightarrow> string \<Rightarrow> (string \<times> json) list \<Rightarrow> (world, json) act" where
  "create_backend_policy R N template backend_policy_name namespace_name service_name template_vars =
     bind (create_from_template R N template True
             ([(''backend_policy_name'', JStr backend_policy_name), (''namespace_name'', JStr namespace_name),
               (''service_name'', JStr service_name)] @ template_vars))
       (\<lambda>obj. lift (check_created N (is_custom N ''GCPBackendPolicy'') ''GCPBackendPolicy'' ''{template}''
                      (JStr backend_policy_name) obj))"

text \<open>The kind that the created object has decides what it is.\<close>

definition create_gamma_route ::
  "outside \<Rightarrow> kube_ns \<Rightarrow> string \<Rightarrow> string \<Rightarrow> (string \<times> json) list \<Rightarrow> (world, json) act" where
  "create_gamma_route R N template route_name template_vars =
     bind (create_from_template R N template True ((''route_name'', JStr route_name) # template_vars)) (\<lambda>route.
       let kind_str = (case object_attr N route ''kind'' of Inr k \<Rightarrow> text_value (kn_env N) k | Inl _ \<Rightarrow> ''unknown'')
       in case route_kind_from_str kind_str of
            Inl _ \<Rightarrow> raise (RunnerError (''Expected a route to be created from manifest '' @ template @ '', got: '' @ kind_str))
          | Inr kind \<Rightarrow>
              bind (lift (object_name N route)) (\<lambda>nm.
                if nm \<noteq> JStr route_name
                then raise (RunnerError (route_kind_value kind @ '' created with unexpected name: '' @ text_value (kn_env N) nm))
                else return route))"

text \<open>The deployment gets an id of its own, unless the caller has chosen one.\<close>

definition create_deployment ::
  "outside \<Rightarrow> string \<Rightarrow> (string \<times> json) list \<Rightarrow> ('x, json) rn_meth" where
  "create_deployment R template kwargs = (\<lambda>(self, w).
     case map_of kwargs ''deployment_name'' of
       None \<Rightarrow> (Inl (TypeError ''Missing required keyword-only argument: deployment_name''), (self, w))
     | Some depl_name \<Rightarrow>
         let depl_id = (case map_of kwargs ''deployment_id'' of
               Some i \<Rightarrow> text_value (rn_env self) i
             | None \<Rightarrow> text_value (rn_env self) depl_name @ ''-'' @ ro_rand_id R w);
             args = (case map_of kwargs ''deployment_id'' of
               Some _ \<Rightarrow> kwargs | None \<Rightarrow> kwargs @ [(''deployment_id'', JStr depl_id)])
         in andthen (assign (rn_deployment_id_update (\<lambda>_. Some depl_id)))
              (call (create_typed R (rn_ns self) ''V1Deployment'' ''deployment_name'' template args)) (self, w))"

section \<open>Deleting\<close>

definition delete_gamma_route_of :: "route_kind \<Rightarrow> string \<Rightarrow> ('x, unit) rn_meth" where
  "delete_gamma_route_of kind nm = using_self (\<lambda>self. call
     (delete_quietly (delete_gamma_route (rn_ns self) kind nm) (wait_for_get_gamma_route_deleted (rn_ns self) kind nm) True))"

definition rn_delete_session_affinity_policy :: "string \<Rightarrow> ('x, unit) rn_meth" where
  "rn_delete_session_affinity_policy nm = using_self (\<lambda>self. call
     (delete_quietly (delete_session_affinity_policy (rn_ns self) nm)
        (wait_for_get_session_affinity_policy_deleted (rn_ns self) nm) True))"

definition rn_delete_session_affinity_filter :: "string \<Rightarrow> ('x, unit) rn_meth" where
  "rn_delete_session_affinity_filter nm = using_self (\<lambda>self. call
     (delete_quietly (delete_session_affinity_filter (rn_ns self) nm)
        (wait_for_get_session_affinity_filter_deleted (rn_ns self) nm) True))"

text \<open>The deletion of a pod monitoring is not waited for.\<close>

definition rn_delete_pod_monitoring :: "string \<Rightarrow> ('x, unit) rn_meth" where
  "rn_delete_pod_monitoring nm = using_self (\<lambda>self. call
     (delete_quietly (delete_pod_monitoring (rn_ns self) nm) (return ()) False))"

definition rn_delete_backend_policy :: "string \<Rightarrow> ('x, unit) rn_meth" where
  "rn_delete_backend_policy nm = using_self (\<lambda>self. call
     (delete_quietly (delete_backend_policy (rn_ns self) nm)
        (wait_for_get_backend_policy_deleted (rn_ns self) nm) True))"

text \<open>The runner's own \<open>stop_pod_dependencies\<close> comes first, outside of the \<open>try\<close>.\<close>

definition rn_delete_deployment :: "('x, unit) rn_meth \<Rightarrow> string \<Rightarrow> ('x, unit) rn_meth" where
  "rn_delete_deployment stop_dependencies nm =
     andthen stop_dependencies (using_self (\<lambda>self. call
       (delete_quietly (delete_deployment (rn_ns self) nm) (wait_for_deployment_deleted (rn_ns self) nm) True)))"

definition rn_delete_service :: "string \<Rightarrow> ('x, unit) rn_meth" where
  "rn_delete_service nm = using_self (\<lambda>self. call
     (delete_quietly (delete_service (rn_ns self) nm) (wait_for_service_deleted (rn_ns self) nm) True))"

definition rn_delete_service_account :: "string \<Rightarrow> ('x, unit) rn_meth" where
  "rn_delete_service_account nm = using_self (\<lambda>self. call
     (delete_quietly (delete_service_account (rn_ns self) nm)
        (wait_for_service_account_deleted (rn_ns self) nm) True))"

definition rn_delete_namespace :: "('x, unit) rn_meth" where
  "rn_delete_namespace = using_self (\<lambda>self. call
     (delete_quietly (delete_namespace (rn_ns self)) (wait_for_namespace_deleted (rn_ns self) None None) True))"

definition cleanup_namespace :: "bool \<Rightarrow> ('x, unit) rn_meth" where
  "cleanup_namespace force = using_self (\<lambda>self.
     if rn_namespace self \<noteq> None \<and> \<not> rn_reuse_namespace self \<or> force
     then andthen rn_delete_namespace (assign (rn_namespace_update (\<lambda>_. None)))
     else return ())"

section \<open>Starting a run\<close>

text \<open>
  \<open>reset\<close> is the class's own \<open>_reset_state\<close>. A run that was started and not stopped is refused.
\<close>

definition rn_run :: "outside \<Rightarrow> ('x runner_scheme \<Rightarrow> 'x runner_scheme) \<Rightarrow> ('x, unit) rn_meth" where
  "rn_run R reset = using_self (\<lambda>self.
     case (rn_time_stopped self, rn_time_start_requested self) of
       (None, Some requested) \<Rightarrow>
         (case rn_time_start_completed self of
            Some completed \<Rightarrow> raise (RuntimeError (''Deployment '' @ rn_deployment_name self @
              '': has already been started at '' @ ro_iso R completed))
          | None \<Rightarrow> raise (RuntimeError (''Deployment '' @ rn_deployment_name self @
              '': start has already been requested at '' @ ro_iso R requested)))
     | _ \<Rightarrow> stmts
         [assign reset,
          assign_now R (\<lambda>t. rn_time_start_requested_update (\<lambda>_. t)),
          using_self (\<lambda>self.
            if rn_reuse_namespace self
            then bind (call (get_namespace (rn_ns self))) (\<lambda>v. assign (rn_namespace_update (\<lambda>_. some_object v)))
            else return ()),
          using_self (\<lambda>self.
            if rn_namespace self = None then
              bind (call (create_namespace R (rn_ns self) (rn_namespace_template self)
                            [(''namespace_name'', JStr (kn_name (rn_ns self)))])) (\<lambda>v.
              andthen (assign (rn_namespace_update (\<lambda>_. Some v)))
                (bind (lift (namespace_active v)) (\<lambda>active.
                   if active then return ()
                   else call (wait_for_namespace_active (rn_ns self) WAIT_SHORT_TIMEOUT_SEC WAIT_SHORT_SLEEP_SEC))))
            else return ())])"

section \<open>Workload identity\<close>

definition ROLE_WORKLOAD_IDENTITY_USER :: string where
  "ROLE_WORKLOAD_IDENTITY_USER = ''roles/iam.workloadIdentityUser''"

definition workload_identity_member_name :: "string \<Rightarrow> string \<Rightarrow> string \<Rightarrow> string" where
  "workload_identity_member_name prj namespace_name service_account_name =
     ''serviceAccount:'' @ prj @ ''.svc.id.goog['' @ namespace_name @ ''/'' @ service_account_name @ '']''"

definition grant_workload_identity_user ::
  "iam option \<Rightarrow> string \<Rightarrow> string \<Rightarrow> ('x, unit) rn_meth" where
  "grant_workload_identity_user gcp_iam gcp_service_account service_account_name = using_self (\<lambda>self.
     bind (attr_of ''project'' gcp_iam) (\<lambda>c.
       call (add_service_account_iam_policy_binding c gcp_service_account ROLE_WORKLOAD_IDENTITY_USER
               (workload_identity_member_name (iam_project c) (kn_name (rn_ns self)) service_account_name))))"

text \<open>Errors of the Google Cloud APIs are only logged, but not the retry error of conflicts.\<close>

definition revoke_workload_identity_user ::
  "iam option \<Rightarrow> string \<Rightarrow> string \<Rightarrow> ('x, unit) rn_meth" where
  "revoke_workload_identity_user gcp_iam gcp_service_account service_account_name = using_self (\<lambda>self.
     bind (attr_of ''project'' gcp_iam) (\<lambda>c.
       try_except
         (call (remove_service_account_iam_policy_binding c gcp_service_account ROLE_WORKLOAD_IDENTITY_USER
                  (workload_identity_member_name (iam_project c) (kn_name (rn_ns self)) service_account_name)))
         (\<lambda>e. isinstance e [CGcpError]) (\<lambda>_. return ())))"

section \<open>Pods\<close>

definition pod_name_of :: "env \<Rightarrow> json \<Rightarrow> exn + string" where
  "pod_name_of E pod = ebind (getattrs pod [''metadata'', ''name'']) (\<lambda>v. Inr (text_value E v))"

definition pod_started_logic :: "json \<Rightarrow> ('x, unit) rn_meth" where
  "pod_started_logic pod = using_self (\<lambda>self.
     bind (lift (pod_name_of (rn_env self) pod)) (\<lambda>nm. stmts
       [assign (rn_pods_started_update (AList.update nm pod)),
        (if rn_collect_logs self
         then bind (attr_of ''log_stop_event'' (rn_log_stop_event self))
                (\<lambda>_. assign (rn_log_collectors_update (\<lambda>ps. ps @ [nm])))
         else return ())]))"

text \<open>From started to stopping, and from either to stopped.\<close>

definition pod_stopping_logic :: "string \<Rightarrow> 'x runner_scheme \<Rightarrow> bool \<times> 'x runner_scheme" where
  "pod_stopping_logic nm self =
     (case map_of (rn_pods_started self) nm of
        None \<Rightarrow> (False, self)
      | Some pod \<Rightarrow> (True, self
          \<lparr>rn_pods_started := AList.delete nm (rn_pods_started self),
           rn_pods_stopping := AList.update nm pod (rn_pods_stopping self)\<rparr>))"

definition pod_stopped_logic :: "string \<Rightarrow> 'x runner_scheme \<Rightarrow> bool \<times> 'x runner_scheme" where
  "pod_stopped_logic nm self =
     (case map_of (rn_pods_started self) nm of
        Some pod \<Rightarrow> (True, self
          \<lparr>rn_pods_started := AList.delete nm (rn_pods_started self),
           rn_pods_stopped := AList.update nm pod (rn_pods_stopped self)\<rparr>)
      | None \<Rightarrow>
          (case map_of (rn_pods_stopping self) nm of
             Some pod \<Rightarrow> (True, self
               \<lparr>rn_pods_stopping := AList.delete nm (rn_pods_stopping self),
                rn_pods_stopped := AList.update nm pod (rn_pods_stopped self)\<rparr>)
           | None \<Rightarrow> (False, self)))"

text \<open>Whatever happens to the request, the pod counts as stopping.\<close>

definition rn_delete_pod :: "string \<Rightarrow> int option \<Rightarrow> bool \<Rightarrow> bool \<Rightarrow> ('x, bool) rn_meth" where
  "rn_delete_pod nm grace_period ignore_errors wait_for_deletion =
     bind (try_finally
             (try_except
                (using_self (\<lambda>self. bind (call (delete_pod (rn_ns self) grace_period nm)) (\<lambda>_. return True)))
                (\<lambda>e. isinstance e [CNotFound, CRetryError])
                (\<lambda>e. if ignore_errors then return False
                     else if isinstance e [CRetryError]
                     then raise (add_note (''Exhausted pod deletion retries: '' @ nm) e)
                     else raise e))
             (assign (\<lambda>self. snd (pod_stopping_logic nm self))))
       (\<lambda>deleted.
          if \<not> deleted then return False
          else if wait_for_deletion then
            bind (using_self (\<lambda>self. call (wait_for_pod_deleted (rn_ns self)
                    (WAIT_SHORT_TIMEOUT_SEC + (case grace_period of None \<Rightarrow> 0 | Some g \<Rightarrow> g)) nm))) (\<lambda>_.
            bind (assign (\<lambda>self. snd (pod_stopped_logic nm self))) (\<lambda>_. return True))
          else return True)"

definition rn_list_deployment_pods :: "('x, json) rn_meth" where
  "rn_list_deployment_pods = using_self (\<lambda>self.
     if (case rn_deployment_id self of None \<Rightarrow> True | Some i \<Rightarrow> i = []) then return (JList [])
     else call (list_deployment_pods (rn_ns self) (no_object (rn_deployment self))))"

text \<open>The restarts of the containers of one pod, and of all pods.\<close>

definition int_of_json :: "json \<Rightarrow> exn + int" where
  "int_of_json v = (case v of JInt i \<Rightarrow> Inr i | JBool b \<Rightarrow> Inr (of_bool b)
     | _ \<Rightarrow> Inl (TypeError ''unsupported operand type(s) for +''))"

definition restarts_of :: "json \<Rightarrow> exn + int" where
  "restarts_of pod =
     ebind (getattrs pod [''status'', ''container_statuses'']) (\<lambda>statuses.
       if py_truth statuses
       then ebind (py_iter statuses) (\<lambda>ss.
            ebind (emap (\<lambda>st. ebind (getattr st ''restart_count'') int_of_json) ss) (\<lambda>ns. Inr (sum_list ns)))
       else Inr 0)"

definition get_pod_restarts :: "json option \<Rightarrow> ('x, int) rn_meth" where
  "get_pod_restarts deployment =
     (case deployment of
        None \<Rightarrow> return 0
      | Some _ \<Rightarrow>
          bind rn_list_deployment_pods (\<lambda>pods. bind (lift (py_iter pods)) (\<lambda>ps.
            bind (lift (emap restarts_of ps)) (\<lambda>ns. return (sum_list ns)))))"

definition wait_deployment_with_available_replicas :: "string \<Rightarrow> int \<Rightarrow> ('x, unit) rn_meth" where
  "wait_deployment_with_available_replicas nm cnt = using_self (\<lambda>self.
     bind (call (wait_for_deployment_available_replicas (rn_ns self) nm cnt WAIT_MEDIUM_TIMEOUT_SEC WAIT_SHORT_SLEEP_SEC))
       (\<lambda>deployment. bind (lift (getattrs deployment [''metadata'', ''name''])) (\<lambda>_. return ())))"

text \<open>The pods are listed again after the wait.\<close>

definition wait_deployment_pod_count :: "json \<Rightarrow> int \<Rightarrow> ('x, string list) rn_meth" where
  "wait_deployment_pod_count deployment cnt = using_self (\<lambda>self.
     bind (lift (getattrs deployment [''metadata'', ''name''])) (\<lambda>_.
     bind (call (wait_for_deployment_replica_count (rn_ns self) deployment cnt WAIT_MEDIUM_TIMEOUT_SEC WAIT_SHORT_SLEEP_SEC)) (\<lambda>_.
     bind (call (list_deployment_pods (rn_ns self) deployment)) (\<lambda>pods.
     bind (lift (py_iter pods)) (\<lambda>ps.
       lift (emap (pod_name_of (rn_env self)) ps))))))"

definition wait_pod_started :: "string \<Rightarrow> ('x, json) rn_meth" where
  "wait_pod_started nm = using_self (\<lambda>self.
     bind (call (wait_for_pod_started (rn_ns self) nm WAIT_POD_START_TIMEOUT_SEC WAIT_SHORT_SLEEP_SEC)) (\<lambda>_.
     bind (call (get_pod (rn_ns self) nm)) (\<lambda>pod.
     bind (lift (getattrs pod [''status'', ''pod_ips''])) (\<lambda>_.
     bind (lift (getattrs pod [''metadata'', ''name''])) (\<lambda>_. return pod)))))"

definition start_port_forwarding_pod :: "outside \<Rightarrow> json \<Rightarrow> int \<Rightarrow> ('x, port_forwarder) rn_meth" where
  "start_port_forwarding_pod R pod remote_port = using_self (\<lambda>self.
     bind (call (port_forward_pod (rn_ns self) (ro_fuel R) pod remote_port None None)) (\<lambda>pf.
     bind (assign (rn_port_forwarders_update (\<lambda>pfs. pfs @ [pf]))) (\<lambda>_. return pf)))"

definition wait_service_neg_status_annotation :: "string \<Rightarrow> int \<Rightarrow> int \<Rightarrow> ('x, unit) rn_meth" where
  "wait_service_neg_status_annotation service_name service_port timeout_sec = using_self (\<lambda>self.
     bind (call (wait_for_service_neg_status_annotation (rn_ns self) service_name timeout_sec WAIT_SHORT_SLEEP_SEC)) (\<lambda>_.
     bind (call (parse_service_neg_status (rn_ns self) service_name service_port)) (\<lambda>_. return ())))"

text \<open>No trailing dash when the suffix is empty.\<close>

definition make_namespace_name :: "string \<Rightarrow> string \<Rightarrow> string \<Rightarrow> string" where
  "make_namespace_name resource_prefix resource_suffix nm =
     str_join ''-'' ([resource_prefix, nm] @ (if resource_suffix \<noteq> [] then [resource_suffix] else []))"

section \<open>Properties\<close>

text \<open>What \<open>_stop\<close> leaves behind when it is called at the time \<open>t\<close>.\<close>

definition stopped_at :: "int \<Rightarrow> 'x runner_scheme \<Rightarrow> 'x runner_scheme" where
  "stopped_at t self = self
     \<lparr>rn_time_stopped := Some t,
      rn_run_history := (case (rn_time_start_requested self, rn_deployment_id self) of
          (Some requested, Some depl_id) \<Rightarrow>
            (if depl_id \<noteq> []
             then rn_run_history self @ [\<lparr>rh_deployment_id = depl_id, rh_time_start_requested = requested,
                    rh_time_start_completed = rn_time_start_completed self, rh_time_stopped = t\<rparr>]
             else rn_run_history self)
        | _ \<Rightarrow> rn_run_history self)\<rparr>"

lemma rn_stop_run: "rn_stop R (self, w) = (Inr (), (stopped_at (ro_now R w) self, w))"
  by (cases self)
    (simp add: rn_stop_def assign_now_def stopped_at_def andthen_def bind_apply return_def using_self_def assign_def
      split: option.split)

lemma reaches_stop [reaches_intros]:
  "(\<And>t. Q () (stopped_at t self) []) \<Longrightarrow> reaches_by f (rn_stop R) self Q"
  by (simp add: reaches_by_def rn_stop_run)

lemma keeps_assign_now [keeps_intros]:
  "(\<And>obj t. I obj \<Longrightarrow> I (u t obj)) \<Longrightarrow> keeps (\<lambda>s. I (fst s)) (assign_now R u)"
  by (auto simp: keeps_def assign_now_def)

text \<open>
  A runner runs once at a time. However a run ended, unless the runner has been stopped since,
  another run is refused with \<open>RuntimeError\<close>, and nothing is sent or changed.
\<close>

theorem second_run_refused:
  assumes reset: "\<And>s. rn_time_stopped (reset s) = None"
    and run: "rn_run R reset (self, w) = (r, (self', w'))"
  shows "\<exists>msg. rn_run R reset' (self', w1) = (Inl (RuntimeError msg), (self', w1))"
proof -
  let ?I = "\<lambda>s. rn_time_stopped s = None \<and> rn_time_start_requested s \<noteq> None"
  have "?I self'"
  proof (cases "?I self")
    case True
    with run show ?thesis
      by (auto simp: rn_run_def using_self_def raise_def split: option.splits)
  next
    case False
    let ?rest = "stmts
         [using_self (\<lambda>self.
            if rn_reuse_namespace self
            then bind (call (get_namespace (rn_ns self))) (\<lambda>v. assign (rn_namespace_update (\<lambda>_. some_object v)))
            else return ()),
          using_self (\<lambda>self.
            if rn_namespace self = None then
              bind (call (create_namespace R (rn_ns self) (rn_namespace_template self)
                            [(''namespace_name'', JStr (kn_name (rn_ns self)))])) (\<lambda>v.
              andthen (assign (rn_namespace_update (\<lambda>_. Some v)))
                (bind (lift (namespace_active v)) (\<lambda>active.
                   if active then return ()
                   else call (wait_for_namespace_active (rn_ns self) WAIT_SHORT_TIMEOUT_SEC WAIT_SHORT_SLEEP_SEC))))
            else return ())]"
    have kept: "keeps (\<lambda>s. ?I (fst s)) ?rest"
      unfolding stmts.simps by (intro keeps_andthen keeps_using_self keeps_if keeps_bind keeps_object keeps_basic) simp_all
    obtain t where "?rest (rn_time_start_requested_update (\<lambda>_. Some t) (reset self), w) = (r, (self', w'))"
      using run False
      by (auto simp: rn_run_def using_self_def andthen_def bind_apply assign_def assign_now_def split: option.splits)
    from keepsD [OF kept this] reset show ?thesis by simp
  qed
  then show ?thesis
    by (auto simp: rn_run_def using_self_def raise_def split: option.split)
qed

text \<open>An API server that creates what it is asked for, and answers 404 to a read of what is deleted.\<close>

definition demo_object :: "string \<Rightarrow> string \<Rightarrow> json" where
  "demo_object cls nm = JObj [(''__class__'', JStr cls), (''kind'', JStr cls),
     (''metadata'', JObj [(''name'', JStr nm), (''annotations'', JObj [(''cloud.google.com/neg-status'', JStr ''neg'')])]),
     (''spec'', JObj [(''selector'', JObj [(''match_labels'', JObj [])])]),
     (''status'', JObj [(''phase'', JStr ''Active''), (''available_replicas'', JInt 1),
        (''pod_ip'', JStr ''10.0.0.1''), (''pod_ips'', JNull)])]"

definition demo_template :: "string \<Rightarrow> string \<times> string" where
  "demo_template t =
     (if t = ''namespace.yaml'' then (''V1Namespace'', ''namespace_name'')
      else if t = ''service-account.yaml'' then (''V1ServiceAccount'', ''service_account_name'')
      else if t = ''server.service.yaml'' then (''V1Service'', ''service_name'')
      else (''V1Deployment'', ''deployment_name''))"

definition demo_outside :: outside where
  "demo_outside =
     \<lparr>ro_render = (\<lambda>t kwargs. case map_of kwargs (snd (demo_template t)) of
          Some (JStr nm) \<Rightarrow> Inr [demo_object (fst (demo_template t)) nm]
        | _ \<Rightarrow> Inl (KeyError t)),
      ro_now = (\<lambda>w. int (length w)), ro_rand_id = (\<lambda>w. ''1''), ro_iso = (\<lambda>t. ''t''), ro_fuel = 2\<rparr>"

definition live_answer :: "world \<Rightarrow> request \<Rightarrow> exn + json" where
  "live_answer w q =
     (if rq_method q = ''create'' then Inr (JList (case rq_arg q ''data'' of None \<Rightarrow> [] | Some m \<Rightarrow> [m]))
      else if rq_method q = ''list'' then Inr (JObj [(''items'', JList [demo_object ''V1Pod'' ''p''])])
      else if kube_log w \<noteq> [] \<and> reads_deleted q (last (kube_log w)) then Inl (ApiException 404 None)
      else if rq_collection q = ''CoreV1Api.namespaced_pod'' then Inr (demo_object ''V1Pod'' ''p'')
      else if rq_collection q = ''CoreV1Api.namespaced_service'' then Inr (demo_object ''V1Service'' ''s'')
      else if rq_collection q = ''AppsV1Api.namespaced_deployment'' then Inr (demo_object ''V1Deployment'' ''d'')
      else Inr (demo_object ''V1Namespace'' ''ns''))"

definition live_kube :: kube where
  "live_kube = busy_kube\<lparr>kb_env := (kb_env busy_kube)\<lparr>http := live_answer\<rparr>,
     kb_json_loads := (\<lambda>s. if s = [] then Inl (ValueError s)
       else Inr (JObj [(''network_endpoint_groups'', JObj [(''8'', JStr ''n'')]), (''zones'', JList [])]))\<rparr>"

lemma live_kube_ok: "env_ok (kb_env live_kube)" "kube_ready live_kube" "never_not_found live_kube" "answers_objects live_kube"
  using busy_kube_ok
  by (auto simp: env_ok_def live_kube_def kube_ready_def live_answer_def reads_deleted_def isl_def busy_kube_def
      discovery_request_def never_not_found_def answers_objects_def demo_object_def rq_arg_def)

definition demo_runner :: runner where
  "demo_runner = runner_init (kube_ns_init live_kube ''ns'') ''d'' ''img'' ''prj'' ''gsa'' [] None False True"

theorem second_run_refused_witness:
  "fst (rn_run demo_outside reset_runner (demo_runner, [])) = Inr ()
   \<and> (\<exists>msg. fst (rn_run demo_outside reset_runner
         (snd (rn_run demo_outside reset_runner (demo_runner, [])))) = Inl (RuntimeError msg))"
proof -
  let ?run = "rn_run demo_outside reset_runner (demo_runner, [])"
  have ok: "fst ?run = Inr ()" by code_simp
  obtain self' w' where run: "?run = (Inr (), (self', w'))" using ok by (cases ?run) auto
  have "rn_time_stopped (reset_runner s) = None" for s :: runner by (simp add: reset_runner_def)
  from second_run_refused [OF this run, of reset_runner w'] run ok show ?thesis by auto
qed

text \<open>
  The pods of a runner, each under its name in exactly one of the three states.
\<close>

definition tracked :: "'x runner_scheme \<Rightarrow> (string \<times> json) list" where
  "tracked self = rn_pods_started self @ rn_pods_stopping self @ rn_pods_stopped self"

definition pods_ok :: "'x runner_scheme \<Rightarrow> bool" where
  "pods_ok self \<longleftrightarrow> distinct (map fst (tracked self))"

lemma update_new: "nm \<notin> fst ` set xs \<Longrightarrow> AList.update nm v xs = xs @ [(nm, v)]"
  by (induction xs) auto

lemma keys_delete: "fst ` set (AList.delete nm xs) = fst ` set xs - {nm}"
  by (auto simp: AList.delete_eq)

lemma delete_absent: "nm \<notin> fst ` set xs \<Longrightarrow> AList.delete nm xs = xs"
  by (induction xs) auto

lemma mset_delete:
  "distinct (map fst xs) \<Longrightarrow> map_of xs nm = Some v \<Longrightarrow> add_mset (nm, v) (mset (AList.delete nm xs)) = mset xs"
proof (induction xs)
  case (Cons p xs)
  show ?case
  proof (cases "fst p = nm")
    case True
    with Cons.prems have "p = (nm, v)" "nm \<notin> fst ` set xs" by (cases p; simp)+
    then show ?thesis by (simp add: delete_absent)
  next
    case False
    with Cons show ?thesis by (cases p) auto
  qed
qed simp

lemma absent_key: "map_of xs nm = None \<Longrightarrow> nm \<notin> fst ` set xs"
  by (simp add: map_of_eq_None_iff)

lemma present_key: "map_of xs nm = Some v \<Longrightarrow> nm \<in> fst ` set xs"
  by (force dest: map_of_SomeD)

lemma pods_ok_cong: "mset (tracked self') = mset (tracked self) \<Longrightarrow> pods_ok self \<Longrightarrow> pods_ok self'"
  unfolding pods_ok_def by (metis mset_map mset_eq_imp_distinct_iff)

lemma pods_okD:
  assumes "pods_ok self"
  shows "distinct (map fst (rn_pods_started self))" "distinct (map fst (rn_pods_stopping self))"
    "nm \<in> fst ` set (rn_pods_started self) \<Longrightarrow> nm \<notin> fst ` set (rn_pods_stopping self) \<and> nm \<notin> fst ` set (rn_pods_stopped self)"
    "nm \<in> fst ` set (rn_pods_stopping self) \<Longrightarrow> nm \<notin> fst ` set (rn_pods_stopped self)"
  using assms by (auto simp: pods_ok_def tracked_def)

text \<open>A pod changes its state, and none is lost.\<close>

lemma pod_stopping_keeps:
  assumes "pods_ok self"
  shows "mset (tracked (snd (pod_stopping_logic nm self))) = mset (tracked self)"
    and "nm \<notin> fst ` set (rn_pods_started (snd (pod_stopping_logic nm self)))"
proof -
  show "mset (tracked (snd (pod_stopping_logic nm self))) = mset (tracked self)"
  proof (cases "map_of (rn_pods_started self) nm")
    case (Some pod)
    have new: "nm \<notin> fst ` set (rn_pods_stopping self)" using pods_okD(3) [OF assms present_key [OF Some]] by simp
    from mset_delete [OF pods_okD(1) [OF assms] Some] Some show ?thesis
      by (simp add: pod_stopping_logic_def tracked_def update_new [OF new])
  qed (simp add: pod_stopping_logic_def)
  show "nm \<notin> fst ` set (rn_pods_started (snd (pod_stopping_logic nm self)))"
    by (auto simp: pod_stopping_logic_def keys_delete dest: absent_key split: option.split)
qed

lemma pod_stopped_keeps:
  assumes "pods_ok self"
  shows "mset (tracked (snd (pod_stopped_logic nm self))) = mset (tracked self)"
    and "nm \<notin> fst ` set (rn_pods_started (snd (pod_stopped_logic nm self)))"
    and "nm \<in> fst ` set (tracked self) \<Longrightarrow> nm \<in> fst ` set (rn_pods_stopped (snd (pod_stopped_logic nm self)))"
proof -
  have "mset (tracked (snd (pod_stopped_logic nm self))) = mset (tracked self)
    \<and> nm \<notin> fst ` set (rn_pods_started (snd (pod_stopped_logic nm self)))
    \<and> (nm \<in> fst ` set (tracked self) \<longrightarrow> nm \<in> fst ` set (rn_pods_stopped (snd (pod_stopped_logic nm self))))"
  proof (cases "map_of (rn_pods_started self) nm")
    case (Some pod)
    have new: "nm \<notin> fst ` set (rn_pods_stopped self)" using pods_okD(3) [OF assms present_key [OF Some]] by simp
    from mset_delete [OF pods_okD(1) [OF assms] Some] Some show ?thesis
      by (simp add: pod_stopped_logic_def tracked_def update_new [OF new] keys_delete)
  next
    case None
    note out = absent_key [OF None]
    show ?thesis
    proof (cases "map_of (rn_pods_stopping self) nm")
      case missing: None
      with None out absent_key [OF missing] show ?thesis
        by (simp add: pod_stopped_logic_def tracked_def image_Un)
    next
      case (Some pod)
      have new: "nm \<notin> fst ` set (rn_pods_stopped self)" using pods_okD(4) [OF assms present_key [OF Some]] by simp
      from mset_delete [OF pods_okD(2) [OF assms] Some] Some None out show ?thesis
        by (simp add: pod_stopped_logic_def tracked_def update_new [OF new])
    qed
  qed
  then show "mset (tracked (snd (pod_stopped_logic nm self))) = mset (tracked self)"
    and "nm \<notin> fst ` set (rn_pods_started (snd (pod_stopped_logic nm self)))"
    and "nm \<in> fst ` set (tracked self) \<Longrightarrow> nm \<in> fst ` set (rn_pods_stopped (snd (pod_stopped_logic nm self)))" by simp_all
qed

lemma keeps_same_object:
  "keeps (\<lambda>s. fst s = self) (try_except
     (using_self (\<lambda>self. bind (call (delete_pod (rn_ns self) grace_period nm)) (\<lambda>_. return True)))
     c (\<lambda>e. if b then return False else if d e then raise (f e) else raise e))"
  by (intro keeps_try keeps_using_self keeps_bind keeps_object keeps_if keeps_basic)

text \<open>
  C26: deleting a pod loses track of none. However it ends, every pod is under its name in exactly one
  of the three states, no pod is lost or invented, and the deleted pod no longer counts as started;
  when the end of the pod was waited for and the call returns \<open>True\<close>, it counts as stopped.
\<close>

theorem delete_pod_tracks_pods:
  assumes "pods_ok self" and run: "rn_delete_pod nm grace_period ignore_errors wait_for_deletion (self, w) = (r, (self', w'))"
  shows "pods_ok self' \<and> mset (tracked self') = mset (tracked self) \<and> nm \<notin> fst ` set (rn_pods_started self')
    \<and> (wait_for_deletion \<and> r = Inr True \<and> nm \<in> fst ` set (tracked self) \<longrightarrow> nm \<in> fst ` set (rn_pods_stopped self'))"
proof -
  let ?del = "try_except
     (using_self (\<lambda>self. bind (call (delete_pod (rn_ns self) grace_period nm)) (\<lambda>_. return True)))
     (\<lambda>e. isinstance e [CNotFound, CRetryError])
     (\<lambda>e. if ignore_errors then return False
          else if isinstance e [CRetryError] then raise (add_note (''Exhausted pod deletion retries: '' @ nm) e)
          else raise e)"
  let ?s = "snd (pod_stopping_logic nm self)"
  obtain r1 o1 w1 where del: "?del (self, w) = (r1, (o1, w1))" by (rule prod_cases3)
  from keepsD [OF keeps_same_object del] have o1: "o1 = self" by simp
  note stopping = pod_stopping_keeps [OF assms(1), of nm]
  have ok: "pods_ok ?s" by (rule pods_ok_cong [OF stopping(1) assms(1)])
  have known: "nm \<in> fst ` set (tracked ?s) \<longleftrightarrow> nm \<in> fst ` set (tracked self)"
    using mset_eq_setD [OF stopping(1)] by simp
  note stopped = pod_stopped_keeps [OF ok, of nm]
  let ?then = "\<lambda>deleted.
     if \<not> deleted then return False
     else if wait_for_deletion then
       bind (using_self (\<lambda>self. call (wait_for_pod_deleted (rn_ns self)
               (WAIT_SHORT_TIMEOUT_SEC + (case grace_period of None \<Rightarrow> 0 | Some g \<Rightarrow> g)) nm))) (\<lambda>_.
       bind (assign (\<lambda>self. snd (pod_stopped_logic nm self))) (\<lambda>_. return True))
     else return True"
  have fin: "try_finally ?del (assign (\<lambda>self. snd (pod_stopping_logic nm self))) (self, w) = (r1, (?s, w1))"
    unfolding try_finally_def assign_def del o1 by simp
  note run = run [unfolded rn_delete_pod_def]
  have "self' = ?s \<and> (wait_for_deletion \<longrightarrow> r \<noteq> Inr True) \<or> self' = snd (pod_stopped_logic nm ?s)"
    using run fin
  proof (rule bind_cases)
    fix e assume "r = Inl e" "(self', w') = (?s, w1)"
    then show ?thesis by simp
  next
    fix deleted assume after: "?then deleted (?s, w1) = (r, (self', w'))"
    obtain r2 w2 where wait: "wait_for_pod_deleted (rn_ns ?s)
        (WAIT_SHORT_TIMEOUT_SEC + (case grace_period of None \<Rightarrow> 0 | Some g \<Rightarrow> g)) nm w1 = (r2, w2)" by fastforce
    show ?thesis
      by (cases "deleted \<and> wait_for_deletion"; cases r2)
        (use after wait in \<open>auto simp: bind_apply assign_def return_def using_self_def call_def split: if_splits\<close>)
  qed
  then show ?thesis
  proof
    assume "self' = ?s \<and> (wait_for_deletion \<longrightarrow> r \<noteq> Inr True)"
    with ok stopping show ?thesis by blast
  next
    assume s': "self' = snd (pod_stopped_logic nm ?s)"
    with pods_ok_cong [OF stopped(1) ok] stopped stopping(1) known show ?thesis by simp
  qed
qed

theorem delete_pod_tracks_pods_witness:
  "fst ` set (rn_pods_stopped (fst (snd (rn_delete_pod ''p'' None False True
      (demo_runner\<lparr>rn_pods_started := [(''p'', JNull), (''q'', JNull)]\<rparr>, []))))) = {''p''}"
proof -
  let ?d = "demo_runner\<lparr>rn_pods_started := [(''p'', JNull), (''q'', JNull)]\<rparr>"
  let ?run = "rn_delete_pod ''p'' None False True (?d, [])"
  have ok: "pods_ok ?d" by code_simp
  have ret: "fst ?run = Inr True" by code_simp
  have len: "length (rn_pods_stopped (fst (snd ?run))) = 1" by code_simp
  obtain self' w' where run: "?run = (Inr True, (self', w'))" using ret by (cases ?run) auto
  from delete_pod_tracks_pods [OF ok run]
  have "''p'' \<in> fst ` set (rn_pods_stopped self')" by (simp add: tracked_def)
  with len run show ?thesis by (cases "rn_pods_stopped self'") auto
qed

end
