(* ===== verification/AppRunner.thy ===== *)
theory AppRunner
  imports BaseRunner ClientApp
begin

text \<open>
  What the runners of the test client (k8s_xds_client_runner.py) and of the test server
  (k8s_xds_server_runner.py, gamma_server_runner.py) have in common: the same fields, and the same
  steps for the service account, the pod monitoring and the pods, which the source repeats in each.
\<close>

section \<open>State\<close>

text \<open>
  The name and the template of the service account are set when workload identity is enabled, the
  IAM client also only when the binding is asked for.
\<close>

record app_runner = runner +
  ap_deployment_template :: string
  ap_enable_workload_identity :: bool
  ap_workload_identity_iam_policy_binding :: bool
  ap_debug_use_port_forwarding :: bool
  ap_td_bootstrap_image :: string
  ap_network :: string
  ap_xds_server_uri :: "string option"
  ap_xds_server_region :: "string option"
  ap_service_account_name :: "string option"
  ap_service_account_template :: "string option"
  ap_gcp_iam :: "iam option"
  ap_pod_monitoring :: "json option"
  ap_pod_monitoring_name :: "string option"

type_synonym ('x, 'a) ap_meth = "('x app_runner_scheme \<times> world, 'a) act"

abbreviation DEFAULT_POD_MONITORING_PORT :: int where
  "DEFAULT_POD_MONITORING_PORT \<equiv> 9464"

definition app_runner_init ::
  "runner \<Rightarrow> string \<Rightarrow> string \<Rightarrow> string \<Rightarrow> string \<Rightarrow> string option \<Rightarrow> string option \<Rightarrow> string option \<Rightarrow> string
     \<Rightarrow> bool \<Rightarrow> bool \<Rightarrow> bool \<Rightarrow> iam \<Rightarrow> app_runner" where
  "app_runner_init base deployment_name deployment_template td_bootstrap_image network xds_server_uri xds_server_region
       service_account_name service_account_template debug_use_port_forwarding enable_workload_identity
       workload_identity_iam_policy_binding gcp_iam =
     runner.extend base
       (app_runner.fields deployment_template enable_workload_identity workload_identity_iam_policy_binding
          debug_use_port_forwarding td_bootstrap_image network xds_server_uri xds_server_region
          (if enable_workload_identity then Some (or_text service_account_name deployment_name) else None)
          (if enable_workload_identity then Some service_account_template else None)
          (if enable_workload_identity \<and> workload_identity_iam_policy_binding then Some gcp_iam else None)
          None None)"

definition text_or_None :: "string option \<Rightarrow> string" where
  "text_or_None v = (case v of None \<Rightarrow> ''None'' | Some t \<Rightarrow> t)"

section \<open>Service account\<close>

definition create_identity :: "outside \<Rightarrow> ('x, unit) ap_meth" where
  "create_identity R = using_self (\<lambda>self.
     if ap_enable_workload_identity self then stmts
       [(if ap_workload_identity_iam_policy_binding self
         then grant_workload_identity_user (ap_gcp_iam self) (rn_gcp_service_account self)
                (text_or_None (ap_service_account_name self))
         else return ()),
        bind (call (create_service_account R (rn_ns self) (text_or_None (ap_service_account_template self))
                [(''service_account_name'', opt_str (ap_service_account_name self)),
                 (''namespace_name'', JStr (kn_name (rn_ns self))),
                 (''gcp_service_account'', JStr (rn_gcp_service_account self))]))
          (\<lambda>v. assign (rn_service_account_update (\<lambda>_. Some v)))]
     else return ())"

definition cleanup_identity :: "bool \<Rightarrow> ('x, unit) ap_meth" where
  "cleanup_identity force = using_self (\<lambda>self.
     if ap_enable_workload_identity self \<and> (rn_service_account self \<noteq> None \<or> force) then stmts
       [(if ap_workload_identity_iam_policy_binding self
         then revoke_workload_identity_user (ap_gcp_iam self) (rn_gcp_service_account self)
                (text_or_None (ap_service_account_name self))
         else return ()),
        rn_delete_service_account (text_or_None (ap_service_account_name self)),
        assign (rn_service_account_update (\<lambda>_. None))]
     else return ())"

section \<open>Pod monitoring\<close>

definition setup_csm_observability :: "outside \<Rightarrow> bool \<Rightarrow> ('x, unit) ap_meth" where
  "setup_csm_observability R enable_csm_observability =
     (if enable_csm_observability then stmts
       [assign (\<lambda>self. self\<lparr>ap_pod_monitoring_name := Some (text_or_None (rn_deployment_id self) @ ''-gmp'')\<rparr>),
        using_self (\<lambda>self. bind (call (create_pod_monitoring R (rn_ns self) ''csm/pod-monitoring.yaml''
            (kn_name (rn_ns self)) (text_or_None (rn_deployment_id self))
            (text_or_None (ap_pod_monitoring_name self)) DEFAULT_POD_MONITORING_PORT))
          (\<lambda>v. assign (ap_pod_monitoring_update (\<lambda>_. Some v))))]
      else return ())"

definition cleanup_pod_monitoring :: "bool \<Rightarrow> ('x, unit) ap_meth" where
  "cleanup_pod_monitoring force = using_self (\<lambda>self.
     if set_str (ap_pod_monitoring_name self) \<and> (ap_pod_monitoring self \<noteq> None \<or> force) then stmts
       [rn_delete_pod_monitoring (text_or_None (ap_pod_monitoring_name self)),
        assign (ap_pod_monitoring_update (\<lambda>_. None)),
        assign (ap_pod_monitoring_name_update (\<lambda>_. None))]
     else return ())"

section \<open>Pods\<close>

text \<open>All pods of the deployment are started before the runner counts as started.\<close>

definition start_pods :: "outside \<Rightarrow> int \<Rightarrow> ('x, unit) ap_meth" where
  "start_pods R replica_count = using_self (\<lambda>self.
     bind (wait_deployment_pod_count (no_object (rn_deployment self)) replica_count) (\<lambda>pod_names. stmts
       (map (\<lambda>nm. bind (wait_pod_started nm) pod_started_logic) pod_names @
        [wait_deployment_with_available_replicas (rn_deployment_name self) replica_count,
         start_completed R])))"

text \<open>A list made by calling a method for every element.\<close>

fun collect :: "('a \<Rightarrow> ('s, 'b) act) \<Rightarrow> 'a list \<Rightarrow> ('s, 'b list) act" where
  "collect f [] = return []"
| "collect f (x # xs) = bind (f x) (\<lambda>y. bind (collect f xs) (\<lambda>ys. return (y # ys)))"

text \<open>A connected forwarder has a port.\<close>

definition forwarded_port :: "port_forwarder \<Rightarrow> int" where
  "forwarded_port pf = (case pf_local_port pf of Some p \<Rightarrow> p | None \<Rightarrow> 0)"

text \<open>
  How the port of an application in a pod is reached: port, host, and the port of the monitoring
  when it is wanted; through the forwarders when the runner uses them.
\<close>

definition reach_pod ::
  "outside \<Rightarrow> json \<Rightarrow> int \<Rightarrow> bool \<Rightarrow> int option \<Rightarrow> ('x, int \<times> string option \<times> int option) ap_meth" where
  "reach_pod R pod p monitoring given_port = using_self (\<lambda>self.
     if ap_debug_use_port_forwarding self then
       bind (start_port_forwarding_pod R pod p) (\<lambda>pf.
         if monitoring
         then bind (start_port_forwarding_pod R pod DEFAULT_POD_MONITORING_PORT)
                (\<lambda>pf2. return (forwarded_port pf, Some (pf_local_address pf), Some (forwarded_port pf2)))
         else return (forwarded_port pf, Some (pf_local_address pf), given_port))
     else return (p, None, if monitoring then Some DEFAULT_POD_MONITORING_PORT else given_port))"

text \<open>\<open>if b(self): m; u\<close>: one step of a cleanup.\<close>

definition cleanup_step ::
  "('o \<Rightarrow> bool) \<Rightarrow> ('o \<Rightarrow> ('o \<times> world, unit) act) \<Rightarrow> ('o \<Rightarrow> 'o) \<Rightarrow> ('o \<times> world, unit) act" where
  "cleanup_step b m u = using_self (\<lambda>self. if b self then andthen (m self) (assign u) else return ())"

section \<open>Removing\<close>

text \<open>The requests that delete the resources of a runner.\<close>

definition service_removal :: "kube_ns \<Rightarrow> string \<Rightarrow> request" where
  "service_removal N nm = delete_request N ''CoreV1Api'' ''namespaced_service'' (Some DELETE_GRACE_PERIOD_SEC) nm"

definition service_account_removal :: "kube_ns \<Rightarrow> string \<Rightarrow> request" where
  "service_account_removal N nm =
     delete_request N ''CoreV1Api'' ''namespaced_service_account'' (Some DELETE_GRACE_PERIOD_SEC) nm"

definition deployment_removal :: "kube_ns \<Rightarrow> string \<Rightarrow> request" where
  "deployment_removal N nm = delete_request N ''AppsV1Api'' ''namespaced_deployment'' (Some DELETE_GRACE_PERIOD_SEC) nm"

definition custom_removal :: "kube_ns \<Rightarrow> string \<Rightarrow> string \<Rightarrow> string \<Rightarrow> request" where
  "custom_removal N api kind nm = dyn_delete_request N (api, kind) DELETE_GRACE_PERIOD_SEC nm"

definition route_removal :: "kube_ns \<Rightarrow> route_kind \<Rightarrow> string \<Rightarrow> request" where
  "route_removal N kind nm = dyn_delete_request N (gamma_route_api_of kind) DELETE_GRACE_PERIOD_SEC nm"

text \<open>The API server is in good order, and the namespace has no pause of its own.\<close>

definition ns_ready :: "kube_ns \<Rightarrow> bool" where
  "ns_ready N \<longleftrightarrow> kube_ready (kn_api N) \<and> no_own_pause N = N"

lemma reaches_removals [reaches_intros]:
  assumes "ns_ready (rn_ns self)"
  shows "Q () self [service_removal (rn_ns self) nm] \<Longrightarrow> reaches_by kube_log (rn_delete_service nm) self Q"
    and "Q () self [service_account_removal (rn_ns self) nm]
      \<Longrightarrow> reaches_by kube_log (rn_delete_service_account nm) self Q"
    and "Q () self [custom_removal (rn_ns self) ''networking.gke.io/v1'' ''GCPSessionAffinityPolicy'' nm]
      \<Longrightarrow> reaches_by kube_log (rn_delete_session_affinity_policy nm) self Q"
    and "Q () self [custom_removal (rn_ns self) ''networking.gke.io/v1'' ''GCPSessionAffinityFilter'' nm]
      \<Longrightarrow> reaches_by kube_log (rn_delete_session_affinity_filter nm) self Q"
    and "Q () self [custom_removal (rn_ns self) ''networking.gke.io/v1'' ''GCPBackendPolicy'' nm]
      \<Longrightarrow> reaches_by kube_log (rn_delete_backend_policy nm) self Q"
    and "Q () self [route_removal (rn_ns self) kind nm] \<Longrightarrow> reaches_by kube_log (delete_gamma_route_of kind nm) self Q"
    and "Q () self [delete_namespace_request (rn_ns self)] \<Longrightarrow> reaches_by kube_log rn_delete_namespace self Q"
proof -
  from assms have ready: "kube_ready (kn_api (rn_ns self))" and pause: "no_own_pause (rn_ns self) = rn_ns self"
    by (simp_all add: ns_ready_def)
  show "Q () self [service_removal (rn_ns self) nm] \<Longrightarrow> reaches_by kube_log (rn_delete_service nm) self Q"
    unfolding rn_delete_service_def service_removal_def
    by (intro reaches_using_self service.delete_quietly_reaches ready)
  show "Q () self [service_account_removal (rn_ns self) nm]
      \<Longrightarrow> reaches_by kube_log (rn_delete_service_account nm) self Q"
    unfolding rn_delete_service_account_def service_account_removal_def
    by (intro reaches_using_self service_account.delete_quietly_reaches ready)
  show "Q () self [custom_removal (rn_ns self) ''networking.gke.io/v1'' ''GCPSessionAffinityPolicy'' nm]
      \<Longrightarrow> reaches_by kube_log (rn_delete_session_affinity_policy nm) self Q"
    unfolding rn_delete_session_affinity_policy_def custom_removal_def
    by (intro reaches_using_self affinity_policy.delete_quietly_reaches ready)
  show "Q () self [custom_removal (rn_ns self) ''networking.gke.io/v1'' ''GCPSessionAffinityFilter'' nm]
      \<Longrightarrow> reaches_by kube_log (rn_delete_session_affinity_filter nm) self Q"
    unfolding rn_delete_session_affinity_filter_def custom_removal_def
    by (intro reaches_using_self affinity_filter.delete_quietly_reaches ready)
  show "Q () self [custom_removal (rn_ns self) ''networking.gke.io/v1'' ''GCPBackendPolicy'' nm]
      \<Longrightarrow> reaches_by kube_log (rn_delete_backend_policy nm) self Q"
    unfolding rn_delete_backend_policy_def custom_removal_def
    by (intro reaches_using_self backend_policy.delete_quietly_reaches ready)
  show "Q () self [route_removal (rn_ns self) kind nm] \<Longrightarrow> reaches_by kube_log (delete_gamma_route_of kind nm) self Q"
    unfolding delete_gamma_route_of_def route_removal_def
    by (intro reaches_using_self gamma_route.delete_quietly_reaches ready)
  show "Q () self [delete_namespace_request (rn_ns self)] \<Longrightarrow> reaches_by kube_log rn_delete_namespace self Q"
    using namespace.delete_quietly_reaches [OF ready] pause unfolding rn_delete_namespace_def
    by (intro reaches_using_self) simp
qed

text \<open>The deletion of a pod monitoring, which is not waited for.\<close>

lemma reaches_pod_monitoring [reaches_intros]:
  assumes "ns_ready (rn_ns self)"
    and "Q () self [custom_removal (rn_ns self) ''monitoring.googleapis.com/v1'' ''PodMonitoring'' nm]"
  shows "reaches_by kube_log (rn_delete_pod_monitoring nm) self Q"
proof -
  let ?N = "rn_ns self"
  have "kube_resource (kn_api ?N) (delete_pod_monitoring ?N nm)
      (wait_gone ?N 0 0 (get_dyn_resource ?N (api_pod_monitoring ?N) nm))
      (custom_removal ?N ''monitoring.googleapis.com/v1'' ''PodMonitoring'' nm)"
    unfolding delete_pod_monitoring_def custom_removal_def by (rule dynamic_resource [OF namespace_apis_find(6)])
  moreover have "kube_ready (kn_api ?N)" using assms(1) by (simp add: ns_ready_def)
  ultimately have "reaches_by kube_log (call (delete_quietly (delete_pod_monitoring ?N nm)
      (wait_gone ?N 0 0 (get_dyn_resource ?N (api_pod_monitoring ?N) nm)) False)) self Q"
    using assms(2) by (rule kube_resource.delete_quietly_reaches)
  then show ?thesis
    by (simp add: rn_delete_pod_monitoring_def reaches_using_self delete_quietly_def)
qed

text \<open>The dependencies of the pods, when no ports are forwarded.\<close>

definition logs_ok :: "'x runner_scheme \<Rightarrow> bool" where
  "logs_ok self \<longleftrightarrow> (rn_collect_logs self \<longrightarrow> rn_log_stop_event self \<noteq> None)"

definition released :: "'x runner_scheme \<Rightarrow> 'x runner_scheme" where
  "released self = self
     \<lparr>rn_log_stop_event := (if rn_collect_logs self then Some True else rn_log_stop_event self),
      rn_port_forwarders := [], rn_log_collectors := []\<rparr>"

lemma stop_pod_dependencies_run:
  assumes "logs_ok self" and "rn_port_forwarders self = []"
  shows "stop_pod_dependencies (self, w) = (Inr (), (released self, w))"
  using assms
  by (cases self; cases "rn_log_stop_event self")
    (auto simp: stop_pod_dependencies_def maybe_stop_logging_def stop_port_forwarders_def logs_ok_def released_def
      using_self_def andthen_def bind_apply attr_of_def return_def assign_def)

lemma reaches_delete_deployment:
  assumes "ns_ready (rn_ns self)"
    and "reaches_by kube_log stop self (\<lambda>_ s cs. rn_ns s = rn_ns self \<and> Q () s (cs @ [deployment_removal (rn_ns self) nm]))"
  shows "reaches_by kube_log (rn_delete_deployment stop nm) self Q"
  unfolding rn_delete_deployment_def
proof (rule reaches_andthen, rule reaches_mono [OF assms(2)])
  fix x s cs
  assume s: "rn_ns s = rn_ns self \<and> Q () s (cs @ [deployment_removal (rn_ns self) nm])"
  with assms(1) show "reaches_by kube_log (using_self (\<lambda>self. call (delete_quietly (delete_deployment (rn_ns self) nm)
      (wait_for_deployment_deleted (rn_ns self) nm) True))) s (\<lambda>y s' cs'. Q y s' (cs @ cs'))"
    by (auto simp: ns_ready_def deployment_removal_def intro!: reaches_using_self deployment.delete_quietly_reaches)
qed

lemma reaches_cleanup_step:
  "b self \<Longrightarrow> reaches_by f (m self) self (\<lambda>_ s cs. Q () (u s) cs) \<Longrightarrow> reaches_by f (cleanup_step b m u) self Q"
  "\<not> b self \<Longrightarrow> Q () self [] \<Longrightarrow> reaches_by f (cleanup_step b m u) self Q"
proof -
  assume "b self" and m: "reaches_by f (m self) self (\<lambda>_ s cs. Q () (u s) cs)"
  have "reaches_by f (andthen (m self) (assign u)) self Q"
    by (rule reaches_andthen, rule reaches_mono [OF m], rule reaches_assign) simp
  with \<open>b self\<close> show "reaches_by f (cleanup_step b m u) self Q"
    by (simp add: cleanup_step_def reaches_using_self)
next
  assume "\<not> b self" "Q () self []"
  then show "reaches_by f (cleanup_step b m u) self Q"
    by (simp add: cleanup_step_def reaches_using_self reaches_return)
qed

text \<open>What a cleanup of the shared parts removes.\<close>

definition namespace_goes :: "bool \<Rightarrow> 'x runner_scheme \<Rightarrow> bool" where
  "namespace_goes force self \<longleftrightarrow> rn_namespace self \<noteq> None \<and> \<not> rn_reuse_namespace self \<or> force"

text \<open>
  The IAM service answers: taking the member off the policy ends with a value or an error of the
  Google Cloud APIs, but not with exhausted retries.
\<close>

definition iam_answers :: "'x app_runner_scheme \<Rightarrow> bool" where
  "iam_answers self \<longleftrightarrow> (case ap_gcp_iam self of None \<Rightarrow> False
     | Some c \<Rightarrow> env_ok (iam_env c) \<and> (\<forall>member w.
         case fst (remove_service_account_iam_policy_binding c (rn_gcp_service_account self)
               ROLE_WORKLOAD_IDENTITY_USER member w) of
           Inl e \<Rightarrow> isinstance e [CGcpError] | Inr _ \<Rightarrow> True))"

lemma iam_requests: "rq_service (get_policy_request c account) = ''iam''" "rq_service (set_policy_request c account p) = ''iam''"
  by (simp_all add: get_policy_request_def set_policy_request_def iam_accounts_request_def)

lemma emits_remove_binding:
  assumes "env_ok (iam_env c)"
  shows "emits (\<lambda>w. w) (\<lambda>q. rq_service q = ''iam'') (remove_service_account_iam_policy_binding c account rl member)"
proof -
  have "emits (\<lambda>w. w) (\<lambda>q. rq_service q = ''iam'') (remove_binding_once c account rl member)"
    unfolding remove_binding_once_def get_service_account_iam_policy_def set_service_account_iam_policy_def
    by (intro emits_bind emits_case_option emits_if emits_pure emits_try emits_project_execute assms)
      (simp_all add: iam_requests emits_pure split: exn.split)
  then show ?thesis
    unfolding remove_service_account_iam_policy_binding_def handle_etag_conflict_def
    by (intro emits_bind emits_tenacity assms emits_pure)
      (simp_all add: exponential_retryer_with_timeout_def)
qed

lemma reaches_revoke:
  assumes "iam_answers self" and "Q () self []"
  shows "reaches_by kube_log (revoke_workload_identity_user (ap_gcp_iam self) (rn_gcp_service_account self) nm) self Q"
  unfolding reaches_by_def
proof
  fix w
  obtain c where c: "ap_gcp_iam self = Some c" "env_ok (iam_env c)"
    using assms(1) by (auto simp: iam_answers_def split: option.splits)
  let ?member = "workload_identity_member_name (iam_project c) (kn_name (rn_ns self)) nm"
  let ?rm = "remove_service_account_iam_policy_binding c (rn_gcp_service_account self) ROLE_WORKLOAD_IDENTITY_USER ?member"
  obtain r w' where run: "?rm w = (r, w')" by fastforce
  have r: "case r of Inl e \<Rightarrow> isinstance e [CGcpError] | Inr _ \<Rightarrow> True"
  proof -
    have "\<forall>member w. case fst (remove_service_account_iam_policy_binding c (rn_gcp_service_account self)
        ROLE_WORKLOAD_IDENTITY_USER member w) of Inl e \<Rightarrow> isinstance e [CGcpError] | Inr _ \<Rightarrow> True"
      using assms(1) c(1) by (simp only: iam_answers_def option.case simp_thms)
    from this [THEN spec [of _ ?member], THEN spec [of _ w]] show ?thesis unfolding run fst_conv .
  qed
  obtain rs where "w' = w @ rs" "\<forall>q \<in> set rs. rq_service q = ''iam''"
    using emits_remove_binding [OF c(2)] run by (rule emitsD)
  then have "kube_log w' = kube_log w" by (auto simp: kube_log_def filter_empty_conv)
  moreover have "revoke_workload_identity_user (ap_gcp_iam self) (rn_gcp_service_account self) nm (self, w)
      = (Inr (), (self, w'))"
    using run r c(1)
    by (cases r) (simp_all add: revoke_workload_identity_user_def using_self_def attr_of_def bind_apply
        try_except_def call_def return_def)
  ultimately show "\<exists>x self' w' cs. revoke_workload_identity_user (ap_gcp_iam self) (rn_gcp_service_account self) nm (self, w)
      = (Inr x, (self', w')) \<and> kube_log w' = kube_log w @ cs \<and> Q x self' cs"
    using assms(2) by auto
qed

text \<open>The steps of a cleanup that removes everything there is.\<close>

definition identity_removals :: "'x app_runner_scheme \<Rightarrow> request list" where
  "identity_removals self = (if ap_enable_workload_identity self
     then [service_account_removal (rn_ns self) (text_or_None (ap_service_account_name self))] else [])"

definition monitoring_removals :: "'x app_runner_scheme \<Rightarrow> request list" where
  "monitoring_removals self = (if set_str (ap_pod_monitoring_name self)
     then [custom_removal (rn_ns self) ''monitoring.googleapis.com/v1'' ''PodMonitoring''
             (text_or_None (ap_pod_monitoring_name self))] else [])"

definition namespace_removals :: "bool \<Rightarrow> 'x runner_scheme \<Rightarrow> request list" where
  "namespace_removals force self = (if namespace_goes force self then [delete_namespace_request (rn_ns self)] else [])"

definition app_ready :: "'x app_runner_scheme \<Rightarrow> bool" where
  "app_ready self \<longleftrightarrow> ns_ready (rn_ns self) \<and> logs_ok self \<and> rn_port_forwarders self = [] \<and>
     (ap_enable_workload_identity self \<and> ap_workload_identity_iam_policy_binding self \<longrightarrow> iam_answers self)"

text \<open>What is there to remove has been created, or the cleanup is forced.\<close>

definition app_complete :: "bool \<Rightarrow> 'x app_runner_scheme \<Rightarrow> bool" where
  "app_complete force self \<longleftrightarrow> force \<or> rn_deployment self \<noteq> None
     \<and> (ap_enable_workload_identity self \<longrightarrow> rn_service_account self \<noteq> None)
     \<and> (set_str (ap_pod_monitoring_name self) \<longrightarrow> ap_pod_monitoring self \<noteq> None)"

lemma reaches_cleanup_identity:
  assumes "ns_ready (rn_ns self)" and "rn_service_account self \<noteq> None \<or> force \<or> \<not> ap_enable_workload_identity self"
    and "ap_enable_workload_identity self \<and> ap_workload_identity_iam_policy_binding self \<Longrightarrow> iam_answers self"
    and "Q () (if ap_enable_workload_identity self then self\<lparr>rn_service_account := None\<rparr> else self)
           (identity_removals self)"
  shows "reaches_by kube_log (cleanup_identity force) self Q"
proof (cases "ap_enable_workload_identity self")
  case True
  with assms show ?thesis
    unfolding cleanup_identity_def
    by (auto simp: identity_removals_def intro!: reaches_intros reaches_revoke)
next
  case False
  with assms(4) show ?thesis
    by (simp add: cleanup_identity_def identity_removals_def reaches_using_self reaches_return)
qed

lemma reaches_cleanup_monitoring:
  assumes "ns_ready (rn_ns self)"
    and "ap_pod_monitoring self \<noteq> None \<or> force \<or> \<not> set_str (ap_pod_monitoring_name self)"
    and "Q () (if set_str (ap_pod_monitoring_name self)
           then self\<lparr>ap_pod_monitoring := None, ap_pod_monitoring_name := None\<rparr> else self) (monitoring_removals self)"
  shows "reaches_by kube_log (cleanup_pod_monitoring force) self Q"
proof (cases "set_str (ap_pod_monitoring_name self)")
  case True
  with assms show ?thesis
    unfolding cleanup_pod_monitoring_def
    by (auto simp: monitoring_removals_def intro!: reaches_intros)
next
  case False
  with assms(3) show ?thesis
    by (simp add: cleanup_pod_monitoring_def monitoring_removals_def reaches_using_self reaches_return)
qed

lemma reaches_cleanup_namespace:
  assumes "ns_ready (rn_ns self)"
    and "Q () (if namespace_goes force self then self\<lparr>rn_namespace := None\<rparr> else self) (namespace_removals force self)"
  shows "reaches_by kube_log (cleanup_namespace force) self Q"
  using assms unfolding cleanup_namespace_def
  by (cases "namespace_goes force self")
    (auto simp: namespace_goes_def namespace_removals_def intro!: reaches_intros)

text \<open>The steps of a cleanup do not change what the others look at.\<close>

lemma released_fields [simp]:
  "rn_ns (released self) = rn_ns self" "rn_deployment (released self) = rn_deployment self"
  "rn_service_account (released self) = rn_service_account self" "rn_namespace (released self) = rn_namespace self"
  "rn_reuse_namespace (released self) = rn_reuse_namespace self"
  "rn_gcp_service_account (released self) = rn_gcp_service_account self"
  "ap_gcp_iam (released s) = ap_gcp_iam s" "ap_pod_monitoring (released s) = ap_pod_monitoring s"
  "ap_pod_monitoring_name (released s) = ap_pod_monitoring_name s"
  "ap_enable_workload_identity (released s) = ap_enable_workload_identity s"
  "ap_service_account_name (released s) = ap_service_account_name s"
  "ap_workload_identity_iam_policy_binding (released s) = ap_workload_identity_iam_policy_binding s"
  by (simp_all add: released_def)

lemma stopped_at_fields [simp]:
  "rn_deployment (stopped_at t self) = rn_deployment self" "rn_time_stopped (stopped_at t self) = Some t"
  by (simp_all add: stopped_at_def)

lemma iam_answers_fields [simp]:
  "iam_answers (released s) = iam_answers s" "iam_answers (s\<lparr>rn_deployment := d\<rparr>) = iam_answers s"
  by (simp_all add: iam_answers_def split: option.split)

lemmas removals = identity_removals_def monitoring_removals_def namespace_removals_def namespace_goes_def

lemma reaches_app_cleanup:
  assumes ready: "ns_ready (rn_ns s)"
    and account: "rn_service_account s \<noteq> None \<or> force \<or> \<not> ap_enable_workload_identity s"
    and iam: "ap_enable_workload_identity s \<and> ap_workload_identity_iam_policy_binding s \<longrightarrow> iam_answers s"
    and monitoring: "ap_pod_monitoring s \<noteq> None \<or> force \<or> \<not> set_str (ap_pod_monitoring_name s)"
    and Q: "\<And>s'. rn_deployment s' = rn_deployment s \<Longrightarrow> rn_time_stopped s' \<noteq> None
      \<Longrightarrow> Q () s' (identity_removals s @ monitoring_removals s @ namespace_removals own s)"
  shows "reaches_by kube_log (stmts [cleanup_identity force, cleanup_pod_monitoring force, cleanup_namespace own]) s
    (\<lambda>_ s' cs. reaches_by kube_log (rn_stop R) s' (\<lambda>_ s'' cs'. Q () s'' (cs @ cs')))"
proof -
  define s1 where "s1 = (if ap_enable_workload_identity s then s\<lparr>rn_service_account := None\<rparr> else s)"
  have s1: "rn_ns s1 = rn_ns s" "ap_pod_monitoring s1 = ap_pod_monitoring s" "rn_deployment s1 = rn_deployment s"
    "ap_pod_monitoring_name s1 = ap_pod_monitoring_name s" "monitoring_removals s1 = monitoring_removals s"
    "rn_namespace s1 = rn_namespace s" "rn_reuse_namespace s1 = rn_reuse_namespace s"
    by (simp_all add: s1_def removals)
  define s2 where "s2 = (if set_str (ap_pod_monitoring_name s1)
    then s1\<lparr>ap_pod_monitoring := None, ap_pod_monitoring_name := None\<rparr> else s1)"
  have s2: "rn_ns s2 = rn_ns s" "rn_deployment s2 = rn_deployment s" "rn_namespace s2 = rn_namespace s"
    "rn_reuse_namespace s2 = rn_reuse_namespace s"
    using s1 by (simp_all add: s2_def)
  have ns: "namespace_removals own s2 = namespace_removals own s" using s2 by (simp add: removals)
  define s3 where "s3 = (if namespace_goes own s2 then s2\<lparr>rn_namespace := None\<rparr> else s2)"
  have s3: "rn_deployment s3 = rn_deployment s" using s2 by (simp add: s3_def)
  show ?thesis
    by (rule reaches_stmts(2), rule reaches_cleanup_identity [OF ready account], use iam in blast, fold s1_def,
        rule reaches_stmts(2), rule reaches_cleanup_monitoring, use ready s1 in simp, use monitoring s1 in simp, fold s2_def,
        rule reaches_stmts(2), rule reaches_cleanup_namespace, use ready s2 in simp, fold s3_def,
        rule reaches_stmts(1), rule reaches_stop)
      (use s1 s2 s3 ns in \<open>auto intro: Q\<close>)
qed

lemma reaches_exactly:
  fixes m :: "('o \<times> world, unit) act"
  assumes "reaches_by f m self (\<lambda>_ s cs. cs = ds \<and> P s)"
  shows "\<exists>self' w'. m (self, w) = (Inr (), (self', w')) \<and> f w' = f w @ ds \<and> P self'"
proof -
  from assms obtain x self' w' cs where "m (self, w) = (Inr x, (self', w'))" "f w' = f w @ cs" "cs = ds \<and> P self'"
    by (rule reachesD)
  then show ?thesis by auto
qed

section \<open>Starting\<close>

text \<open>The object that a runner works with does not change while it runs.\<close>

abbreviation same_app :: "kube_ns \<Rightarrow> string \<Rightarrow> 'x runner_scheme \<Rightarrow> bool" where
  "same_app N d self \<equiv> rn_ns self = N \<and> rn_deployment_name self = d"

lemma keeps_lift_call [keeps_intros]: "keeps (\<lambda>s. I (fst s)) (bind (call m) (\<lambda>x. lift (f x)))"
  by (intro keeps_intros)

lemma keeps_create_deployment [keeps_intros]:
  "(\<And>obj i. I obj \<Longrightarrow> I (rn_deployment_id_update (\<lambda>_. i) obj)) \<Longrightarrow> keeps (\<lambda>s. I (fst s)) (create_deployment R t kw)"
  by (auto simp: keeps_def create_deployment_def andthen_def bind_apply assign_def call_def Let_def split: option.split prod.split)

lemma keeps_run [keeps_intros]:
  assumes "\<And>obj. I obj \<Longrightarrow> I (reset obj)"
    and "\<And>obj t. I obj \<Longrightarrow> I (rn_time_start_requested_update (\<lambda>_. t) obj)"
    and "\<And>obj t. I obj \<Longrightarrow> I (rn_namespace_update (\<lambda>_. t) obj)"
  shows "keeps (\<lambda>s. I (fst s)) (rn_run R reset)"
  unfolding rn_run_def stmts.simps
  by (intro keeps_using_self)
    (auto intro!: keeps_andthen keeps_using_self keeps_if keeps_bind keeps_object keeps_basic keeps_assign_now assms
      split: option.split)

text \<open>A property of the fields that no step of a run assigns.\<close>

definition run_stable :: "('x app_runner_scheme \<Rightarrow> bool) \<Rightarrow> bool" where
  "run_stable I \<longleftrightarrow> (\<forall>s. I s \<longrightarrow> I (reset_runner s) \<and> (\<forall>f. I (rn_log_to_stdout_update f s)) \<and> (\<forall>f. I (rn_namespace_update f s))
     \<and> (\<forall>f. I (rn_service_account_update f s)) \<and> (\<forall>f. I (rn_deployment_update f s))
     \<and> (\<forall>f. I (rn_deployment_id_update f s)) \<and> (\<forall>f. I (rn_time_start_requested_update f s))
     \<and> (\<forall>f. I (rn_time_start_completed_update f s)) \<and> (\<forall>f. I (rn_pods_started_update f s))
     \<and> (\<forall>f. I (rn_log_collectors_update f s)) \<and> (\<forall>f. I (rn_port_forwarders_update f s))
     \<and> (\<forall>f. I (ap_pod_monitoring_update f s)) \<and> (\<forall>f. I (ap_pod_monitoring_name_update f s)))"

lemma run_stableD:
  assumes "run_stable I" and "I s"
  shows "I (reset_runner s)" "I (rn_log_to_stdout_update f1 s)" "I (rn_namespace_update f2 s)"
    "I (rn_service_account_update f3 s)" "I (rn_deployment_update f4 s)" "I (rn_deployment_id_update f5 s)"
    "I (rn_time_start_requested_update f6 s)" "I (rn_time_start_completed_update f6 s)" "I (rn_pods_started_update f7 s)"
    "I (rn_log_collectors_update f8 s)" "I (rn_port_forwarders_update f9 s)"
    "I (ap_pod_monitoring_update f10 s)" "I (ap_pod_monitoring_name_update f11 s)"
  using assms(1) [unfolded run_stable_def, THEN spec [of _ s], THEN mp, OF assms(2)] by simp_all

lemma same_app_stable [simp]: "run_stable (same_app N d)"
  by (simp add: run_stable_def reset_runner_def)

lemma keeps_identity:
  assumes "run_stable I"
  shows "keeps (\<lambda>s. I (fst s)) (create_identity R)"
  unfolding create_identity_def grant_workload_identity_user_def stmts.simps
  by (intro keeps_using_self keeps_andthen keeps_bind keeps_object(1,2) [where I = I] keeps_object(3) keeps_basic keeps_if
      run_stableD [OF assms])

lemma keeps_csm:
  assumes "run_stable I"
  shows "keeps (\<lambda>s. I (fst s)) (setup_csm_observability R b)"
  unfolding setup_csm_observability_def stmts.simps
  by (intro keeps_using_self keeps_andthen keeps_bind keeps_object(1,2) [where I = I] keeps_object(3) keeps_basic keeps_if
      run_stableD(12) [OF assms])
    (use run_stableD(13) [OF assms] in auto)

lemma keeps_stmts_all: "(\<And>m. m \<in> set ms \<Longrightarrow> keeps P m) \<Longrightarrow> keeps P (stmts ms)"
  by (induction ms) (simp_all add: keeps_basic keeps_andthen)

lemma keeps_pod_loop:
  assumes "run_stable I"
  shows "keeps (\<lambda>s. I (fst s)) (stmts (map (\<lambda>nm. bind (wait_pod_started nm) pod_started_logic) pod_names))"
  unfolding wait_pod_started_def pod_started_logic_def
  by (rule keeps_stmts_all)
    (auto intro!: keeps_using_self keeps_andthen keeps_bind keeps_basic keeps_if
        keeps_object(1,2) [where I = I] keeps_object(3) run_stableD [OF assms])

lemma keeps_start_pods:
  assumes "run_stable I"
  shows "keeps (\<lambda>s. I (fst s)) (start_pods R cnt)"
  unfolding start_pods_def stmts_append wait_deployment_pod_count_def stmts.simps
    wait_deployment_with_available_replicas_def start_completed_def
  by (intro keeps_using_self keeps_bind keeps_andthen keeps_object(2) [where I = I] keeps_basic
      keeps_pod_loop [OF assms] keeps_assign_now run_stableD [OF assms])

lemma stmts_snoc: "stmts (ms @ [m1, m2]) = andthen (stmts ms) (andthen m1 m2)"
  unfolding stmts_append by (simp add: andthen_def bind_def return_def fun_eq_iff split: sum.split prod.split)

text \<open>When the pods are started, the deployment has just reported all of its replicas.\<close>

definition reports_replicas :: "kube_ns \<Rightarrow> string \<Rightarrow> int \<Rightarrow> world \<Rightarrow> bool" where
  "reports_replicas N d cnt w \<longleftrightarrow> (\<exists>h depl r. w = h @ [read_request N ''AppsV1Api'' ''namespaced_deployment'' d]
     \<and> http (kn_env N) h (read_request N ''AppsV1Api'' ''namespaced_deployment'' d) = Inr depl
     \<and> getattrs depl [''status'', ''available_replicas''] = Inr r \<and> at_least r cnt = Inr True)"

lemma start_pods_value:
  assumes ok: "env_ok (rn_env self)" and run: "start_pods R cnt (self, w) = (Inr (), (self', w'))"
  shows "rn_ns self' = rn_ns self \<and> reports_replicas (rn_ns self) (rn_deployment_name self) cnt w'
    \<and> rn_time_start_completed self' \<noteq> None"
proof -
  let ?I = "\<lambda>s. rn_ns (fst s) = rn_ns self \<and> rn_deployment_name (fst s) = rn_deployment_name self"
  from run obtain pod_names s1 where
      "wait_deployment_pod_count (no_object (rn_deployment self)) cnt (self, w) = (Inr pod_names, s1)"
    and rest: "stmts (map (\<lambda>nm. bind (wait_pod_started nm) pod_started_logic) pod_names @
        [wait_deployment_with_available_replicas (rn_deployment_name self) cnt, start_completed R]) s1
       = (Inr (), (self', w'))"
    by (auto simp: start_pods_def using_self_def bind_eq_Inr)
  from this(1) have s1: "?I s1"
    by (cases s1) (auto simp: wait_deployment_pod_count_def using_self_def bind_eq_Inr lift_def call_def split: prod.splits)
  from rest obtain s2 s3 where
      loop: "stmts (map (\<lambda>nm. bind (wait_pod_started nm) pod_started_logic) pod_names) s1 = (Inr (), s2)"
    and wait: "wait_deployment_with_available_replicas (rn_deployment_name self) cnt s2 = (Inr (), s3)"
    and completed: "start_completed R s3 = (Inr (), (self', w'))"
    unfolding stmts_snoc by (auto simp: andthen_eq_Inr)
  from keepsD [OF keeps_pod_loop [OF same_app_stable] loop] s1 have s2: "?I s2" by blast
  obtain o2 w2 where o2: "s2 = (o2, w2)" by fastforce
  from wait s2 obtain depl w3 where "wait_for_deployment_available_replicas (rn_ns self) (rn_deployment_name self) cnt
        WAIT_MEDIUM_TIMEOUT_SEC WAIT_SHORT_SLEEP_SEC w2 = (Inr depl, w3)" and s3: "s3 = (o2, w3)"
    unfolding o2 by (auto simp: wait_deployment_with_available_replicas_def using_self_def bind_eq_Inr call_def lift_def
        return_def split: prod.splits)
  from available_replicas_value [OF ok this(1)]
  have "reports_replicas (rn_ns self) (rn_deployment_name self) cnt w3"
    unfolding reports_replicas_def by blast
  moreover from completed s3 have "w' = w3" "rn_ns self' = rn_ns o2" "rn_time_start_completed self' \<noteq> None"
    by (auto simp: start_completed_def assign_now_def)
  ultimately show ?thesis using s2 o2 by auto
qed

text \<open>The helpers are made one after the other; making them starts no pods.\<close>

lemma keeps_collect [keeps_intros]: "(\<And>x. keeps P (f x)) \<Longrightarrow> keeps P (collect f xs)"
  by (induction xs) (auto intro: keeps_bind keeps_basic)

lemma emits_collect [emits_intros]: "(\<And>x. emits snd P (f x)) \<Longrightarrow> emits snd P (collect f xs)"
  by (induction xs) (auto intro: emits_bind emits_pure)

lemma collect_value:
  assumes "\<And>x. keeps P (f x)"
  shows "P s \<Longrightarrow> collect f xs s = (Inr ys, s') \<Longrightarrow> list_all2 (\<lambda>x y. \<exists>s1 s2. P s1 \<and> f x s1 = (Inr y, s2)) xs ys"
proof (induction xs arbitrary: s ys)
  case (Cons x xs)
  then obtain y s1 zs where "f x s = (Inr y, s1)" "collect f xs s1 = (Inr zs, s')" "ys = y # zs"
    by (auto simp: bind_eq_Inr return_def)
  with Cons keepsD [OF assms] show ?case by fastforce
qed (simp add: return_def)

lemma list_all2_origin: "list_all2 P xs ys \<Longrightarrow> y \<in> set ys \<Longrightarrow> \<exists>x \<in> set xs. P x y"
  by (induction rule: list_all2_induct) auto

lemma keeps_reach_pod [keeps_intros]:
  assumes "\<And>obj pfs. I obj \<Longrightarrow> I (rn_port_forwarders_update pfs obj)"
  shows "keeps (\<lambda>s. I (fst s)) (reach_pod R pod p b given)"
  unfolding reach_pod_def start_port_forwarding_pod_def
  by (intro keeps_using_self keeps_if keeps_bind keeps_object keeps_basic assms)

lemma emits_reach_pod [emits_intros]:
  "(\<And>q. P q) \<Longrightarrow> emits snd P (reach_pod R pod p b given)"
  unfolding reach_pod_def start_port_forwarding_pod_def
  by (intro emits_using_self emits_if emits_bind emits_call emits_object emits_pure emits_port_forward_pod)

section \<open>A runner of an API server that does what it is asked for\<close>

definition demo_iam :: iam where
  "demo_iam = \<lparr>iam_env = kb_env live_kube, iam_project = ''prj'', iam_member_order = (\<lambda>_. []), iam_binding_order = (\<lambda>_. [])\<rparr>"

definition demo_app_runner :: app_runner where
  "demo_app_runner = app_runner_init demo_runner ''d'' ''client.deployment.yaml'' ''boot'' ''default'' None None None
     ''service-account.yaml'' False True False demo_iam"

lemma demo_ns_ready: "ns_ready (kube_ns_init live_kube nm)"
  using live_kube_ok by (simp add: ns_ready_def no_own_pause_def kube_ns_init_def)

end
