(* ===== verification/ClientRunner.thy ===== *)
theory ClientRunner
  imports AppRunner
begin

text \<open>
  framework/test_app/runners/k8s/k8s_xds_client_runner.py: the runner of the test client. It deploys
  one client pod, returns the helper that talks to it, and takes everything down again.
\<close>

record client_args =
  ca_enable_csm_observability :: bool
  ca_csm_workload_name :: string
  ca_csm_canonical_service_name :: string
  ca_enable_dualstack :: bool
  ca_is_trusted_xds_server_experimental :: bool
  ca_memory_limit :: string
  ca_memory_request :: string

definition default_client_args :: client_args where
  "default_client_args =
     \<lparr>ca_enable_csm_observability = False, ca_csm_workload_name = '''', ca_csm_canonical_service_name = '''',
      ca_enable_dualstack = False, ca_is_trusted_xds_server_experimental = False,
      ca_memory_limit = ''512Mi'', ca_memory_request = ''512Mi''\<rparr>"

definition client_args_as_dict :: "client_args \<Rightarrow> (string \<times> json) list" where
  "client_args_as_dict a =
     [(''enable_csm_observability'', JBool (ca_enable_csm_observability a)),
      (''csm_workload_name'', JStr (ca_csm_workload_name a)),
      (''csm_canonical_service_name'', JStr (ca_csm_canonical_service_name a)),
      (''enable_dualstack'', JBool (ca_enable_dualstack a)),
      (''is_trusted_xds_server_experimental'', JBool (ca_is_trusted_xds_server_experimental a)),
      (''memory_limit'', JStr (ca_memory_limit a)),
      (''memory_request'', JStr (ca_memory_request a))]"

record client_runner = app_runner +
  cr_stats_port :: int
  cr_deployment_args :: client_args

definition client_runner_init :: "app_runner \<Rightarrow> int \<Rightarrow> client_args option \<Rightarrow> client_runner" where
  "client_runner_init base stats_port deployment_args =
     app_runner.extend base (client_runner.fields stats_port
       (case deployment_args of None \<Rightarrow> default_client_args | Some a \<Rightarrow> a))"

section \<open>Run\<close>

definition xds_test_client_for_pod :: "outside \<Rightarrow> string \<Rightarrow> json \<Rightarrow> (client_runner \<times> world, xds_client) act" where
  "xds_test_client_for_pod R server_target pod = using_self (\<lambda>self.
     bind (reach_pod R pod (cr_stats_port self) (ca_enable_csm_observability (cr_deployment_args self)) None)
       (\<lambda>(rpc_port, rpc_host, monitoring_port).
     bind (lift (getattrs pod [''status'', ''pod_ip''])) (\<lambda>ip.
     bind (lift (pod_name_of (rn_env self) pod)) (\<lambda>hostname.
       return (client_init (text_value (rn_env self) ip) rpc_port server_target hostname rpc_host None monitoring_port)))))"

definition make_clients_for_deployment ::
  "outside \<Rightarrow> int \<Rightarrow> string \<Rightarrow> (client_runner \<times> world, xds_client list) act" where
  "make_clients_for_deployment R replica_count server_target =
     bind (start_pods R replica_count) (\<lambda>_. using_self (\<lambda>self.
       collect (xds_test_client_for_pod R server_target) (map snd (rn_pods_started self))))"

record client_run_args =
  cv_server_target :: string
  cv_rpc :: string
  cv_qps :: int
  cv_metadata :: string
  cv_secure_mode :: bool
  cv_config_mesh :: "string option"
  cv_generate_mesh_id :: bool
  cv_print_response :: bool
  cv_log_to_stdout :: bool
  cv_request_payload_size :: int
  cv_response_payload_size :: int

definition client_deployment_kwargs :: "client_run_args \<Rightarrow> client_runner \<Rightarrow> (string \<times> json) list" where
  "client_deployment_kwargs A self =
     [(''deployment_name'', JStr (rn_deployment_name self)),
      (''image_name'', JStr (rn_image_name self)),
      (''namespace_name'', JStr (kn_name (rn_ns self))),
      (''app_label'', JStr (rn_app_label self)),
      (''service_account_name'', opt_str (ap_service_account_name self)),
      (''td_bootstrap_image'', JStr (ap_td_bootstrap_image self)),
      (''xds_server_uri'', opt_str (ap_xds_server_uri self)),
      (''xds_server_region'', opt_str (ap_xds_server_region self)),
      (''network'', JStr (ap_network self)),
      (''stats_port'', JInt (cr_stats_port self)),
      (''server_target'', JStr (cv_server_target A)),
      (''rpc'', JStr (cv_rpc A)),
      (''qps'', JInt (cv_qps A)),
      (''request_payload_size'', JInt (cv_request_payload_size A)),
      (''response_payload_size'', JInt (cv_response_payload_size A)),
      (''metadata'', JStr (cv_metadata A)),
      (''secure_mode'', JBool (cv_secure_mode A)),
      (''config_mesh'', opt_str (cv_config_mesh A)),
      (''generate_mesh_id'', JBool (cv_generate_mesh_id A)),
      (''print_response'', JBool (cv_print_response A))] @
     client_args_as_dict (cr_deployment_args self)"

definition client_deploy :: "outside \<Rightarrow> client_run_args \<Rightarrow> (client_runner \<times> world, unit) act" where
  "client_deploy R A = stmts
     [rn_run R reset_runner,
      assign (rn_log_to_stdout_update (\<lambda>_. cv_log_to_stdout A)),
      create_identity R,
      using_self (\<lambda>self.
        bind (create_deployment R (ap_deployment_template self) (client_deployment_kwargs A self))
          (\<lambda>v. assign (rn_deployment_update (\<lambda>_. Some v)))),
      using_self (\<lambda>self. setup_csm_observability R (ca_enable_csm_observability (cr_deployment_args self)))]"

text \<open>There is one replica.\<close>

definition client_run :: "outside \<Rightarrow> client_run_args \<Rightarrow> (client_runner \<times> world, xds_client) act" where
  "client_run R A =
     bind (client_deploy R A) (\<lambda>_.
     bind (make_clients_for_deployment R 1 (cv_server_target A)) (first_of (IndexError ''list index out of range'')))"

section \<open>Cleanup\<close>

definition client_cleanup :: "outside \<Rightarrow> bool \<Rightarrow> bool \<Rightarrow> (client_runner \<times> world, unit) act" where
  "client_cleanup R force force_namespace = try_finally
     (stmts
        [cleanup_step (\<lambda>self. rn_deployment self \<noteq> None \<or> force)
           (\<lambda>self. rn_delete_deployment stop_pod_dependencies (rn_deployment_name self))
           (rn_deployment_update (\<lambda>_. None)),
         cleanup_identity force,
         cleanup_pod_monitoring force,
         cleanup_namespace (force_namespace \<and> force)])
     (rn_stop R)"

definition client_namespace_name :: "string \<Rightarrow> string \<Rightarrow> string option \<Rightarrow> string" where
  "client_namespace_name resource_prefix resource_suffix nm =
     make_namespace_name resource_prefix resource_suffix (case nm of None \<Rightarrow> ''client'' | Some n \<Rightarrow> n)"

section \<open>Properties\<close>

text \<open>What the cleanup of a client runner removes.\<close>

lemma client_cleanup_removes:
  assumes "app_ready self" and "app_complete force self"
  shows "\<exists>self' w'. client_cleanup R force force_namespace (self, w) = (Inr (), (self', w'))
    \<and> kube_log w' = kube_log w @ [deployment_removal (rn_ns self) (rn_deployment_name self)]
        @ identity_removals self @ monitoring_removals self @ namespace_removals (force_namespace \<and> force) self
    \<and> rn_deployment self' = None \<and> rn_time_stopped self' \<noteq> None"
proof -
  let ?Q = "\<lambda>x s cs. cs = [deployment_removal (rn_ns self) (rn_deployment_name self)]
        @ identity_removals self @ monitoring_removals self @ namespace_removals (force_namespace \<and> force) self
    \<and> rn_deployment s = None \<and> rn_time_stopped s \<noteq> None"
  have dependencies: "reaches_by kube_log stop_pod_dependencies self Q" if "Q () (released self) []" for Q
    using assms(1) that by (auto simp: reaches_by_def app_ready_def stop_pod_dependencies_run)
  have "reaches_by kube_log (client_cleanup R force force_namespace) self ?Q"
    unfolding client_cleanup_def
  proof (rule reaches_finally, rule reaches_stmts, rule reaches_cleanup_step(1))
    show "rn_deployment self \<noteq> None \<or> force" using assms(2) by (auto simp: app_complete_def)
    show "reaches_by kube_log (rn_delete_deployment stop_pod_dependencies (rn_deployment_name self)) self
      (\<lambda>_ s cs. reaches_by kube_log
         (stmts [cleanup_identity force, cleanup_pod_monitoring force, cleanup_namespace (force_namespace \<and> force)])
         (rn_deployment_update (\<lambda>_. None) s)
         (\<lambda>y s' cs'. reaches_by kube_log (rn_stop R) s' (\<lambda>_ s'' cs''. ?Q () s'' ((cs @ cs') @ cs''))))"
      by (rule reaches_delete_deployment, use assms in \<open>simp add: app_ready_def\<close>, rule dependencies, rule conjI, simp,
          subst append_assoc, rule reaches_app_cleanup)
        (use assms in \<open>auto simp: app_ready_def app_complete_def removals\<close>)
  qed
  then show ?thesis by (rule reaches_exactly)
qed


text \<open>A runner of a client of the API server above.\<close>

definition demo_client_runner :: client_runner where
  "demo_client_runner = client_runner_init demo_app_runner 8 None"

definition demo_client_args :: client_run_args where
  "demo_client_args = \<lparr>cv_server_target = ''xds:///s'', cv_rpc = ''UnaryCall'', cv_qps = 1, cv_metadata = [],
     cv_secure_mode = False, cv_config_mesh = None, cv_generate_mesh_id = False, cv_print_response = False,
     cv_log_to_stdout = False, cv_request_payload_size = 0, cv_response_payload_size = 0\<rparr>"

lemma demo_client_ns: "rn_ns demo_client_runner = kube_ns_init live_kube ''ns''"
  by (simp add: demo_client_runner_def client_runner_init_def client_runner.defs app_runner.defs runner.defs
      demo_app_runner_def app_runner_init_def demo_runner_def runner_init_def reset_runner_def)

lemma demo_client_fields:
  "rn_port_forwarders demo_client_runner = []"
  "rn_collect_logs demo_client_runner = True" "rn_log_stop_event demo_client_runner = Some False"
  "ap_workload_identity_iam_policy_binding demo_client_runner = False"
  by code_simp+


text \<open>Making a helper of a pod.\<close>

lemma client_for_pod_value:
  assumes "xds_test_client_for_pod R server_target pod (self, w) = (Inr client, (self', w'))"
  shows "pod_name_of (rn_env self) pod = Inr (xc_hostname client) \<and> xc_server_target client = server_target"
  using assms
  by (auto simp: xds_test_client_for_pod_def using_self_def bind_eq_Inr lift_def return_def client_init_def
      xds_client.defs grpc_app.defs)

lemma keeps_client_for_pod:
  assumes "\<And>obj pfs. I obj \<Longrightarrow> I (rn_port_forwarders_update pfs obj)"
  shows "keeps (\<lambda>s. I (fst s)) (xds_test_client_for_pod R server_target pod)"
  unfolding xds_test_client_for_pod_def
  by (auto intro!: keeps_using_self keeps_bind keeps_basic keeps_reach_pod assms split: prod.split)

lemma emits_client_for_pod: "(\<And>q. P q) \<Longrightarrow> emits snd P (xds_test_client_for_pod R server_target pod)"
  unfolding xds_test_client_for_pod_def
  by (auto intro!: emits_using_self emits_bind emits_pure emits_reach_pod split: prod.split)

lemma keeps_client_deploy: "keeps (\<lambda>s. same_app N d (fst s)) (client_deploy R A)"
  unfolding client_deploy_def stmts.simps
  by (intro keeps_andthen keeps_using_self keeps_bind keeps_object(1,2) [where I = "same_app N d"]
      keeps_run [where I = "same_app N d"] keeps_create_deployment [where I = "same_app N d"]
      keeps_identity [OF same_app_stable] keeps_csm [OF same_app_stable] keeps_basic)
    (simp_all add: reset_runner_def)

text \<open>
  C25: when \<open>run\<close> of a client runner returns a helper, the pod it stands for is one that the runner has
  started, under the name the helper has; at some moment before, the API server answered that the
  deployment of the runner has a replica available, and the start is recorded as completed.
\<close>

theorem client_run_sound:
  assumes "env_ok (rn_env self)" and run: "client_run R A (self, w) = (Inr client, (self', w'))"
  shows "\<exists>pod h rest. pod \<in> snd ` set (rn_pods_started self') \<and> w' = h @ rest
    \<and> reports_replicas (rn_ns self) (rn_deployment_name self) 1 h
    \<and> pod_name_of (rn_env self) pod = Inr (xc_hostname client)
    \<and> xc_server_target client = cv_server_target A \<and> rn_time_start_completed self' \<noteq> None"
proof -
  let ?I = "same_app (rn_ns self) (rn_deployment_name self)"
  let ?client = "xds_test_client_for_pod R (cv_server_target A)"
  obtain s1 s2 clients where deployed: "client_deploy R A (self, w) = (Inr (), s1)"
    and clients: "make_clients_for_deployment R 1 (cv_server_target A) s1 = (Inr clients, s2)"
    and first: "first_of (IndexError ''list index out of range'') clients s2 = (Inr client, (self', w'))"
    using run unfolding client_run_def by (auto simp: bind_eq_Inr)
  from keepsD [OF keeps_client_deploy deployed] have s1: "?I (fst s1)" by simp
  from first obtain others where c: "clients = client # others" "s2 = (self', w')"
    by (cases clients) (auto simp: first_of_def return_def raise_def)
  obtain o1 w1 where o1: "s1 = (o1, w1)" by fastforce
  from clients obtain o3 w3 where start: "start_pods R 1 (o1, w1) = (Inr (), (o3, w3))"
    and made: "collect ?client (map snd (rn_pods_started o3)) (o3, w3) = (Inr clients, (self', w'))"
    unfolding o1 c(2) by (auto simp: make_clients_for_deployment_def bind_eq_Inr using_self_def)
  have "env_ok (rn_env o1)" using assms(1) s1 o1 by simp
  from start_pods_value [OF this start] s1 o1 have started: "rn_ns o3 = rn_ns self"
    "reports_replicas (rn_ns self) (rn_deployment_name self) 1 w3" "rn_time_start_completed o3 \<noteq> None" by auto
  let ?J = "\<lambda>s. rn_pods_started s = rn_pods_started o3 \<and> rn_ns s = rn_ns o3 \<and> rn_time_start_completed s \<noteq> None"
  have keep: "keeps (\<lambda>s. ?J (fst s)) (?client x)" for x
    by (rule keeps_client_for_pod [where I = ?J]) simp
  from keepsD [OF keeps_collect [OF keep] made] started have same: "?J self'" by simp
  have grows: "emits snd (\<lambda>_. True) (collect ?client (map snd (rn_pods_started o3)))"
    by (intro emits_collect emits_client_for_pod) simp
  obtain rest where rest: "w' = w3 @ rest" using emitsD [OF grows made] by auto
  have all: "list_all2 (\<lambda>x y. \<exists>s1 s2. ?J (fst s1) \<and> ?client x s1 = (Inr y, s2)) (map snd (rn_pods_started o3)) clients"
    by (rule collect_value [OF keep _ made]) (use started in simp)
  have "client \<in> set clients" using c(1) by simp
  from list_all2_origin [OF all this] obtain pod s4 s5 where
    pod: "pod \<in> snd ` set (rn_pods_started o3)" "?J (fst s4)" "?client pod s4 = (Inr client, s5)" by force
  then have "pod_name_of (rn_env self) pod = Inr (xc_hostname client) \<and> xc_server_target client = cv_server_target A"
    using client_for_pod_value [of R "cv_server_target A" pod "fst s4" "snd s4"] started(1)
    by (cases s5) simp
  with pod(1) rest started(2) same show ?thesis by (intro exI [of _ pod] exI [of _ w3] exI [of _ rest]) simp
qed

theorem client_run_sound_witness:
  "\<exists>client self' w'. client_run demo_outside demo_client_args (demo_client_runner, []) = (Inr client, (self', w'))
     \<and> xc_hostname client = ''p'' \<and> length (rn_pods_started self') = 1
     \<and> (\<exists>h rest. w' = h @ rest \<and> reports_replicas (rn_ns demo_client_runner) (rn_deployment_name demo_client_runner) 1 h)"
proof -
  let ?run = "client_run demo_outside demo_client_args (demo_client_runner, [])"
  have "case ?run of (Inl e, s) \<Rightarrow> False
      | (Inr client, (self', w')) \<Rightarrow> xc_hostname client = ''p'' \<and> length (rn_pods_started self') = 1" by code_simp
  then obtain client self' w' where run: "?run = (Inr client, (self', w'))" "xc_hostname client = ''p''"
      "length (rn_pods_started self') = 1"
    by (cases ?run; cases "fst ?run") auto
  have "env_ok (rn_env demo_client_runner)"
    using live_kube_ok by (simp add: demo_client_ns kube_ns_init_def)
  from client_run_sound [OF this run(1)] run show ?thesis by auto
qed

end
