(* ===== verification/ServerRunner.thy ===== *)
theory ServerRunner
  imports AppRunner ServerApp
begin

text \<open>
  framework/test_app/runners/k8s/k8s_xds_server_runner.py: the runner of the test servers. It creates
  the service and the deployment, returns a helper per pod, and releases the pre-stop hooks of the
  pods before the deployment is deleted.
\<close>

section \<open>State\<close>

text \<open>The grace period is the whole number of seconds of the interval.\<close>

record server_args =
  sa_pre_stop_hook :: bool
  sa_termination_grace_period :: int
  sa_enable_csm_observability :: bool
  sa_csm_workload_name :: string
  sa_csm_canonical_service_name :: string
  sa_enable_dualstack :: bool
  sa_enable_spiffe :: bool
  sa_memory_limit :: string
  sa_memory_request :: string

definition default_server_args :: server_args where
  "default_server_args =
     \<lparr>sa_pre_stop_hook = False, sa_termination_grace_period = 0, sa_enable_csm_observability = False,
      sa_csm_workload_name = '''', sa_csm_canonical_service_name = '''', sa_enable_dualstack = False,
      sa_enable_spiffe = False, sa_memory_limit = ''512Mi'', sa_memory_request = ''512Mi''\<rparr>"

definition server_args_as_dict :: "server_args \<Rightarrow> (string \<times> json) list" where
  "server_args_as_dict a =
     [(''pre_stop_hook'', JBool (sa_pre_stop_hook a)),
      (''termination_grace_period_seconds'', JInt (sa_termination_grace_period a)),
      (''enable_csm_observability'', JBool (sa_enable_csm_observability a)),
      (''csm_workload_name'', JStr (sa_csm_workload_name a)),
      (''csm_canonical_service_name'', JStr (sa_csm_canonical_service_name a)),
      (''enable_dualstack'', JBool (sa_enable_dualstack a)),
      (''enable_spiffe'', JBool (sa_enable_spiffe a)),
      (''memory_limit'', JStr (sa_memory_limit a)),
      (''memory_request'', JStr (sa_memory_request a))]"

text \<open>\<open>sr_rpcs\<close>: the calls to the servers so far, which the helpers of the servers extend.\<close>

record server_runner = app_runner +
  sr_service_name :: string
  sr_service_template :: string
  sr_reuse_service :: bool
  sr_gcp_neg_name :: string
  sr_deployment_args :: server_args
  sr_service :: "json option"
  sr_replica_count :: int
  sr_pods_to_servers :: "(string \<times> xds_server) list"
  sr_rpcs :: trace

type_synonym ('x, 'a) sr_meth = "('x server_runner_scheme \<times> world, 'a) act"

abbreviation "DEFAULT_TEST_PORT \<equiv> (8080 :: int)"
abbreviation "DEFAULT_MAINTENANCE_PORT \<equiv> (8080 :: int)"
abbreviation "DEFAULT_SECURE_MODE_MAINTENANCE_PORT \<equiv> (8081 :: int)"

definition reset_server :: "'x server_runner_scheme \<Rightarrow> 'x server_runner_scheme" where
  "reset_server self = (reset_runner self)
     \<lparr>sr_service := None, sr_pods_to_servers := [], sr_replica_count := 0\<rparr>"

definition server_runner_init ::
  "app_runner \<Rightarrow> string option \<Rightarrow> string \<Rightarrow> bool \<Rightarrow> string option \<Rightarrow> server_args option \<Rightarrow> server_runner" where
  "server_runner_init base service_name service_template reuse_service neg_name deployment_args =
     (let service_name' = or_text service_name (rn_deployment_name base)
      in reset_server (app_runner.extend base (server_runner.fields service_name' service_template reuse_service
           (or_text neg_name (kn_name (rn_ns base) @ ''-'' @ service_name'))
           (case deployment_args of None \<Rightarrow> default_server_args | Some a \<Rightarrow> a) None 0 [] [])))"

section \<open>Servers\<close>

definition get_default_maintenance_port :: "bool \<Rightarrow> int" where
  "get_default_maintenance_port secure_mode =
     (if \<not> secure_mode then DEFAULT_MAINTENANCE_PORT else DEFAULT_SECURE_MODE_MAINTENANCE_PORT)"

definition should_collect_logs_prometheus :: "'x server_runner_scheme \<Rightarrow> bool" where
  "should_collect_logs_prometheus self \<longleftrightarrow>
     sa_enable_csm_observability (sr_deployment_args self) \<and> rn_collect_logs self"

text \<open>The helper is kept under the name of its pod.\<close>

definition xds_test_server_for_pod ::
  "outside \<Rightarrow> int \<Rightarrow> int option \<Rightarrow> bool \<Rightarrow> int option \<Rightarrow> json \<Rightarrow> ('x, xds_server) sr_meth" where
  "xds_test_server_for_pod R test_port maintenance_port secure_mode monitoring_port pod = using_self (\<lambda>self.
     let maintenance_port' = (case maintenance_port of None \<Rightarrow> get_default_maintenance_port secure_mode | Some p \<Rightarrow> p) in
     bind (reach_pod R pod maintenance_port' (should_collect_logs_prometheus self) monitoring_port)
       (\<lambda>(rpc_port, rpc_host, monitoring_port').
     bind (lift (getattrs pod [''status'', ''pod_ip''])) (\<lambda>ip.
     bind (lift (pod_name_of (rn_env self) pod)) (\<lambda>hostname.
       let server = server_init (text_value (rn_env self) ip) test_port hostname (Some rpc_port) secure_mode
             None None None rpc_host monitoring_port'
       in bind (assign (sr_pods_to_servers_update (AList.update hostname server))) (\<lambda>_. return server)))))"

definition make_servers_for_deployment ::
  "outside \<Rightarrow> int \<Rightarrow> int \<Rightarrow> int \<Rightarrow> bool \<Rightarrow> ('x, xds_server list) sr_meth" where
  "make_servers_for_deployment R replica_count test_port maintenance_port secure_mode =
     bind (start_pods R replica_count) (\<lambda>_.
     bind (assign (sr_replica_count_update (\<lambda>_. replica_count))) (\<lambda>_. using_self (\<lambda>self.
       collect (xds_test_server_for_pod R test_port (Some maintenance_port) secure_mode None)
         (map snd (rn_pods_started self)))))"

section \<open>Run\<close>

record server_run_args =
  sv_test_port :: int
  sv_maintenance_port :: "int option"
  sv_secure_mode :: bool
  sv_address_type :: string
  sv_replica_count :: int
  sv_log_to_stdout :: bool
  sv_bootstrap_version :: "string option"

definition run_maintenance_port :: "server_run_args \<Rightarrow> int" where
  "run_maintenance_port A =
     or_int (sv_maintenance_port A) (get_default_maintenance_port (sv_secure_mode A))"

text \<open>An existing service is used when that is asked for, and created when it is missing.\<close>

definition obtain_service :: "outside \<Rightarrow> ('x server_runner_scheme \<Rightarrow> (string \<times> json) list) \<Rightarrow> ('x, unit) sr_meth" where
  "obtain_service R kwargs = stmts
     [using_self (\<lambda>self.
        if sr_reuse_service self
        then bind (call (get_service (rn_ns self) (sr_service_name self)))
               (\<lambda>v. assign (sr_service_update (\<lambda>_. some_object v)))
        else return ()),
      using_self (\<lambda>self.
        if sr_service self = None
        then bind (call (create_service R (rn_ns self) (sr_service_template self) (kwargs self)))
               (\<lambda>v. assign (sr_service_update (\<lambda>_. Some v)))
        else return ())]"

definition service_kwargs :: "int \<Rightarrow> 'x server_runner_scheme \<Rightarrow> (string \<times> json) list" where
  "service_kwargs test_port self =
     [(''service_name'', JStr (sr_service_name self)), (''namespace_name'', JStr (kn_name (rn_ns self))),
      (''app_label'', JStr (rn_app_label self)), (''neg_name'', JStr (sr_gcp_neg_name self)),
      (''test_port'', JInt test_port)]"

text \<open>What the deployments of the servers with and without GAMMA have in common.\<close>

definition server_deployment_kwargs :: "server_run_args \<Rightarrow> 'x server_runner_scheme \<Rightarrow> (string \<times> json) list" where
  "server_deployment_kwargs A self =
     [(''deployment_name'', JStr (rn_deployment_name self)),
      (''image_name'', JStr (rn_image_name self)),
      (''namespace_name'', JStr (kn_name (rn_ns self))),
      (''app_label'', JStr (rn_app_label self)),
      (''service_account_name'', opt_str (ap_service_account_name self)),
      (''td_bootstrap_image'', JStr (ap_td_bootstrap_image self)),
      (''xds_server_uri'', opt_str (ap_xds_server_uri self)),
      (''network'', JStr (ap_network self)),
      (''replica_count'', JInt (sv_replica_count A)),
      (''test_port'', JInt (sv_test_port A)),
      (''maintenance_port'', JInt (run_maintenance_port A)),
      (''secure_mode'', JBool (sv_secure_mode A)),
      (''bootstrap_version'', opt_str (sv_bootstrap_version A))]"

definition deploy_servers ::
  "outside \<Rightarrow> server_run_args \<Rightarrow> ('x server_runner_scheme \<Rightarrow> (string \<times> json) list) \<Rightarrow> ('x, unit) sr_meth" where
  "deploy_servers R A own_kwargs = using_self (\<lambda>self.
     bind (create_deployment R (ap_deployment_template self)
        (server_deployment_kwargs A self @ own_kwargs self @ server_args_as_dict (sr_deployment_args self)))
       (\<lambda>v. assign (rn_deployment_update (\<lambda>_. Some v))))"

definition server_deploy :: "outside \<Rightarrow> server_run_args \<Rightarrow> ('x, unit) sr_meth" where
  "server_deploy R A = stmts
     [rn_run R reset_server,
      assign (rn_log_to_stdout_update (\<lambda>_. sv_log_to_stdout A)),
      obtain_service R (\<lambda>self. service_kwargs (sv_test_port A) self @
        [(''enable_dualstack'', JBool (sa_enable_dualstack (sr_deployment_args self))),
         (''enable_spiffe'', JBool (sa_enable_spiffe (sr_deployment_args self)))]),
      using_self (\<lambda>self. wait_service_neg_status_annotation (sr_service_name self) (sv_test_port A)
        WAIT_SHORT_TIMEOUT_SEC),
      create_identity R,
      deploy_servers R A (\<lambda>self. [(''xds_server_region'', opt_str (ap_xds_server_region self)),
        (''address_type'', JStr (sv_address_type A))]),
      using_self (\<lambda>self. setup_csm_observability R (sa_enable_csm_observability (sr_deployment_args self)))]"

text \<open>The ports are numbers here, so the check of their types is left out.\<close>

definition server_run :: "outside \<Rightarrow> server_run_args \<Rightarrow> ('x, xds_server list) sr_meth" where
  "server_run R A = using_self (\<lambda>self.
     if sv_secure_mode A \<and> run_maintenance_port A = sv_test_port A
     then raise (ValueError ''port and maintenance_port must be different when running test server in secure mode'')
     else if sv_secure_mode A \<and> \<not> ap_enable_workload_identity self
     then raise (ValueError ''Secure mode requires Workload Identity enabled.'')
     else bind (server_deploy R A)
       (\<lambda>_. make_servers_for_deployment R (sv_replica_count A) (sv_test_port A) (run_maintenance_port A)
              (sv_secure_mode A)))"

section \<open>Cleanup\<close>

text \<open>
  A call of a method of the helper of a pod's server; no helper is a \<open>KeyError\<close>. The calls it makes
  join the history of the runner as requests of their own kind.
\<close>

definition rpc_request :: "event \<Rightarrow> request" where
  "rpc_request ev = Request ''grpc''
     (case ev of Rpc (InsecureChannel trg) _ _ \<Rightarrow> trg | Rpc (SecureChannel trg _) _ _ \<Rightarrow> trg | Sleep _ \<Rightarrow> [])
     (case ev of Rpc _ (ServiceCall rpc _) _ \<Rightarrow> ''rpc '' @ rpc | _ \<Rightarrow> ''rpc'') [] []"

definition at_server :: "string \<Rightarrow> unit sv_meth \<Rightarrow> ('x, unit) sr_meth" where
  "at_server pod_name m = (\<lambda>(self, w).
     case map_of (sr_pods_to_servers self) pod_name of
       None \<Rightarrow> (Inl (KeyError pod_name), (self, w))
     | Some server \<Rightarrow>
         (case m (server, sr_rpcs self) of (r, (server', tr)) \<Rightarrow>
            (r, (self\<lparr>sr_pods_to_servers := AList.update pod_name server' (sr_pods_to_servers self), sr_rpcs := tr\<rparr>,
                 w @ map rpc_request (drop (length (sr_rpcs self)) tr)))))"

definition release_pod_hook :: "app_env \<Rightarrow> int option \<Rightarrow> string \<Rightarrow> ('x, unit) sr_meth" where
  "release_pod_hook D timeout_sec pod_name =
     try_except (at_server pod_name (release_prestop_hook D timeout_sec))
       (\<lambda>e. isinstance e [CRpcError, CKeyError]) (\<lambda>_. return ())"

text \<open>Stopping pods first, with a shorter deadline.\<close>

definition server_stop_pod_dependencies :: "app_env \<Rightarrow> ('x, unit) sr_meth" where
  "server_stop_pod_dependencies D = using_self (\<lambda>self. stmts
     ((if sa_pre_stop_hook (sr_deployment_args self) \<and> sr_pods_to_servers self \<noteq> []
       then map (release_pod_hook D (Some 5)) (map fst (rn_pods_stopping self)) @
            map (release_pod_hook D None) (map fst (rn_pods_started self))
       else []) @
      [stop_pod_dependencies]))"

definition cleanup_service :: "bool \<Rightarrow> ('x, unit) sr_meth" where
  "cleanup_service force = cleanup_step
     (\<lambda>self. sr_service self \<noteq> None \<and> \<not> sr_reuse_service self \<or> force)
     (\<lambda>self. rn_delete_service (sr_service_name self)) (sr_service_update (\<lambda>_. None))"

definition cleanup_deployment :: "app_env \<Rightarrow> bool \<Rightarrow> ('x, unit) sr_meth" where
  "cleanup_deployment D force = cleanup_step (\<lambda>self. rn_deployment self \<noteq> None \<or> force)
     (\<lambda>self. rn_delete_deployment (server_stop_pod_dependencies D) (rn_deployment_name self))
     (rn_deployment_update (\<lambda>_. None))"

definition server_cleanup :: "outside \<Rightarrow> app_env \<Rightarrow> bool \<Rightarrow> bool \<Rightarrow> ('x, unit) sr_meth" where
  "server_cleanup R D force force_namespace = try_finally
     (stmts
        [cleanup_deployment D force,
         cleanup_service force,
         cleanup_identity force,
         cleanup_pod_monitoring force,
         cleanup_namespace (force_namespace \<and> force)])
     (rn_stop R)"

definition server_namespace_name :: "string \<Rightarrow> string \<Rightarrow> string option \<Rightarrow> string" where
  "server_namespace_name resource_prefix resource_suffix nm =
     make_namespace_name resource_prefix resource_suffix (case nm of None \<Rightarrow> ''server'' | Some n \<Rightarrow> n)"

section \<open>Properties\<close>

text \<open>The calls of a server fail with \<open>RpcError\<close> only, as documented.\<close>

definition hook_errors :: "app_env \<Rightarrow> bool" where
  "hook_errors D \<longleftrightarrow> (\<forall>h ev e. ae_message D h ev = Inl e \<longrightarrow> isinstance e [CRpcError])"

lemma server_stub_made: "\<exists>ch self'. server_stub D prop (self, w) = (Inr ch, (self', w))"
  by (auto simp: server_stub_def cached_stub_def make_channel_def create_new_channel_def using_self_def bind_apply
      andthen_def assign_def call_def return_def split: option.splits)

text \<open>Whatever the server answers, one call is made.\<close>

definition hook_call :: "request \<Rightarrow> bool" where
  "hook_call q \<longleftrightarrow> rq_service q = ''grpc'' \<and> rq_method q = ''rpc SetReturnStatus''"

lemma release_prestop_hook_run:
  "\<exists>r ch d server'. release_prestop_hook D timeout_sec (server, tr)
      = (r, (server', tr @ [Rpc ch (ServiceCall ''SetReturnStatus'' (JObj [])) d]))
    \<and> (\<forall>e. r = Inl e \<longrightarrow> (\<exists>h ev. ae_message D h ev = Inl e))"
proof -
  obtain ch server' where stub: "server_stub D ''hook_service_client'' (server, tr) = (Inr ch, (server', tr))"
    using server_stub_made by blast
  let ?d = "Some (case timeout_sec of None \<Rightarrow> 10 | Some t \<Rightarrow> t)"
  let ?ev = "rpc_event ch (ServiceCall ''SetReturnStatus'' (JObj [])) ?d"
  have call: "service_call D ''hook_service_client'' ''SetReturnStatus'' ?d (server, tr)
      = (ae_message D tr ?ev, (server', tr @ [?ev]))"
    using stub by (simp add: service_call_def bind_def call_def call_unary_with_deadline_def)
  obtain d where ev: "?ev = Rpc ch (ServiceCall ''SetReturnStatus'' (JObj [])) d" by (simp add: rpc_event_def)
  note call = call [unfolded ev]
  show ?thesis
  proof (cases "ae_message D tr (Rpc ch (ServiceCall ''SetReturnStatus'' (JObj [])) d)")
    case (Inl e)
    with call have "release_prestop_hook D timeout_sec (server, tr)
        = (Inl e, (server', tr @ [Rpc ch (ServiceCall ''SetReturnStatus'' (JObj [])) d]))"
      by (simp add: release_prestop_hook_def bind_def)
    with Inl show ?thesis by blast
  next
    case (Inr x)
    with call have "release_prestop_hook D timeout_sec (server, tr)
        = (Inr (), (server', tr @ [Rpc ch (ServiceCall ''SetReturnStatus'' (JObj [])) d]))"
      by (simp add: release_prestop_hook_def bind_def return_def)
    then show ?thesis by blast
  qed
qed

text \<open>Releasing a hook changes nothing of the runner but its servers, and keeps which pods have one.\<close>

definition same_but_servers :: "'x server_runner_scheme \<Rightarrow> 'x server_runner_scheme \<Rightarrow> bool" where
  "same_but_servers self s \<longleftrightarrow> (\<exists>ps tr. s = self\<lparr>sr_pods_to_servers := ps, sr_rpcs := tr\<rparr>
     \<and> fst ` set ps = fst ` set (sr_pods_to_servers self))"

lemma same_but_servers_trans: "same_but_servers a b \<Longrightarrow> same_but_servers b c \<Longrightarrow> same_but_servers a c"
  by (cases a) (auto simp: same_but_servers_def)

lemma same_but_servers_refl: "same_but_servers a a"
  unfolding same_but_servers_def
  by (intro exI [of _ "sr_pods_to_servers a"] exI [of _ "sr_rpcs a"]) simp

lemma release_pod_hook_run:
  assumes "hook_errors D"
  shows "\<exists>self' qs. release_pod_hook D timeout_sec nm (self, w) = (Inr (), (self', w @ qs)) \<and> same_but_servers self self'
    \<and> list_all hook_call qs \<and> length qs = (if nm \<in> fst ` set (sr_pods_to_servers self) then 1 else 0)"
proof (cases "map_of (sr_pods_to_servers self) nm")
  case None
  then have "release_pod_hook D timeout_sec nm (self, w) = (Inr (), (self, w @ []))"
    by (simp add: release_pod_hook_def at_server_def try_except_def return_def)
  with absent_key [OF None] same_but_servers_refl show ?thesis by fastforce
next
  case (Some server)
  obtain r ch d server' where run: "release_prestop_hook D timeout_sec (server, sr_rpcs self)
      = (r, (server', sr_rpcs self @ [Rpc ch (ServiceCall ''SetReturnStatus'' (JObj [])) d]))"
    and r: "\<forall>e. r = Inl e \<longrightarrow> (\<exists>h ev. ae_message D h ev = Inl e)"
    using release_prestop_hook_run by blast
  let ?ev = "Rpc ch (ServiceCall ''SetReturnStatus'' (JObj [])) d"
  let ?s = "self\<lparr>sr_pods_to_servers := AList.update nm server' (sr_pods_to_servers self), sr_rpcs := sr_rpcs self @ [?ev]\<rparr>"
  have at: "at_server nm (release_prestop_hook D timeout_sec) (self, w) = (r, (?s, w @ [rpc_request ?ev]))"
    using Some run by (simp add: at_server_def)
  have "release_pod_hook D timeout_sec nm (self, w) = (Inr (), (?s, w @ [rpc_request ?ev]))"
  proof (cases r)
    case (Inl e)
    with r assms have "isinstance e [CRpcError]" unfolding hook_errors_def by blast
    with at Inl show ?thesis by (simp add: release_pod_hook_def try_except_def return_def)
  qed (use at in \<open>simp add: release_pod_hook_def try_except_def\<close>)
  moreover have "same_but_servers self ?s"
    unfolding same_but_servers_def using present_key [OF Some]
    by (intro exI [of _ "AList.update nm server' (sr_pods_to_servers self)"] exI [of _ "sr_rpcs self @ [?ev]"])
      (auto simp: dom_update)
  moreover have "hook_call (rpc_request ?ev)"
    by (cases ch) (simp_all add: hook_call_def rpc_request_def)
  ultimately show ?thesis using present_key [OF Some]
    by (intro exI [of _ ?s] exI [of _ "[rpc_request ?ev]"]) simp
qed

lemma release_loop_run:
  assumes "hook_errors D"
  shows "\<exists>self' qs. stmts (map (\<lambda>(t, nm). release_pod_hook D t nm) pods) (self, w) = (Inr (), (self', w @ qs))
    \<and> same_but_servers self self' \<and> list_all hook_call qs
    \<and> length qs = length (filter (\<lambda>(t, nm). nm \<in> fst ` set (sr_pods_to_servers self)) pods)"
proof (induction pods arbitrary: self w)
  case Nil
  then show ?case using same_but_servers_refl by (auto simp: return_def)
next
  case (Cons p pods)
  obtain t nm where p: "p = (t, nm)" by fastforce
  obtain s1 qs where first: "release_pod_hook D t nm (self, w) = (Inr (), (s1, w @ qs))" "same_but_servers self s1"
    "list_all hook_call qs" "length qs = (if nm \<in> fst ` set (sr_pods_to_servers self) then 1 else 0)"
    using release_pod_hook_run [OF assms] by blast
  from Cons.IH [of s1 "w @ qs"] obtain s2 rs where rest:
    "stmts (map (\<lambda>(t, nm). release_pod_hook D t nm) pods) (s1, w @ qs) = (Inr (), (s2, (w @ qs) @ rs))"
    "same_but_servers s1 s2" "list_all hook_call rs"
    "length rs = length (filter (\<lambda>(t, nm). nm \<in> fst ` set (sr_pods_to_servers s1)) pods)" by blast
  have "fst ` set (sr_pods_to_servers s1) = fst ` set (sr_pods_to_servers self)"
    using first(2) unfolding same_but_servers_def by (elim exE conjE) simp
  with first rest have "stmts (map (\<lambda>(t, nm). release_pod_hook D t nm) (p # pods)) (self, w) = (Inr (), (s2, w @ (qs @ rs)))"
    "length (qs @ rs) = length (filter (\<lambda>(t, nm). nm \<in> fst ` set (sr_pods_to_servers self)) (p # pods))"
    by (simp_all add: p andthen_Inr)
  moreover have "list_all hook_call (qs @ rs)" "same_but_servers self s2"
    using first rest same_but_servers_trans by auto
  ultimately show ?case by blast
qed

text \<open>The pods whose hooks are released: those that are stopping or started, and have a server.\<close>

definition hooked_pods :: "'x server_runner_scheme \<Rightarrow> string list" where
  "hooked_pods self =
     (if sa_pre_stop_hook (sr_deployment_args self)
      then filter (\<lambda>nm. nm \<in> fst ` set (sr_pods_to_servers self))
             (map fst (rn_pods_stopping self) @ map fst (rn_pods_started self))
      else [])"

lemma server_stop_run:
  assumes "hook_errors D" and "logs_ok self" and "rn_port_forwarders self = []"
  shows "\<exists>s qs. server_stop_pod_dependencies D (self, w) = (Inr (), (released s, w @ qs)) \<and> same_but_servers self s
    \<and> list_all hook_call qs \<and> length qs = length (hooked_pods self)"
proof -
  let ?pods = "map (\<lambda>nm. (Some (5 :: int), nm)) (map fst (rn_pods_stopping self)) @ map (\<lambda>nm. (None, nm)) (map fst (rn_pods_started self))"
  let ?on = "sa_pre_stop_hook (sr_deployment_args self) \<and> sr_pods_to_servers self \<noteq> []"
  let ?ms = "if ?on then map (\<lambda>(t, nm). release_pod_hook D t nm) ?pods else []"
  obtain s qs where loop: "stmts ?ms (self, w) = (Inr (), (s, w @ qs))" "same_but_servers self s" "list_all hook_call qs"
    "length qs = (if ?on then length (filter (\<lambda>(t, nm). nm \<in> fst ` set (sr_pods_to_servers self)) ?pods) else 0)"
  proof (cases ?on)
    case True
    obtain s qs where "stmts (map (\<lambda>(t, nm). release_pod_hook D t nm) ?pods) (self, w) = (Inr (), (s, w @ qs))"
      "same_but_servers self s" "list_all hook_call qs"
      "length qs = length (filter (\<lambda>(t, nm). nm \<in> fst ` set (sr_pods_to_servers self)) ?pods)"
      using release_loop_run [OF assms(1), of ?pods self w] by blast
    then show ?thesis by (intro that [of s qs]) (simp_all only: if_P [OF True])
  next
    case False
    then show ?thesis using same_but_servers_refl by (intro that [of self "[]"]) (simp_all only: if_False stmts.simps return_def append_Nil2
        list.pred_inject list.size)
  qed
  have "logs_ok s" "rn_port_forwarders s = []"
    using loop(2) assms(2,3) by (auto simp: same_but_servers_def logs_ok_def)
  from stop_pod_dependencies_run [OF this] loop(1)
  have run: "stmts (?ms @ [stop_pod_dependencies]) (self, w) = (Inr (), (released s, w @ qs))"
    unfolding stmts_append by (simp add: andthen_def bind_apply return_def)
  have ms: "?ms = (if ?on then map (release_pod_hook D (Some 5)) (map fst (rn_pods_stopping self)) @
            map (release_pod_hook D None) (map fst (rn_pods_started self)) else [])" by simp
  have "server_stop_pod_dependencies D (self, w) = (Inr (), (released s, w @ qs))"
    unfolding server_stop_pod_dependencies_def using_self_def fst_conv ms [symmetric] by (rule run)
  moreover have "length qs = length (hooked_pods self)"
    using loop(4) by (auto simp: hooked_pods_def filter_map comp_def filter_empty_conv)
  ultimately show ?thesis using loop(2,3) by blast
qed


lemma hooks_change_nothing: "list_all hook_call qs \<Longrightarrow> kube_log qs = []"
  by (induction qs) (auto simp: kube_log_def hook_call_def)

text \<open>What the steps of the cleanup look at is the same before and after the hooks.\<close>

lemma same_but_servers_fields:
  assumes "same_but_servers self s"
  shows "rn_ns s = rn_ns self" "rn_service_account s = rn_service_account self"
    "ap_enable_workload_identity s = ap_enable_workload_identity self" "ap_pod_monitoring s = ap_pod_monitoring self"
    "ap_pod_monitoring_name s = ap_pod_monitoring_name self" "sr_service s = sr_service self"
    "sr_service_name s = sr_service_name self" "sr_reuse_service s = sr_reuse_service self"
    "ap_workload_identity_iam_policy_binding s = ap_workload_identity_iam_policy_binding self"
    "identity_removals s = identity_removals self" "monitoring_removals s = monitoring_removals self"
    "namespace_removals b s = namespace_removals b self" "iam_answers s = iam_answers self"
  using assms by (auto simp: same_but_servers_def removals iam_answers_def split: option.splits)

lemma released_server_fields [simp]:
  "sr_service (released s) = sr_service s" "sr_service_name (released s) = sr_service_name s"
  "sr_reuse_service (released s) = sr_reuse_service s"
  by (simp_all add: released_def)

lemma removals_update [simp]:
  "identity_removals (s\<lparr>rn_deployment := d\<rparr>) = identity_removals s" "identity_removals (s'\<lparr>sr_service := d'\<rparr>) = identity_removals s'"
  "monitoring_removals (s\<lparr>rn_deployment := d\<rparr>) = monitoring_removals s"
  "monitoring_removals (s'\<lparr>sr_service := d'\<rparr>) = monitoring_removals s'"
  "namespace_removals b (s\<lparr>rn_deployment := d\<rparr>) = namespace_removals b s"
  "namespace_removals b (s'\<lparr>sr_service := d'\<rparr>) = namespace_removals b s'"
  "identity_removals (released s) = identity_removals s" "monitoring_removals (released s) = monitoring_removals s"
  "namespace_removals b (released s) = namespace_removals b s" "iam_answers (s'\<lparr>sr_service := d'\<rparr>) = iam_answers s'"
  by (simp_all add: removals iam_answers_def split: option.split)

definition server_ready :: "app_env \<Rightarrow> 'x server_runner_scheme \<Rightarrow> bool" where
  "server_ready D self \<longleftrightarrow> app_ready self \<and> hook_errors D"

lemma reaches_cleanup_deployment:
  assumes "server_ready D self" and "rn_deployment self \<noteq> None \<or> force"
    and "\<And>s. same_but_servers self s
      \<Longrightarrow> Q () ((released s)\<lparr>rn_deployment := None\<rparr>) [deployment_removal (rn_ns self) (rn_deployment_name self)]"
  shows "reaches_by kube_log (cleanup_deployment D force) self Q"
  unfolding cleanup_deployment_def
proof (rule reaches_cleanup_step(1), rule assms(2), rule reaches_delete_deployment)
  show "ns_ready (rn_ns self)" using assms(1) by (simp add: server_ready_def app_ready_def)
  show "reaches_by kube_log (server_stop_pod_dependencies D) self (\<lambda>_ s cs. rn_ns s = rn_ns self \<and>
      Q () (rn_deployment_update (\<lambda>_. None) s) (cs @ [deployment_removal (rn_ns self) (rn_deployment_name self)]))"
    unfolding reaches_by_def
  proof
    fix w
    obtain s qs where run: "server_stop_pod_dependencies D (self, w) = (Inr (), (released s, w @ qs))"
      and s: "same_but_servers self s" and qs: "list_all hook_call qs"
      using server_stop_run [of D self w] assms(1) by (auto simp: server_ready_def app_ready_def)
    from assms(3) [OF s] same_but_servers_fields(1) [OF s] hooks_change_nothing [OF qs] run
    show "\<exists>x s' w' cs. server_stop_pod_dependencies D (self, w) = (Inr x, (s', w')) \<and> kube_log w' = kube_log w @ cs \<and>
      rn_ns s' = rn_ns self \<and>
      Q () (rn_deployment_update (\<lambda>_. None) s') (cs @ [deployment_removal (rn_ns self) (rn_deployment_name self)])"
      by (intro exI [of _ "()"] exI [of _ "released s"] exI [of _ "w @ qs"] exI [of _ "[]"]) simp
  qed
qed

lemma reaches_cleanup_service:
  assumes "ns_ready (rn_ns self)" and "sr_service self \<noteq> None \<and> \<not> sr_reuse_service self \<or> force"
    and "Q () (self\<lparr>sr_service := None\<rparr>) [service_removal (rn_ns self) (sr_service_name self)]"
  shows "reaches_by kube_log (cleanup_service force) self Q"
  unfolding cleanup_service_def
  by (rule reaches_cleanup_step(1), rule assms(2), rule reaches_removals(1), rule assms(1), rule assms(3))

text \<open>What the cleanup of a server runner removes.\<close>

lemma server_cleanup_removes:
  assumes ready: "server_ready D self" and complete: "app_complete force self"
    and service: "sr_service self \<noteq> None \<and> \<not> sr_reuse_service self \<or> force"
  shows "\<exists>self' w'. server_cleanup R D force force_namespace (self, w) = (Inr (), (self', w'))
    \<and> kube_log w' = kube_log w @ ([deployment_removal (rn_ns self) (rn_deployment_name self),
          service_removal (rn_ns self) (sr_service_name self)]
        @ identity_removals self @ monitoring_removals self @ namespace_removals (force_namespace \<and> force) self)
    \<and> rn_deployment self' = None \<and> rn_time_stopped self' \<noteq> None"
proof -
  let ?Q = "\<lambda>x s cs. cs = [deployment_removal (rn_ns self) (rn_deployment_name self),
          service_removal (rn_ns self) (sr_service_name self)]
        @ identity_removals self @ monitoring_removals self @ namespace_removals (force_namespace \<and> force) self
    \<and> rn_deployment s = None \<and> rn_time_stopped s \<noteq> None"
  have app: "app_ready self" using ready by (simp add: server_ready_def)
  have "reaches_by kube_log (server_cleanup R D force force_namespace) self ?Q"
    unfolding server_cleanup_def
  proof (rule reaches_finally, rule reaches_stmts(2), rule reaches_cleanup_deployment [OF ready])
    show "rn_deployment self \<noteq> None \<or> force" using complete by (auto simp: app_complete_def)
    fix s assume s: "same_but_servers self s"
    note fields = same_but_servers_fields [OF s]
    let ?s = "(released s)\<lparr>rn_deployment := None\<rparr>"
    show "reaches_by kube_log (stmts [cleanup_service force, cleanup_identity force, cleanup_pod_monitoring force,
        cleanup_namespace (force_namespace \<and> force)]) ?s
      (\<lambda>y s' cs'. reaches_by kube_log (rn_stop R) s'
        (\<lambda>_ s'' cs''. ?Q () s'' (([deployment_removal (rn_ns self) (rn_deployment_name self)] @ cs') @ cs'')))"
      by (rule reaches_stmts(2), rule reaches_cleanup_service, use app fields in \<open>simp add: app_ready_def\<close>,
          use service fields in simp, unfold append_assoc, rule reaches_app_cleanup)
        (use app complete fields in \<open>auto simp: app_ready_def app_complete_def\<close>)
  qed
  then show ?thesis by (rule reaches_exactly)
qed


text \<open>Making the helper of a pod.\<close>

lemma server_for_pod_value:
  assumes "xds_test_server_for_pod R test_port mport secure mon pod (self, w) = (Inr server, (self', w'))"
  shows "pod_name_of (rn_env self) pod = Inr (xs_hostname server) \<and> xs_rpc_port server = test_port"
  using assms
  by (auto simp: xds_test_server_for_pod_def Let_def using_self_def bind_eq_Inr lift_def return_def server_init_def
      xds_server.defs grpc_app.defs)

lemma keeps_server_for_pod:
  assumes "\<And>obj pfs. I obj \<Longrightarrow> I (rn_port_forwarders_update pfs obj)"
    and "\<And>obj ps. I obj \<Longrightarrow> I (sr_pods_to_servers_update ps obj)"
  shows "keeps (\<lambda>s. I (fst s)) (xds_test_server_for_pod R test_port mport secure mon pod)"
  unfolding xds_test_server_for_pod_def Let_def
  by (auto intro!: keeps_using_self keeps_bind keeps_basic keeps_reach_pod keeps_object(1) assms split: prod.split)

lemma emits_server_for_pod: "(\<And>q. P q) \<Longrightarrow> emits snd P (xds_test_server_for_pod R test_port mport secure mon pod)"
  unfolding xds_test_server_for_pod_def Let_def
  by (auto intro!: emits_using_self emits_bind emits_pure emits_reach_pod emits_object split: prod.split)

definition server_stable :: "('x server_runner_scheme \<Rightarrow> bool) \<Rightarrow> bool" where
  "server_stable I \<longleftrightarrow> run_stable I \<and> (\<forall>s. I s \<longrightarrow> (\<forall>f. I (sr_service_update f s)) \<and> (\<forall>f. I (sr_pods_to_servers_update f s))
     \<and> (\<forall>f. I (sr_replica_count_update f s)))"

lemma server_stableD:
  assumes "server_stable I"
  shows "run_stable I" "I s \<Longrightarrow> I (sr_service_update f1 s)" "I s \<Longrightarrow> I (sr_pods_to_servers_update f2 s)"
    "I s \<Longrightarrow> I (sr_replica_count_update f3 s)"
  using assms unfolding server_stable_def by simp_all

lemma same_app_server_stable [simp]: "server_stable (same_app N d)"
  by (simp add: server_stable_def)

lemma keeps_obtain_service:
  assumes "server_stable I"
  shows "keeps (\<lambda>s. I (fst s)) (obtain_service R kwargs)"
  unfolding obtain_service_def stmts.simps
  by (intro keeps_andthen keeps_using_self keeps_bind keeps_if keeps_object(1,2) [where I = I] keeps_basic
      server_stableD(2) [OF assms])

lemma keeps_deploy_servers:
  assumes "server_stable I"
  shows "keeps (\<lambda>s. I (fst s)) (deploy_servers R A own)"
proof -
  note D = run_stableD [OF server_stableD(1) [OF assms]]
  show ?thesis
    unfolding deploy_servers_def
    by (intro keeps_using_self keeps_bind keeps_object(1) [where I = I] keeps_create_deployment [where I = I] D)
qed

lemma keeps_neg_wait: "keeps (\<lambda>s. I (fst s)) (wait_service_neg_status_annotation nm p t)"
  unfolding wait_service_neg_status_annotation_def
  by (intro keeps_using_self keeps_bind keeps_object(2) [where I = I] keeps_basic)

lemma keeps_server_run:
  assumes "server_stable I"
  shows "keeps (\<lambda>s. I (fst s)) (rn_run R reset_server)"
proof (rule keeps_run [where I = I])
  note D = server_stableD(2,3,4) [OF assms]
  show "I (reset_server obj)" if "I obj" for obj
    unfolding reset_server_def by (intro D run_stableD(1) [OF server_stableD(1) [OF assms]] that)
qed (rule run_stableD [OF server_stableD(1) [OF assms]], assumption)+

lemma keeps_server_deploy:
  assumes "server_stable I"
  shows "keeps (\<lambda>s. I (fst s)) (server_deploy R A)"
  unfolding server_deploy_def stmts.simps
  by (intro keeps_andthen keeps_using_self keeps_object(1) [where I = I] keeps_server_run [where I = I]
      keeps_obtain_service keeps_deploy_servers keeps_neg_wait [where I = I] keeps_identity keeps_csm keeps_basic
      assms server_stableD(1) [OF assms] run_stableD [OF server_stableD(1) [OF assms]])

lemma keeps_make_servers:
  assumes "server_stable I"
  shows "keeps (\<lambda>s. I (fst s)) (make_servers_for_deployment R cnt test_port mport secure)"
  unfolding make_servers_for_deployment_def
  by (intro keeps_bind keeps_using_self keeps_start_pods keeps_object(1) [where I = I] keeps_collect
      keeps_server_for_pod [where I = I] server_stableD [OF assms] run_stableD [OF server_stableD(1) [OF assms]])

text \<open>The servers of a deployment.\<close>

lemma make_servers_value:
  fixes self :: "'x server_runner_scheme"
  assumes "env_ok (rn_env self)"
    and run: "make_servers_for_deployment R cnt test_port mport secure (self, w) = (Inr servers, (self', w'))"
  shows "list_all2 (\<lambda>pod server. pod_name_of (rn_env self) pod = Inr (xs_hostname server) \<and> xs_rpc_port server = test_port)
      (map snd (rn_pods_started self')) servers
    \<and> (\<exists>h rest. w' = h @ rest \<and> reports_replicas (rn_ns self) (rn_deployment_name self) cnt h)
    \<and> sr_replica_count self' = cnt \<and> rn_time_start_completed self' \<noteq> None"
proof -
  let ?server = "xds_test_server_for_pod R test_port (Some mport) secure None :: json \<Rightarrow> ('x, xds_server) sr_meth"
  from run obtain o1 w1 where start: "start_pods R cnt (self, w) = (Inr (), (o1, w1))"
    and made: "collect ?server (map snd (rn_pods_started o1)) (o1\<lparr>sr_replica_count := cnt\<rparr>, w1) = (Inr servers, (self', w'))"
    by (auto simp: make_servers_for_deployment_def bind_eq_Inr using_self_def assign_def)
  from start_pods_value [OF assms(1) start] have started: "rn_ns o1 = rn_ns self"
    "reports_replicas (rn_ns self) (rn_deployment_name self) cnt w1" "rn_time_start_completed o1 \<noteq> None" by auto
  let ?J = "\<lambda>s. rn_pods_started s = rn_pods_started o1 \<and> rn_ns s = rn_ns self \<and> sr_replica_count s = cnt
    \<and> rn_time_start_completed s \<noteq> None"
  have keep: "keeps (\<lambda>s. ?J (fst s)) (?server x)" for x
    by (rule keeps_server_for_pod [where I = ?J]) simp_all
  have "?J (o1\<lparr>sr_replica_count := cnt\<rparr>)" using started by simp
  then have same: "?J self'" using keepsD [OF keeps_collect [OF keep] made] by simp
  have grows: "emits snd (\<lambda>_. True) (collect ?server (map snd (rn_pods_started o1)))"
    by (intro emits_collect emits_server_for_pod) simp
  obtain rest where rest: "w' = w1 @ rest" using emitsD [OF grows made] by auto
  have "list_all2 (\<lambda>x y. \<exists>s1 s2. ?J (fst s1) \<and> ?server x s1 = (Inr y, s2)) (map snd (rn_pods_started o1)) servers"
    by (rule collect_value [OF keep _ made]) (use started in simp)
  then have "list_all2 (\<lambda>pod server. pod_name_of (rn_env self) pod = Inr (xs_hostname server) \<and> xs_rpc_port server = test_port)
      (map snd (rn_pods_started o1)) servers"
  proof (rule list_all2_mono)
    fix pod server assume "\<exists>s1 s2. ?J (fst s1) \<and> ?server pod s1 = (Inr server, s2)"
    then obtain o2 w2 o3 w3 where "?J o2" "?server pod (o2, w2) = (Inr server, (o3, w3))" by force
    with server_for_pod_value show "pod_name_of (rn_env self) pod = Inr (xs_hostname server) \<and> xs_rpc_port server = test_port"
      by metis
  qed
  with same rest started(2) show ?thesis by auto
qed

text \<open>
  When \<open>run\<close> of a server runner returns, it returns one helper for every pod that the runner has
  started, in their order, with the name of the pod and the test port; before, the API server
  answered that the deployment has as many replicas available as were asked for.
\<close>

theorem server_run_sound:
  assumes "env_ok (rn_env self)" and run: "server_run R A (self, w) = (Inr servers, (self', w'))"
  shows "list_all2 (\<lambda>pod server. pod_name_of (rn_env self) pod = Inr (xs_hostname server)
        \<and> xs_rpc_port server = sv_test_port A) (map snd (rn_pods_started self')) servers
    \<and> (\<exists>h rest. w' = h @ rest \<and> reports_replicas (rn_ns self) (rn_deployment_name self) (sv_replica_count A) h)
    \<and> sr_replica_count self' = sv_replica_count A \<and> rn_time_start_completed self' \<noteq> None"
proof -
  from run obtain o1 w1 where deployed: "server_deploy R A (self, w) = (Inr (), (o1, w1))"
    and made: "make_servers_for_deployment R (sv_replica_count A) (sv_test_port A) (run_maintenance_port A)
      (sv_secure_mode A) (o1, w1) = (Inr servers, (self', w'))"
    by (auto simp: server_run_def using_self_def bind_eq_Inr raise_def split: if_splits)
  from keepsD [OF keeps_server_deploy [OF same_app_server_stable [of "rn_ns self" "rn_deployment_name self"]] deployed]
  have same: "rn_ns o1 = rn_ns self" "rn_deployment_name o1 = rn_deployment_name self" by simp_all
  with assms(1) have "env_ok (rn_env o1)" by simp
  from make_servers_value [OF this made] same show ?thesis by simp
qed

text \<open>A server that does not answer, of a runner with a pre-stop hook.\<close>

definition dead_app :: app_env where
  "dead_app =
     \<lparr>ae_creds_token = (\<lambda>h host. Inr ''token''), ae_top_channels = (\<lambda>h ev. Inr ([], True)),
      ae_channel = (\<lambda>h ev. Inl (RpcError None [])), ae_subchannel = (\<lambda>h ev. Inl (RpcError None [])),
      ae_socket = (\<lambda>h ev. Inl (RpcError None [])), ae_servers = (\<lambda>h ev. Inr ([], True)),
      ae_server_sockets = (\<lambda>h ev. Inr ([], True)), ae_message = (\<lambda>h ev. Inl (RpcError None []))\<rparr>"

lemma dead_app_errors: "hook_errors dead_app"
  by (simp add: hook_errors_def dead_app_def)

definition demo_server_runner :: server_runner where
  "demo_server_runner = server_runner_init demo_app_runner (Some ''s'') ''server.service.yaml'' False None
     (Some (default_server_args\<lparr>sa_pre_stop_hook := True\<rparr>))"

definition demo_server_args :: server_run_args where
  "demo_server_args = \<lparr>sv_test_port = 8, sv_maintenance_port = Some 9, sv_secure_mode = True, sv_address_type = [],
     sv_replica_count = 1, sv_log_to_stdout = False, sv_bootstrap_version = None\<rparr>"

lemma demo_server_ns: "rn_ns demo_server_runner = kube_ns_init live_kube ''ns''"
  by (simp add: demo_server_runner_def server_runner_init_def server_runner.defs app_runner.defs runner.defs Let_def
      demo_app_runner_def app_runner_init_def demo_runner_def runner_init_def reset_runner_def reset_server_def)

lemma demo_server_fields:
  "rn_port_forwarders demo_server_runner = []" "rn_log_stop_event demo_server_runner = Some False"
  "ap_workload_identity_iam_policy_binding demo_server_runner = False" "sr_reuse_service demo_server_runner = False"
  by code_simp+

theorem server_run_sound_witness:
  "\<exists>server self' w'. server_run demo_outside demo_server_args (demo_server_runner, []) = (Inr [server], (self', w'))
     \<and> xs_hostname server = ''p'' \<and> xs_rpc_port server = 8 \<and> sr_replica_count self' = 1"
proof -
  let ?run = "server_run demo_outside demo_server_args (demo_server_runner, [])"
  have "case fst ?run of Inl e \<Rightarrow> False | Inr servers \<Rightarrow> map xs_hostname servers = [''p'']" by code_simp
  then obtain servers self' w' where run: "?run = (Inr servers, (self', w'))" and host: "map xs_hostname servers = [''p'']"
    by (cases ?run; cases "fst ?run") auto
  have "env_ok (rn_env demo_server_runner)"
    using live_kube_ok by (simp add: demo_server_ns kube_ns_init_def)
  from server_run_sound [OF this run] run host show ?thesis
    by (auto simp: list_all2_Cons2 demo_server_args_def)
qed

definition demo_running_server :: server_runner where
  "demo_running_server = demo_server_runner
     \<lparr>rn_pods_started := [(''p'', JNull), (''r'', JNull)], rn_pods_stopping := [(''q'', JNull)],
      sr_pods_to_servers := [(''p'', server_init ''h'' 8 ''p'' (Some 9) False None None None None None),
                             (''q'', server_init ''h'' 8 ''q'' (Some 9) False None None None None None)]\<rparr>"



end
