(* ===== verification/GammaRunner.thy ===== *)
theory GammaRunner
  imports ServerRunner
begin

text \<open>
  framework/test_app/runners/k8s/gamma_server_runner.py: the server runner for GAMMA, where a route
  takes the traffic of a frontend service to the servers' own service.
\<close>

record gamma_runner = server_runner +
  gr_route :: "json option"
  gr_frontend_service :: "json option"
  gr_session_affinity_filter :: "json option"
  gr_session_affinity_policy :: "json option"
  gr_backend_policy :: "json option"
  gr_route_kind :: route_kind
  gr_route_name :: string
  gr_frontend_service_name :: string

type_synonym 'a gr_meth = "(gamma_runner \<times> world, 'a) act"

definition SESSION_AFFINITY_FILTER_NAME :: string where
  "SESSION_AFFINITY_FILTER_NAME = ''ssa-filter''"

definition SESSION_AFFINITY_POLICY_NAME :: string where
  "SESSION_AFFINITY_POLICY_NAME = ''ssa-policy''"

definition BACKEND_POLICY_NAME :: string where
  "BACKEND_POLICY_NAME = ''backend-policy''"

definition gamma_runner_init :: "server_runner \<Rightarrow> string \<Rightarrow> route_kind \<Rightarrow> gamma_runner" where
  "gamma_runner_init base frontend_service_name kind =
     server_runner.extend base (gamma_runner.fields None None None None None kind
       (''route-'' @ lower (route_kind_value kind) @ ''-'' @ rn_deployment_name base) frontend_service_name)"

section \<open>Run\<close>

definition gamma_deploy :: "outside \<Rightarrow> server_run_args \<Rightarrow> string \<Rightarrow> bool \<Rightarrow> unit gr_meth" where
  "gamma_deploy R A route_template generate_mesh_id = stmts
     [rn_run R reset_server,
      assign (rn_log_to_stdout_update (\<lambda>_. sv_log_to_stdout A)),
      obtain_service R (service_kwargs (sv_test_port A)),
      using_self (\<lambda>self. bind (call (create_service R (rn_ns self) ''gamma/frontend_service.yaml''
          [(''service_name'', JStr (gr_frontend_service_name self)),
           (''namespace_name'', JStr (kn_name (rn_ns self)))]))
        (\<lambda>v. assign (gr_frontend_service_update (\<lambda>_. Some v)))),
      using_self (\<lambda>self. bind (call (create_gamma_route R (rn_ns self) route_template (gr_route_name self)
          [(''service_name'', JStr (sr_service_name self)),
           (''namespace_name'', JStr (kn_name (rn_ns self))),
           (''test_port'', JInt (sv_test_port A)),
           (''frontend_service_name'', JStr (gr_frontend_service_name self))]))
        (\<lambda>v. assign (gr_route_update (\<lambda>_. Some v)))),
      create_identity R,
      deploy_servers R A (\<lambda>self. [(''generate_mesh_id'', JBool generate_mesh_id)]),
      using_self (\<lambda>self. setup_csm_observability R (sa_enable_csm_observability (sr_deployment_args self)))]"

text \<open>
  The ports are not checked here. The annotation of the mesh is always awaited on an HTTP route,
  whatever the kind of the runner's own route.
\<close>

definition gamma_run :: "outside \<Rightarrow> server_run_args \<Rightarrow> string \<Rightarrow> bool \<Rightarrow> xds_server list gr_meth" where
  "gamma_run R A route_template generate_mesh_id =
     bind (gamma_deploy R A route_template generate_mesh_id) (\<lambda>_.
     bind (make_servers_for_deployment R (sv_replica_count A) (sv_test_port A) (run_maintenance_port A)
             (sv_secure_mode A)) (\<lambda>servers.
     bind (using_self (\<lambda>self. wait_service_neg_status_annotation (sr_service_name self) (sv_test_port A) (4 * 60))) (\<lambda>_.
     bind (using_self (\<lambda>self. call (wait_for_mesh_annotation_on_gamma_route (rn_ns self) (gr_route_name self)
             HTTP_ROUTE 60 WAIT_SHORT_SLEEP_SEC))) (\<lambda>_.
       return servers))))"

section \<open>Policies of the route and the services\<close>

definition gr_create_session_affinity_policy :: "outside \<Rightarrow> string \<Rightarrow> (string \<times> json) list \<Rightarrow> unit gr_meth" where
  "gr_create_session_affinity_policy R template template_vars = using_self (\<lambda>self.
     bind (call (create_session_affinity_policy R (rn_ns self) template SESSION_AFFINITY_POLICY_NAME
                   (kn_name (rn_ns self)) template_vars))
       (\<lambda>v. assign (gr_session_affinity_policy_update (\<lambda>_. Some v))))"

definition create_session_affinity_policy_route :: "outside \<Rightarrow> unit gr_meth" where
  "create_session_affinity_policy_route R = using_self (\<lambda>self.
     gr_create_session_affinity_policy R ''gamma/session_affinity_policy_route.yaml''
       [(''route_name'', JStr (gr_route_name self))])"

definition create_session_affinity_policy_service :: "outside \<Rightarrow> unit gr_meth" where
  "create_session_affinity_policy_service R = using_self (\<lambda>self.
     gr_create_session_affinity_policy R ''gamma/session_affinity_policy_service.yaml''
       [(''service_name'', JStr (sr_service_name self))])"

definition gr_create_session_affinity_filter :: "outside \<Rightarrow> unit gr_meth" where
  "gr_create_session_affinity_filter R = using_self (\<lambda>self.
     bind (call (create_session_affinity_filter R (rn_ns self) ''gamma/session_affinity_filter.yaml''
                   SESSION_AFFINITY_FILTER_NAME (kn_name (rn_ns self)) []))
       (\<lambda>v. assign (gr_session_affinity_filter_update (\<lambda>_. Some v))))"

text \<open>The timeout is given in whole seconds.\<close>

definition gr_create_backend_policy :: "outside \<Rightarrow> int option \<Rightarrow> unit gr_meth" where
  "gr_create_backend_policy R draining_timeout = using_self (\<lambda>self.
     bind (call (create_backend_policy R (rn_ns self) ''gamma/backend_policy.yaml'' BACKEND_POLICY_NAME
                   (kn_name (rn_ns self)) (sr_service_name self)
                   [(''draining_timeout_sec'', JInt (case draining_timeout of None \<Rightarrow> 0 | Some t \<Rightarrow> t))]))
       (\<lambda>v. assign (gr_backend_policy_update (\<lambda>_. Some v))))"

section \<open>Cleanup\<close>

definition gamma_cleanup :: "outside \<Rightarrow> app_env \<Rightarrow> bool \<Rightarrow> bool \<Rightarrow> unit gr_meth" where
  "gamma_cleanup R D force force_namespace = try_finally
     (stmts
        [cleanup_step (\<lambda>self. gr_session_affinity_policy self \<noteq> None \<or> force)
           (\<lambda>self. rn_delete_session_affinity_policy SESSION_AFFINITY_POLICY_NAME)
           (gr_session_affinity_policy_update (\<lambda>_. None)),
         cleanup_step (\<lambda>self. gr_session_affinity_filter self \<noteq> None \<or> force)
           (\<lambda>self. rn_delete_session_affinity_filter SESSION_AFFINITY_FILTER_NAME)
           (gr_session_affinity_filter_update (\<lambda>_. None)),
         cleanup_step (\<lambda>self. gr_backend_policy self \<noteq> None \<or> force)
           (\<lambda>self. rn_delete_backend_policy BACKEND_POLICY_NAME)
           (gr_backend_policy_update (\<lambda>_. None)),
         cleanup_step (\<lambda>self. gr_route self \<noteq> None \<or> force)
           (\<lambda>self. delete_gamma_route_of (gr_route_kind self) (gr_route_name self))
           (gr_route_update (\<lambda>_. None)),
         cleanup_step (\<lambda>self. gr_frontend_service self \<noteq> None \<or> force)
           (\<lambda>self. rn_delete_service (gr_frontend_service_name self))
           (gr_frontend_service_update (\<lambda>_. None)),
         cleanup_service force,
         cleanup_deployment D force,
         cleanup_identity force,
         cleanup_pod_monitoring force,
         cleanup_namespace (force_namespace \<and> force)])
     (rn_stop R)"

section \<open>Properties\<close>

lemma gamma_run_waits:
  assumes "env_ok (kn_env N)"
    and run: "wait_for_mesh_annotation_on_gamma_route N nm kind t s w = (Inr (), w')"
  shows "\<exists>h obj. w' = h @ [dyn_read_request N (gamma_route_api_of kind) nm]
    \<and> http (kn_env N) h (dyn_read_request N (gamma_route_api_of kind) nm) = Inr obj
    \<and> check_mesh_annotation N obj = Inr True"
proof -
  let ?q = "dyn_read_request N (gamma_route_api_of kind) nm"
  from run obtain v where "wait_until N s t (check_mesh_annotation N) (get_gamma_route N kind nm) w = (Inr v, w')"
    by (auto simp: wait_for_mesh_annotation_on_gamma_route_def noting_value bind_eq_Inr return_def)
  with assms(1) obtain h where get: "get_gamma_route N kind nm h = (Inr v, w')"
    and check: "check_mesh_annotation N v = Inr True" by (rule wait_until_value)
  have v: "v \<noteq> JNull"
    using check by (auto simp: check_mesh_annotation_def dyn_getattr_def)
  from get obtain api w1 where find: "gamma_route_api N kind h = (Inr api, w1)"
    and read: "try_except (kn_execute N (dyn_read_request N api nm)) (\<lambda>e. isinstance e [CNotFound, CDynamicNotFoundError])
        (\<lambda>_. return JNull) w1 = (Inr v, w')"
    by (auto simp: get_gamma_route_def get_dyn_resource_def bind_eq_Inr)
  from find gamma_route_api_finds [of N kind, unfolded finds_api_def] have api: "api = gamma_route_api_of kind" by blast
  from read v have "kn_execute N ?q w1 = (Inr v, w')"
    by (auto simp: api try_except_def return_def split: prod.splits sum.splits if_splits)
  then obtain h' where "execute_once (kn_env N) ?q h' = (Inr v, w')"
    unfolding kn_execute_def by (rule kube_execute_returns [OF assms(1)])
  with check show ?thesis by (auto simp: execute_once_def)
qed

lemma keeps_gamma_deploy:
  assumes "server_stable I" and "\<And>s f. I s \<Longrightarrow> I (gr_frontend_service_update f s)" and "\<And>s f. I s \<Longrightarrow> I (gr_route_update f s)"
  shows "keeps (\<lambda>s. I (fst s)) (gamma_deploy R A route_template generate_mesh_id)"
  unfolding gamma_deploy_def stmts.simps
  by (intro keeps_andthen keeps_using_self keeps_bind keeps_object(1,2) [where I = I] keeps_server_run [where I = I]
      keeps_obtain_service keeps_deploy_servers keeps_identity keeps_csm keeps_basic
      assms server_stableD(1) [OF assms(1)] run_stableD [OF server_stableD(1) [OF assms(1)]])

text \<open>
  When \<open>run\<close> of a GAMMA runner returns, the last answer of the API server was an HTTP route with the
  name of the runner's route and the annotation of the mesh. The kind of the runner does not matter:
  a runner of a gRPC route waits for an HTTP route that it never creates.
\<close>

theorem gamma_awaits_http_route:
  assumes "env_ok (rn_env self)"
    and run: "gamma_run R A route_template generate_mesh_id (self, w) = (Inr servers, (self', w'))"
  shows "\<exists>h obj. w' = h @ [dyn_read_request (rn_ns self) (''gateway.networking.k8s.io/v1beta1'', ''HTTPRoute'') (gr_route_name self)]
    \<and> http (rn_env self) h
        (dyn_read_request (rn_ns self) (''gateway.networking.k8s.io/v1beta1'', ''HTTPRoute'') (gr_route_name self)) = Inr obj
    \<and> check_mesh_annotation (rn_ns self) obj = Inr True"
proof -
  let ?I = "\<lambda>s. rn_ns s = rn_ns self \<and> gr_route_name s = gr_route_name self"
  have stable: "server_stable ?I" by (simp add: server_stable_def run_stable_def reset_runner_def)
  from run obtain s1 s2 s3 where deployed: "gamma_deploy R A route_template generate_mesh_id (self, w) = (Inr (), s1)"
    and made: "make_servers_for_deployment R (sv_replica_count A) (sv_test_port A) (run_maintenance_port A)
      (sv_secure_mode A) s1 = (Inr servers, s2)"
    and neg: "wait_service_neg_status_annotation (sr_service_name (fst s2)) (sv_test_port A) (4 * 60) s2 = (Inr (), s3)"
    and mesh: "call (wait_for_mesh_annotation_on_gamma_route (rn_ns (fst s3)) (gr_route_name (fst s3))
               HTTP_ROUTE 60 WAIT_SHORT_SLEEP_SEC) s3 = (Inr (), (self', w'))"
    by (auto simp: gamma_run_def bind_eq_Inr andthen_eq_Inr using_self_def return_def)
  have "?I (fst s1)" using keepsD [OF keeps_gamma_deploy [where I = ?I, OF stable] deployed] by simp
  then have "?I (fst s2)" using keepsD [OF keeps_make_servers [OF stable] made] by simp
  then have s3: "?I (fst s3)" using keepsD [OF keeps_neg_wait [where I = ?I] neg] by simp
  from mesh s3 have "wait_for_mesh_annotation_on_gamma_route (rn_ns self) (gr_route_name self)
               HTTP_ROUTE 60 WAIT_SHORT_SLEEP_SEC (snd s3) = (Inr (), w')"
    by (auto simp: call_def split: prod.splits)
  from gamma_run_waits [OF assms(1) this] show ?thesis by (simp add: gamma_route_api_of_def)
qed

text \<open>An API server with routes; the route of the runner is a gRPC route, the one it reads an HTTP route.\<close>

definition demo_route :: "string \<Rightarrow> string \<Rightarrow> json" where
  "demo_route kind nm = JObj [(''__class__'', JStr ''ResourceInstance''),
     (''apiVersion'', JStr ''gateway.networking.k8s.io/v1''), (''kind'', JStr kind),
     (''metadata'', JObj [(''name'', JStr nm), (''annotations'', JObj [(MESH_ANNOTATION, JStr ''mesh'')])])]"

definition gamma_answer :: "world \<Rightarrow> request \<Rightarrow> exn + json" where
  "gamma_answer w q =
     (if rq_method q = ''create'' \<and> rq_arg q ''data'' = None then Inr (demo_route ''GRPCRoute'' ''r'')
      else if rq_method q = ''get'' \<and> rq_arg q ''name'' \<noteq> None \<and> \<not> (kube_log w \<noteq> [] \<and> reads_deleted q (last (kube_log w)))
      then Inr (demo_route ''HTTPRoute'' ''r'')
      else live_answer w q)"

definition gamma_kube :: kube where
  "gamma_kube = live_kube\<lparr>kb_env := (kb_env live_kube)\<lparr>http := gamma_answer, str_value := (\<lambda>j. [])\<rparr>\<rparr>"

lemma gamma_kube_ok: "env_ok (kb_env gamma_kube)" "kube_ready gamma_kube"
  using busy_kube_ok
  by (auto simp: env_ok_def gamma_kube_def live_kube_def kube_ready_def gamma_answer_def live_answer_def reads_deleted_def
      isl_def busy_kube_def discovery_request_def demo_object_def rq_arg_def)

definition gamma_outside :: outside where
  "gamma_outside = demo_outside\<lparr>ro_render := (\<lambda>t kwargs.
     if t = ''route'' then Inr [demo_route ''GRPCRoute'' ''r'']
     else if t = ''gamma/frontend_service.yaml''
     then (case map_of kwargs ''service_name'' of Some (JStr nm) \<Rightarrow> Inr [demo_object ''V1Service'' nm] | _ \<Rightarrow> Inl (KeyError t))
     else ro_render demo_outside t kwargs)\<rparr>"

definition demo_gamma_runner :: gamma_runner where
  "demo_gamma_runner = (gamma_runner_init
     (demo_server_runner\<lparr>rn_ns := kube_ns_init gamma_kube ''ns''\<rparr>) ''f'' GRPC_ROUTE)\<lparr>gr_route_name := ''r''\<rparr>"

lemma demo_gamma_ns: "rn_ns demo_gamma_runner = kube_ns_init gamma_kube ''ns''"
  by (simp add: demo_gamma_runner_def gamma_runner_init_def gamma_runner.defs server_runner.defs app_runner.defs runner.defs)

theorem gamma_awaits_http_route_witness:
  "\<exists>servers self' w' h. gamma_run gamma_outside demo_server_args ''route'' False (demo_gamma_runner, []) = (Inr servers, (self', w'))
     \<and> gr_route_kind demo_gamma_runner = GRPC_ROUTE
     \<and> w' = h @ [dyn_read_request (rn_ns demo_gamma_runner) (''gateway.networking.k8s.io/v1beta1'', ''HTTPRoute'')
         (gr_route_name demo_gamma_runner)]"
proof -
  let ?run = "gamma_run gamma_outside demo_server_args ''route'' False (demo_gamma_runner, [])"
  have "case fst ?run of Inl e \<Rightarrow> False | Inr servers \<Rightarrow> True" by code_simp
  then obtain servers self' w' where run: "?run = (Inr servers, (self', w'))"
    by (cases ?run; cases "fst ?run") auto
  have kind: "gr_route_kind demo_gamma_runner = GRPC_ROUTE" by code_simp
  have "env_ok (rn_env demo_gamma_runner)"
    using gamma_kube_ok by (simp add: demo_gamma_ns kube_ns_init_def)
  from gamma_awaits_http_route [OF this run] run kind show ?thesis by blast
qed

section \<open>The cleanup\<close>

text \<open>What the cleanup removes before the service and the deployment: all there is, or with \<open>force\<close> all.\<close>

definition gamma_removals :: "bool \<Rightarrow> gamma_runner \<Rightarrow> request list" where
  "gamma_removals force self =
     (if gr_session_affinity_policy self \<noteq> None \<or> force then [custom_removal (rn_ns self)
        ''networking.gke.io/v1'' ''GCPSessionAffinityPolicy'' SESSION_AFFINITY_POLICY_NAME] else []) @
     (if gr_session_affinity_filter self \<noteq> None \<or> force then [custom_removal (rn_ns self)
        ''networking.gke.io/v1'' ''GCPSessionAffinityFilter'' SESSION_AFFINITY_FILTER_NAME] else []) @
     (if gr_backend_policy self \<noteq> None \<or> force then [custom_removal (rn_ns self)
        ''networking.gke.io/v1'' ''GCPBackendPolicy'' BACKEND_POLICY_NAME] else []) @
     (if gr_route self \<noteq> None \<or> force
      then [route_removal (rn_ns self) (gr_route_kind self) (gr_route_name self)] else []) @
     (if gr_frontend_service self \<noteq> None \<or> force
      then [service_removal (rn_ns self) (gr_frontend_service_name self)] else [])"

lemma reaches_optional_step:
  assumes "\<And>Q. Q () self [req] \<Longrightarrow> reaches_by f (m self) self Q"
    and "Q () (if b self then u self else self) (if b self then [req] else [])"
  shows "reaches_by f (cleanup_step b m u) self Q"
  using assms by (cases "b self") (auto intro: reaches_cleanup_step)

text \<open>The steps up to there only forget the fields of the GAMMA runner.\<close>

definition forgets_gamma :: "gamma_runner \<Rightarrow> gamma_runner \<Rightarrow> bool" where
  "forgets_gamma self s \<longleftrightarrow> (\<exists>policy filter backend route frontend. s = self
     \<lparr>gr_session_affinity_policy := policy, gr_session_affinity_filter := filter, gr_backend_policy := backend,
      gr_route := route, gr_frontend_service := frontend\<rparr>)"

lemma forgets_gamma_fields:
  assumes "forgets_gamma self s"
  shows "rn_ns s = rn_ns self" "rn_deployment s = rn_deployment self" "rn_deployment_name s = rn_deployment_name self"
    "sr_service s = sr_service self" "sr_service_name s = sr_service_name self" "sr_reuse_service s = sr_reuse_service self"
    "server_ready D s = server_ready D self" "app_complete force s = app_complete force self"
    "identity_removals s = identity_removals self" "monitoring_removals s = monitoring_removals self"
    "namespace_removals own s = namespace_removals own self"
  using assms
  by (auto simp: forgets_gamma_def server_ready_def app_ready_def logs_ok_def iam_answers_def app_complete_def removals
      split: option.splits)

lemma forgets_gamma_refl: "forgets_gamma self self"
  unfolding forgets_gamma_def
  by (rule exI [of _ "gr_session_affinity_policy self"], rule exI [of _ "gr_session_affinity_filter self"],
      rule exI [of _ "gr_backend_policy self"], rule exI [of _ "gr_route self"], rule exI [of _ "gr_frontend_service self"])
    simp

lemma forgets_gamma_steps:
  assumes "forgets_gamma self s"
  shows "forgets_gamma self (if b then gr_session_affinity_policy_update f s else s)"
    "forgets_gamma self (if b then gr_session_affinity_filter_update f s else s)"
    "forgets_gamma self (if b then gr_backend_policy_update f s else s)"
    "forgets_gamma self (if b then gr_route_update f s else s)"
    "forgets_gamma self (if b then gr_frontend_service_update f s else s)"
proof -
  from assms obtain a i e r t where s: "s = self
     \<lparr>gr_session_affinity_policy := a, gr_session_affinity_filter := i, gr_backend_policy := e,
      gr_route := r, gr_frontend_service := t\<rparr>" by (auto simp: forgets_gamma_def)
  have same: "forgets_gamma self (self
     \<lparr>gr_session_affinity_policy := a, gr_session_affinity_filter := i, gr_backend_policy := e,
      gr_route := r, gr_frontend_service := t\<rparr>)" for a i e r t
    unfolding forgets_gamma_def by blast
  have "gr_session_affinity_policy_update f s = self\<lparr>gr_session_affinity_policy := f a, gr_session_affinity_filter := i,
      gr_backend_policy := e, gr_route := r, gr_frontend_service := t\<rparr>"
    "gr_session_affinity_filter_update f s = self\<lparr>gr_session_affinity_policy := a, gr_session_affinity_filter := f i,
      gr_backend_policy := e, gr_route := r, gr_frontend_service := t\<rparr>"
    "gr_backend_policy_update f s = self\<lparr>gr_session_affinity_policy := a, gr_session_affinity_filter := i,
      gr_backend_policy := f e, gr_route := r, gr_frontend_service := t\<rparr>"
    "gr_route_update f s = self\<lparr>gr_session_affinity_policy := a, gr_session_affinity_filter := i,
      gr_backend_policy := e, gr_route := f r, gr_frontend_service := t\<rparr>"
    "gr_frontend_service_update f s = self\<lparr>gr_session_affinity_policy := a, gr_session_affinity_filter := i,
      gr_backend_policy := e, gr_route := r, gr_frontend_service := f t\<rparr>"
    by (rule gamma_runner.equality; simp add: s)+
  then show "forgets_gamma self (if b then gr_session_affinity_policy_update f s else s)"
    "forgets_gamma self (if b then gr_session_affinity_filter_update f s else s)"
    "forgets_gamma self (if b then gr_backend_policy_update f s else s)"
    "forgets_gamma self (if b then gr_route_update f s else s)"
    "forgets_gamma self (if b then gr_frontend_service_update f s else s)"
    using assms same by simp_all
qed

lemma without_service [simp]:
  "server_ready D (s\<lparr>sr_service := d\<rparr>) = server_ready D s" "app_complete force (s\<lparr>sr_service := d\<rparr>) = app_complete force s"
  by (simp_all add: server_ready_def app_ready_def logs_ok_def app_complete_def)

lemma reaches_gamma_steps:
  assumes ready: "ns_ready (rn_ns self)"
    and Q: "\<And>s. forgets_gamma self s \<Longrightarrow> reaches_by kube_log (stmts rest) s (\<lambda>x s' cs. Q x s' (gamma_removals force self @ cs))"
  shows "reaches_by kube_log (stmts
     ([cleanup_step (\<lambda>self. gr_session_affinity_policy self \<noteq> None \<or> force)
           (\<lambda>self. rn_delete_session_affinity_policy SESSION_AFFINITY_POLICY_NAME)
           (gr_session_affinity_policy_update (\<lambda>_. None)),
         cleanup_step (\<lambda>self. gr_session_affinity_filter self \<noteq> None \<or> force)
           (\<lambda>self. rn_delete_session_affinity_filter SESSION_AFFINITY_FILTER_NAME)
           (gr_session_affinity_filter_update (\<lambda>_. None)),
         cleanup_step (\<lambda>self. gr_backend_policy self \<noteq> None \<or> force)
           (\<lambda>self. rn_delete_backend_policy BACKEND_POLICY_NAME)
           (gr_backend_policy_update (\<lambda>_. None)),
         cleanup_step (\<lambda>self. gr_route self \<noteq> None \<or> force)
           (\<lambda>self. delete_gamma_route_of (gr_route_kind self) (gr_route_name self))
           (gr_route_update (\<lambda>_. None)),
         cleanup_step (\<lambda>self. gr_frontend_service self \<noteq> None \<or> force)
           (\<lambda>self. rn_delete_service (gr_frontend_service_name self))
           (gr_frontend_service_update (\<lambda>_. None))] @ rest)) self Q"
proof -
  let ?b1 = "gr_session_affinity_policy self \<noteq> None \<or> force" and ?b2 = "gr_session_affinity_filter self \<noteq> None \<or> force"
    and ?b3 = "gr_backend_policy self \<noteq> None \<or> force" and ?b4 = "gr_route self \<noteq> None \<or> force"
    and ?b5 = "gr_frontend_service self \<noteq> None \<or> force"
  define s1 where "s1 = (if ?b1 then gr_session_affinity_policy_update (\<lambda>_. None) self else self)"
  define s2 where "s2 = (if gr_session_affinity_filter s1 \<noteq> None \<or> force then gr_session_affinity_filter_update (\<lambda>_. None) s1 else s1)"
  define s3 where "s3 = (if gr_backend_policy s2 \<noteq> None \<or> force then gr_backend_policy_update (\<lambda>_. None) s2 else s2)"
  define s4 where "s4 = (if gr_route s3 \<noteq> None \<or> force then gr_route_update (\<lambda>_. None) s3 else s3)"
  define s5 where "s5 = (if gr_frontend_service s4 \<noteq> None \<or> force then gr_frontend_service_update (\<lambda>_. None) s4 else s4)"
  have s1: "rn_ns s1 = rn_ns self" "gr_session_affinity_filter s1 = gr_session_affinity_filter self"
    "gr_backend_policy s1 = gr_backend_policy self" "gr_route s1 = gr_route self" "gr_route_kind s1 = gr_route_kind self"
    "gr_route_name s1 = gr_route_name self" "gr_frontend_service s1 = gr_frontend_service self"
    "gr_frontend_service_name s1 = gr_frontend_service_name self"
    by (simp_all add: s1_def)
  have s2: "rn_ns s2 = rn_ns self"
    "gr_backend_policy s2 = gr_backend_policy self" "gr_route s2 = gr_route self" "gr_route_kind s2 = gr_route_kind self"
    "gr_route_name s2 = gr_route_name self" "gr_frontend_service s2 = gr_frontend_service self"
    "gr_frontend_service_name s2 = gr_frontend_service_name self"
    by (simp_all add: s2_def s1)
  have s3: "rn_ns s3 = rn_ns self" "gr_route s3 = gr_route self" "gr_route_kind s3 = gr_route_kind self"
    "gr_route_name s3 = gr_route_name self" "gr_frontend_service s3 = gr_frontend_service self"
    "gr_frontend_service_name s3 = gr_frontend_service_name self"
    by (simp_all add: s3_def s2)
  have s4: "rn_ns s4 = rn_ns self" "gr_frontend_service s4 = gr_frontend_service self"
    "gr_frontend_service_name s4 = gr_frontend_service_name self"
    by (simp_all add: s4_def s3)
  have "forgets_gamma self s5"
    unfolding s5_def s4_def s3_def s2_def s1_def by (intro forgets_gamma_steps forgets_gamma_refl)
  then have last: "reaches_by kube_log (stmts rest) s5 (\<lambda>x s' cs. Q x s' (gamma_removals force self @ cs))" by (rule Q)
  show ?thesis
    unfolding append.simps
    by (rule reaches_stmts(2), rule reaches_optional_step, rule reaches_removals(3), use ready in assumption, assumption, fold s1_def,
        rule reaches_stmts(2), rule reaches_optional_step, rule reaches_removals(4), use ready s1 in simp, assumption, fold s2_def,
        rule reaches_stmts(2), rule reaches_optional_step, rule reaches_removals(5), use ready s2 in simp, assumption, fold s3_def,
        rule reaches_stmts(2), rule reaches_optional_step, rule reaches_removals(6), use ready s3 in simp, assumption, fold s4_def,
        rule reaches_stmts(2), rule reaches_optional_step, rule reaches_removals(1), use ready s4 in simp, assumption, fold s5_def)
      (use last in \<open>simp only: s1 s2 s3 s4 gamma_removals_def append_assoc\<close>)
qed

text \<open>
  The cleanup of a GAMMA runner, forced or after everything of its servers has been created with
  a service of its own, succeeds on an API server in good order. It deletes the policies and the
  filter that there are, the route before the two services it connects, then the service before its
  deployment, the service account, the pod monitoring and the namespace, and nothing else.
\<close>

theorem gamma_cleanup_order:
  assumes ready: "server_ready D self" and complete: "app_complete force self"
    and service: "sr_service self \<noteq> None \<and> \<not> sr_reuse_service self \<or> force"
  shows "\<exists>self' w'. gamma_cleanup R D force force_namespace (self, w) = (Inr (), (self', w'))
    \<and> kube_log w' = kube_log w @ (gamma_removals force self @
         [service_removal (rn_ns self) (sr_service_name self), deployment_removal (rn_ns self) (rn_deployment_name self)]
        @ identity_removals self @ monitoring_removals self @ namespace_removals (force_namespace \<and> force) self)
    \<and> rn_deployment self' = None \<and> rn_time_stopped self' \<noteq> None"
proof -
  let ?Q = "\<lambda>x s cs. cs = gamma_removals force self @
         [service_removal (rn_ns self) (sr_service_name self), deployment_removal (rn_ns self) (rn_deployment_name self)]
        @ identity_removals self @ monitoring_removals self @ namespace_removals (force_namespace \<and> force) self
    \<and> rn_deployment s = None \<and> rn_time_stopped s \<noteq> None"
  have ns: "ns_ready (rn_ns self)" using ready by (simp add: server_ready_def app_ready_def)
  have "reaches_by kube_log (gamma_cleanup R D force force_namespace) self ?Q"
    unfolding gamma_cleanup_def
  proof (rule reaches_finally, rule reaches_gamma_steps [unfolded append.simps, OF ns])
    fix s assume s: "forgets_gamma self s"
    note fields = forgets_gamma_fields [OF s]
    let ?s = "s\<lparr>sr_service := None\<rparr>"
    have s': "server_ready D ?s" "rn_deployment ?s \<noteq> None \<or> force" "app_complete force ?s"
      using ready fields(2,7) complete fields(8) by (simp, auto simp: app_complete_def)
    show "reaches_by kube_log (stmts [cleanup_service force, cleanup_deployment D force, cleanup_identity force,
        cleanup_pod_monitoring force, cleanup_namespace (force_namespace \<and> force)]) s
      (\<lambda>x s' cs. reaches_by kube_log (rn_stop R) s'
        (\<lambda>_ s'' cs'. ?Q () s'' ((gamma_removals force self @ cs) @ cs')))"
    proof (rule reaches_stmts(2), rule reaches_cleanup_service, use ns fields in simp, use service fields in simp,
        rule reaches_stmts(2), rule reaches_cleanup_deployment [OF s'(1,2)])
      fix t assume t: "same_but_servers ?s t"
      note fields' = same_but_servers_fields [OF t]
      let ?t = "(released t)\<lparr>rn_deployment := None\<rparr>"
      have app: "ns_ready (rn_ns ?t)" "ap_enable_workload_identity ?t \<and> ap_workload_identity_iam_policy_binding ?t \<longrightarrow> iam_answers ?t"
        using s'(1) fields' by (simp_all add: server_ready_def app_ready_def)
      have there: "rn_service_account ?t \<noteq> None \<or> force \<or> \<not> ap_enable_workload_identity ?t"
        "ap_pod_monitoring ?t \<noteq> None \<or> force \<or> \<not> set_str (ap_pod_monitoring_name ?t)"
        using s'(3) fields' by (auto simp: app_complete_def)
      have goes: "identity_removals ?t = identity_removals self" "monitoring_removals ?t = monitoring_removals self"
        "namespace_removals own ?t = namespace_removals own self" "rn_ns ?s = rn_ns self"
        "rn_deployment_name ?s = rn_deployment_name self" "sr_service_name s = sr_service_name self" "rn_ns s = rn_ns self" for own
        using fields fields' by simp_all
      show "reaches_by kube_log (stmts [cleanup_identity force, cleanup_pod_monitoring force,
          cleanup_namespace (force_namespace \<and> force)]) ?t
        (\<lambda>y s' cs'. reaches_by kube_log (rn_stop R) s' (\<lambda>_ s'' cs''. ?Q () s''
          ((gamma_removals force self @ [service_removal (rn_ns s) (sr_service_name s)] @
            [deployment_removal (rn_ns ?s) (rn_deployment_name ?s)] @ cs') @ cs'')))"
        by (unfold append_assoc, rule reaches_app_cleanup, rule app(1), rule there(1), rule app(2), rule there(2))
          (use goes in simp)
    qed
  qed
  then show ?thesis by (rule reaches_exactly)
qed

lemma demo_gamma_ready: "server_ready dead_app demo_gamma_runner"
proof -
  have "ns_ready (rn_ns demo_gamma_runner)"
    using gamma_kube_ok(2) by (simp add: demo_gamma_ns ns_ready_def kube_ns_init_def no_own_pause_def)
  moreover have "rn_port_forwarders demo_gamma_runner = []" "rn_log_stop_event demo_gamma_runner \<noteq> None"
    "\<not> ap_workload_identity_iam_policy_binding demo_gamma_runner" by code_simp+
  ultimately show ?thesis using dead_app_errors by (simp add: server_ready_def app_ready_def logs_ok_def)
qed

theorem gamma_cleanup_order_witness:
  "fst (gamma_cleanup gamma_outside dead_app True True (demo_gamma_runner, [])) = Inr ()
   \<and> length (kube_log (snd (snd (gamma_cleanup gamma_outside dead_app True True (demo_gamma_runner, []))))) = 9"
proof -
  have "app_complete True demo_gamma_runner" by (simp add: app_complete_def)
  from gamma_cleanup_order [OF demo_gamma_ready this, of gamma_outside True "[]"]
  obtain self' w' where run: "gamma_cleanup gamma_outside dead_app True True (demo_gamma_runner, []) = (Inr (), (self', w'))"
    and log: "kube_log w' = kube_log [] @ (gamma_removals True demo_gamma_runner @
        [service_removal (rn_ns demo_gamma_runner) (sr_service_name demo_gamma_runner),
         deployment_removal (rn_ns demo_gamma_runner) (rn_deployment_name demo_gamma_runner)]
      @ identity_removals demo_gamma_runner @ monitoring_removals demo_gamma_runner
      @ namespace_removals (True \<and> True) demo_gamma_runner)" by blast
  have "length (identity_removals demo_gamma_runner) = 1" "length (monitoring_removals demo_gamma_runner) = 0"
    "length (namespace_removals True demo_gamma_runner) = 1" "length (gamma_removals True demo_gamma_runner) = 5" by code_simp+
  with run log show ?thesis by simp
qed

end
