(* ===== verification/RunnerScope.thy ===== *)
theory RunnerScope
  imports ClientRunner GammaRunner
begin

text \<open>
  What the cleanup of a runner may change: whatever the services answer and however it ends, the
  cleanups of the client, server and GAMMA runners (framework/test_app/runners/k8s/) change nothing
  in the cluster outside the namespace of the runner, and elsewhere nothing but IAM policies.
\<close>

section \<open>Requests\<close>

text \<open>
  A request that concerns a namespace: something in it, or the namespace itself. A request that stays
  within changes nothing else but the policies of IAM.
\<close>

definition within :: "string \<Rightarrow> request \<Rightarrow> bool" where
  "within nm q \<longleftrightarrow> rq_service q = ''kubernetes'' \<and> (rq_arg q ''namespace'' = Some (JStr nm)
     \<or> rq_collection q = ''CoreV1Api.namespace'' \<and> rq_arg q ''name'' = Some (JStr nm))"

abbreviation stays_within :: "string \<Rightarrow> request \<Rightarrow> bool" where
  "stays_within nm \<equiv> \<lambda>q. mutates q \<longrightarrow> within nm q \<or> rq_service q = ''iam''"

text \<open>A runner of a namespace that has nothing open but its IAM client.\<close>

definition ns_ok :: "kube_ns \<Rightarrow> bool" where
  "ns_ok N \<longleftrightarrow> env_ok (kn_env N) \<and> no_own_pause N = N"

definition runner_at :: "kube_ns \<Rightarrow> 'x app_runner_scheme \<Rightarrow> bool" where
  "runner_at N self \<longleftrightarrow> rn_ns self = N \<and> rn_port_forwarders self = []
     \<and> (case ap_gcp_iam self of None \<Rightarrow> True | Some c \<Rightarrow> env_ok (iam_env c))"

lemma runner_atD: "runner_at N self \<Longrightarrow> rn_ns self = N"
  by (simp add: runner_at_def)

lemma within_removals:
  "within (kn_name N) (delete_request N api noun grace nm)" "within (kn_name N) (dyn_delete_request N dyn g nm)"
  "within (kn_name N) (delete_namespace_request N)"
  by (simp_all add: within_def delete_request_def dyn_delete_request_def delete_namespace_request_def typed_request_def
      dynamic_request_def rq_arg_def)

lemma obeys_call_only:
  assumes "emits (\<lambda>w. w) (\<lambda>q. mutates q \<longrightarrow> q = d) m" and "within nm d"
  shows "obeys I (stays_within nm) (call m)"
  using assms by (intro obeys_call) (auto elim: emits_mono)

lemma removals_within:
  assumes "ns_ok N"
  shows "obeys (runner_at N) (stays_within (kn_name N)) (rn_delete_service nm)"
    and "obeys (runner_at N) (stays_within (kn_name N)) (rn_delete_service_account nm)"
    and "obeys (runner_at N) (stays_within (kn_name N)) (rn_delete_session_affinity_policy nm)"
    and "obeys (runner_at N) (stays_within (kn_name N)) (rn_delete_session_affinity_filter nm)"
    and "obeys (runner_at N) (stays_within (kn_name N)) (rn_delete_backend_policy nm)"
    and "obeys (runner_at N) (stays_within (kn_name N)) (delete_gamma_route_of kind nm)"
    and "obeys (runner_at N) (stays_within (kn_name N)) rn_delete_namespace"
    and "obeys (runner_at N) (stays_within (kn_name N)) (rn_delete_pod_monitoring nm)"
proof -
  have ok: "env_ok (kn_env N)" and pause: "no_own_pause N = N" using assms by (simp_all add: ns_ok_def)
  note at = obeys_using_self [where I = "runner_at N"] obeys_call_only
  show "obeys (runner_at N) (stays_within (kn_name N)) (rn_delete_service nm)"
    unfolding rn_delete_service_def using ok service.delete_quietly_only
    by (intro at) (auto dest!: runner_atD simp: within_removals)
  show "obeys (runner_at N) (stays_within (kn_name N)) (rn_delete_service_account nm)"
    unfolding rn_delete_service_account_def using ok service_account.delete_quietly_only
    by (intro at) (auto dest!: runner_atD simp: within_removals)
  show "obeys (runner_at N) (stays_within (kn_name N)) (rn_delete_session_affinity_policy nm)"
    unfolding rn_delete_session_affinity_policy_def using ok affinity_policy.delete_quietly_only
    by (intro at) (auto dest!: runner_atD simp: within_removals)
  show "obeys (runner_at N) (stays_within (kn_name N)) (rn_delete_session_affinity_filter nm)"
    unfolding rn_delete_session_affinity_filter_def using ok affinity_filter.delete_quietly_only
    by (intro at) (auto dest!: runner_atD simp: within_removals)
  show "obeys (runner_at N) (stays_within (kn_name N)) (rn_delete_backend_policy nm)"
    unfolding rn_delete_backend_policy_def using ok backend_policy.delete_quietly_only
    by (intro at) (auto dest!: runner_atD simp: within_removals)
  show "obeys (runner_at N) (stays_within (kn_name N)) (delete_gamma_route_of kind nm)"
    unfolding delete_gamma_route_of_def using ok gamma_route.delete_quietly_only
    by (intro at) (auto dest!: runner_atD simp: within_removals)
  show "obeys (runner_at N) (stays_within (kn_name N)) rn_delete_namespace"
    unfolding rn_delete_namespace_def using namespace.delete_quietly_only [OF ok] pause
    by (intro at) (auto dest!: runner_atD simp: within_removals)
  have "kube_resource (kn_api N) (delete_pod_monitoring N nm)
      (wait_gone N 0 0 (get_dyn_resource N (api_pod_monitoring N) nm))
      (dyn_delete_request N (''monitoring.googleapis.com/v1'', ''PodMonitoring'') DELETE_GRACE_PERIOD_SEC nm)"
    unfolding delete_pod_monitoring_def by (rule dynamic_resource [OF namespace_apis_find(6)])
  from kube_resource.delete_quietly_only [OF this ok, of False]
  show "obeys (runner_at N) (stays_within (kn_name N)) (rn_delete_pod_monitoring nm)"
    unfolding rn_delete_pod_monitoring_def
    by (intro at) (auto dest!: runner_atD simp: delete_quietly_def within_removals)
qed

lemma runner_at_updates [simp]:
  "runner_at N (rn_namespace_update f1 s) = runner_at N s" "runner_at N (rn_deployment_update f1 s) = runner_at N s"
  "runner_at N (rn_service_account_update f1 s) = runner_at N s" "runner_at N (ap_pod_monitoring_update f1 s) = runner_at N s"
  "runner_at N (ap_pod_monitoring_name_update f2 s) = runner_at N s" "runner_at N (rn_log_stop_event_update f3 s) = runner_at N s"
  "runner_at N (rn_log_collectors_update f4 s) = runner_at N s" "runner_at N (rn_time_stopped_update f5 s) = runner_at N s"
  "runner_at N (rn_run_history_update f6 s) = runner_at N s"
  "runner_at N (sr_service_update g1 t) = runner_at N t" "runner_at N (sr_pods_to_servers_update g2 t) = runner_at N t"
  "runner_at N (sr_rpcs_update g3 t) = runner_at N t"
  "runner_at N (gr_session_affinity_policy_update h1 u) = runner_at N u"
  "runner_at N (gr_session_affinity_filter_update h1 u) = runner_at N u"
  "runner_at N (gr_backend_policy_update h1 u) = runner_at N u" "runner_at N (gr_route_update h1 u) = runner_at N u"
  "runner_at N (gr_frontend_service_update h1 u) = runner_at N u"
  by (simp_all add: runner_at_def)

lemma obeys_cleanup_step:
  "(\<And>self. obeys I P (m self)) \<Longrightarrow> (\<And>self. I self \<Longrightarrow> I (u self)) \<Longrightarrow> obeys I P (cleanup_step b m u)"
  unfolding cleanup_step_def by (intro obeys_using_self obeys_if obeys_andthen obeys_assign obeys_pure)

lemma revoke_within:
  assumes "runner_at N self"
  shows "obeys (runner_at N) (stays_within nm) (revoke_workload_identity_user (ap_gcp_iam self) account sa)"
proof (cases "ap_gcp_iam self")
  case None
  have raised: "bind (raise e) f = raise e" for e and f :: "iam \<Rightarrow> ('x app_runner_scheme \<times> world, unit) act"
    by (simp add: fun_eq_iff bind_apply raise_def)
  show ?thesis unfolding revoke_workload_identity_user_def None
    by (simp add: attr_of_def raised obeys_using_self obeys_pure)
next
  case (Some c)
  with assms have "env_ok (iam_env c)" by (simp add: runner_at_def)
  from emits_remove_binding [OF this]
  have only: "emits (\<lambda>w. w) (stays_within nm) (remove_service_account_iam_policy_binding c account rl member)" for rl member
    by (rule emits_mono) simp
  show ?thesis unfolding revoke_workload_identity_user_def Some
    by (simp add: attr_of_def obeys_using_self obeys_try obeys_call only obeys_pure)
qed

lemma rn_stop_within: "obeys (runner_at N) P (rn_stop R)"
proof -
  have "obeys (runner_at N) P (assign_now R (\<lambda>t. rn_time_stopped_update (\<lambda>_. t)))"
    by (auto simp: obeys_def assign_now_def)
  then show ?thesis unfolding rn_stop_def
    by (intro obeys_stmts obeys_using_self) (auto intro!: obeys_assign obeys_pure split: option.split)
qed

lemma stop_dependencies_within: "obeys (runner_at N) P stop_pod_dependencies"
proof -
  have "obeys (runner_at N) P maybe_stop_logging"
    unfolding maybe_stop_logging_def by (intro obeys_using_self obeys_if obeys_bind obeys_pure obeys_assign) simp
  moreover have "obeys (runner_at N) P stop_port_forwarders"
    by (auto simp: obeys_def stop_port_forwarders_def runner_at_def)
  ultimately show ?thesis
    unfolding stop_pod_dependencies_def by (intro obeys_stmts obeys_assign) simp_all
qed

text \<open>The calls to the pre-stop hooks of the pods.\<close>

lemma rpcs_change_nothing: "\<not> mutates (rpc_request ev)"
  by (auto simp: mutates_def rpc_request_def split: event.splits rpc_call.splits)

lemma hook_calls_within: "obeys (runner_at N) (stays_within nm) (release_pod_hook D t p)"
proof -
  have "obeys (runner_at N) (stays_within nm) (at_server p (release_prestop_hook D t))"
  proof (rule obeysI)
    fix self :: "'x server_runner_scheme" and w r self' w'
    assume "runner_at N self" and "at_server p (release_prestop_hook D t) (self, w) = (r, (self', w'))"
    then show "runner_at N self' \<and> (\<exists>rs. w' = w @ rs \<and> (\<forall>q \<in> set rs. stays_within nm q))"
      by (auto simp: at_server_def rpcs_change_nothing split: option.splits prod.splits)
  qed
  then show ?thesis unfolding release_pod_hook_def by (intro obeys_try obeys_pure)
qed

lemma obeys_each: "(\<And>m. m \<in> set ms \<Longrightarrow> obeys I P m) \<Longrightarrow> obeys I P (stmts ms)"
  by (induction ms) (auto simp: obeys_pure intro: obeys_andthen)

lemma server_dependencies_within: "obeys (runner_at N) (stays_within nm) (server_stop_pod_dependencies D)"
  unfolding server_stop_pod_dependencies_def
  by (intro obeys_using_self obeys_each) (auto simp: hook_calls_within stop_dependencies_within split: if_splits)

lemma deployment_within:
  assumes "ns_ok N" and "obeys (runner_at N) (stays_within (kn_name N)) stop"
  shows "obeys (runner_at N) (stays_within (kn_name N)) (rn_delete_deployment stop nm)"
proof -
  have ok: "env_ok (kn_env N)" using assms(1) by (simp add: ns_ok_def)
  show ?thesis unfolding rn_delete_deployment_def using deployment.delete_quietly_only [OF ok]
    by (intro obeys_andthen assms(2) obeys_using_self [where I = "runner_at N"] obeys_call_only)
      (auto dest!: runner_atD simp: within_removals)
qed

lemma shared_steps_within:
  assumes "ns_ok N"
  shows "obeys (runner_at N) (stays_within (kn_name N)) (cleanup_identity force)"
    and "obeys (runner_at N) (stays_within (kn_name N)) (cleanup_pod_monitoring force)"
    and "obeys (runner_at N) (stays_within (kn_name N)) (cleanup_namespace force)"
  unfolding cleanup_identity_def cleanup_pod_monitoring_def cleanup_namespace_def
  by (intro obeys_using_self obeys_if obeys_stmts obeys_andthen obeys_assign obeys_pure revoke_within
      removals_within [OF assms]; simp)+

text \<open>The three cleanups.\<close>

lemma client_cleanup_within:
  assumes "ns_ok N"
  shows "obeys (runner_at N) (stays_within (kn_name N)) (client_cleanup R force force_namespace)"
  unfolding client_cleanup_def
  by (intro obeys_finally obeys_stmts obeys_cleanup_step deployment_within [OF assms] stop_dependencies_within
      shared_steps_within [OF assms] rn_stop_within) simp

lemma server_cleanup_within:
  assumes "ns_ok N"
  shows "obeys (runner_at N) (stays_within (kn_name N)) (server_cleanup R D force force_namespace)"
  unfolding server_cleanup_def cleanup_deployment_def cleanup_service_def
  by (intro obeys_finally obeys_stmts obeys_cleanup_step deployment_within [OF assms] server_dependencies_within
      removals_within [OF assms] shared_steps_within [OF assms] rn_stop_within) simp_all

lemma gamma_cleanup_within:
  assumes "ns_ok N"
  shows "obeys (runner_at N) (stays_within (kn_name N)) (gamma_cleanup R D force force_namespace)"
  unfolding gamma_cleanup_def cleanup_deployment_def cleanup_service_def
  by (intro obeys_finally obeys_stmts obeys_cleanup_step deployment_within [OF assms] server_dependencies_within
      removals_within [OF assms] shared_steps_within [OF assms] rn_stop_within) simp_all

end
