(* ===== verification/CleanupScript.thy ===== *)
theory CleanupScript
  imports SecureManager AppNet RunnerScope
begin

text \<open>
  bin/cleanup/cleanup.py: the script that deletes what old tests have left behind: the namespaces of
  clients and servers in a cluster, with the runners, and the resources of Traffic Director in a
  project, with the managers.
\<close>

section \<open>Settings\<close>

text \<open>
  What the script is started with: the flags, the configuration of what is to be kept, the services
  and the cluster, what the runners need from outside, and the IAM client of a project. \<open>cu_expire\<close>
  is the time before which a resource counts as old (computed once), \<open>cu_time\<close> reads a time stamp.
\<close>

record cleanup_env =
  cu_env :: env
  cu_kube :: kube
  cu_outside :: outside
  cu_app :: app_env
  cu_iam :: "string \<Rightarrow> iam"
  cu_gfe_header :: "string option"
  cu_collect_logs :: bool
  cu_gcloud :: string
  cu_expire :: int
  cu_expire_text :: string
  cu_time :: "json \<Rightarrow> exn + int"
  cu_keep_config :: json
  cu_td_prefixes :: "string list"
  cu_server_prefixes :: "string list"
  cu_client_prefixes :: "string list"
  cu_mode :: string
  cu_secondary :: bool
  cu_client_name :: string
  cu_server_name :: string
  cu_resource_prefix :: string
  cu_resource_suffix :: string

definition K8S_PROTECTED_NAMESPACES :: "string list" where
  "K8S_PROTECTED_NAMESPACES =
     [''default'', ''gke-managed-system'', ''kube-node-lease'', ''kube-public'', ''kube-system'']"

definition LEGACY_DRIVER_ZONE :: string where
  "LEGACY_DRIVER_ZONE = ''us-central1-a''"

definition LEGACY_DRIVER_SECONDARY_ZONE :: string where
  "LEGACY_DRIVER_SECONDARY_ZONE = ''us-west1-b''"

definition GAMMA_PREFIX :: string where
  "GAMMA_PREFIX = ''psm-csm''"

text \<open>The result of the whole run: the errors so far.\<close>

record cleanup_result =
  error_count :: int
  error_messages :: "string list"

definition no_errors :: cleanup_result where
  "no_errors = \<lparr>error_count = 0, error_messages = []\<rparr>"

definition add_error :: "string \<Rightarrow> cleanup_result \<Rightarrow> cleanup_result" where
  "add_error msg res = (let n = error_count res + 1 in
     \<lparr>error_count = n, error_messages = error_messages res @ [''  '' @ str_int n @ ''. '' @ msg]\<rparr>)"

definition format_messages :: "cleanup_result \<Rightarrow> string" where
  "format_messages res = str_join newline (error_messages res)"

type_synonym 'a cu_meth = "(cleanup_result \<times> world, 'a) act"

definition marked_as_keep :: "cleanup_env \<Rightarrow> string \<Rightarrow> string \<Rightarrow> exn + bool" where
  "marked_as_keep C part sfx =
     ebind (getitem (cu_keep_config C) part) (\<lambda>d. ebind (getitem d ''suffix'') (contains sfx))"

definition is_marked_as_keep_gce :: "cleanup_env \<Rightarrow> string \<Rightarrow> exn + bool" where
  "is_marked_as_keep_gce C = marked_as_keep C ''gce_framework''"

definition is_marked_as_keep_gke :: "cleanup_env \<Rightarrow> string \<Rightarrow> exn + bool" where
  "is_marked_as_keep_gke C = marked_as_keep C ''gke_framework''"

text \<open>
  \<open>re.search(head + "(.*)", s)\<close> for a head without operators other than the dot: the group of the
  first match, which ends at a newline. The pattern is not anchored.
\<close>

fun search_suffix :: "string \<Rightarrow> string \<Rightarrow> string option" where
  "search_suffix head [] = (case match_dots head [] of Some rest \<Rightarrow> Some rest | None \<Rightarrow> None)"
| "search_suffix head (c # cs) =
     (case match_dots head (c # cs) of
        Some rest \<Rightarrow> Some (takeWhile (\<lambda>c. c \<noteq> CHR 0x0A) rest)
      | None \<Rightarrow> search_suffix head cs)"

section \<open>The command line client\<close>

text \<open>
  A command runs in a process of its own. What is left of it is its return code (\<open>None\<close> when it did
  not end in time) and its output.
\<close>

definition gcloud_request :: "string list \<Rightarrow> string list \<Rightarrow> request" where
  "gcloud_request cmds args =
     Request ''subprocess'' ''gcloud'' (if ''delete'' \<in> set cmds then ''delete'' else ''run'')
       [(''args'', JList (map JStr args))] []"

definition exec_gcloud :: "cleanup_env \<Rightarrow> string \<Rightarrow> string list \<Rightarrow> (world, json) act" where
  "exec_gcloud C prj cmds =
     (let args = [cu_gcloud C, ''--project'', prj, ''--quiet''] @ cmds;
          args' = args @ (if ''list'' \<in> set args
            then [''--format'', ''json'', ''--filter'', ''creationTimestamp <= '' @ cu_expire_text C] else [])
      in bind (execute_once (cu_env C) (gcloud_request cmds args')) (\<lambda>proc.
         bind (lift (getitem proc ''returncode'')) (\<lambda>returncode.
           if returncode = JNull \<or> py_truth returncode then return JNull
           else bind (lift (getitem proc ''stdout'')) (\<lambda>stdout.
             if py_truth stdout then lift (kb_json_loads (cu_kube C) (text_value (cu_env C) stdout))
             else return JNull))))"

definition legacy_commands :: "string \<Rightarrow> string list list" where
  "legacy_commands sfx =
     [[''compute'', ''forwarding-rules'', ''delete'', ''test-forwarding-rule'' @ sfx, ''--global''],
      [''compute'', ''target-http-proxies'', ''delete'', ''test-target-proxy'' @ sfx],
      [''alpha'', ''compute'', ''target-grpc-proxies'', ''delete'', ''test-target-proxy'' @ sfx],
      [''compute'', ''url-maps'', ''delete'', ''test-map'' @ sfx],
      [''compute'', ''backend-services'', ''delete'', ''test-backend-service'' @ sfx, ''--global''],
      [''compute'', ''backend-services'', ''delete'', ''test-backend-service-alternate'' @ sfx, ''--global''],
      [''compute'', ''backend-services'', ''delete'', ''test-backend-service-extra'' @ sfx, ''--global''],
      [''compute'', ''backend-services'', ''delete'', ''test-backend-service-more-extra'' @ sfx, ''--global''],
      [''compute'', ''firewall-rules'', ''delete'', ''test-fw-rule'' @ sfx],
      [''compute'', ''health-checks'', ''delete'', ''test-hc'' @ sfx],
      [''compute'', ''instance-groups'', ''managed'', ''delete'', ''test-ig'' @ sfx, ''--zone'', LEGACY_DRIVER_ZONE],
      [''compute'', ''instance-groups'', ''managed'', ''delete'', ''test-ig-same-zone'' @ sfx, ''--zone'', LEGACY_DRIVER_ZONE],
      [''compute'', ''instance-groups'', ''managed'', ''delete'', ''test-ig-secondary-zone'' @ sfx, ''--zone'', LEGACY_DRIVER_SECONDARY_ZONE],
      [''compute'', ''instance-templates'', ''delete'', ''test-template'' @ sfx]]"

definition cleanup_legacy_driver_resources ::
  "cleanup_env \<Rightarrow> string \<Rightarrow> string \<Rightarrow> string \<Rightarrow> string \<Rightarrow> bool \<Rightarrow> (world, unit) act" where
  "cleanup_legacy_driver_resources C prj pfx sfx network enable_dualstack =
     stmts (map (\<lambda>cmds. bind (exec_gcloud C prj cmds) (\<lambda>_. return ())) (legacy_commands sfx))"

section \<open>Cleaning up with managers and runners\<close>

text \<open>A method of an object that is made for the call.\<close>

definition on_new :: "'o \<Rightarrow> ('o \<times> world, 'a) act \<Rightarrow> (world, 'a) act" where
  "on_new obj m = (\<lambda>w. case m (obj, w) of (r, (_, w')) \<Rightarrow> (r, w'))"

text \<open>The app-net manager is not told about dual stacks; the base cleanup of the secure manager is.\<close>

definition cleanup_td_for_gke ::
  "cleanup_env \<Rightarrow> string \<Rightarrow> string \<Rightarrow> string \<Rightarrow> string \<Rightarrow> bool \<Rightarrow> (world, unit) act" where
  "cleanup_td_for_gke C prj pfx sfx network enable_dualstack =
     (let plain_td = td_init (cu_gfe_header C) prj pfx (Some sfx) network enable_dualstack None;
          security_td = secure_init (cu_gfe_header C) prj pfx (Some sfx) network enable_dualstack;
          appnet_td = appnet_init (cu_gfe_header C) prj pfx (Some sfx) network False None
      in stmts [on_new security_td (sm_cleanup (cu_env C) True),
                on_new appnet_td (an_cleanup (cu_env C) True),
                on_new plain_td (td_cleanup (cu_env C) True)])"

text \<open>
  What the three functions for a namespace have in common: the name of the deployment, the manager
  of the namespace with a shorter timeout, and the runner's forced cleanup. When the retries are
  exhausted, the last result is printed, and that may raise.
\<close>

definition suffixed :: "string \<Rightarrow> string option \<Rightarrow> string" where
  "suffixed nm sfx = (case sfx of None \<Rightarrow> nm | Some s \<Rightarrow> if s \<noteq> [] then nm @ ''-'' @ s else nm)"

definition namespace_of :: "cleanup_env \<Rightarrow> string \<Rightarrow> kube_ns" where
  "namespace_of C nm = (kube_ns_init (cu_kube C) nm)\<lparr>wait_for_namespace_deleted_timeout_sec := Some (5 * 60)\<rparr>"

definition run_cleanup :: "kube_ns \<Rightarrow> 'o \<Rightarrow> ('o \<times> world, unit) act \<Rightarrow> (world, unit) act" where
  "run_cleanup N runner cleanup =
     try_except (on_new runner cleanup) (\<lambda>e. isinstance e [CRetryError])
       (\<lambda>e. case e of
          RetryError last_attempt _ \<Rightarrow>
            bind (lift (pretty_format_status N True (retry_error_result last_attempt JNull))) (\<lambda>_. raise e)
        | _ \<Rightarrow> raise e)"

definition leaked_app ::
  "cleanup_env \<Rightarrow> string \<Rightarrow> string \<Rightarrow> string \<Rightarrow> string \<Rightarrow> string \<Rightarrow> string \<Rightarrow> app_runner" where
  "leaked_app C prj network namespace gcp_service_account deployment_name deployment_template =
     app_runner_init
       (runner_init (namespace_of C namespace) deployment_name [] prj gcp_service_account [] None False (cu_collect_logs C))
       deployment_name deployment_template [] network None None None ''service-account.yaml'' False True True (cu_iam C prj)"

definition cleanup_client ::
  "cleanup_env \<Rightarrow> string \<Rightarrow> string \<Rightarrow> string \<Rightarrow> string \<Rightarrow> string option \<Rightarrow> bool \<Rightarrow> (world, unit) act" where
  "cleanup_client C prj network client_namespace gcp_service_account sfx enable_dualstack =
     (let client_runner = client_runner_init
            (leaked_app C prj network client_namespace gcp_service_account
               (suffixed (cu_client_name C) sfx) ''client.deployment.yaml'')
            8079 (Some (default_client_args\<lparr>ca_enable_dualstack := enable_dualstack\<rparr>))
      in run_cleanup (namespace_of C client_namespace) client_runner (client_cleanup (cu_outside C) True True))"

definition cleanup_gamma_server ::
  "cleanup_env \<Rightarrow> string \<Rightarrow> string \<Rightarrow> string \<Rightarrow> string \<Rightarrow> string option \<Rightarrow> bool \<Rightarrow> (world, unit) act" where
  "cleanup_gamma_server C prj network server_namespace gcp_service_account sfx enable_dualstack =
     (let server_runner = gamma_runner_init
            (server_runner_init
               (leaked_app C prj network server_namespace gcp_service_account
                  (suffixed (cu_server_name C) sfx) ''server.deployment.yaml'')
               None ''gamma/service.yaml'' False None None)
            (cu_resource_prefix C @ ''-'' @ cu_resource_suffix C) HTTP_ROUTE
      in run_cleanup (namespace_of C server_namespace) server_runner
           (gamma_cleanup (cu_outside C) (cu_app C) True True))"

definition cleanup_server ::
  "cleanup_env \<Rightarrow> string \<Rightarrow> string \<Rightarrow> string \<Rightarrow> string \<Rightarrow> string option \<Rightarrow> bool \<Rightarrow> (world, unit) act" where
  "cleanup_server C prj network server_namespace gcp_service_account sfx enable_dualstack =
     (let server_runner = server_runner_init
            (leaked_app C prj network server_namespace gcp_service_account
               (suffixed (cu_server_name C) sfx) ''server.deployment.yaml'')
            None ''server.service.yaml'' False None
            (Some (default_server_args\<lparr>sa_enable_dualstack := enable_dualstack\<rparr>))
      in run_cleanup (namespace_of C server_namespace) server_runner
           (server_cleanup (cu_outside C) (cu_app C) True True))"

section \<open>Leaked resources of Traffic Director\<close>

text \<open>
  A rule: the head of the pattern that the name of a resource is matched with, the prefix of the
  resources, which suffixes are kept, and how resources are removed.
\<close>

record td_rule =
  tr_head :: string
  tr_prefix :: string
  tr_keep :: "string \<Rightarrow> exn + bool"
  tr_remove :: "string \<Rightarrow> string \<Rightarrow> string \<Rightarrow> string \<Rightarrow> bool \<Rightarrow> (world, unit) act"

text \<open>The first rule that matches decides; a name that no rule matches is skipped.\<close>

fun apply_td_rules :: "td_rule list \<Rightarrow> string \<Rightarrow> string \<Rightarrow> bool \<Rightarrow> string \<Rightarrow> (world, unit) act" where
  "apply_td_rules [] prj network enable_dualstack nm = return ()"
| "apply_td_rules (rule # rules) prj network enable_dualstack nm =
     (case search_suffix (tr_head rule) nm of
        None \<Rightarrow> apply_td_rules rules prj network enable_dualstack nm
      | Some sfx \<Rightarrow> bind (lift (tr_keep rule sfx)) (\<lambda>keep.
          if keep then return () else tr_remove rule prj (tr_prefix rule) sfx network enable_dualstack))"

definition delete_leaked_td_resource ::
  "cleanup_env \<Rightarrow> bool \<Rightarrow> td_rule list \<Rightarrow> string \<Rightarrow> string \<Rightarrow> bool \<Rightarrow> json \<Rightarrow> (world, unit) act" where
  "delete_leaked_td_resource C dry_run td_resource_rules prj network enable_dualstack resource =
     bind (lift (getitem resource ''name'')) (\<lambda>nm.
       if dry_run then return ()
       else apply_td_rules td_resource_rules prj network enable_dualstack (text_value (cu_env C) nm))"

definition delete_leaked_td_resources ::
  "cleanup_env \<Rightarrow> bool \<Rightarrow> td_rule list \<Rightarrow> string \<Rightarrow> string \<Rightarrow> json \<Rightarrow> bool \<Rightarrow> (world, unit) act" where
  "delete_leaked_td_resources C dry_run td_resource_rules prj network resources enable_dualstack =
     bind (lift (py_iter resources)) (\<lambda>rs.
       stmts (map (delete_leaked_td_resource C dry_run td_resource_rules prj network enable_dualstack) rs))"

definition td_resource_rules :: "cleanup_env \<Rightarrow> td_rule list" where
  "td_resource_rules C =
     (if cu_mode C \<noteq> ''td_no_legacy'' then
        [\<lparr>tr_head = ''test-hc'', tr_prefix = [], tr_keep = is_marked_as_keep_gce C,
          tr_remove = cleanup_legacy_driver_resources C\<rparr>,
         \<lparr>tr_head = ''test-template'', tr_prefix = [], tr_keep = is_marked_as_keep_gce C,
          tr_remove = cleanup_legacy_driver_resources C\<rparr>]
      else []) @
     map (\<lambda>pfx. \<lparr>tr_head = pfx @ ''-health-check-'', tr_prefix = pfx, tr_keep = is_marked_as_keep_gke C,
                 tr_remove = cleanup_td_for_gke C\<rparr>) (cu_td_prefixes C)"

text \<open>The resources that are old, in the order of the listing.\<close>

definition is_old :: "cleanup_env \<Rightarrow> json \<Rightarrow> exn + bool" where
  "is_old C item = ebind (getitem item ''creationTimestamp'') (\<lambda>t. ebind (cu_time C t) (\<lambda>n. Inr (n \<le> cu_expire C)))"

fun efilter :: "('a \<Rightarrow> exn + bool) \<Rightarrow> 'a list \<Rightarrow> exn + 'a list" where
  "efilter p [] = Inr []"
| "efilter p (x # xs) = ebind (p x) (\<lambda>b. ebind (efilter p xs) (\<lambda>ys. Inr (if b then x # ys else ys)))"

definition find_and_remove_leaked_td_resources ::
  "cleanup_env \<Rightarrow> bool \<Rightarrow> string \<Rightarrow> string \<Rightarrow> bool \<Rightarrow> (world, unit) act" where
  "find_and_remove_leaked_td_resources C dry_run prj network enable_dualstack =
     bind (list_health_check (cu_env C) \<lparr>project = prj, gfe_debug_header = cu_gfe_header C\<rparr>) (\<lambda>listing.
     bind (lift (ebind (getitem listing ''items'') py_iter)) (\<lambda>items.
     bind (lift (efilter (is_old C) items)) (\<lambda>leaked_health_checks.
     bind (delete_leaked_td_resources C dry_run (td_resource_rules C) prj network (JList leaked_health_checks)
             enable_dualstack) (\<lambda>_.
       if cu_mode C \<noteq> ''td_no_legacy'' then
         bind (exec_gcloud C prj [''compute'', ''instance-templates'', ''list'']) (\<lambda>leaked_instance_templates.
           delete_leaked_td_resources C dry_run (td_resource_rules C) prj network leaked_instance_templates False)
       else return ()))))"

section \<open>Leaked namespaces\<close>

text \<open>The function of a rule takes the project, network, namespace, service account, suffix and dual stack.\<close>

record k8s_resource_rule =
  kr_head :: string
  kr_cleanup_ns_fn :: "string \<Rightarrow> string \<Rightarrow> string \<Rightarrow> string \<Rightarrow> string option \<Rightarrow> bool \<Rightarrow> (world, unit) act"

fun rule_match_k8s_namespace :: "string \<Rightarrow> k8s_resource_rule list \<Rightarrow> k8s_resource_rule option" where
  "rule_match_k8s_namespace namespace_name [] = None"
| "rule_match_k8s_namespace namespace_name (rule # rules) =
     (if search_suffix (kr_head rule) namespace_name \<noteq> None then Some rule
      else rule_match_k8s_namespace namespace_name rules)"

text \<open>
  One namespace. Whatever its cleanup raises is recorded, but for a resource that does not exist;
  \<open>KeyboardInterrupt\<close> and the like are left out.
\<close>

definition delete_k8s_namespace ::
  "cleanup_env \<Rightarrow> bool \<Rightarrow> k8s_resource_rule list \<Rightarrow> string \<Rightarrow> string \<Rightarrow> string \<Rightarrow> bool \<Rightarrow> json \<Rightarrow> unit cu_meth" where
  "delete_k8s_namespace C dry_run rules prj network gcp_service_account enable_dualstack ns =
     bind (lift (getattrs ns [''metadata'', ''name''])) (\<lambda>v.
     let namespace_name = text_value (kb_env (cu_kube C)) v in
     if namespace_name \<in> set K8S_PROTECTED_NAMESPACES then return ()
     else bind (lift (ebind (getattrs ns [''metadata'', ''creation_timestamp'']) (cu_time C))) (\<lambda>created.
       if created > cu_expire C then return ()
       else if dry_run then return ()
       else case rule_match_k8s_namespace namespace_name rules of
         None \<Rightarrow> return ()
       | Some rule \<Rightarrow> try_except
           (call (kr_cleanup_ns_fn rule prj network namespace_name gcp_service_account
              (if cu_secondary C then Some ''alt'' else None) enable_dualstack))
           (\<lambda>e. isinstance e [CException])
           (\<lambda>err.
              if isinstance err [CNotFound] then return ()
              else if isinstance err [CRetryError]
              then assign (add_error (''Retries exhausted while waiting for the deletion of namespace '' @ namespace_name
                @ '': '' @ kb_exn_str (cu_kube C) err))
              else assign (add_error (''Unexpected error while deleting namespace '' @ namespace_name
                @ '': '' @ kb_exn_str (cu_kube C) err)))))"

definition delete_k8s_resources ::
  "cleanup_env \<Rightarrow> bool \<Rightarrow> k8s_resource_rule list \<Rightarrow> string \<Rightarrow> string \<Rightarrow> string \<Rightarrow> json \<Rightarrow> bool \<Rightarrow> unit cu_meth" where
  "delete_k8s_resources C dry_run rules prj network gcp_service_account namespaces enable_dualstack =
     bind (lift (py_iter namespaces)) (\<lambda>nss.
       stmts (map (delete_k8s_namespace C dry_run rules prj network gcp_service_account enable_dualstack) nss))"

definition k8s_resource_rules :: "cleanup_env \<Rightarrow> k8s_resource_rule list" where
  "k8s_resource_rules C =
     map (\<lambda>pfx. \<lparr>kr_head = pfx @ ''-client-'', kr_cleanup_ns_fn = cleanup_client C\<rparr>) (cu_client_prefixes C) @
     map (\<lambda>pfx. \<lparr>kr_head = pfx @ ''-server-'',
        kr_cleanup_ns_fn = (if pfx = GAMMA_PREFIX then cleanup_gamma_server C else cleanup_server C)\<rparr>)
       (cu_server_prefixes C)"

definition list_namespaces_request :: request where
  "list_namespaces_request = typed_request ''CoreV1Api'' ''list'' ''namespace'' []"

definition find_and_remove_leaked_k8s_resources ::
  "cleanup_env \<Rightarrow> bool \<Rightarrow> string \<Rightarrow> string \<Rightarrow> string \<Rightarrow> bool \<Rightarrow> unit cu_meth" where
  "find_and_remove_leaked_k8s_resources C dry_run prj network gcp_service_account enable_dualstack =
     bind (call (execute_once (kb_env (cu_kube C)) list_namespaces_request)) (\<lambda>nss.
     bind (lift (getattr nss ''items'')) (\<lambda>items.
       delete_k8s_resources C dry_run (k8s_resource_rules C) prj network gcp_service_account items enable_dualstack))"

section \<open>The script\<close>

text \<open>
  \<open>main\<close>, after the flags are parsed, the configuration is loaded and the socket timeout is set: the
  exit status. The result of the run is new, as in a process of its own.
\<close>

definition cleanup_main ::
  "cleanup_env \<Rightarrow> bool \<Rightarrow> string \<Rightarrow> string \<Rightarrow> string \<Rightarrow> bool \<Rightarrow> int cu_meth" where
  "cleanup_main C dry_run prj network gcp_service_account enable_dualstack =
     bind (if cu_mode C \<in> {''td'', ''td_no_legacy''}
           then call (find_and_remove_leaked_td_resources C dry_run prj network enable_dualstack)
           else if cu_mode C = ''k8s'' then
             (if kb_context (cu_kube C) = ''unset'' then raise (AssertionError [])
              else find_and_remove_leaked_k8s_resources C dry_run prj network gcp_service_account enable_dualstack)
           else return ()) (\<lambda>_.
     using_self (\<lambda>res. return (if error_count res > 0 then 1 else 0)))"

section \<open>What the managers may change\<close>

text \<open>The resources that are named after a prefix and a suffix, by name or by full name.\<close>

definition script_name :: "string \<Rightarrow> string \<Rightarrow> string \<Rightarrow> string" where
  "script_name pfx sfx nm = make_resource_name (td_init None [] pfx (Some sfx) [] False None) nm"

definition named_after :: "string \<Rightarrow> string \<Rightarrow> change \<Rightarrow> bool" where
  "named_after pfx sfx c \<longleftrightarrow> fst (snd c) = ''delete'' \<and> (\<exists>nm. snd (snd c) = JStr (script_name pfx sfx nm)
     \<or> (\<exists>api coll region. snd (snd c) = JStr (resource_full_name api (script_name pfx sfx nm) coll region)))"

abbreviation changes_named :: "string \<Rightarrow> string \<Rightarrow> request \<Rightarrow> bool" where
  "changes_named pfx sfx \<equiv> \<lambda>q. mutates q \<longrightarrow> named_after pfx sfx (change_of q)"

text \<open>A manager with nothing in its fields.\<close>

definition fresh_named :: "string \<Rightarrow> string \<Rightarrow> 'x td_scheme \<Rightarrow> bool" where
  "fresh_named pfx sfx self \<longleftrightarrow> make_resource_name self = script_name pfx sfx
     \<and> (\<forall>(coll, nm, slot) \<in> set (td_kinds self). slot = None)"

lemma fresh_managers:
  "fresh_named pfx sfx (td_init gfe prj pfx (Some sfx) network dual region)"
  "fresh_named pfx sfx (secure_init gfe prj pfx (Some sfx) network dual)"
  "fresh_named pfx sfx (appnet_init gfe prj pfx (Some sfx) network dual region)"
  by (simp_all add: fresh_named_def td_kinds_def script_name_def make_resource_name_def fun_eq_iff td_init_def
      secure_init_def appnet_init_def td.defs td_secure.defs td_appnet.defs)

lemma fresh_may_delete:
  assumes "fresh_named pfx sfx self0" and "c \<in> may_delete True self0"
  shows "named_after pfx sfx c"
  using assms by (auto simp: fresh_named_def may_delete_def own_name_def named_after_def split: option.splits)

lemma shrinks_named:
  assumes "fresh_named pfx sfx self0" and "shrinks self0 self"
  shows "make_resource_name self = script_name pfx sfx"
  using assms by (auto simp: fresh_named_def shrinks_def own_name_def fun_eq_iff)

lemma base_cleanup_named:
  assumes "env_ok E" and "fresh_named pfx sfx self0"
  shows "obeys (shrinks self0) (changes_named pfx sfx) (td_cleanup E True)"
  by (rule obeys_mono [OF cleanup_own [OF assms(1)]]) (auto intro: fresh_may_delete [OF assms(2)])

lemma own_name_secure [simp]:
  "own_name (sm_server_tls_policy_update f1 self) = own_name self" "own_name (sm_client_tls_policy_update f2 self) = own_name self"
  "own_name (sm_authz_policy_update f3 self) = own_name self" "own_name (sm_endpoint_policy_update f4 self) = own_name self"
  by (rule own_name_cong, simp)+

lemma shrinks_own_fields [simp]:
  "shrinks s0 (an_mesh_update f1 s) = shrinks s0 s" "shrinks s0 (an_grpc_route_update f2 s) = shrinks s0 s"
  "shrinks s0 (an_http_route_update f3 s) = shrinks s0 s"
  "shrinks t0 (sm_server_tls_policy_update g1 t) = shrinks t0 t" "shrinks t0 (sm_client_tls_policy_update g2 t) = shrinks t0 t"
  "shrinks t0 (sm_authz_policy_update g3 t) = shrinks t0 t" "shrinks t0 (sm_endpoint_policy_update g4 t) = shrinks t0 t"
  by (simp_all add: shrinks_def td_kinds_def)

lemma full_name_named: "named_after pfx sfx (coll, ''delete'', JStr (resource_full_name api (script_name pfx sfx nm) coll' region))"
  unfolding named_after_def by auto

lemma policy_named: "named_after pfx sfx (deletes_policy api coll (script_name pfx sfx nm))"
  unfolding deletes_policy_def by (rule full_name_named)

lemma appnet_cleanup_named:
  assumes "env_ok E" and "fresh_named pfx sfx self0"
  shows "obeys (shrinks self0) (changes_named pfx sfx) (an_cleanup E True)"
  unfolding an_cleanup_def
  by (intro obeys_stmts base_cleanup_named assms http_route.only_target grpc_route.only_target mesh.only_target)
    (auto simp: http_route.target_def grpc_route.target_def mesh.target_def shrinks_named [OF assms(2)] full_name_named)

lemma secure_cleanup_named:
  assumes "env_ok E" and "fresh_named pfx sfx self0"
  shows "obeys (shrinks self0) (changes_named pfx sfx) (sm_cleanup E True)"
  unfolding sm_cleanup_def
  by (intro obeys_stmts base_cleanup_named assms endpoint.only_target server_tls.only_target client_tls.only_target
      authz.only_target)
    (auto simp: endpoint.target_def server_tls.target_def client_tls.target_def authz.target_def
      shrinks_named [OF assms(2)] policy_named)

lemma emits_on_new:
  assumes "obeys I P m" and "I obj"
  shows "emits (\<lambda>w. w) P (on_new obj m)"
proof (rule emitsI)
  fix w :: world
  obtain r obj' w' where run: "m (obj, w) = (r, (obj', w'))" by (rule prod_cases3)
  with assms obtain rs where "w' = w @ rs" "\<forall>q \<in> set rs. P q" by (rule obeysD)
  with run show "\<exists>rs. snd (on_new obj m w) = w @ rs \<and> (\<forall>q \<in> set rs. P q)" by (auto simp: on_new_def)
qed

lemma td_for_gke_named:
  assumes "env_ok (cu_env C)"
  shows "emits (\<lambda>w. w) (changes_named pfx sfx) (cleanup_td_for_gke C prj pfx sfx network dual)"
  unfolding cleanup_td_for_gke_def Let_def stmts.simps
  by (intro emits_andthen emits_pure emits_on_new [OF secure_cleanup_named [OF assms fresh_managers(2)] shrinks_refl]
      emits_on_new [OF appnet_cleanup_named [OF assms fresh_managers(3)] shrinks_refl]
      emits_on_new [OF base_cleanup_named [OF assms fresh_managers(1)] shrinks_refl])

lemma emits_exec_gcloud:
  assumes "\<And>args. P (gcloud_request cmds args)"
  shows "emits (\<lambda>w. w) P (exec_gcloud C prj cmds)"
  unfolding exec_gcloud_def Let_def
  by (intro emits_bind emits_execute_once emits_pure emits_if assms)

lemma emits_apply_td_rules:
  assumes "\<And>rule sfx. rule \<in> set rules \<Longrightarrow> search_suffix (tr_head rule) nm = Some sfx \<Longrightarrow> tr_keep rule sfx = Inr False
    \<Longrightarrow> emits (\<lambda>w. w) P (tr_remove rule prj (tr_prefix rule) sfx network dual)"
  shows "emits (\<lambda>w. w) P (apply_td_rules rules prj network dual nm)"
  using assms
proof (induction rules)
  case (Cons rule rules)
  show ?case
  proof (cases "search_suffix (tr_head rule) nm")
    case None
    with Cons show ?thesis by simp
  next
    case (Some sfx)
    with Cons.prems [of rule sfx] show ?thesis
      by (cases "tr_keep rule sfx") (auto intro: emits_pure)
  qed
qed (simp add: emits_pure)

lemma emits_legacy:
  assumes "\<And>q. rq_service q = ''subprocess'' \<Longrightarrow> P q"
  shows "emits (\<lambda>w. w) P (cleanup_legacy_driver_resources C prj pfx sfx network dual)"
  unfolding cleanup_legacy_driver_resources_def
  by (rule emits_stmts)
    (auto intro!: emits_bind emits_exec_gcloud emits_pure assms simp: gcloud_request_def)

text \<open>A resource that may be removed: a rule for a prefix matches its name, and the suffix is not kept.\<close>

definition to_remove :: "cleanup_env \<Rightarrow> json \<Rightarrow> string \<Rightarrow> string \<Rightarrow> bool" where
  "to_remove C res pfx sfx \<longleftrightarrow> pfx \<in> set (cu_td_prefixes C) \<and> is_marked_as_keep_gke C sfx = Inr False
     \<and> (\<exists>nm. getitem res ''name'' = Inr nm \<and> search_suffix (pfx @ ''-health-check-'') (text_value (cu_env C) nm) = Some sfx)"

lemma leaked_resources_emit:
  assumes "env_ok (cu_env C)" and "py_iter resources = Inr rs"
  shows "emits (\<lambda>w. w) (\<lambda>q. mutates q \<and> rq_service q \<noteq> ''subprocess'' \<longrightarrow> \<not> dry_run \<and> (\<exists>res pfx sfx. res \<in> set rs
      \<and> to_remove C res pfx sfx \<and> named_after pfx sfx (change_of q)))
    (delete_leaked_td_resources C dry_run (td_resource_rules C) prj network resources dual)"
    (is "emits _ ?P _")
proof -
  have "emits (\<lambda>w. w) ?P (delete_leaked_td_resource C dry_run (td_resource_rules C) prj network dual res)"
    if res: "res \<in> set rs" for res
  proof (cases "getitem res ''name''")
    case (Inl e)
    then show ?thesis by (simp add: delete_leaked_td_resource_def emits_pure)
  next
    case (Inr nm)
    have "emits (\<lambda>w. w) ?P (apply_td_rules (td_resource_rules C) prj network dual (text_value (cu_env C) nm))"
      if "\<not> dry_run"
    proof (rule emits_apply_td_rules)
      fix rule sfx
      assume rule: "rule \<in> set (td_resource_rules C)" "search_suffix (tr_head rule) (text_value (cu_env C) nm) = Some sfx"
        "tr_keep rule sfx = Inr False"
      then consider (legacy) "tr_remove rule = cleanup_legacy_driver_resources C"
        | (gke) pfx where "pfx \<in> set (cu_td_prefixes C)" "rule = \<lparr>tr_head = pfx @ ''-health-check-'', tr_prefix = pfx,
            tr_keep = is_marked_as_keep_gke C, tr_remove = cleanup_td_for_gke C\<rparr>"
        by (auto simp: td_resource_rules_def split: if_splits)
      then show "emits (\<lambda>w. w) ?P (tr_remove rule prj (tr_prefix rule) sfx network dual)"
      proof cases
        case legacy
        then show ?thesis by (auto intro: emits_legacy)
      next
        case gke
        with rule Inr have "to_remove C res pfx sfx" by (auto simp: to_remove_def)
        with res that show ?thesis unfolding gke(2) td_rule.simps
          by (intro emits_mono [OF td_for_gke_named [OF assms(1)]]) blast
      qed
    qed
    with Inr show ?thesis by (simp add: delete_leaked_td_resource_def emits_pure)
  qed
  then show ?thesis
    unfolding delete_leaked_td_resources_def assms(2) bind_lift by (intro emits_stmts) auto
qed

section \<open>The runners of the script\<close>

text \<open>The runners of the script are new, in the namespace they are for.\<close>

lemma leaked_app_ns [simp]:
  "rn_ns (leaked_app C prj network nm gsa d t) = namespace_of C nm"
  "rn_port_forwarders (leaked_app C prj network nm gsa d t) = []"
  "ap_gcp_iam (leaked_app C prj network nm gsa d t) = Some (cu_iam C prj)"
  by (simp_all add: leaked_app_def app_runner_init_def runner_init_def reset_runner_def runner.defs app_runner.defs Let_def)

lemma namespace_of_fields [simp]: "kn_name (namespace_of C nm) = nm" "kn_api (namespace_of C nm) = cu_kube C"
  "no_own_pause (namespace_of C nm) = namespace_of C nm"
  by (simp_all add: namespace_of_def kube_ns_init_def no_own_pause_def)

lemma run_cleanup_emits:
  assumes "obeys I P m" and "I obj"
  shows "emits (\<lambda>w. w) P (run_cleanup N obj m)"
  unfolding run_cleanup_def
  by (intro emits_try emits_on_new [OF assms]) (auto intro!: emits_bind emits_pure split: exn.split)

definition script_ok :: "cleanup_env \<Rightarrow> string \<Rightarrow> bool" where
  "script_ok C prj \<longleftrightarrow> env_ok (kb_env (cu_kube C)) \<and> env_ok (iam_env (cu_iam C prj))"

lemma script_runners:
  assumes "script_ok C prj"
  shows "emits (\<lambda>w. w) (stays_within nm) (cleanup_client C prj network nm gsa sfx dual)"
    and "emits (\<lambda>w. w) (stays_within nm) (cleanup_server C prj network nm gsa sfx dual)"
    and "emits (\<lambda>w. w) (stays_within nm) (cleanup_gamma_server C prj network nm gsa sfx dual)"
proof -
  have ok: "ns_ok (namespace_of C nm)" using assms by (simp add: ns_ok_def script_ok_def)
  have iam: "env_ok (iam_env (cu_iam C prj))" using assms by (simp add: script_ok_def)
  show "emits (\<lambda>w. w) (stays_within nm) (cleanup_client C prj network nm gsa sfx dual)"
    unfolding cleanup_client_def Let_def
    by (rule run_cleanup_emits [OF client_cleanup_within [OF ok, unfolded namespace_of_fields]])
      (simp add: runner_at_def client_runner_init_def app_runner.defs iam)
  show "emits (\<lambda>w. w) (stays_within nm) (cleanup_server C prj network nm gsa sfx dual)"
    unfolding cleanup_server_def Let_def
    by (rule run_cleanup_emits [OF server_cleanup_within [OF ok, unfolded namespace_of_fields]])
      (simp add: runner_at_def server_runner_init_def app_runner.defs reset_server_def reset_runner_def Let_def iam)
  show "emits (\<lambda>w. w) (stays_within nm) (cleanup_gamma_server C prj network nm gsa sfx dual)"
    unfolding cleanup_gamma_server_def Let_def
    by (rule run_cleanup_emits [OF gamma_cleanup_within [OF ok, unfolded namespace_of_fields]])
      (simp add: runner_at_def gamma_runner_init_def server_runner_init_def server_runner.defs app_runner.defs
        reset_server_def reset_runner_def Let_def iam)
qed

section \<open>Which namespaces are deleted\<close>

text \<open>
  A leaked namespace: its name is not protected, it is old, and its name holds a prefix of a client
  or of a server.
\<close>

definition leaked_namespace :: "cleanup_env \<Rightarrow> json \<Rightarrow> string \<Rightarrow> bool" where
  "leaked_namespace C ns nm \<longleftrightarrow>
     (\<exists>v. getattrs ns [''metadata'', ''name''] = Inr v \<and> nm = text_value (kb_env (cu_kube C)) v)
     \<and> nm \<notin> set K8S_PROTECTED_NAMESPACES
     \<and> (\<exists>t. ebind (getattrs ns [''metadata'', ''creation_timestamp'']) (cu_time C) = Inr t \<and> t \<le> cu_expire C)
     \<and> ((\<exists>pfx \<in> set (cu_client_prefixes C). search_suffix (pfx @ ''-client-'') nm \<noteq> None)
        \<or> (\<exists>pfx \<in> set (cu_server_prefixes C). search_suffix (pfx @ ''-server-'') nm \<noteq> None))"

lemma rule_matched:
  "rule_match_k8s_namespace nm rules = Some rule \<Longrightarrow> rule \<in> set rules \<and> search_suffix (kr_head rule) nm \<noteq> None"
  by (induction rules) (auto split: if_splits)

lemma script_rule:
  assumes "rule_match_k8s_namespace nm (k8s_resource_rules C) = Some rule" and "script_ok C prj"
  shows "emits (\<lambda>w. w) (stays_within nm') (kr_cleanup_ns_fn rule prj network nm' gsa sfx dual)"
    and "(\<exists>pfx \<in> set (cu_client_prefixes C). search_suffix (pfx @ ''-client-'') nm \<noteq> None)
        \<or> (\<exists>pfx \<in> set (cu_server_prefixes C). search_suffix (pfx @ ''-server-'') nm \<noteq> None)"
  using rule_matched [OF assms(1)] script_runners [OF assms(2)] by (auto simp: k8s_resource_rules_def)

lemma one_namespace_emits:
  assumes "script_ok C prj"
  shows "obeys (\<lambda>_. True) (\<lambda>q. mutates q \<longrightarrow> rq_service q = ''kubernetes'' \<longrightarrow> \<not> dry_run
      \<and> (\<exists>nm. leaked_namespace C ns nm \<and> within nm q))
    (delete_k8s_namespace C dry_run (k8s_resource_rules C) prj network gsa dual ns)"
    (is "obeys _ ?P _")
proof (cases "getattrs ns [''metadata'', ''name'']")
  case Inl
  then show ?thesis by (simp add: delete_k8s_namespace_def bind_lift Let_def obeys_pure obeys_if del: getattrs.simps)
next
  case (Inr v)
  let ?nm = "text_value (kb_env (cu_kube C)) v"
  show ?thesis
  proof (cases "ebind (getattrs ns [''metadata'', ''creation_timestamp'']) (cu_time C)")
    case Inl
    with Inr show ?thesis by (simp add: delete_k8s_namespace_def bind_lift Let_def obeys_pure obeys_if del: getattrs.simps)
  next
    case created: (Inr t)
    have runs: "obeys (\<lambda>_. True) ?P (call (kr_cleanup_ns_fn rule prj network ?nm gsa sfx dual))"
      if "?nm \<notin> set K8S_PROTECTED_NAMESPACES" "t \<le> cu_expire C" "\<not> dry_run"
        "rule_match_k8s_namespace ?nm (k8s_resource_rules C) = Some rule" for rule sfx
    proof -
      from that created Inr script_rule(2) [OF that(4) assms] have "leaked_namespace C ns ?nm"
        unfolding leaked_namespace_def by blast
      with that(3) show ?thesis
        by (intro obeys_call emits_mono [OF script_rule(1) [OF that(4) assms]]) auto
    qed
    show ?thesis unfolding delete_k8s_namespace_def Inr bind_lift Let_def created
      by (intro obeys_if obeys_pure obeys_case_option obeys_try obeys_assign runs; simp)
  qed
qed

section \<open>Failures do not stop the run\<close>

text \<open>
  A reference for the loop: what is read of the namespaces, the cleanups that are due, and these run
  one after the other, each with its outcome.
\<close>

definition namespace_facts :: "cleanup_env \<Rightarrow> json \<Rightarrow> exn + (string \<times> int)" where
  "namespace_facts C ns =
     ebind (getattrs ns [''metadata'', ''name'']) (\<lambda>v.
     ebind (ebind (getattrs ns [''metadata'', ''creation_timestamp'']) (cu_time C)) (\<lambda>t.
       Inr (text_value (kb_env (cu_kube C)) v, t)))"

fun cleanups_due ::
  "cleanup_env \<Rightarrow> string \<Rightarrow> string \<Rightarrow> string \<Rightarrow> bool \<Rightarrow> (string \<times> int) list \<Rightarrow> (string \<times> (world, unit) act) list" where
  "cleanups_due C prj network gsa dual [] = []"
| "cleanups_due C prj network gsa dual ((nm, t) # facts) =
     (if nm \<in> set K8S_PROTECTED_NAMESPACES \<or> t > cu_expire C then []
      else case rule_match_k8s_namespace nm (k8s_resource_rules C) of None \<Rightarrow> []
      | Some rule \<Rightarrow> [(nm, kr_cleanup_ns_fn rule prj network nm gsa (if cu_secondary C then Some ''alt'' else None) dual)])
     @ cleanups_due C prj network gsa dual facts"

fun run_each :: "(string \<times> (world, unit) act) list \<Rightarrow> world \<Rightarrow> (string \<times> (exn + unit)) list \<times> world" where
  "run_each [] w = ([], w)"
| "run_each ((nm, m) # ms) w =
     (case m w of (r, w1) \<Rightarrow> case run_each ms w1 of (outcomes, w') \<Rightarrow> ((nm, r) # outcomes, w'))"

definition counts_as_error :: "exn + unit \<Rightarrow> bool" where
  "counts_as_error r \<longleftrightarrow> (case r of Inl e \<Rightarrow> \<not> isinstance e [CNotFound] | Inr _ \<Rightarrow> False)"

abbreviation failures :: "(string \<times> (exn + unit)) list \<Rightarrow> (string \<times> (exn + unit)) list" where
  "failures \<equiv> filter (\<lambda>(nm, r). counts_as_error r)"

lemma add_error_count [simp]: "error_count (add_error msg res) = error_count res + 1"
  by (simp add: add_error_def Let_def)

lemma one_namespace_run:
  assumes "namespace_facts C ns = Inr (nm, t)"
    and "run_each (cleanups_due C prj network gsa dual [(nm, t)]) w = (outcomes, w')"
    and "\<forall>(nm, r) \<in> set outcomes. r \<noteq> Inl Diverges"
  shows "\<exists>res'. delete_k8s_namespace C False (k8s_resource_rules C) prj network gsa dual ns (res, w) = (Inr (), (res', w'))
    \<and> error_count res' = error_count res + int (length (failures outcomes))"
proof -
  from assms(1) obtain v where v: "getattrs ns [''metadata'', ''name''] = Inr v" "text_value (kb_env (cu_kube C)) v = nm"
    and t: "ebind (getattrs ns [''metadata'', ''creation_timestamp'']) (cu_time C) = Inr t"
    by (auto simp: namespace_facts_def ebind_def simp del: getattrs.simps split: sum.splits)
  show ?thesis
    using assms(2,3) unfolding delete_k8s_namespace_def v bind_lift Let_def t
    by (auto simp: return_def counts_as_error_def try_except_def call_def assign_def
        split: if_splits option.splits prod.splits sum.splits)
qed

lemma run_each_append:
  "run_each (ms @ ns) w = (case run_each ms w of (os1, w1) \<Rightarrow> case run_each ns w1 of (os2, w2) \<Rightarrow> (os1 @ os2, w2))"
  by (induction ms w rule: run_each.induct) (auto split: prod.splits)

lemma namespaces_run:
  assumes "list_all2 (\<lambda>ns f. namespace_facts C ns = Inr f) nss facts"
    and "run_each (cleanups_due C prj network gsa dual facts) w = (outcomes, w')"
    and "\<forall>(nm, r) \<in> set outcomes. r \<noteq> Inl Diverges"
  shows "\<exists>res'. stmts (map (delete_k8s_namespace C False (k8s_resource_rules C) prj network gsa dual) nss) (res, w)
      = (Inr (), (res', w')) \<and> error_count res' = error_count res + int (length (failures outcomes))"
  using assms
proof (induction arbitrary: res w outcomes rule: list_all2_induct)
  case Nil
  then show ?case by (simp add: return_def)
next
  case (Cons ns nss f facts)
  obtain nm t where f: "f = (nm, t)" by (cases f)
  have due: "cleanups_due C prj network gsa dual (f # facts)
      = cleanups_due C prj network gsa dual [(nm, t)] @ cleanups_due C prj network gsa dual facts"
    by (simp add: f)
  obtain os1 w1 where one: "run_each (cleanups_due C prj network gsa dual [(nm, t)]) w = (os1, w1)" by fastforce
  obtain os2 where two: "run_each (cleanups_due C prj network gsa dual facts) w1 = (os2, w')" and os: "outcomes = os1 @ os2"
    using Cons.prems(1) unfolding due run_each_append one by (auto split: prod.splits)
  from Cons.prems(2) os have safe: "\<forall>(nm, r) \<in> set os1. r \<noteq> Inl Diverges" "\<forall>(nm, r) \<in> set os2. r \<noteq> Inl Diverges" by auto
  from one_namespace_run [OF Cons.hyps(1) [unfolded f] one safe(1), of res] obtain res1 where
      first: "delete_k8s_namespace C False (k8s_resource_rules C) prj network gsa dual ns (res, w) = (Inr (), (res1, w1))"
    and cnt: "error_count res1 = error_count res + int (length (failures os1))" by blast
  from Cons.IH [OF two safe(2), of res1] first cnt os show ?case
    by (auto simp: andthen_def bind_apply)
qed

section \<open>Dry runs\<close>

abbreviation reads_only :: "request \<Rightarrow> bool" where
  "reads_only \<equiv> \<lambda>q. \<not> mutates q"

lemma dry_run_td:
  assumes "env_ok (cu_env C)"
  shows "emits (\<lambda>w. w) reads_only (find_and_remove_leaked_td_resources C True prj network dual)"
proof -
  have dry: "emits (\<lambda>w. w) reads_only (delete_leaked_td_resources C True rules prj network rs d)" for rules rs d
    unfolding delete_leaked_td_resources_def
    by (auto intro!: emits_bind emits_pure emits_stmts simp: delete_leaked_td_resource_def)
  have "emits (\<lambda>w. w) reads_only (exec_gcloud C prj [''compute'', ''instance-templates'', ''list''])"
    by (intro emits_exec_gcloud) (simp add: gcloud_request_def mutates_def)
  moreover have "emits (\<lambda>w. w) reads_only (list_health_check (cu_env C) c)" for c
    unfolding list_health_check_def list_resource_def
    by (intro emits_retried assms) (simp add: compute_request_def mutates_def)
  ultimately show ?thesis
    unfolding find_and_remove_leaked_td_resources_def by (intro emits_bind emits_if emits_pure dry)
qed

lemma dry_run_namespace:
  "obeys (\<lambda>res. res = res0) reads_only (delete_k8s_namespace C True rules prj network gsa dual ns)"
  unfolding delete_k8s_namespace_def Let_def by (intro obeys_bind obeys_pure obeys_if) simp_all

lemma dry_run_k8s:
  "obeys (\<lambda>res. res = res0) reads_only (find_and_remove_leaked_k8s_resources C True prj network gsa dual)"
proof -
  have "\<not> mutates list_namespaces_request"
    by (simp add: list_namespaces_request_def typed_request_def mutates_def)
  then show ?thesis
    unfolding find_and_remove_leaked_k8s_resources_def delete_k8s_resources_def
    by (intro obeys_bind obeys_call emits_execute_once obeys_pure obeys_each) (auto intro: dry_run_namespace)
qed

section \<open>A concrete script\<close>

text \<open>
  A cluster with four namespaces: of the two that are due, the first refuses every delete. The
  client of the project has no credentials. Time stamps are numbers.
\<close>

definition demo_namespace :: "string \<Rightarrow> int \<Rightarrow> json" where
  "demo_namespace nm t =
     JObj [(''metadata'', JObj [(''name'', JStr nm), (''creation_timestamp'', JInt t)])]"

definition demo_namespaces :: "json list" where
  "demo_namespaces = [demo_namespace ''psm-interop-server-a'' 1, demo_namespace ''default'' 1,
     demo_namespace ''psm-interop-client-b'' 2, demo_namespace ''psm-interop-client-c'' 9]"

definition leaky_answer :: "world \<Rightarrow> request \<Rightarrow> exn + json" where
  "leaky_answer w q =
     (if q = list_namespaces_request then Inr (JObj [(''items'', JList demo_namespaces)])
      else if rq_method q = ''delete'' \<and> rq_arg q ''namespace'' = Some (JStr ''psm-interop-server-a'')
      then Inl (ApiException 400 None)
      else live_answer w q)"

definition leaky_kube :: kube where
  "leaky_kube = live_kube\<lparr>kb_env := (kb_env live_kube)\<lparr>http := leaky_answer\<rparr>\<rparr>"

definition script_iam :: iam where
  "script_iam = demo_iam\<lparr>iam_env := with_answers demo_iam_http\<rparr>"

definition demo_cleanup :: "string \<Rightarrow> cleanup_env" where
  "demo_cleanup md =
     \<lparr>cu_env = with_answers (\<lambda>w q. Inl (RuntimeError ''no credentials'')), cu_kube = leaky_kube, cu_outside = demo_outside, cu_app = dead_app,
      cu_iam = (\<lambda>_. script_iam), cu_gfe_header = None, cu_collect_logs = False, cu_gcloud = ''gcloud'',
      cu_expire = 5, cu_expire_text = ''5'',
      cu_time = (\<lambda>j. case j of JInt n \<Rightarrow> Inr n | _ \<Rightarrow> Inl (ValueError [])),
      cu_keep_config = JObj [(''gce_framework'', JObj [(''suffix'', JList [])]),
        (''gke_framework'', JObj [(''suffix'', JList [JStr ''keep''])])],
      cu_td_prefixes = [''psm-interop''], cu_server_prefixes = [''psm-interop''],
      cu_client_prefixes = [''psm-interop''], cu_mode = md, cu_secondary = False, cu_client_name = ''psm-client'',
      cu_server_name = ''psm-server'', cu_resource_prefix = ''psm'', cu_resource_suffix = ''x''\<rparr>"

definition demo_resources :: "json list" where
  "demo_resources = [JObj [(''name'', JStr ''other'')], JObj [(''name'', JStr ''psm-interop-health-check-keep'')],
     JObj [(''name'', JStr ''psm-interop-health-check-old'')]]"

lemma demo_cleanup_ok: "script_ok (demo_cleanup md) prj" "env_ok (cu_env (demo_cleanup md))"
  using live_kube_ok(1) demo_env_ok
  by (simp_all add: script_ok_def demo_cleanup_def leaky_kube_def script_iam_def env_ok_def)

section \<open>Where the run stops\<close>

text \<open>
  A listing of the Compute API has no items when there are none. The script reads them all the same,
  and raises.
\<close>

lemma no_health_checks_raise:
  assumes "list_health_check (cu_env C) \<lparr>project = prj, gfe_debug_header = cu_gfe_header C\<rparr> w = (Inr (JObj kvs), w')"
    and "map_of kvs ''items'' = None"
  shows "find_and_remove_leaked_td_resources C dry_run prj network dual w = (Inl (KeyError ''items''), w')"
  using assms by (simp add: find_and_remove_leaked_td_resources_def bind_apply lift_def)

text \<open>
  A command that fails or does not end has no output to iterate over: the listing of instance
  templates then raises, too.
\<close>

lemma failed_listing_raises:
  assumes "http (cu_env C) w (gcloud_request cmds
      ([cu_gcloud C, ''--project'', prj, ''--quiet''] @ cmds
       @ [''--format'', ''json'', ''--filter'', ''creationTimestamp <= '' @ cu_expire_text C]))
      = Inr (JObj [(''returncode'', JInt 1), (''stdout'', JStr out)])"
    and "cmds = [''compute'', ''instance-templates'', ''list'']"
  shows "\<exists>w' e. bind (exec_gcloud C prj cmds)
      (\<lambda>rs. delete_leaked_td_resources C dry_run rules prj network rs dual) w = (Inl (TypeError e), w')"
  using assms by (simp add: exec_gcloud_def Let_def bind_apply lift_def execute_once_def delete_leaked_td_resources_def
      return_def)

section \<open>Properties\<close>

text \<open>
  C10: whatever the cluster answers and wherever the run stops, every change that the removal of
  leaked namespaces makes in the cluster concerns a listed namespace that is leaked: not protected,
  older than the limit, and with a client's or a server's prefix in its name; in a dry run there is
  no change.
\<close>

theorem k8s_cleanup_spares:
  assumes "script_ok C prj"
    and "find_and_remove_leaked_k8s_resources C dry_run prj network gsa dual (res, w) = (r, (res', w'))"
    and "q \<in> set (drop (length w) w')" and "mutates q" and "rq_service q = ''kubernetes''"
  shows "\<not> dry_run \<and> (\<exists>nss items l ns nm. http (kb_env (cu_kube C)) w list_namespaces_request = Inr nss
    \<and> getattr nss ''items'' = Inr items \<and> py_iter items = Inr l \<and> ns \<in> set l
    \<and> leaked_namespace C ns nm \<and> within nm q)"
proof -
  have reads: "\<not> mutates list_namespaces_request"
    by (simp add: list_namespaces_request_def typed_request_def mutates_def)
  show ?thesis
  proof (cases "http (kb_env (cu_kube C)) w list_namespaces_request")
    case (Inl e)
    with assms(2-4) reads show ?thesis
      by (auto simp: find_and_remove_leaked_k8s_resources_def bind_apply call_def execute_once_def)
  next
    case listed: (Inr nss)
    show ?thesis
    proof (cases "ebind (getattr nss ''items'') py_iter")
      case (Inl e)
      with assms(2-4) reads listed show ?thesis
        by (auto simp: find_and_remove_leaked_k8s_resources_def delete_k8s_resources_def bind_apply call_def
            execute_once_def lift_def ebind_def split: sum.splits)
    next
      case (Inr l)
      then obtain items where items: "getattr nss ''items'' = Inr items" "py_iter items = Inr l"
        by (auto simp: ebind_def split: sum.splits)
      let ?loop = "stmts (map (delete_k8s_namespace C dry_run (k8s_resource_rules C) prj network gsa dual) l)"
      let ?P = "\<lambda>q. mutates q \<longrightarrow> rq_service q = ''kubernetes'' \<longrightarrow> \<not> dry_run
        \<and> (\<exists>ns nm. ns \<in> set l \<and> leaked_namespace C ns nm \<and> within nm q)"
      have loop: "obeys (\<lambda>_. True) ?P ?loop"
        by (rule obeys_each) (auto intro!: obeys_mono [OF one_namespace_emits [OF assms(1)]])
      from assms(2) listed items have run: "?loop (res, w @ [list_namespaces_request]) = (r, (res', w'))"
        by (simp add: find_and_remove_leaked_k8s_resources_def delete_k8s_resources_def bind_apply call_def
            execute_once_def lift_def)
      obtain rs where "w' = (w @ [list_namespaces_request]) @ rs" "\<forall>q \<in> set rs. ?P q"
        by (rule obeysD [OF loop TrueI run])
      with assms(3-5) reads listed items show ?thesis by auto
    qed
  qed
qed

theorem k8s_cleanup_spares_witness:
  "\<exists>q nm ns. q \<in> set (snd (snd (find_and_remove_leaked_k8s_resources (demo_cleanup ''k8s'') False ''prj'' ''net'' ''gsa'' False
       (no_errors, [])))) \<and> mutates q \<and> leaked_namespace (demo_cleanup ''k8s'') ns nm \<and> within nm q"
proof -
  let ?run = "find_and_remove_leaked_k8s_resources (demo_cleanup ''k8s'') False ''prj'' ''net'' ''gsa'' False (no_errors, [])"
  let ?q = "typed_request ''CoreV1Api'' ''delete'' ''namespace''
    [(''name'', JStr ''psm-interop-client-b''), (''body'', delete_options (Some DELETE_GRACE_PERIOD_SEC))]"
  have made: "?q \<in> set (snd (snd ?run))" by code_simp
  have q: "mutates ?q" "rq_service ?q = ''kubernetes''" by (simp_all add: typed_request_def mutates_def)
  obtain r res' w' where run: "?run = (r, (res', w'))" by (rule prod_cases3)
  from run made have "?q \<in> set (drop (length []) w')" by simp
  from k8s_cleanup_spares [OF demo_cleanup_ok(1) run this q] made q show ?thesis by blast
qed

text \<open>
  C11: apart from the commands for the old driver, the removal of leaked resources changes nothing
  but resources named after a prefix of the script and a suffix that a resource of the listing has
  behind the health-check pattern of that prefix and that the configuration does not keep; in a dry
  run it changes nothing. This holds whatever the services answer and wherever it stops.
\<close>

theorem td_cleanup_spares:
  assumes "env_ok (cu_env C)"
    and "delete_leaked_td_resources C dry_run (td_resource_rules C) prj network (JList rs) dual w = (r, w')"
    and "q \<in> set (drop (length w) w')" and "mutates q" and "rq_service q \<noteq> ''subprocess''"
  shows "\<not> dry_run \<and> (\<exists>res pfx sfx. res \<in> set rs \<and> to_remove C res pfx sfx \<and> named_after pfx sfx (change_of q))"
proof -
  have "py_iter (JList rs) = Inr rs" by simp
  from emitsD [OF leaked_resources_emit [OF assms(1) this] assms(2)] obtain qs where "w' = w @ qs"
    "\<forall>q \<in> set qs. mutates q \<and> rq_service q \<noteq> ''subprocess'' \<longrightarrow> \<not> dry_run \<and> (\<exists>res pfx sfx. res \<in> set rs
      \<and> to_remove C res pfx sfx \<and> named_after pfx sfx (change_of q))" by blast
  with assms(3-5) show ?thesis by simp
qed

theorem td_cleanup_spares_witness:
  "\<exists>q res pfx sfx. q \<in> set (snd (delete_leaked_td_resources (demo_cleanup ''td'') False (td_resource_rules (demo_cleanup ''td''))
       ''prj'' ''net'' (JList demo_resources) False [])) \<and> mutates q
     \<and> to_remove (demo_cleanup ''td'') res pfx sfx \<and> named_after pfx sfx (change_of q)"
proof -
  let ?run = "delete_leaked_td_resources (demo_cleanup ''td'') False (td_resource_rules (demo_cleanup ''td'')) ''prj'' ''net''
    (JList demo_resources) False []"
  have "list_ex (\<lambda>q. mutates q \<and> rq_service q \<noteq> ''subprocess'') (snd ?run)" by code_simp
  then obtain q where q: "q \<in> set (snd ?run)" "mutates q" "rq_service q \<noteq> ''subprocess''" by (auto simp: list_ex_iff)
  obtain r w' where run: "?run = (r, w')" by fastforce
  from q run have "q \<in> set (drop (length []) w')" by simp
  from td_cleanup_spares [OF demo_cleanup_ok(2) run this q(2,3)] q show ?thesis by blast
qed

text \<open>
  C12: the removal of leaked namespaces carries on after a failed cleanup: in the mode for a cluster,
  with a listing whose namespaces can be read, the script runs the cleanup of every namespace that
  is due, in the order of the listing, and ends with status 1 exactly if one of them failed for
  another reason than that something does not exist (none of them being stuck for ever).
\<close>

theorem k8s_cleanup_carries_on:
  assumes "cu_mode C = ''k8s''" and "kb_context (cu_kube C) \<noteq> ''unset''"
    and "http (kb_env (cu_kube C)) w list_namespaces_request = Inr listing"
    and "getattr listing ''items'' = Inr (JList nss)"
    and "list_all2 (\<lambda>ns f. namespace_facts C ns = Inr f) nss facts"
    and "run_each (cleanups_due C prj network gsa dual facts) (w @ [list_namespaces_request]) = (outcomes, w')"
    and "\<forall>(nm, r) \<in> set outcomes. r \<noteq> Inl Diverges"
  shows "\<exists>res'. cleanup_main C False prj network gsa dual (no_errors, w)
      = (Inr (if failures outcomes = [] then 0 else 1), (res', w'))
    \<and> error_count res' = int (length (failures outcomes))"
proof -
  from namespaces_run [OF assms(5-7), of no_errors] obtain res' where
      "stmts (map (delete_k8s_namespace C False (k8s_resource_rules C) prj network gsa dual) nss)
        (no_errors, w @ [list_namespaces_request]) = (Inr (), (res', w'))"
    and "error_count res' = int (length (failures outcomes))"
    by (auto simp: no_errors_def)
  with assms(1-4) show ?thesis
    by (simp add: cleanup_main_def find_and_remove_leaked_k8s_resources_def delete_k8s_resources_def bind_apply
        call_def execute_once_def lift_def using_self_def return_def)
qed

theorem k8s_cleanup_carries_on_witness:
  "fst (cleanup_main (demo_cleanup ''k8s'') False ''prj'' ''net'' ''gsa'' False (no_errors, [])) = Inr 1"
proof -
  let ?facts = "[(''psm-interop-server-a'', 1), (''default'', 1), (''psm-interop-client-b'', 2), (''psm-interop-client-c'', 9)]"
  let ?each = "run_each (cleanups_due (demo_cleanup ''k8s'') ''prj'' ''net'' ''gsa'' False ?facts) ([] @ [list_namespaces_request])"
  have outcomes: "map fst (failures (fst ?each)) = [''psm-interop-server-a'']" by code_simp
  have safe: "list_all (\<lambda>(nm, r). case r of Inl Diverges \<Rightarrow> False | _ \<Rightarrow> True) (fst ?each)" by code_simp
  have read: "list_all2 (\<lambda>ns f. namespace_facts (demo_cleanup ''k8s'') ns = Inr f) demo_namespaces ?facts"
    by (simp add: demo_namespaces_def demo_namespace_def namespace_facts_def ebind_def demo_cleanup_def leaky_kube_def
        text_value_def)
  obtain os w' where each: "?each = (os, w')" by fastforce
  have "\<forall>(nm, r) \<in> set os. r \<noteq> Inl Diverges"
    using safe unfolding each by (auto simp: list_all_iff)
  moreover have "http (kb_env (cu_kube (demo_cleanup ''k8s''))) [] list_namespaces_request
      = Inr (JObj [(''items'', JList demo_namespaces)])"
    by (simp add: demo_cleanup_def leaky_kube_def leaky_answer_def)
  moreover have "cu_mode (demo_cleanup ''k8s'') = ''k8s''" "kb_context (cu_kube (demo_cleanup ''k8s'')) \<noteq> ''unset''"
    by (simp_all add: demo_cleanup_def leaky_kube_def live_kube_def busy_kube_def)
  moreover have "getattr (JObj [(''items'', JList demo_namespaces)]) ''items'' = Inr (JList demo_namespaces)" by simp
  moreover have "failures os \<noteq> []" using outcomes each by auto
  ultimately show ?thesis
    using k8s_cleanup_carries_on [OF _ _ _ _ read each, of "JObj [(''items'', JList demo_namespaces)]"] by auto
qed

text \<open>
  C13: a dry run of the script, in any mode and however it ends, sends no request that changes
  anything and records no error.
\<close>

theorem dry_run_changes_nothing:
  assumes "env_ok (cu_env C)"
    and "cleanup_main C True prj network gsa dual (res, w) = (r, (res', w'))"
  shows "res' = res \<and> changes w' = changes w"
proof -
  have main: "obeys (\<lambda>s. s = res) reads_only (cleanup_main C True prj network gsa dual)"
    unfolding cleanup_main_def
    by (intro obeys_bind obeys_if obeys_call dry_run_td assms(1) dry_run_k8s obeys_pure obeys_using_self)
  obtain rs where "res' = res" "w' = w @ rs" "\<forall>q \<in> set rs. \<not> mutates q"
    by (rule obeysD [OF main refl assms(2)])
  then show ?thesis by (simp add: changes_def)
qed

theorem dry_run_changes_nothing_witness:
  "changes (snd (snd (cleanup_main (demo_cleanup ''k8s'') True ''prj'' ''net'' ''gsa'' False (no_errors, [])))) = []"
proof -
  let ?run = "cleanup_main (demo_cleanup ''k8s'') True ''prj'' ''net'' ''gsa'' False (no_errors, [])"
  obtain r res' w' where run: "?run = (r, (res', w'))" by (rule prod_cases3)
  with dry_run_changes_nothing [OF demo_cleanup_ok(2) run] show ?thesis by simp
qed

end
