(* ===== verification/TestCases.thy ===== *)
theory TestCases
  imports SecureManager AppNet ClientRunner GammaRunner
begin

text \<open>
  The fixtures of the test cases: framework/xds_k8s_testcase.py (the setup and the teardown of an
  isolated test, and how a test starts its servers and its client), framework/xds_gamma_testcase.py
  and framework/helpers/rand.py.
\<close>

section \<open>Random suffixes\<close>

text \<open>What the choice of \<open>k\<close> characters of an alphabet and the current time give is a parameter.\<close>

definition ALPHANUM_LOWERCASE :: string where
  "ALPHANUM_LOWERCASE = ''abcdefghijklmnopqrstuvwxyz0123456789''"

definition ALPHANUM :: string where
  "ALPHANUM = ''abcdefghijklmnopqrstuvwxyzABCDEFGHIJKLMNOPQRSTUVWXYZ0123456789''"

definition rand_string :: "(string \<Rightarrow> nat \<Rightarrow> string) \<Rightarrow> nat \<Rightarrow> bool \<Rightarrow> string" where
  "rand_string choices len lowercase = choices (if lowercase then ALPHANUM_LOWERCASE else ALPHANUM) len"

definition random_resource_suffix :: "(string \<Rightarrow> nat \<Rightarrow> string) \<Rightarrow> string \<Rightarrow> string" where
  "random_resource_suffix choices datetime_suffix = datetime_suffix @ ''-'' @ rand_string choices 5 True"

section \<open>Settings and state\<close>

text \<open>The settings that \<open>setUpClass\<close> reads from the flags.\<close>

record test_config =
  tf_gfe_header :: "string option"
  tf_project :: string
  tf_network :: string
  tf_gcp_service_account :: string
  tf_td_bootstrap_image :: string
  tf_xds_server_uri :: "string option"
  tf_xds_server_region :: "string option"
  tf_enable_dualstack :: bool
  tf_ensure_firewall :: bool
  tf_firewall_allowed_ports :: json
  tf_firewall_source_range :: json
  tf_firewall_source_range_ipv6 :: json
  tf_resource_prefix :: string
  tf_resource_suffix :: "string option"
  tf_server_image :: string
  tf_server_name :: string
  tf_server_port :: int
  tf_server_maintenance_port :: int
  tf_server_xds_host :: string
  tf_server_xds_port :: int
  tf_server_xds_authority :: "string option"
  tf_client_image :: string
  tf_client_name :: string
  tf_client_port :: int
  tf_force_cleanup :: bool
  tf_debug_use_port_forwarding :: bool
  tf_enable_workload_identity :: bool
  tf_workload_identity_iam_policy_binding :: bool

text \<open>What the fixtures need from outside: the services, the cluster, and the applications.\<close>

record test_env =
  te_env :: env
  te_health :: health_env
  te_kube :: kube
  te_iam :: iam
  te_outside :: outside
  te_app :: app_env
  te_pages :: nat
  te_channel_tenacity :: cl_tenacity
  te_collect_logs :: bool
  te_choices :: "world \<Rightarrow> string \<Rightarrow> nat \<Rightarrow> string"
  te_datetime :: "world \<Rightarrow> string"

text \<open>
  The fields of a test after its setup. \<open>tc_rpcs\<close> are the calls that the test itself has made to its
  client. The manager and the server runner are of the class that the test asks for.
\<close>

record ('m, 's) test_case =
  tc_config :: test_config
  tc_resource_suffix :: string
  tc_force_cleanup :: bool
  tc_server_xds_port :: int
  tc_td :: 'm
  tc_server_namespace :: string
  tc_server_runner :: 's
  tc_client_namespace :: string
  tc_client_runner :: client_runner
  tc_rpcs :: trace

type_synonym ('m, 's, 'a) tc_meth = "(('m, 's) test_case \<times> world, 'a) act"

text \<open>A method of an object that is held in a field.\<close>

definition in_field :: "('o \<Rightarrow> 'f) \<Rightarrow> (('f \<Rightarrow> 'f) \<Rightarrow> 'o \<Rightarrow> 'o) \<Rightarrow> ('f \<times> world, 'a) act \<Rightarrow> ('o \<times> world, 'a) act" where
  "in_field get upd m = (\<lambda>(self, w). case m (get self, w) of (r, (v, w')) \<Rightarrow> (r, (upd (\<lambda>_. v) self, w')))"

abbreviation on_td :: "('m \<times> world, 'a) act \<Rightarrow> ('m, 's, 'a) tc_meth" where
  "on_td \<equiv> in_field tc_td tc_td_update"

abbreviation on_server_runner :: "('s \<times> world, 'a) act \<Rightarrow> ('m, 's, 'a) tc_meth" where
  "on_server_runner \<equiv> in_field tc_server_runner tc_server_runner_update"

abbreviation on_client_runner :: "(client_runner \<times> world, 'a) act \<Rightarrow> ('m, 's, 'a) tc_meth" where
  "on_client_runner \<equiv> in_field tc_client_runner tc_client_runner_update"

section \<open>What a test is made of\<close>

definition regular_td :: "test_config \<Rightarrow> string \<Rightarrow> td" where
  "regular_td F sfx = td_init (tf_gfe_header F) (tf_project F) (tf_resource_prefix F) (Some sfx) (tf_network F)
     (tf_enable_dualstack F) (tf_xds_server_region F)"

definition appnet_td :: "test_config \<Rightarrow> string \<Rightarrow> td_appnet" where
  "appnet_td F sfx = appnet_init (tf_gfe_header F) (tf_project F) (tf_resource_prefix F) (Some sfx) (tf_network F)
     (tf_enable_dualstack F) (tf_xds_server_region F)"

definition secure_td :: "test_config \<Rightarrow> string \<Rightarrow> td_secure" where
  "secure_td F sfx = secure_init (tf_gfe_header F) (tf_project F) (tf_resource_prefix F) (Some sfx) (tf_network F)
     (tf_enable_dualstack F)"

definition gamma_td :: "test_config \<Rightarrow> string \<Rightarrow> td" where
  "gamma_td F sfx = td_init (tf_gfe_header F) (tf_project F) (tf_resource_prefix F) (Some sfx) (tf_network F) False None"

text \<open>The runners of a test, and what theirs have in common.\<close>

definition test_app_runner ::
  "test_env \<Rightarrow> test_config \<Rightarrow> string \<Rightarrow> string \<Rightarrow> string \<Rightarrow> string \<Rightarrow> bool \<Rightarrow> string option \<Rightarrow> app_runner" where
  "test_app_runner D F namespace deployment_name image_name deployment_template reuse_namespace xds_server_region =
     app_runner_init
       (runner_init (kube_ns_init (te_kube D) namespace) deployment_name image_name (tf_project F)
          (tf_gcp_service_account F) [] None reuse_namespace (te_collect_logs D))
       deployment_name deployment_template (tf_td_bootstrap_image F) (tf_network F) (tf_xds_server_uri F)
       xds_server_region None ''service-account.yaml'' (tf_debug_use_port_forwarding F)
       (tf_enable_workload_identity F) (tf_workload_identity_iam_policy_binding F) (te_iam D)"

definition init_server_runner :: "test_env \<Rightarrow> string \<Rightarrow> test_config \<Rightarrow> string \<Rightarrow> server_runner" where
  "init_server_runner D deployment_template F server_namespace =
     server_runner_init
       (test_app_runner D F server_namespace (tf_server_name F) (tf_server_image F) deployment_template False
          (tf_xds_server_region F))
       None ''server.service.yaml'' False None None"

definition init_client_runner ::
  "test_env \<Rightarrow> string \<Rightarrow> test_config \<Rightarrow> string \<Rightarrow> string \<Rightarrow> client_args option \<Rightarrow> client_runner" where
  "init_client_runner D deployment_template F server_namespace client_namespace deployment_args =
     client_runner_init
       (test_app_runner D F client_namespace (tf_client_name F) (tf_client_image F) deployment_template
          (server_namespace = client_namespace) (tf_xds_server_region F))
       (tf_client_port F) deployment_args"

definition init_gamma_runner :: "test_env \<Rightarrow> test_config \<Rightarrow> string \<Rightarrow> string \<Rightarrow> gamma_runner" where
  "init_gamma_runner D F server_namespace frontend_service_name =
     gamma_runner_init
       (server_runner_init
          (test_app_runner D F server_namespace (tf_server_name F) (tf_server_image F) ''server.deployment.yaml''
             False None)
          None ''gamma/service.yaml'' False None None)
       frontend_service_name HTTP_ROUTE"

section \<open>Setup\<close>

definition create_random_suffix :: "test_env \<Rightarrow> test_config \<Rightarrow> world \<Rightarrow> string" where
  "create_random_suffix D F w =
     (case tf_resource_suffix F of
        Some sfx \<Rightarrow> sfx
      | None \<Rightarrow> random_resource_suffix (te_choices D w) (te_datetime D w))"

text \<open>
  The names that a test uses, the manager and the runners, and then the calls of the setup: firewall
  rules when they are asked for, and an unused port when the port is 0. A setup that raises has no
  test and no teardown.
\<close>

definition make_test ::
  "(test_config \<Rightarrow> string \<Rightarrow> 'm) \<Rightarrow> (test_config \<Rightarrow> string \<Rightarrow> string \<Rightarrow> 's) \<Rightarrow> (test_config \<Rightarrow> string \<Rightarrow> string \<Rightarrow> client_runner)
     \<Rightarrow> test_config \<Rightarrow> string \<Rightarrow> ('m, 's) test_case" where
  "make_test init_td init_server init_client F sfx =
     (let server_namespace = server_namespace_name (tf_resource_prefix F) sfx None;
          client_namespace = client_namespace_name (tf_resource_prefix F) sfx None
      in \<lparr>tc_config = F, tc_resource_suffix = sfx, tc_force_cleanup = tf_force_cleanup F,
          tc_server_xds_port = tf_server_xds_port F, tc_td = init_td F sfx, tc_server_namespace = server_namespace,
          tc_server_runner = init_server F sfx server_namespace, tc_client_namespace = client_namespace,
          tc_client_runner = init_client F server_namespace client_namespace, tc_rpcs = []\<rparr>)"

definition setup_calls :: "test_env \<Rightarrow> ('x td_scheme, 's, unit) tc_meth" where
  "setup_calls D = using_self (\<lambda>self. let F = tc_config self in stmts
     [if tf_ensure_firewall F
      then on_td (td_create_firewall_rules (te_env D) (tf_firewall_allowed_ports F) (tf_firewall_source_range F)
                    (tf_firewall_source_range_ipv6 F))
      else return (),
      if tc_server_xds_port self = 0
      then bind (on_td (td_find_unused_forwarding_rule_port (te_env D) 1024 65535 25))
             (\<lambda>port. assign (tc_server_xds_port_update (\<lambda>_. port)))
      else return ()])"

definition isolated_setUp ::
  "test_env \<Rightarrow> (test_config \<Rightarrow> string \<Rightarrow> 'x td_scheme) \<Rightarrow> (test_config \<Rightarrow> string \<Rightarrow> string \<Rightarrow> 's)
     \<Rightarrow> (test_config \<Rightarrow> string \<Rightarrow> string \<Rightarrow> client_runner) \<Rightarrow> test_config \<Rightarrow> (world, ('x td_scheme, 's) test_case) act" where
  "isolated_setUp D init_td init_server init_client F = (\<lambda>w.
     case setup_calls D (make_test init_td init_server init_client F (create_random_suffix D F w), w) of
       (Inl e, (self, w')) \<Rightarrow> (Inl e, w')
     | (Inr _, (self, w')) \<Rightarrow> (Inr self, w'))"

text \<open>The setups of the classes of tests.\<close>

definition regular_client :: "test_env \<Rightarrow> test_config \<Rightarrow> string \<Rightarrow> string \<Rightarrow> client_runner" where
  "regular_client D F server_namespace client_namespace =
     init_client_runner D ''client.deployment.yaml'' F server_namespace client_namespace
       (Some (default_client_args\<lparr>ca_enable_dualstack := tf_enable_dualstack F\<rparr>))"

definition regular_setUp :: "test_env \<Rightarrow> test_config \<Rightarrow> (world, (td, server_runner) test_case) act" where
  "regular_setUp D = isolated_setUp D regular_td (\<lambda>F _. init_server_runner D ''server.deployment.yaml'' F) (regular_client D)"

definition appnet_setUp :: "test_env \<Rightarrow> test_config \<Rightarrow> (world, (td_appnet, server_runner) test_case) act" where
  "appnet_setUp D = isolated_setUp D appnet_td (\<lambda>F _. init_server_runner D ''server.deployment.yaml'' F) (regular_client D)"

definition secure_setUp :: "test_env \<Rightarrow> test_config \<Rightarrow> (world, (td_secure, server_runner) test_case) act" where
  "secure_setUp D = isolated_setUp D secure_td (\<lambda>F _. init_server_runner D ''server-secure.deployment.yaml'' F)
     (\<lambda>F server_namespace client_namespace.
        init_client_runner D ''client-secure.deployment.yaml'' F server_namespace client_namespace
          (Some (default_client_args\<lparr>ca_enable_dualstack := tf_enable_dualstack F\<rparr>)))"

definition gamma_frontend_name :: "test_config \<Rightarrow> string \<Rightarrow> string" where
  "gamma_frontend_name F sfx = tf_resource_prefix F @ ''-'' @ lower sfx"

definition gamma_setUp :: "test_env \<Rightarrow> test_config \<Rightarrow> (world, (td, gamma_runner) test_case) act" where
  "gamma_setUp D F = (\<lambda>w. (Inr
     ((make_test gamma_td (\<lambda>F sfx ns. init_gamma_runner D F ns (gamma_frontend_name F sfx))
         (\<lambda>F ns_server ns. init_client_runner D ''client.deployment.yaml'' F ns_server ns None) F
         (create_random_suffix D F w))\<lparr>tc_force_cleanup := True\<rparr>), w))"

section \<open>Starting servers and clients\<close>

definition setupTrafficDirectorGrpc :: "test_env \<Rightarrow> ('x td_scheme, 's, unit) tc_meth" where
  "setupTrafficDirectorGrpc D = using_self (\<lambda>self. let F = tc_config self in
     on_td (td_setup_for_grpc (te_env D) (tf_server_xds_host F) (tc_server_xds_port self) None
       (Some (tf_server_maintenance_port F)) JNull))"

text \<open>The endpoint groups of the service of a runner: their name and zones.\<close>

definition neg_status ::
  "test_config \<Rightarrow> 'y server_runner_scheme \<Rightarrow> (world, json \<times> string list) act" where
  "neg_status F runner =
     bind (parse_service_neg_status (rn_ns runner) (sr_service_name runner) (tf_server_port F)) (\<lambda>(neg_name, neg_zones).
     bind (lift (py_iter neg_zones)) (\<lambda>zones. return (neg_name, map (text_value (rn_env runner)) zones)))"

definition setupServerBackends ::
  "test_env \<Rightarrow> bool \<Rightarrow> 'y server_runner_scheme option \<Rightarrow> int option \<Rightarrow> ('x td_scheme, 'y server_runner_scheme, unit) tc_meth" where
  "setupServerBackends D wait_for_healthy_status server_runner max_rate_per_endpoint = using_self (\<lambda>self.
     let runner = (case server_runner of None \<Rightarrow> tc_server_runner self | Some r \<Rightarrow> r) in
     bind (call (neg_status (tc_config self) runner)) (\<lambda>(neg_name, neg_zones). stmts
       [on_td (td_backend_service_add_neg_backends (te_health D) neg_name neg_zones max_rate_per_endpoint),
        if wait_for_healthy_status
        then on_td (td_wait_for_backends_healthy_status (te_health D) (sr_replica_count runner))
        else return ()]))"

definition removeServerBackends ::
  "test_env \<Rightarrow> 'y server_runner_scheme option \<Rightarrow> ('x td_scheme, 'y server_runner_scheme, unit) tc_meth" where
  "removeServerBackends D server_runner = using_self (\<lambda>self.
     let runner = (case server_runner of None \<Rightarrow> tc_server_runner self | Some r \<Rightarrow> r) in
     bind (call (neg_status (tc_config self) runner)) (\<lambda>(neg_name, neg_zones).
       on_td (td_backend_service_remove_neg_backends (te_health D) neg_name neg_zones)))"

text \<open>
  The address is set on the helpers, which the runner's table of pods shares with the list that is
  returned.
\<close>

definition xds_addressed :: "('m, 's) test_case \<Rightarrow> xds_server \<Rightarrow> xds_server" where
  "xds_addressed self server = server\<lparr>xs_xds_host := Some (tf_server_xds_host (tc_config self)),
     xs_xds_port := Some (tc_server_xds_port self), xs_xds_authority := tf_server_xds_authority (tc_config self)\<rparr>"

definition address_servers ::
  "('m, 'y server_runner_scheme) test_case \<Rightarrow> xds_server list \<Rightarrow> 'y server_runner_scheme \<Rightarrow> 'y server_runner_scheme" where
  "address_servers self servers = sr_pods_to_servers_update
     (map (\<lambda>(pod, server). (pod, if server \<in> set servers then xds_addressed self server else server)))"

definition start_servers ::
  "('y server_runner_scheme \<times> world, xds_server list) act \<Rightarrow> ('m, 'y server_runner_scheme, xds_server list) tc_meth" where
  "start_servers run =
     bind (on_server_runner run) (\<lambda>servers. using_self (\<lambda>self.
       andthen (assign (tc_server_runner_update (address_servers self servers)))
         (return (map (xds_addressed self) servers))))"

definition run_args :: "test_config \<Rightarrow> int \<Rightarrow> bool \<Rightarrow> server_run_args" where
  "run_args F replica_count secure_mode =
     \<lparr>sv_test_port = tf_server_port F, sv_maintenance_port = Some (tf_server_maintenance_port F),
      sv_secure_mode = secure_mode, sv_address_type = [], sv_replica_count = replica_count, sv_log_to_stdout = False,
      sv_bootstrap_version = None\<rparr>"

definition startTestServers ::
  "test_env \<Rightarrow> int \<Rightarrow> ('m, 'y server_runner_scheme, xds_server list) tc_meth" where
  "startTestServers D replica_count = using_self (\<lambda>self.
     start_servers (server_run (te_outside D) (run_args (tc_config self) replica_count False)))"

text \<open>In secure mode only the first server is addressed.\<close>

definition startSecureTestServer ::
  "test_env \<Rightarrow> int \<Rightarrow> ('m, 'y server_runner_scheme, xds_server) tc_meth" where
  "startSecureTestServer D replica_count = using_self (\<lambda>self.
     bind (on_server_runner (server_run (te_outside D) (run_args (tc_config self) replica_count True))) (\<lambda>servers.
     bind (first_of (IndexError ''list index out of range'') servers) (\<lambda>server. using_self (\<lambda>self.
       andthen (assign (tc_server_runner_update (address_servers self [server])))
         (return (xds_addressed self server))))))"

text \<open>A method of the client helper; its calls are requests of the history.\<close>

definition on_client :: "xds_client \<Rightarrow> (xds_client \<times> trace, 'a) act \<Rightarrow> ('m, 's, xds_client) tc_meth" where
  "on_client client m = (\<lambda>(self, w).
     case m (client, tc_rpcs self) of (r, (client', tr)) \<Rightarrow>
       (case r of Inl e \<Rightarrow> Inl e | Inr _ \<Rightarrow> Inr client',
        (self\<lparr>tc_rpcs := tr\<rparr>, w @ map rpc_request (drop (length (tc_rpcs self)) tr))))"

definition start_test_client ::
  "test_env \<Rightarrow> client_run_args \<Rightarrow> bool \<Rightarrow> bool \<Rightarrow> int option \<Rightarrow> int option \<Rightarrow> ('m, 's, xds_client) tc_meth" where
  "start_test_client D A wait_for_active_ads wait_for_server_channel_ready_arg wait_for_active_ads_timeout
       wait_for_server_channel_ready_timeout =
     bind (on_client_runner (client_run (te_outside D) A)) (\<lambda>client.
     bind (if wait_for_active_ads
           then using_self (\<lambda>self. on_client client (wait_for_active_xds_channel (te_app D) (te_pages D)
                  (te_channel_tenacity D) (tf_xds_server_uri (tc_config self)) wait_for_active_ads_timeout None False))
           else return client) (\<lambda>client.
       if wait_for_server_channel_ready_arg
       then on_client client (ClientApp.wait_for_server_channel_ready (te_app D) (te_pages D) (te_channel_tenacity D)
              wait_for_server_channel_ready_timeout None False)
       else return client))"

text \<open>What a run of the client is given besides its target is a default of the source.\<close>

definition client_args :: "string \<Rightarrow> bool \<Rightarrow> bool \<Rightarrow> client_run_args" where
  "client_args server_target secure_mode generate_mesh_id =
     \<lparr>cv_server_target = server_target, cv_rpc = ''UnaryCall'', cv_qps = 25, cv_metadata = [],
      cv_secure_mode = secure_mode, cv_config_mesh = None, cv_generate_mesh_id = generate_mesh_id,
      cv_print_response = False, cv_log_to_stdout = False, cv_request_payload_size = 0, cv_response_payload_size = 0\<rparr>"

definition startTestClient :: "test_env \<Rightarrow> xds_server \<Rightarrow> ('m, 's, xds_client) tc_meth" where
  "startTestClient D test_server =
     start_test_client D (client_args (xds_uri test_server) False False) True True None None"

definition startSecureTestClient :: "test_env \<Rightarrow> xds_server \<Rightarrow> bool \<Rightarrow> ('m, 's, xds_client) tc_meth" where
  "startSecureTestClient D test_server wait_for_ready =
     start_test_client D (client_args (xds_uri test_server) True False) True wait_for_ready None None"

definition gamma_startTestClient :: "test_env \<Rightarrow> xds_server \<Rightarrow> ('m, gamma_runner, xds_client) tc_meth" where
  "gamma_startTestClient D test_server = using_self (\<lambda>self.
     start_test_client D
       (client_args (''xds:///'' @ gamma_frontend_name (tc_config self) (tc_resource_suffix self) @ ''.'' @
          tc_server_namespace self @ ''.svc.cluster.local:'' @ str_int (xs_rpc_port test_server)) False True)
       True True (Some 600) (Some 540))"

definition gamma_startTestServers :: "test_env \<Rightarrow> int \<Rightarrow> string \<Rightarrow> ('m, gamma_runner, xds_server list) tc_meth" where
  "gamma_startTestServers D replica_count route_template = using_self (\<lambda>self.
     start_servers (gamma_run (te_outside D) (run_args (tc_config self) replica_count False) route_template True))"

section \<open>Security policies\<close>

definition setupSecurityPolicies ::
  "test_env \<Rightarrow> bool \<Rightarrow> bool \<Rightarrow> bool \<Rightarrow> bool \<Rightarrow> ('x td_secure_scheme, 's, unit) tc_meth" where
  "setupSecurityPolicies D server_tls server_mtls client_tls client_mtls = using_self (\<lambda>self.
     let F = tc_config self in stmts
     [on_td (sm_setup_client_security (te_env D) (tc_server_namespace self) (tf_server_name F) client_tls client_mtls),
      on_td (sm_setup_server_security (te_env D) (tc_server_namespace self) (tf_server_name F) (tf_server_port F)
               server_tls server_mtls)])"

text \<open>The policy of the client, when there is one, goes into the security settings of the backend service.\<close>

definition setupBackendForGrpcWithSecurity ::
  "test_env \<Rightarrow> bool \<Rightarrow> bool \<Rightarrow> bool \<Rightarrow> bool \<Rightarrow> string option \<Rightarrow> ('x td_secure_scheme, 's, unit) tc_meth" where
  "setupBackendForGrpcWithSecurity D server_tls server_mtls client_tls client_mtls server_namespace_for_client_policy =
     using_self (\<lambda>self. let F = tc_config self in stmts
     [on_td (sm_create_client_tls_policy (te_env D) client_tls client_mtls),
      on_td (sm_create_server_tls_policy (te_env D) server_tls server_mtls),
      on_td (sm_create_endpoint_policy (te_env D) (tc_server_namespace self) (tf_server_name F) (tf_server_port F)),
      using_self (\<lambda>self.
        let security_settings = (case sm_client_tls_policy (tc_td self) of
              None \<Rightarrow> JNull
            | Some policy \<Rightarrow> JObj [(''clientTlsPolicy'', ctp_url policy), (''subjectAltNames'', JList [JStr
                (server_spiffe (tf_project F) (or_text server_namespace_for_client_policy (tc_server_namespace self))
                   (tf_server_name F))])])
        in on_td (td_setup_backend_for_grpc (te_env D) None (Some (tf_server_maintenance_port F)) security_settings))])"

definition setupTrafficDirectorGrpcWithSecurity ::
  "test_env \<Rightarrow> bool \<Rightarrow> bool \<Rightarrow> bool \<Rightarrow> bool \<Rightarrow> ('x td_secure_scheme, 's, unit) tc_meth" where
  "setupTrafficDirectorGrpcWithSecurity D server_tls server_mtls client_tls client_mtls = stmts
     [setupBackendForGrpcWithSecurity D server_tls server_mtls client_tls client_mtls None,
      using_self (\<lambda>self. on_td (td_setup_routing_rule_map_for_grpc (te_env D) (tf_server_xds_host (tc_config self))
        (tc_server_xds_port self)))]"

section \<open>Teardown\<close>

text \<open>
  The cleanups of the manager and of the server runner are those of their classes. Both runners are
  forced, with their namespaces, exactly if the test is.
\<close>

definition tc_cleanup ::
  "test_env \<Rightarrow> (bool \<Rightarrow> ('m \<times> world, unit) act) \<Rightarrow> (bool \<Rightarrow> bool \<Rightarrow> ('s \<times> world, unit) act) \<Rightarrow> ('m, 's, unit) tc_meth" where
  "tc_cleanup D cleanup_td cleanup_server = using_self (\<lambda>self. let force = tc_force_cleanup self in stmts
     [on_td (cleanup_td force),
      on_client_runner (client_cleanup (te_outside D) force force),
      on_server_runner (cleanup_server force force)])"

text \<open>
  The restarts of the pods: what has been counted before an error that is caught stays.
\<close>

definition restarts_caught :: "exn \<Rightarrow> bool" where
  "restarts_caught e = isinstance e [CRetryError, CNotFound]"

definition pod_restarts_of :: "('m, 's, int) tc_meth \<Rightarrow> ('m, 's, int) tc_meth \<Rightarrow> ('m, 's, int \<times> int) tc_meth" where
  "pod_restarts_of client_restarts server_restarts =
     try_except (bind client_restarts (\<lambda>c.
         try_except (bind server_restarts (\<lambda>s. return (c, s))) restarts_caught (\<lambda>_. return (c, 0))))
       restarts_caught (\<lambda>_. return (0, 0))"

definition client_pod_restarts :: "('m, 's, int) tc_meth" where
  "client_pod_restarts = on_client_runner (using_self (\<lambda>runner. get_pod_restarts (rn_deployment runner)))"

definition server_pod_restarts :: "('m, 'y server_runner_scheme, int) tc_meth" where
  "server_pod_restarts = on_server_runner (using_self (\<lambda>runner. get_pod_restarts (rn_deployment runner)))"

definition restarted :: "string \<Rightarrow> int \<Rightarrow> string" where
  "restarted who n = who @ '' container unexpectedly restarted '' @ str_int n @ '' times during test.''
     @ '' In most cases, this is caused by the test client app crash.''"

definition assert_no_restarts :: "int \<times> int \<Rightarrow> ('m, 's, unit) tc_meth" where
  "assert_no_restarts restarts = (case restarts of (client_restarts, server_restarts) \<Rightarrow>
     if client_restarts \<noteq> 0 then raise (AssertionError (restarted ''Client'' client_restarts))
     else if server_restarts \<noteq> 0 then raise (AssertionError (restarted ''Server'' server_restarts))
     else return ())"

text \<open>\<open>T\<close> is the retrying library on the state of what is cleaned up.\<close>

type_synonym 't tenacity_on = "retrying \<Rightarrow> ('t, json) act \<Rightarrow> ('t, json) act"
type_synonym ('m, 's) tc_tenacity = "(('m, 's) test_case \<times> world) tenacity_on"

definition graceful_cleanup :: "'t tenacity_on \<Rightarrow> ('t, unit) act \<Rightarrow> ('t, unit) act" where
  "graceful_cleanup T cleanup =
     bind (lift (constant_retryer 10 3 None None None [])) (\<lambda>retryer.
       try_except (bind (T retryer (bind cleanup (\<lambda>_. return JNull))) (\<lambda>_. return ()))
         (\<lambda>e. isinstance e [CRetryError]) (\<lambda>_. return ()))"

definition tc_tearDown ::
  "('m, 'y server_runner_scheme) tc_tenacity \<Rightarrow> ('m, 'y server_runner_scheme, unit) tc_meth
     \<Rightarrow> ('m, 'y server_runner_scheme, unit) tc_meth" where
  "tc_tearDown T cleanup =
     bind (pod_restarts_of client_pod_restarts server_pod_restarts) (\<lambda>restarts.
       try_finally (graceful_cleanup T cleanup) (assert_no_restarts restarts))"

text \<open>The teardowns of the classes of tests; the manager of GAMMA has nothing to clean up.\<close>

definition regular_tearDown :: "test_env \<Rightarrow> (td, server_runner) tc_tenacity \<Rightarrow> (td, server_runner, unit) tc_meth" where
  "regular_tearDown D T =
     tc_tearDown T (tc_cleanup D (td_cleanup (te_env D)) (server_cleanup (te_outside D) (te_app D)))"

definition appnet_tearDown ::
  "test_env \<Rightarrow> (td_appnet, server_runner) tc_tenacity \<Rightarrow> (td_appnet, server_runner, unit) tc_meth" where
  "appnet_tearDown D T =
     tc_tearDown T (tc_cleanup D (an_cleanup (te_env D)) (server_cleanup (te_outside D) (te_app D)))"

definition secure_tearDown ::
  "test_env \<Rightarrow> (td_secure, server_runner) tc_tenacity \<Rightarrow> (td_secure, server_runner, unit) tc_meth" where
  "secure_tearDown D T =
     tc_tearDown T (tc_cleanup D (sm_cleanup (te_env D)) (server_cleanup (te_outside D) (te_app D)))"

definition gamma_td_cleanup :: "bool \<Rightarrow> (td \<times> world, unit) act" where
  "gamma_td_cleanup force = return ()"

definition gamma_tearDown :: "test_env \<Rightarrow> (td, gamma_runner) tc_tenacity \<Rightarrow> (td, gamma_runner, unit) tc_meth" where
  "gamma_tearDown D T = tc_tearDown T (tc_cleanup D gamma_td_cleanup (gamma_cleanup (te_outside D) (te_app D)))"

section \<open>The teardown\<close>

lemma restarts_caught_simps: "restarts_caught e \<longleftrightarrow> instance_of e CRetryError \<or> instance_of e CNotFound"
  by (simp add: restarts_caught_def)

text \<open>The retryer of the teardown, and an attempt that returns nothing.\<close>

definition teardown_retryer :: retrying where
  "teardown_retryer = Retrying [RetryIfExceptionType [CException]] (WaitFixed 10) [StopAfterAttempt 3]
     (Some (on_error_callback None 3 False [])) False"

lemma teardown_retryer: "constant_retryer 10 3 None None None [] = Inr teardown_retryer"
  by (simp add: constant_retryer_def build_retry_conditions_def teardown_retryer_def)

lemma attempt_wanted:
  "any_wanted (rt_retry teardown_retryer) (Inl e) = Inr (e \<noteq> Diverges)"
  "any_wanted (rt_retry teardown_retryer) (Inr v) = Inr False"
  by (simp_all add: teardown_retryer_def ebind_def)

lemma attempts_returning: "attempts (bind m (\<lambda>_. return x)) k s = attempts m k s"
  by (induction k arbitrary: s) (auto simp: bind_apply return_def split: prod.splits sum.splits)

lemma returning: "bind m (\<lambda>_. return x) s = (case m s of (Inl e, s') \<Rightarrow> (Inl e, s') | (Inr _, s') \<Rightarrow> (Inr x, s'))"
  by (simp add: bind_apply return_def)

text \<open>A retryer gives up on an outcome only when a stop condition allows it.\<close>

lemma retry_run_gives_up:
  assumes "retry_run cfg fn n s m r" and "fn (attempts fn (m - n) s) = (out, s')" and "any_wanted (rt_retry cfg) out = Inr True"
  shows "may_stop (rt_stop cfg) m"
  using assms
proof (induction rule: retry_run.induct)
  case (again s out1 s1 n m r)
  have "n < m" using retry_run_attempts [OF again.hyps(4)] by simp
  then have "m - n = Suc (m - Suc n)" by linarith
  with again show ?case by simp
qed simp_all

lemma graceful_cleanup_run:
  assumes "tenacity_ok T" and never_stuck: "\<And>i. i < 3 \<Longrightarrow> fst (cleanup (attempts cleanup i s)) \<noteq> Inl Diverges"
  shows "\<exists>m. 1 \<le> m \<and> m \<le> 3 \<and> graceful_cleanup T cleanup s = (Inr (), attempts cleanup m s)
    \<and> (\<forall>i < m - 1. isl (fst (cleanup (attempts cleanup i s))))
    \<and> (m < 3 \<longrightarrow> \<not> isl (fst (cleanup (attempts cleanup (m - 1) s))))"
proof -
  let ?fn = "bind cleanup (\<lambda>_. return JNull)" and ?cfg = teardown_retryer
  have wanted: "any_wanted (rt_retry ?cfg) (fst (?fn t)) = Inr (isl (fst (cleanup t)))"
    if "fst (cleanup t) \<noteq> Inl Diverges" for t
    using that by (cases "cleanup t") (auto simp: returning attempt_wanted split: sum.splits)
  have stop: "rt_stop ?cfg = [StopAfterAttempt 3]" by (simp add: teardown_retryer_def)
  obtain m where run: "retry_run ?cfg ?fn 1 s m (T ?cfg ?fn s)"
    using tenacity_run [OF assms(1), of ?cfg ?fn s] stop by auto
  from retry_run_bound [OF run, of 3] stop have m: "1 \<le> m" "m \<le> 3" by simp_all
  let ?last = "attempts cleanup (m - 1) s"
  have safe: "fst (cleanup (attempts cleanup i s)) \<noteq> Inl Diverges" if "i \<le> m - 1" for i
    using never_stuck [of i] that m by linarith
  obtain out where asked: "\<forall>i < m - 1. any_wanted (rt_retry ?cfg) (fst (?fn (attempts cleanup i s))) = Inr True"
    and out: "?fn ?last = (out, snd (T ?cfg ?fn s))"
    and outcome: "fst (T ?cfg ?fn s) = out \<and> any_wanted (rt_retry ?cfg) out = Inr False
      \<or> (\<exists>e. fst (T ?cfg ?fn s) = Inl e \<and> (any_wanted (rt_retry ?cfg) out = Inl e
          \<or> any_wanted (rt_retry ?cfg) out = Inr True \<and> (\<exists>nm. e = give_up ?cfg out nm)))"
    using retry_run_shape [OF run] by (auto simp: attempts_returning)
  have earlier: "\<forall>i < m - 1. isl (fst (cleanup (attempts cleanup i s)))"
    using asked wanted [OF safe] by simp
  have last: "any_wanted (rt_retry ?cfg) out = Inr (isl (fst (cleanup ?last)))"
    using wanted [OF safe, of "m - 1"] out by simp
  have ended: "snd (T ?cfg ?fn s) = attempts cleanup m s"
    using retry_run_attempts [OF run] m by (simp add: attempts_returning del: attempts.simps)
  have "fst (T ?cfg ?fn s) = Inr JNull \<or> (\<exists>a b. fst (T ?cfg ?fn s) = Inl (RetryError a b))"
    using outcome last out safe [of "m - 1"]
    by (auto simp: give_up_def teardown_retryer_def on_error_callback_def returning split: prod.splits sum.splits)
  then have "graceful_cleanup T cleanup s = (Inr (), attempts cleanup m s)"
    using ended by (cases "T ?cfg ?fn s") (auto simp: graceful_cleanup_def teardown_retryer try_except_def bind_apply return_def)
  moreover have "\<not> isl (fst (cleanup ?last))" if "m < 3"
    using retry_run_gives_up [OF run] out last that stop by (auto simp: attempts_returning)
  ultimately show ?thesis using m earlier by blast
qed

text \<open>A cleanup that returns is not repeated.\<close>

lemma graceful_cleanup_first:
  assumes "tenacity_ok T" and "cleanup s = (Inr (), s')"
  shows "graceful_cleanup T cleanup s = (Inr (), s')"
proof -
  have "T teardown_retryer (bind cleanup (\<lambda>_. return JNull)) s = (Inr JNull, s')"
    by (rule tenacity_first [OF assms(1)]) (simp_all add: teardown_retryer_def assms(2) returning)
  then show ?thesis
    by (simp add: graceful_cleanup_def teardown_retryer try_except_def bind_apply return_def)
qed

section \<open>Tests in isolation\<close>

text \<open>The calls of a setup change no name and no runner.\<close>

definition names_kept :: "('x td_scheme, 's) test_case \<Rightarrow> ('x td_scheme, 's) test_case \<Rightarrow> bool" where
  "names_kept self0 self \<longleftrightarrow> tc_server_runner self = tc_server_runner self0 \<and> tc_client_runner self = tc_client_runner self0
     \<and> make_resource_name (tc_td self) = make_resource_name (tc_td self0)"

lemma keeps_on_td:
  fixes m :: "('x td_scheme \<times> world, 'a) act" and J :: "'s \<Rightarrow> client_runner \<Rightarrow> bool"
  assumes "keeps (\<lambda>s. make_resource_name (fst s) = f) m"
  shows "keeps (\<lambda>s. J (tc_server_runner (fst s)) (tc_client_runner (fst s)) \<and> make_resource_name (tc_td (fst s)) = f) (on_td m)"
  unfolding keeps_def
proof (intro allI impI)
  fix s :: "('x td_scheme, 's) test_case \<times> world"
  obtain self w where s: "s = (self, w)" by fastforce
  obtain r td' w' where run: "m (tc_td self, w) = (r, (td', w'))" by (rule prod_cases3)
  assume at: "J (tc_server_runner (fst s)) (tc_client_runner (fst s)) \<and> make_resource_name (tc_td (fst s)) = f"
  with keepsD [OF assms run] s have "make_resource_name td' = f" by simp
  with at s run show "J (tc_server_runner (fst (snd (on_td m s)))) (tc_client_runner (fst (snd (on_td m s))))
      \<and> make_resource_name (tc_td (fst (snd (on_td m s)))) = f"
    by (simp add: in_field_def)
qed

lemma keeps_firewall_rules: "keeps (\<lambda>s. make_resource_name (fst s) = f) (td_create_firewall_rules E ports src src6)"
  unfolding td_create_firewall_rules_def td_create_firewall_rule_def stmts.simps
  by (intro keeps_using_self keeps_andthen keeps_if keeps_bind keeps_basic
      keeps_object(1,2) [where I = "\<lambda>self. make_resource_name self = f"]) simp_all

lemma keeps_find_port: "keeps (\<lambda>s. make_resource_name (fst s) = f) (find_port_loop E lo hi n)"
  by (induction n) (auto intro!: keeps_using_self keeps_bind keeps_if keeps_basic
      keeps_object(2) [where I = "\<lambda>self. make_resource_name self = f"] simp: Let_def)

lemma setup_keeps_names: "keeps (\<lambda>s. names_kept self0 (fst s)) (setup_calls D)"
proof -
  let ?f = "make_resource_name (tc_td self0)"
  have td: "keeps (\<lambda>s. names_kept self0 (fst s)) (on_td m)" if "keeps (\<lambda>s. make_resource_name (fst s) = ?f) m" for m
    using keeps_on_td [OF that, of "\<lambda>s c. s = tc_server_runner self0 \<and> c = tc_client_runner self0"]
    by (simp add: names_kept_def)
  show ?thesis
    unfolding setup_calls_def Let_def td_find_unused_forwarding_rule_port_def stmts.simps
    by (intro keeps_using_self keeps_andthen keeps_if keeps_bind keeps_basic td keeps_firewall_rules keeps_find_port
        keeps_object(1) [where I = "names_kept self0"]) (simp add: names_kept_def)
qed

lemma setUp_names:
  assumes "isolated_setUp D init_td init_server init_client F w = (Inr t, w')"
  shows "names_kept (make_test init_td init_server init_client F (create_random_suffix D F w)) t"
proof -
  let ?t0 = "make_test init_td init_server init_client F (create_random_suffix D F w)"
  from assms obtain w1 where "setup_calls D (?t0, w) = (Inr (), (t, w1))"
    by (auto simp: isolated_setUp_def split: prod.splits sum.splits)
  from keepsD [OF setup_keeps_names this, of ?t0] show ?thesis by (simp add: names_kept_def)
qed

text \<open>The namespaces of the runners of a test.\<close>

lemma test_namespaces:
  "kn_name (rn_ns (init_server_runner D t F nm)) = nm" "kn_name (rn_ns (init_client_runner D t F nm' nm a)) = nm"
  by (simp_all add: init_server_runner_def init_client_runner_def server_runner_init_def client_runner_init_def
      test_app_runner_def app_runner_init_def runner_init_def reset_server_def reset_runner_def kube_ns_init_def
      app_runner.defs runner.defs Let_def)

text \<open>Names with different suffixes of the same length differ, whatever is before the suffix.\<close>

lemma suffix_separates: "length s = length t \<Longrightarrow> s \<noteq> t \<Longrightarrow> xs @ s \<noteq> ys @ t"
  by auto

section \<open>A concrete test\<close>

definition demo_test_env :: "env \<Rightarrow> test_env" where
  "demo_test_env E = \<lparr>te_env = E, te_health = demo_health\<lparr>he_env := E\<rparr>, te_kube = live_kube, te_iam = demo_iam,
     te_outside = demo_outside, te_app = dead_app, te_pages = 3, te_channel_tenacity = simple_retryer 0,
     te_collect_logs = False, te_choices = (\<lambda>w a k. replicate k (if w = [] then CHR ''a'' else CHR ''b'')),
     te_datetime = (\<lambda>w. ''20250101-1200'')\<rparr>"

definition demo_config :: test_config where
  "demo_config = \<lparr>tf_gfe_header = None, tf_project = ''prj'', tf_network = ''default'', tf_gcp_service_account = ''gsa'',
     tf_td_bootstrap_image = ''boot'', tf_xds_server_uri = None, tf_xds_server_region = None, tf_enable_dualstack = False,
     tf_ensure_firewall = False, tf_firewall_allowed_ports = JNull, tf_firewall_source_range = JNull,
     tf_firewall_source_range_ipv6 = JNull, tf_resource_prefix = ''psm'', tf_resource_suffix = None,
     tf_server_image = ''img'', tf_server_name = ''srv'', tf_server_port = 8080, tf_server_maintenance_port = 8080,
     tf_server_xds_host = ''srv'', tf_server_xds_port = 443, tf_server_xds_authority = None, tf_client_image = ''img'',
     tf_client_name = ''cl'', tf_client_port = 8079, tf_force_cleanup = True, tf_debug_use_port_forwarding = False,
     tf_enable_workload_identity = True, tf_workload_identity_iam_policy_binding = False\<rparr>"

lemma demo_setUp: "regular_setUp (demo_test_env E) demo_config w
    = (Inr (make_test regular_td (\<lambda>F _. init_server_runner (demo_test_env E) ''server.deployment.yaml'' F)
         (regular_client (demo_test_env E)) demo_config (create_random_suffix (demo_test_env E) demo_config w)), w)"
  by (simp add: regular_setUp_def isolated_setUp_def setup_calls_def using_self_def Let_def make_test_def demo_config_def
      andthen_def bind_apply return_def)

definition demo_test :: "env \<Rightarrow> (td, server_runner) test_case" where
  "demo_test E = make_test regular_td (\<lambda>F _. init_server_runner (demo_test_env E) ''server.deployment.yaml'' F)
     (regular_client (demo_test_env E)) demo_config ''x''"

lemma demo_test_ready:
  "app_ready (tc_client_runner (demo_test E))" "server_ready (te_app (demo_test_env E)) (tc_server_runner (demo_test E))"
  using live_kube_ok(2) dead_app_errors
  by (simp_all add: app_ready_def server_ready_def ns_ready_def logs_ok_def demo_test_def make_test_def Let_def
      demo_test_env_def demo_config_def regular_client_def init_client_runner_def init_server_runner_def
      test_app_runner_def client_runner_init_def server_runner_init_def app_runner_init_def runner_init_def
      reset_server_def reset_runner_def kube_ns_init_def no_own_pause_def app_runner.defs runner.defs)

lemma demo_test_fresh:
  "rn_deployment (tc_client_runner (demo_test E)) = None" "rn_deployment (tc_server_runner (demo_test E)) = None"
  by (simp_all add: demo_test_def make_test_def Let_def regular_client_def init_client_runner_def init_server_runner_def
      test_app_runner_def client_runner_init_def server_runner_init_def app_runner_init_def runner_init_def
      reset_server_def reset_runner_def app_runner.defs runner.defs)

text \<open>Services that no call reaches.\<close>

definition no_credentials :: env where
  "no_credentials = with_answers (\<lambda>w q. Inl (RuntimeError ''no credentials''))"

section \<open>Properties\<close>





text \<open>
  C16: tests do not meet: two regular tests of the same settings whose generated suffixes differ use
  different namespaces for their servers and for their clients, and their managers never give the
  same name to two resources. (A time stamp has 13 characters, and the choice of \<open>k\<close>
  characters gives \<open>k\<close>.)
\<close>

theorem tests_do_not_meet:
  assumes "\<And>w. length (te_datetime D w) = 13" and "\<And>w a k. length (te_choices D w a k) = k"
    and "tf_resource_suffix F = None" and "create_random_suffix D F w1 \<noteq> create_random_suffix D F w2"
    and "regular_setUp D F w1 = (Inr t1, w1')" and "regular_setUp D F w2 = (Inr t2, w2')"
  shows "kn_name (rn_ns (tc_server_runner t1)) \<noteq> kn_name (rn_ns (tc_server_runner t2))
    \<and> kn_name (rn_ns (tc_client_runner t1)) \<noteq> kn_name (rn_ns (tc_client_runner t2))
    \<and> kn_name (rn_ns (tc_server_runner t1)) \<noteq> kn_name (rn_ns (tc_client_runner t1))
    \<and> make_resource_name (tc_td t1) n \<noteq> make_resource_name (tc_td t2) m"
proof -
  let ?s1 = "create_random_suffix D F w1" and ?s2 = "create_random_suffix D F w2"
  have len: "length (create_random_suffix D F w) = 19" for w
    using assms(1,2) by (simp add: create_random_suffix_def assms(3) random_resource_suffix_def rand_string_def)
  have some: "create_random_suffix D F w \<noteq> []" for w using len [of w] by auto
  note kept = setUp_names [OF assms(5) [unfolded regular_setUp_def]] setUp_names [OF assms(6) [unfolded regular_setUp_def]]
  have runners: "kn_name (rn_ns (tc_server_runner t1)) = tf_resource_prefix F @ ''-server-'' @ ?s1"
    "kn_name (rn_ns (tc_client_runner t1)) = tf_resource_prefix F @ ''-client-'' @ ?s1"
    "kn_name (rn_ns (tc_server_runner t2)) = tf_resource_prefix F @ ''-server-'' @ ?s2"
    "kn_name (rn_ns (tc_client_runner t2)) = tf_resource_prefix F @ ''-client-'' @ ?s2"
    using kept some by (simp_all add: names_kept_def make_test_def Let_def regular_client_def test_namespaces
        server_namespace_name_def client_namespace_name_def make_namespace_name_def)
  have names: "make_resource_name (tc_td t1) n = (tf_resource_prefix F @ ''-'' @ n @ ''-'') @ ?s1"
    "make_resource_name (tc_td t2) m = (tf_resource_prefix F @ ''-'' @ m @ ''-'') @ ?s2"
    using kept some by (simp_all add: names_kept_def make_test_def Let_def regular_td_def td_init_def make_resource_name_def)
  have "make_resource_name (tc_td t1) n \<noteq> make_resource_name (tc_td t2) m"
    unfolding names by (rule suffix_separates) (simp_all add: len assms(4))
  with runners assms(4) show ?thesis by simp
qed

theorem tests_do_not_meet_witness:
  "\<exists>t1 t2 w1 w2. regular_setUp (demo_test_env demo_env) demo_config [] = (Inr t1, w1)
     \<and> regular_setUp (demo_test_env demo_env) demo_config [discovery_request [] []] = (Inr t2, w2)
     \<and> kn_name (rn_ns (tc_server_runner t1)) \<noteq> kn_name (rn_ns (tc_server_runner t2))
     \<and> make_resource_name (tc_td t1) ''url-map'' \<noteq> make_resource_name (tc_td t2) ''url-map''"
proof -
  let ?D = "demo_test_env demo_env"
  have params: "\<And>w. length (te_datetime ?D w) = 13" "\<And>w a k. length (te_choices ?D w a k) = k"
    "tf_resource_suffix demo_config = None"
    by (simp_all add: demo_test_env_def demo_config_def)
  have "create_random_suffix ?D demo_config [] \<noteq> create_random_suffix ?D demo_config [discovery_request [] []]"
    by (simp add: create_random_suffix_def random_resource_suffix_def rand_string_def demo_test_env_def demo_config_def
        eval_nat_numeral)
  from tests_do_not_meet [OF params this demo_setUp demo_setUp] demo_setUp show ?thesis by blast
qed

end
