(* ===== verification/UrlMapTests.thy ===== *)
theory UrlMapTests
  imports TestCases RunnerScope
begin

text \<open>
  The tests of URL maps, which share the resources in the cloud: framework/xds_url_map_testcase.py
  (the classes that are tracked, and what is done before the first and after the last) and
  framework/xds_url_map_test_resources.py (the shared resources and the URL map that is put together
  from the parts of the classes).
\<close>

section \<open>Names\<close>

definition is_upper :: "char \<Rightarrow> bool" where
  "is_upper c = (let n = (of_char c :: nat) in 65 \<le> n \<and> n \<le> 90)"

definition split_camel :: "string \<Rightarrow> char \<Rightarrow> string" where
  "split_camel s delimiter =
     dropWhile (\<lambda>c. c = delimiter) (concat (map (\<lambda>c. if is_upper c then [delimiter, lower_char c] else [c]) s))"

text \<open>\<open>str.replace\<close> for a part that is not empty: the occurrences from the left, without overlap.\<close>

function replace_all :: "string \<Rightarrow> string \<Rightarrow> string \<Rightarrow> string" where
  "replace_all part new [] = []"
| "replace_all part new (c # cs) =
     (if part \<noteq> [] \<and> take (length part) (c # cs) = part then new @ replace_all part new (drop (length part) (c # cs))
      else c # replace_all part new cs)"
  by pat_completeness auto

termination
proof (relation "measure (\<lambda>(part, new, s). length s)")
  fix part new :: string and c :: char and cs :: string
  assume "part \<noteq> [] \<and> take (length part) (c # cs) = part"
  then show "((part, new, drop (length part) (c # cs)), part, new, c # cs) \<in> measure (\<lambda>(part, new, s). length s)"
    by (cases part) auto
qed simp_all

definition URL_MAP_TESTCASE_FILE_SUFFIX :: string where
  "URL_MAP_TESTCASE_FILE_SUFFIX = ''_test.py''"

definition ends_in :: "string \<Rightarrow> string \<Rightarrow> bool" where
  "ends_in part s \<longleftrightarrow> length part \<le> length s \<and> drop (length s - length part) s = part"

definition short_module_name :: "string \<Rightarrow> string" where
  "short_module_name file =
     replace_all ''_'' ''-''
       (if ends_in URL_MAP_TESTCASE_FILE_SUFFIX file then replace_all URL_MAP_TESTCASE_FILE_SUFFIX [] file else file)"

section \<open>The shared resources\<close>

text \<open>
  The settings of the tests with the strategy of the resources; a manager holds the Traffic Director
  manager, the three runners of servers, and the cached URLs of the backend services.
\<close>

record url_config = test_config +
  uf_strategy :: string

record url_manager =
  um_config :: url_config
  um_td :: td
  um_server :: server_runner
  um_alternative :: server_runner
  um_affinity :: server_runner
  um_default_url :: "json option"
  um_alternative_url :: "json option"
  um_affinity_url :: "json option"

type_synonym 'a um_meth = "(url_manager \<times> world, 'a) act"

definition config_of :: "url_config \<Rightarrow> test_config" where
  "config_of F = test_config.truncate F"

definition init_shared_server :: "test_env \<Rightarrow> test_config \<Rightarrow> string \<Rightarrow> bool \<Rightarrow> server_runner" where
  "init_shared_server D F deployment_name reuse_namespace =
     server_runner_init
       (test_app_runner D (F\<lparr>tf_debug_use_port_forwarding := False\<rparr>) (tf_resource_prefix F) deployment_name
          (tf_server_image F) ''server.deployment.yaml'' reuse_namespace None)
       None ''server.service.yaml'' False None None"

text \<open>A suffix that is set is not supported; the namespace is named by the prefix alone.\<close>

definition url_manager_init :: "test_env \<Rightarrow> url_config \<Rightarrow> exn + url_manager" where
  "url_manager_init D F =
     (if tf_resource_suffix F \<noteq> None
      then Inl (NotImplementedError ''Predefined resource_suffix is not supported for UrlMap tests'')
      else Inr \<lparr>um_config = F,
        um_td = td_init (tf_gfe_header F) (tf_project F) (tf_resource_prefix F) (Some []) (tf_network F) False None,
        um_server = init_shared_server D (config_of F) (tf_server_name F) False,
        um_alternative = init_shared_server D (config_of F) (tf_server_name F @ ''-alternative'') True,
        um_affinity = init_shared_server D (config_of F) (tf_server_name F @ ''-affinity'') True,
        um_default_url = None, um_alternative_url = None, um_affinity_url = None\<rparr>)"

text \<open>The client of a test class has a namespace with a suffix of its own.\<close>

definition create_test_client_runner :: "test_env \<Rightarrow> url_manager \<Rightarrow> world \<Rightarrow> client_runner" where
  "create_test_client_runner D self w =
     (let F = config_of (um_config self);
          namespace = client_namespace_name (tf_resource_prefix F)
            (random_resource_suffix (te_choices D w) (te_datetime D w)) None
      in client_runner_init
           (test_app_runner D F namespace (tf_client_name F) (tf_client_image F) ''client.deployment.yaml'' False None)
           (tf_client_port F) None)"

abbreviation um_on_td :: "(td \<times> world, 'a) act \<Rightarrow> 'a um_meth" where
  "um_on_td \<equiv> in_field um_td um_td_update"

text \<open>The URL of a backend service is loaded once and cached.\<close>

definition cached_url ::
  "(url_manager \<Rightarrow> json option) \<Rightarrow> ((json option \<Rightarrow> json option) \<Rightarrow> url_manager \<Rightarrow> url_manager)
     \<Rightarrow> (td \<times> world, unit) act \<Rightarrow> (td \<Rightarrow> gcp_resource option) \<Rightarrow> json um_meth" where
  "cached_url get upd load service = using_self (\<lambda>self.
     case get self of
       Some u \<Rightarrow> return u
     | None \<Rightarrow> andthen (um_on_td load) (using_self (\<lambda>self.
         bind (attr_of ''url'' (service (um_td self))) (\<lambda>s.
           andthen (assign (upd (\<lambda>_. Some (url s)))) (return (url s))))))"

definition default_backend_service :: "test_env \<Rightarrow> json um_meth" where
  "default_backend_service D =
     cached_url um_default_url um_default_url_update (td_load_backend_service (te_env D)) td_backend_service"

definition alternative_backend_service :: "test_env \<Rightarrow> json um_meth" where
  "alternative_backend_service D =
     cached_url um_alternative_url um_alternative_url_update (td_load_alternative_backend_service (te_env D))
       td_alternative_backend_service"

definition affinity_backend_service :: "test_env \<Rightarrow> json um_meth" where
  "affinity_backend_service D =
     cached_url um_affinity_url um_affinity_url_update (td_load_affinity_backend_service (te_env D))
       td_affinity_backend_service"

section \<open>The test classes\<close>

text \<open>
  A class: its name, the short name of its module, whether it supports the versions under test, its
  change of the URL map, and the RPCs and metadata of its client.
\<close>

record test_class =
  uc_name :: string
  uc_module :: string
  uc_supported :: bool
  uc_change :: "json \<Rightarrow> json \<Rightarrow> (json \<times> json) um_meth"
  uc_client_init_config :: "string \<Rightarrow> string \<Rightarrow> string \<times> string"

definition uc_hostname :: "url_manager \<Rightarrow> test_class \<Rightarrow> string" where
  "uc_hostname self cls = uc_module cls @ ''.'' @ split_camel (uc_name cls) CHR ''-'' @ '':''
     @ str_int (tf_server_xds_port (um_config self))"

definition uc_path_matcher_name :: "test_class \<Rightarrow> string" where
  "uc_path_matcher_name cls = uc_module cls @ ''-'' @ split_camel (uc_name cls) CHR ''-'' @ ''-pm''"

section \<open>The URL map\<close>

record url_map_parts =
  up_name :: string
  up_default_service :: json
  up_host_rules :: "json list"
  up_path_matchers :: "json list"

definition get_map :: "url_map_parts \<Rightarrow> json" where
  "get_map parts = JObj [(''name'', JStr (up_name parts)), (''defaultService'', up_default_service parts),
     (''hostRules'', JList (up_host_rules parts)), (''pathMatchers'', JList (up_path_matchers parts))]"

definition new_aggregator :: "test_env \<Rightarrow> string \<Rightarrow> url_map_parts um_meth" where
  "new_aggregator D url_map_name = bind (default_backend_service D) (\<lambda>u.
     return \<lparr>up_name = url_map_name, up_default_service = u, up_host_rules = [], up_path_matchers = []\<rparr>)"

definition test_case_url_map :: "test_env \<Rightarrow> test_class \<Rightarrow> (json \<times> json) um_meth" where
  "test_case_url_map D cls = using_self (\<lambda>self. bind (default_backend_service D) (\<lambda>u. return
     (JObj [(''hosts'', JList [JStr (uc_hostname self cls)]), (''pathMatcher'', JStr (uc_path_matcher_name cls))],
      JObj [(''name'', JStr (uc_path_matcher_name cls)), (''defaultService'', u)])))"

definition set_test_case_url_map :: "json \<Rightarrow> json \<Rightarrow> url_map_parts \<Rightarrow> url_map_parts" where
  "set_test_case_url_map host_rule path_matcher parts =
     parts\<lparr>up_host_rules := up_host_rules parts @ [host_rule], up_path_matchers := up_path_matchers parts @ [path_matcher]\<rparr>"

definition apply_change :: "test_env \<Rightarrow> test_class \<Rightarrow> url_map_parts \<Rightarrow> url_map_parts um_meth" where
  "apply_change D cls parts = bind (test_case_url_map D cls) (\<lambda>(host_rule, path_matcher).
     bind (uc_change cls host_rule path_matcher) (\<lambda>(host_rule, path_matcher).
       return (set_test_case_url_map host_rule path_matcher parts)))"

fun apply_changes :: "test_env \<Rightarrow> test_class list \<Rightarrow> url_map_parts \<Rightarrow> url_map_parts um_meth" where
  "apply_changes D [] parts = return parts"
| "apply_changes D (cls # classes) parts = bind (apply_change D cls parts) (apply_changes D classes)"


text \<open>The whole URL map, put together from the classes in order.\<close>

definition construct_url_map :: "test_env \<Rightarrow> test_class list \<Rightarrow> json um_meth" where
  "construct_url_map D classes = using_self (\<lambda>self.
     bind (new_aggregator D (make_resource_name (um_td self) URL_MAP_NAME)) (\<lambda>parts.
     bind (apply_changes D classes parts) (\<lambda>parts. return (get_map parts))))"

section \<open>Setup and cleanup of the shared resources\<close>

abbreviation um_on_server :: "(server_runner \<times> world, 'a) act \<Rightarrow> 'a um_meth" where
  "um_on_server \<equiv> in_field um_server um_server_update"

abbreviation um_on_alternative :: "(server_runner \<times> world, 'a) act \<Rightarrow> 'a um_meth" where
  "um_on_alternative \<equiv> in_field um_alternative um_alternative_update"

abbreviation um_on_affinity :: "(server_runner \<times> world, 'a) act \<Rightarrow> 'a um_meth" where
  "um_on_affinity \<equiv> in_field um_affinity um_affinity_update"

definition no_result :: "('s, 'a) act \<Rightarrow> ('s, unit) act" where
  "no_result m = bind m (\<lambda>_. return ())"

definition url_pre_cleanup :: "test_env \<Rightarrow> unit um_meth" where
  "url_pre_cleanup D = stmts [um_on_td (td_cleanup (te_env D) True), um_on_server rn_delete_namespace]"

text \<open>The endpoint groups of the service of one of the servers are added to a backend service.\<close>

definition add_server_negs ::
  "(url_manager \<Rightarrow> server_runner) \<Rightarrow> (json \<Rightarrow> string list \<Rightarrow> (td \<times> world, unit) act) \<Rightarrow> unit um_meth" where
  "add_server_negs runner add = using_self (\<lambda>self.
     bind (call (neg_status (config_of (um_config self)) (runner self))) (\<lambda>(neg_name, neg_zones).
       um_on_td (add neg_name neg_zones)))"

abbreviation "TEST_SERVER_REPLICA_COUNT \<equiv> 1 :: int"
abbreviation "TEST_SERVER_ALTERNATIVE_REPLICA_COUNT \<equiv> 1 :: int"
abbreviation "TEST_SERVER_AFFINITY_REPLICA_COUNT \<equiv> 3 :: int"

definition url_setup :: "test_env \<Rightarrow> test_class list \<Rightarrow> unit um_meth" where
  "url_setup D classes = using_self (\<lambda>self.
     let F = um_config self; E = te_env D; H = te_health D; R = te_outside D;
         args = (\<lambda>n. run_args (config_of F) n False) in
     if uf_strategy F \<notin> {''create'', ''keep''} then return () else stmts
     [url_pre_cleanup D,
      if tf_ensure_firewall F
      then um_on_td (td_create_firewall_rules E (tf_firewall_allowed_ports F) (tf_firewall_source_range F)
                       (tf_firewall_source_range_ipv6 F))
      else return (),
      um_on_td (td_create_health_check E None None),
      um_on_td (td_create_backend_service E None no_options),
      um_on_td (td_create_alternative_backend_service E None),
      um_on_td (td_create_affinity_backend_service E None),
      bind (construct_url_map D classes) (\<lambda>final_url_map.
        no_result (um_on_td (td_create_url_map_with_content E final_url_map))),
      um_on_td (td_create_target_proxy E),
      no_result (um_on_td (td_create_forwarding_rule E (tf_server_xds_port F))),
      no_result (um_on_server (server_run R (args TEST_SERVER_REPLICA_COUNT))),
      no_result (um_on_alternative (server_run R (args TEST_SERVER_ALTERNATIVE_REPLICA_COUNT))),
      no_result (um_on_affinity (server_run R (args TEST_SERVER_AFFINITY_REPLICA_COUNT))),
      add_server_negs um_server (\<lambda>nm zones. td_backend_service_add_neg_backends H nm zones None),
      add_server_negs um_alternative (td_alternative_backend_service_add_neg_backends H),
      add_server_negs um_affinity (td_affinity_backend_service_add_neg_backends H),
      um_on_td (td_wait_for_backends_healthy_status H TEST_SERVER_REPLICA_COUNT),
      um_on_td (td_wait_for_alternative_backends_healthy_status H TEST_SERVER_ALTERNATIVE_REPLICA_COUNT),
      um_on_td (td_wait_for_affinity_backends_healthy_status H TEST_SERVER_AFFINITY_REPLICA_COUNT)])"

text \<open>Only the strategy \<open>create\<close> removes the shared resources.\<close>

definition url_cleanup :: "test_env \<Rightarrow> unit um_meth" where
  "url_cleanup D = using_self (\<lambda>self.
     let R = te_outside D; A = te_app D in
     if uf_strategy (um_config self) \<notin> {''create''} then return () else stmts
     [um_on_td (td_cleanup (te_env D) True),
      um_on_server (server_cleanup R A True False),
      um_on_alternative (server_cleanup R A True True),
      um_on_affinity (server_cleanup R A True True)])"

section \<open>The suite of classes\<close>

text \<open>
  What the classes share: the flags, the one manager (made when it is first asked for), the classes
  and names that are tracked, and what has started and finished. A class itself is identified by its
  module and name; it has a runner of clients and a client after its setup.
\<close>

type_synonym class_id = "string \<times> string"

record suite =
  su_flags :: url_config
  su_manager :: "url_manager option"
  su_classes :: "test_class list"
  su_names :: "string set"
  su_started :: "string set"
  su_finished :: "string set"
  su_runners :: "class_id \<rightharpoonup> client_runner"
  su_clients :: "class_id \<rightharpoonup> xds_client"

type_synonym 'a su_meth = "(suite \<times> world, 'a) act"

definition class_id :: "test_class \<Rightarrow> class_id" where
  "class_id cls = (uc_module cls, uc_name cls)"

definition no_classes :: "url_config \<Rightarrow> suite" where
  "no_classes F = \<lparr>su_flags = F, su_manager = None, su_classes = [], su_names = {}, su_started = {}, su_finished = {},
     su_runners = Map.empty, su_clients = Map.empty\<rparr>"

text \<open>A class that is defined in a file; only names that start with \<open>Test\<close> are tracked.\<close>

definition new_class :: "string \<Rightarrow> test_class \<Rightarrow> suite \<Rightarrow> test_class \<times> suite" where
  "new_class file cls self =
     (let cls = cls\<lparr>uc_module := short_module_name file\<rparr> in
      (cls, if take 4 (uc_name cls) = ''Test''
            then self\<lparr>su_names := insert (uc_name cls) (su_names self), su_classes := su_classes self @ [cls]\<rparr>
            else self))"

text \<open>\<open>GcpResourceManager()\<close>: the one instance; a constructor that raises leaves none.\<close>

definition the_manager :: "test_env \<Rightarrow> suite \<Rightarrow> exn + url_manager" where
  "the_manager D self = (case su_manager self of Some m \<Rightarrow> Inr m | None \<Rightarrow> url_manager_init D (su_flags self))"

definition on_manager :: "test_env \<Rightarrow> 'a um_meth \<Rightarrow> 'a su_meth" where
  "on_manager D m = (\<lambda>(self, w). case the_manager D self of
       Inl e \<Rightarrow> (Inl e, (self, w))
     | Inr manager \<Rightarrow> (case m (manager, w) of (r, (manager', w')) \<Rightarrow> (r, (self\<lparr>su_manager := Some manager'\<rparr>, w'))))"

text \<open>A method of the runner of a class.\<close>

definition on_class_runner :: "class_id \<Rightarrow> (client_runner \<times> world, 'a) act \<Rightarrow> 'a su_meth" where
  "on_class_runner c m = (\<lambda>(self, w). case su_runners self c of
       None \<Rightarrow> (Inl (AttributeError ''test_client_runner''), (self, w))
     | Some runner \<Rightarrow> (case m (runner, w) of
         (r, (runner', w')) \<Rightarrow> (r, (self\<lparr>su_runners := (su_runners self)(c \<mapsto> runner')\<rparr>, w'))))"

section \<open>Setup of a class\<close>

definition url_client_args :: "string \<Rightarrow> string \<Rightarrow> string \<Rightarrow> int \<Rightarrow> client_run_args" where
  "url_client_args server_target rpc metadata qps =
     (client_args server_target False False)\<lparr>cv_rpc := rpc, cv_metadata := metadata, cv_qps := qps,
        cv_print_response := True\<rparr>"

text \<open>
  The result says whether the class has been set up: \<open>False\<close> stands for \<open>SkipTest\<close>, which is raised
  before anything is registered or started.
\<close>

definition setUpClass :: "test_env \<Rightarrow> int \<Rightarrow> test_class \<Rightarrow> bool su_meth" where
  "setUpClass D qps cls =
     (if \<not> uc_supported cls then return False else
      andthen (using_self (\<lambda>self. if su_started self = {} then on_manager D (url_setup D (su_classes self)) else return ()))
      (andthen (assign (su_started_update (insert (uc_name cls))))
      (andthen (bind (on_manager D (\<lambda>(m, w). (Inr (create_test_client_runner D m w), (m, w))))
                 (\<lambda>runner. assign (su_runners_update (\<lambda>f. f(class_id cls \<mapsto> runner)))))
      (bind (on_manager D (using_self (\<lambda>m. return (uc_hostname m cls)))) (\<lambda>hostname.
         case uc_client_init_config cls ''UnaryCall,EmptyCall'' [] of (rpc, metadata) \<Rightarrow>
         bind (on_class_runner (class_id cls)
                 (client_run (te_outside D) (url_client_args (''xds:///'' @ hostname) rpc metadata qps))) (\<lambda>client.
           andthen (assign (su_clients_update (\<lambda>f. f(class_id cls \<mapsto> client)))) (return True)))))))"

section \<open>Teardown of a class\<close>

definition class_restarts :: "test_class \<Rightarrow> int su_meth" where
  "class_restarts cls = using_self (\<lambda>self.
     if su_runners self (class_id cls) = None then return 0
     else try_except (on_class_runner (class_id cls) (using_self (\<lambda>runner. get_pod_restarts (rn_deployment runner))))
            restarts_caught (\<lambda>_. return 0))"

definition all_finished :: "suite \<Rightarrow> bool" where
  "all_finished self \<longleftrightarrow> su_finished self = su_names self"

definition class_cleanup :: "test_env \<Rightarrow> test_class \<Rightarrow> bool \<Rightarrow> unit su_meth" where
  "class_cleanup D cls cleanup_all = stmts
     [using_self (\<lambda>self.
        if su_runners self (class_id cls) = None then return ()
        else on_class_runner (class_id cls) (client_cleanup (te_outside D) True True)),
      if cleanup_all then on_manager D (url_cleanup D) else return ()]"

definition assert_no_client_restarts :: "int \<Rightarrow> unit su_meth" where
  "assert_no_client_restarts n = (if n = 0 then return () else raise (AssertionError (restarted ''Client'' n)))"

definition cleanupAfterTests :: "test_env \<Rightarrow> (suite \<times> world) tenacity_on \<Rightarrow> test_class \<Rightarrow> unit su_meth" where
  "cleanupAfterTests D T cls =
     bind (class_restarts cls) (\<lambda>client_restarts.
     andthen (assign (su_finished_update (insert (uc_name cls))))
       (using_self (\<lambda>self.
          try_finally (graceful_cleanup T (class_cleanup D cls (all_finished self)))
            (assert_no_client_restarts client_restarts))))"

text \<open>
  How the test runner treats a class: a class that is skipped has no teardown, and a class whose
  setup fails is torn down without its tests.
\<close>

definition run_class ::
  "test_env \<Rightarrow> (suite \<times> world) tenacity_on \<Rightarrow> int \<Rightarrow> (test_class \<Rightarrow> suite \<times> world \<Rightarrow> suite \<times> world) \<Rightarrow> test_class
     \<Rightarrow> suite \<times> world \<Rightarrow> suite \<times> world" where
  "run_class D T qps tests cls s = (case setUpClass D qps cls s of
       (Inr False, s1) \<Rightarrow> s1
     | (Inr True, s1) \<Rightarrow> snd (cleanupAfterTests D T cls (tests cls s1))
     | (Inl _, s1) \<Rightarrow> snd (cleanupAfterTests D T cls s1))"

fun run_classes ::
  "test_env \<Rightarrow> (suite \<times> world) tenacity_on \<Rightarrow> int \<Rightarrow> (test_class \<Rightarrow> suite \<times> world \<Rightarrow> suite \<times> world) \<Rightarrow> test_class list
     \<Rightarrow> suite \<times> world \<Rightarrow> suite \<times> world" where
  "run_classes D T qps tests [] s = s"
| "run_classes D T qps tests (cls # classes) s = run_classes D T qps tests classes (run_class D T qps tests cls s)"


section \<open>Host names\<close>

text \<open>A class that is tracked and has a plain name, in a module with a plain name.\<close>

definition plain_class :: "test_class \<Rightarrow> bool" where
  "plain_class cls \<longleftrightarrow> take 4 (uc_name cls) = ''Test'' \<and> CHR ''-'' \<notin> set (uc_name cls) \<and> CHR ''.'' \<notin> set (uc_module cls)"

definition camel_code :: "char \<Rightarrow> string" where
  "camel_code c = (if is_upper c then [CHR ''-'', lower_char c] else [c])"

lemma upper_not_dash: "is_upper c \<Longrightarrow> lower_char c \<noteq> CHR ''-''"
  by (auto simp: is_upper_def lower_char_def Let_def dest!: arg_cong [where f = "of_char :: char \<Rightarrow> nat"])

lemma lower_upper_inj:
  assumes "is_upper c" and "is_upper d" and "lower_char c = lower_char d"
  shows "c = d"
proof -
  have "(of_char (lower_char x) :: nat) = of_char x + 32" if "is_upper x" for x
    using that by (simp add: is_upper_def lower_char_def Let_def)
  with assms have "(of_char c :: nat) = of_char d" by (metis add_right_imp_eq)
  then show ?thesis by (rule of_char_eq_iff [THEN iffD1])
qed

lemma camel_code_inj:
  "CHR ''-'' \<notin> set s \<Longrightarrow> CHR ''-'' \<notin> set t \<Longrightarrow> concat (map camel_code s) = concat (map camel_code t) \<Longrightarrow> s = t"
proof (induction s arbitrary: t)
  case Nil
  then show ?case by (cases t) (auto simp: camel_code_def split: if_splits)
next
  case (Cons c s)
  then show ?case
    by (cases t) (auto simp: camel_code_def lower_upper_inj split: if_splits)
qed

lemma split_camel_of_tracked:
  assumes "take 4 nm = ''Test''"
  shows "split_camel nm CHR ''-'' = ''test'' @ concat (map camel_code (drop 4 nm))"
proof -
  have lower_t: "lower_char CHR ''T'' = CHR ''t''" by code_simp
  have "split_camel (''Test'' @ s) CHR ''-'' = ''test'' @ concat (map camel_code s)" for s
    unfolding split_camel_def using lower_t by (simp add: camel_code_def [abs_def] is_upper_def)
  from this [of "drop 4 nm"] show ?thesis using assms by (metis append_take_drop_id)
qed

lemma split_camel_inj:
  assumes "take 4 s = ''Test''" and "take 4 t = ''Test''" and "CHR ''-'' \<notin> set s" and "CHR ''-'' \<notin> set t"
    and "split_camel s CHR ''-'' = split_camel t CHR ''-''"
  shows "s = t"
proof -
  have "CHR ''-'' \<notin> set (drop 4 s)" "CHR ''-'' \<notin> set (drop 4 t)" using assms(3,4) by (auto dest: in_set_dropD)
  moreover have "concat (map camel_code (drop 4 s)) = concat (map camel_code (drop 4 t))"
    using assms(5) by (simp add: split_camel_of_tracked assms(1,2))
  ultimately have "drop 4 s = drop 4 t" by (rule camel_code_inj)
  with assms(1,2) show ?thesis by (metis append_take_drop_id)
qed

lemma first_dot:
  "x \<notin> set s \<Longrightarrow> x \<notin> set t \<Longrightarrow> s @ x # s' = t @ x # t' \<longleftrightarrow> s = t \<and> s' = t'"
proof (induction s arbitrary: t)
  case Nil
  then show ?case by (cases t) auto
next
  case (Cons y s)
  then show ?case by (cases t) auto
qed

lemma hostnames_inj:
  assumes "plain_class c" and "plain_class d" and "uc_hostname self c = uc_hostname self d"
  shows "class_id c = class_id d"
proof -
  have "uc_module c = uc_module d" "split_camel (uc_name c) CHR ''-'' = split_camel (uc_name d) CHR ''-''"
    using assms by (auto simp: uc_hostname_def plain_class_def first_dot)
  with assms(1,2) show ?thesis
    by (auto simp: class_id_def plain_class_def intro: split_camel_inj)
qed


section \<open>What the URL map holds\<close>

text \<open>A change leaves the hosts of its rule and the settings of the manager.\<close>

definition change_keeps_hosts :: "test_class \<Rightarrow> bool" where
  "change_keeps_hosts cls \<longleftrightarrow> (\<forall>hr pm self w hr' pm' self' w'.
     uc_change cls hr pm (self, w) = (Inr (hr', pm'), (self', w')) \<longrightarrow>
     getitem hr' ''hosts'' = getitem hr ''hosts'' \<and> um_config self' = um_config self)"

lemma hostname_config: "um_config self' = um_config self \<Longrightarrow> uc_hostname self' = uc_hostname self"
  by (simp add: uc_hostname_def fun_eq_iff)

lemma cached_url_config:
  assumes "\<And>f m. um_config (upd f m) = um_config m" and "cached_url get upd load service (self, w) = (r, (self', w'))"
  shows "um_config self' = um_config self"
proof -
  have td: "keeps (\<lambda>s. um_config (fst s) = um_config self) (um_on_td m)" for m :: "(td \<times> world, 'a) act"
    by (auto simp: keeps_def in_field_def split: prod.splits)
  have "keeps (\<lambda>s. um_config (fst s) = um_config self) (cached_url get upd load service)"
    unfolding cached_url_def
    by (intro keeps_using_self keeps_case_option keeps_andthen keeps_bind keeps_basic td keeps_object(3)
        keeps_object(1) [where I = "\<lambda>m. um_config m = um_config self"]) (simp add: assms(1))
  from keepsD [OF this assms(2)] show ?thesis by simp
qed

lemma default_url_config: "default_backend_service D (self, w) = (r, (self', w')) \<Longrightarrow> um_config self' = um_config self"
  unfolding default_backend_service_def
  by (rule cached_url_config [where upd = um_default_url_update]) simp_all

lemma apply_change_run:
  assumes "change_keeps_hosts cls" and "apply_change D cls parts (self, w) = (Inr parts', (self', w'))"
  shows "um_config self' = um_config self"
    and "\<exists>hr pm. parts' = set_test_case_url_map hr pm parts \<and> getitem hr ''hosts'' = Inr (JList [JStr (uc_hostname self cls)])"
proof -
  obtain u self1 w1 hr pm where made: "default_backend_service D (self, w) = (Inr u, (self1, w1))"
    and changed: "uc_change cls (JObj [(''hosts'', JList [JStr (uc_hostname self cls)]),
        (''pathMatcher'', JStr (uc_path_matcher_name cls))])
      (JObj [(''name'', JStr (uc_path_matcher_name cls)), (''defaultService'', u)]) (self1, w1)
      = (Inr (hr, pm), (self', w'))"
    and parts': "parts' = set_test_case_url_map hr pm parts"
    using assms(2) by (auto simp: apply_change_def test_case_url_map_def using_self_def bind_eq_Inr return_def)
  from assms(1) changed have "getitem hr ''hosts'' = Inr (JList [JStr (uc_hostname self cls)])" "um_config self' = um_config self1"
    unfolding change_keeps_hosts_def by force+
  with default_url_config [OF made] parts'
  show "um_config self' = um_config self"
    and "\<exists>hr pm. parts' = set_test_case_url_map hr pm parts \<and> getitem hr ''hosts'' = Inr (JList [JStr (uc_hostname self cls)])"
    by auto
qed

lemma apply_changes_run:
  assumes "\<forall>cls \<in> set classes. change_keeps_hosts cls" and "apply_changes D classes parts (self, w) = (Inr parts', (self', w'))"
  shows "\<exists>hrs pms. parts' = parts\<lparr>up_host_rules := up_host_rules parts @ hrs, up_path_matchers := up_path_matchers parts @ pms\<rparr>
    \<and> map (\<lambda>hr. getitem hr ''hosts'') hrs = map (\<lambda>cls. Inr (JList [JStr (uc_hostname self cls)])) classes
    \<and> length pms = length classes"
  using assms
proof (induction classes arbitrary: parts self w)
  case Nil
  then show ?case by (auto simp: return_def intro!: exI [of _ "[]"])
next
  case (Cons cls classes)
  from Cons.prems obtain parts1 self1 w1 where one: "apply_change D cls parts (self, w) = (Inr parts1, (self1, w1))"
    and rest: "apply_changes D classes parts1 (self1, w1) = (Inr parts', (self', w'))"
    by (auto simp: bind_eq_Inr)
  from Cons.prems(1) have ok: "change_keeps_hosts cls" "\<forall>cls \<in> set classes. change_keeps_hosts cls" by simp_all
  note same = hostname_config [OF apply_change_run(1) [OF ok(1) one]]
  from apply_change_run(2) [OF ok(1) one] obtain hr pm where parts1: "parts1 = set_test_case_url_map hr pm parts"
    and hr: "getitem hr ''hosts'' = Inr (JList [JStr (uc_hostname self cls)])" by blast
  from Cons.IH [OF ok(2) rest] obtain hrs pms
    where "parts' = parts1\<lparr>up_host_rules := up_host_rules parts1 @ hrs, up_path_matchers := up_path_matchers parts1 @ pms\<rparr>"
      "map (\<lambda>hr. getitem hr ''hosts'') hrs = map (\<lambda>cls. Inr (JList [JStr (uc_hostname self cls)])) classes"
      "length pms = length classes"
    unfolding same by blast
  with parts1 hr show ?case
    by (intro exI [of _ "hr # hrs"] exI [of _ "pm # pms"]) (simp add: set_test_case_url_map_def)
qed


section \<open>What a teardown leaves\<close>

text \<open>A retryer keeps and obeys what each attempt keeps and obeys.\<close>

lemma attempts_obey:
  assumes "obeys I P m" and "I obj" and "attempts m n (obj, w) = (obj', w')"
  shows "I obj' \<and> (\<exists>rs. w' = w @ rs \<and> (\<forall>q \<in> set rs. P q))"
  using assms(2,3)
proof (induction n arbitrary: obj w)
  case (Suc n)
  obtain r obj1 w1 where one: "m (obj, w) = (r, (obj1, w1))" by (rule prod_cases3)
  from obeysD [OF assms(1) Suc.prems(1) one] obtain rs
    where "I obj1" "w1 = w @ rs" "\<forall>q \<in> set rs. P q" by blast
  with Suc.IH [of obj1 w1] Suc.prems(2) one show ?case by fastforce
qed simp

lemma obeys_retryer:
  assumes "tenacity_ok T" and "rt_stop cfg \<noteq> []" and "obeys I P m"
  shows "obeys I P (T cfg m)"
proof (rule obeysI)
  fix obj w r obj' w'
  assume I: "I obj" and run: "T cfg m (obj, w) = (r, (obj', w'))"
  obtain n where "retry_run cfg m 1 (obj, w) n (T cfg m (obj, w))" using assms(1,2) by (rule tenacity_run)
  from retry_run_attempts [OF this] run have "attempts m (Suc (n - 1)) (obj, w) = (obj', w')"
    by (simp del: attempts.simps)
  from attempts_obey [OF assms(3) I this] show "I obj' \<and> (\<exists>rs. w' = w @ rs \<and> (\<forall>q \<in> set rs. P q))" .
qed

lemma obeys_graceful_cleanup:
  assumes "tenacity_ok T" and "obeys I P m"
  shows "obeys I P (graceful_cleanup T m)"
proof -
  have "obeys I P (bind m (\<lambda>_. return JNull))" by (intro obeys_bind assms(2) obeys_pure)
  from obeys_retryer [OF assms(1) _ this, of teardown_retryer] show ?thesis
    unfolding graceful_cleanup_def teardown_retryer bind_lift
    by (auto simp: teardown_retryer_def intro!: obeys_try obeys_bind obeys_pure)
qed

text \<open>The runner of the class is in the namespace \<open>N\<close>, and the shared manager is as it was.\<close>

definition own_runner :: "kube_ns \<Rightarrow> test_class \<Rightarrow> url_manager option \<Rightarrow> suite \<Rightarrow> bool" where
  "own_runner N cls manager self \<longleftrightarrow> su_manager self = manager
     \<and> (\<forall>runner. su_runners self (class_id cls) = Some runner \<longrightarrow> runner_at N runner)"

lemma obeys_on_class_runner:
  assumes "obeys (runner_at N) P m"
  shows "obeys (own_runner N cls manager) P (on_class_runner (class_id cls) m)"
proof (rule obeysI)
  fix self w r self' w'
  assume I: "own_runner N cls manager self" and run: "on_class_runner (class_id cls) m (self, w) = (r, (self', w'))"
  show "own_runner N cls manager self' \<and> (\<exists>rs. w' = w @ rs \<and> (\<forall>q \<in> set rs. P q))"
  proof (cases "su_runners self (class_id cls)")
    case None
    with run I show ?thesis by (auto simp: on_class_runner_def)
  next
    case (Some runner)
    obtain r1 runner1 w1 where one: "m (runner, w) = (r1, (runner1, w1))" by (rule prod_cases3)
    have "runner_at N runner" using I Some by (simp add: own_runner_def)
    from obeysD [OF assms this one] obtain rs where "runner_at N runner1" "w1 = w @ rs" "\<forall>q \<in> set rs. P q" by blast
    with run I Some one show ?thesis by (auto simp: on_class_runner_def own_runner_def)
  qed
qed

lemma get_pod_restarts_reads:
  assumes "ns_ok N"
  shows "obeys (runner_at N) (\<lambda>q. \<not> mutates q) (get_pod_restarts deployment)"
proof -
  have lists: "\<not> mutates (typed_request ''CoreV1Api'' ''list'' noun args)" for noun args
    by (simp add: typed_request_def mutates_def)
  have "emits (\<lambda>w. w) (\<lambda>q. \<not> mutates q) (list_pods_with_labels N labels)" for labels
    using assms unfolding list_pods_with_labels_def ns_ok_def
    by (cases labels) (auto intro!: emits_bind emits_kn_execute emits_pure simp: lists)
  then have "emits (\<lambda>w. w) (\<lambda>q. \<not> mutates q) (list_deployment_pods N d)" for d
    unfolding list_deployment_pods_def by (intro emits_bind emits_pure)
  then have "obeys (runner_at N) (\<lambda>q. \<not> mutates q) rn_list_deployment_pods"
    unfolding rn_list_deployment_pods_def
    by (intro obeys_using_self obeys_if obeys_pure obeys_call) (auto dest: runner_atD)
  then show ?thesis unfolding get_pod_restarts_def
    by (intro obeys_case_option obeys_bind obeys_pure)
qed

lemma class_restarts_within:
  assumes "ns_ok N"
  shows "obeys (own_runner N cls manager) (stays_within (kn_name N)) (class_restarts cls)"
proof -
  have "obeys (runner_at N) (stays_within (kn_name N)) (get_pod_restarts d)" for d
    by (rule obeys_mono [OF get_pod_restarts_reads [OF assms]]) simp
  then show ?thesis unfolding class_restarts_def
    by (intro obeys_using_self obeys_if obeys_pure obeys_try obeys_on_class_runner)
qed

lemma class_cleanup_within:
  assumes "ns_ok N"
  shows "obeys (own_runner N cls manager) (stays_within (kn_name N)) (class_cleanup D cls False)"
  unfolding class_cleanup_def if_False
  by (intro obeys_stmts obeys_using_self obeys_if obeys_pure obeys_on_class_runner client_cleanup_within [OF assms])


section \<open>Which classes have finished\<close>

text \<open>What setups, tests and teardowns keep of the tracked names and of the names that finished.\<close>

definition progress :: "string set \<Rightarrow> string set \<Rightarrow> suite \<times> world \<Rightarrow> bool" where
  "progress names fin s \<longleftrightarrow> su_names (fst s) = names \<and> su_finished (fst s) = fin"

lemma keeps_attempts: "keeps J m \<Longrightarrow> J s \<Longrightarrow> J (attempts m n s)"
  by (induction n arbitrary: s) (auto simp: keeps_def)

lemma keeps_retryer:
  assumes "tenacity_ok T" and "rt_stop cfg \<noteq> []" and "keeps J m"
  shows "keeps J (T cfg m)"
  unfolding keeps_def
proof (intro allI impI)
  fix s assume "J s"
  obtain n where "retry_run cfg m 1 s n (T cfg m s)" using assms(1,2) by (rule tenacity_run)
  from retry_run_attempts [OF this] keeps_attempts [OF assms(3) \<open>J s\<close>, of "Suc (n - 1)"]
  show "J (snd (T cfg m s))" by (simp del: attempts.simps)
qed

lemma progress_steps:
  "keeps (progress names fin) (on_manager D m)" "keeps (progress names fin) (on_class_runner c n)"
  "keeps (progress names fin) (assign (su_started_update f1))" "keeps (progress names fin) (assign (su_runners_update f2))"
  "keeps (progress names fin) (assign (su_clients_update f3))"
  by (auto simp: keeps_def progress_def on_manager_def on_class_runner_def assign_def
      split: sum.splits prod.splits option.splits)

lemma setUpClass_progress: "keeps (progress names fin) (setUpClass D qps cls)"
  unfolding setUpClass_def
  by (intro keeps_if keeps_andthen keeps_bind keeps_using_self keeps_basic progress_steps)
    (auto split: prod.splits intro!: keeps_bind keeps_andthen keeps_basic progress_steps)

lemma class_cleanup_progress: "keeps (progress names fin) (class_cleanup D cls b)"
  unfolding class_cleanup_def stmts.simps
  by (intro keeps_andthen keeps_if keeps_using_self keeps_basic progress_steps)

lemma class_restarts_progress: "keeps (progress names fin) (class_restarts cls)"
  unfolding class_restarts_def
  by (intro keeps_if keeps_try keeps_using_self keeps_basic progress_steps)

lemma graceful_cleanup_progress:
  assumes "tenacity_ok T"
  shows "keeps (progress names fin) (graceful_cleanup T (class_cleanup D cls b))"
proof -
  have "keeps (progress names fin) (bind (class_cleanup D cls b) (\<lambda>_. return JNull))"
    by (intro keeps_bind class_cleanup_progress keeps_basic)
  from keeps_retryer [OF assms _ this, of teardown_retryer] show ?thesis
    unfolding graceful_cleanup_def teardown_retryer bind_lift
    by (auto simp: teardown_retryer_def intro!: keeps_try keeps_bind keeps_basic)
qed

lemma cleanupAfterTests_run:
  assumes "class_restarts cls s = (Inr n, (self, w))"
  shows "cleanupAfterTests D T cls s =
    (let self1 = su_finished_update (insert (uc_name cls)) self in
     try_finally (graceful_cleanup T (class_cleanup D cls (all_finished self1))) (assert_no_client_restarts n) (self1, w))"
  using assms by (simp add: cleanupAfterTests_def bind_apply andthen_def assign_def using_self_def Let_def)

text \<open>A teardown finishes the name of its class, unless the restarts cannot be counted.\<close>

lemma cleanupAfterTests_progress:
  assumes "tenacity_ok T" and "progress names fin s"
  shows "\<exists>fin'. progress names fin' (snd (cleanupAfterTests D T cls s)) \<and> fin' \<subseteq> insert (uc_name cls) fin"
proof -
  obtain r s1 where restarts: "class_restarts cls s = (r, s1)" by (cases "class_restarts cls s")
  from keepsD [OF class_restarts_progress restarts assms(2)] have s1: "progress names fin s1" .
  show ?thesis
  proof (cases r)
    case (Inl e)
    with restarts s1 show ?thesis by (auto simp: cleanupAfterTests_def bind_apply)
  next
    case (Inr n)
    obtain self w where s1': "s1 = (self, w)" by (cases s1)
    let ?self = "su_finished_update (insert (uc_name cls)) self"
    let ?rest = "try_finally (graceful_cleanup T (class_cleanup D cls (all_finished ?self))) (assert_no_client_restarts n)"
    have "cleanupAfterTests D T cls s = ?rest (?self, w)"
      using restarts Inr s1' by (simp add: cleanupAfterTests_run Let_def)
    moreover have "keeps (progress names (insert (uc_name cls) fin)) ?rest"
      unfolding assert_no_client_restarts_def
      by (intro keeps_finally graceful_cleanup_progress assms(1) keeps_if keeps_basic)
    moreover have "progress names (insert (uc_name cls) fin) (?self, w)"
      using s1 s1' by (simp add: progress_def)
    ultimately show ?thesis unfolding keeps_def by (metis order_refl)
  qed
qed

lemma run_class_progress:
  assumes "tenacity_ok T" and "\<And>c names fin s. progress names fin s \<Longrightarrow> progress names fin (tests c s)"
    and "progress names fin s"
  shows "\<exists>fin'. progress names fin' (run_class D T qps tests cls s)
    \<and> fin' \<subseteq> fin \<union> (if uc_supported cls then {uc_name cls} else {})"
proof -
  obtain r s1 where up: "setUpClass D qps cls s = (r, s1)" by (cases "setUpClass D qps cls s")
  from keepsD [OF setUpClass_progress up assms(3)] have s1: "progress names fin s1" .
  have skipped: "r = Inr False" if "\<not> uc_supported cls"
    using up that by (simp add: setUpClass_def return_def)
  from cleanupAfterTests_progress [OF assms(1) s1, of D cls]
    cleanupAfterTests_progress [OF assms(1) assms(2) [OF s1], of D cls cls]
  show ?thesis using up s1 skipped unfolding run_class_def
    by (cases "uc_supported cls") (auto split: sum.splits bool.splits)
qed

lemma run_classes_progress:
  assumes "tenacity_ok T" and "\<And>c names fin s. progress names fin s \<Longrightarrow> progress names fin (tests c s)"
    and "progress names fin s"
  shows "\<exists>fin'. progress names fin' (run_classes D T qps tests classes s)
    \<and> fin' \<subseteq> fin \<union> uc_name ` {c \<in> set classes. uc_supported c}"
  using assms(3)
proof (induction classes arbitrary: fin s)
  case Nil
  then show ?case by auto
next
  case (Cons cls classes)
  from run_class_progress [where tests = tests and D = D and qps = qps and cls = cls, OF assms(1,2) Cons.prems]
  obtain fin1 where one: "progress names fin1 (run_class D T qps tests cls s)"
    "fin1 \<subseteq> fin \<union> (if uc_supported cls then {uc_name cls} else {})" by blast
  from Cons.IH [OF one(1)] obtain fin2 where "progress names fin2 (run_classes D T qps tests (cls # classes) s)"
    "fin2 \<subseteq> fin1 \<union> uc_name ` {c \<in> set classes. uc_supported c}" by auto
  with one(2) show ?case by (intro exI [of _ fin2]) (auto split: if_splits)
qed


section \<open>The last teardown\<close>

definition client_removals :: "client_runner \<Rightarrow> request list" where
  "client_removals c = [deployment_removal (rn_ns c) (rn_deployment_name c)] @ identity_removals c
     @ monitoring_removals c @ namespace_removals True c"

definition server_removals :: "bool \<Rightarrow> server_runner \<Rightarrow> request list" where
  "server_removals with_namespace s = [deployment_removal (rn_ns s) (rn_deployment_name s),
     service_removal (rn_ns s) (sr_service_name s)] @ identity_removals s @ monitoring_removals s
     @ namespace_removals with_namespace s"

lemma shared_cleanup_run:
  assumes "env_ok (te_env D)" and "serves_compute (te_env D)" and "uf_strategy (um_config m) = ''create''"
    and "server_ready (te_app D) (um_server m)" and "server_ready (te_app D) (um_alternative m)"
    and "server_ready (te_app D) (um_affinity m)"
  shows "\<exists>m' w1 w2 w3 w4. url_cleanup D (m, w) = (Inr (), (m', w4)) \<and> um_td m' = cleaned True (um_td m)
    \<and> changes w1 = changes w @ cleanup_changes True (um_td m)
    \<and> kube_log w2 = kube_log w1 @ server_removals False (um_server m)
    \<and> kube_log w3 = kube_log w2 @ server_removals True (um_alternative m)
    \<and> kube_log w4 = kube_log w3 @ server_removals True (um_affinity m)"
proof -
  have complete: "app_complete True r" for r :: server_runner by (simp add: app_complete_def)
  note removes = server_cleanup_removes [OF _ complete, of "te_app D"]
  obtain w1 where td: "td_cleanup (te_env D) True (um_td m, w) = (Inr (), (cleaned True (um_td m), w1))"
    and td_changes: "changes w1 = changes w @ cleanup_changes True (um_td m)"
    using does_cleanup [OF assms(1,2)] unfolding does_def by blast
  obtain s w2 where server: "server_cleanup (te_outside D) (te_app D) True False (um_server m, w1) = (Inr (), (s, w2))"
    and "kube_log w2 = kube_log w1 @ server_removals False (um_server m)"
    using removes [OF assms(4), of "te_outside D" False w1] by (auto simp: server_removals_def)
  moreover obtain a w3 where alternative:
      "server_cleanup (te_outside D) (te_app D) True True (um_alternative m, w2) = (Inr (), (a, w3))"
    and "kube_log w3 = kube_log w2 @ server_removals True (um_alternative m)"
    using removes [OF assms(5), of "te_outside D" True w2] by (auto simp: server_removals_def)
  moreover obtain f w4 where affinity:
      "server_cleanup (te_outside D) (te_app D) True True (um_affinity m, w3) = (Inr (), (f, w4))"
    and "kube_log w4 = kube_log w3 @ server_removals True (um_affinity m)"
    using removes [OF assms(6), of "te_outside D" True w3] by (auto simp: server_removals_def)
  moreover have "url_cleanup D (m, w) = (Inr (), (m\<lparr>um_td := cleaned True (um_td m), um_server := s, um_alternative := a,
      um_affinity := f\<rparr>, w4))"
    using td server alternative affinity assms(3)
    by (simp add: url_cleanup_def using_self_def in_field_def andthen_def bind_apply return_def Let_def)
  ultimately show ?thesis using td_changes by (intro exI conjI) (assumption | simp)+
qed


section \<open>A concrete suite\<close>

definition demo_url_config :: url_config where
  "demo_url_config = test_config.extend demo_config (url_config.fields ''create'')"

definition demo_class :: "string \<Rightarrow> bool \<Rightarrow> test_class" where
  "demo_class nm supported = \<lparr>uc_name = nm, uc_module = ''csds'', uc_supported = supported,
     uc_change = (\<lambda>hr pm. return (hr, pm)), uc_client_init_config = (\<lambda>rpc metadata. (rpc, metadata))\<rparr>"

definition demo_manager :: "env \<Rightarrow> url_manager" where
  "demo_manager E = projr (url_manager_init (demo_test_env E) demo_url_config)"

definition demo_suite :: "env \<Rightarrow> string set \<Rightarrow> suite" where
  "demo_suite E names = (no_classes demo_url_config)\<lparr>su_manager := Some (demo_manager E), su_names := names,
     su_runners := [(''csds'', ''TestBasic'') \<mapsto> tc_client_runner (demo_test E)]\<rparr>"

lemma demo_manager_fields:
  "um_td (demo_manager E) = td_init None ''prj'' ''psm'' (Some []) ''default'' False None"
  "um_config (demo_manager E) = demo_url_config" "uf_strategy demo_url_config = ''create''"
  by (simp_all add: demo_manager_def url_manager_init_def demo_url_config_def demo_config_def test_config.defs url_config.defs)

lemma demo_servers_ready:
  "server_ready dead_app (um_server (demo_manager E))" "server_ready dead_app (um_alternative (demo_manager E))"
  "server_ready dead_app (um_affinity (demo_manager E))"
  using live_kube_ok(2) dead_app_errors
  by (simp_all add: app_ready_def server_ready_def ns_ready_def logs_ok_def demo_manager_def url_manager_init_def
      init_shared_server_def config_of_def demo_url_config_def demo_test_env_def demo_config_def test_config.defs
      url_config.defs test_app_runner_def server_runner_init_def app_runner_init_def runner_init_def reset_server_def
      reset_runner_def kube_ns_init_def no_own_pause_def app_runner.defs runner.defs Let_def)

lemma demo_restarts:
  "class_restarts (demo_class ''TestBasic'' b) (demo_suite E names, w) = (Inr 0, (demo_suite E names, w))"
  using demo_test_fresh(1) [of E]
  by (simp add: class_restarts_def using_self_def demo_suite_def class_id_def demo_class_def try_except_def
      on_class_runner_def get_pod_restarts_def return_def)


section \<open>Properties\<close>



text \<open>
  C17: the teardown of a class spares what the classes share. As long as another tracked name has not
  finished, whatever the API server and the IAM service answer and however the teardown ends, the
  shared manager is as before, and the teardown changes nothing but what is in the namespace of the
  client of the class, that namespace itself, and IAM policies.
\<close>

theorem teardown_spares_shared_resources:
  assumes "tenacity_ok T" and "ns_ok N"
    and "\<And>runner. su_runners self (class_id cls) = Some runner \<Longrightarrow> runner_at N runner"
    and "insert (uc_name cls) (su_finished self) \<noteq> su_names self"
    and "cleanupAfterTests D T cls (self, w) = (r, (self', w'))"
  shows "su_manager self' = su_manager self \<and> (\<exists>rs. w' = w @ rs \<and> (\<forall>q \<in> set rs. stays_within (kn_name N) q))"
proof -
  let ?I = "own_runner N cls (su_manager self)" and ?P = "stays_within (kn_name N)"
  have I: "?I self" using assms(3) by (simp add: own_runner_def)
  obtain r1 self1 w1 where restarts: "class_restarts cls (self, w) = (r1, (self1, w1))" by (rule prod_cases3)
  from obeysD [OF class_restarts_within [OF assms(2)] I restarts] obtain rs1
    where I1: "?I self1" and rs1: "w1 = w @ rs1" "\<forall>q \<in> set rs1. ?P q" by blast
  have "progress (su_names self) (su_finished self) (self1, w1)"
    using keepsD [OF class_restarts_progress restarts] by (simp add: progress_def)
  then have same: "su_names self1 = su_names self" "su_finished self1 = su_finished self" by (simp_all add: progress_def)
  show ?thesis
  proof (cases r1)
    case (Inl e)
    with restarts assms(5) I1 rs1 show ?thesis by (auto simp: cleanupAfterTests_def bind_apply own_runner_def)
  next
    case (Inr n)
    let ?self = "su_finished_update (insert (uc_name cls)) self1"
    let ?rest = "try_finally (graceful_cleanup T (class_cleanup D cls False)) (assert_no_client_restarts n)"
    have "obeys ?I ?P ?rest"
      unfolding assert_no_client_restarts_def
      by (intro obeys_finally obeys_graceful_cleanup class_cleanup_within assms(1,2) obeys_if obeys_pure)
    moreover have "?I ?self" using I1 by (simp add: own_runner_def)
    moreover have "?rest (?self, w1) = (r, (self', w'))"
      using assms(4,5) restarts Inr same by (simp add: cleanupAfterTests_run Let_def all_finished_def)
    ultimately obtain rs2 where "?I self'" "w' = w1 @ rs2" "\<forall>q \<in> set rs2. ?P q" by (rule obeysD)
    with rs1 show ?thesis by (auto simp: own_runner_def)
  qed
qed

theorem teardown_spares_shared_resources_witness:
  "su_manager (fst (snd (cleanupAfterTests (demo_test_env demo_env) (simple_retryer 0) (demo_class ''TestBasic'' True)
      (demo_suite demo_env {''TestBasic'', ''TestOther''}, [])))) = Some (demo_manager demo_env)"
proof -
  let ?self = "demo_suite demo_env {''TestBasic'', ''TestOther''}" and ?cls = "demo_class ''TestBasic'' True"
  let ?runner = "tc_client_runner (demo_test demo_env)"
  obtain r self' w' where run: "cleanupAfterTests (demo_test_env demo_env) (simple_retryer 0) ?cls (?self, []) = (r, (self', w'))"
    by (rule prod_cases3)
  have runner: "su_runners ?self (class_id ?cls) = Some ?runner" "insert (uc_name ?cls) (su_finished ?self) \<noteq> su_names ?self"
    "su_manager ?self = Some (demo_manager demo_env)"
    by (auto simp: demo_suite_def class_id_def demo_class_def no_classes_def)
  have "ns_ok (rn_ns ?runner)" "runner_at (rn_ns ?runner) ?runner"
    using live_kube_ok(1) demo_env_ok
    by (simp_all add: ns_ok_def runner_at_def demo_iam_def demo_test_def make_test_def regular_client_def
        init_client_runner_def test_app_runner_def client_runner_init_def app_runner_init_def runner_init_def
        reset_runner_def kube_ns_init_def no_own_pause_def demo_test_env_def app_runner.defs runner.defs Let_def)
  from teardown_spares_shared_resources [OF simple_retryer_ok this(1) _ runner(2) run] this(2) runner(1,3)
  show ?thesis by (simp add: run)
qed




text \<open>
  C20: a tracked name that never runs keeps the shared resources. If no class of a tracked name
  is supported (or run at all), then after any run of classes the name is still missing from the
  finished ones, and no teardown of a class of another name is the last, whatever the services
  answer. So a class that is skipped leaves the shared resources of the strategy \<open>create\<close> behind.
  Names are compared without their modules.
\<close>

theorem unfinished_name_keeps_shared_resources:
  assumes "tenacity_ok T" and "\<And>c names fin s. progress names fin s \<Longrightarrow> progress names fin (tests c s)"
    and "su_finished (fst s) = {}" and "nm \<in> su_names (fst s)"
    and "\<And>c. c \<in> set classes \<Longrightarrow> uc_name c = nm \<Longrightarrow> \<not> uc_supported c"
  shows "\<not> all_finished (fst (run_classes D T qps tests classes s))
    \<and> (uc_name cls = nm \<or>
         \<not> all_finished (su_finished_update (insert (uc_name cls)) (fst (run_classes D T qps tests classes s))))"
proof -
  let ?self = "fst (run_classes D T qps tests classes s)"
  have "progress (su_names (fst s)) {} s" using assms(3) by (simp add: progress_def)
  from run_classes_progress [where tests = tests and D = D and qps = qps and classes = classes, OF assms(1,2) this]
  have names: "su_names ?self = su_names (fst s)" and "su_finished ?self \<subseteq> uc_name ` {c \<in> set classes. uc_supported c}"
    by (auto simp: progress_def)
  from this(2) have "nm \<notin> su_finished ?self" using assms(5) by blast
  then have "insert (uc_name cls) (su_finished ?self) \<noteq> su_names ?self" if "uc_name cls \<noteq> nm"
    using that assms(4) unfolding names by (metis insertE)
  with names assms(4) \<open>nm \<notin> su_finished ?self\<close> show ?thesis by (auto simp: all_finished_def)
qed

theorem unfinished_name_keeps_shared_resources_witness:
  "\<not> all_finished (fst (run_classes (demo_test_env demo_env) (simple_retryer 0) 25 (\<lambda>_ s. s)
      [demo_class ''TestOther'' False, demo_class ''TestBasic'' True] (demo_suite demo_env {''TestBasic'', ''TestOther''}, [])))"
proof -
  let ?cs = "[demo_class ''TestOther'' False, demo_class ''TestBasic'' True]"
  let ?s = "(demo_suite demo_env {''TestBasic'', ''TestOther''}, []) :: suite \<times> world"
  have "su_finished (fst ?s) = {}" "''TestOther'' \<in> su_names (fst ?s)"
    "\<And>c. c \<in> set ?cs \<Longrightarrow> uc_name c = ''TestOther'' \<Longrightarrow> \<not> uc_supported c"
    by (auto simp: demo_suite_def no_classes_def demo_class_def)
  from unfinished_name_keeps_shared_resources [where tests = "\<lambda>_ s. s" and s = ?s and classes = ?cs and nm = "''TestOther''"
      and D = "demo_test_env demo_env" and qps = 25, OF simple_retryer_ok [of 0] _ this]
  show ?thesis by blast
qed

end
