(* ===== verification/UrlMapChecks.thy ===== *)
theory UrlMapChecks
  imports Complex_Main RpcChecks
begin

text \<open>
  The tests and checks of framework/xds_url_map_testcase.py, on a test client that has been set up:
  the check of the xDS configuration, the distribution of RPCs that a class asks for, and the ratio of
  a status among the RPCs of an interval. Python's floats (ratios and tolerances) are rational numbers.
\<close>

section \<open>The two tests of a class\<close>

definition URL_MAP_PROPAGATE_TIMEOUT_SEC :: int where
  "URL_MAP_PROPAGATE_TIMEOUT_SEC = 600"

definition URL_MAP_PROPAGATE_CHECK_INTERVAL_SEC :: int where
  "URL_MAP_PROPAGATE_CHECK_INTERVAL_SEC = 15"

definition CLIENT_CONFIGURE_WAIT_SEC :: int where
  "CLIENT_CONFIGURE_WAIT_SEC = 2"

text \<open>\<open>validate\<close> is the class's own check of the configuration.\<close>

definition fetch_and_check_xds_config :: "checks_env \<Rightarrow> (dumped_xds_config \<Rightarrow> exn + unit) \<Rightarrow> unit cl_meth" where
  "fetch_and_check_xds_config E validate =
     bind (fetch_config E False) (\<lambda>parsed. case parsed of
       None \<Rightarrow> raise (AssertionError ''unexpectedly None'')
     | Some d \<Rightarrow> lift (validate d))"

definition test_client_config ::
  "checks_env \<Rightarrow> nat \<Rightarrow> cl_tenacity \<Rightarrow> string option \<Rightarrow> (dumped_xds_config \<Rightarrow> exn + unit) \<Rightarrow> unit cl_meth" where
  "test_client_config E n T xds_server_uri validate =
     bind (wait_for_active_xds_channel (ce_app E) n T xds_server_uri None None False) (\<lambda>_.
       retry_check T URL_MAP_PROPAGATE_CHECK_INTERVAL_SEC URL_MAP_PROPAGATE_TIMEOUT_SEC None []
         (fetch_and_check_xds_config E validate))"

text \<open>
  The tests of a class run one after the other; after a failure (of this class or, as the result is
  shared, of an earlier one) the others are not run. The result counts the failures and errors.
\<close>

definition run_test :: "unit cl_meth \<Rightarrow> nat \<Rightarrow> xds_client \<times> trace \<Rightarrow> nat \<times> (xds_client \<times> trace)" where
  "run_test body failed s =
     (if failed \<noteq> 0 then (failed, s)
      else case body s of (Inl _, s') \<Rightarrow> (Suc failed, s') | (Inr _, s') \<Rightarrow> (failed, s'))"

fun run_tests :: "unit cl_meth list \<Rightarrow> nat \<Rightarrow> xds_client \<times> trace \<Rightarrow> nat \<times> (xds_client \<times> trace)" where
  "run_tests [] failed s = (failed, s)"
| "run_tests (body # bodies) failed s = (case run_test body failed s of (failed', s') \<Rightarrow> run_tests bodies failed' s')"

section \<open>Checks\<close>

definition configure_and_send ::
  "checks_env \<Rightarrow> string list \<Rightarrow> (string \<times> string \<times> string) list option \<Rightarrow> int option \<Rightarrow> int \<Rightarrow> rpc_distribution_stats cl_meth" where
  "configure_and_send E rpc_types metadata app_timeout num_rpcs =
     bind (update_config_stub (ce_app E)) (\<lambda>stub.
     bind (call (configure (ce_stats E) stub rpc_types metadata app_timeout None)) (\<lambda>_.
     bind (call (pause CLIENT_CONFIGURE_WAIT_SEC)) (\<lambda>_.
     bind (get_load_balancer_stats (ce_app E) (ce_stats E) num_rpcs None None False) (\<lambda>lb.
       lift (rpc_distribution_from_message lb)))))"

definition assert_num_endpoints :: "dumped_xds_config \<Rightarrow> nat \<Rightarrow> exn + unit" where
  "assert_num_endpoints d k = check (length (dx_endpoints d) = k) ''insufficient endpoints in EDS''"

record expected_result =
  er_rpc_type :: string
  er_status_code :: status_code
  er_ratio :: rat

definition default_expected :: expected_result where
  "default_expected = \<lparr>er_rpc_type = ''UNARY_CALL'', er_status_code = (0, ''OK''), er_ratio = 1\<rparr>"

text \<open>The RPCs of a method that have completed, whatever their status.\<close>

definition completed_of :: "accumulated_stats \<Rightarrow> string \<Rightarrow> int" where
  "completed_of st meth = sum_list (map snd (ms_result (map_get no_stats (as_stats_per_method st) meth)))"

definition ratio_check :: "accumulated_stats \<Rightarrow> accumulated_stats \<Rightarrow> rat \<Rightarrow> expected_result \<Rightarrow> exn + unit" where
  "ratio_check before_stats after_stats tolerance e =
     (let rpc = er_rpc_type e; status = fst (er_status_code e);
          seen = count_of after_stats rpc status - count_of before_stats rpc status;
          total = completed_of after_stats rpc - completed_of before_stats rpc;
          want = of_int total * er_ratio e in
      if total = 0 then Inl (OtherError ''ZeroDivisionError: float division by zero'')
      else check (\<bar>of_int seen - want\<bar> / of_int total \<le> tolerance)
        (''Expect rpc ['' @ rpc @ ''] to return ['' @ status_pretty (er_status_code e) @ '']''))"

fun ratio_checks :: "accumulated_stats \<Rightarrow> accumulated_stats \<Rightarrow> rat \<Rightarrow> expected_result list \<Rightarrow> exn + unit" where
  "ratio_checks before_stats after_stats tolerance [] = Inr ()"
| "ratio_checks before_stats after_stats tolerance (e # es) =
     ebind (ratio_check before_stats after_stats tolerance e) (\<lambda>_. ratio_checks before_stats after_stats tolerance es)"

definition assert_rpc_status_code :: "checks_env \<Rightarrow> expected_result list \<Rightarrow> int \<Rightarrow> rat \<Rightarrow> unit cl_meth" where
  "assert_rpc_status_code E expected secs tolerance =
     bind (accumulated E) (\<lambda>before_stats.
     bind (call (pause secs)) (\<lambda>_.
     bind (accumulated E) (\<lambda>after_stats.
       lift (ratio_checks before_stats after_stats tolerance expected))))"

section \<open>What the ratios say\<close>

text \<open>How far the share of the status is from the expected ratio.\<close>

definition share_off :: "accumulated_stats \<Rightarrow> accumulated_stats \<Rightarrow> expected_result \<Rightarrow> rat" where
  "share_off before_stats after_stats e =
     \<bar>of_int (count_of after_stats (er_rpc_type e) (fst (er_status_code e))
             - count_of before_stats (er_rpc_type e) (fst (er_status_code e)))
        / of_int (completed_of after_stats (er_rpc_type e) - completed_of before_stats (er_rpc_type e)) - er_ratio e\<bar>"

definition grown_by :: "accumulated_stats \<Rightarrow> accumulated_stats \<Rightarrow> string \<Rightarrow> int" where
  "grown_by before_stats after_stats rpc = completed_of after_stats rpc - completed_of before_stats rpc"

lemma ratio_check_positive:
  assumes "0 < grown_by before_stats after_stats (er_rpc_type e)"
  shows "ratio_check before_stats after_stats tolerance e = Inr () \<longleftrightarrow> share_off before_stats after_stats e \<le> tolerance"
proof -
  define seen where "seen = count_of after_stats (er_rpc_type e) (fst (er_status_code e))
    - count_of before_stats (er_rpc_type e) (fst (er_status_code e))"
  define total where "total = grown_by before_stats after_stats (er_rpc_type e)"
  have "0 < (of_int total :: rat)" using assms by (simp add: total_def)
  then have "\<bar>of_int seen - of_int total * er_ratio e\<bar> / of_int total = \<bar>of_int seen / of_int total - er_ratio e\<bar>"
    by (simp add: abs_div_pos diff_divide_distrib)
  with assms show ?thesis
    by (simp add: ratio_check_def Let_def share_off_def seen_def total_def grown_by_def)
qed

text \<open>Without any RPC of the method the check divides by zero; counters that go back always pass.\<close>

lemma ratio_check_zero:
  "grown_by before_stats after_stats (er_rpc_type e) = 0 \<Longrightarrow>
     ratio_check before_stats after_stats tolerance e = Inl (OtherError ''ZeroDivisionError: float division by zero'')"
  by (simp add: ratio_check_def Let_def grown_by_def)

lemma counters_going_back_pass:
  assumes "grown_by before_stats after_stats (er_rpc_type e) < 0" and "0 \<le> tolerance"
  shows "ratio_check before_stats after_stats tolerance e = Inr ()"
proof -
  have "\<bar>x\<bar> / (of_int (grown_by before_stats after_stats (er_rpc_type e)) :: rat) \<le> 0" for x
    using assms(1) by (simp add: divide_nonneg_neg)
  with assms show ?thesis
    unfolding ratio_check_def Let_def grown_by_def by (auto intro: order_trans)
qed

lemma ratio_checks_Inr:
  "ratio_checks before_stats after_stats tolerance es = Inr ()
    \<longleftrightarrow> (\<forall>e \<in> set es. ratio_check before_stats after_stats tolerance e = Inr ())"
  by (induction es) (auto simp: ebind_def split: sum.splits)

section \<open>Properties\<close>

text \<open>
  C37: when \<open>assertRpcStatusCode\<close> passes, the client reported its counters twice, the given time apart,
  and for every expected result RPCs of the method completed in between (or the counters went
  back); when they did not go back, the share of the expected status among them is within the
  tolerance of the expected ratio.
\<close>

theorem rpc_ratio_sound:
  assumes "assert_rpc_status_code E expected secs tolerance (c, w) = (Inr (), (c', w'))"
  shows "\<exists>before_stats after_stats stub stub' h.
      reported (se_accumulated_stats (ce_stats E)) w h (counters_event stub) before_stats
    \<and> reported (se_accumulated_stats (ce_stats E)) (h @ [Sleep secs]) w' (counters_event stub') after_stats
    \<and> (\<forall>e \<in> set expected. grown_by before_stats after_stats (er_rpc_type e) \<noteq> 0
        \<and> (0 < grown_by before_stats after_stats (er_rpc_type e) \<longrightarrow> share_off before_stats after_stats e \<le> tolerance))"
proof -
  obtain before_stats s1 s2 after_stats where run: "accumulated E (c, w) = (Inr before_stats, s1)"
    "call (pause secs) s1 = (Inr (), s2)" "accumulated E s2 = (Inr after_stats, (c', w'))"
    and ok: "ratio_checks before_stats after_stats tolerance expected = Inr ()"
    using assms unfolding assert_rpc_status_code_def by (auto simp: bind_eq_Inr lift_def)
  have s2: "snd s2 = snd s1 @ [Sleep secs]"
    using run(2) by (auto simp: call_def pause_def modify_def split: prod.splits)
  from counters_reported [OF run(1)] obtain stub
    where first: "reported (se_accumulated_stats (ce_stats E)) w (snd s1) (counters_event stub) before_stats" by auto
  from counters_reported [OF run(3)] s2 obtain stub'
    where second: "reported (se_accumulated_stats (ce_stats E)) (snd s1 @ [Sleep secs]) w' (counters_event stub') after_stats"
    by auto
  have "grown_by before_stats after_stats (er_rpc_type e) \<noteq> 0
      \<and> (0 < grown_by before_stats after_stats (er_rpc_type e) \<longrightarrow> share_off before_stats after_stats e \<le> tolerance)"
    if "e \<in> set expected" for e
    using that ok ratio_check_zero [of before_stats after_stats e tolerance] ratio_check_positive
    by (auto simp: ratio_checks_Inr)
  with first second show ?thesis by blast
qed

theorem rpc_ratio_sound_witness:
  "\<exists>c' w' before_stats after_stats.
      assert_rpc_status_code (demo_checks [(0, 5)] [(0, 13), (4, 2)] demo_lb [] [])
        [default_expected\<lparr>er_ratio := 3 / 4\<rparr>] 3 (1 / 10) (demo_client, []) = (Inr (), (c', w'))
    \<and> grown_by before_stats after_stats ''UNARY_CALL'' \<noteq> 0"
proof -
  let ?E = "demo_checks [(0, 5)] [(0, 13), (4, 2)] demo_lb [] []" and ?e = "default_expected\<lparr>er_ratio := 3 / 4\<rparr>"
  let ?run = "assert_rpc_status_code ?E [?e] 3 (1 / 10) (demo_client, [])"
  have "fst ?run = Inr ()" by code_simp
  then obtain c' w' where run: "?run = (Inr (), (c', w'))" by (cases ?run) auto
  from rpc_ratio_sound [OF run] run show ?thesis by (auto simp: default_expected_def)
qed

end
