(* ===== verification/Spec2Isabelle.thy ===== *)
theory Spec2Isabelle
  imports Setup Iam LangSpec SecurityChecks CleanupScript UrlMapTests UrlMapChecks
begin

text \<open>
  PSM interop: the framework that sets up Traffic Director and the Google Cloud resources around
  it, runs test applications on them, and takes everything down again (repository grpc/psm-interop,
  Python).

  The first half of the program is the chain that every test goes through: a resource manager
  (framework/infrastructure/traffic_director.py) creates resources through service clients
  (framework/infrastructure/gcp/*.py); a client builds a request, sends it with retries
  (framework/infrastructure/gcp/api.py over framework/helpers/retryers.py) and polls the long-running
  operation the service answers with; the manager keeps what it created in its fields, and a
  cleanup deletes what the fields hold, or, with \<open>force\<close>, what the names say. The development
  models this chain from the retry library's configuration up to the three managers.

  The second half looks at the test applications: gRPC clients for their channelz, statistics and
  status-discovery services (framework/rpc), the helpers of a test client and a test server
  (framework/test_app), and the checks that the tests make on what these report
  (framework/xds_k8s_testcase.py).

  The third part is the Kubernetes side: the API wrapper that retries, refreshes authorizations and
  turns 404 into \<open>NotFound\<close> (framework/infrastructure/k8s.py), the port forwarder
  (framework/infrastructure/k8s_internal/k8s_port_forwarder.py), and the runners, which create a
  namespace, a service account, services, a route and a deployment from templates, wait for the
  pods, make the helpers of the second part for them, and delete everything in order
  (framework/test_app/runners). The runners use the IAM client of the first part. The script that
  removes what old tests have left behind (bin/cleanup/cleanup.py) is built from the managers of the
  first part and the runners of the third.

  The tests put the three parts together: a test has a manager, a runner of servers and a runner of
  clients, named by a prefix and a suffix of its own, and takes all of it down again
  (framework/xds_k8s_testcase.py and framework/xds_gamma_testcase.py). The tests of URL maps share one
  manager and three servers, set up before the first class and removed after the last
  (framework/xds_url_map_testcase.py and framework/xds_url_map_test_resources.py).

  How effects are modelled.

  \<^item> A Python value of a request or response is a \<open>json\<close>; an exception is a value of \<open>exn\<close>; a call
    is an action \<open>('s, 'a) act = 's \<Rightarrow> (exn + 'a) \<times> 's\<close>, so a raise keeps the state it happened in.
    \<open>try_except\<close>, \<open>bind\<close>, \<open>stmts\<close>, \<open>field\<close>, \<open>assign\<close> and \<open>call\<close> are the control structures of the
    source; a subscript of a missing key, an attribute of \<open>None\<close> and an unpacking of a wrong keyword
    raise as in Python (theory PyBase).
  \<^item> The state of a client is the \<open>world\<close>: the list of the requests sent so far, in order. What a
    service answers is a function \<open>http\<close> of the environment \<open>env\<close>, which may depend on all requests
    sent before; nothing is assumed of it except where a theorem says so.
  \<^item> The state of a test application's helper is a pair of its fields (with the channels and stubs it
    caches) and the \<open>trace\<close> of RPCs and pauses so far. What the applications answer are functions of
    the trace and the call (records \<open>app_env\<close>, \<open>stats_env\<close>, \<open>checks_env\<close>).
  \<^item> The state of a runner is a pair of its fields and the world; a call of the Kubernetes API, a
    message to the \<open>kubectl\<close> process and an RPC of a test server are requests of the world, each with
    its own service name, so that one list has the order of all of them.
  \<^item> The state of a manager is a pair of its fields and the world. An \<open>assert\<close> or raise in the middle
    of a method leaves the fields assigned so far, which the theorems about failing runs use.

  Theories and the code they model (paths below src/).

  \<^item> PyBase: values, exceptions and their classes, actions, requests, and the four judgements the
    proofs are built from: \<open>emits\<close> (every request an action sends), \<open>obeys\<close> (that, with an invariant
    of the manager), \<open>does\<close> (the exact changes and final state) and \<open>reaches\<close> / \<open>ends\<close> (a total or
    partial postcondition). Locale \<open>deleter\<close> is the contract of a delete operation.
  \<^item> Retryers: framework/helpers/retryers.py: conditions, waits, stops, callbacks and \<open>RetryError\<close>.
    The tenacity library is not in the repository: \<open>retry_run\<close> is its documented loop as an inductive
    relation, \<open>tenacity_ok\<close> the hypothesis that a retryer with a stop condition follows it, and
    \<open>simple_retryer\<close> an executable function that satisfies the hypothesis.
  \<^item> GcpApi: framework/infrastructure/gcp/api.py, classes \<open>GcpProjectApiResource\<close> and
    \<open>GcpStandardCloudApiResource\<close> and the three error classes. Locale \<open>std_client\<close> is what the
    clients of a standard API share.
  \<^item> FrameworkErrors: the notes of framework/errors.py.
  \<^item> Compute and BackendHealth: framework/infrastructure/gcp/compute.py, class \<open>ComputeV1\<close>: all
    create, get, list, patch and delete methods, the polling of operations, the waits for network
    endpoint groups and for healthy backends.
  \<^item> NetworkServices, NetworkSecurity: framework/infrastructure/gcp/network_services.py and
    network_security.py: the resources read from responses and the clients with their second
    layer of retries.
  \<^item> Managed: the contract of a managed resource (locales \<open>managed_deletion\<close>, \<open>managed_resource\<close>,
    \<open>managed_field\<close>), interpreted on every delete method of the managers.
  \<^item> TrafficDirector, Cleanup, Setup: framework/infrastructure/traffic_director.py, class
    \<open>TrafficDirectorManager\<close>: its methods, what its cleanup deletes, what its setup creates.
  \<^item> AppNet, SecureManager: classes \<open>TrafficDirectorAppNetManager\<close> and
    \<open>TrafficDirectorSecureManager\<close> of the same file, which extend the record of the base manager as
    the classes extend the class.
  \<^item> Iam: framework/infrastructure/gcp/iam.py: policies, bindings, etags and \<open>IamV1\<close>.
  \<^item> LangSpec: framework/helpers/skips.py: languages, image names, version comparison.
  \<^item> Channelz: framework/rpc/grpc.py and grpc_channelz.py: channels cached per port, calls with a
    deadline, the paged listings (generators are run with the body of their consumer) and sockets.
  \<^item> XdsConfig: framework/rpc/grpc_csds.py: the dump of the xDS configuration and its parser.
  \<^item> ClientApp and ServerApp: framework/test_app/client_app.py and server_app.py: the searches for and
    waits on channels, and the server's end of a connection.
  \<^item> RpcStats: framework/rpc/grpc_testing.py and framework/helpers/grpc.py: requests of statistics,
    the distribution of RPCs, and the values that are printed.
  \<^item> RpcChecks and SecurityChecks: the checks of the classes \<open>XdsKubernetesBaseTestCase\<close> and
    \<open>SecurityXdsKubernetesTestCase\<close> in framework/xds_k8s_testcase.py.
  \<^item> Kube and KubeNamespace: the classes \<open>KubernetesApiManager\<close> and \<open>KubernetesNamespace\<close> of
    framework/infrastructure/k8s.py. Locale \<open>kube_resource\<close> is the contract that the runners rely on
    when they delete a resource; it is interpreted on the resources of the namespace.
  \<^item> PortForward: framework/infrastructure/k8s_internal/k8s_port_forwarder.py.
  \<^item> BaseRunner: framework/test_app/runners/base_runner.py and k8s/k8s_base_runner.py.
  \<^item> AppRunner, ClientRunner, ServerRunner: k8s/k8s_xds_client_runner.py and
    k8s/k8s_xds_server_runner.py. AppRunner holds the fields and steps that the two files repeat (the
    service account with its IAM binding, the pod monitoring, the start of the pods, the port of a
    pod), ClientRunner and ServerRunner extend its record.
  \<^item> GammaRunner: k8s/gamma_server_runner.py, which extends the record of the server runner.
  \<^item> RunnerScope: what the cleanups of the three runners may change (lemmas only).
  \<^item> CleanupScript: bin/cleanup/cleanup.py, over the three managers and the three runners. The flags,
    the configuration of what is kept and the limit of age are fields of \<open>cleanup_env\<close>, a command of
    gcloud is a request of the service \<open>subprocess\<close>, and the errors of a run are its object.

  \<^item> TestCases: the fixtures of framework/xds_k8s_testcase.py (classes \<open>IsolatedXdsKubernetesTestCase\<close>,
    \<open>RegularXdsKubernetesTestCase\<close>, \<open>AppNetXdsKubernetesTestCase\<close>, \<open>SecurityXdsKubernetesTestCase\<close>) and
    of framework/xds_gamma_testcase.py, framework/helpers/rand.py and
    framework/infrastructure/traffic_director_gamma.py. A test is a record with its manager and its
    runners; the classes differ in the manager, the runners and the cleanups they are made with.
  \<^item> UrlMapTests: framework/xds_url_map_test_resources.py (record \<open>url_manager\<close> for
    \<open>GcpResourceManager\<close>, and the URL map put together from the classes) and the tracking, setup
    and teardown of framework/xds_url_map_testcase.py (record \<open>suite\<close> for what the metaclass and the
    classes share). \<open>run_class\<close> and \<open>run_classes\<close> are the order in which the test runner calls them.
  \<^item> UrlMapChecks: the two tests of a class and the checks of framework/xds_url_map_testcase.py.

  What the lemmas show.

  \<^item> Retries: which outcomes are retried, what is raised when the attempts are used up, that a call
    with retries sends its request between one and eleven times, and that transient failures are
    survived.
  \<^item> Clients: a change that returns had its request accepted and its operation reported done; a
    delete of a missing resource is no error; whatever the service answers, a delete changes only
    the resource it names.
  \<^item> Managers: with services in good order the cleanup deletes exactly the resources specified by
    \<open>cleanup_changes\<close>, in that order; with any service, at most resources the manager names; twice
    is once; the setup creates what is specified by \<open>setup_changes\<close>; and the cleanup after a setup
    deletes what the setup created, with the exception (an IPv6 rule in a region) proved too.
  \<^item> Health: the wait returns only if enough backends were reported healthy by answers of this call;
    the loop that drops elements of the set it iterates over costs one attempt per backend.
  \<^item> IAM: policies survive a round trip; granting and revoking a role, as changes of the set of
    grants (\<open>grants\<close> is the abstraction), under conflicts of etags.
  \<^item> Channels: a search returns what the process reported during the call; on a process that follows
    the protocol, the search over the pages is the search over the list of channels, each once.
  \<^item> Configurations: the two formats of a dump read back the same.
  \<^item> Checks: what must have been reported for a check to pass (growth of counters, versions of a
    route, certificates of the two ends of a connection, failed RPCs as often as asked for).
  \<^item> Kubernetes calls: an expired authorization is refreshed before the second attempt; a conflict is
    sent at most four times; a wait that returns has its condition in the last answer.
  \<^item> Runners: with an API server in good order a cleanup deletes exactly the resources of the runner,
    dependents first, and records the run; the pre-stop hooks of the pods are released before the
    deployment goes, whatever the servers answer; a run that returns leaves a runner that reported the
    asked number of replicas, and helpers for pods of its own; every pod is in exactly one of the
    runner's three tables; a second run is refused; a failed port forwarder is closed.
  \<^item> The cleanup script: whatever the services answer, it changes nothing but resources named after an
    old health check that its rules match and that is not kept, and namespaces that are old, not
    protected and named after a client or a server; a dry run changes nothing; a failed cleanup of a
    namespace is counted and the run carries on.
  \<^item> Tests: a teardown removes the resources of Traffic Director, then the client, then the server; it
    tries three times and reports nothing but restarts of pods; tests with different suffixes share no
    namespace and no name of a resource. The teardown of a class of URL-map tests spares what the
    classes share until the last tracked name has finished, and the last one removes it; every class
    has a host of its own in the URL map.
  \<^item> Defects of the code are theorems as well: a URL map that is never forgotten, a leaked IPv6
    rule, a firewall rule forgotten although its deletion failed, handlers that never match, waits
    that accept the first answer, a plain-text check that TLS passes, a server without RPCs that is
    not missed, a pause that is never used, a mesh resource that cannot be reached, a wait for a
    route of the wrong kind, listings that the cleanup script cannot read, counters that go back
    and pass, a skipped class that keeps the shared resources.

  Bounds and parameters. A request is retried \<open>gcp_api_retries\<close> = 10 times, as in the source. The
  paged listings of channelz end when the service says so; their model takes a bound on the number
  of pages and raises \<open>Diverges\<close>, which no handler catches, when it is used up; more steps than
  listed elements are proved to be enough. The port forwarder reads lines until the process has
  said something or ended; \<open>ro_fuel\<close> bounds the number of silent rounds in the same way, and when the
  process is heard in some round, every larger bound is proved to be enough. Other loops of the source are bounded (the search for a
  port by its \<open>attempts\<close>, the loop over a mutated set by the size of the set, which is enough since
  \<open>for_set\<close> ends when the iterator does), and loops of the retry library are the parameter above. \<open>simple_retryer b\<close> lets a
  delay limit expire after \<open>b\<close> attempts and honours attempt limits exactly; it is used by witnesses
  only. Time enters only through the delay limits, which may expire after any attempt.
  Python's integers are \<open>int\<close>; texts are ASCII; the order in which Python iterates over a set is a
  parameter where it can be observed.

  Not modelled: log messages; the discovery and credentials of \<open>GcpApiManager\<close> and the secrets, Cloud
  Run and monitoring clients; the retrieval of call credentials; the making of the Kubernetes
  clients, the rendering of templates, the log collectors (threads that copy streams into files) and
  the links to the logs explorer; the runners of Cloud Run; the check of a steady state, whose bounds
  are floating-point numbers; the signal handler of the test cases, the base class of all tests and
  the test cases for the bootstrap generator, Cloud Run, SPIFFE and session affinity; the scripts under
  bin other than the cleanup script, and its loading of the configuration file; and the flags, which
  the fixtures read once into \<open>test_config\<close>. The ratios of UrlMapChecks are exact: Python
  rounds them.
\<close>

end
